(* ===== verification/Prelude.thy ===== *)
theory Prelude
  imports Main "HOL-Library.Sublist"
begin

text \<open>
  Shared vocabulary of the development: the parts of the TypeScript standard library that the
  modelled front end uses on strings, arrays and optional values, and the lemmas about them.

  A \<open>string\<close> of the model (a list of 8-bit characters) is the UTF-8 encoding of the text the code
  handles.  Equality, concatenation, \<open>startsWith\<close>, \<open>includes\<close>, \<open>split\<close> and \<open>replace\<close> on such
  encodings agree with the same operations on the text; \<open>length\<close>, \<open>slice\<close>, case conversion and
  \<open>trim\<close> agree with JavaScript on ASCII text, which is what the code applies them to.
  \<open>null\<close> and \<open>undefined\<close> are \<open>None\<close> where the code does not tell them apart.
\<close>

named_theorems text_simps \<open>unfolding rules of the text functions\<close>

section \<open>Optional values\<close>

definition coalesce :: "'a option \<Rightarrow> 'a \<Rightarrow> 'a" where
  "coalesce x d = (case x of None \<Rightarrow> d | Some v \<Rightarrow> v)" \<comment> \<open>\<open>x ?? d\<close>\<close>

definition or_else :: "'a option \<Rightarrow> 'a option \<Rightarrow> 'a option" where
  "or_else x y = (case x of None \<Rightarrow> y | Some v \<Rightarrow> Some v)" \<comment> \<open>\<open>x ?? y\<close>, \<open>y\<close> optional too\<close>

definition text_or :: "string \<Rightarrow> string \<Rightarrow> string" where \<comment> \<open>\<open>s || t\<close>\<close>
  "text_or a b = (if a = [] then b else a)"

definition first_of :: "'a list \<Rightarrow> 'a option" where \<comment> \<open>\<open>xs[0] ?? null\<close>\<close>
  "first_of xs = (case xs of [] \<Rightarrow> None | x # _ \<Rightarrow> Some x)"

lemma coalesce_simps [simp]: "coalesce None d = d" "coalesce (Some v) d = v"
  by (simp_all add: coalesce_def)

lemma or_else_simps [simp]: "or_else None y = y" "or_else (Some v) y = Some v"
  by (simp_all add: or_else_def)

lemma or_else_None_iff [simp]: "or_else x y = None \<longleftrightarrow> x = None \<and> y = None"
  by (cases x) simp_all

lemma or_else_SomeE:
  "or_else x y = Some v \<Longrightarrow> x = Some v \<or> (x = None \<and> y = Some v)"
  by (cases x) simp_all

section \<open>Arrays\<close>

primrec uniq :: "'a list \<Rightarrow> 'a list" where \<comment> \<open>\<open>Array.from(new Set(xs))\<close>: first occurrences\<close>
  "uniq [] = []"
| "uniq (x # xs) = x # filter (\<lambda>y. y \<noteq> x) (uniq xs)"

lemma set_uniq [simp]: "set (uniq xs) = set xs"
  by (induction xs) auto

lemma distinct_uniq [simp]: "distinct (uniq xs)"
  by (induction xs) auto

lemma uniq_distinct: "distinct xs \<Longrightarrow> uniq xs = xs"
  by (induction xs) (auto simp: filter_id_conv)

lemma find_Some_mem: "List.find P xs = Some x \<Longrightarrow> x \<in> set xs \<and> P x"
  by (auto simp: find_Some_iff)

lemma find_Some_ex: "x \<in> set xs \<Longrightarrow> P x \<Longrightarrow> \<exists>y. List.find P xs = Some y"
  by (induction xs) auto

lemma find_map_cond:
  "(\<And>x. P (f x) = P x) \<Longrightarrow> List.find P (map f xs) = map_option f (List.find P xs)"
  by (induction xs) auto

section \<open>Characters\<close>

definition is_space :: "char \<Rightarrow> bool" where
  "is_space c \<longleftrightarrow> c \<in> set [CHR '' '', CHR 0x09, CHR 0x0A, CHR 0x0B, CHR 0x0C, CHR 0x0D]"

definition is_digit :: "char \<Rightarrow> bool" where
  "is_digit c \<longleftrightarrow> c \<in> set ''0123456789''"

definition digit_val :: "char \<Rightarrow> nat" where
  "digit_val c = of_char c - 48"

definition nl :: char where "nl = CHR 0x0A"

definition to_lower_char :: "char \<Rightarrow> char" where
  "to_lower_char c = (let n = of_char c :: nat in if 65 \<le> n \<and> n \<le> 90 then char_of (n + 32) else c)"

definition to_upper_char :: "char \<Rightarrow> char" where
  "to_upper_char c = (let n = of_char c :: nat in if 97 \<le> n \<and> n \<le> 122 then char_of (n - 32) else c)"

definition to_lower :: "string \<Rightarrow> string" where
  "to_lower s = map to_lower_char s"

definition to_upper :: "string \<Rightarrow> string" where
  "to_upper s = map to_upper_char s"

section \<open>Trimming\<close>

definition trim_start :: "string \<Rightarrow> string" where
  "trim_start s = dropWhile is_space s"

definition trim_end :: "string \<Rightarrow> string" where
  "trim_end s = rev (dropWhile is_space (rev s))"

definition trim :: "string \<Rightarrow> string" where
  "trim s = trim_end (trim_start s)"

lemma trim_Nil [simp]: "trim [] = []"
  by (simp add: trim_def trim_start_def trim_end_def)

lemma trim_end_id: "s = [] \<or> \<not> is_space (last s) \<Longrightarrow> trim_end s = s"
  by (cases s rule: rev_cases) (auto simp: trim_end_def)

lemma trim_start_id: "s = [] \<or> \<not> is_space (hd s) \<Longrightarrow> trim_start s = s"
  by (cases s) (auto simp: trim_start_def)

lemma trim_id: "s = [] \<or> (\<not> is_space (hd s) \<and> \<not> is_space (last s)) \<Longrightarrow> trim s = s"
  by (metis trim_def trim_start_id trim_end_id)

lemma trim_end_last: "trim_end s \<noteq> [] \<Longrightarrow> \<not> is_space (last (trim_end s))"
  unfolding trim_end_def by (metis hd_dropWhile last_rev rev_is_Nil_conv)

lemma trim_end_hd: "trim_end s \<noteq> [] \<Longrightarrow> hd (trim_end s) = hd s"
proof -
  assume ne: "trim_end s \<noteq> []"
  have "rev s = takeWhile is_space (rev s) @ dropWhile is_space (rev s)" by simp
  then have "s = trim_end s @ rev (takeWhile is_space (rev s))"
    unfolding trim_end_def by (metis rev_append rev_rev_ident)
  with ne show ?thesis by (metis hd_append2)
qed

lemma trim_no_space_ends:
  assumes "trim s \<noteq> []"
  shows "\<not> is_space (hd (trim s)) \<and> \<not> is_space (last (trim s))"
proof -
  from assms have ne: "trim_end (trim_start s) \<noteq> []" by (simp add: trim_def)
  then have "trim_start s \<noteq> []" by (auto simp: trim_end_def)
  then have "\<not> is_space (hd (trim_start s))"
    unfolding trim_start_def by (rule hd_dropWhile)
  with ne show ?thesis by (simp add: trim_def trim_end_hd trim_end_last)
qed

lemma trim_idem [simp]: "trim (trim s) = trim s"
  using trim_no_space_ends [of s] trim_id [of "trim s"] by blast

lemma set_trim: "set (trim s) \<subseteq> set s"
  unfolding trim_def trim_end_def trim_start_def by (auto dest!: set_dropWhileD)

lemma trim_Cons_space: "is_space c \<Longrightarrow> trim (c # s) = trim s"
  by (simp add: trim_def trim_start_def)

section \<open>Searching, splitting and joining\<close>

fun break_on :: "string \<Rightarrow> string \<Rightarrow> (string \<times> string) option" where
  \<comment> \<open>text before and after the first occurrence of a pattern\<close>
  "break_on pat [] = (if pat = [] then Some ([], []) else None)"
| "break_on pat (c # cs) =
     (if prefix pat (c # cs) then Some ([], drop (length pat) (c # cs))
      else map_option (\<lambda>(b, a). (c # b, a)) (break_on pat cs))"

definition str_includes :: "string \<Rightarrow> string \<Rightarrow> bool" where \<comment> \<open>\<open>s.includes(pat)\<close>\<close>
  "str_includes pat s \<longleftrightarrow> break_on pat s \<noteq> None"

lemma break_on_eq: "break_on pat s = Some (b, a) \<Longrightarrow> s = b @ pat @ a"
proof (induction pat s arbitrary: b rule: break_on.induct)
  case (1 pat)
  then show ?case by (simp split: if_splits)
next
  case (2 pat c cs)
  then show ?case by (auto simp: prefix_def split: if_splits)
qed

lemma break_on_length: "pat \<noteq> [] \<Longrightarrow> break_on pat s = Some (b, a) \<Longrightarrow> length a < length s"
  by (drule break_on_eq) (cases pat; simp)

lemma break_on_self: "break_on pat (pat @ a) = Some ([], a)"
proof (cases "pat @ a")
  case (Cons c cs)
  then have "prefix pat (c # cs)" by (metis prefixI)
  then have "break_on pat (c # cs) = Some ([], drop (length pat) (c # cs))" by simp
  then show ?thesis by (simp only: Cons [symmetric]) simp
qed simp

lemma break_on_append:
  "break_on pat x = Some (b, a) \<Longrightarrow> break_on pat (x @ y) = Some (b, a @ y)"
proof (induction pat x arbitrary: b rule: break_on.induct)
  case (1 pat)
  then show ?case by (cases y) (auto split: if_splits)
next
  case (2 pat c cs)
  show ?case
  proof (cases "prefix pat (c # cs)")
    case True
    then obtain r where r: "c # cs = pat @ r" by (auto simp: prefix_def)
    then have "break_on pat ((c # cs) @ y) = Some ([], r @ y)"
      by (simp only: append_assoc break_on_self)
    moreover have "b = []" "a = r"
      using "2.prems" r break_on_self [of pat r] by simp_all
    ultimately show ?thesis by simp
  next
    case False
    with "2.prems" obtain b' where b': "break_on pat cs = Some (b', a)" "b = c # b'"
      by auto
    then have eq: "cs = b' @ pat @ a" by (blast dest: break_on_eq)
    have "\<not> prefix pat ((c # cs) @ y)"
    proof
      assume "prefix pat ((c # cs) @ y)"
      then have "pat = take (length pat) ((c # cs) @ y)" by (simp add: prefix_def) auto
      moreover have "length pat \<le> length (c # cs)" using eq by simp
      ultimately have "pat = take (length pat) (c # cs)"
        by (metis append_Nil2 diff_is_0_eq take0 take_append)
      with False show False by (metis take_is_prefix)
    qed
    with "2.IH" [OF False b'(1)] b'(2) show ?thesis by simp
  qed
qed

lemma break_on_char: "c \<notin> set x \<Longrightarrow> break_on [c] (x @ c # y) = Some (x, y)"
  by (induction x) auto

lemma break_on_char_None: "c \<notin> set x \<Longrightarrow> break_on [c] x = None"
  by (induction x) auto

function split :: "string \<Rightarrow> string \<Rightarrow> string list" where \<comment> \<open>\<open>s.split(sep)\<close>\<close>
  "split sep s =
     (if sep = [] then map (\<lambda>c. [c]) s
      else case break_on sep s of None \<Rightarrow> [s] | Some (b, a) \<Rightarrow> b # split sep a)"
  by pat_completeness auto
termination
  by (relation "measure (\<lambda>(sep, s). length s)") (auto intro: break_on_length)

declare split.simps [simp del]

fun join :: "string \<Rightarrow> string list \<Rightarrow> string" where \<comment> \<open>\<open>xs.join(sep)\<close>\<close>
  "join sep [] = []"
| "join sep [x] = x"
| "join sep (x # y # xs) = x @ sep @ join sep (y # xs)"

lemma split_None: "sep \<noteq> [] \<Longrightarrow> break_on sep s = None \<Longrightarrow> split sep s = [s]"
  by (simp add: split.simps)

lemma split_Some: "sep \<noteq> [] \<Longrightarrow> break_on sep s = Some (b, a) \<Longrightarrow> split sep s = b # split sep a"
  by (simp add: split.simps)

lemma split_nonempty: "sep \<noteq> [] \<Longrightarrow> split sep s \<noteq> []"
  by (cases "break_on sep s") (auto simp: split_None split_Some)

lemma join_Cons: "xs \<noteq> [] \<Longrightarrow> join sep (x # xs) = x @ sep @ join sep xs"
  by (cases xs) simp_all

lemma join_split: "sep \<noteq> [] \<Longrightarrow> join sep (split sep s) = s"
proof (induction "length s" arbitrary: s rule: less_induct)
  case less
  show ?case
  proof (cases "break_on sep s")
    case None
    with less.prems show ?thesis by (simp add: split_None)
  next
    case (Some ba)
    obtain b a where ba: "ba = (b, a)" by force
    with Some less.prems have "length a < length s" by (auto intro: break_on_length)
    then have "join sep (split sep a) = a" using less by blast
    with Some ba less.prems show ?thesis
      by (simp add: split_Some split_nonempty join_Cons break_on_eq [symmetric])
  qed
qed

text \<open>
  Splitting text that arrives in pieces: cutting \<open>x\<close>, keeping its last segment and cutting that
  together with what follows gives the segments of the whole text.
\<close>

lemma split_append:
  "sep \<noteq> [] \<Longrightarrow> split sep (x @ y) = butlast (split sep x) @ split sep (last (split sep x) @ y)"
proof (induction "length x" arbitrary: x rule: less_induct)
  case less
  show ?case
  proof (cases "break_on sep x")
    case None
    with less.prems show ?thesis by (simp add: split_None)
  next
    case (Some ba)
    obtain b a where ba: "ba = (b, a)" by force
    with Some less.prems have "length a < length x" by (auto intro: break_on_length)
    then have "split sep (a @ y) = butlast (split sep a) @ split sep (last (split sep a) @ y)"
      using less by blast
    with Some ba less.prems show ?thesis
      by (simp add: split_Some [OF less.prems break_on_append] split_Some split_nonempty)
  qed
qed

lemma split_char_Cons: "c \<notin> set x \<Longrightarrow> split [c] (x @ c # y) = x # split [c] y"
  by (simp add: split_Some break_on_char)

lemma split_char_single: "c \<notin> set x \<Longrightarrow> split [c] x = [x]"
  by (simp add: split_None break_on_char_None)

fun split_any :: "(char \<Rightarrow> bool) \<Rightarrow> string \<Rightarrow> string list" where \<comment> \<open>\<open>s.split(/[...]/)\<close>\<close>
  "split_any P [] = [[]]"
| "split_any P (c # cs) =
     (if P c then [] # split_any P cs
      else case split_any P cs of [] \<Rightarrow> [[c]] | w # ws \<Rightarrow> (c # w) # ws)"

lemma split_any_nonempty [simp]: "split_any P s \<noteq> []"
  by (induction s) (auto split: list.splits)

lemma split_any_no_sep: "w \<in> set (split_any P s) \<Longrightarrow> c \<in> set w \<Longrightarrow> \<not> P c"
proof (induction s arbitrary: w)
  case (Cons a s)
  show ?case
  proof (cases "P a")
    case True
    with Cons show ?thesis by auto
  next
    case False
    obtain v vs where "split_any P s = v # vs" by (meson neq_Nil_conv split_any_nonempty)
    with False Cons.prems Cons.IH [of v] Cons.IH [of w] show ?thesis by auto
  qed
qed simp

section \<open>Replacement\<close>

text \<open>
  \<open>s.replace(pat, rep)\<close> with string arguments replaces the first occurrence and expands the
  \<open>$$\<close>, \<open>$&\<close>, \<open>$`\<close> and \<open>$'\<close> escapes of the replacement.
\<close>

fun expand_repl :: "string \<Rightarrow> string \<Rightarrow> string \<Rightarrow> string \<Rightarrow> string" where
  "expand_repl m b a [] = []"
| "expand_repl m b a [c] = [c]"
| "expand_repl m b a (c # d # cs) =
     (if c = CHR ''$'' \<and> d = CHR ''$'' then CHR ''$'' # expand_repl m b a cs
      else if c = CHR ''$'' \<and> d = CHR ''&'' then m @ expand_repl m b a cs
      else if c = CHR ''$'' \<and> d = CHR 0x60 then b @ expand_repl m b a cs
      else if c = CHR ''$'' \<and> d = CHR 0x27 then a @ expand_repl m b a cs
      else c # expand_repl m b a (d # cs))"

definition replace_first :: "string \<Rightarrow> string \<Rightarrow> string \<Rightarrow> string" where
  "replace_first pat rep s =
     (case break_on pat s of None \<Rightarrow> s | Some (b, a) \<Rightarrow> b @ expand_repl pat b a rep @ a)"

lemma expand_repl_plain: "CHR ''$'' \<notin> set rep \<Longrightarrow> expand_repl m b a rep = rep"
  by (induction m b a rep rule: expand_repl.induct) auto

section \<open>Decimal numerals\<close>

definition digit_char :: "nat \<Rightarrow> char" where
  "digit_char d = char_of (48 + d)"

function dec_str :: "int \<Rightarrow> string" where \<comment> \<open>digits of a non-negative integer\<close>
  "dec_str n = (if n < 10 then [digit_char (nat n)] else dec_str (n div 10) @ [digit_char (nat (n mod 10))])"
  by pat_completeness auto
termination
  by (relation "measure nat") auto

declare dec_str.simps [simp del]

definition nat_str :: "nat \<Rightarrow> string" where \<comment> \<open>\<open>String(n)\<close> for a natural number\<close>
  "nat_str n = dec_str (int n)"

lemma dec_str_nonempty [simp]: "dec_str n \<noteq> []"
  by (subst dec_str.simps) simp

lemma nat_str_nonempty [simp]: "nat_str n \<noteq> []"
  by (simp add: nat_str_def)

definition int_str :: "int \<Rightarrow> string" where
  "int_str i = (if i < 0 then CHR ''-'' # dec_str (- i) else dec_str i)"

end
