(* ===== verification/Access.thy ===== *)
theory Access
  imports Prelude
begin

text \<open>
  Who may see what: \<open>lib/permissions.ts\<close>, the signed-in user of \<open>lib/api/core.ts\<close>, and the role
  presets of \<open>pages/settings/roleWorkspaceData.ts\<close>.

  The locale \<open>permission_policy\<close> is the contract between the access check and the screens that
  filter by it: a policy grants more, never less, when a user holds more permissions.  It is
  interpreted on the code's own check at the end of the theory, and again on the workspace rule
  of the navigation in theory \<open>Workspaces\<close>.
\<close>

named_theorems access_simps \<open>characterisations of the access checks\<close>

section \<open>Users and requirements\<close>

record auth_user =
  user_id :: string
  user_tenant_id :: string
  email :: string
  full_name :: "string option"
  is_tenant_admin :: bool
  is_super_admin :: bool
  permissions :: "string list"

record permission_requirement =
  required_all :: "string list option"
  required_any :: "string list option"

definition tenant_admin_permission :: string where
  "tenant_admin_permission = ''tenant.admin''"

section \<open>The check\<close>

definition no_requirement :: "string list option \<Rightarrow> bool" where \<comment> \<open>\<open>!required?.length\<close>\<close>
  "no_requirement r \<longleftrightarrow> (case r of None \<Rightarrow> True | Some ps \<Rightarrow> ps = [])"

definition can_access ::
  "auth_user option \<Rightarrow> string list option \<Rightarrow> string list option \<Rightarrow> bool" where
  "can_access user any all =
     (if no_requirement any \<and> no_requirement all then True
      else case user of
        None \<Rightarrow> False
      | Some u \<Rightarrow>
          if is_tenant_admin u \<or> List.member (permissions u) tenant_admin_permission then True
          else
            (let has_all = (case all of
                   None \<Rightarrow> True
                 | Some ps \<Rightarrow> list_all (\<lambda>p. List.member (permissions u) p) ps);
                 has_any = (if no_requirement any then True
                   else list_ex (\<lambda>p. List.member (permissions u) p) (coalesce any []))
             in has_all \<and> has_any))"

definition can_access_requirement :: "auth_user option \<Rightarrow> permission_requirement option \<Rightarrow> bool" where
  "can_access_requirement user r =
     can_access user (Option.bind r required_any) (Option.bind r required_all)"

definition filter_by_permission ::
  "('i \<Rightarrow> permission_requirement) \<Rightarrow> 'i list \<Rightarrow> auth_user option \<Rightarrow> 'i list" where
  "filter_by_permission req items user =
     filter (\<lambda>i. can_access_requirement user (Some (req i))) items"

section \<open>The policy as sets of permissions\<close>

text \<open>
  The abstract statement the check implements: an administrator is always let in, a user needs
  all of one set and one of the other, and the empty set asks for nothing.
\<close>

definition wanted :: "string list option \<Rightarrow> string set" where
  "wanted r = set (coalesce r [])"

definition is_admin :: "auth_user \<Rightarrow> bool" where
  "is_admin u \<longleftrightarrow> is_tenant_admin u \<or> tenant_admin_permission \<in> set (permissions u)"

definition granted :: "auth_user option \<Rightarrow> string set \<Rightarrow> string set \<Rightarrow> bool" where
  "granted user any all \<longleftrightarrow>
     any = {} \<and> all = {} \<or>
     (\<exists>u. user = Some u \<and>
        (is_admin u \<or>
         all \<subseteq> set (permissions u) \<and> (any = {} \<or> any \<inter> set (permissions u) \<noteq> {})))"

lemma no_requirement_iff [simp]: "no_requirement r \<longleftrightarrow> wanted r = {}"
  by (auto simp: no_requirement_def wanted_def split: option.split)

lemma can_access_granted [access_simps]:
  "can_access user any all \<longleftrightarrow> granted user (wanted any) (wanted all)"
  unfolding can_access_def granted_def is_admin_def
  by (auto simp: wanted_def list_all_iff list_ex_iff coalesce_def split: option.splits)

text \<open>Holding more permissions.\<close>

definition outranks :: "auth_user option \<Rightarrow> auth_user option \<Rightarrow> bool" where
  "outranks v u \<longleftrightarrow>
     (case u of None \<Rightarrow> True
      | Some u' \<Rightarrow> (case v of None \<Rightarrow> False
          | Some v' \<Rightarrow> (is_tenant_admin u' \<longrightarrow> is_tenant_admin v') \<and>
                        set (permissions u') \<subseteq> set (permissions v')))"

lemma outranks_refl [simp]: "outranks u u"
  by (simp add: outranks_def split: option.split)

lemma granted_mono: "outranks v u \<Longrightarrow> granted u any all \<Longrightarrow> granted v any all"
  unfolding granted_def outranks_def is_admin_def by (auto split: option.splits)

lemma granted_weaken:
  "granted u any all \<Longrightarrow> all' \<subseteq> all \<Longrightarrow> any' = {} \<or> any \<noteq> {} \<and> any \<subseteq> any' \<Longrightarrow> granted u any' all'"
  unfolding granted_def by blast

section \<open>The contract of a policy\<close>

locale permission_policy =
  fixes allows :: "auth_user option \<Rightarrow> 'item \<Rightarrow> bool"
  assumes monotone: "outranks v u \<Longrightarrow> allows u i \<Longrightarrow> allows v i"
    and admin: "is_admin a \<Longrightarrow> allows (Some a) i"
begin

definition listed :: "'item list \<Rightarrow> auth_user option \<Rightarrow> 'item list" where
  "listed items user = filter (allows user) items"

lemma listed_admin: "is_admin a \<Longrightarrow> listed items (Some a) = items"
  by (simp add: listed_def admin)

lemma listed_mono: "outranks v u \<Longrightarrow> set (listed items u) \<subseteq> set (listed items v)"
  by (auto simp: listed_def intro: monotone)

lemma listed_sublist: "outranks v u \<Longrightarrow> subseq (listed items u) (listed items v)"
proof (induction items)
  case (Cons i items)
  then show ?case using monotone [of v u i] by (auto simp: listed_def)
qed (simp add: listed_def)

end

interpretation requirement_policy: permission_policy can_access_requirement
proof
  show "outranks v u \<Longrightarrow> can_access_requirement u i \<Longrightarrow> can_access_requirement v i" for u v i
    unfolding can_access_requirement_def access_simps by (rule granted_mono)
next
  show "is_admin a \<Longrightarrow> can_access_requirement (Some a) i" for a i
    unfolding can_access_requirement_def access_simps by (simp add: granted_def)
qed

lemma filter_by_permission_admin: "is_admin a \<Longrightarrow> filter_by_permission req items (Some a) = items"
  by (simp add: filter_by_permission_def requirement_policy.admin)

section \<open>Role presets\<close>

record role_preset =
  preset_key :: string
  preset_permissions :: "string list"
  preset_scope_key :: string
  preset_title_key :: string

definition role_presets :: "role_preset list" where
  "role_presets =
    [\<lparr>preset_key = ''enterprise_admin'', preset_permissions = [''tenant.admin''],
       preset_scope_key = ''settingsRoleScopeTenant'', preset_title_key = ''settingsRoleEnterpriseAdmin''\<rparr>,
     \<lparr>preset_key = ''implementation_operator'',
       preset_permissions = [''users:read'', ''departments:read'', ''agents:read'', ''chat:read'',
         ''channels:read'', ''channels:write'', ''license:read'', ''audit:read'', ''system:diagnostics''],
       preset_scope_key = ''settingsRoleScopeTenant'', preset_title_key = ''settingsRoleOps''\<rparr>,
     \<lparr>preset_key = ''model_admin'',
       preset_permissions = [''models:read'', ''models:write'', ''budgets:read'', ''audit:read''],
       preset_scope_key = ''settingsRoleScopeTenant'', preset_title_key = ''settingsRoleModelAdmin''\<rparr>,
     \<lparr>preset_key = ''agent_admin'',
       preset_permissions = [''agents:read'', ''agents:write'', ''chat:read'', ''chat:write'',
         ''knowledge:read'', ''knowledge:write'', ''channels:read''],
       preset_scope_key = ''settingsRoleScopeDepartment'', preset_title_key = ''settingsRoleAgentAdmin''\<rparr>,
     \<lparr>preset_key = ''department_leader'',
       preset_permissions = [''users:read'', ''departments:read'', ''agents:read'', ''chat:read'',
         ''knowledge:read'', ''budgets:read'', ''analytics:read''],
       preset_scope_key = ''settingsRoleScopeDepartment'',
       preset_title_key = ''settingsRoleDepartmentLeader''\<rparr>,
     \<lparr>preset_key = ''employee'',
       preset_permissions = [''agents:read'', ''chat:read'', ''chat:write'', ''knowledge:read''],
       preset_scope_key = ''settingsRoleScopeSelf'', preset_title_key = ''settingsRoleEmployee''\<rparr>,
     \<lparr>preset_key = ''audit_finance'',
       preset_permissions = [''budgets:read'', ''budgets:export'', ''audit:read'', ''audit:export'',
         ''analytics:read''],
       preset_scope_key = ''settingsRoleScopeTenant'', preset_title_key = ''settingsRoleAuditFinance''\<rparr>]"

definition governance_permissions :: "string list" where
  "governance_permissions =
    [''tenant.admin'', ''users:read'', ''users:write'', ''departments:read'', ''departments:write'',
     ''agents:read'', ''agents:write'', ''chat:read'', ''chat:write'', ''knowledge:read'',
     ''knowledge:write'', ''channels:read'', ''channels:write'', ''models:read'', ''models:write'',
     ''budgets:read'', ''budgets:write'', ''budgets:export'', ''analytics:read'', ''audit:read'',
     ''audit:export'', ''license:read'', ''license:write'', ''system:diagnostics'']"

definition infer_role_label :: "string list \<Rightarrow> string" where
  \<comment> \<open>the message key whose translation \<open>inferRoleLabel\<close> returns\<close>
  "infer_role_label ps =
     (let has = (\<lambda>p. List.member ps p) in
      if has ''models:write'' then ''settingsRoleModelAdmin''
      else if has ''agents:write'' then ''settingsRoleAgentAdmin''
      else if has ''system:diagnostics'' then ''settingsRoleOps''
      else if has ''audit:export'' \<or> has ''budgets:export'' then ''settingsRoleAuditFinance''
      else if has ''analytics:read'' \<and> has ''budgets:read'' \<and> has ''users:read'' \<and> has ''departments:read''
        then ''settingsRoleDepartmentLeader''
      else if has ''chat:write'' \<or> has ''agents:read'' \<or> has ''knowledge:read'' then ''settingsRoleEmployee''
      else ''settingsRoleRestricted'')"

definition preset_user :: "role_preset \<Rightarrow> auth_user" where
  \<comment> \<open>a user who holds exactly the permissions of a preset\<close>
  "preset_user r = \<lparr>user_id = ''u'', user_tenant_id = ''t'', email = ''u@t'', full_name = None,
     is_tenant_admin = False, is_super_admin = False, permissions = preset_permissions r\<rparr>"

section \<open>Properties\<close>

text \<open>
  C1: The access check of \<open>lib/permissions.ts\<close> implements the policy stated on sets: nobody needs
  anything when nothing is required, an unknown user is refused everything else, an administrator
  (by flag or by the \<open>tenant.admin\<close> permission) is let in, and every other user needs all of the
  \<open>all\<close> list and one of the \<open>any\<close> list.  An absent list and an empty one ask for nothing.
\<close>

theorem can_access_implements_policy:
  "can_access user any all \<longleftrightarrow> granted user (wanted any) (wanted all)"
  by (rule can_access_granted)

text \<open>
  Giving a user more permissions never hides an item: what \<open>filterByPermission\<close> lists for the
  weaker user is a subsequence (same items, same order) of what it lists for the stronger one.
\<close>

lemma filter_by_permission_monotone:
  assumes "outranks v u"
  shows "subseq (filter_by_permission req items u) (filter_by_permission req items v)"
  using assms unfolding filter_by_permission_def
  by (induction items) (auto intro: requirement_policy.monotone)

definition read_only_user :: auth_user where
  "read_only_user = \<lparr>user_id = ''u1'', user_tenant_id = ''t1'', email = ''a@b'', full_name = None,
     is_tenant_admin = False, is_super_admin = False, permissions = [''audit:read'']\<rparr>"

text \<open>
  The role label inferred from the permissions of a preset is the preset's own title, for every
  preset but one: a user who holds exactly the enterprise administrator's permissions, and whom the
  access check therefore lets in everywhere, is labelled as restricted.
\<close>

lemma preset_labels:
  "map preset_key (filter (\<lambda>r. infer_role_label (preset_permissions r) \<noteq> preset_title_key r) role_presets)
     = [''enterprise_admin'']
   \<and> infer_role_label (preset_permissions (hd role_presets)) = ''settingsRoleRestricted''
   \<and> can_access (Some (preset_user (hd role_presets))) any all"
proof (intro conjI)
  show "can_access (Some (preset_user (hd role_presets))) any all"
    by (simp add: can_access_granted granted_def is_admin_def preset_user_def role_presets_def
        tenant_admin_permission_def)
qed code_simp+

end
