(* ===== verification/Workspaces.thy ===== *)
theory Workspaces
  imports Access
begin

text \<open>
  The pages of the application and the two workspaces that group them: \<open>PageId\<close>, \<open>WorkspaceId\<close>,
  \<open>NavItem\<close> and the navigation table of \<open>data.ts\<close>, and the rules of \<open>lib/workspaces.ts\<close> that decide
  which workspaces a user has, which page each opens on, and where a request for a page leads.

  Every rule takes the visibility of an item in a workspace as a parameter, as in the code; the
  locale \<open>workspace_view\<close> proves what they promise for any visibility, and is interpreted on both
  the code uses: the default one and the one of the signed-in user.
\<close>

section \<open>Pages, workspaces and the navigation table\<close>

datatype page =
  DigitalEmployees | Overview | Agents | AgentModules | Builder | KnowledgeBases
| MediaGeneration | ChatConsole | Channels | Models | Budgets | Departments | Users
| AuditLogs | License | Settings

datatype workspace = UserWs | AdminWs

record nav_item =
  nav_id :: page
  nav_all :: "string list option"
  nav_any :: "string list option"
  nav_ws_all :: "workspace \<Rightarrow> string list option"
  nav_ws_any :: "workspace \<Rightarrow> string list option"
  nav_workspaces :: "workspace list"

abbreviation "no_ws \<equiv> (\<lambda>_::workspace. None :: string list option)"

definition nav_items :: "nav_item list" where
  "nav_items =
    [\<lparr>nav_id = DigitalEmployees, nav_all = None, nav_any = Some [''agents:read'', ''chat:read'', ''chat:write''],
       nav_ws_all = no_ws, nav_ws_any = no_ws, nav_workspaces = [UserWs]\<rparr>,
     \<lparr>nav_id = ChatConsole, nav_all = None, nav_any = Some [''audit:read'', ''system:diagnostics''],
       nav_ws_all = no_ws(AdminWs := Some [''audit:read'']),
       nav_ws_any = no_ws(AdminWs := Some [''agents:write'']), nav_workspaces = [AdminWs]\<rparr>,
     \<lparr>nav_id = MediaGeneration, nav_all = None,
       nav_any = Some [''agents:read'', ''chat:write'', ''agents:write''],
       nav_ws_all = no_ws(UserWs := Some [''agents:read'', ''chat:write'']),
       nav_ws_any = no_ws(AdminWs := Some [''agents:write'']), nav_workspaces = [UserWs, AdminWs]\<rparr>,
     \<lparr>nav_id = KnowledgeBases, nav_all = None, nav_any = Some [''knowledge:read'', ''knowledge:write''],
       nav_ws_all = no_ws,
       nav_ws_any = no_ws(UserWs := Some [''knowledge:read'', ''knowledge:write''],
                          AdminWs := Some [''knowledge:write'']),
       nav_workspaces = [UserWs, AdminWs]\<rparr>,
     \<lparr>nav_id = Overview, nav_all = None, nav_any = Some [''analytics:read''], nav_ws_all = no_ws,
       nav_ws_any = no_ws(AdminWs := Some [''analytics:read'']), nav_workspaces = [AdminWs]\<rparr>,
     \<lparr>nav_id = Agents, nav_all = None, nav_any = Some [''agents:write''],
       nav_ws_all = no_ws, nav_ws_any = no_ws, nav_workspaces = [AdminWs]\<rparr>,
     \<lparr>nav_id = AgentModules, nav_all = None, nav_any = Some [''agents:write''],
       nav_ws_all = no_ws, nav_ws_any = no_ws, nav_workspaces = [AdminWs]\<rparr>,
     \<lparr>nav_id = Channels, nav_all = None, nav_any = Some [''channels:read'', ''channels:write''],
       nav_ws_all = no_ws, nav_ws_any = no_ws, nav_workspaces = [AdminWs]\<rparr>,
     \<lparr>nav_id = Models, nav_all = None, nav_any = Some [''models:read'', ''models:write''],
       nav_ws_all = no_ws, nav_ws_any = no_ws(AdminWs := Some [''models:write'']),
       nav_workspaces = [AdminWs]\<rparr>,
     \<lparr>nav_id = Budgets, nav_all = None, nav_any = Some [''budgets:read'', ''budgets:write''],
       nav_ws_all = no_ws, nav_ws_any = no_ws, nav_workspaces = [AdminWs]\<rparr>,
     \<lparr>nav_id = AuditLogs, nav_all = None, nav_any = Some [''audit:read''],
       nav_ws_all = no_ws, nav_ws_any = no_ws, nav_workspaces = [AdminWs]\<rparr>,
     \<lparr>nav_id = Users, nav_all = None, nav_any = Some [''users:read''],
       nav_ws_all = no_ws, nav_ws_any = no_ws, nav_workspaces = [AdminWs]\<rparr>,
     \<lparr>nav_id = Departments, nav_all = Some [''users:read'', ''departments:read''], nav_any = None,
       nav_ws_all = no_ws, nav_ws_any = no_ws(AdminWs := Some [''users:write'', ''departments:write'']),
       nav_workspaces = [AdminWs]\<rparr>,
     \<lparr>nav_id = License, nav_all = None, nav_any = Some [''license:read'', ''license:write''],
       nav_ws_all = no_ws, nav_ws_any = no_ws, nav_workspaces = [AdminWs]\<rparr>,
     \<lparr>nav_id = Settings, nav_all = None, nav_any = Some [''system:diagnostics''],
       nav_ws_all = no_ws, nav_ws_any = no_ws, nav_workspaces = [AdminWs]\<rparr>]"

definition nav_requirement :: "nav_item \<Rightarrow> permission_requirement" where
  "nav_requirement i = \<lparr>required_all = nav_all i, required_any = nav_any i\<rparr>"

section \<open>Workspace profiles\<close>

record workspace_profile =
  ws_id :: workspace
  ws_label_key :: string
  ws_description_key :: string
  ws_landing :: page

definition workspace_profiles :: "workspace_profile list" where
  "workspace_profiles =
    [\<lparr>ws_id = UserWs, ws_label_key = ''workspaceUser'', ws_description_key = ''workspaceUserDescription'',
       ws_landing = DigitalEmployees\<rparr>,
     \<lparr>ws_id = AdminWs, ws_label_key = ''workspaceAdmin'', ws_description_key = ''workspaceAdminDescription'',
       ws_landing = Overview\<rparr>]"

definition workspace_order :: "workspace list" where
  "workspace_order = map ws_id workspace_profiles"

definition workspace_landing_order :: "workspace list" where
  "workspace_landing_order = [UserWs, AdminWs]"

definition find_profile :: "workspace \<Rightarrow> workspace_profile" where \<comment> \<open>\<open>workspaceProfile\<close>\<close>
  "find_profile w = coalesce (List.find (\<lambda>p. ws_id p = w) workspace_profiles) (workspace_profiles ! 0)"

lemma workspace_order_simp [simp]: "workspace_order = [UserWs, AdminWs]"
  by (simp add: workspace_order_def workspace_profiles_def)

lemma every_workspace_listed [simp]: "w \<in> set workspace_order"
  by (cases w) simp_all

lemma find_profile_id [simp]: "ws_id (find_profile w) = w"
  by (cases w) (simp_all add: find_profile_def workspace_profiles_def)

section \<open>The stored preference\<close>

definition workspace_from_string :: "string option \<Rightarrow> workspace option" where
  "workspace_from_string v =
     (if v = Some ''user'' then Some UserWs else if v = Some ''admin'' then Some AdminWs else None)"

definition workspace_string :: "workspace \<Rightarrow> string" where
  "workspace_string w = (case w of UserWs \<Rightarrow> ''user'' | AdminWs \<Rightarrow> ''admin'')"

definition workspace_storage_key :: string where
  "workspace_storage_key = ''agenthive.active_workspace''"

text \<open>
  \<open>localStorage\<close> as the code sees it: a map from keys to strings, or \<open>None\<close> where the browser
  refuses access and every call throws.
\<close>

type_synonym local_storage = "(string \<Rightarrow> string option) option"

definition stored_workspace_preference :: "local_storage \<Rightarrow> workspace option" where
  "stored_workspace_preference ls =
     (case ls of None \<Rightarrow> None | Some m \<Rightarrow> workspace_from_string (m workspace_storage_key))"

definition save_workspace_preference :: "workspace \<Rightarrow> local_storage \<Rightarrow> local_storage" where
  "save_workspace_preference w ls =
     map_option (\<lambda>m. m(workspace_storage_key \<mapsto> workspace_string w)) ls"

lemma workspace_from_to_string [simp]: "workspace_from_string (Some (workspace_string w)) = Some w"
  by (cases w) (simp_all add: workspace_from_string_def workspace_string_def)

lemma stored_after_save:
  "stored_workspace_preference (save_workspace_preference w ls) = (if ls = None then None else Some w)"
  by (cases ls) (simp_all add: stored_workspace_preference_def save_workspace_preference_def)

section \<open>Visibility\<close>

type_synonym visibility = "nav_item \<Rightarrow> workspace \<Rightarrow> bool"

definition item_visible :: "visibility option \<Rightarrow> nav_item \<Rightarrow> workspace \<Rightarrow> bool" where
  "item_visible vis i w = (case vis of None \<Rightarrow> List.member (nav_workspaces i) w | Some v \<Rightarrow> v i w)"

definition nav_item_visible :: "nav_item \<Rightarrow> workspace \<Rightarrow> auth_user option \<Rightarrow> bool \<Rightarrow> bool" where
  \<comment> \<open>\<open>navItemVisibleInWorkspace\<close>\<close>
  "nav_item_visible i w user proto =
     (if \<not> List.member (nav_workspaces i) w then False
      else if proto then True
      else if no_requirement (nav_ws_all i w) \<and> no_requirement (nav_ws_any i w) then True
      else can_access user (nav_ws_any i w) (nav_ws_all i w))"

section \<open>Choosing workspaces and pages\<close>

definition accessible_workspaces :: "nav_item list \<Rightarrow> visibility option \<Rightarrow> workspace list" where
  "accessible_workspaces items vis =
     filter (\<lambda>w. list_ex (\<lambda>i. item_visible vis i w) items) workspace_order"

definition preferred_workspace ::
  "local_storage \<Rightarrow> nav_item list \<Rightarrow> visibility option \<Rightarrow> workspace option" where
  "preferred_workspace ls items vis =
     (let acc = accessible_workspaces items vis;
          fallback = or_else (List.find (\<lambda>w. List.member acc w) workspace_landing_order)
                       (case acc of [] \<Rightarrow> None | w # _ \<Rightarrow> Some w)
      in case stored_workspace_preference ls of
           None \<Rightarrow> fallback
         | Some w \<Rightarrow> if List.member acc w then Some w else fallback)"

definition find_nav :: "nav_item list \<Rightarrow> page \<Rightarrow> nav_item option" where
  "find_nav items p = List.find (\<lambda>i. nav_id i = p) items"

definition workspace_for_page ::
  "nav_item list \<Rightarrow> page \<Rightarrow> workspace \<Rightarrow> visibility option \<Rightarrow> workspace" where
  "workspace_for_page items p cur vis =
     (case find_nav items p of
        None \<Rightarrow> cur
      | Some target \<Rightarrow>
          if item_visible vis target cur then cur
          else coalesce
                 (or_else (List.find (\<lambda>w. item_visible vis target w) workspace_landing_order)
                          (List.find (\<lambda>w. item_visible vis target w) workspace_order))
                 cur)"

definition first_visible_page :: "nav_item list \<Rightarrow> workspace \<Rightarrow> visibility option \<Rightarrow> page" where
  "first_visible_page items w vis =
     (let profile = find_profile w;
          preferred = List.find (\<lambda>i. nav_id i = ws_landing profile \<and> item_visible vis i w) items
      in coalesce
           (or_else (map_option nav_id preferred)
                    (map_option nav_id (List.find (\<lambda>i. item_visible vis i w) items)))
           (ws_landing profile))"

definition chat_console_visible :: "nav_item list \<Rightarrow> visibility \<Rightarrow> bool" where
  "chat_console_visible items vis =
     (case find_nav items ChatConsole of
        None \<Rightarrow> False
      | Some i \<Rightarrow> list_ex (\<lambda>w. vis i w) workspace_order)"

definition employee_chat_visible :: "nav_item list \<Rightarrow> visibility \<Rightarrow> bool" where
  "employee_chat_visible items vis =
     (case find_nav items DigitalEmployees of None \<Rightarrow> False | Some i \<Rightarrow> vis i UserWs)"

definition resolve_chat_page :: "page \<Rightarrow> nav_item list \<Rightarrow> visibility \<Rightarrow> page" where
  "resolve_chat_page p items vis =
     (if p \<noteq> ChatConsole then p
      else if chat_console_visible items vis then p
      else if employee_chat_visible items vis then DigitalEmployees
      else p)"

section \<open>Page labels\<close>

definition page_key :: "page \<Rightarrow> string" where
  "page_key p = (case p of
       DigitalEmployees \<Rightarrow> ''digitalEmployees'' | Overview \<Rightarrow> ''overview'' | Agents \<Rightarrow> ''agents''
     | AgentModules \<Rightarrow> ''agentModules'' | Builder \<Rightarrow> ''builder'' | KnowledgeBases \<Rightarrow> ''knowledgeBases''
     | MediaGeneration \<Rightarrow> ''mediaGeneration'' | ChatConsole \<Rightarrow> ''chatConsole'' | Channels \<Rightarrow> ''channels''
     | Models \<Rightarrow> ''models'' | Budgets \<Rightarrow> ''budgets'' | Departments \<Rightarrow> ''departments'' | Users \<Rightarrow> ''users''
     | AuditLogs \<Rightarrow> ''auditLogs'' | License \<Rightarrow> ''license'' | Settings \<Rightarrow> ''settings'')"

definition workspace_page_label :: "page \<Rightarrow> workspace \<Rightarrow> string" where
  "workspace_page_label p w =
     (if w = UserWs \<and> p = KnowledgeBases then ''knowledgeBasesUser''
      else if w = UserWs \<and> p = MediaGeneration then ''mediaGenerationUser''
      else if w = AdminWs \<and> p \<in> set [AgentModules, Agents, AuditLogs, Budgets, Channels, ChatConsole,
             Departments, KnowledgeBases, MediaGeneration, Models, Overview]
        then page_key p @ ''Admin''
      else page_key p)"

section \<open>What the rules promise, for any visibility\<close>

lemma nav_id_find_nav: "find_nav items p = Some i \<Longrightarrow> nav_id i = p \<and> i \<in> set items"
  unfolding find_nav_def by (auto dest: find_Some_mem)

locale workspace_view =
  fixes vis :: "visibility option"
  assumes home: "item_visible vis i w \<Longrightarrow> List.member (nav_workspaces i) w"
begin

lemma accessible_iff:
  "w \<in> set (accessible_workspaces items vis) \<longleftrightarrow> (\<exists>i\<in>set items. item_visible vis i w)"
  by (auto simp: accessible_workspaces_def list_ex_iff simp del: workspace_order_simp)

lemma preferred_accessible:
  "preferred_workspace ls items vis = Some w \<Longrightarrow> w \<in> set (accessible_workspaces items vis)"
  unfolding preferred_workspace_def
  by (auto simp: Let_def split: option.splits if_splits list.splits
      dest!: or_else_SomeE find_Some_mem)

lemma preferred_None_iff:
  "preferred_workspace ls items vis = None \<longleftrightarrow> accessible_workspaces items vis = []"
  unfolding preferred_workspace_def
  by (auto simp: Let_def workspace_landing_order_def split: option.splits if_splits list.splits)

lemma preferred_stored:
  "stored_workspace_preference ls = Some w \<Longrightarrow> w \<in> set (accessible_workspaces items vis) \<Longrightarrow>
   preferred_workspace ls items vis = Some w"
  by (simp add: preferred_workspace_def)

lemma first_visible_page_visible:
  assumes "w \<in> set (accessible_workspaces items vis)"
  shows "\<exists>i\<in>set items. nav_id i = first_visible_page items w vis \<and> item_visible vis i w"
proof -
  from assms obtain j where j: "j \<in> set items" "item_visible vis j w"
    by (auto simp: accessible_iff)
  then obtain k where k: "List.find (\<lambda>i. item_visible vis i w) items = Some k"
    using find_Some_ex [of j items "\<lambda>i. item_visible vis i w"] by blast
  show ?thesis
  proof (cases "List.find (\<lambda>i. nav_id i = ws_landing (find_profile w) \<and> item_visible vis i w) items")
    case None
    with k show ?thesis
      by (auto simp: first_visible_page_def Let_def dest: find_Some_mem intro!: bexI [of _ k])
  next
    case (Some l)
    then show ?thesis
      by (auto simp: first_visible_page_def Let_def dest: find_Some_mem intro!: bexI [of _ l])
  qed
qed

lemma workspace_for_page_visible:
  assumes "find_nav items p = Some i" and "\<exists>w. item_visible vis i w"
  shows "item_visible vis i (workspace_for_page items p cur vis)"
proof -
  from assms(2) obtain w where "item_visible vis i w" by blast
  then obtain v where v: "List.find (\<lambda>w. item_visible vis i w) workspace_landing_order = Some v"
    using find_Some_ex [of w workspace_landing_order "item_visible vis i"]
    by (cases w) (auto simp: workspace_landing_order_def)
  then have "item_visible vis i v" by (auto dest: find_Some_mem)
  with assms(1) v show ?thesis by (simp add: workspace_for_page_def)
qed

lemma workspace_for_page_home:
  assumes "find_nav items p = Some i" and "\<exists>w. item_visible vis i w"
  shows "workspace_for_page items p cur vis \<in> set (nav_workspaces i)"
  using workspace_for_page_visible [OF assms] home by fastforce

lemma workspace_for_page_stays:
  "find_nav items p = Some i \<Longrightarrow> item_visible vis i cur \<Longrightarrow> workspace_for_page items p cur vis = cur"
  by (simp add: workspace_for_page_def)

end

interpretation default_view: workspace_view None
  by unfold_locales (simp add: item_visible_def)

interpretation user_view: workspace_view "Some (\<lambda>i w. nav_item_visible i w user proto)"
  for user :: "auth_user option" and proto :: bool
  by unfold_locales (auto simp: item_visible_def nav_item_visible_def split: if_splits)

text \<open>The workspace rule is a policy too, outside prototype mode, on the items of a workspace.\<close>

typedef ws_item = "{(i :: nav_item, w). w \<in> set (nav_workspaces i)}"
  by (intro exI [of _ "(hd nav_items, UserWs)"]) (simp add: nav_items_def)

definition ws_item_visible :: "auth_user option \<Rightarrow> ws_item \<Rightarrow> bool" where
  "ws_item_visible user x = (case Rep_ws_item x of (i, w) \<Rightarrow> nav_item_visible i w user False)"

lemma nav_item_visible_granted [access_simps]:
  "nav_item_visible i w user False \<longleftrightarrow>
     w \<in> set (nav_workspaces i) \<and> granted user (wanted (nav_ws_any i w)) (wanted (nav_ws_all i w))"
  unfolding nav_item_visible_def access_simps by (auto simp: granted_def)

interpretation workspace_policy: permission_policy ws_item_visible
proof
  show "outranks v u \<Longrightarrow> ws_item_visible u i \<Longrightarrow> ws_item_visible v i" for u v i
    by (auto simp: ws_item_visible_def access_simps intro: granted_mono split: prod.splits)
next
  show "is_admin a \<Longrightarrow> ws_item_visible (Some a) i" for a i
    using Rep_ws_item [of i]
    by (auto simp: ws_item_visible_def access_simps granted_def split: prod.splits)
qed

lemma nav_item_visible_mono:
  assumes "outranks v u" and "nav_item_visible i w u proto"
  shows "nav_item_visible i w v proto"
proof (cases proto)
  case True
  with assms(2) show ?thesis by (auto simp: nav_item_visible_def split: if_splits)
next
  case False
  with assms(2) have "w \<in> set (nav_workspaces i)" by (simp add: access_simps)
  then have "Rep_ws_item (Abs_ws_item (i, w)) = (i, w)" by (simp add: Abs_ws_item_inverse)
  with workspace_policy.monotone [OF assms(1), of "Abs_ws_item (i, w)"] assms(2) False
  show ?thesis by (simp add: ws_item_visible_def)
qed

section \<open>Properties\<close>

text \<open>
  C2: The workspace the application opens is always one the user can use: it is one of the
  accessible workspaces (those with at least one visible page), it is the stored preference
  whenever that one is accessible, and none is chosen exactly when the user has no visible page.
\<close>

theorem preferred_workspace_spec:
  "case preferred_workspace ls items (Some (\<lambda>i w. nav_item_visible i w user proto)) of
     None \<Rightarrow> \<not> (\<exists>i\<in>set items. \<exists>w. nav_item_visible i w user proto)
   | Some w \<Rightarrow> (\<exists>i\<in>set items. nav_item_visible i w user proto) \<and>
       (stored_workspace_preference ls = Some w \<or>
        \<not> (\<exists>v. stored_workspace_preference ls = Some v \<and>
               (\<exists>i\<in>set items. nav_item_visible i v user proto)))"
proof (cases "preferred_workspace ls items (Some (\<lambda>i w. nav_item_visible i w user proto))")
  case None
  then have "accessible_workspaces items (Some (\<lambda>i w. nav_item_visible i w user proto)) = []"
    by (simp add: user_view.preferred_None_iff)
  with user_view.accessible_iff [of _ items user proto] None show ?thesis
    by (auto simp: item_visible_def)
next
  case (Some w)
  then show ?thesis
    using user_view.preferred_accessible [OF Some] user_view.accessible_iff [of _ items user proto]
      user_view.preferred_stored [of ls _ items user proto]
    by (auto simp: item_visible_def)
qed

lemma preferred_workspace_spec_witness:
  "preferred_workspace None nav_items (Some (\<lambda>i w. nav_item_visible i w None True)) = Some UserWs
   \<and> (\<exists>i\<in>set nav_items. nav_item_visible i UserWs None True)"
proof -
  have pw: "preferred_workspace None nav_items (Some (\<lambda>i w. nav_item_visible i w None True)) = Some UserWs"
    by (simp add: preferred_workspace_def accessible_workspaces_def nav_items_def item_visible_def
        nav_item_visible_def workspace_landing_order_def stored_workspace_preference_def)
  with preferred_workspace_spec [where ls = None and items = nav_items and user = None and proto = True] show ?thesis by simp
qed

text \<open>
  A page request leads somewhere the page can be shown: if the requested page is in the
  navigation and visible in some workspace, then \<open>workspaceForPage\<close> answers a workspace in which
  it is visible, and stays in the current workspace whenever that one will do.
\<close>

theorem workspace_for_page_spec:
  assumes "find_nav items p = Some i" and "nav_item_visible i w user proto"
  shows "nav_item_visible i
           (workspace_for_page items p cur (Some (\<lambda>i w. nav_item_visible i w user proto))) user proto
       \<and> (nav_item_visible i cur user proto \<longrightarrow>
            workspace_for_page items p cur (Some (\<lambda>i w. nav_item_visible i w user proto)) = cur)"
  using user_view.workspace_for_page_visible [of items p i user proto cur]
    user_view.workspace_for_page_stays [of items p i user proto cur] assms
  by (auto simp: item_visible_def)

lemma workspace_for_page_spec_witness:
  "\<exists>i. find_nav nav_items Overview = Some i \<and>
     nav_item_visible i
       (workspace_for_page nav_items Overview UserWs (Some (\<lambda>i w. nav_item_visible i w None True)))
       None True"
proof -
  have "find_nav nav_items Overview = Some (nav_items ! 4)"
    by (simp add: find_nav_def nav_items_def)
  moreover have "nav_item_visible (nav_items ! 4) AdminWs None True"
    by (simp add: nav_item_visible_def nav_items_def)
  ultimately show ?thesis
    using workspace_for_page_spec [of nav_items Overview "nav_items ! 4" AdminWs None True UserWs]
    by blast
qed

end
