(* ===== verification/Js_Number.thy ===== *)
theory Js_Number
  imports Complex_Main Prelude
begin

text \<open>
  JavaScript's numbers: IEEE-754 doubles, represented by their exact rational value, with the
  two infinities and NaN.  Every operation computes exactly and rounds once (to nearest, ties to
  even), as the language does.  The sign of zero is not represented: no modelled code observes it.
  The conversions between text and numbers (\<open>Number(s)\<close>, \<open>String(n)\<close>, \<open>toFixed\<close>) follow the
  language's grammar.
\<close>

datatype jsnum = NaN | PInf | NInf | Fin rat

section \<open>Rounding\<close>

function bit_len :: "int \<Rightarrow> int" where
  "bit_len n = (if n \<le> 0 then 0 else 1 + bit_len (n div 2))"
  by pat_completeness auto
termination
  by (relation "measure nat") auto

declare bit_len.simps [simp del]

definition pow_int :: "rat \<Rightarrow> int \<Rightarrow> rat" where
  "pow_int b e = (if 0 \<le> e then b ^ nat e else 1 / b ^ nat (- e))"

definition half_even :: "int \<Rightarrow> int \<Rightarrow> int" where \<comment> \<open>\<open>n / d\<close> to the nearest integer\<close>
  "half_even n d =
     (let f = n div d; r = 2 * (n mod d)
      in if r < d then f else if d < r then f + 1 else if even f then f else f + 1)"

definition double_exponent :: "int \<Rightarrow> int \<Rightarrow> int" where \<comment> \<open>of the last bit of the double nearest \<open>p / q\<close>\<close>
  "double_exponent p q =
     (let e = bit_len p - bit_len q - 53;
          below = (if 0 \<le> e then p < q * 9007199254740992 * 2 ^ nat e
                   else p * 2 ^ nat (- e) < q * 9007199254740992)
      in max (- 1074) (if below then e else e + 1))"

definition round_ratio :: "int \<Rightarrow> int \<Rightarrow> jsnum" where
  "round_ratio p q =
     (let e = double_exponent p q;
          m = (if 0 \<le> e then half_even p (q * 2 ^ nat e) else half_even (p * 2 ^ nat (- e)) q)
      in if 971 < e \<or> (e = 971 \<and> 9007199254740992 \<le> m) then PInf
         else if 0 \<le> e then Fin (of_int (m * 2 ^ nat e)) else Fin (of_int m / of_int (2 ^ nat (- e))))"

fun num_neg :: "jsnum \<Rightarrow> jsnum" where
  "num_neg NaN = NaN"
| "num_neg PInf = NInf"
| "num_neg NInf = PInf"
| "num_neg (Fin x) = Fin (- x)"

definition round_double :: "rat \<Rightarrow> jsnum" where
  "round_double x =
     (let (p, q) = quotient_of x
      in if p = 0 then Fin 0 else if 0 < p then round_ratio p q else num_neg (round_ratio (- p) q))"

lemma half_even_one [simp]: "half_even n 1 = n"
  by (simp add: half_even_def)

lemma half_even_nonneg: "0 \<le> n \<Longrightarrow> 0 < d \<Longrightarrow> 0 \<le> half_even n d"
  by (auto simp: half_even_def Let_def pos_imp_zdiv_nonneg_iff add_nonneg_nonneg)

lemma bit_len_nonneg: "0 \<le> bit_len n"
  by (induction n rule: bit_len.induct) (subst bit_len.simps, simp)

lemma bit_len_le: "n < 2 ^ k \<Longrightarrow> bit_len n \<le> int k"
proof (induction k arbitrary: n)
  case 0
  then show ?case by (simp add: bit_len.simps)
next
  case (Suc k)
  from Suc.prems have "n div 2 < 2 ^ k" by simp
  then have "bit_len (n div 2) \<le> int k" by (rule Suc.IH)
  then show ?case by (subst bit_len.simps) simp
qed

text \<open>Integers below \<open>2^53\<close> are doubles: rounding keeps them.\<close>

lemma round_ratio_int:
  assumes "0 < n" "n < 2 ^ 53"
  shows "round_ratio n 1 = Fin (of_int n)"
proof -
  define e where "e = double_exponent n 1"
  have bl: "bit_len n \<le> 53" using bit_len_le [of n 53] assms(2) by simp
  have one: "bit_len 1 = 1" by (simp add: bit_len.simps)
  have e: "e \<le> 0" using bl one unfolding e_def double_exponent_def by (auto simp: Let_def)
  define k where "k = nat (- e)"
  have "e = - int k" using e by (simp add: k_def)
  then show ?thesis
    by (cases k) (auto simp: round_ratio_def e_def [symmetric] Let_def nat_add_distrib)
qed

lemma round_double_int: "\<bar>n\<bar> < 2 ^ 53 \<Longrightarrow> round_double (of_int n) = Fin (of_int n)"
  using round_ratio_int [of n] round_ratio_int [of "- n"]
  by (cases "n = 0"; cases "0 < n") (auto simp: round_double_def quotient_of_int)

lemma round_ratio_nonneg:
  assumes "0 < p" "0 < q" "round_ratio p q = Fin r"
  shows "0 \<le> r"
  using assms half_even_nonneg [of p "q * 2 ^ k" for k] half_even_nonneg [of "p * 2 ^ k" q for k]
  by (auto simp: round_ratio_def Let_def split: if_splits)

lemma round_ratio_not: "round_ratio p q \<noteq> NaN" "round_ratio p q \<noteq> NInf"
  by (auto simp: round_ratio_def Let_def)

lemma round_double_nonneg:
  assumes "0 \<le> x" "round_double x = Fin r"
  shows "0 \<le> r"
proof -
  obtain p q where pq: "quotient_of x = (p, q)" by force
  then have "0 < q" "x = of_int p / of_int q"
    by (auto intro: quotient_of_denom_pos quotient_of_div)
  with assms(1) have "0 \<le> p" by (simp add: zero_le_divide_iff)
  with assms(2) pq \<open>0 < q\<close> round_ratio_nonneg [of p q r] show ?thesis
    by (auto simp: round_double_def split: if_splits)
qed

lemma round_double_not_NaN: "round_double x \<noteq> NaN"
proof -
  obtain p q where pq: "quotient_of x = (p, q)" by force
  then show ?thesis
    using round_ratio_not [of p q] round_ratio_not [of "- p" q]
    by (cases "round_ratio (- p) q") (auto simp: round_double_def)
qed

section \<open>Arithmetic and comparison\<close>

fun num_add :: "jsnum \<Rightarrow> jsnum \<Rightarrow> jsnum" where
  "num_add (Fin x) (Fin y) = round_double (x + y)"
| "num_add NaN _ = NaN"
| "num_add _ NaN = NaN"
| "num_add PInf NInf = NaN"
| "num_add NInf PInf = NaN"
| "num_add PInf _ = PInf"
| "num_add _ PInf = PInf"
| "num_add NInf _ = NInf"
| "num_add _ NInf = NInf"

fun num_mult :: "jsnum \<Rightarrow> jsnum \<Rightarrow> jsnum" where
  "num_mult (Fin x) (Fin y) = round_double (x * y)"
| "num_mult NaN _ = NaN"
| "num_mult _ NaN = NaN"
| "num_mult (Fin x) y = (if x = 0 then NaN else if 0 < x then y else num_neg y)"
| "num_mult x (Fin y) = (if y = 0 then NaN else if 0 < y then x else num_neg x)"
| "num_mult x y = (if x = y then PInf else NInf)"

fun num_is_finite :: "jsnum \<Rightarrow> bool" where
  "num_is_finite (Fin _) = True"
| "num_is_finite _ = False"

fun num_less :: "jsnum \<Rightarrow> jsnum \<Rightarrow> bool" where \<comment> \<open>\<open>x < y\<close>: false when either is NaN\<close>
  "num_less (Fin x) (Fin y) = (x < y)"
| "num_less NaN _ = False"
| "num_less _ NaN = False"
| "num_less NInf y = (y \<noteq> NInf)"
| "num_less x PInf = (x \<noteq> PInf)"
| "num_less _ _ = False"

definition num_le :: "jsnum \<Rightarrow> jsnum \<Rightarrow> bool" where
  "num_le x y \<longleftrightarrow> num_less x y \<or> (x = y \<and> x \<noteq> NaN)"

fun num_round :: "jsnum \<Rightarrow> jsnum" where \<comment> \<open>\<open>Math.round\<close>\<close>
  "num_round (Fin x) = Fin (of_int \<lfloor>x + 1 / 2\<rfloor>)"
| "num_round v = v"

definition num_of_nat :: "nat \<Rightarrow> jsnum" where
  "num_of_nat n = round_double (of_nat n)"

fun num_is_integer :: "jsnum \<Rightarrow> bool" where \<comment> \<open>\<open>Number.isInteger\<close>\<close>
  "num_is_integer (Fin x) = (x = of_int \<lfloor>x\<rfloor>)"
| "num_is_integer _ = False"

fun num_is_safe_integer :: "jsnum \<Rightarrow> bool" where \<comment> \<open>\<open>Number.isSafeInteger\<close>\<close>
  "num_is_safe_integer (Fin x) = (x = of_int \<lfloor>x\<rfloor> \<and> \<bar>x\<bar> \<le> 2 ^ 53 - 1)"
| "num_is_safe_integer _ = False"

lemma num_is_safe_integerE:
  assumes "num_is_safe_integer x"
  obtains n :: int where "x = Fin (of_int n)" "\<bar>n\<bar> < 2 ^ 53"
proof (cases x)
  case (Fin q)
  with assms have q: "q = of_int \<lfloor>q\<rfloor>" "\<bar>q\<bar> \<le> 2 ^ 53 - 1" by auto
  then have "(of_int \<bar>\<lfloor>q\<rfloor>\<bar> :: rat) \<le> of_int (2 ^ 53 - 1)" by simp
  then have "\<bar>\<lfloor>q\<rfloor>\<bar> < 2 ^ 53" by (simp only: of_int_le_iff)
  with q(1) Fin that show ?thesis by metis
qed (use assms in auto)

section \<open>Text to number\<close>

fun digits_val :: "int \<Rightarrow> string \<Rightarrow> int" where
  "digits_val acc [] = acc"
| "digits_val acc (c # cs) = digits_val (10 * acc + int (digit_val c)) cs"

definition parse_exponent :: "string \<Rightarrow> int option" where \<comment> \<open>optional exponent, nothing after it\<close>
  "parse_exponent s =
     (case s of
        [] \<Rightarrow> Some 0
      | c # r \<Rightarrow>
          if c = CHR ''e'' \<or> c = CHR ''E'' then
            (let (sgn, ds) = (case r of CHR ''-'' # r' \<Rightarrow> (- 1, r') | CHR ''+'' # r' \<Rightarrow> (1, r') | _ \<Rightarrow> (1, r))
             in if ds \<noteq> [] \<and> list_all is_digit ds then Some (sgn * digits_val 0 ds) else None)
          else None)"

definition parse_decimal :: "string \<Rightarrow> rat option" where \<comment> \<open>unsigned \<open>StrDecimalLiteral\<close>\<close>
  "parse_decimal s =
     (let ip = takeWhile is_digit s; r = dropWhile is_digit s;
          (fp, r') = (case r of CHR ''.'' # q \<Rightarrow> (takeWhile is_digit q, dropWhile is_digit q) | _ \<Rightarrow> ([], r))
      in if ip = [] \<and> fp = [] then None
         else map_option (\<lambda>e. of_int (digits_val 0 (ip @ fp)) * pow_int 10 (e - int (length fp)))
                (parse_exponent r'))"

definition hex_val :: "char \<Rightarrow> nat option" where
  "hex_val c =
     (let n = of_char c :: nat
      in if 48 \<le> n \<and> n \<le> 57 then Some (n - 48)
         else if 65 \<le> n \<and> n \<le> 70 then Some (n - 55)
         else if 97 \<le> n \<and> n \<le> 102 then Some (n - 87) else None)"

fun radix_val :: "nat \<Rightarrow> int \<Rightarrow> string \<Rightarrow> int option" where
  "radix_val b acc [] = Some acc"
| "radix_val b acc (c # cs) =
     (case hex_val c of None \<Rightarrow> None
      | Some d \<Rightarrow> if d < b then radix_val b (int b * acc + int d) cs else None)"

definition parse_radix :: "nat \<Rightarrow> string \<Rightarrow> jsnum" where
  "parse_radix b s =
     (if s = [] then NaN
      else case radix_val b 0 s of None \<Rightarrow> NaN | Some n \<Rightarrow> round_double (of_int n))"

definition to_number :: "string \<Rightarrow> jsnum" where \<comment> \<open>\<open>Number(s)\<close> of a string\<close>
  "to_number str =
     (let s = trim str in
      if s = [] then Fin 0
      else if prefix ''0x'' s \<or> prefix ''0X'' s then parse_radix 16 (drop 2 s)
      else if prefix ''0o'' s \<or> prefix ''0O'' s then parse_radix 8 (drop 2 s)
      else if prefix ''0b'' s \<or> prefix ''0B'' s then parse_radix 2 (drop 2 s)
      else let (neg, u) = (case s of CHR ''-'' # r \<Rightarrow> (True, r) | CHR ''+'' # r \<Rightarrow> (False, r) | _ \<Rightarrow> (False, s));
               v = (if u = ''Infinity'' then PInf
                    else case parse_decimal u of None \<Rightarrow> NaN | Some x \<Rightarrow> round_double x)
           in if neg then num_neg v else v)"

lemma to_number_trim [simp]: "to_number (trim s) = to_number s"
  by (simp add: to_number_def)

section \<open>Number to text\<close>

definition to_fixed_nonneg :: "nat \<Rightarrow> rat \<Rightarrow> string" where
  "to_fixed_nonneg f x =
     (let m = dec_str \<lfloor>x * 10 ^ f + 1 / 2\<rfloor>;
          d = replicate (Suc f - length m) (CHR ''0'') @ m;
          k = length d - f
      in if f = 0 then d else take k d @ ''.'' @ drop k d)"

definition dec_exponent :: "rat \<Rightarrow> int" where \<comment> \<open>\<open>n\<close> with \<open>10^(n-1) \<le> x < 10^n\<close>, for \<open>x > 0\<close>\<close>
  "dec_exponent x =
     (let (p, q) = quotient_of x;
          n = int (length (dec_str p)) - int (length (dec_str q))
      in if x < pow_int 10 n then n else n + 1)"

fun shortest_digits :: "rat \<Rightarrow> int \<Rightarrow> nat \<Rightarrow> nat \<Rightarrow> int \<times> nat" where
  \<comment> \<open>fewest significant digits that read back as the same double\<close>
  "shortest_digits x n k 0 = (\<lfloor>x * pow_int 10 (int k - n)\<rfloor>, k)"
| "shortest_digits x n k (Suc fuel) =
     (let y = x * pow_int 10 (int k - n); lo = \<lfloor>y\<rfloor>;
          ok = (\<lambda>s. round_double (of_int s * pow_int 10 (n - int k)) = Fin x);
          near = (if y - of_int lo \<le> 1 / 2 then [lo, lo + 1] else [lo + 1, lo])
      in case filter ok near of s # _ \<Rightarrow> (s, k) | [] \<Rightarrow> shortest_digits x n (Suc k) fuel)"

definition pos_num_str :: "rat \<Rightarrow> string" where
  "pos_num_str x =
     (let n0 = dec_exponent x; (s0, k) = shortest_digits x n0 1 17;
          (s, n) = (if s0 = 10 ^ k then (s0 div 10, n0 + 1) else (s0, n0)); d = dec_str s in
      if int k \<le> n \<and> n \<le> 21 then d @ replicate (nat (n - int k)) (CHR ''0'')
      else if 0 < n \<and> n \<le> 21 then take (nat n) d @ ''.'' @ drop (nat n) d
      else if - 6 < n \<and> n \<le> 0 then ''0.'' @ replicate (nat (- n)) (CHR ''0'') @ d
      else (if k = 1 then d else take 1 d @ ''.'' @ drop 1 d) @ ''e''
             @ (if 0 < n then ''+'' else ''-'') @ dec_str \<bar>n - 1\<bar>)"

fun num_str :: "jsnum \<Rightarrow> string" where \<comment> \<open>\<open>String(n)\<close>\<close>
  "num_str NaN = ''NaN''"
| "num_str PInf = ''Infinity''"
| "num_str NInf = ''-Infinity''"
| "num_str (Fin x) =
     (if x = of_int \<lfloor>x\<rfloor> \<and> \<bar>x\<bar> < 10 ^ 21 then int_str \<lfloor>x\<rfloor>
      else if x < 0 then CHR ''-'' # pos_num_str (- x) else pos_num_str x)"

fun to_fixed :: "nat \<Rightarrow> jsnum \<Rightarrow> string" where \<comment> \<open>\<open>x.toFixed(f)\<close>\<close>
  "to_fixed f (Fin x) =
     (if 10 ^ 21 \<le> \<bar>x\<bar> then num_str (Fin x)
      else if x < 0 then CHR ''-'' # to_fixed_nonneg f (- x) else to_fixed_nonneg f x)"
| "to_fixed f x = num_str x"

end
