(* ===== verification/Js_Value.thy ===== *)
theory Js_Value
  imports Js_Number
begin

text \<open>
  The values of type \<open>unknown\<close> the front end handles (payloads of the API, metadata of messages),
  with the conversions the language applies to them, and \<open>JSON.parse\<close> / \<open>JSON.stringify\<close>.
  An object is the list of its own properties in insertion order, each key once.
\<close>

datatype jsval =
    JUndef
  | JNull
  | JBool bool
  | JNum jsnum
  | JStr string
  | JArr "jsval list"
  | JObj "(string \<times> jsval) list"

section \<open>Property access and conversions\<close>

fun truthy :: "jsval \<Rightarrow> bool" where
  "truthy JUndef = False"
| "truthy JNull = False"
| "truthy (JBool b) = b"
| "truthy (JNum n) = (n \<noteq> NaN \<and> n \<noteq> Fin 0)"
| "truthy (JStr s) = (s \<noteq> [])"
| "truthy (JArr _) = True"
| "truthy (JObj _) = True"

fun is_object :: "jsval \<Rightarrow> bool" where \<comment> \<open>\<open>v && typeof v === "object"\<close>\<close>
  "is_object (JArr _) = True"
| "is_object (JObj _) = True"
| "is_object _ = False"

fun get_prop :: "string \<Rightarrow> jsval \<Rightarrow> jsval" where \<comment> \<open>\<open>v?.k\<close> for a key that is not built in\<close>
  "get_prop k (JObj kvs) = (case map_of kvs k of None \<Rightarrow> JUndef | Some v \<Rightarrow> v)"
| "get_prop k _ = JUndef"

fun has_prop :: "string \<Rightarrow> jsval \<Rightarrow> bool" where \<comment> \<open>\<open>k in v\<close> for a key that is not built in\<close>
  "has_prop k (JObj kvs) = (k \<in> fst ` set kvs)"
| "has_prop k _ = False"

definition is_nullish :: "jsval \<Rightarrow> bool" where
  "is_nullish v \<longleftrightarrow> v = JUndef \<or> v = JNull"

definition js_coalesce :: "jsval \<Rightarrow> jsval \<Rightarrow> jsval" where \<comment> \<open>\<open>a ?? b\<close>\<close>
  "js_coalesce a b = (if is_nullish a then b else a)"

fun obj_put :: "string \<Rightarrow> 'a \<Rightarrow> (string \<times> 'a) list \<Rightarrow> (string \<times> 'a) list" where
  \<comment> \<open>assignment of one property: an existing key keeps its place\<close>
  "obj_put k v [] = [(k, v)]"
| "obj_put k v ((k', v') # r) = (if k = k' then (k, v) # r else (k', v') # obj_put k v r)"

definition obj_spread :: "(string \<times> jsval) list \<Rightarrow> (string \<times> jsval) list \<Rightarrow> (string \<times> jsval) list" where
  "obj_spread base over = fold (\<lambda>(k, v) acc. obj_put k v acc) over base" \<comment> \<open>\<open>{...base, ...over}\<close>\<close>

lemma map_of_obj_put: "map_of (obj_put k v kvs) = (map_of kvs)(k \<mapsto> v)"
  by (induction k v kvs rule: obj_put.induct) auto

lemma keys_obj_put: "fst ` set (obj_put k v kvs) = insert k (fst ` set kvs)"
  by (induction k v kvs rule: obj_put.induct) auto

lemma distinct_obj_put: "distinct (map fst kvs) \<Longrightarrow> distinct (map fst (obj_put k v kvs))"
proof (induction k v kvs rule: obj_put.induct)
  case (2 k v k' v' r)
  then show ?case using keys_obj_put [of k v r] by auto
qed simp

lemma get_obj_put [simp]:
  "get_prop k (JObj (obj_put k' v kvs)) = (if k = k' then v else get_prop k (JObj kvs))"
  by (simp add: map_of_obj_put)

fun js_string :: "jsval \<Rightarrow> string" where \<comment> \<open>\<open>String(v)\<close>\<close>
  "js_string JUndef = ''undefined''"
| "js_string JNull = ''null''"
| "js_string (JBool b) = (if b then ''true'' else ''false'')"
| "js_string (JNum n) = num_str n"
| "js_string (JStr s) = s"
| "js_string (JArr vs) = join '','' (map (\<lambda>v. if is_nullish v then [] else js_string v) vs)"
| "js_string (JObj _) = ''[object Object]''"

fun opt_str :: "string option \<Rightarrow> jsval" where
  "opt_str None = JNull"
| "opt_str (Some s) = JStr s"

section \<open>Serialisation\<close>

definition hex_digit :: "nat \<Rightarrow> char" where
  "hex_digit n = (if n < 10 then char_of (48 + n) else char_of (87 + n))"

definition esc_char :: "char \<Rightarrow> string" where
  "esc_char c =
     (if c = CHR 0x22 then [CHR 0x5C, CHR 0x22]
      else if c = CHR 0x5C then [CHR 0x5C, CHR 0x5C]
      else if c = CHR 0x08 then [CHR 0x5C, CHR ''b'']
      else if c = CHR 0x0C then [CHR 0x5C, CHR ''f'']
      else if c = CHR 0x0A then [CHR 0x5C, CHR ''n'']
      else if c = CHR 0x0D then [CHR 0x5C, CHR ''r'']
      else if c = CHR 0x09 then [CHR 0x5C, CHR ''t'']
      else if (of_char c :: nat) < 32 then
        [CHR 0x5C, CHR ''u'', CHR ''0'', CHR ''0'',
         hex_digit (of_char c div 16), hex_digit (of_char c mod 16)]
      else [c])"

definition json_string :: "string \<Rightarrow> string" where
  "json_string s = CHR 0x22 # concat (map esc_char s) @ [CHR 0x22]"

fun stringify :: "jsval \<Rightarrow> string"
  and stringify_items :: "jsval list \<Rightarrow> string list"
  and stringify_props :: "(string \<times> jsval) list \<Rightarrow> string list" where
  "stringify JUndef = ''null''" \<comment> \<open>as an array item; an undefined property is left out\<close>
| "stringify JNull = ''null''"
| "stringify (JBool b) = (if b then ''true'' else ''false'')"
| "stringify (JNum n) = (if num_is_finite n then num_str n else ''null'')"
| "stringify (JStr s) = json_string s"
| "stringify (JArr vs) = ''['' @ join '','' (stringify_items vs) @ '']''"
| "stringify (JObj kvs) = ''{'' @ join '','' (stringify_props kvs) @ ''}''"
| "stringify_items [] = []"
| "stringify_items (v # vs) = stringify v # stringify_items vs"
| "stringify_props [] = []"
| "stringify_props ((k, v) # r) =
     (if v = JUndef then stringify_props r
      else (json_string k @ '':'' @ stringify v) # stringify_props r)"

text \<open>\<open>JSON.stringify(v, null, 2)\<close>; the first argument is the indentation reached.\<close>

definition json_block :: "nat \<Rightarrow> string \<Rightarrow> string \<Rightarrow> string list \<Rightarrow> string" where
  "json_block d l r items =
     (if items = [] then l @ r
      else l @ [nl] @ join ('','' @ [nl]) (map (\<lambda>i. replicate (d + 2) (CHR '' '') @ i) items) @
           [nl] @ replicate d (CHR '' '') @ r)"

fun pretty :: "nat \<Rightarrow> jsval \<Rightarrow> string"
  and pretty_items :: "nat \<Rightarrow> jsval list \<Rightarrow> string list"
  and pretty_props :: "nat \<Rightarrow> (string \<times> jsval) list \<Rightarrow> string list" where
  "pretty d (JArr vs) = json_block d ''['' '']'' (pretty_items (d + 2) vs)"
| "pretty d (JObj kvs) = json_block d ''{'' ''}'' (pretty_props (d + 2) kvs)"
| "pretty d v = stringify v"
| "pretty_items d [] = []"
| "pretty_items d (v # vs) = pretty d v # pretty_items d vs"
| "pretty_props d [] = []"
| "pretty_props d ((k, v) # r) =
     (if v = JUndef then pretty_props d r
      else (json_string k @ '': '' @ pretty d v) # pretty_props d r)"

definition stringify_pretty :: "jsval \<Rightarrow> string" where
  "stringify_pretty v = pretty 0 v"

section \<open>Parsing\<close>

definition is_json_ws :: "char \<Rightarrow> bool" where
  "is_json_ws c \<longleftrightarrow> c \<in> set [CHR '' '', CHR 0x09, CHR 0x0A, CHR 0x0D]"

definition skip_ws :: "string \<Rightarrow> string" where
  "skip_ws s = dropWhile is_json_ws s"

definition utf8_encode :: "nat \<Rightarrow> string" where
  "utf8_encode n =
     (if n < 128 then [char_of n]
      else if n < 2048 then [char_of (192 + n div 64), char_of (128 + n mod 64)]
      else if n < 65536 then
        [char_of (224 + n div 4096), char_of (128 + n div 64 mod 64), char_of (128 + n mod 64)]
      else [char_of (240 + n div 262144), char_of (128 + n div 4096 mod 64),
            char_of (128 + n div 64 mod 64), char_of (128 + n mod 64)])"

definition utf8 :: "nat list \<Rightarrow> string" where \<comment> \<open>the text of these code points\<close>
  "utf8 ns = concat (map utf8_encode ns)"

definition hex4 :: "char \<Rightarrow> char \<Rightarrow> char \<Rightarrow> char \<Rightarrow> nat option" where
  "hex4 a b c d =
     (case (hex_val a, hex_val b, hex_val c, hex_val d) of
        (Some a', Some b', Some c', Some d') \<Rightarrow> Some (4096 * a' + 256 * b' + 16 * c' + d')
      | _ \<Rightarrow> None)"

definition simple_escape :: "char \<Rightarrow> char option" where
  "simple_escape c =
     (if c = CHR 0x22 \<or> c = CHR 0x5C \<or> c = CHR ''/'' then Some c
      else if c = CHR ''b'' then Some (CHR 0x08)
      else if c = CHR ''f'' then Some (CHR 0x0C)
      else if c = CHR ''n'' then Some (CHR 0x0A)
      else if c = CHR ''r'' then Some (CHR 0x0D)
      else if c = CHR ''t'' then Some (CHR 0x09)
      else None)"

fun parse_chars :: "string \<Rightarrow> (string \<times> string) option" where
  \<comment> \<open>the rest of a string literal, and what follows its closing quote\<close>
  "parse_chars [] = None"
| "parse_chars (c # s) =
     (if c = CHR 0x22 then Some ([], s)
      else if c = CHR 0x5C then
        (case s of
           d # s' \<Rightarrow>
             (case simple_escape d of
                Some e \<Rightarrow> map_option (\<lambda>(t, r). (e # t, r)) (parse_chars s')
              | None \<Rightarrow>
                  if d = CHR ''u'' then
                    (case s' of
                       h1 # h2 # h3 # h4 # s'' \<Rightarrow>
                         (case hex4 h1 h2 h3 h4 of
                            None \<Rightarrow> None
                          | Some n \<Rightarrow> map_option (\<lambda>(t, r). (utf8_encode n @ t, r)) (parse_chars s''))
                     | _ \<Rightarrow> None)
                  else None)
         | [] \<Rightarrow> None)
      else if (of_char c :: nat) < 32 then None
      else map_option (\<lambda>(t, r). (c # t, r)) (parse_chars s))"

definition parse_json_number :: "string \<Rightarrow> (jsval \<times> string) option" where
  "parse_json_number s =
     (let tok = takeWhile (\<lambda>c. is_digit c \<or> c \<in> set ''+-.eE'') s; r = drop (length tok) s;
          u = (case tok of CHR ''-'' # t \<Rightarrow> t | _ \<Rightarrow> tok);
          ip = takeWhile is_digit u; q = dropWhile is_digit u;
          frac_ok = (case q of CHR ''.'' # c # _ \<Rightarrow> is_digit c | CHR ''.'' # [] \<Rightarrow> False | _ \<Rightarrow> True)
      in if ip \<noteq> [] \<and> (hd ip \<noteq> CHR ''0'' \<or> length ip = 1) \<and> frac_ok then
           (case parse_decimal u of
              None \<Rightarrow> None
            | Some x \<Rightarrow> Some (JNum (round_double (if tok \<noteq> [] \<and> hd tok = CHR ''-'' then - x else x)), r))
         else None)"

definition expect :: "char \<Rightarrow> string \<Rightarrow> string option" where \<comment> \<open>one punctuation character\<close>
  "expect x s = (case skip_ws s of [] \<Rightarrow> None | c # r \<Rightarrow> if c = x then Some r else None)"

fun parse_value :: "nat \<Rightarrow> string \<Rightarrow> (jsval \<times> string) option"
  and parse_items :: "nat \<Rightarrow> string \<Rightarrow> (jsval list \<times> string) option"
  and parse_props :: "nat \<Rightarrow> string \<Rightarrow> ((string \<times> jsval) list \<times> string) option" where
  "parse_value 0 s = None"
| "parse_value (Suc n) s0 =
     (let s = skip_ws s0 in
      if prefix ''null'' s then Some (JNull, drop 4 s)
      else if prefix ''true'' s then Some (JBool True, drop 4 s)
      else if prefix ''false'' s then Some (JBool False, drop 5 s)
      else (case s of
              [] \<Rightarrow> None
            | c # r \<Rightarrow>
                if c = CHR 0x22 then map_option (\<lambda>(t, r'). (JStr t, r')) (parse_chars r)
                else if c = CHR ''['' then
                  (case expect (CHR '']'') r of
                     Some r' \<Rightarrow> Some (JArr [], r')
                   | None \<Rightarrow> map_option (\<lambda>(vs, r'). (JArr vs, r')) (parse_items n r))
                else if c = CHR ''{'' then
                  (case expect (CHR ''}'') r of
                     Some r' \<Rightarrow> Some (JObj [], r')
                   | None \<Rightarrow> map_option (\<lambda>(kvs, r').
                              (JObj (fold (\<lambda>(k, v) acc. obj_put k v acc) kvs []), r')) (parse_props n r))
                else parse_json_number s))"
| "parse_items 0 s = None"
| "parse_items (Suc n) s =
     (case parse_value n s of
        None \<Rightarrow> None
      | Some (v, r) \<Rightarrow>
          (case expect (CHR '','') r of
             Some r' \<Rightarrow> map_option (\<lambda>(vs, r''). (v # vs, r'')) (parse_items n r')
           | None \<Rightarrow> map_option (\<lambda>r'. ([v], r')) (expect (CHR '']'') r)))"
| "parse_props 0 s = None"
| "parse_props (Suc n) s0 =
     (case expect (CHR 0x22) s0 of
        None \<Rightarrow> None
      | Some s \<Rightarrow>
          (case parse_chars s of
             None \<Rightarrow> None
           | Some (k, r) \<Rightarrow>
               (case expect (CHR '':'') r of
                  None \<Rightarrow> None
                | Some r1 \<Rightarrow>
                    (case parse_value n r1 of
                       None \<Rightarrow> None
                     | Some (v, r2) \<Rightarrow>
                         (case expect (CHR '','') r2 of
                            Some r3 \<Rightarrow> map_option (\<lambda>(kvs, r'). ((k, v) # kvs, r')) (parse_props n r3)
                          | None \<Rightarrow> map_option (\<lambda>r3. ([(k, v)], r3)) (expect (CHR ''}'') r2))))))"

definition json_parse :: "string \<Rightarrow> jsval option" where \<comment> \<open>\<open>None\<close>: a SyntaxError is thrown\<close>
  "json_parse s =
     (case parse_value (2 * length s + 1) s of
        Some (v, r) \<Rightarrow> if skip_ws r = [] then Some v else None
      | None \<Rightarrow> None)"

section \<open>Parsing undoes serialisation\<close>

text \<open>Values without numbers and without \<open>undefined\<close>, whose objects have distinct keys.\<close>

fun plain :: "jsval \<Rightarrow> bool" where
  "plain JUndef = False"
| "plain JNull = True"
| "plain (JBool _) = True"
| "plain (JNum _) = False"
| "plain (JStr _) = True"
| "plain (JArr vs) = list_all plain vs"
| "plain (JObj kvs) = (distinct (map fst kvs) \<and> list_all (\<lambda>p. plain (snd p)) kvs)"

fun jfuel :: "jsval \<Rightarrow> nat" where
  "jfuel (JArr vs) = Suc (sum_list (map (\<lambda>v. Suc (jfuel v)) vs))"
| "jfuel (JObj kvs) = Suc (sum_list (map (\<lambda>p. Suc (jfuel (snd p))) kvs))"
| "jfuel _ = 1"

lemma char_of_of_char_split: "char_of (16 * (of_char c div 16) + of_char c mod 16 :: nat) = c"
  by (metis char_of_char div_mult_mod_eq mult.commute)

lemma hex_val_digit: "n < 16 \<Longrightarrow> hex_val (hex_digit n) = Some n"
  by (auto simp: hex_val_def hex_digit_def of_char_mod_256 Let_def)

lemma esc_control:
  assumes "(of_char c :: nat) < 32"
  shows "hex4 (CHR ''0'') (CHR ''0'') (hex_digit (of_char c div 16)) (hex_digit (of_char c mod 16))
           = Some (of_char c)"
  using assms by (simp add: hex4_def hex_val_digit) (simp add: hex_val_def)

lemma parse_chars_esc:
  "parse_chars (concat (map esc_char t) @ CHR 0x22 # r) = Some (t, r)"
proof (induction t)
  case (Cons c t)
  show ?case
  proof (cases "c \<in> {CHR 0x22, CHR 0x5C, CHR 0x08, CHR 0x0C, CHR 0x0A, CHR 0x0D, CHR 0x09}")
    case True
    with Cons show ?thesis by (auto simp: esc_char_def simple_escape_def)
  next
    case False
    then have esc: "esc_char c = (if (of_char c :: nat) < 32 then
        [CHR 0x5C, CHR ''u'', CHR ''0'', CHR ''0'',
         hex_digit (of_char c div 16), hex_digit (of_char c mod 16)] else [c])"
      by (simp add: esc_char_def)
    show ?thesis
    proof (cases "(of_char c :: nat) < 32")
      case True
      with Cons esc show ?thesis
        by (simp add: esc_control simple_escape_def utf8_encode_def)
    next
      case False
      with Cons esc \<open>c \<notin> _\<close> show ?thesis by simp
    qed
  qed
qed simp

lemma skip_ws_Cons: "\<not> is_json_ws c \<Longrightarrow> skip_ws (c # s) = c # s"
  by (simp add: skip_ws_def)

lemma stringify_hd:
  assumes "plain v"
  obtains c s where "stringify v = c # s" "\<not> is_json_ws c" "c \<noteq> CHR '']''" "c \<noteq> CHR ''}''"
proof -
  from assms have "\<exists>c s. stringify v = c # s \<and> \<not> is_json_ws c \<and> c \<noteq> CHR '']'' \<and> c \<noteq> CHR ''}''"
    by (cases v) (auto simp: is_json_ws_def json_string_def)
  with that show ?thesis by blast
qed

lemma plain_not_undef [simp]: "plain v \<Longrightarrow> v \<noteq> JUndef"
  by auto

lemma stringify_props_nonempty:
  "kvs \<noteq> [] \<Longrightarrow> list_all (\<lambda>p. plain (snd p)) kvs \<Longrightarrow> stringify_props kvs \<noteq> []"
  by (cases kvs) (auto split: if_splits)

lemma expect_Cons: "\<not> is_json_ws c \<Longrightarrow> expect x (c # s) = (if c = x then Some s else None)"
  by (simp add: expect_def skip_ws_Cons)

lemma json_punctuation [simp]:
  "\<not> is_json_ws (CHR '','')" "\<not> is_json_ws (CHR '']'')" "\<not> is_json_ws (CHR ''}'')"
  "\<not> is_json_ws (CHR '':'')" "\<not> is_json_ws (CHR 0x22)" "\<not> is_json_ws (CHR ''['')"
  "\<not> is_json_ws (CHR ''{'')"
  by (simp_all add: is_json_ws_def)

lemma fold_obj_put_fresh:
  "distinct (map fst (acc @ kvs)) \<Longrightarrow> fold (\<lambda>(k, v) acc. obj_put k v acc) kvs acc = acc @ kvs"
proof (induction kvs arbitrary: acc)
  case (Cons p kvs)
  obtain k v where p: "p = (k, v)" by force
  have "k \<notin> fst ` set acc \<Longrightarrow> obj_put k v acc = acc @ [(k, v)]" for acc
    by (induction k v acc rule: obj_put.induct) auto
  with Cons p show ?case by auto
qed simp

text \<open>Parsing what was printed, by induction on the printer's recursion.\<close>

lemma parse_stringify_aux:
  shows "plain v \<Longrightarrow> jfuel v \<le> n \<Longrightarrow> parse_value n (stringify v @ r) = Some (v, r)"
    and "vs \<noteq> [] \<Longrightarrow> list_all plain vs \<Longrightarrow> sum_list (map (\<lambda>v. Suc (jfuel v)) vs) \<le> n \<Longrightarrow>
         parse_items n (join '','' (stringify_items vs) @ CHR '']'' # r) = Some (vs, r)"
    and "kvs \<noteq> [] \<Longrightarrow> list_all (\<lambda>p. plain (snd p)) kvs \<Longrightarrow>
         sum_list (map (\<lambda>p. Suc (jfuel (snd p))) kvs) \<le> n \<Longrightarrow>
         parse_props n (join '','' (stringify_props kvs) @ CHR ''}'' # r) = Some (kvs, r)"
proof (induction v and vs and kvs arbitrary: n r and n r and n r
    rule: stringify_stringify_items_stringify_props.induct)
  case (2 n r)
  then obtain m where "n = Suc m" by (cases n) auto
  then show ?case by (simp add: skip_ws_def is_json_ws_def)
next
  case (3 b n r)
  then obtain m where "n = Suc m" by (cases n) auto
  then show ?case by (simp add: skip_ws_def is_json_ws_def)
next
  case (5 s n r)
  then obtain m where "n = Suc m" by (cases n) auto
  then show ?case
    by (simp add: skip_ws_Cons json_string_def parse_chars_esc)
next
  case (6 vs n r)
  then obtain m where n: "n = Suc m" by (cases n) auto
  show ?case
  proof (cases vs)
    case Nil
    with n show ?thesis by (simp add: skip_ws_Cons expect_Cons)
  next
    case (Cons v vs')
    with "6.prems" have "plain v" by simp
    then obtain c s where c: "stringify v = c # s" "\<not> is_json_ws c" "c \<noteq> CHR '']''"
      by (rule stringify_hd) auto
    have "\<exists>s'. join '','' (stringify_items vs) = c # s'"
      using Cons c(1) by (cases vs') auto
    then obtain s' where s': "join '','' (stringify_items vs) = c # s'" by blast
    have "parse_items m (c # s' @ CHR '']'' # r) = Some (vs, r)"
      using "6.IH" [of m r] "6.prems" n Cons s' by simp
    with n s' c(2,3) show ?thesis
      by (simp add: skip_ws_Cons expect_Cons)
  qed
next
  case (7 kvs n r)
  then obtain m where n: "n = Suc m" by (cases n) auto
  show ?case
  proof (cases kvs)
    case Nil
    with n show ?thesis by (simp add: skip_ws_Cons expect_Cons)
  next
    case (Cons p kvs')
    obtain k v where p: "p = (k, v)" by force
    have "\<exists>s'. join '','' (stringify_props kvs) = CHR 0x22 # s'"
      using Cons p "7.prems" by (cases "stringify_props kvs'") (auto simp: json_string_def)
    then obtain s' where s': "join '','' (stringify_props kvs) = CHR 0x22 # s'" by blast
    have "parse_props m (CHR 0x22 # s' @ CHR ''}'' # r) = Some (kvs, r)"
      using "7.IH" [of m r] "7.prems" n Cons s' by simp
    moreover have "fold (\<lambda>(k, v) acc. obj_put k v acc) kvs [] = kvs"
      using fold_obj_put_fresh [of "[]" kvs] "7.prems" by simp
    ultimately show ?thesis
      using n s' by (simp add: skip_ws_Cons expect_Cons)
  qed
next
  case (9 v vs n r)
  then obtain m where n: "n = Suc m" by (cases n) auto
  have v: "parse_value m (stringify v @ q) = Some (v, q)" for q
    using "9.IH"(1) [of m q] "9.prems" n by simp
  show ?case
  proof (cases vs)
    case Nil
    with n v show ?thesis by (simp add: expect_Cons)
  next
    case (Cons w ws)
    have "parse_items m (join '','' (stringify_items vs) @ CHR '']'' # r) = Some (vs, r)"
      using "9.IH"(2) [of m r] "9.prems" n Cons by simp
    with Cons n v show ?thesis by (simp add: expect_Cons)
  qed
next
  case (11 k v kvs n r)
  then obtain m where n: "n = Suc m" by (cases n) auto
  have nu: "v \<noteq> JUndef" using "11.prems" by auto
  have v: "parse_value m (stringify v @ q) = Some (v, q)" for q
    using "11.IH"(2) [of m q] "11.prems" n nu by simp
  have key: "parse_chars (concat (map esc_char k) @ CHR 0x22 # q) = Some (k, q)" for q
    by (rule parse_chars_esc)
  show ?case
  proof (cases kvs)
    case Nil
    with n v nu key show ?thesis by (simp add: expect_Cons json_string_def)
  next
    case (Cons w ws)
    have "parse_props m (join '','' (stringify_props kvs) @ CHR ''}'' # r) = Some (kvs, r)"
      using "11.IH"(3) [of m r] "11.prems" n Cons nu by simp
    moreover have "stringify_props kvs \<noteq> []"
      using stringify_props_nonempty [of kvs] Cons "11.prems" by simp
    ultimately show ?thesis
      using n v nu key by (simp add: expect_Cons json_string_def join_Cons)
  qed
qed simp_all

lemma length_join: "sum_list (map (\<lambda>w. length w + 1) ws) \<le> length (join '','' ws) + 1"
  by (induction "'',''" ws rule: join.induct) auto

lemma jfuel_bound:
  shows "plain v \<Longrightarrow> jfuel v \<le> 2 * length (stringify v)"
    and "list_all plain vs \<Longrightarrow> sum_list (map (\<lambda>v. Suc (jfuel v)) vs)
           \<le> 2 * sum_list (map (\<lambda>w. length w + 1) (stringify_items vs))"
    and "list_all (\<lambda>p. plain (snd p)) kvs \<Longrightarrow> sum_list (map (\<lambda>p. Suc (jfuel (snd p))) kvs)
           \<le> 2 * sum_list (map (\<lambda>w. length w + 1) (stringify_props kvs))"
proof (induction v and vs and kvs rule: stringify_stringify_items_stringify_props.induct)
  case (6 vs)
  with length_join [of "stringify_items vs"] show ?case by simp
next
  case (7 kvs)
  with length_join [of "stringify_props kvs"] show ?case by simp
qed (auto simp: json_string_def)

lemma json_parse_stringify: "plain v \<Longrightarrow> json_parse (stringify v) = Some v"
  using parse_stringify_aux(1) [of v "2 * length (stringify v) + 1" "[]"] jfuel_bound(1) [of v]
  by (simp add: json_parse_def skip_ws_def)

end
