(* ===== verification/Session.thy ===== *)
theory Session
  imports Js_Value Access
begin

text \<open>
  The browser session of \<open>lib/api/core.ts\<close>: what \<open>sessionStorage\<close>, \<open>localStorage\<close> and the readable
  cookies hold, and the operations that read, save, migrate and clear it; the prototype switch
  of \<open>lib/runtimeMode.ts\<close>.

  The locale \<open>key_value_store\<close> is the contract of \<open>Storage\<close> (read back what was set, and nothing
  else changes); it is interpreted on both storages of the browser state.
\<close>

named_theorems session_simps \<open>effects of the session operations on each part of the browser\<close>

section \<open>Thrown values\<close>

text \<open>
  What a call of the front end throws: an \<open>ApiError\<close> with its message, status and details, another
  error object with its name and message, or any other value.
\<close>

datatype exn =
    Api_Error string jsnum jsval
  | Named_Error string string
  | Thrown jsval

fun exn_message :: "exn \<Rightarrow> string \<Rightarrow> string" where \<comment> \<open>\<open>caught instanceof Error ? caught.message : ...\<close>\<close>
  "exn_message (Api_Error m _ _) d = m"
| "exn_message (Named_Error _ m) d = m"
| "exn_message (Thrown _) d = d"

section \<open>The browser\<close>

record browser =
  session_storage :: "string \<Rightarrow> string option"
  local_storage :: "string \<Rightarrow> string option"
  cookies :: "(string \<times> string) list" \<comment> \<open>those \<open>document.cookie\<close> shows: not the HttpOnly ones\<close>

definition session_get :: "string \<Rightarrow> browser \<Rightarrow> string option" where
  "session_get k b = session_storage b k"
definition session_set :: "string \<Rightarrow> string \<Rightarrow> browser \<Rightarrow> browser" where
  "session_set k v b = b\<lparr>session_storage := (session_storage b)(k \<mapsto> v)\<rparr>"
definition session_remove :: "string \<Rightarrow> browser \<Rightarrow> browser" where
  "session_remove k b = b\<lparr>session_storage := (session_storage b)(k := None)\<rparr>"
definition local_get :: "string \<Rightarrow> browser \<Rightarrow> string option" where
  "local_get k b = local_storage b k"
definition local_set :: "string \<Rightarrow> string \<Rightarrow> browser \<Rightarrow> browser" where
  "local_set k v b = b\<lparr>local_storage := (local_storage b)(k \<mapsto> v)\<rparr>"
definition local_remove :: "string \<Rightarrow> browser \<Rightarrow> browser" where
  "local_remove k b = b\<lparr>local_storage := (local_storage b)(k := None)\<rparr>"

locale key_value_store =
  fixes get :: "string \<Rightarrow> 's \<Rightarrow> string option"
    and put :: "string \<Rightarrow> string \<Rightarrow> 's \<Rightarrow> 's"
    and remove :: "string \<Rightarrow> 's \<Rightarrow> 's"
  assumes get_put: "get k (put k' v s) = (if k = k' then Some v else get k s)"
    and get_remove: "get k (remove k' s) = (if k = k' then None else get k s)"
begin

lemma get_remove_all:
  "get k (fold remove ks s) = (if k \<in> set ks then None else get k s)"
  by (induction ks arbitrary: s) (auto simp: get_remove)

lemma get_put_all_other:
  "k \<notin> fst ` set kvs \<Longrightarrow> get k (fold (\<lambda>(k, v). put k v) kvs s) = get k s"
  by (induction kvs arbitrary: s) (auto simp: get_put)

lemma get_after_remove_put: "get k (put k v (remove k s)) = Some v"
  by (simp add: get_put)

end

interpretation session_kv: key_value_store session_get session_set session_remove
  by unfold_locales (simp_all add: session_get_def session_set_def session_remove_def)

interpretation local_kv: key_value_store local_get local_set local_remove
  by unfold_locales (simp_all add: local_get_def local_set_def local_remove_def)

lemma storage_frames [session_simps]:
  "session_get k (local_set k' v b) = session_get k b"
  "session_get k (local_remove k' b) = session_get k b"
  "local_get k (session_set k' v b) = local_get k b"
  "local_get k (session_remove k' b) = local_get k b"
  "cookies (session_set k' v b) = cookies b" "cookies (session_remove k' b) = cookies b"
  "cookies (local_set k' v b) = cookies b" "cookies (local_remove k' b) = cookies b"
  by (simp_all add: session_get_def session_set_def session_remove_def local_get_def
      local_set_def local_remove_def)

lemmas storage_laws [session_simps] =
  session_kv.get_put session_kv.get_remove local_kv.get_put local_kv.get_remove

section \<open>Percent encoding\<close>

definition uri_unreserved :: "char \<Rightarrow> bool" where
  "uri_unreserved c \<longleftrightarrow>
     (let n = of_char c :: nat in
      48 \<le> n \<and> n \<le> 57 \<or> 65 \<le> n \<and> n \<le> 90 \<or> 97 \<le> n \<and> n \<le> 122) \<or>
     c \<in> set ''-_.!~*()'' \<or> c = CHR 0x27"

definition upper_hex :: "nat \<Rightarrow> char" where
  "upper_hex n = (if n < 10 then char_of (48 + n) else char_of (55 + n))"

definition encode_uri_component :: "string \<Rightarrow> string" where
  "encode_uri_component s =
     concat (map (\<lambda>c. if uri_unreserved c then [c]
                      else [CHR ''%'', upper_hex (of_char c div 16), upper_hex (of_char c mod 16)]) s)"

definition percent_byte :: "string \<Rightarrow> (nat \<times> string) option" where \<comment> \<open>one \<open>%XX\<close>\<close>
  "percent_byte s =
     (case s of
        p # a # b # r \<Rightarrow>
          if p = CHR ''%'' then
            (case (hex_val a, hex_val b) of
               (Some x, Some y) \<Rightarrow> Some (16 * x + y, r)
             | _ \<Rightarrow> None)
          else None
      | _ \<Rightarrow> None)"

lemma percent_byte_length: "percent_byte s = Some (n, r) \<Longrightarrow> length r < length s"
  by (auto simp: percent_byte_def split: list.splits option.splits if_splits)

fun continuation :: "nat \<Rightarrow> string \<Rightarrow> (nat list \<times> string) option" where
  \<comment> \<open>so many escaped continuation bytes\<close>
  "continuation 0 s = Some ([], s)"
| "continuation (Suc k) s =
     (case percent_byte s of
        None \<Rightarrow> None
      | Some (n, r) \<Rightarrow>
          if n div 64 = 2 then map_option (\<lambda>(ns, r'). (n # ns, r')) (continuation k r) else None)"

lemma continuation_length: "continuation k s = Some (ns, r) \<Longrightarrow> length r \<le> length s"
proof (induction k arbitrary: s ns)
  case (Suc k)
  then show ?case
    by (fastforce split: option.splits if_splits dest: percent_byte_length)
qed simp

definition utf8_follow :: "nat \<Rightarrow> nat option" where \<comment> \<open>continuation bytes after a lead byte\<close>
  "utf8_follow n =
     (if n < 128 then Some 0 else if 194 \<le> n \<and> n \<le> 223 then Some 1
      else if 224 \<le> n \<and> n \<le> 239 then Some 2 else if 240 \<le> n \<and> n \<le> 244 then Some 3 else None)"

definition utf8_second_ok :: "nat \<Rightarrow> nat list \<Rightarrow> bool" where
  \<comment> \<open>no overlong form, no surrogate, nothing above U+10FFFF\<close>
  "utf8_second_ok n ns =
     (case ns of [] \<Rightarrow> True
      | m # _ \<Rightarrow> (n = 224 \<longrightarrow> 160 \<le> m) \<and> (n = 237 \<longrightarrow> m < 160) \<and>
                 (n = 240 \<longrightarrow> 144 \<le> m) \<and> (n = 244 \<longrightarrow> m < 144))"

function decode_uri_component :: "string \<Rightarrow> string option" where \<comment> \<open>\<open>None\<close>: a URIError is thrown\<close>
  "decode_uri_component s =
     (case s of
        [] \<Rightarrow> Some []
      | c # r \<Rightarrow>
          if c \<noteq> CHR ''%'' then map_option (Cons c) (decode_uri_component r)
          else (case percent_byte s of
                  None \<Rightarrow> None
                | Some (n, r1) \<Rightarrow>
                    (case utf8_follow n of
                       None \<Rightarrow> None
                     | Some k \<Rightarrow>
                         (case continuation k r1 of
                            None \<Rightarrow> None
                          | Some (ns, r2) \<Rightarrow>
                              if utf8_second_ok n ns
                              then map_option (\<lambda>t. map char_of (n # ns) @ t) (decode_uri_component r2)
                              else None))))"
  by pat_completeness auto
termination
  by (relation "measure length") (auto dest!: percent_byte_length continuation_length)

declare decode_uri_component.simps [simp del]

lemma decode_uri_component_plain: "CHR ''%'' \<notin> set s \<Longrightarrow> decode_uri_component s = Some s"
proof (induction s)
  case Nil
  then show ?case by (subst decode_uri_component.simps) simp
next
  case (Cons c s)
  then show ?case by (subst decode_uri_component.simps) auto
qed

section \<open>Cookies\<close>

definition csrf_cookie_name :: string where
  "csrf_cookie_name = ''agenthive_csrf''"

definition document_cookie :: "browser \<Rightarrow> string" where
  "document_cookie b = join ''; '' (map (\<lambda>(n, v). n @ ''='' @ v) (cookies b))"

fun first_cookie :: "string \<Rightarrow> string list \<Rightarrow> exn + string option" where
  "first_cookie pre [] = Inr None"
| "first_cookie pre (value # rest) =
     (let candidate = trim value in
      if prefix pre candidate then
        (case decode_uri_component (drop (length pre) candidate) of
           None \<Rightarrow> Inl (Named_Error ''URIError'' ''URI malformed'')
         | Some v \<Rightarrow> Inr (Some v))
      else first_cookie pre rest)"

definition get_cookie :: "string \<Rightarrow> browser \<Rightarrow> exn + string option" where
  "get_cookie name b = first_cookie (encode_uri_component name @ ''='') (split '';'' (document_cookie b))"

definition clear_csrf_cookie :: "browser \<Rightarrow> browser" where
  \<comment> \<open>an expiry in the past, path \<open>/\<close>, deletes the cookie of that name\<close>
  "clear_csrf_cookie b =
     b\<lparr>cookies := filter (\<lambda>(n, v). n \<noteq> encode_uri_component csrf_cookie_name) (cookies b)\<rparr>"

section \<open>The session operations\<close>

definition auth_token_key :: string where
  "auth_token_key = ''agenthive.access_token''"
definition auth_user_key :: string where
  "auth_user_key = ''agenthive.auth_user''"
definition auth_expires_key :: string where
  "auth_expires_key = ''agenthive.auth_expires_at''"

lemmas session_keys = auth_token_key_def auth_user_key_def auth_expires_key_def

lemma session_keys_distinct [simp]:
  "auth_token_key \<noteq> auth_user_key" "auth_user_key \<noteq> auth_token_key"
  "auth_token_key \<noteq> auth_expires_key" "auth_expires_key \<noteq> auth_token_key"
  "auth_user_key \<noteq> auth_expires_key" "auth_expires_key \<noteq> auth_user_key"
  by (simp_all add: session_keys)

definition remove_legacy_tokens :: "browser \<Rightarrow> browser" where
  "remove_legacy_tokens b =
     local_remove auth_expires_key (local_remove auth_user_key (local_remove ''access_token''
       (local_remove ''agenthive_token'' (local_remove auth_token_key b))))"

definition js_truthy_str :: "string option \<Rightarrow> bool" where \<comment> \<open>a string that is neither null nor empty\<close>
  "js_truthy_str s \<longleftrightarrow> s \<noteq> None \<and> s \<noteq> Some []"

definition get_stored_token :: "browser \<Rightarrow> string option \<times> browser" where
  "get_stored_token b =
     (if js_truthy_str (session_get auth_token_key b) then (session_get auth_token_key b, b)
      else
        let legacy = or_else (local_get ''agenthive_token'' b)
                       (or_else (local_get ''access_token'' b) (local_get auth_token_key b))
        in if js_truthy_str legacy then
             (let b1 = session_set auth_token_key (the legacy) b;
                  legacy_user = local_get auth_user_key b1;
                  legacy_expiry = local_get auth_expires_key b1;
                  b2 = (if js_truthy_str legacy_user then session_set auth_user_key (the legacy_user) b1 else b1);
                  b3 = (if js_truthy_str legacy_expiry
                        then session_set auth_expires_key (the legacy_expiry) b2 else b2)
              in (legacy, remove_legacy_tokens b3))
           else (legacy, b))"

record auth_token =
  access_token :: string
  expires_at :: string
  token_user :: auth_user

definition auth_user_json :: "auth_user \<Rightarrow> jsval" where
  "auth_user_json u = JObj
     [(''id'', JStr (user_id u)), (''tenant_id'', JStr (user_tenant_id u)), (''email'', JStr (email u)),
      (''full_name'', opt_str (full_name u)), (''is_tenant_admin'', JBool (is_tenant_admin u)),
      (''is_super_admin'', JBool (is_super_admin u)),
      (''permissions'', JArr (map JStr (permissions u)))]"

definition save_auth_token :: "auth_token \<Rightarrow> browser \<Rightarrow> browser" where
  "save_auth_token auth b =
     remove_legacy_tokens
       (session_set auth_expires_key (expires_at auth)
         (session_set auth_user_key (stringify (auth_user_json (token_user auth)))
           (session_remove auth_token_key b)))"

definition get_stored_auth_user :: "browser \<Rightarrow> jsval option" where
  "get_stored_auth_user b =
     (case session_get auth_user_key b of
        None \<Rightarrow> None
      | Some raw \<Rightarrow> if raw = [] then None else json_parse raw)"

definition has_auth_session :: "browser \<Rightarrow> (exn + bool) \<times> browser" where
  "has_auth_session b =
     (let (token, b') = get_stored_token b in
      if js_truthy_str token then (Inr True, b')
      else if (case get_stored_auth_user b' of None \<Rightarrow> False | Some v \<Rightarrow> truthy v) then (Inr True, b')
      else (case get_cookie csrf_cookie_name b' of
              Inl e \<Rightarrow> (Inl e, b')
            | Inr c \<Rightarrow> (Inr (js_truthy_str c), b')))"

definition clear_auth_token :: "browser \<Rightarrow> browser" where
  "clear_auth_token b =
     remove_legacy_tokens (clear_csrf_cookie
       (session_remove auth_expires_key (session_remove auth_user_key (session_remove auth_token_key b))))"

section \<open>Prototype mode\<close>

definition prototype_mode_key :: string where
  "prototype_mode_key = ''agenthive.runtime.prototype_mode''"

text \<open>\<open>dev\<close> is the build constant \<open>import.meta.env.DEV\<close>.\<close>

definition get_stored_prototype_mode :: "bool \<Rightarrow> browser \<Rightarrow> bool" where
  "get_stored_prototype_mode dev b \<longleftrightarrow> dev \<and> session_get prototype_mode_key b = Some ''enabled''"

definition activate_prototype_mode :: "bool \<Rightarrow> browser \<Rightarrow> bool \<times> browser" where
  "activate_prototype_mode dev b =
     (if \<not> dev then (False, b) else (True, session_set prototype_mode_key ''enabled'' b))"

definition clear_prototype_mode :: "browser \<Rightarrow> browser" where
  "clear_prototype_mode b = session_remove prototype_mode_key b"

section \<open>What the operations do to each part\<close>

lemma remove_legacy_effects [session_simps]:
  "session_get k (remove_legacy_tokens b) = session_get k b"
  "cookies (remove_legacy_tokens b) = cookies b"
  "local_get k (remove_legacy_tokens b) =
     (if k \<in> {auth_token_key, ''agenthive_token'', ''access_token'', auth_user_key, auth_expires_key}
      then None else local_get k b)"
  by (simp_all add: remove_legacy_tokens_def session_simps)

lemma clear_csrf_effects [session_simps]:
  "session_get k (clear_csrf_cookie b) = session_get k b"
  "local_get k (clear_csrf_cookie b) = local_get k b"
  by (simp_all add: clear_csrf_cookie_def session_get_def local_get_def)

lemma js_truthy_str_simps [simp]:
  "\<not> js_truthy_str None" "js_truthy_str (Some s) \<longleftrightarrow> s \<noteq> []"
  by (simp_all add: js_truthy_str_def)

lemma stored_token_none:
  assumes "session_get auth_token_key b = None" "local_get ''agenthive_token'' b = None"
    "local_get ''access_token'' b = None" "local_get auth_token_key b = None"
  shows "get_stored_token b = (None, b)"
  using assms by (simp add: get_stored_token_def)

lemma plain_auth_user: "plain (auth_user_json u)"
  by (cases "full_name u") (simp_all add: auth_user_json_def list_all_iff)

lemma stringify_nonempty: "plain v \<Longrightarrow> stringify v \<noteq> []"
  by (erule stringify_hd) simp

section \<open>The cookie jar\<close>

text \<open>Names and values as browsers keep them: no separators, no blanks around.\<close>

definition cookie_jar_ok :: "browser \<Rightarrow> bool" where
  "cookie_jar_ok b \<longleftrightarrow>
     list_all (\<lambda>(n, v).
       (\<forall>c\<in>set n. c \<noteq> CHR '';'' \<and> c \<noteq> CHR ''='' \<and> \<not> is_space c) \<and>
       (\<forall>c\<in>set v. c \<noteq> CHR '';'' \<and> \<not> is_space c)) (cookies b)"

lemma trim_split_document_cookie:
  assumes "\<forall>x\<in>set xs. CHR '';'' \<notin> set x" "xs \<noteq> []"
  shows "map trim (split '';'' (join ''; '' xs)) = map trim xs"
  using assms
proof (induction xs)
  case (Cons x zs)
  show ?case
  proof (cases zs)
    case Nil
    with Cons.prems show ?thesis by (simp add: split_char_single)
  next
    case zs: (Cons y xs)
    have "join ''; '' (x # y # xs) = x @ CHR '';'' # CHR '' '' # join ''; '' (y # xs)" by simp
    moreover have "split '';'' (x @ CHR '';'' # CHR '' '' # join ''; '' (y # xs)) =
        x # split '';'' (CHR '' '' # join ''; '' (y # xs))"
      using Cons.prems by (intro split_char_Cons) simp
    moreover have "map trim (split '';'' (CHR '' '' # z)) = map trim (split '';'' z)" for z
    proof -
      have sp: "trim (CHR '' '' # w) = trim w" for w
        by (rule trim_Cons_space) (simp add: is_space_def)
      show ?thesis
        by (cases "break_on '';'' z") (auto simp: split.simps [of "'';''"] sp)
    qed
    ultimately show ?thesis using Cons zs by simp
  qed
qed simp

lemma first_cookie_trim: "first_cookie pre xs = first_cookie pre ys" if "map trim xs = map trim ys"
  using that
proof (induction xs arbitrary: ys)
  case (Cons x xs)
  then obtain y ys' where "ys = y # ys'" "trim x = trim y" "map trim xs = map trim ys'"
    by (cases ys) auto
  with Cons.IH [of ys'] show ?case by (simp add: Let_def)
qed simp

lemma csrf_name_encoded: "encode_uri_component csrf_cookie_name = csrf_cookie_name"
  by code_simp

lemma first_cookie_absent:
  "\<forall>x\<in>set xs. \<not> prefix pre (trim x) \<Longrightarrow> first_cookie pre xs = Inr None"
  by (induction xs) (simp_all add: Let_def)

lemma get_cookie_cleared:
  assumes "cookie_jar_ok b" "\<forall>(n, v)\<in>set (cookies b). n \<noteq> csrf_cookie_name"
  shows "get_cookie csrf_cookie_name b = Inr None"
proof -
  let ?xs = "map (\<lambda>(n, v). n @ ''='' @ v) (cookies b)"
  let ?pre = "csrf_cookie_name @ ''=''"
  have ok: "\<forall>x\<in>set ?xs. CHR '';'' \<notin> set x"
    using assms(1) by (fastforce simp: cookie_jar_ok_def list_all_iff)
  have no: "\<forall>x\<in>set ?xs. \<not> prefix ?pre (trim x)"
  proof
    fix x assume "x \<in> set ?xs"
    then obtain n v where x: "(n, v) \<in> set (cookies b)" "x = n @ ''='' @ v" by auto
    from bspec [OF assms(1) [unfolded cookie_jar_ok_def list_all_iff] x(1)]
    have n: "\<forall>c\<in>set n. c \<noteq> CHR ''='' \<and> \<not> is_space c" and v: "\<forall>c\<in>set v. \<not> is_space c"
      by simp_all
    from bspec [OF assms(2) x(1)] have ne: "n \<noteq> csrf_cookie_name" by simp
    have eq: "\<not> is_space (CHR ''='')" by (simp add: is_space_def)
    have "trim x = x"
    proof (rule trim_id, rule disjI2, rule conjI)
      show "\<not> is_space (hd x)" using n eq x(2) by (cases n) auto
      show "\<not> is_space (last x)" using v eq x(2) by (cases v rule: rev_cases) auto
    qed
    moreover have "\<not> prefix ?pre x"
    proof
      assume "prefix ?pre x"
      then obtain z where "csrf_cookie_name @ CHR ''='' # z = n @ CHR ''='' # v"
        using x(2) by (auto simp: prefix_def)
      moreover have "takeWhile (\<lambda>c. c \<noteq> CHR ''='') (m @ CHR ''='' # w) = m"
        if "\<forall>c\<in>set m. c \<noteq> CHR ''=''" for m w
        using that by (induction m) auto
      moreover have "\<forall>c\<in>set csrf_cookie_name. c \<noteq> CHR ''=''" by (simp add: csrf_cookie_name_def)
      moreover have "\<forall>c\<in>set n. c \<noteq> CHR ''=''" using n by blast
      ultimately have "csrf_cookie_name = n" by metis
      with ne show False by simp
    qed
    ultimately show "\<not> prefix ?pre (trim x)" by simp
  qed
  show ?thesis
  proof (cases "?xs = []")
    case True
    then show ?thesis
      by (simp add: get_cookie_def document_cookie_def csrf_name_encoded split_char_single
          csrf_cookie_name_def)
  next
    case False
    have "first_cookie ?pre (split '';'' (join ''; '' ?xs)) = first_cookie ?pre ?xs"
      by (rule first_cookie_trim) (rule trim_split_document_cookie [OF ok False])
    also have "\<dots> = Inr None" by (rule first_cookie_absent [OF no])
    finally show ?thesis by (simp add: get_cookie_def document_cookie_def csrf_name_encoded)
  qed
qed

section \<open>Reading a user back\<close>

text \<open>
  The code casts the stored JSON to \<open>AuthUser\<close>; the model reads it field by field.  Everything the
  application itself stores reads back to the user it stored.
\<close>

definition json_str :: "jsval \<Rightarrow> string option" where
  "json_str v = (case v of JStr s \<Rightarrow> Some s | _ \<Rightarrow> None)"

definition json_strs :: "jsval \<Rightarrow> string list option" where
  "json_strs v = (case v of JArr vs \<Rightarrow> those (map json_str vs) | _ \<Rightarrow> None)"

definition auth_user_of_json :: "jsval \<Rightarrow> auth_user option" where
  "auth_user_of_json v =
     (case (json_str (get_prop ''id'' v), json_str (get_prop ''tenant_id'' v),
            json_str (get_prop ''email'' v), json_strs (get_prop ''permissions'' v)) of
        (Some i, Some t, Some e, Some ps) \<Rightarrow>
          Some \<lparr>user_id = i, user_tenant_id = t, email = e, full_name = json_str (get_prop ''full_name'' v),
            is_tenant_admin = truthy (get_prop ''is_tenant_admin'' v),
            is_super_admin = truthy (get_prop ''is_super_admin'' v), permissions = ps\<rparr>
      | _ \<Rightarrow> None)"

lemma those_json_str [simp]: "those (map json_str (map JStr ss)) = Some ss"
  by (induction ss) (simp_all add: json_str_def)

lemma auth_user_of_json_inverse [simp]: "auth_user_of_json (auth_user_json u) = Some u"
  using those_json_str [of "permissions u"]
  by (cases "full_name u")
     (simp_all add: auth_user_of_json_def auth_user_json_def json_str_def json_strs_def comp_def)

lemma cleared_has_no_session:
  assumes "cookie_jar_ok b"
  shows "has_auth_session (clear_auth_token b) = (Inr False, clear_auth_token b)"
proof -
  let ?b = "clear_auth_token b"
  have "get_stored_token ?b = (None, ?b)"
    by (rule stored_token_none) (simp_all add: clear_auth_token_def session_simps)
  moreover have "get_stored_auth_user ?b = None"
    by (simp add: get_stored_auth_user_def clear_auth_token_def session_simps)
  moreover have "get_cookie csrf_cookie_name ?b = Inr None"
  proof (rule get_cookie_cleared)
    have "cookies ?b = filter (\<lambda>(n, v). n \<noteq> csrf_cookie_name) (cookies b)"
      by (simp add: clear_auth_token_def session_simps clear_csrf_cookie_def csrf_name_encoded)
    then show "cookie_jar_ok ?b" "\<forall>(n, v)\<in>set (cookies ?b). n \<noteq> csrf_cookie_name"
      using assms by (auto simp: cookie_jar_ok_def list_all_iff)
  qed
  ultimately show ?thesis by (simp add: has_auth_session_def)
qed

section \<open>Properties\<close>

text \<open>
  C3: Saving a sign-in keeps the bearer token out of script-readable storage and the user in it:
  afterwards no token is found anywhere, old or new, and the stored user reads back exactly.
\<close>

theorem save_auth_token_spec:
  "get_stored_token (save_auth_token auth b) = (None, save_auth_token auth b)
   \<and> get_stored_auth_user (save_auth_token auth b) = Some (auth_user_json (token_user auth))
   \<and> auth_user_of_json (auth_user_json (token_user auth)) = Some (token_user auth)"
proof (intro conjI)
  show "get_stored_token (save_auth_token auth b) = (None, save_auth_token auth b)"
    by (rule stored_token_none) (simp_all add: save_auth_token_def session_simps)
  have "session_get auth_user_key (save_auth_token auth b)
      = Some (stringify (auth_user_json (token_user auth)))"
    by (simp add: save_auth_token_def session_simps)
  then show "get_stored_auth_user (save_auth_token auth b) = Some (auth_user_json (token_user auth))"
    using plain_auth_user
    by (simp add: get_stored_auth_user_def json_parse_stringify stringify_nonempty)
qed simp

text \<open>
  Signing out ends the session as far as the page can tell: after \<open>clearAuthToken\<close> neither a
  token (current or legacy), nor a stored user, nor the CSRF cookie is left, so \<open>hasAuthSession\<close>
  answers no, without an exception and without touching the storage again.
\<close>

theorem clear_auth_token_ends_session:
  assumes "cookie_jar_ok b"
  shows "has_auth_session (clear_auth_token b) = (Inr False, clear_auth_token b)"
  using assms by (rule cleared_has_no_session)

definition signed_in_browser :: browser where
  "signed_in_browser = \<lparr>session_storage = Map.empty,
     local_storage = [''access_token'' \<mapsto> ''legacy''],
     cookies = [(''agenthive_csrf'', ''abc''), (''theme'', ''dark'')]\<rparr>"

lemma clear_auth_token_ends_session_witness:
  "has_auth_session (clear_auth_token signed_in_browser) = (Inr False, clear_auth_token signed_in_browser)"
  by (rule clear_auth_token_ends_session) code_simp

text \<open>
  Reading the token migrates a legacy one once: a second read answers the same and changes
  nothing, and when a token was moved from \<open>localStorage\<close> no token is left there.
\<close>

lemma get_stored_token_idempotent:
  "case get_stored_token b of
     (t, b') \<Rightarrow> get_stored_token b' = (t, b') \<and>
       (b' \<noteq> b \<longrightarrow> js_truthy_str t \<and> session_get auth_token_key b' = t \<and>
          local_get auth_token_key b' = None \<and> local_get ''agenthive_token'' b' = None \<and>
          local_get ''access_token'' b' = None)"
proof (cases "js_truthy_str (session_get auth_token_key b)")
  case True
  then show ?thesis by (simp add: get_stored_token_def)
next
  case False
  define legacy where "legacy = or_else (local_get ''agenthive_token'' b)
                       (or_else (local_get ''access_token'' b) (local_get auth_token_key b))"
  show ?thesis
  proof (cases "js_truthy_str legacy")
    case True
    then have "session_get auth_token_key (snd (get_stored_token b)) = legacy"
      "fst (get_stored_token b) = legacy"
      "local_get auth_token_key (snd (get_stored_token b)) = None"
      "local_get ''agenthive_token'' (snd (get_stored_token b)) = None"
      "local_get ''access_token'' (snd (get_stored_token b)) = None"
      using False
      by (auto simp: get_stored_token_def legacy_def [symmetric] Let_def session_simps js_truthy_str_def)
    with True show ?thesis
      by (cases "get_stored_token b") (simp add: get_stored_token_def)
  next
    case nolegacy: False
    with False show ?thesis
      by (simp add: get_stored_token_def legacy_def [symmetric])
  qed
qed

end
