(* ===== verification/Transitions.thy ===== *)
theory Transitions
  imports Main
begin

text \<open>
  The contracts the stateful components share.  \<open>event_system\<close>: a component that answers
  events keeps its invariant along every sequence of them.  \<open>settling\<close>: effects that re-run until
  nothing changes come to rest after as many runs as their rank allows.  \<open>refinement\<close>: a component
  whose steps commute with an abstraction to a specification follows it along every sequence of
  admissible events.
\<close>

locale event_system =
  fixes init :: "'s \<Rightarrow> bool"
    and step :: "'e \<Rightarrow> 's \<Rightarrow> 's"
    and inv :: "'s \<Rightarrow> bool"
  assumes inv_init: "init s \<Longrightarrow> inv s"
    and inv_step: "inv s \<Longrightarrow> inv (step e s)"
begin

lemma inv_run: "inv s \<Longrightarrow> inv (fold step es s)"
  by (induction es arbitrary: s) (simp_all add: inv_step)

lemma inv_reachable: "init s \<Longrightarrow> inv (fold step es s)"
  by (rule inv_run [OF inv_init])

end

locale settling =
  fixes step :: "'s \<Rightarrow> 's"
    and ready :: "'s \<Rightarrow> bool"
    and settled :: "'s \<Rightarrow> bool"
    and rank :: "'s \<Rightarrow> nat"
  assumes ready_step: "ready s \<Longrightarrow> ready (step s)"
    and descends: "ready s \<Longrightarrow> \<not> settled s \<Longrightarrow> rank (step s) < rank s"
    and rests: "ready s \<Longrightarrow> settled s \<Longrightarrow> step s = s"
begin

lemma ready_iterated: "ready s \<Longrightarrow> ready ((step ^^ n) s)"
  by (induction n) (simp_all add: ready_step)

lemma settled_stays: "ready s \<Longrightarrow> settled s \<Longrightarrow> (step ^^ n) s = s"
  by (induction n) (simp_all add: rests)

lemma settles: "ready s \<Longrightarrow> rank s \<le> n \<Longrightarrow> settled ((step ^^ n) s)"
proof (induction n arbitrary: s)
  case 0
  then show ?case using descends [of s] by fastforce
next
  case (Suc n)
  show ?case
  proof (cases "settled s")
    case True
    with Suc.prems(1) show ?thesis by (simp add: settled_stays del: funpow.simps)
  next
    case False
    with Suc.prems have "rank (step s) \<le> n" using descends [of s] by linarith
    with Suc.IH [OF ready_step [OF Suc.prems(1)]] show ?thesis
      by (simp add: funpow_swap1)
  qed
qed

end

locale refinement =
  fixes abs :: "'s \<Rightarrow> 'a"
    and step :: "'e \<Rightarrow> 's \<Rightarrow> 's"
    and spec :: "'e \<Rightarrow> 'a \<Rightarrow> 'a"
    and ok :: "'s \<Rightarrow> bool"
    and admissible :: "'e \<Rightarrow> bool"
  assumes ok_step: "ok s \<Longrightarrow> admissible e \<Longrightarrow> ok (step e s)"
    and commutes: "ok s \<Longrightarrow> admissible e \<Longrightarrow> abs (step e s) = spec e (abs s)"
begin

lemma run_ok: "ok s \<Longrightarrow> list_all admissible es \<Longrightarrow> ok (fold step es s)"
  by (induction es arbitrary: s) (simp_all add: ok_step)

lemma run_refines: "ok s \<Longrightarrow> list_all admissible es \<Longrightarrow> abs (fold step es s) = fold spec es (abs s)"
  by (induction es arbitrary: s) (simp_all add: ok_step commutes)

end

end
