(* ===== verification/App_Shell.thy ===== *)
theory App_Shell
  imports Workspaces Session Transitions
begin

text \<open>
  The application shell, \<open>App.tsx\<close>: the start-up probe (setup status, then refresh), the six
  authentication states and what moves between them, and the navigation state with the three
  effects that keep the page on screen one the user may see.

  A state of the model is the React state of \<open>App\<close> with the browser storage it reads and writes
  and the start-up request that is in flight.  \<open>app_step\<close> is one event; \<open>run_effects\<close> is one commit
  of the three navigation effects, each reading the state as rendered and their updates applied
  in order.  A response that arrives after its effect was cleaned up is ignored, as the
  \<open>cancelled\<close> flag does.
\<close>

section \<open>State\<close>

datatype auth_state = Checking | Unavailable | Setup | Login | Authenticated | Prototype

record setup_status =
  initialized :: bool
  tenant_count :: int
  setup_available :: bool
  setup_message :: "string option"
  diagnostics :: jsval

datatype probe = Await_Status | Await_Refresh

record app =
  active :: page
  active_ws :: workspace
  bootstrapped :: bool
  auth_phase :: auth_state
  shell_user :: "auth_user option"
  auth_error :: "string option"
  setup_info :: "setup_status option"
  probe_pending :: "probe option"
  browser_state :: browser

record app_env = \<comment> \<open>build constant and the two messages of the current locale\<close>
  dev_build :: bool
  msg_session_expired :: string
  msg_setup_failed :: string

definition enter :: "auth_state \<Rightarrow> app \<Rightarrow> app" where
  \<comment> \<open>\<open>setAuthState\<close>: leaving \<open>checking\<close> cancels its request, entering it starts one\<close>
  "enter st s =
     s\<lparr>auth_phase := st,
       probe_pending := (if st = Checking then
           (if auth_phase s = Checking then probe_pending s else Some Await_Status) else None)\<rparr>"

definition read_user :: "browser \<Rightarrow> auth_user option" where
  "read_user b = Option.bind (get_stored_auth_user b) auth_user_of_json"

definition app_init :: "app_env \<Rightarrow> browser \<Rightarrow> app" where
  "app_init env b =
     (let proto = get_stored_prototype_mode (dev_build env) b in
      \<lparr>active = DigitalEmployees,
       active_ws = coalesce (stored_workspace_preference (Some (local_storage b))) UserWs,
       bootstrapped = False,
       auth_phase = (if proto then Prototype else Checking),
       shell_user = read_user b, auth_error = None, setup_info = None,
       probe_pending = (if proto then None else Some Await_Status),
       browser_state = b\<rparr>)"

section \<open>What the state shows\<close>

definition is_prototype :: "app \<Rightarrow> bool" where
  "is_prototype s \<longleftrightarrow> auth_phase s = Prototype"

definition app_vis :: "app \<Rightarrow> visibility" where
  "app_vis s = (\<lambda>i w. nav_item_visible i w (shell_user s) (is_prototype s))"

definition permitted_items :: "app \<Rightarrow> nav_item list" where
  "permitted_items s =
     (if is_prototype s then nav_items else filter_by_permission nav_requirement nav_items (shell_user s))"

definition visible_items :: "app \<Rightarrow> nav_item list" where
  "visible_items s = filter (\<lambda>i. app_vis s i (active_ws s)) (permitted_items s)"

definition app_workspaces :: "app \<Rightarrow> workspace list" where
  "app_workspaces s = accessible_workspaces (permitted_items s) (Some (app_vis s))"

definition can_render :: "app \<Rightarrow> bool" where \<comment> \<open>\<open>canRenderActivePage\<close>\<close>
  "can_render s \<longleftrightarrow>
     (is_prototype s \<or>
      can_access_requirement (shell_user s) (map_option nav_requirement (find_nav nav_items (active s)))) \<and>
     list_ex (\<lambda>i. nav_id i = active s) (visible_items s)"

datatype screen =
    Checking_Screen
  | Setup_Screen
  | Unavailable_Screen
  | Login_Screen
  | No_Workspace_Screen
  | Loading_Screen
  | Page_Screen page

definition screen_of :: "app \<Rightarrow> screen" where
  "screen_of s =
     (case auth_phase s of
        Checking \<Rightarrow> Checking_Screen
      | Setup \<Rightarrow> Setup_Screen
      | Unavailable \<Rightarrow> Unavailable_Screen
      | Login \<Rightarrow> Login_Screen
      | Authenticated \<Rightarrow>
          if visible_items s = [] then No_Workspace_Screen
          else if \<not> can_render s then Loading_Screen
          else Page_Screen (active s)
      | Prototype \<Rightarrow> Page_Screen (active s))"

section \<open>Navigation\<close>

definition set_active_workspace :: "workspace \<Rightarrow> app \<Rightarrow> app" where
  "set_active_workspace w s =
     s\<lparr>active_ws := w,
       browser_state := local_set workspace_storage_key (workspace_string w) (browser_state s)\<rparr>"

definition navigate_to_page :: "page \<Rightarrow> app \<Rightarrow> app" where
  "navigate_to_page p s =
     (let resolved = resolve_chat_page p (permitted_items s) (app_vis s);
          target = workspace_for_page (permitted_items s) resolved (active_ws s) (Some (app_vis s));
          s1 = (if target \<noteq> active_ws s then set_active_workspace target s else s)
      in s1\<lparr>active := resolved\<rparr>)"

definition live :: "app \<Rightarrow> bool" where
  "live s \<longleftrightarrow> auth_phase s = Authenticated \<or> auth_phase s = Prototype"

definition bootstrap_effect :: "app \<Rightarrow> app \<Rightarrow> app" where
  "bootstrap_effect r s =
     (if \<not> live r \<or> bootstrapped r then s
      else
        let s1 = s\<lparr>bootstrapped := True\<rparr> in
        case preferred_workspace (Some (local_storage (browser_state r))) (permitted_items r) (Some (app_vis r)) of
          None \<Rightarrow> s1
        | Some w \<Rightarrow>
            (set_active_workspace w s1)
              \<lparr>active := first_visible_page (permitted_items r) w (Some (app_vis r))\<rparr>)"

definition page_effect :: "app \<Rightarrow> app \<Rightarrow> app" where
  "page_effect r s =
     (if \<not> live r \<or> can_render r then s
      else
        let resolved = resolve_chat_page (active r) (permitted_items r) (app_vis r) in
        if resolved \<noteq> active r then s\<lparr>active := resolved\<rparr>
        else
          let fallback = first_visible_page (permitted_items r) (active_ws r) (Some (app_vis r)) in
          if active r \<noteq> fallback then s\<lparr>active := fallback\<rparr> else s)"

definition workspace_effect :: "app \<Rightarrow> app \<Rightarrow> app" where
  "workspace_effect r s =
     (if \<not> live r then s
      else case app_workspaces r of
             [] \<Rightarrow> s
           | w # _ \<Rightarrow> if visible_items r \<noteq> [] then s else set_active_workspace w s)"

definition run_effects :: "app \<Rightarrow> app" where
  "run_effects s = workspace_effect s (page_effect s (bootstrap_effect s s))"

section \<open>Authentication\<close>

definition status_failed :: "app_env \<Rightarrow> exn \<Rightarrow> app \<Rightarrow> app" where
  "status_failed env e s =
     enter Unavailable (s\<lparr>setup_info := None, auth_error := Some (exn_message e (msg_setup_failed env))\<rparr>)"

definition signed_out :: "app \<Rightarrow> app" where
  "signed_out s = s\<lparr>browser_state := clear_auth_token (browser_state s), shell_user := None\<rparr>"

definition status_loaded :: "app_env \<Rightarrow> setup_status \<Rightarrow> app \<Rightarrow> app" where
  "status_loaded env st s0 =
     (let s = s0\<lparr>setup_info := Some st\<rparr> in
      if \<not> setup_available st then
        enter Setup ((signed_out s)\<lparr>auth_error :=
          Some (if js_truthy_str (setup_message st) then the (setup_message st) else msg_setup_failed env)\<rparr>)
      else if \<not> initialized st then enter Setup ((signed_out s)\<lparr>auth_error := None\<rparr>)
      else (case has_auth_session (browser_state s) of
              (Inl e, b) \<Rightarrow> status_failed env e (s\<lparr>browser_state := b\<rparr>)
            | (Inr True, b) \<Rightarrow> s\<lparr>browser_state := b, probe_pending := Some Await_Refresh\<rparr>
            | (Inr False, b) \<Rightarrow> enter Login (s\<lparr>browser_state := b, auth_error := None\<rparr>)))"

definition refreshed :: "auth_token \<Rightarrow> app \<Rightarrow> app" where
  "refreshed auth s =
     enter Authenticated
       (s\<lparr>browser_state := save_auth_token auth (browser_state s),
          shell_user := Some (token_user auth), auth_error := None\<rparr>)"

definition refresh_failed :: "app_env \<Rightarrow> exn \<Rightarrow> app \<Rightarrow> app" where
  "refresh_failed env e s =
     enter Login ((signed_out s)\<lparr>auth_error := Some (exn_message e (msg_session_expired env))\<rparr>)"

definition session_expired :: "app_env \<Rightarrow> app \<Rightarrow> app" where
  "session_expired env s =
     enter Login (s\<lparr>browser_state := clear_prototype_mode (browser_state s), shell_user := None,
       auth_error := Some (msg_session_expired env)\<rparr>)"

definition authenticate :: "app \<Rightarrow> app" where
  "authenticate s =
     (let b = clear_prototype_mode (browser_state s) in
      enter Authenticated
        (s\<lparr>browser_state := b, auth_error := None, shell_user := read_user b, bootstrapped := False\<rparr>))"

definition use_prototype_mode :: "app_env \<Rightarrow> app \<Rightarrow> app" where
  "use_prototype_mode env s =
     (case activate_prototype_mode (dev_build env) (browser_state s) of
        (False, _) \<Rightarrow> s
      | (True, b) \<Rightarrow>
          enter Prototype
            (s\<lparr>browser_state := b, auth_error := None, shell_user := None, bootstrapped := False\<rparr>))"

definition finish_logout :: "app \<Rightarrow> app" where
  "finish_logout s =
     enter Login
       (s\<lparr>browser_state := clear_auth_token (clear_prototype_mode (browser_state s)),
          shell_user := None, bootstrapped := False\<rparr>)"

definition logout :: "app \<Rightarrow> app" where
  \<comment> \<open>with a session the server is told first and \<open>Logout_Settled\<close> finishes; an exception is not caught\<close>
  "logout s =
     (case has_auth_session (browser_state s) of
        (Inl _, b) \<Rightarrow> s\<lparr>browser_state := b\<rparr>
      | (Inr True, b) \<Rightarrow> s\<lparr>browser_state := b\<rparr>
      | (Inr False, b) \<Rightarrow> finish_logout (s\<lparr>browser_state := b\<rparr>))"

section \<open>Events\<close>

datatype app_event =
    Status_Loaded setup_status
  | Status_Failed exn
  | Refreshed auth_token
  | Refresh_Failed exn
  | Session_Expired
  | Signed_In auth_token
      \<comment> \<open>the sign-in or set-up page, still open, saved its answer and called \<open>onComplete\<close>; an answer that comes after
          the page was left for the prototype of a development build is not modelled\<close>
  | Use_Prototype
  | Logout
  | Logout_Settled
  | Retry_Setup
  | Navigate page
  | Set_Active page
  | Set_Workspace workspace
  | Effects

definition app_step :: "app_env \<Rightarrow> app_event \<Rightarrow> app \<Rightarrow> app" where
  "app_step env e s =
     (case e of
        Status_Loaded st \<Rightarrow> if probe_pending s = Some Await_Status then status_loaded env st s else s
      | Status_Failed x \<Rightarrow> if probe_pending s = Some Await_Status then status_failed env x s else s
      | Refreshed a \<Rightarrow> if probe_pending s = Some Await_Refresh then refreshed a s else s
      | Refresh_Failed x \<Rightarrow> if probe_pending s = Some Await_Refresh then refresh_failed env x s else s
      | Session_Expired \<Rightarrow> session_expired env s
      | Signed_In a \<Rightarrow>
          if auth_phase s = Login \<or> auth_phase s = Setup
          then authenticate (s\<lparr>browser_state := save_auth_token a (browser_state s)\<rparr>) else s
      | Use_Prototype \<Rightarrow> if auth_phase s = Login \<or> auth_phase s = Setup then use_prototype_mode env s else s
      | Logout \<Rightarrow> if live s then logout s else s
      | Logout_Settled \<Rightarrow> finish_logout s
      | Retry_Setup \<Rightarrow> if auth_phase s = Unavailable then enter Checking (s\<lparr>auth_error := None\<rparr>) else s
      | Navigate p \<Rightarrow> if live s then navigate_to_page p s else s
      | Set_Active p \<Rightarrow> if live s then s\<lparr>active := p\<rparr> else s
      | Set_Workspace w \<Rightarrow> if live s then set_active_workspace w s else s
      | Effects \<Rightarrow> run_effects s)"

section \<open>The invariant\<close>

definition tokenless :: "browser \<Rightarrow> bool" where
  "tokenless b \<longleftrightarrow>
     session_get auth_token_key b = None \<and> local_get ''agenthive_token'' b = None \<and>
     local_get ''access_token'' b = None \<and> local_get auth_token_key b = None"

definition app_inv :: "app_env \<Rightarrow> app \<Rightarrow> bool" where
  "app_inv env s \<longleftrightarrow>
     (auth_phase s = Prototype \<longrightarrow> dev_build env) \<and>
     (probe_pending s \<noteq> None \<longleftrightarrow> auth_phase s = Checking) \<and>
     (auth_phase s = Authenticated \<longrightarrow> shell_user s \<noteq> None \<and> tokenless (browser_state s))"

lemma tokenless_frames [simp]:
  "tokenless (save_auth_token a b)"
  "tokenless b \<Longrightarrow> tokenless (clear_prototype_mode b)"
  "tokenless b \<Longrightarrow> tokenless (local_set workspace_storage_key v b)"
  by (auto simp: tokenless_def save_auth_token_def clear_prototype_mode_def session_simps
      prototype_mode_key_def workspace_storage_key_def auth_token_key_def auth_user_key_def
      auth_expires_key_def)

lemma tokenless_has_session: "tokenless b \<Longrightarrow> snd (has_auth_session b) = b"
  by (simp add: has_auth_session_def stored_token_none tokenless_def split: option.splits sum.splits)

lemma read_user_after_save: "read_user (clear_prototype_mode (save_auth_token a b)) = Some (token_user a)"
proof -
  have "get_stored_auth_user (clear_prototype_mode (save_auth_token a b)) =
        get_stored_auth_user (save_auth_token a b)"
    by (simp add: get_stored_auth_user_def clear_prototype_mode_def session_simps
        prototype_mode_key_def auth_user_key_def)
  moreover have "get_stored_auth_user (save_auth_token a b) = Some (auth_user_json (token_user a))"
    using plain_auth_user
    by (simp add: get_stored_auth_user_def save_auth_token_def session_simps
        json_parse_stringify stringify_nonempty)
  ultimately show ?thesis by (simp add: read_user_def)
qed

lemma set_active_workspace_frames [simp]:
  "auth_phase (set_active_workspace w s) = auth_phase s"
  "probe_pending (set_active_workspace w s) = probe_pending s"
  "shell_user (set_active_workspace w s) = shell_user s"
  "active (set_active_workspace w s) = active s"
  "active_ws (set_active_workspace w s) = w"
  "bootstrapped (set_active_workspace w s) = bootstrapped s"
  by (simp_all add: set_active_workspace_def)

lemma tokenless_set_active_workspace [simp]:
  "tokenless (browser_state s) \<Longrightarrow> tokenless (browser_state (set_active_workspace w s))"
  by (simp add: set_active_workspace_def)

text \<open>The navigation operations touch neither the sign-in nor the tokens.\<close>

definition nav_frame :: "app \<Rightarrow> app \<Rightarrow> bool" where
  "nav_frame s s' \<longleftrightarrow>
     auth_phase s' = auth_phase s \<and> probe_pending s' = probe_pending s \<and>
     shell_user s' = shell_user s \<and>
     (tokenless (browser_state s) \<longrightarrow> tokenless (browser_state s'))"

lemma nav_frame_inv: "nav_frame s s' \<Longrightarrow> app_inv env s \<Longrightarrow> app_inv env s'"
  by (simp add: nav_frame_def app_inv_def)

lemma nav_frame_intros:
  "nav_frame s (navigate_to_page p s)"
  "nav_frame s (set_active_workspace w s)"
  "nav_frame s (s\<lparr>active := p\<rparr>)"
  by (simp_all add: nav_frame_def navigate_to_page_def Let_def)

lemma nav_frame_run_effects: "nav_frame s (run_effects s)"
  by (auto simp: nav_frame_def run_effects_def workspace_effect_def page_effect_def
      bootstrap_effect_def Let_def split: list.splits option.splits)

lemma app_inv_step:
  assumes "app_inv env s"
  shows "app_inv env (app_step env e s)"
proof (cases e)
  case (Status_Loaded st)
  with assms show ?thesis
    by (auto simp: app_step_def app_inv_def status_loaded_def status_failed_def signed_out_def
        enter_def Let_def split: prod.splits sum.splits bool.splits)
next
  case Logout
  show ?thesis
  proof (cases "live s")
    case True
    obtain r b where rb: "has_auth_session (browser_state s) = (r, b)" by force
    with assms tokenless_has_session [of "browser_state s"] True
    have "auth_phase s = Authenticated \<Longrightarrow> b = browser_state s"
      by (simp add: app_inv_def)
    with assms Logout rb True show ?thesis
      by (auto simp: app_step_def app_inv_def logout_def finish_logout_def enter_def live_def
          split: sum.splits bool.splits)
  qed (use assms Logout in \<open>simp add: app_step_def\<close>)
next
  case (Navigate p)
  with assms show ?thesis
    by (simp add: app_step_def nav_frame_inv [OF nav_frame_intros(1) assms])
next
  case (Set_Active p)
  with assms show ?thesis
    by (simp add: app_step_def nav_frame_inv [OF nav_frame_intros(3) assms])
next
  case (Set_Workspace w)
  with assms show ?thesis
    by (simp add: app_step_def nav_frame_inv [OF nav_frame_intros(2) assms])
next
  case Effects
  with assms show ?thesis
    by (simp add: app_step_def nav_frame_inv [OF nav_frame_run_effects assms])
next
  case (Signed_In a)
  with assms show ?thesis
    by (simp add: app_step_def app_inv_def authenticate_def enter_def Let_def read_user_after_save)
next
  case Use_Prototype
  with assms show ?thesis
    by (auto simp: app_step_def app_inv_def use_prototype_mode_def activate_prototype_mode_def enter_def)
qed (use assms in \<open>auto simp: app_step_def app_inv_def status_failed_def refreshed_def refresh_failed_def
       session_expired_def finish_logout_def signed_out_def enter_def\<close>)

interpretation shell: event_system "\<lambda>s. \<exists>b. s = app_init env b" "app_step env" "app_inv env"
  for env :: app_env
proof
  show "\<exists>b. s = app_init env b \<Longrightarrow> app_inv env s" for s
    by (auto simp: app_init_def app_inv_def Let_def get_stored_prototype_mode_def split: if_splits)
qed (rule app_inv_step)

section \<open>Coming to rest\<close>

lemma nav_ids_distinct: "distinct (map nav_id nav_items)"
  by (simp add: nav_items_def)

lemma permitted_items_in: "i \<in> set (permitted_items s) \<Longrightarrow>
  i \<in> set nav_items \<and> (is_prototype s \<or> can_access_requirement (shell_user s) (Some (nav_requirement i)))"
  by (auto simp: permitted_items_def filter_by_permission_def split: if_splits)

lemma find_nav_unique: "i \<in> set nav_items \<Longrightarrow> find_nav nav_items (nav_id i) = Some i"
proof -
  assume i: "i \<in> set nav_items"
  then obtain j where j: "find_nav nav_items (nav_id i) = Some j"
    unfolding find_nav_def using find_Some_ex [OF i, of "\<lambda>j. nav_id j = nav_id i"] by auto
  then have "nav_id j = nav_id i" "j \<in> set nav_items" by (auto dest: nav_id_find_nav)
  with i nav_ids_distinct have "j = i" by (auto simp: distinct_map inj_on_def)
  with j show ?thesis by simp
qed

lemma can_render_iff: "can_render s \<longleftrightarrow> (\<exists>i\<in>set (visible_items s). nav_id i = active s)"
proof
  assume "\<exists>i\<in>set (visible_items s). nav_id i = active s"
  then obtain i where i: "i \<in> set (visible_items s)" "nav_id i = active s" by blast
  then have "i \<in> set (permitted_items s)" by (simp add: visible_items_def)
  then have "find_nav nav_items (active s) = Some i"
    "is_prototype s \<or> can_access_requirement (shell_user s) (Some (nav_requirement i))"
    using permitted_items_in find_nav_unique i(2) by metis+
  with i show "can_render s" by (auto simp: can_render_def list_ex_iff)
qed (auto simp: can_render_def list_ex_iff)

lemma nav_view_congs:
  assumes "auth_phase s' = auth_phase s" "shell_user s' = shell_user s"
  shows "permitted_items s' = permitted_items s" "app_vis s' = app_vis s"
    "app_workspaces s' = app_workspaces s" "live s' = live s"
  using assms
  by (simp_all add: permitted_items_def app_vis_def is_prototype_def app_workspaces_def live_def)

lemma app_workspaces_iff:
  "w \<in> set (app_workspaces s) \<longleftrightarrow> (\<exists>i\<in>set (permitted_items s). app_vis s i w)"
  unfolding app_workspaces_def app_vis_def
  using user_view.accessible_iff by (simp add: item_visible_def)

lemma visible_nonempty_iff: "visible_items s \<noteq> [] \<longleftrightarrow> active_ws s \<in> set (app_workspaces s)"
  by (auto simp: app_workspaces_iff visible_items_def filter_empty_conv)

lemma first_page_renders:
  assumes "active_ws s \<in> set (app_workspaces s)"
    and "active s = first_visible_page (permitted_items s) (active_ws s) (Some (app_vis s))"
  shows "can_render s"
proof -
  have "active_ws s \<in> set (accessible_workspaces (permitted_items s) (Some (app_vis s)))"
    using assms(1) by (simp add: app_workspaces_def)
  then obtain i where "i \<in> set (permitted_items s)" "nav_id i = active s" "app_vis s i (active_ws s)"
    using user_view.first_visible_page_visible [of "active_ws s" "permitted_items s"] assms(2)
    unfolding app_vis_def item_visible_def by auto
  then show ?thesis by (auto simp: can_render_iff visible_items_def)
qed

lemma resolve_digital [simp]: "resolve_chat_page DigitalEmployees items vis = DigitalEmployees"
  by (simp add: resolve_chat_page_def)

lemma resolve_idem [simp]:
  "resolve_chat_page (resolve_chat_page p items vis) items vis = resolve_chat_page p items vis"
  by (simp add: resolve_chat_page_def)

definition settle_rank :: "app \<Rightarrow> nat" where
  "settle_rank s =
     (if \<not> bootstrapped s then 4
      else if can_render s then 0
      else if visible_items s = [] then 3
      else if resolve_chat_page (active s) (permitted_items s) (app_vis s) \<noteq> active s then 2
      else 1)"

definition can_settle :: "app \<Rightarrow> bool" where
  "can_settle s \<longleftrightarrow> live s \<and> app_workspaces s \<noteq> []"

lemma run_effects_view:
  "permitted_items (run_effects s) = permitted_items s" "app_vis (run_effects s) = app_vis s"
  "app_workspaces (run_effects s) = app_workspaces s" "live (run_effects s) = live s"
  by (rule nav_view_congs, use nav_frame_run_effects [of s] in \<open>simp_all add: nav_frame_def\<close>)+

lemma run_effects_bootstrapped:
  assumes "live s" "bootstrapped s"
  shows "run_effects s = workspace_effect s (page_effect s s)"
  using assms by (simp add: run_effects_def bootstrap_effect_def)

lemma bootstrapped_effects:
  "bootstrapped (workspace_effect r s) = bootstrapped s"
  "bootstrapped (page_effect r s) = bootstrapped s"
  "live r \<Longrightarrow> bootstrapped r \<or> bootstrapped (bootstrap_effect r s)"
  by (simp_all add: workspace_effect_def page_effect_def bootstrap_effect_def Let_def
      split: list.split option.split)

lemma bootstrapped_run_effects: "live s \<Longrightarrow> bootstrapped (run_effects s)"
  using bootstrapped_effects(3) [of s s]
  by (auto simp: run_effects_def bootstrapped_effects bootstrap_effect_def)

lemma settle_rank_le_3: "bootstrapped s \<Longrightarrow> settle_rank s \<le> 3"
  by (simp add: settle_rank_def)

lemma effects_active_ws:
  assumes "can_settle s" "bootstrapped s"
  shows "active_ws (run_effects s) = (if visible_items s = [] then hd (app_workspaces s) else active_ws s)"
  using assms
  by (simp add: can_settle_def run_effects_bootstrapped workspace_effect_def page_effect_def Let_def
      split: list.split)

lemma effects_active:
  assumes "can_settle s" "bootstrapped s" "\<not> can_render s"
  shows "active (run_effects s) =
    (let resolved = resolve_chat_page (active s) (permitted_items s) (app_vis s) in
     if resolved \<noteq> active s then resolved
     else first_visible_page (permitted_items s) (active_ws s) (Some (app_vis s)))"
  using assms
  by (simp add: can_settle_def run_effects_bootstrapped workspace_effect_def page_effect_def Let_def
      split: list.split)

lemma can_render_visible: "can_render s \<Longrightarrow> visible_items s \<noteq> []"
  by (auto simp: can_render_iff)

interpretation shell_effects: settling run_effects can_settle
  "\<lambda>s. bootstrapped s \<and> can_render s" settle_rank
proof
  fix s assume ready: "can_settle s"
  then have live: "live s" by (simp add: can_settle_def)
  show "can_settle (run_effects s)"
    using ready by (simp add: can_settle_def run_effects_view)
  show "bootstrapped s \<and> can_render s \<Longrightarrow> run_effects s = s"
    using live can_render_visible [of s]
    by (simp add: run_effects_bootstrapped workspace_effect_def page_effect_def split: list.split)
  show "settle_rank (run_effects s) < settle_rank s" if unsettled: "\<not> (bootstrapped s \<and> can_render s)"
  proof (cases "bootstrapped s")
    case False
    with settle_rank_le_3 [OF bootstrapped_run_effects [OF live]] show ?thesis
      by (simp add: settle_rank_def [of s])
  next
    case boot: True
    with unsettled have nr: "\<not> can_render s" by simp
    note view = run_effects_view [of s]
    have boot': "bootstrapped (run_effects s)" by (rule bootstrapped_run_effects [OF live])
    show ?thesis
    proof (cases "visible_items s = []")
      case True
      then have "active_ws (run_effects s) \<in> set (app_workspaces (run_effects s))"
        using effects_active_ws [OF ready boot] ready view by (simp add: can_settle_def)
      then have "visible_items (run_effects s) \<noteq> []" by (simp add: visible_nonempty_iff)
      with boot' True boot nr show ?thesis by (simp add: settle_rank_def)
    next
      case vis: False
      then have ws: "active_ws (run_effects s) = active_ws s"
        using effects_active_ws [OF ready boot] by simp
      then have vis': "visible_items (run_effects s) \<noteq> []"
        using vis view visible_nonempty_iff by metis
      show ?thesis
      proof (cases "resolve_chat_page (active s) (permitted_items s) (app_vis s) = active s")
        case False
        then have "active (run_effects s) = resolve_chat_page (active s) (permitted_items s) (app_vis s)"
          using effects_active [OF ready boot nr] by (simp add: Let_def)
        with vis vis' boot boot' nr False show ?thesis by (simp add: settle_rank_def view)
      next
        case True
        then have "active (run_effects s) =
            first_visible_page (permitted_items s) (active_ws s) (Some (app_vis s))"
          using effects_active [OF ready boot nr] by (simp add: Let_def)
        with ws view vis have "can_render (run_effects s)"
          by (intro first_page_renders) (simp_all add: visible_nonempty_iff)
        with vis boot boot' nr True show ?thesis by (simp add: settle_rank_def)
      qed
    qed
  qed
qed

section \<open>Properties\<close>

text \<open>
  C4: Fail-closed start-up, along every sequence of events from any browser state: the prototype
  shell is only ever entered in a development build, a start-up request is in flight exactly
  while the deployment is being checked, and an authenticated shell always has a user and no
  bearer token in script-readable storage.
\<close>

theorem app_invariant:
  "app_inv env (fold (app_step env) es (app_init env b))"
  by (rule shell.inv_reachable) blast

text \<open>
  C5: The shell becomes authenticated in two ways only: by the answer of a refresh it asked for
  after the setup status was read and a session was found, or by a completed sign-in or set-up.
\<close>

theorem authenticated_only_when_confirmed:
  assumes "auth_phase s \<noteq> Authenticated" and "auth_phase (app_step env e s) = Authenticated"
  shows "(\<exists>a. e = Refreshed a \<and> probe_pending s = Some Await_Refresh \<and>
            shell_user (app_step env e s) = Some (token_user a)) \<or>
         (\<exists>a. e = Signed_In a \<and> (auth_phase s = Login \<or> auth_phase s = Setup) \<and>
            shell_user (app_step env e s) = Some (token_user a))"
proof (cases e)
  case (Status_Loaded st)
  with assms show ?thesis
    by (auto simp: app_step_def status_loaded_def status_failed_def signed_out_def enter_def Let_def
        split: if_splits prod.splits sum.splits bool.splits)
next
  case Logout
  with assms show ?thesis
    by (auto simp: app_step_def logout_def finish_logout_def enter_def
        split: if_splits prod.splits sum.splits bool.splits)
next
  case (Navigate p)
  with assms nav_frame_intros(1) [of s p] show ?thesis
    by (auto simp: app_step_def nav_frame_def split: if_splits)
next
  case Effects
  with assms nav_frame_run_effects [of s] show ?thesis by (simp add: app_step_def nav_frame_def)
next
  case (Signed_In a)
  with assms show ?thesis
    by (auto simp: app_step_def authenticate_def enter_def Let_def read_user_after_save split: if_splits)
next
  case Use_Prototype
  with assms show ?thesis
    by (auto simp: app_step_def use_prototype_mode_def activate_prototype_mode_def enter_def
        split: if_splits)
qed (use assms in \<open>auto simp: app_step_def status_failed_def refreshed_def refresh_failed_def
       session_expired_def finish_logout_def signed_out_def enter_def split: if_splits\<close>)

definition sample_env :: app_env where
  "sample_env = \<lparr>dev_build = False, msg_session_expired = ''expired'', msg_setup_failed = ''failed''\<rparr>"

definition sample_app :: app where
  "sample_app = app_init sample_env \<lparr>session_storage = Map.empty, local_storage = Map.empty, cookies = []\<rparr>"

definition sample_token :: auth_token where
  "sample_token = \<lparr>access_token = ''t'', expires_at = ''2030'', token_user = read_only_user\<rparr>"

lemma authenticated_only_when_confirmed_witness:
  "let s = finish_logout sample_app; e = Signed_In sample_token in
     auth_phase s = Login \<and> auth_phase (app_step sample_env e s) = Authenticated \<and>
     shell_user (app_step sample_env e s) = Some read_only_user"
proof -
  let ?s = "finish_logout sample_app"
  have s: "auth_phase ?s = Login" by (simp add: finish_logout_def enter_def)
  then have a: "auth_phase (app_step sample_env (Signed_In sample_token) ?s) = Authenticated"
    by (simp add: app_step_def authenticate_def enter_def Let_def)
  with authenticated_only_when_confirmed [of ?s sample_env "Signed_In sample_token"] s
  show ?thesis by (simp add: Let_def sample_token_def)
qed

text \<open>
  C6: What the shell puts on screen is authorised, in every reachable state: when an authenticated
  shell shows a page, its user passes both access checks for it, the page's own requirement and
  the one of the workspace it is shown in.
\<close>

theorem shown_page_is_authorised:
  assumes "s = fold (app_step env) es (app_init env b)"
    and "auth_phase s = Authenticated" and "screen_of s = Page_Screen p"
  shows "\<exists>u i. shell_user s = Some u \<and> i \<in> set nav_items \<and> nav_id i = p \<and>
           can_access_requirement (Some u) (Some (nav_requirement i)) \<and>
           nav_item_visible i (active_ws s) (Some u) False"
proof -
  have "app_inv env s" unfolding assms(1) by (rule shell.inv_reachable) blast
  with assms(2) obtain u where u: "shell_user s = Some u" by (auto simp: app_inv_def)
  have np: "\<not> is_prototype s" using assms(2) by (simp add: is_prototype_def)
  from assms(2,3) have "can_render s" "active s = p"
    by (simp_all add: screen_of_def split: if_splits)
  then obtain i where i: "i \<in> set (visible_items s)" "nav_id i = p"
    by (auto simp: can_render_iff)
  then have "i \<in> set (permitted_items s)" "app_vis s i (active_ws s)"
    by (simp_all add: visible_items_def)
  with permitted_items_in [of i s] u np i(2) show ?thesis
    by (auto simp: app_vis_def)
qed

lemma settles_to_page:
  assumes "live s" "app_workspaces s \<noteq> []"
  shows "can_render ((run_effects ^^ 4) s) \<and> bootstrapped ((run_effects ^^ 4) s)"
proof -
  have "settle_rank s \<le> 4" by (simp add: settle_rank_def)
  with shell_effects.settles [of s 4] assms show ?thesis by (simp add: can_settle_def)
qed

lemma effects_phase: "auth_phase ((run_effects ^^ n) s) = auth_phase s"
proof (induction n)
  case (Suc n)
  with nav_frame_run_effects [of "(run_effects ^^ n) s"] show ?case by (simp add: nav_frame_def)
qed simp

lemma screen_when_rendered:
  "auth_phase s = Authenticated \<Longrightarrow> can_render s \<Longrightarrow> screen_of s = Page_Screen (active s)"
  using can_render_visible [of s] by (simp add: screen_of_def)

definition signed_in_app :: app where
  "signed_in_app = app_step sample_env (Signed_In sample_token) (app_step sample_env Session_Expired sample_app)"

lemma signed_in_app: "auth_phase signed_in_app = Authenticated" "shell_user signed_in_app = Some read_only_user"
  by (simp_all add: signed_in_app_def app_step_def session_expired_def authenticate_def enter_def Let_def
      read_user_after_save sample_token_def)

lemma signed_in_app_workspaces: "app_workspaces signed_in_app \<noteq> []"
proof -
  let ?i = "nav_items ! 10"
  have i: "?i \<in> set nav_items" by (simp add: nav_items_def)
  have acc: "can_access_requirement (Some read_only_user) (Some (nav_requirement ?i))"
    "nav_item_visible ?i AdminWs (Some read_only_user) False"
    by (simp_all add: nav_items_def nav_requirement_def can_access_requirement_def can_access_granted
        granted_def wanted_def read_only_user_def nav_item_visible_def)
  with i have "?i \<in> set (permitted_items signed_in_app)" "app_vis signed_in_app ?i AdminWs"
    by (simp_all add: permitted_items_def is_prototype_def signed_in_app filter_by_permission_def app_vis_def)
  then have "AdminWs \<in> set (app_workspaces signed_in_app)" by (auto simp: app_workspaces_iff)
  then show ?thesis by auto
qed

lemma shown_page_is_authorised_witness:
  "\<exists>p u i. screen_of (fold (app_step sample_env)
       [Session_Expired, Signed_In sample_token, Effects, Effects, Effects, Effects] sample_app) = Page_Screen p
     \<and> nav_id i = p \<and> can_access_requirement (Some u) (Some (nav_requirement i))"
proof -
  let ?es = "[Session_Expired, Signed_In sample_token, Effects, Effects, Effects, Effects]"
  let ?s = "fold (app_step sample_env) ?es sample_app"
  have s: "?s = (run_effects ^^ 4) signed_in_app"
    by (simp add: signed_in_app_def app_step_def [where e = Effects] numeral_eq_Suc)
  have phase: "auth_phase ?s = Authenticated" unfolding s by (simp add: effects_phase signed_in_app)
  have "can_render ?s"
    unfolding s using settles_to_page [OF _ signed_in_app_workspaces] signed_in_app
    by (simp add: live_def)
  then have screen: "screen_of ?s = Page_Screen (active ?s)"
    by (rule screen_when_rendered [OF phase])
  then show ?thesis
    using shown_page_is_authorised [of ?s sample_env ?es
        "\<lparr>session_storage = Map.empty, local_storage = Map.empty, cookies = []\<rparr>" "active ?s"] phase
    unfolding sample_app_def by blast
qed

text \<open>
  C7: The navigation effects come to rest on a page the user may see: whenever a live shell has
  at least one accessible workspace, four commits of the effects end in a state where the active
  page can be rendered in the active workspace, and there they change nothing any more.
\<close>

theorem navigation_settles:
  assumes "live s" and "app_workspaces s \<noteq> []"
  shows "can_render ((run_effects ^^ 4) s) \<and> run_effects ((run_effects ^^ 4) s) = (run_effects ^^ 4) s"
proof
  show "can_render ((run_effects ^^ 4) s)" using settles_to_page [OF assms] by simp
  have "can_settle ((run_effects ^^ 4) s)"
    by (rule shell_effects.ready_iterated) (simp add: can_settle_def assms)
  then show "run_effects ((run_effects ^^ 4) s) = (run_effects ^^ 4) s"
    by (rule shell_effects.rests) (simp add: settles_to_page [OF assms])
qed

lemma navigation_settles_witness:
  "can_render ((run_effects ^^ 4) signed_in_app) \<and>
   run_effects ((run_effects ^^ 4) signed_in_app) = (run_effects ^^ 4) signed_in_app"
  using navigation_settles [of signed_in_app] signed_in_app signed_in_app_workspaces
  by (simp add: live_def)

lemma find_nav_permitted:
  assumes "i \<in> set (permitted_items s)"
  shows "find_nav (permitted_items s) (nav_id i) = Some i"
proof -
  from find_Some_ex [OF assms, of "\<lambda>j. nav_id j = nav_id i"]
  obtain j where j: "find_nav (permitted_items s) (nav_id i) = Some j"
    unfolding find_nav_def by auto
  then have "nav_id j = nav_id i" "j \<in> set nav_items"
    using nav_id_find_nav permitted_items_in by blast+
  moreover have "i \<in> set nav_items" using assms permitted_items_in by blast
  ultimately have "j = i" using nav_ids_distinct by (auto simp: distinct_map inj_on_def)
  with j show ?thesis by simp
qed

lemma visible_page_resolves:
  assumes "i \<in> set (permitted_items s)" "app_vis s i w"
  shows "resolve_chat_page (nav_id i) (permitted_items s) (app_vis s) = nav_id i"
proof (cases "nav_id i = ChatConsole")
  case True
  with find_nav_permitted [OF assms(1)] assms(2)
  have "chat_console_visible (permitted_items s) (app_vis s)"
    by (auto simp: chat_console_visible_def list_ex_iff simp del: workspace_order_simp)
  with True show ?thesis by (simp add: resolve_chat_page_def)
qed (simp add: resolve_chat_page_def)

text \<open>
  Asking for a page the user may see in some workspace shows it at once: the request switches
  to a workspace where the page is visible (staying put when the current one will do) and the
  page can be rendered there, without waiting for the effects.
\<close>

theorem navigate_shows_page:
  assumes "i \<in> set (permitted_items s)" and "app_vis s i w"
  shows "active (navigate_to_page (nav_id i) s) = nav_id i \<and> can_render (navigate_to_page (nav_id i) s)
       \<and> (app_vis s i (active_ws s) \<longrightarrow> active_ws (navigate_to_page (nav_id i) s) = active_ws s)"
proof -
  let ?s' = "navigate_to_page (nav_id i) s"
  let ?t = "workspace_for_page (permitted_items s) (nav_id i) (active_ws s) (Some (app_vis s))"
  note res = visible_page_resolves [OF assms]
  have ws: "active_ws ?s' = ?t" and act: "active ?s' = nav_id i"
    by (simp_all add: navigate_to_page_def Let_def res)
  have "app_vis s i ?t"
    using user_view.workspace_for_page_visible [OF find_nav_permitted [OF assms(1)]] assms(2)
    unfolding app_vis_def item_visible_def by auto
  moreover have "permitted_items ?s' = permitted_items s" "app_vis ?s' = app_vis s"
    using nav_frame_intros(1) [of s "nav_id i"] nav_view_congs(1,2) [of ?s' s]
    by (simp_all add: nav_frame_def)
  ultimately have "i \<in> set (visible_items ?s')"
    using assms(1) ws by (simp add: visible_items_def)
  with act have "can_render ?s'" by (auto simp: can_render_iff)
  moreover have "app_vis s i (active_ws s) \<longrightarrow> ?t = active_ws s"
    using find_nav_permitted [OF assms(1)] by (simp add: workspace_for_page_def item_visible_def)
  ultimately show ?thesis using act ws by simp
qed

lemma navigate_shows_page_witness:
  "\<exists>i. nav_id i = AuditLogs \<and> active (navigate_to_page AuditLogs signed_in_app) = AuditLogs
     \<and> can_render (navigate_to_page AuditLogs signed_in_app) \<and> i \<in> set nav_items"
proof -
  let ?i = "nav_items ! 10"
  have i: "?i \<in> set nav_items" "nav_id ?i = AuditLogs" by (simp_all add: nav_items_def)
  have "can_access_requirement (Some read_only_user) (Some (nav_requirement ?i))"
    "nav_item_visible ?i AdminWs (Some read_only_user) False"
    by (simp_all add: nav_items_def nav_requirement_def can_access_requirement_def can_access_granted
        granted_def wanted_def read_only_user_def nav_item_visible_def)
  with i have "?i \<in> set (permitted_items signed_in_app)" "app_vis signed_in_app ?i AdminWs"
    by (simp_all add: permitted_items_def is_prototype_def signed_in_app filter_by_permission_def app_vis_def)
  from navigate_shows_page [OF this] i show ?thesis by (intro exI [of _ ?i]) simp
qed

text \<open>
  The builder page has no entry in the navigation table.  A signed-in user never sees it, and in every
  live shell a request for it, or a state that has it active, ends on another page as soon as the effects
  have run.  The prototype draws the active page without asking whether it can be rendered, so there it
  may be on screen until then.
\<close>

theorem builder_never_stays:
  "(auth_phase s = Authenticated \<longrightarrow> screen_of s \<noteq> Page_Screen Builder) \<and>
   (live s \<and> app_workspaces s \<noteq> [] \<longrightarrow>
      screen_of ((run_effects ^^ 4) s) \<noteq> Page_Screen Builder \<and>
      screen_of ((run_effects ^^ 4) (navigate_to_page Builder s)) \<noteq> Page_Screen Builder) \<and>
   (auth_phase s = Prototype \<longrightarrow> screen_of (s\<lparr>active := Builder\<rparr>) = Page_Screen Builder)"
proof -
  have no: "\<not> (can_render t \<and> active t = Builder)" for t
  proof
    assume t: "can_render t \<and> active t = Builder"
    then obtain i where "i \<in> set (permitted_items t)" "nav_id i = Builder"
      by (auto simp: can_render_iff visible_items_def)
    then have "Builder \<in> nav_id ` set nav_items" using permitted_items_in [of i t] by force
    then show False by (simp add: nav_items_def)
  qed
  have screen: "can_render t \<or> auth_phase t = Authenticated \<Longrightarrow> screen_of t \<noteq> Page_Screen Builder" for t
    using no [of t] by (auto simp: screen_of_def split: auth_state.splits)
  have "can_render ((run_effects ^^ 4) (navigate_to_page Builder s))" if "live s" "app_workspaces s \<noteq> []"
  proof -
    have "live (navigate_to_page Builder s)" "app_workspaces (navigate_to_page Builder s) \<noteq> []"
      using nav_frame_intros(1) [of s Builder] nav_view_congs [of "navigate_to_page Builder s" s] that
      by (simp_all add: nav_frame_def)
    then show ?thesis using settles_to_page by blast
  qed
  moreover have "screen_of (s\<lparr>active := Builder\<rparr>) = Page_Screen Builder" if "auth_phase s = Prototype"
    using that by (simp add: screen_of_def)
  ultimately show ?thesis using screen settles_to_page [of s] by blast
qed

end
