(* ===== verification/Api_Client.thy ===== *)
theory Api_Client
  imports Session
begin

text \<open>
  The HTTP client of \<open>lib/api/core.ts\<close>: how a call builds its request (URL, headers, credentials,
  time limit), how an answer is read, what an error answer says, and when an expired session is
  cleared.  The network is the parameter \<open>net\<close>: the answer to a request, or the error \<open>fetch\<close>
  rejects with.  \<open>base\<close> is the configured base URL, empty when there is none.
\<close>

named_theorems api_simps \<open>unfolding rules of the request and response functions\<close>

section \<open>Requests and responses\<close>

datatype token_option = Token_Unset | Token_Null | Token string \<comment> \<open>\<open>options.token\<close>\<close>

record request_options =
  opt_token :: token_option
  opt_headers :: "(string \<times> string) list"
  opt_credentials :: "string option"
  opt_signal :: bool \<comment> \<open>the caller passed an abort signal\<close>

definition no_options :: request_options where
  "no_options = \<lparr>opt_token = Token_Unset, opt_headers = [], opt_credentials = None, opt_signal = False\<rparr>"

datatype http_method = GET | POST | PUT | PATCH | DELETE

datatype 'f req_body = No_Body | Json_Body string | Form_Body 'f

record 'f request =
  req_url :: string
  req_method :: http_method
  req_headers :: "(string \<times> string) list"
  req_body :: "'f req_body"
  req_credentials :: string
  req_caller_signal :: bool
  req_timeout :: "nat option" \<comment> \<open>milliseconds\<close>

record response =
  resp_status :: int
  resp_headers :: "(string \<times> string) list" \<comment> \<open>names in lower case\<close>
  resp_text :: string

definition resp_ok :: "response \<Rightarrow> bool" where
  "resp_ok r \<longleftrightarrow> 200 \<le> resp_status r \<and> resp_status r \<le> 299"

type_synonym 'f network = "'f request \<Rightarrow> exn + response"

text \<open>The outcome of a call, the browser afterwards, and whether session expiry was announced.\<close>

type_synonym 'a outcome = "(exn + 'a) \<times> browser \<times> bool"

definition default_timeout_ms :: nat where "default_timeout_ms = 30000"
definition large_timeout_ms :: nat where "large_timeout_ms = 120000"

section \<open>Building a request\<close>

definition set_header :: "string \<Rightarrow> string \<Rightarrow> (string \<times> string) list \<Rightarrow> (string \<times> string) list" where
  "set_header n v hs = obj_put (to_lower n) v hs"

definition new_headers :: "(string \<times> string) list \<Rightarrow> (string \<times> string) list" where
  "new_headers hs = fold (\<lambda>(n, v). set_header n v) hs []"

definition get_header :: "string \<Rightarrow> (string \<times> string) list \<Rightarrow> string option" where
  "get_header n hs = map_of hs (to_lower n)"

definition apply_auth_headers ::
  "browser \<Rightarrow> (string \<times> string) list \<Rightarrow> string option \<Rightarrow> exn + (string \<times> string) list" where
  "apply_auth_headers b hs token =
     (if js_truthy_str token then Inr (set_header ''Authorization'' (''Bearer '' @ the token) hs)
      else case get_cookie csrf_cookie_name b of
             Inl e \<Rightarrow> Inl e
           | Inr csrf \<Rightarrow>
               Inr (if js_truthy_str csrf then set_header ''X-CSRF-Token'' (the csrf) hs else hs))"

definition build_url :: "string \<Rightarrow> string \<Rightarrow> string" where
  "build_url base path =
     (let normalized = (if prefix ''/'' path then path else CHR ''/'' # path) in
      if base = [] then normalized
      else (if last base = CHR ''/'' then butlast base else base) @ normalized)"

definition request_token :: "request_options \<Rightarrow> browser \<Rightarrow> string option \<times> browser" where
  \<comment> \<open>\<open>options.token ?? getStoredToken()\<close>\<close>
  "request_token opts b =
     (case opt_token opts of Token t \<Rightarrow> (Some t, b) | _ \<Rightarrow> get_stored_token b)"

definition prepare ::
  "string \<Rightarrow> http_method \<Rightarrow> (string \<times> string) list \<Rightarrow> 'f req_body \<Rightarrow> nat option \<Rightarrow> string \<Rightarrow>
   request_options \<Rightarrow> browser \<Rightarrow> (exn + 'f request) \<times> browser" where
  \<comment> \<open>the part every call shares, up to \<open>fetch\<close>\<close>
  "prepare base meth hdrs body timeout path opts b =
     (let (token, b1) = request_token opts b;
          hs = fold (\<lambda>(n, v). set_header n v) hdrs (new_headers (opt_headers opts))
      in case apply_auth_headers b1 hs token of
           Inl e \<Rightarrow> (Inl e, b1)
         | Inr hs' \<Rightarrow>
             (Inr \<lparr>req_url = build_url base path, req_method = meth, req_headers = hs', req_body = body,
                req_credentials = coalesce (opt_credentials opts) ''include'',
                req_caller_signal = opt_signal opts, req_timeout = timeout\<rparr>, b1))"

section \<open>Reading an answer\<close>

definition syntax_error :: exn where
  "syntax_error = Named_Error ''SyntaxError'' ''Unexpected token in JSON''"

definition parse_response :: "response \<Rightarrow> exn + jsval" where
  "parse_response r =
     (let content_type = coalesce (get_header ''content-type'' (resp_headers r)) [] in
      if str_includes ''application/json'' content_type then
        (case json_parse (resp_text r) of None \<Rightarrow> Inl syntax_error | Some v \<Rightarrow> Inr v)
      else Inr (if resp_text r \<noteq> [] then JStr (resp_text r) else JNull))"

definition is_api_error_detail :: "jsval \<Rightarrow> bool" where
  "is_api_error_detail v \<longleftrightarrow> truthy v \<and> is_object v"

definition extract_api_error_detail :: "jsval \<Rightarrow> jsval option" where
  "extract_api_error_detail payload =
     (if \<not> is_object payload then None
      else if has_prop ''error'' payload \<and> is_api_error_detail (get_prop ''error'' payload)
        then Some (get_prop ''error'' payload)
      else if has_prop ''detail'' payload \<and> is_api_error_detail (get_prop ''detail'' payload)
        then Some (get_prop ''detail'' payload)
      else None)"

definition status_message :: "jsnum \<Rightarrow> string" where
  "status_message status = ''Request failed with status '' @ num_str status"

definition error_message :: "jsnum \<Rightarrow> jsval \<Rightarrow> jsval" where
  "error_message status payload =
     (let normalized = extract_api_error_detail payload;
          message = (case normalized of None \<Rightarrow> JUndef | Some d \<Rightarrow> get_prop ''message'' d)
      in if truthy message then message
         else if is_object payload \<and> has_prop ''detail'' payload then
           (let detail = get_prop ''detail'' payload in
            case detail of
              JStr s \<Rightarrow> JStr s
            | _ \<Rightarrow> if is_api_error_detail detail \<and> truthy (get_prop ''message'' detail)
                   then get_prop ''message'' detail
                   else JStr (status_message status))
         else (case payload of
                 JStr s \<Rightarrow> if trim s \<noteq> [] then JStr s else JStr (status_message status)
               | _ \<Rightarrow> JStr (status_message status)))"

definition get_api_error_detail :: "exn \<Rightarrow> jsval option" where
  "get_api_error_detail e =
     (case e of Api_Error _ _ details \<Rightarrow> extract_api_error_detail details | _ \<Rightarrow> None)"

definition throw_api_error :: "response \<Rightarrow> jsval \<Rightarrow> request_options \<Rightarrow> browser \<Rightarrow> 'a outcome" where
  "throw_api_error r payload opts b =
     (let status = Fin (of_int (resp_status r));
          err = Api_Error (js_string (error_message status payload)) status payload in
      if resp_status r = 401 \<and> opt_token opts \<noteq> Token_Null then
        (let (token, b1) = get_stored_token b in
         if js_truthy_str token then (Inl err, clear_auth_token b1, True)
         else case get_cookie csrf_cookie_name b1 of
                Inl e \<Rightarrow> (Inl e, b1, False)
              | Inr c \<Rightarrow>
                  if js_truthy_str c then (Inl err, clear_auth_token b1, True)
                  else (Inl err, b1, False))
      else (Inl err, b, False))"

definition finish_json :: "request_options \<Rightarrow> response \<Rightarrow> browser \<Rightarrow> jsval outcome" where
  "finish_json opts r b =
     (case parse_response r of
        Inl e \<Rightarrow> (Inl e, b, False)
      | Inr payload \<Rightarrow> if \<not> resp_ok r then throw_api_error r payload opts b else (Inr payload, b, False))"

definition send ::
  "'f network \<Rightarrow> (exn + 'f request) \<times> browser \<Rightarrow> (response \<Rightarrow> browser \<Rightarrow> 'a outcome) \<Rightarrow> 'a outcome" where
  "send net prepared finish =
     (case prepared of
        (Inl e, b) \<Rightarrow> (Inl e, b, False)
      | (Inr req, b) \<Rightarrow> (case net req of Inl e \<Rightarrow> (Inl e, b, False) | Inr r \<Rightarrow> finish r b))"

section \<open>The calls\<close>

abbreviation "accept_json \<equiv> (''Accept'', ''application/json'')"
abbreviation "content_json \<equiv> (''Content-Type'', ''application/json'')"

definition api_get ::
  "'f network \<Rightarrow> string \<Rightarrow> string \<Rightarrow> request_options \<Rightarrow> browser \<Rightarrow> jsval outcome" where
  "api_get net base path opts b =
     send net (prepare base GET [accept_json] No_Body (Some default_timeout_ms) path opts b)
       (finish_json opts)"

definition api_download_text ::
  "'f network \<Rightarrow> string \<Rightarrow> string \<Rightarrow> request_options \<Rightarrow> browser \<Rightarrow> string outcome" where
  "api_download_text net base path opts b =
     send net (prepare base GET [(''Accept'', ''text/csv, application/json, text/plain, */*'')] No_Body
                 (Some large_timeout_ms) path opts b)
       (\<lambda>r b'. if \<not> resp_ok r then
                 throw_api_error r (case json_parse (resp_text r) of
                     None \<Rightarrow> JStr (resp_text r) | Some v \<Rightarrow> v) opts b'
               else (Inr (resp_text r), b', False))"

fun match_ci :: "string \<Rightarrow> (string \<Rightarrow> string option) \<Rightarrow> string \<Rightarrow> string option" where
  \<comment> \<open>the leftmost match of a literal (in any case) followed by what \<open>cap\<close> captures\<close>
  "match_ci pat cap [] = None"
| "match_ci pat cap (c # s) =
     (if to_lower (take (length pat) (c # s)) = pat \<and> cap (drop (length pat) (c # s)) \<noteq> None
      then cap (drop (length pat) (c # s)) else match_ci pat cap s)"

definition capture_until :: "char set \<Rightarrow> string \<Rightarrow> string option" where
  "capture_until stops s =
     (let w = takeWhile (\<lambda>c. c \<notin> stops) s in if w = [] then None else Some w)"

definition content_disposition_filename :: "string option \<Rightarrow> string option" where
  "content_disposition_filename value =
     (if \<not> js_truthy_str value then None
      else case match_ci (''filename*=utf-8'' @ [CHR 0x27, CHR 0x27]) (capture_until {CHR '';''}) (the value) of
        Some w \<Rightarrow>
          (let w' = filter (\<lambda>c. c \<noteq> CHR 0x22) w in
           case decode_uri_component w' of Some t \<Rightarrow> Some t | None \<Rightarrow> Some w')
      | None \<Rightarrow>
          match_ci ''filename=''
            (\<lambda>s. capture_until {CHR 0x22, CHR '';''}
                   (if s \<noteq> [] \<and> hd s = CHR 0x22 then tl s else s)) (the value))"

record downloaded_blob =
  blob :: string
  blob_filename :: "string option"

definition api_download_blob ::
  "'f network \<Rightarrow> string \<Rightarrow> string \<Rightarrow> request_options \<Rightarrow> browser \<Rightarrow> downloaded_blob outcome" where
  "api_download_blob net base path opts b =
     send net (prepare base GET [(''Accept'', ''application/zip, application/octet-stream, */*'')] No_Body
                 (Some large_timeout_ms) path opts b)
       (\<lambda>r b'. if \<not> resp_ok r then
                 (case parse_response r of
                    Inl e \<Rightarrow> (Inl e, b', False)
                  | Inr payload \<Rightarrow> throw_api_error r payload opts b')
               else (Inr \<lparr>blob = resp_text r,
                      blob_filename = content_disposition_filename
                        (get_header ''content-disposition'' (resp_headers r))\<rparr>, b', False))"

definition api_post ::
  "'f network \<Rightarrow> string \<Rightarrow> string \<Rightarrow> jsval \<Rightarrow> request_options \<Rightarrow> browser \<Rightarrow> jsval outcome" where
  "api_post net base path body opts b =
     send net (prepare base POST [accept_json, content_json] (Json_Body (stringify body))
                 (Some default_timeout_ms) path opts b)
       (finish_json opts)"

definition api_post_form ::
  "'f network \<Rightarrow> string \<Rightarrow> string \<Rightarrow> 'f \<Rightarrow> request_options \<Rightarrow> browser \<Rightarrow> jsval outcome" where
  "api_post_form net base path form opts b =
     send net (prepare base POST [accept_json] (Form_Body form) (Some large_timeout_ms) path opts b)
       (finish_json opts)"

definition api_put ::
  "'f network \<Rightarrow> string \<Rightarrow> string \<Rightarrow> jsval \<Rightarrow> request_options \<Rightarrow> browser \<Rightarrow> jsval outcome" where
  "api_put net base path body opts b =
     send net (prepare base PUT [accept_json, content_json] (Json_Body (stringify body))
                 (Some default_timeout_ms) path opts b)
       (finish_json opts)"

definition api_patch ::
  "'f network \<Rightarrow> string \<Rightarrow> string \<Rightarrow> jsval \<Rightarrow> request_options \<Rightarrow> browser \<Rightarrow> jsval outcome" where
  "api_patch net base path body opts b =
     send net (prepare base PATCH [accept_json, content_json] (Json_Body (stringify body))
                 (Some default_timeout_ms) path opts b)
       (finish_json opts)"

definition api_delete ::
  "'f network \<Rightarrow> string \<Rightarrow> string \<Rightarrow> request_options \<Rightarrow> browser \<Rightarrow> jsval outcome" where
  "api_delete net base path opts b =
     send net (prepare base DELETE [accept_json] No_Body (Some default_timeout_ms) path opts b)
       (finish_json opts)"

section \<open>Facts about requests\<close>

lemma to_lower_auth [simp]:
  "to_lower ''Authorization'' = ''authorization''" "to_lower ''X-CSRF-Token'' = ''x-csrf-token''"
  "to_lower ''Accept'' = ''accept''" "to_lower ''Content-Type'' = ''content-type''"
  by code_simp+

lemma get_set_header [api_simps]:
  "get_header n (set_header m v hs) = (if to_lower n = to_lower m then Some v else get_header n hs)"
  by (simp add: get_header_def set_header_def map_of_obj_put)

lemma get_fold_set_header:
  "to_lower n \<notin> (\<lambda>(m, v). to_lower m) ` set kvs \<Longrightarrow>
   get_header n (fold (\<lambda>(m, v). set_header m v) kvs hs) = get_header n hs"
  by (induction kvs arbitrary: hs) (auto simp: get_set_header)

lemma prepare_Inr:
  "prepare base meth hdrs body timeout path opts b = (Inr req, b') \<Longrightarrow>
   request_token opts b = (fst (request_token opts b), b') \<and> req_url req = build_url base path \<and>
   req_method req = meth \<and> req_body req = body \<and> req_timeout req = timeout \<and>
   apply_auth_headers b' (fold (\<lambda>(n, v). set_header n v) hdrs (new_headers (opt_headers opts)))
     (fst (request_token opts b)) = Inr (req_headers req)"
  by (auto simp: prepare_def split: prod.splits sum.splits)

lemma throw_is_error: "fst (throw_api_error r payload opts b) = Inl e \<or>
  (\<exists>e. fst (throw_api_error r payload opts b) = Inl e)"
  by (simp add: throw_api_error_def Let_def split: prod.split sum.split)

section \<open>Percent encoding of file names\<close>

lemma hex_val_upper_hex: "n < 16 \<Longrightarrow> hex_val (upper_hex n) = Some n"
  by (auto simp: hex_val_def upper_hex_def of_char_mod_256 Let_def)

lemma percent_byte_escape:
  "percent_byte (CHR ''%'' # upper_hex (of_char c div 16) # upper_hex (of_char c mod 16) # r)
     = Some (of_char c, r)"
proof -
  have "of_char c div 16 < (16 :: nat)" using nat_of_char_less_256 [of c] by linarith
  then show ?thesis by (simp add: percent_byte_def hex_val_upper_hex)
qed

lemma uri_unreserved_not_percent: "uri_unreserved c \<Longrightarrow> c \<noteq> CHR ''%''"
  by (auto simp: uri_unreserved_def Let_def)

lemma decode_encode_ascii:
  "\<forall>c\<in>set s. (of_char c :: nat) < 128 \<Longrightarrow> decode_uri_component (encode_uri_component s) = Some s"
proof (induction s)
  case Nil
  then show ?case by (subst decode_uri_component.simps) (simp add: encode_uri_component_def)
next
  case (Cons c s)
  then have IH: "decode_uri_component (encode_uri_component s) = Some s" by simp
  show ?case
  proof (cases "uri_unreserved c")
    case True
    then have "encode_uri_component (c # s) = c # encode_uri_component s"
      by (simp add: encode_uri_component_def)
    then show ?thesis
      using IH uri_unreserved_not_percent [OF True] by (subst decode_uri_component.simps) simp
  next
    case False
    then have "encode_uri_component (c # s) =
        CHR ''%'' # upper_hex (of_char c div 16) # upper_hex (of_char c mod 16) # encode_uri_component s"
      by (simp add: encode_uri_component_def)
    then show ?thesis
      using IH Cons.prems
      by (subst decode_uri_component.simps)
         (simp add: percent_byte_escape utf8_follow_def utf8_second_ok_def)
  qed
qed

lemma encoded_chars:
  "c \<in> set (encode_uri_component s) \<Longrightarrow> c \<noteq> CHR '';'' \<and> c \<noteq> CHR 0x22"
proof (induction s)
  case (Cons d s)
  have hex: "upper_hex n \<noteq> CHR '';'' \<and> upper_hex n \<noteq> CHR 0x22" if "n < 16" for n
    using hex_val_upper_hex [OF that] by (auto simp: hex_val_def Let_def split: if_splits)
  have lt: "of_char d div 16 < (16 :: nat)" using nat_of_char_less_256 [of d] by linarith
  have un: "uri_unreserved e \<Longrightarrow> e \<noteq> CHR '';'' \<and> e \<noteq> CHR 0x22" for e
    by (auto simp: uri_unreserved_def Let_def)
  show ?case
    using Cons hex [OF lt] hex [of "of_char d mod 16"] un
    by (auto simp: encode_uri_component_def split: if_splits)
qed (simp add: encode_uri_component_def)

lemma capture_until_all:
  "w \<noteq> [] \<Longrightarrow> \<forall>c\<in>set w. c \<notin> stops \<Longrightarrow> capture_until stops w = Some w"
  by (simp add: capture_until_def takeWhile_eq_all_conv [THEN iffD2])

lemma match_ci_skip:
  "pat \<noteq> [] \<Longrightarrow> to_lower_char c \<noteq> hd pat \<Longrightarrow> match_ci pat cap (c # s) = match_ci pat cap s"
  by (cases pat) (auto simp: to_lower_def)

lemma match_ci_here:
  "s \<noteq> [] \<Longrightarrow> to_lower (take (length pat) s) = pat \<Longrightarrow> cap (drop (length pat) s) = Some w \<Longrightarrow>
   match_ci pat cap s = Some w"
  by (cases s) simp_all

section \<open>Properties\<close>

lemma csrf_after_migration: "get_cookie k (snd (get_stored_token b)) = get_cookie k b"
  by (simp add: get_cookie_def document_cookie_def get_stored_token_def Let_def session_simps)

text \<open>
  C8: What an error answer does, in full.  It ends in the \<open>ApiError\<close> that says the server's message, status and
  payload (unless the CSRF cookie, which is only read for a 401 without a stored token, cannot be decoded).
  Expiry is announced exactly when the status is 401, the call did not opt out with a null token, and a
  stored token or a CSRF cookie stands for a session; then everything is cleared and no session is left
  to detect.  Otherwise the browser only sees the migration of a legacy token that looking for it causes.
\<close>

theorem error_answer_session:
  assumes "throw_api_error r payload opts b = (res, b', expired)" and "cookie_jar_ok b"
  shows "(let status = Fin (of_int (resp_status r));
              error = Api_Error (js_string (error_message status payload)) status payload;
              asks = (resp_status r = 401 \<and> opt_token opts \<noteq> Token_Null);
              (token, b1) = get_stored_token b
          in res = Inl (case get_cookie csrf_cookie_name b of
                          Inl e \<Rightarrow> if asks \<and> \<not> js_truthy_str token then e else error
                        | Inr _ \<Rightarrow> error) \<and>
             (expired \<longleftrightarrow> asks \<and>
                (js_truthy_str token \<or> (\<exists>c. get_cookie csrf_cookie_name b = Inr (Some c) \<and> c \<noteq> []))) \<and>
             (if expired then b' = clear_auth_token b1 \<and> has_auth_session b' = (Inr False, b')
              else b' = (if asks then b1 else b)))"
proof -
  obtain token b1 where tb: "get_stored_token b = (token, b1)" by force
  have jar: "cookie_jar_ok b1"
    using assms(2) tb by (auto simp: get_stored_token_def cookie_jar_ok_def Let_def session_simps split: if_splits)
  have csrf: "get_cookie csrf_cookie_name b1 = get_cookie csrf_cookie_name b"
    using csrf_after_migration [of csrf_cookie_name b] tb by simp
  note gone = cleared_has_no_session [OF jar]
  show ?thesis
  proof (cases "get_cookie csrf_cookie_name b")
    case (Inl e)
    with assms(1) show ?thesis
      using gone by (auto simp: throw_api_error_def tb csrf Let_def split: if_splits)
  next
    case (Inr c)
    with assms(1) show ?thesis
      using gone by (cases c) (auto simp: throw_api_error_def tb csrf js_truthy_str_def Let_def split: if_splits)
  qed
qed

lemma error_answer_session_witness:
  "\<exists>b'. throw_api_error \<lparr>resp_status = 401, resp_headers = [], resp_text = []\<rparr> JNull no_options signed_in_browser =
       (Inl (Api_Error (js_string (error_message (Fin 401) JNull)) (Fin 401) JNull) :: exn + jsval, b', True) \<and>
     has_auth_session b' = (Inr False, b')"
proof -
  let ?r = "\<lparr>resp_status = 401, resp_headers = [], resp_text = []\<rparr> :: response"
  obtain res :: "exn + jsval" and b' x where t: "throw_api_error ?r JNull no_options signed_in_browser = (res, b', x)"
    by (cases "throw_api_error ?r JNull no_options signed_in_browser :: jsval outcome") auto
  obtain b1 where token: "get_stored_token signed_in_browser = (Some ''legacy'', b1)"
    by (simp add: get_stored_token_def signed_in_browser_def session_keys session_get_def
        local_get_def session_set_def remove_legacy_tokens_def Let_def)
  have "cookie_jar_ok signed_in_browser" by code_simp
  from error_answer_session [OF t this]
  have "res = Inl (Api_Error (js_string (error_message (Fin 401) JNull)) (Fin 401) JNull) \<and> x \<and>
      has_auth_session b' = (Inr False, b')"
    by (auto simp: token no_options_def js_truthy_str_def Let_def split: sum.splits)
  with t show ?thesis by auto
qed

text \<open>
  Every call authenticates in one way: with a bearer token the request carries it and no CSRF
  header, without one it carries the CSRF cookie's value (when there is one) and no bearer header;
  stated for calls whose options bring no headers of their own.
\<close>

theorem auth_headers_exclusive:
  assumes "prepare base meth hdrs body timeout path opts b = (Inr req, b')"
    and "opt_headers opts = []"
    and "\<forall>(n, v)\<in>set hdrs. to_lower n \<noteq> ''authorization'' \<and> to_lower n \<noteq> ''x-csrf-token''"
  shows "(let token = fst (request_token opts b) in
          if js_truthy_str token then
            get_header ''Authorization'' (req_headers req) = Some (''Bearer '' @ the token) \<and>
            get_header ''X-CSRF-Token'' (req_headers req) = None
          else get_header ''Authorization'' (req_headers req) = None \<and>
               (\<exists>csrf. get_cookie csrf_cookie_name b' = Inr csrf \<and>
                  get_header ''X-CSRF-Token'' (req_headers req) =
                    (if js_truthy_str csrf then csrf else None)))"
proof -
  let ?hs = "fold (\<lambda>(n, v). set_header n v) hdrs (new_headers (opt_headers opts))"
  have none: "get_header ''Authorization'' ?hs = None" "get_header ''X-CSRF-Token'' ?hs = None"
    using assms(2,3)
    by (subst get_fold_set_header; force simp: new_headers_def get_header_def)+
  from prepare_Inr [OF assms(1)]
  have req: "apply_auth_headers b' ?hs (fst (request_token opts b)) = Inr (req_headers req)" by simp
  show ?thesis
  proof (cases "js_truthy_str (fst (request_token opts b))")
    case True
    with req have "req_headers req =
        set_header ''Authorization'' (''Bearer '' @ the (fst (request_token opts b))) ?hs"
      by (simp add: apply_auth_headers_def)
    with True none show ?thesis by (simp add: get_set_header Let_def)
  next
    case False
    with req obtain csrf where "get_cookie csrf_cookie_name b' = Inr csrf"
      "req_headers req = (if js_truthy_str csrf then set_header ''X-CSRF-Token'' (the csrf) ?hs else ?hs)"
      by (auto simp: apply_auth_headers_def split: sum.splits)
    with False none show ?thesis by (auto simp: get_set_header Let_def js_truthy_str_def)
  qed
qed

lemma auth_headers_exclusive_witness:
  "let req = \<lparr>req_url = ''/x'', req_method = GET,
       req_headers = [(''accept'', ''application/json''), (''authorization'', ''Bearer tok'')],
       req_body = No_Body, req_credentials = ''include'', req_caller_signal = False,
       req_timeout = Some 30000\<rparr> :: unit request in
   get_header ''X-CSRF-Token'' (req_headers req) = None"
proof -
  let ?opts = "no_options\<lparr>opt_token := Token ''tok''\<rparr>"
  let ?req = "\<lparr>req_url = ''/x'', req_method = GET,
       req_headers = [(''accept'', ''application/json''), (''authorization'', ''Bearer tok'')],
       req_body = No_Body, req_credentials = ''include'', req_caller_signal = False,
       req_timeout = Some 30000\<rparr> :: unit request"
  have "prepare [] GET [accept_json] No_Body (Some default_timeout_ms) ''/x'' ?opts signed_in_browser
      = (Inr ?req, signed_in_browser)"
    by (simp add: prepare_def request_token_def no_options_def new_headers_def set_header_def
        apply_auth_headers_def build_url_def default_timeout_ms_def)
  from auth_headers_exclusive [OF this]
  show ?thesis by (simp add: no_options_def request_token_def Let_def)
qed

lemma content_disposition_encoded:
  assumes "match_ci (''filename*=utf-8'' @ [CHR 0x27, CHR 0x27]) (capture_until {CHR '';''}) v = Some w"
    and "filter (\<lambda>c. c \<noteq> CHR 0x22) w = w" and "decode_uri_component w = Some t"
  shows "content_disposition_filename (Some v) = Some t"
  using assms by (cases v) (simp_all add: content_disposition_filename_def del: match_ci.simps(2))

lemma disposition_chars:
  "to_lower_char (CHR ''a'') = CHR ''a''" "to_lower_char (CHR ''t'') = CHR ''t''"
  "to_lower_char (CHR ''c'') = CHR ''c''" "to_lower_char (CHR ''h'') = CHR ''h''"
  "to_lower_char (CHR ''m'') = CHR ''m''" "to_lower_char (CHR ''e'') = CHR ''e''"
  "to_lower_char (CHR ''n'') = CHR ''n''" "to_lower_char (CHR '';'') = CHR '';''"
  "to_lower_char (CHR '' '') = CHR '' ''"
  by code_simp+

lemma to_lower_marker:
  "to_lower (''filename*=UTF-8'' @ [CHR 0x27, CHR 0x27]) = ''filename*=utf-8'' @ [CHR 0x27, CHR 0x27]"
  by code_simp

text \<open>
  C9: The file name of a download survives the header: a name of ASCII characters, percent-encoded
  by \<open>encodeURIComponent\<close> in the \<open>filename*=UTF-8''\<close> form, is read back exactly, whatever special
  characters it holds.
\<close>

theorem content_disposition_roundtrip:
  assumes "name \<noteq> []" and "\<forall>c\<in>set name. (of_char c :: nat) < 128"
  shows "content_disposition_filename
           (Some (''attachment; filename*=UTF-8'' @ [CHR 0x27, CHR 0x27] @ encode_uri_component name))
         = Some name"
proof -
  let ?enc = "encode_uri_component name"
  let ?q = "[CHR 0x27, CHR 0x27]"
  have ne: "?enc \<noteq> []"
    using assms(1) by (cases name) (simp_all add: encode_uri_component_def)
  have cap: "capture_until {CHR '';''} ?enc = Some ?enc"
    using encoded_chars by (intro capture_until_all [OF ne]) blast
  have filt: "filter (\<lambda>c. c \<noteq> CHR 0x22) ?enc = ?enc"
    using encoded_chars by (simp add: filter_id_conv)
  have "match_ci (''filename*=utf-8'' @ ?q) (capture_until {CHR '';''})
          (''attachment; filename*=UTF-8'' @ ?q @ ?enc) = Some ?enc"
  proof -
    have skip: "match_ci (''filename*=utf-8'' @ ?q) (capture_until {CHR '';''}) (''attachment; '' @ t)
        = match_ci (''filename*=utf-8'' @ ?q) (capture_until {CHR '';''}) t" for t
      by (simp add: match_ci_skip disposition_chars del: match_ci.simps)
    have here: "match_ci (''filename*=utf-8'' @ ?q) (capture_until {CHR '';''})
        ((''filename*=UTF-8'' @ ?q) @ ?enc) = Some ?enc"
      by (rule match_ci_here) (simp_all add: cap to_lower_marker [simplified])
    have "''attachment; filename*=UTF-8'' @ ?q @ ?enc = ''attachment; '' @ ((''filename*=UTF-8'' @ ?q) @ ?enc)"
      by simp
    then show ?thesis by (simp only: skip here)
  qed
  then show ?thesis
    by (rule content_disposition_encoded [OF _ filt decode_encode_ascii [OF assms(2)]])
qed

lemma content_disposition_roundtrip_witness:
  "content_disposition_filename
     (Some (''attachment; filename*=UTF-8'' @ [CHR 0x27, CHR 0x27] @ encode_uri_component ''a;b c.csv''))
   = Some ''a;b c.csv''"
  by (rule content_disposition_roundtrip) simp_all

end
