(* ===== verification/Retry.thy ===== *)
theory Retry
  imports Api_Client
begin

text \<open>
  The shared error handling of the data hooks, \<open>hooks/admin/shared.ts\<close>: which errors are worth a
  retry, the retry loop with its delays, and the message an error is shown with.  The function
  that is retried is a parameter: the outcome of its n-th call.  \<open>t\<close> is the message table of the
  current locale.
\<close>

section \<open>Reading a thrown value\<close>

fun exn_status :: "exn \<Rightarrow> jsval" where
  "exn_status (Api_Error _ s _) = JNum s"
| "exn_status (Named_Error _ _) = JUndef"
| "exn_status (Thrown v) = get_prop ''status'' v"

fun exn_name :: "exn \<Rightarrow> jsval" where
  "exn_name (Api_Error _ _ _) = JStr ''ApiError''"
| "exn_name (Named_Error n _) = JStr n"
| "exn_name (Thrown v) = get_prop ''name'' v"

fun exn_text :: "exn \<Rightarrow> jsval" where \<comment> \<open>\<open>err.message\<close>\<close>
  "exn_text (Api_Error m _ _) = JStr m"
| "exn_text (Named_Error _ m) = JStr m"
| "exn_text (Thrown v) = get_prop ''message'' v"

fun exn_is_object :: "exn \<Rightarrow> bool" where
  "exn_is_object (Thrown v) = is_object v"
| "exn_is_object _ = True"

fun exn_is_falsy :: "exn \<Rightarrow> bool" where
  "exn_is_falsy (Thrown v) = (\<not> truthy v)"
| "exn_is_falsy _ = False"

section \<open>Retrying\<close>

definition retry_delays_ms :: "nat list" where
  "retry_delays_ms = [200, 600, 1500]"

definition retryable_status_codes :: "jsnum list" where
  "retryable_status_codes = [Fin 408, Fin 425, Fin 429, Fin 500, Fin 502, Fin 503, Fin 504]"

definition is_retryable_error :: "exn \<Rightarrow> bool" where
  "is_retryable_error e =
     (if exn_is_falsy e \<or> \<not> exn_is_object e then False
      else case exn_status e of
        JNum s \<Rightarrow> List.member retryable_status_codes s
      | _ \<Rightarrow> exn_name e = JStr ''TypeError'' \<or> exn_name e = JStr ''NetworkError'' \<or>
             exn_name e = JStr ''AbortError'')"

definition retry_delay :: "nat list \<Rightarrow> nat \<Rightarrow> nat" where
  \<comment> \<open>\<open>delays[Math.min(attempt, delays.length - 1)]\<close>; without delays the timer gets \<open>undefined\<close>, 0\<close>
  "retry_delay delays k = (if delays = [] then 0 else delays ! min k (length delays - 1))"

function retry_loop :: "(nat \<Rightarrow> exn + 'a) \<Rightarrow> int \<Rightarrow> nat list \<Rightarrow> exn \<Rightarrow> nat \<Rightarrow> (exn + 'a) \<times> nat list" where
  \<comment> \<open>from attempt \<open>k\<close> on: the outcome and the delays waited before it\<close>
  "retry_loop fn retries delays prev k =
     (if int k > retries then (Inl prev, [])
      else case fn k of
        Inr v \<Rightarrow> (Inr v, [])
      | Inl e \<Rightarrow>
          if int k = retries \<or> \<not> is_retryable_error e then (Inl e, [])
          else (case retry_loop fn retries delays e (Suc k) of
                  (r, ds) \<Rightarrow> (r, retry_delay delays k # ds)))"
  by pat_completeness auto
termination
  by (relation "measure (\<lambda>(fn, retries, delays, prev, k). nat (retries + 1 - int k))") auto

declare retry_loop.simps [simp del]

definition with_retry :: "(nat \<Rightarrow> exn + 'a) \<Rightarrow> int option \<Rightarrow> nat list option \<Rightarrow> (exn + 'a) \<times> nat list" where
  "with_retry fn retries delays =
     retry_loop fn (coalesce retries (int (length retry_delays_ms))) (coalesce delays retry_delays_ms)
       (Thrown JUndef) 0"

section \<open>Messages\<close>

text \<open>
  The parameter \<open>t\<close> of \<open>error_to_message\<close> is the translation in the stored locale: \<open>errorToMessage\<close> takes
  \<open>getStoredLocale()\<close> as its locale by default, not the \<open>t\<close> of the hook it is called from.  The hooks of
  the other theories pass on the one translation they have, so they speak of pages shown in the stored locale.
\<close>

definition error_to_message :: "(string \<Rightarrow> string) \<Rightarrow> exn \<Rightarrow> string" where
  "error_to_message t e =
     (let fallback = (if truthy (exn_text e) then js_string (exn_text e) else t ''commonErrorUnknown'') in
      if exn_is_falsy e then t ''commonErrorUnknown''
      else if exn_name e = JStr ''TypeError'' \<or> exn_name e = JStr ''NetworkError'' then t ''commonErrorNetwork''
      else if exn_name e = JStr ''AbortError'' then t ''commonErrorTimeout''
      else (case exn_status e of
              JNum s \<Rightarrow>
                if s = Fin 401 then t ''commonErrorUnauthorized''
                else if s = Fin 403 then t ''commonErrorForbidden''
                else if s = Fin 404 then t ''commonErrorNotFound''
                else if s = Fin 429 then t ''commonErrorRateLimit''
                else if num_le (Fin 500) s then t ''commonErrorServer''
                else if num_le (Fin 400) s then t ''commonErrorClient''
                else fallback
            | _ \<Rightarrow> fallback))"

section \<open>Facts about the loop\<close>

lemma retry_loop_step:
  "int k \<le> retries \<Longrightarrow> fn k = Inl e \<Longrightarrow> int k \<noteq> retries \<Longrightarrow> is_retryable_error e \<Longrightarrow>
   retry_loop fn retries delays prev k =
     (case retry_loop fn retries delays e (Suc k) of (r, ds) \<Rightarrow> (r, retry_delay delays k # ds))"
  by (subst retry_loop.simps) simp

lemma retry_loop_Inl:
  "int k \<le> retries \<Longrightarrow> fn k = Inl e \<Longrightarrow> int k = retries \<or> \<not> is_retryable_error e \<Longrightarrow>
   retry_loop fn retries delays prev k = (Inl e, [])"
  by (subst retry_loop.simps) auto

lemma retry_loop_Inr:
  "int k \<le> retries \<Longrightarrow> fn k = Inr v \<Longrightarrow> retry_loop fn retries delays prev k = (Inr v, [])"
  by (subst retry_loop.simps) simp

text \<open>The loop stops at the first attempt that succeeds, fails for good, or is the last allowed.\<close>

definition stops_at :: "(nat \<Rightarrow> exn + 'a) \<Rightarrow> int \<Rightarrow> nat \<Rightarrow> bool" where
  "stops_at fn retries n \<longleftrightarrow>
     int n = retries \<or> (case fn n of Inr _ \<Rightarrow> True | Inl e \<Rightarrow> \<not> is_retryable_error e)"

lemma retry_loop_stops:
  assumes "int k \<le> retries"
  shows "\<exists>n\<ge>k. int n \<le> retries \<and> stops_at fn retries n \<and> (\<forall>j. k \<le> j \<and> j < n \<longrightarrow> \<not> stops_at fn retries j)
     \<and> retry_loop fn retries delays prev k = (fn n, map (retry_delay delays) [k..<n])"
  using assms
proof (induction "nat (retries - int k)" arbitrary: k prev)
  case 0
  then have "int k = retries" by simp
  then show ?case
    by (cases "fn k") (auto simp: retry_loop_Inl retry_loop_Inr stops_at_def intro!: exI [of _ k])
next
  case (Suc m)
  show ?case
  proof (cases "stops_at fn retries k")
    case True
    with Suc.prems show ?thesis
      by (cases "fn k") (auto simp: retry_loop_Inl retry_loop_Inr stops_at_def intro!: exI [of _ k])
  next
    case False
    then obtain e where e: "fn k = Inl e" "is_retryable_error e" "int k \<noteq> retries"
      by (auto simp: stops_at_def split: sum.splits)
    have "m = nat (retries - int (Suc k))" "int (Suc k) \<le> retries"
      using Suc.hyps(2) Suc.prems e(3) by linarith+
    from Suc.hyps(1) [OF this, of e] obtain n where n: "n \<ge> Suc k" "int n \<le> retries"
      "stops_at fn retries n" "\<forall>j. Suc k \<le> j \<and> j < n \<longrightarrow> \<not> stops_at fn retries j"
      "retry_loop fn retries delays e (Suc k) = (fn n, map (retry_delay delays) [Suc k..<n])" by blast
    have "retry_loop fn retries delays prev k = (fn n, map (retry_delay delays) [k..<n])"
      using retry_loop_step [of k retries fn e delays prev] Suc.prems e n(1,5)
      by (simp add: upt_conv_Cons)
    moreover have "\<forall>j. k \<le> j \<and> j < n \<longrightarrow> \<not> stops_at fn retries j"
      using n(4) False by (metis Suc_leI le_eq_less_or_eq)
    ultimately show ?thesis using n(1,2,3) by (intro exI [of _ n]) auto
  qed
qed

section \<open>Properties\<close>

text \<open>
  C10: The retry loop always returns, and returns the outcome of one attempt: the first that
  succeeds, fails with an error not worth a retry, or is the last one allowed.  All attempts
  before it failed with retryable errors, and the loop waited once per failed attempt, by the
  delay table (its last entry repeated).
\<close>

theorem with_retry_spec:
  "\<exists>n\<le>3. (n = 3 \<or> (\<exists>v. fn n = Inr v) \<or> (\<exists>e. fn n = Inl e \<and> \<not> is_retryable_error e))
     \<and> list_all (\<lambda>j. \<exists>e. fn j = Inl e \<and> is_retryable_error e) [0..<n]
     \<and> with_retry fn None None = (fn n, take n [200, 600, 1500])"
proof -
  from retry_loop_stops [of 0 3 fn retry_delays_ms "Thrown JUndef"]
  obtain n where n: "int n \<le> 3" "stops_at fn 3 n" "\<forall>j<n. \<not> stops_at fn 3 j"
    "retry_loop fn 3 retry_delays_ms (Thrown JUndef) 0 = (fn n, map (retry_delay retry_delays_ms) [0..<n])"
    by auto
  have n3: "n = 0 \<or> n = 1 \<or> n = 2 \<or> n = 3" using n(1) by linarith
  then have "map (retry_delay retry_delays_ms) [0..<n] = take n [200, 600, 1500]"
    by (auto simp: retry_delay_def retry_delays_ms_def upt_conv_Cons numeral_eq_Suc)
  then have "with_retry fn None None = (fn n, take n [200, 600, 1500])"
    using n(4) by (simp add: with_retry_def retry_delays_ms_def)
  moreover have "n = 3 \<or> (\<exists>v. fn n = Inr v) \<or> (\<exists>e. fn n = Inl e \<and> \<not> is_retryable_error e)"
    using n(2) by (auto simp: stops_at_def split: sum.splits)
  moreover have "list_all (\<lambda>j. \<exists>e. fn j = Inl e \<and> is_retryable_error e) [0..<n]"
    unfolding list_all_iff
  proof
    fix j assume "j \<in> set [0..<n]"
    with n(3) have "\<not> stops_at fn 3 j" by simp
    then show "\<exists>e. fn j = Inl e \<and> is_retryable_error e" by (cases "fn j") (auto simp: stops_at_def)
  qed
  ultimately show ?thesis using n3 by (intro exI [of _ n]) auto
qed

text \<open>
  A request that runs into its time limit is neither retried nor reported as a timeout:
  \<open>AbortSignal.timeout\<close> rejects \<open>fetch\<close> with an error named \<open>TimeoutError\<close>, which the shared error
  handling, written for \<open>AbortError\<close>, does not know.
\<close>

definition timeout_error :: "string \<Rightarrow> exn" where
  "timeout_error msg = Named_Error ''TimeoutError'' msg"

theorem timeouts_not_recognised:
  "with_retry (\<lambda>_. Inl (timeout_error msg)) None None = (Inl (timeout_error msg), [])
   \<and> error_to_message t (timeout_error msg) = (if msg \<noteq> [] then msg else t ''commonErrorUnknown'')
   \<and> error_to_message t (Named_Error ''AbortError'' msg) = t ''commonErrorTimeout''"
  by (simp add: with_retry_def retry_delays_ms_def retry_loop_Inl is_retryable_error_def
      timeout_error_def error_to_message_def)

end
