(* ===== verification/Chat_Types.thy ===== *)
theory Chat_Types
  imports Retry
begin

text \<open>
  The chat data of \<open>lib/api/chat.ts\<close>: sessions, messages and stream payloads, the narrowing of
  unknown payloads to them, and the state an asynchronous list is kept in (\<open>AsyncState\<close> of
  \<open>hooks/admin/shared.ts\<close>).  A \<open>Record<string, unknown>\<close> is the list of its properties.  Where the
  code casts a payload (\<open>as ChatMessageResponse\<close>) the model reads its fields one by one; a string
  field that holds something else reads as the empty string.
\<close>

type_synonym props = "(string \<times> jsval) list"

record chat_session =
  cs_id :: string
  cs_tenant_id :: string
  cs_title :: string
  cs_agent_id :: "string option"
  cs_channel_id :: "string option"
  cs_user_id :: "string option"
  cs_department_id :: "string option"
  cs_source :: string
  cs_status :: string
  cs_metadata :: props
  cs_created_at :: string
  cs_updated_at :: string

record chat_message =
  cm_id :: string
  cm_tenant_id :: string
  cm_conversation_id :: string
  cm_role :: string
  cm_content :: string
  cm_user_id :: "string option"
  cm_request_id :: "string option"
  cm_model_key :: "string option"
  cm_provider_key :: "string option"
  cm_input_tokens :: jsval
  cm_output_tokens :: jsval
  cm_total_tokens :: jsval
  cm_cost_usd :: jsval
  cm_metadata :: props
  cm_created_at :: string
  cm_updated_at :: string

record chat_session_request =
  csr_title :: "string option"
  csr_agent_id :: "string option"
  csr_channel_id :: "string option"
  csr_department_id :: "string option"
  csr_source :: "string option"
  csr_metadata :: "props option"

record llm_usage =
  us_input_tokens :: jsval
  us_output_tokens :: jsval
  us_total_tokens :: jsval
  us_cost_usd :: jsval

record stream_metadata =
  sm_user_message :: chat_message
  sm_request_id :: "string option"
  sm_provider_key :: "string option"
  sm_model_key :: "string option"
  sm_usage :: llm_usage
  sm_metadata :: props

record stream_status =
  ss_stage :: string
  ss_state :: string
  ss_payload :: jsval \<comment> \<open>the whole payload, which is what the message keeps\<close>

record stream_error =
  se_status :: jsnum
  se_detail :: jsval
  se_request_id :: "string option"

record 'a async_state =
  as_data :: "'a option"
  as_error :: "string option"
  as_loading :: bool

section \<open>Reading payloads\<close>

definition prop_str :: "string \<Rightarrow> jsval \<Rightarrow> string" where
  "prop_str k v = (case get_prop k v of JStr s \<Rightarrow> s | _ \<Rightarrow> [])"

definition props_of :: "jsval \<Rightarrow> props" where \<comment> \<open>what \<open>...v\<close> spreads\<close>
  "props_of v = (case v of JObj kvs \<Rightarrow> kvs | _ \<Rightarrow> [])"

definition chat_message_of :: "jsval \<Rightarrow> chat_message" where
  "chat_message_of v =
     \<lparr>cm_id = prop_str ''id'' v, cm_tenant_id = prop_str ''tenant_id'' v,
      cm_conversation_id = prop_str ''conversation_id'' v, cm_role = prop_str ''role'' v,
      cm_content = prop_str ''content'' v, cm_user_id = json_str (get_prop ''user_id'' v),
      cm_request_id = json_str (get_prop ''request_id'' v),
      cm_model_key = json_str (get_prop ''model_key'' v),
      cm_provider_key = json_str (get_prop ''provider_key'' v),
      cm_input_tokens = get_prop ''input_tokens'' v, cm_output_tokens = get_prop ''output_tokens'' v,
      cm_total_tokens = get_prop ''total_tokens'' v, cm_cost_usd = get_prop ''cost_usd'' v,
      cm_metadata = props_of (get_prop ''metadata'' v),
      cm_created_at = prop_str ''created_at'' v, cm_updated_at = prop_str ''updated_at'' v\<rparr>"

definition llm_usage_of :: "jsval \<Rightarrow> llm_usage" where
  "llm_usage_of v =
     \<lparr>us_input_tokens = get_prop ''input_tokens'' v, us_output_tokens = get_prop ''output_tokens'' v,
      us_total_tokens = get_prop ''total_tokens'' v, us_cost_usd = get_prop ''cost_usd'' v\<rparr>"

section \<open>Narrowing of stream payloads\<close>

definition is_record :: "jsval \<Rightarrow> bool" where \<comment> \<open>\<open>typeof value === "object" && value !== null\<close>\<close>
  "is_record v = is_object v"

definition as_stream_metadata :: "jsval \<Rightarrow> stream_metadata option" where
  "as_stream_metadata p =
     (if \<not> is_record p \<or> \<not> is_record (get_prop ''user_message'' p) then None
      else Some \<lparr>sm_user_message = chat_message_of (get_prop ''user_message'' p),
             sm_request_id = json_str (get_prop ''request_id'' p),
             sm_provider_key = json_str (get_prop ''provider_key'' p),
             sm_model_key = json_str (get_prop ''model_key'' p),
             sm_usage = llm_usage_of (get_prop ''usage'' p),
             sm_metadata = props_of (get_prop ''metadata'' p)\<rparr>)"

definition as_stream_delta :: "jsval \<Rightarrow> string option" where
  "as_stream_delta p = (if \<not> is_record p then None else json_str (get_prop ''content'' p))"

definition as_stream_status :: "jsval \<Rightarrow> stream_status option" where
  "as_stream_status p =
     (if \<not> is_record p then None
      else case (get_prop ''stage'' p, get_prop ''state'' p) of
             (JStr a, JStr b) \<Rightarrow> Some \<lparr>ss_stage = a, ss_state = b, ss_payload = p\<rparr>
           | _ \<Rightarrow> None)"

definition as_stream_done :: "jsval \<Rightarrow> string option" where
  "as_stream_done p = (if \<not> is_record p then None else json_str (get_prop ''message_id'' p))"

definition as_stream_error :: "jsval \<Rightarrow> stream_error option" where
  "as_stream_error p =
     (if \<not> is_record p then None
      else case get_prop ''status'' p of
             JNum n \<Rightarrow> Some \<lparr>se_status = n, se_detail = get_prop ''detail'' p,
                         se_request_id = json_str (get_prop ''request_id'' p)\<rparr>
           | _ \<Rightarrow> None)"

lemma narrowing_rejects_text [simp]:
  "as_stream_metadata (JStr s) = None" "as_stream_delta (JStr s) = None"
  "as_stream_status (JStr s) = None" "as_stream_done (JStr s) = None" "as_stream_error (JStr s) = None"
  by (simp_all add: as_stream_metadata_def as_stream_delta_def as_stream_status_def
      as_stream_done_def as_stream_error_def is_record_def)

end
