(* ===== verification/Sse_Stream.thy ===== *)
theory Sse_Stream
  imports Api_Client
begin

text \<open>
  Server-sent events over \<open>fetch\<close>, \<open>emitSseChunk\<close> and \<open>apiPostSse\<close> of \<open>lib/api/core.ts\<close>.

  The event callback is a function that may throw and that changes a state \<open>'s\<close> of the caller.
  The body is what the reader delivers: a list of text pieces, as the incremental decoder hands
  them out, or of the error a read rejects with; \<open>flush\<close> is what the decoder still held at the end.

  The locale \<open>event_handler\<close> is the contract between the stream and its client: a callback that
  never throws.  Every handler of the chat satisfies it once the stream's own retry is taken into
  account, which is the subject of theory \<open>Chat_Stream\<close>.
\<close>

type_synonym 's handler = "string \<Rightarrow> jsval \<Rightarrow> 's \<Rightarrow> (exn + unit) \<times> 's"

section \<open>One event\<close>

definition strip_field :: "string \<Rightarrow> string \<Rightarrow> string" where
  \<comment> \<open>\<open>line.replace(/^field:\s?/, "")\<close>, for a line that starts with \<open>field:\<close>\<close>
  "strip_field field line =
     (let r = drop (length field) line in if r \<noteq> [] \<and> is_space (hd r) then tl r else r)"

definition emit_sse_chunk :: "'s handler \<Rightarrow> string \<Rightarrow> 's \<Rightarrow> (exn + unit) \<times> 's" where
  "emit_sse_chunk on chunk s =
     (let lines = split [nl] chunk;
          event_line = List.find (prefix ''event:'') lines;
          data_lines = map (strip_field ''data:'') (filter (prefix ''data:'') lines)
      in case event_line of
           None \<Rightarrow> (Inr (), s)
         | Some line \<Rightarrow>
             if data_lines = [] then (Inr (), s)
             else
               (let event = trim (strip_field ''event:'' line); data = join [nl] data_lines in
                case json_parse data of
                  None \<Rightarrow> on event (JStr data) s
                | Some v \<Rightarrow>
                    (case on event v s of
                       (Inr _, s') \<Rightarrow> (Inr (), s')
                     | (Inl _, s') \<Rightarrow> on event (JStr data) s')))"

section \<open>The stream\<close>

fun emit_all :: "'s handler \<Rightarrow> string list \<Rightarrow> 's \<Rightarrow> (exn + unit) \<times> 's" where
  "emit_all on [] s = (Inr (), s)"
| "emit_all on (c # cs) s =
     (case emit_sse_chunk on c s of
        (Inl e, s') \<Rightarrow> (Inl e, s')
      | (Inr _, s') \<Rightarrow> emit_all on cs s')"

definition blank_line :: string where "blank_line = [nl, nl]"

fun sse_loop ::
  "'s handler \<Rightarrow> string \<Rightarrow> (exn + string) list \<Rightarrow> string \<Rightarrow> 's \<Rightarrow> (exn + unit) \<times> 's" where
  "sse_loop on buffer [] flush s =
     (if trim (buffer @ flush) \<noteq> [] then emit_sse_chunk on (buffer @ flush) s else (Inr (), s))"
| "sse_loop on buffer (Inl e # rest) flush s = (Inl e, s)"
| "sse_loop on buffer (Inr piece # rest) flush s =
     (let chunks = split blank_line (buffer @ piece) in
      case emit_all on (butlast chunks) s of
        (Inl e, s') \<Rightarrow> (Inl e, s')
      | (Inr _, s') \<Rightarrow> sse_loop on (last chunks) rest flush s')"

record stream_body =
  body_pieces :: "(exn + string) list"
  body_flush :: string

type_synonym 'f stream_network = "'f request \<Rightarrow> exn + (response \<times> stream_body option)"

definition api_post_sse ::
  "'f stream_network \<Rightarrow> string \<Rightarrow> string \<Rightarrow> jsval \<Rightarrow> 's handler \<Rightarrow> request_options \<Rightarrow> browser \<Rightarrow> 's \<Rightarrow>
   (exn + unit) \<times> browser \<times> bool \<times> 's" where
  "api_post_sse net base path body on opts b s =
     (case prepare base POST [(''Accept'', ''text/event-stream''), (''Content-Type'', ''application/json'')]
             (Json_Body (stringify body)) None path opts b of
        (Inl e, b1) \<Rightarrow> (Inl e, b1, False, s)
      | (Inr req, b1) \<Rightarrow>
          (case net req of
             Inl e \<Rightarrow> (Inl e, b1, False, s)
           | Inr (r, strm) \<Rightarrow>
               if \<not> resp_ok r then
                 (case parse_response r of
                    Inl e \<Rightarrow> (Inl e, b1, False, s)
                  | Inr payload \<Rightarrow>
                      (case throw_api_error r payload opts b1 of (res, b2, ex) \<Rightarrow> (res, b2, ex, s)))
               else (case strm of
                       None \<Rightarrow>
                         (Inl (Api_Error ''Streaming response did not include a readable body.''
                                 (Fin (of_int (resp_status r))) JUndef), b1, False, s)
                     | Some st \<Rightarrow>
                         (case sse_loop on [] (body_pieces st) (body_flush st) s of
                            (res, s') \<Rightarrow> (res, b1, False, s')))))"

section \<open>Pieces do not matter\<close>

definition sse_whole :: "'s handler \<Rightarrow> string \<Rightarrow> 's \<Rightarrow> (exn + unit) \<times> 's" where
  \<comment> \<open>the same stream, read in one go\<close>
  "sse_whole on text s =
     (let chunks = split blank_line text in
      case emit_all on (butlast chunks) s of
        (Inl e, s') \<Rightarrow> (Inl e, s')
      | (Inr _, s') \<Rightarrow>
          if trim (last chunks) \<noteq> [] then emit_sse_chunk on (last chunks) s' else (Inr (), s'))"

lemma blank_line_nonempty [simp]: "blank_line \<noteq> []"
  by (simp add: blank_line_def)

lemma emit_all_append:
  "emit_all on (xs @ ys) s =
     (case emit_all on xs s of (Inl e, s') \<Rightarrow> (Inl e, s') | (Inr _, s') \<Rightarrow> emit_all on ys s')"
  by (induction xs arbitrary: s) (auto split: prod.split sum.split)

lemma split_last_chunk: "split blank_line (last (split blank_line x)) = [last (split blank_line x)]"
proof -
  have "split blank_line x = butlast (split blank_line x) @ split blank_line (last (split blank_line x))"
    using split_append [of blank_line x "[]"] by simp
  moreover have "split blank_line x = butlast (split blank_line x) @ [last (split blank_line x)]"
    by (simp add: split_nonempty)
  ultimately show ?thesis by (metis same_append_eq)
qed

lemma sse_loop_whole_gen:
  assumes "split blank_line buffer = [buffer]"
  shows "sse_loop on buffer (map Inr pieces) [] s = sse_whole on (buffer @ concat pieces) s"
  using assms
proof (induction pieces arbitrary: buffer s)
  case Nil
  then show ?case by (simp add: sse_whole_def)
next
  case (Cons p ps)
  let ?xs = "split blank_line (buffer @ p)"
  have rest: "sse_loop on (last ?xs) (map Inr ps) [] s' = sse_whole on (last ?xs @ concat ps) s'" for s'
    by (rule Cons.IH [OF split_last_chunk])
  have all: "split blank_line (buffer @ p @ concat ps) =
      butlast ?xs @ split blank_line (last ?xs @ concat ps)"
    using split_append [of blank_line "buffer @ p" "concat ps"] by simp
  have ne: "split blank_line (last ?xs @ concat ps) \<noteq> []" by (simp add: split_nonempty)
  have "sse_whole on (buffer @ p @ concat ps) s =
      (case emit_all on (butlast ?xs) s of
         (Inl e, s') \<Rightarrow> (Inl e, s') | (Inr _, s') \<Rightarrow> sse_whole on (last ?xs @ concat ps) s')"
    unfolding sse_whole_def all Let_def
    using ne by (simp add: butlast_append emit_all_append split: prod.split sum.split)
  then show ?case by (simp add: Let_def) (simp add: rest split: prod.split sum.split)
qed

lemma split_blank_Nil: "split blank_line [] = [[]]"
  by (simp add: split_None blank_line_def)

lemma sse_loop_whole: "sse_loop on [] (map Inr pieces) [] s = sse_whole on (concat pieces) s"
  using sse_loop_whole_gen [OF split_blank_Nil] by simp

section \<open>Handlers that never fail a stream\<close>

locale event_handler =
  fixes on :: "'s handler"
  assumes survives: "\<exists>s'. emit_sse_chunk on chunk s = (Inr (), s')"
begin

lemma emit_all_survives: "\<exists>s'. emit_all on chunks s = (Inr (), s')"
proof (induction chunks arbitrary: s)
  case (Cons c cs)
  then show ?case using survives [of c s] by fastforce
qed simp

lemma stream_survives:
  "\<forall>p\<in>set pieces. \<exists>x. p = Inr x \<Longrightarrow> \<exists>s'. sse_loop on buffer pieces flush s = (Inr (), s')"
proof (induction pieces arbitrary: buffer s)
  case Nil
  then show ?case using survives [of "buffer @ flush" s] by auto
next
  case (Cons p ps)
  then obtain x where x: "p = Inr x" by auto
  obtain s' where s': "emit_all on (butlast (split blank_line (buffer @ x))) s = (Inr (), s')"
    using emit_all_survives by blast
  with Cons x show ?case by (simp add: Let_def)
qed

end

section \<open>Properties\<close>

text \<open>
  C11: How the network cuts the body into pieces makes no difference: whatever the callback does,
  reading the stream piece by piece runs it on the same events, in the same order, with the same
  outcome and the same final state, as reading the whole text at once; an event split across any
  number of reads is delivered once, and the text after the last blank line is delivered at the
  end unless it is blank.
\<close>

theorem fragmentation_irrelevant:
  "sse_loop on [] (map Inr pieces) [] s = sse_whole on (concat pieces) s"
  by (rule sse_loop_whole)

end
