(* ===== verification/Chat_Stream.thy ===== *)
theory Chat_Stream
  imports Chat_Types Sse_Stream
begin

text \<open>
  The chat stream of \<open>lib/api/chat.ts\<close> (\<open>chatApi.streamChatMessage\<close>): the dispatch of its events to
  the caller's callbacks, as a handler of theory \<open>Sse_Stream\<close>, and the requests of \<open>chatApi\<close>.
\<close>

record 's chat_callbacks =
  on_metadata :: "stream_metadata \<Rightarrow> 's \<Rightarrow> 's"
  on_delta :: "string \<Rightarrow> 's \<Rightarrow> 's"
  on_status :: "stream_status \<Rightarrow> 's \<Rightarrow> 's"
  on_done :: "string \<Rightarrow> 's \<Rightarrow> 's"
  on_error :: "stream_error \<Rightarrow> 's \<Rightarrow> 's"

definition stream_error_exn :: "stream_error \<Rightarrow> exn" where
  "stream_error_exn e =
     Api_Error
       (case (is_record (se_detail e), get_prop ''message'' (se_detail e)) of
          (True, JStr m) \<Rightarrow> m
        | _ \<Rightarrow> status_message (se_status e))
       (se_status e) (JObj [(''detail'', se_detail e)])"

definition chat_on_event :: "'s chat_callbacks \<Rightarrow> 's handler" where
  "chat_on_event cb event payload s =
     (if event = ''metadata'' then
        (Inr (), case as_stream_metadata payload of None \<Rightarrow> s | Some m \<Rightarrow> on_metadata cb m s)
      else if event = ''delta'' then
        (Inr (), case as_stream_delta payload of None \<Rightarrow> s | Some d \<Rightarrow> on_delta cb d s)
      else if event = ''status'' then
        (Inr (), case as_stream_status payload of None \<Rightarrow> s | Some st \<Rightarrow> on_status cb st s)
      else if event = ''done'' then
        (Inr (), case as_stream_done payload of None \<Rightarrow> s | Some i \<Rightarrow> on_done cb i s)
      else if event = ''error'' then
        (case as_stream_error payload of
           None \<Rightarrow> (Inr (), s)
         | Some e \<Rightarrow> (Inl (stream_error_exn e), on_error cb e s))
      else (Inr (), s))"

section \<open>The requests\<close>

definition chat_sessions_path :: string where
  "chat_sessions_path = ''/api/v1/chat/sessions''"

definition opt_prop :: "string \<Rightarrow> string option \<Rightarrow> props" where
  "opt_prop k v = (case v of None \<Rightarrow> [] | Some s \<Rightarrow> [(k, JStr s)])"

record chat_message_request =
  cmr_content :: string
  cmr_model_key :: "string option"
  cmr_routing_key :: "string option"
  cmr_temperature :: "jsnum option"
  cmr_max_tokens :: "jsnum option"
  cmr_metadata :: "props option"

definition chat_message_request_json :: "chat_message_request \<Rightarrow> jsval" where
  "chat_message_request_json r = JObj
     ([(''content'', JStr (cmr_content r))] @ opt_prop ''model_key'' (cmr_model_key r) @
      opt_prop ''routing_key'' (cmr_routing_key r) @
      (case cmr_temperature r of None \<Rightarrow> [] | Some n \<Rightarrow> [(''temperature'', JNum n)]) @
      (case cmr_max_tokens r of None \<Rightarrow> [] | Some n \<Rightarrow> [(''max_tokens'', JNum n)]) @
      (case cmr_metadata r of None \<Rightarrow> [] | Some m \<Rightarrow> [(''metadata'', JObj m)]))"

definition get_chat_messages ::
  "'f network \<Rightarrow> string \<Rightarrow> string \<Rightarrow> browser \<Rightarrow> jsval outcome" where
  "get_chat_messages net base session_id b =
     api_get net base (chat_sessions_path @ ''/'' @ session_id @ ''/messages'') no_options b"

definition stream_chat_message ::
  "'f stream_network \<Rightarrow> string \<Rightarrow> string \<Rightarrow> chat_message_request \<Rightarrow> 's chat_callbacks \<Rightarrow> bool \<Rightarrow>
   browser \<Rightarrow> 's \<Rightarrow> (exn + unit) \<times> browser \<times> bool \<times> 's" where
  "stream_chat_message net base session_id payload cb sig b s =
     api_post_sse net base (chat_sessions_path @ ''/'' @ session_id @ ''/messages/stream'')
       (chat_message_request_json payload) (chat_on_event cb) (no_options\<lparr>opt_signal := sig\<rparr>) b s"

section \<open>The chat handler survives its own errors\<close>

lemma chat_on_event_text: "chat_on_event cb event (JStr data) s = (Inr (), s)"
  by (simp add: chat_on_event_def)

lemma chat_emit_survives: "\<exists>s'. emit_sse_chunk (chat_on_event cb) chunk s = (Inr (), s')"
  by (auto simp: emit_sse_chunk_def Let_def chat_on_event_text split: option.split prod.split sum.split)

interpretation chat_handler: event_handler "chat_on_event cb" for cb :: "'s chat_callbacks"
  by unfold_locales (rule chat_emit_survives)

section \<open>What the server writes\<close>

text \<open>
  \<open>_sse\<close> of the server (\<open>chat_service.py\<close>) frames an event by its name and the text \<open>json.dumps\<close> makes of its data.
  A served event is the name, that text and the data; \<open>json.dumps\<close> belongs to Python's library, and what is
  needed of it is that the text is JSON, on one line, and stands for the data.
\<close>

definition sse_frame :: "string \<Rightarrow> string \<Rightarrow> string" where
  "sse_frame event body = ''event: '' @ event @ [nl] @ ''data: '' @ body @ blank_line"

type_synonym served_event = "string \<times> string \<times> jsval"

definition served_stream :: "served_event list \<Rightarrow> string" where
  "served_stream evs = concat (map (\<lambda>(event, body, data). sse_frame event body) evs)"

definition served_names :: "string list" where
  "served_names = [''status'', ''delta'', ''metadata'', ''done'', ''error'']"

definition served_ok :: "served_event \<Rightarrow> bool" where
  "served_ok ev \<longleftrightarrow>
     (case ev of (event, body, data) \<Rightarrow>
        List.member served_names event \<and> nl \<notin> set body \<and> json_parse body = Some data)"

definition chunk_of :: "served_event \<Rightarrow> string" where \<comment> \<open>the frame without the blank line that ends it\<close>
  "chunk_of ev = (case ev of (event, body, data) \<Rightarrow> ''event: '' @ event @ [nl] @ ''data: '' @ body)"

lemma break_on_blank:
  "nl \<notin> set x \<Longrightarrow> nl \<notin> set y \<Longrightarrow> y \<noteq> [] \<Longrightarrow>
   break_on blank_line (x @ nl # y @ blank_line @ r) = Some (x @ nl # y, r)"
proof (induction x)
  case Nil
  have y: "break_on blank_line (y @ blank_line @ r) = Some (y, r)"
    using Nil.prems(2)
  proof (induction y)
    case Nil
    then show ?case using break_on_self [of blank_line r] by simp
  qed (auto simp: blank_line_def)
  show ?case using Nil.prems(2,3) y by (cases y) (auto simp: blank_line_def)
next
  case (Cons c x)
  then show ?case by (auto simp: blank_line_def)
qed

lemma served_name: "List.member served_names event \<Longrightarrow> nl \<notin> set event \<and> trim event = event"
proof -
  assume "List.member served_names event"
  moreover have "list_all (\<lambda>n. nl \<notin> set n \<and> trim n = n) served_names" by code_simp
  ultimately show ?thesis by (auto simp: list_all_iff)
qed

lemma split_served:
  "list_all served_ok evs \<Longrightarrow> split blank_line (served_stream evs) = map chunk_of evs @ [[]]"
proof (induction evs)
  case Nil
  then show ?case by (simp add: served_stream_def split_blank_Nil)
next
  case (Cons ev evs)
  obtain event body data where ev: "ev = (event, body, data)" by (cases ev)
  with Cons.prems have n: "nl \<notin> set event" "nl \<notin> set body"
    using served_name [of event] by (simp_all add: served_ok_def)
  have "break_on blank_line ((''event: '' @ event) @ nl # (''data: '' @ body) @ blank_line @ served_stream evs)
      = Some ((''event: '' @ event) @ nl # (''data: '' @ body), served_stream evs)"
    using n by (intro break_on_blank) (auto simp: nl_def)
  then have "split blank_line (served_stream (ev # evs)) = chunk_of ev # split blank_line (served_stream evs)"
    by (simp add: served_stream_def ev sse_frame_def chunk_of_def split_Some)
  with Cons show ?case by simp
qed

definition dispatch :: "'s chat_callbacks \<Rightarrow> string \<Rightarrow> jsval \<Rightarrow> 's \<Rightarrow> 's" where
  \<comment> \<open>the callback an event of the server is for, once\<close>
  "dispatch cb event data =
     (if event = ''metadata'' then (case as_stream_metadata data of None \<Rightarrow> id | Some m \<Rightarrow> on_metadata cb m)
      else if event = ''delta'' then (case as_stream_delta data of None \<Rightarrow> id | Some d \<Rightarrow> on_delta cb d)
      else if event = ''status'' then (case as_stream_status data of None \<Rightarrow> id | Some st \<Rightarrow> on_status cb st)
      else if event = ''done'' then (case as_stream_done data of None \<Rightarrow> id | Some i \<Rightarrow> on_done cb i)
      else if event = ''error'' then (case as_stream_error data of None \<Rightarrow> id | Some e \<Rightarrow> on_error cb e)
      else id)"

lemma emit_served:
  assumes "served_ok (event, body, data)"
  shows "emit_sse_chunk (chat_on_event cb) (chunk_of (event, body, data)) s = (Inr (), dispatch cb event data s)"
proof -
  have n: "nl \<notin> set event" "trim event = event" "nl \<notin> set body" "json_parse body = Some data"
    using assms served_name [of event] by (simp_all add: served_ok_def)
  have lines: "split [nl] (chunk_of (event, body, data)) = [''event: '' @ event, ''data: '' @ body]"
    using split_char_Cons [of nl "''event: '' @ event" "''data: '' @ body"]
      split_char_single [of nl "''data: '' @ body"] n(1,3)
    by (simp add: nl_def chunk_of_def)
  have sp: "is_space (CHR '' '')" by (simp add: is_space_def)
  have ev: "strip_field ''event:'' (''event: '' @ event) = event"
    and da: "strip_field ''data:'' (''data: '' @ body) = body"
    by (simp_all add: strip_field_def sp)
  have found: "List.find (prefix ''event:'') [''event: '' @ event, ''data: '' @ body] = Some (''event: '' @ event)"
    and data: "map (strip_field ''data:'') (filter (prefix ''data:'') [''event: '' @ event, ''data: '' @ body]) = [body]"
    using da by simp_all
  have "emit_sse_chunk (chat_on_event cb) (chunk_of (event, body, data)) s =
      (case chat_on_event cb event data s of
         (Inr _, s') \<Rightarrow> (Inr (), s') | (Inl _, s') \<Rightarrow> chat_on_event cb event (JStr body) s')"
    unfolding emit_sse_chunk_def Let_def lines found data
    by (simp only: option.case list.simps if_False ev join.simps n(2,4))
  then show ?thesis by (auto simp: chat_on_event_text chat_on_event_def dispatch_def split: option.split)
qed

lemma emit_all_served:
  "list_all served_ok evs \<Longrightarrow>
   emit_all (chat_on_event cb) (map chunk_of evs) s = (Inr (), fold (\<lambda>(event, body, data). dispatch cb event data) evs s)"
proof (induction evs arbitrary: s)
  case (Cons ev evs)
  obtain event body data where "ev = (event, body, data)" by (cases ev)
  with Cons show ?case by (simp add: emit_served)
qed simp

lemma served_stream_runs:
  "list_all served_ok evs \<Longrightarrow>
   sse_whole (chat_on_event cb) (served_stream evs) s = (Inr (), fold (\<lambda>(event, body, data). dispatch cb event data) evs s)"
  by (simp add: sse_whole_def split_served emit_all_served butlast_append)

section \<open>Properties\<close>

text \<open>
  C12: What the server streams arrives, however the network fragments it: every event, framed as the
  server frames it, reaches the callback of its kind exactly once and in order (a status, a piece of
  the answer, the metadata, the end, or an error), unless its data lacks a field the client asks for, and
  the stream ends without an error.
\<close>

theorem events_delivered:
  assumes "concat pieces = served_stream evs" and "list_all served_ok evs"
  shows "sse_loop (chat_on_event cb) [] (map Inr pieces) [] s =
           (Inr (), fold (\<lambda>(event, body, data). dispatch cb event data) evs s)"
  using assms by (simp add: sse_loop_whole served_stream_runs)

definition quoted :: "string \<Rightarrow> string" where "quoted s = CHR 0x22 # s @ [CHR 0x22]"

definition sample_events :: "served_event list" where
  \<comment> \<open>an answer in two pieces, with the spaces of \<open>json.dumps\<close>\<close>
  "sample_events =
     [(''status'', ''{'' @ quoted ''stage'' @ '': '' @ quoted ''accepted'' @ '', '' @ quoted ''state'' @ '': '' @ quoted ''completed'' @ ''}'',
       JObj [(''stage'', JStr ''accepted''), (''state'', JStr ''completed'')]),
      (''delta'', ''{'' @ quoted ''content'' @ '': '' @ quoted ''Hi'' @ ''}'', JObj [(''content'', JStr ''Hi'')]),
      (''delta'', ''{'' @ quoted ''content'' @ '': '' @ quoted '' there'' @ ''}'', JObj [(''content'', JStr '' there'')]),
      (''done'', ''{'' @ quoted ''message_id'' @ '': '' @ quoted ''m1'' @ ''}'', JObj [(''message_id'', JStr ''m1'')])]"

lemma events_delivered_witness:
  "sse_loop (chat_on_event \<lparr>on_metadata = (\<lambda>_ s. s), on_delta = (\<lambda>d s. s @ d), on_status = (\<lambda>st s. s @ ss_stage st @ '': ''),
       on_done = (\<lambda>i s. s @ '' '' @ i), on_error = (\<lambda>_ s. s)\<rparr>) []
     (map Inr [take 40 (served_stream sample_events), drop 40 (served_stream sample_events)]) [] []
   = (Inr (), ''accepted: Hi there m1'')"
proof -
  have "list_all served_ok sample_events" by code_simp
  then show ?thesis
    by (subst events_delivered [where evs = sample_events])
      (simp_all add: sample_events_def dispatch_def as_stream_status_def as_stream_delta_def as_stream_done_def is_record_def json_str_def)
qed

text \<open>
  C13: An error the server reports inside the stream never reaches the caller: whatever the body
  holds, as long as reading it does not fail, the stream call resolves normally.  The \<open>ApiError\<close>
  the chat dispatch throws for an \<open>error\<close> event is caught by the JSON fallback of \<open>emitSseChunk\<close>,
  which runs the callback again on the raw text, where the dispatch ignores it.
\<close>

theorem stream_errors_swallowed:
  "fst (sse_loop (chat_on_event cb) buffer (map Inr pieces) flush s) = Inr ()
   \<and> fst (chat_on_event cb ''error'' (JObj [(''status'', JNum (Fin 429)), (''detail'', JNull)]) s)
       = Inl (Api_Error ''Request failed with status 429'' (Fin 429) (JObj [(''detail'', JNull)]))"
proof
  have "\<exists>s'. sse_loop (chat_on_event cb) buffer (map Inr pieces) flush s = (Inr (), s')"
    by (rule chat_handler.stream_survives) auto
  then show "fst (sse_loop (chat_on_event cb) buffer (map Inr pieces) flush s) = Inr ()" by auto
  have "status_message (Fin 429) = ''Request failed with status 429''" by code_simp
  then show "fst (chat_on_event cb ''error'' (JObj [(''status'', JNum (Fin 429)), (''detail'', JNull)]) s)
       = Inl (Api_Error ''Request failed with status 429'' (Fin 429) (JObj [(''detail'', JNull)]))"
    by (simp add: chat_on_event_def as_stream_error_def is_record_def stream_error_exn_def)
qed

end
