(* ===== verification/Chat_Console.thy ===== *)
theory Chat_Console
  imports Chat_Stream
begin

text \<open>
  The chat console, \<open>hooks/admin/chat.ts\<close> (\<open>useChatConsole\<close>) and \<open>pendingChatMessage\<close> of
  \<open>hooks/admin/shared.ts\<close>: its state, the callbacks by which a stream edits the message list, and
  the actions: loading sessions and messages, creating a session, sending a message (success,
  failure, and abort) and stopping.  \<open>t\<close> is the message table of the locale.  Random identifiers,
  the current time and the answers of the server are arguments of an action, in a record.
\<close>

section \<open>Texts\<close>

definition chat_stream_status_message :: "(string \<Rightarrow> string) \<Rightarrow> stream_status \<Rightarrow> string" where
  "chat_stream_status_message t st =
     (if ss_state st = ''failed'' then t ''chatStreamFailed''
      else if ss_stage st = ''accepted'' then t ''chatStreamAccepted''
      else if ss_stage st = ''runtime'' \<and> ss_state st = ''started'' then t ''chatStreamRuntimeStarted''
      else if ss_stage st = ''knowledge'' then
        (if truthy (get_prop ''enabled'' (ss_payload st)) then t ''chatStreamKnowledgeCompleted''
         else t ''chatStreamKnowledgeSkipped'')
      else if ss_stage st = ''persisted'' then t ''chatStreamPersisted''
      else t ''chatStreamWorking'')"

definition chat_concurrency_scope_key :: "jsval \<Rightarrow> string" where
  "chat_concurrency_scope_key scope =
     (if scope = JStr ''tenant'' then ''chatConcurrencyScopeTenant''
      else if scope = JStr ''user'' then ''chatConcurrencyScopeUser''
      else if scope = JStr ''agent'' then ''chatConcurrencyScopeAgent''
      else ''chatConcurrencyScopeUnknown'')"

definition retry_after_seconds :: "jsval \<Rightarrow> jsnum" where
  "retry_after_seconds v =
     (case v of JNum (Fin q) \<Rightarrow> Fin (of_int (max 1 \<lceil>q\<rceil>)) | _ \<Rightarrow> Fin 1)"

definition chat_error_message :: "(string \<Rightarrow> string) \<Rightarrow> exn \<Rightarrow> string" where
  "chat_error_message t e =
     (case get_api_error_detail e of
        None \<Rightarrow> error_to_message t e
      | Some detail \<Rightarrow>
          if get_prop ''code'' detail = JStr ''agent_concurrency_limited'' then
            (let seconds = retry_after_seconds (get_prop ''retry_after_seconds'' detail);
                 scope = t (chat_concurrency_scope_key (get_prop ''scope'' detail));
                 message = replace_first ''{{scope}}'' scope
                   (replace_first ''{{seconds}}'' (num_str seconds) (t ''chatConcurrencyLimited''));
                 rid = get_prop ''request_id'' detail
             in if \<not> truthy rid then message
                else message @ '' '' @
                  replace_first ''{{requestId}}'' (js_string rid) (t ''chatConcurrencyRequestId''))
          else error_to_message t e)"

section \<open>Messages under way\<close>

definition pending_chat_message :: "string \<Rightarrow> string \<Rightarrow> string \<Rightarrow> string \<Rightarrow> chat_session \<Rightarrow> chat_message" where
  "pending_chat_message now content mid role session =
     \<lparr>cm_id = mid, cm_tenant_id = cs_tenant_id session, cm_conversation_id = cs_id session,
      cm_role = role, cm_content = content, cm_user_id = None, cm_request_id = None,
      cm_model_key = None, cm_provider_key = None,
      cm_input_tokens = JNum (Fin 0), cm_output_tokens = JNum (Fin 0), cm_total_tokens = JNum (Fin 0),
      cm_cost_usd = JNum (Fin 0), cm_metadata = [(''local_state'', JStr ''streaming'')],
      cm_created_at = now, cm_updated_at = now\<rparr>"

definition prop_of :: "string \<Rightarrow> props \<Rightarrow> jsval" where
  "prop_of k kvs = get_prop k (JObj kvs)"

definition edit_message :: "string \<Rightarrow> (chat_message \<Rightarrow> chat_message) \<Rightarrow> chat_message list \<Rightarrow> chat_message list" where
  \<comment> \<open>\<open>current.map(item => item.id === id ? f(item) : item)\<close>\<close>
  "edit_message mid f ms = map (\<lambda>m. if cm_id m = mid then f m else m) ms"

definition metadata_step :: "string \<Rightarrow> string \<Rightarrow> stream_metadata \<Rightarrow> chat_message list \<Rightarrow> chat_message list" where
  "metadata_step client strm md ms =
     map (\<lambda>m. if cm_id m = client then sm_user_message md
              else if cm_id m = strm then
                m\<lparr>cm_model_key := sm_model_key md, cm_provider_key := sm_provider_key md,
                  cm_request_id := sm_request_id md,
                  cm_input_tokens := us_input_tokens (sm_usage md),
                  cm_output_tokens := us_output_tokens (sm_usage md),
                  cm_total_tokens := us_total_tokens (sm_usage md),
                  cm_cost_usd := us_cost_usd (sm_usage md),
                  cm_metadata := obj_spread (sm_metadata md)
                    [(''local_state'', prop_of ''local_state'' (cm_metadata m)),
                     (''stream_status'', prop_of ''stream_status'' (cm_metadata m))]\<rparr>
              else m) ms"

definition status_step :: "string \<Rightarrow> stream_status \<Rightarrow> chat_message list \<Rightarrow> chat_message list" where
  "status_step strm st =
     edit_message strm (\<lambda>m. m\<lparr>cm_metadata := obj_spread (cm_metadata m)
       [(''local_state'', JStr ''stream_status''), (''stream_status'', ss_payload st)]\<rparr>)"

definition delta_step :: "string \<Rightarrow> string \<Rightarrow> chat_message list \<Rightarrow> chat_message list" where
  "delta_step strm d =
     edit_message strm (\<lambda>m. m\<lparr>cm_content := cm_content m @ d,
       cm_metadata := obj_spread (cm_metadata m) [(''local_state'', JStr ''streaming_response'')]\<rparr>)"

definition done_step :: "string \<Rightarrow> string \<Rightarrow> chat_message list \<Rightarrow> chat_message list" where
  "done_step strm message_id = edit_message strm (\<lambda>m. m\<lparr>cm_id := message_id\<rparr>)"

definition console_callbacks :: "string \<Rightarrow> string \<Rightarrow> chat_message list chat_callbacks" where
  "console_callbacks client strm =
     \<lparr>on_metadata = metadata_step client strm, on_delta = delta_step strm,
      on_status = status_step strm, on_done = done_step strm, on_error = (\<lambda>_ ms. ms)\<rparr>"

section \<open>The prototype's canned conversation\<close>

definition proto_chat_now :: string where "proto_chat_now = ''2026-01-01T00:00:00.000Z''"
definition proto_chat_tenant :: string where "proto_chat_tenant = ''00000000-0000-4000-8000-000000000001''"
definition proto_chat_session_id :: string where "proto_chat_session_id = ''00000000-0000-4000-8000-000000000901''"
definition proto_chat_agent :: string where "proto_chat_agent = ''00000000-0000-4000-8000-000000000701''"
definition proto_chat_department :: string where "proto_chat_department = ''00000000-0000-4000-8000-000000000301''"

definition empty_session_request :: chat_session_request where
  "empty_session_request = \<lparr>csr_title = None, csr_agent_id = None, csr_channel_id = None,
     csr_department_id = None, csr_source = None, csr_metadata = None\<rparr>"

definition prototype_chat_session ::
  "(string \<Rightarrow> string) \<Rightarrow> string \<Rightarrow> chat_session_request \<Rightarrow> chat_session" where
  "prototype_chat_session t uuid p =
     \<lparr>cs_id = (if js_truthy_str (csr_title p) then uuid else proto_chat_session_id),
      cs_tenant_id = proto_chat_tenant,
      cs_title = coalesce (csr_title p) (t ''chatPrototypeSessionTitle''),
      cs_agent_id = Some (coalesce (csr_agent_id p) proto_chat_agent),
      cs_channel_id = csr_channel_id p,
      cs_user_id = Some ''00000000-0000-4000-8000-000000000201'',
      cs_department_id = Some (coalesce (csr_department_id p) proto_chat_department),
      cs_source = coalesce (csr_source p) ''chat_console'', cs_status = ''active'',
      cs_metadata = obj_spread [(''agent_key'', JStr ''customer_service''), (''ui'', JStr ''prototype'')]
        (coalesce (csr_metadata p) []),
      cs_created_at = proto_chat_now, cs_updated_at = proto_chat_now\<rparr>"

definition prototype_user_message :: "string \<Rightarrow> chat_session \<Rightarrow> string \<Rightarrow> string \<Rightarrow> chat_message" where
  "prototype_user_message uuid session content created =
     \<lparr>cm_id = uuid, cm_tenant_id = cs_tenant_id session, cm_conversation_id = cs_id session,
      cm_role = ''user'', cm_content = content, cm_user_id = cs_user_id session,
      cm_request_id = Some ''proto-run-001'', cm_model_key = None, cm_provider_key = None,
      cm_input_tokens = JNum (Fin 0), cm_output_tokens = JNum (Fin 0), cm_total_tokens = JNum (Fin 0),
      cm_cost_usd = JNum (Fin 0), cm_metadata = [(''surface'', JStr ''prototype'')],
      cm_created_at = created, cm_updated_at = created\<rparr>"

abbreviation "jn n \<equiv> JNum (Fin n)"
abbreviation "jd q \<equiv> JNum (round_double q)" \<comment> \<open>a decimal literal\<close>

definition proto_answer_sources :: jsval where
  "proto_answer_sources = JArr
     [JObj [(''chunk_id'', JStr ''chunk-refund-001''), (''document_id'', JStr ''doc-refund-policy''),
        (''knowledge_base_id'', JStr ''kb-after-sales''),
        (''knowledge_base_name'', JStr ''After-sales Policy''), (''rank'', jn 1), (''score'', jd (913/1000)),
        (''source_name'', JStr ''refund-policy-2026.md''),
        (''text'', JStr ''Refund requests within seven days should be verified against order status, logistics receipt, and product category exclusions.'')],
      JObj [(''chunk_id'', JStr ''chunk-shipping-004''), (''document_id'', JStr ''doc-shipping-sla''),
        (''knowledge_base_id'', JStr ''kb-after-sales''),
        (''knowledge_base_name'', JStr ''After-sales Policy''), (''rank'', jn 2), (''score'', jd (872/1000)),
        (''source_name'', JStr ''shipping-sla.md''),
        (''text'', JStr ''Delayed shipments require an apology, an expected delivery window, and escalation when the SLA breach is confirmed.'')]]"

definition proto_answer_budget :: jsval where
  "proto_answer_budget = JObj
     [(''actual_cost_usd'', JStr ''0.0064''), (''actual_tokens'', jn 1706),
      (''budget_id'', JStr ''00000000-0000-4000-8000-000000140002''), (''currency'', JStr ''USD''),
      (''event_type'', JStr ''settle''), (''fallback_request_id'', JStr ''proto-run-003''),
      (''guard_status'', JStr ''settled''), (''policy_name'', JStr ''Customer Success model spend''),
      (''premium_route_denied_request_id'', JStr ''proto-run-002''),
      (''reason'', JStr ''Pre-call budget guard allowed cn-primary-chat and settled usage to department ledger.''),
      (''reservation_id'', JStr ''reserve-proto-run-001'')]"

definition proto_answer_knowledge :: jsval where
  "proto_answer_knowledge = JObj
     [(''confidence_level'', JStr ''high''), (''enabled'', JBool True),
      (''knowledge_base_ids'', JArr [JStr ''kb-after-sales'']), (''max_score'', jd (913/1000)),
      (''min_score'', jd (872/1000)),
      (''per_base'', JArr [JObj [(''elapsed_ms'', jn 42), (''engine'', JStr ''pgvector''),
         (''knowledge_base_id'', JStr ''kb-after-sales''),
         (''knowledge_base_name'', JStr ''After-sales Policy''),
         (''knowledge_base_visibility'', JStr ''department''), (''source_count'', jn 2)]]),
      (''reason'', JStr ''sources_found''), (''requires_human_review'', JBool False),
      (''review_reason'', JStr ''strong_source_match''), (''source_count'', jn 2), (''top_k'', jn 3)]"

definition prototype_assistant_message :: "string \<Rightarrow> chat_session \<Rightarrow> string \<Rightarrow> string \<Rightarrow> chat_message" where
  "prototype_assistant_message uuid session content created =
     \<lparr>cm_id = uuid, cm_tenant_id = cs_tenant_id session, cm_conversation_id = cs_id session,
      cm_role = ''assistant'', cm_content = content, cm_user_id = None,
      cm_request_id = Some ''proto-run-001'', cm_model_key = Some ''qwen-plus'',
      cm_provider_key = Some ''qwen'',
      cm_input_tokens = jn 1280, cm_output_tokens = jn 426, cm_total_tokens = jn 1706,
      cm_cost_usd = JStr ''0.0064'',
      cm_metadata =
        [(''agent_instance'', JObj [(''agent_id'', opt_str (cs_agent_id session)), (''enabled'', JBool True),
            (''name'', JStr ''E-commerce Customer Service Assistant''), (''slug'', JStr ''ecommerce-cs''),
            (''visibility'', JStr ''department'')]),
         (''agent_sources'', proto_answer_sources), (''chat_execution'', JStr ''agent_runtime''),
         (''budget_guard'', proto_answer_budget), (''knowledge'', proto_answer_knowledge),
         (''license_gate'', JStr ''enforced''),
         (''license_gate_reason'', JStr ''agent.customer_service licensed and enabled''),
         (''required_module'', JStr ''agent.customer_service'')],
      cm_created_at = created, cm_updated_at = created\<rparr>"

definition prototype_chat_messages ::
  "(string \<Rightarrow> string) \<Rightarrow> string \<Rightarrow> string \<Rightarrow> chat_session \<Rightarrow> chat_message list" where
  "prototype_chat_messages t uuid1 uuid2 session =
     [prototype_user_message uuid1 session (t ''chatPrototypeQuestion'') proto_chat_now,
      prototype_assistant_message uuid2 session (t ''chatPrototypeAnswer'') proto_chat_now]"

section \<open>The console\<close>

record console =
  con_sessions :: "chat_session list async_state"
  con_messages :: "chat_message list"
  con_active :: "chat_session option"
  con_sending :: bool
  con_error :: "string option"
  con_abort :: "bool option" \<comment> \<open>the controller of the running stream, and whether it was aborted\<close>

definition console_init :: console where
  "console_init = \<lparr>con_sessions = \<lparr>as_data = None, as_error = None, as_loading = True\<rparr>,
     con_messages = [], con_active = None, con_sending = False, con_error = None, con_abort = None\<rparr>"

definition sessions_ready :: "chat_session list \<Rightarrow> chat_session list async_state" where
  "sessions_ready xs = \<lparr>as_data = Some xs, as_error = None, as_loading = False\<rparr>"

definition session_rows :: "console \<Rightarrow> chat_session list" where
  "session_rows s = coalesce (as_data (con_sessions s)) []"

definition load_sessions_start :: "console \<Rightarrow> console" where
  "load_sessions_start s =
     s\<lparr>con_sessions := (con_sessions s)\<lparr>as_error := None, as_loading := True\<rparr>\<rparr>"

definition load_sessions_prototype ::
  "(string \<Rightarrow> string) \<Rightarrow> string \<Rightarrow> string \<Rightarrow> string \<Rightarrow> console \<Rightarrow> console" where
  "load_sessions_prototype t u0 u1 u2 s =
     (let p = prototype_chat_session t u0 empty_session_request in
      s\<lparr>con_sessions := sessions_ready [p],
        con_active := Some (coalesce (con_active s) p),
        con_messages := prototype_chat_messages t u1 u2 p\<rparr>)"

definition load_sessions_done ::
  "(string \<Rightarrow> string) \<Rightarrow> exn + chat_session list \<Rightarrow> console \<Rightarrow> console" where
  "load_sessions_done t r s =
     (case r of
        Inr xs \<Rightarrow> s\<lparr>con_sessions := sessions_ready xs,
                    con_active := or_else (con_active s) (case xs of [] \<Rightarrow> None | x # _ \<Rightarrow> Some x)\<rparr>
      | Inl e \<Rightarrow> s\<lparr>con_sessions := \<lparr>as_data = None, as_error = Some (error_to_message t e),
                                     as_loading = False\<rparr>\<rparr>)"

definition load_sessions ::
  "(string \<Rightarrow> string) \<Rightarrow> (nat \<Rightarrow> exn + chat_session list) \<Rightarrow> console \<Rightarrow> console" where
  "load_sessions t fetch s = load_sessions_done t (fst (with_retry fetch None None)) (load_sessions_start s)"

definition load_messages ::
  "(nat \<Rightarrow> exn + chat_message list) \<Rightarrow> console \<Rightarrow> console" where
  \<comment> \<open>the effect of a new active session, outside prototype mode\<close>
  "load_messages fetch s =
     (case con_active s of
        None \<Rightarrow> s\<lparr>con_messages := []\<rparr>
      | Some _ \<Rightarrow>
          (case fst (with_retry fetch None None) of
             Inr ms \<Rightarrow> s\<lparr>con_messages := ms\<rparr>
           | Inl _ \<Rightarrow> s\<lparr>con_messages := []\<rparr>))"

definition add_session :: "chat_session \<Rightarrow> console \<Rightarrow> console" where
  "add_session created s = s\<lparr>con_sessions := sessions_ready (created # session_rows s)\<rparr>"

definition ensure_session ::
  "exn + chat_session \<Rightarrow> console \<Rightarrow> (exn + chat_session) \<times> console" where
  "ensure_session created s =
     (case con_active s of
        Some a \<Rightarrow> (Inr a, s)
      | None \<Rightarrow>
          (case created of
             Inl e \<Rightarrow> (Inl e, s)
           | Inr c \<Rightarrow> (Inr c, add_session c (s\<lparr>con_active := Some c\<rparr>))))"

definition create_session ::
  "(string \<Rightarrow> string) \<Rightarrow> exn + chat_session \<Rightarrow> console \<Rightarrow> chat_session option \<times> console" where
  "create_session t created s =
     (case created of
        Inr c \<Rightarrow>
          (Some c, add_session c (s\<lparr>con_error := None, con_active := Some c, con_messages := []\<rparr>))
      | Inl e \<Rightarrow> (None, s\<lparr>con_error := Some (chat_error_message t e)\<rparr>))"

definition create_session_prototype ::
  "(string \<Rightarrow> string) \<Rightarrow> string \<Rightarrow> chat_session_request \<Rightarrow> console \<Rightarrow> chat_session \<times> console" where
  "create_session_prototype t uuid p s =
     (let c = prototype_chat_session t uuid p;
          rest = filter (\<lambda>x. cs_id x \<noteq> cs_id c) (session_rows s)
      in (c, s\<lparr>con_error := None, con_active := Some c, con_messages := [],
               con_sessions := sessions_ready (c # rest)\<rparr>))"

section \<open>Sending\<close>

record send_env =
  sv_now :: string
  sv_client_uuid :: string
  sv_stream_uuid :: string
  sv_created :: "exn + chat_session" \<comment> \<open>the answer when a session has to be created\<close>
  sv_stream :: "exn + stream_body" \<comment> \<open>the stream call before its first read, then its body\<close>
  sv_refreshed :: "exn + chat_message list" \<comment> \<open>the messages read back after the stream\<close>
  sv_after_abort :: "exn + chat_message list" \<comment> \<open>the messages read back after an abort\<close>
  sv_sessions :: "nat \<Rightarrow> exn + chat_session list"
  sv_aborted :: bool \<comment> \<open>the user stopped the generation before the call settled\<close>

definition client_id :: "send_env \<Rightarrow> string" where
  "client_id v = ''client-'' @ sv_client_uuid v"

definition stream_id :: "send_env \<Rightarrow> string" where
  "stream_id v = ''stream-'' @ sv_stream_uuid v"

definition pending_pair :: "send_env \<Rightarrow> chat_message_request \<Rightarrow> chat_session \<Rightarrow> chat_message list" where
  "pending_pair v payload session =
     [pending_chat_message (sv_now v) (cmr_content payload) (client_id v) ''user'' session,
      pending_chat_message (sv_now v) [] (stream_id v) ''assistant'' session]"

definition run_stream :: "send_env \<Rightarrow> chat_message list \<Rightarrow> (exn + unit) \<times> chat_message list" where
  "run_stream v ms =
     (case sv_stream v of
        Inl e \<Rightarrow> (Inl e, ms)
      | Inr body \<Rightarrow>
          sse_loop (chat_on_event (console_callbacks (client_id v) (stream_id v))) []
            (body_pieces body) (body_flush body) ms)"

definition stopped_messages :: "(string \<Rightarrow> string) \<Rightarrow> send_env \<Rightarrow> chat_message list \<Rightarrow> chat_message list" where
  "stopped_messages t v ms =
     filter (\<lambda>m. cm_id m \<noteq> client_id v \<or> cm_content m \<noteq> [])
       (map (\<lambda>m. if cm_id m = stream_id v \<and> cm_content m = [] then
                   m\<lparr>cm_content := t ''chatStopped'',
                     cm_metadata := obj_spread (cm_metadata m) [(''local_state'', JStr ''stopped'')]\<rparr>
                 else m) ms)"

definition send_failed ::
  "(string \<Rightarrow> string) \<Rightarrow> send_env \<Rightarrow> chat_session option \<Rightarrow> exn \<Rightarrow> console \<Rightarrow> console" where
  \<comment> \<open>the catch block; \<open>before\<close> is the active session the action was created with\<close>
  "send_failed t v before e s =
     (if sv_aborted v then
        (let s1 = s\<lparr>con_messages := stopped_messages t v (con_messages s)\<rparr> in
         case (before, sv_after_abort v) of
           (Some _, Inr ms) \<Rightarrow> s1\<lparr>con_messages := ms\<rparr>
         | _ \<Rightarrow> s1)
      else
        s\<lparr>con_messages := filter (\<lambda>m. cm_id m \<noteq> client_id v \<and> cm_id m \<noteq> stream_id v) (con_messages s),
          con_error := Some (chat_error_message t e)\<rparr>)"

definition send_finally :: "console \<Rightarrow> console" where
  "send_finally s = s\<lparr>con_abort := None, con_sending := False\<rparr>"

definition send_message ::
  "(string \<Rightarrow> string) \<Rightarrow> send_env \<Rightarrow> chat_message_request \<Rightarrow> chat_session option \<Rightarrow> console \<Rightarrow> console" where
  "send_message t v payload session s =
     (let s0 = s\<lparr>con_sending := True, con_error := None, con_abort := Some False\<rparr>;
          before = con_active s;
          (chosen, s1) = (case session of
             Some x \<Rightarrow> (Inr x, s0) | None \<Rightarrow> ensure_session (sv_created v) s0)
      in send_finally
          (case chosen of
             Inl e \<Rightarrow> send_failed t v before e s1
           | Inr x \<Rightarrow>
               (case run_stream v (con_messages s1 @ pending_pair v payload x) of
                  (Inl e, ms) \<Rightarrow> send_failed t v before e (s1\<lparr>con_messages := ms\<rparr>)
                | (Inr _, ms) \<Rightarrow>
                    (case sv_refreshed v of
                       Inl e \<Rightarrow> send_failed t v before e (s1\<lparr>con_messages := ms\<rparr>)
                     | Inr fresh \<Rightarrow>
                         load_sessions t (sv_sessions v) (s1\<lparr>con_messages := fresh\<rparr>)))))"

definition send_message_prototype ::
  "(string \<Rightarrow> string) \<Rightarrow> send_env \<Rightarrow> string \<Rightarrow> chat_message_request \<Rightarrow> chat_session option \<Rightarrow> console \<Rightarrow> console" where
  "send_message_prototype t v u0 payload session s =
     (let x = coalesce session (coalesce (con_active s) (prototype_chat_session t u0 empty_session_request));
          s0 = s\<lparr>con_error := None\<rparr>;
          s1 = (if con_active s = None then add_session x (s0\<lparr>con_active := Some x\<rparr>) else s0)
      in s1\<lparr>con_messages := con_messages s1 @
             [prototype_user_message (sv_client_uuid v) x (cmr_content payload) (sv_now v),
              prototype_assistant_message (sv_stream_uuid v) x (t ''chatPrototypeAnswer'') (sv_now v)],
           con_sending := False\<rparr>)"

definition stop_generation :: "console \<Rightarrow> console" where
  "stop_generation s = s\<lparr>con_abort := map_option (\<lambda>_. True) (con_abort s)\<rparr>"

section \<open>How a stream edits the list\<close>

datatype stream_event =
    Ev_Metadata stream_metadata
  | Ev_Delta string
  | Ev_Status stream_status
  | Ev_Done string

definition apply_event :: "string \<Rightarrow> string \<Rightarrow> stream_event \<Rightarrow> chat_message list \<Rightarrow> chat_message list" where
  "apply_event client strm e =
     (case e of
        Ev_Metadata md \<Rightarrow> metadata_step client strm md
      | Ev_Delta d \<Rightarrow> delta_step strm d
      | Ev_Status st \<Rightarrow> status_step strm st
      | Ev_Done i \<Rightarrow> done_step strm i)"

definition delta_text :: "stream_event \<Rightarrow> string" where
  "delta_text e = (case e of Ev_Delta d \<Rightarrow> d | _ \<Rightarrow> [])"

lemma edit_message_append: "edit_message i f (xs @ ys) = edit_message i f xs @ edit_message i f ys"
  by (simp add: edit_message_def)

lemma edit_message_other: "\<forall>m\<in>set ms. cm_id m \<noteq> i \<Longrightarrow> edit_message i f ms = ms"
  by (simp add: edit_message_def map_idI)

text \<open>Messages other than the pending pair are out of reach of every stream event.\<close>

definition untouched :: "string \<Rightarrow> string \<Rightarrow> chat_message list \<Rightarrow> bool" where
  "untouched client strm ms \<longleftrightarrow> (\<forall>m\<in>set ms. cm_id m \<noteq> client \<and> cm_id m \<noteq> strm)"

lemma apply_event_append:
  "apply_event client strm e (xs @ ys) = apply_event client strm e xs @ apply_event client strm e ys"
  by (cases e) (simp_all add: apply_event_def metadata_step_def delta_step_def status_step_def
      done_step_def edit_message_append)

lemma apply_event_untouched: "untouched client strm ms \<Longrightarrow> apply_event client strm e ms = ms"
  by (cases e) (auto simp: apply_event_def metadata_step_def delta_step_def status_step_def
      done_step_def edit_message_def untouched_def intro!: map_idI)

lemma apply_events_untouched:
  "untouched client strm ms \<Longrightarrow> fold (apply_event client strm) es ms = ms"
  by (induction es) (simp_all add: apply_event_untouched)

lemma apply_events_prefix:
  "untouched client strm ms \<Longrightarrow>
   fold (apply_event client strm) es (ms @ xs) = ms @ fold (apply_event client strm) es xs"
  by (induction es arbitrary: xs) (simp_all add: apply_event_append apply_event_untouched)

text \<open>
  The pending pair under the events of a stream: the first message stays the client's or becomes
  the one the server stored, the second collects the deltas.
\<close>

definition server_ids :: "stream_event list \<Rightarrow> string list" where
  "server_ids es = List.map_filter (\<lambda>e. case e of Ev_Metadata md \<Rightarrow> Some (cm_id (sm_user_message md)) | _ \<Rightarrow> None) es"

definition not_done :: "stream_event \<Rightarrow> bool" where
  "not_done e \<longleftrightarrow> (case e of Ev_Done _ \<Rightarrow> False | _ \<Rightarrow> True)"

lemma apply_event_pair:
  assumes "client \<noteq> strm" "cm_id a \<noteq> strm" "cm_id b = strm" "not_done e"
    and "strm \<notin> set (server_ids [e])"
  shows "\<exists>a' b'. apply_event client strm e [a, b] = [a', b'] \<and> cm_id a' \<noteq> strm \<and> cm_id b' = strm \<and>
           cm_content b' = cm_content b @ delta_text e \<and>
           (cm_content a' = cm_content a \<or> server_ids [e] \<noteq> [])"
  using assms
  by (cases e)
     (auto simp: apply_event_def metadata_step_def delta_step_def status_step_def edit_message_def
       delta_text_def server_ids_def not_done_def map_filter_def)

lemma apply_events_pair:
  assumes "client \<noteq> strm" "cm_id a \<noteq> strm" "cm_id b = strm" "list_all not_done es"
    and "strm \<notin> set (server_ids es)"
  shows "\<exists>a' b'. fold (apply_event client strm) es [a, b] = [a', b'] \<and> cm_id b' = strm \<and>
           cm_content b' = cm_content b @ concat (map delta_text es)"
  using assms
proof (induction es arbitrary: a b)
  case (Cons e es)
  have "strm \<notin> set (server_ids [e])" "strm \<notin> set (server_ids es)"
    using Cons.prems(5) by (auto simp: server_ids_def map_filter_def)
  with apply_event_pair [of client strm a b e] Cons.prems
  obtain a' b' where ab: "apply_event client strm e [a, b] = [a', b']" "cm_id a' \<noteq> strm" "cm_id b' = strm"
    "cm_content b' = cm_content b @ delta_text e" by auto
  with Cons.IH [of a' b'] Cons.prems \<open>strm \<notin> set (server_ids es)\<close> show ?case by auto
qed simp

lemma pending_ids_differ: "client_id v \<noteq> stream_id v"
  by (simp add: client_id_def stream_id_def)

lemma load_sessions_frame [simp]:
  "con_messages (load_sessions t f s) = con_messages s"
  "con_sending (load_sessions t f s) = con_sending s"
  "con_error (load_sessions t f s) = con_error s"
  "con_abort (load_sessions t f s) = con_abort s"
  by (simp_all add: load_sessions_def load_sessions_start_def load_sessions_done_def split: sum.split)

section \<open>Properties\<close>

text \<open>
  C14: Streaming builds the answer in place: whatever metadata, status and text events arrive, the
  earlier messages stay as they are, no message appears or disappears, and the content of the
  pending answer is the concatenation of the texts received, untouched by the status events in
  between.
\<close>

theorem stream_builds_answer:
  assumes "untouched (client_id v) (stream_id v) ms" and "list_all not_done es"
    and "stream_id v \<notin> set (server_ids es)"
  shows "\<exists>question answer.
    fold (apply_event (client_id v) (stream_id v)) es (ms @ pending_pair v payload session)
      = ms @ [question, answer]
    \<and> cm_id answer = stream_id v \<and> cm_content answer = concat (map delta_text es)"
proof -
  let ?q = "pending_chat_message (sv_now v) (cmr_content payload) (client_id v) ''user'' session"
  let ?a = "pending_chat_message (sv_now v) [] (stream_id v) ''assistant'' session"
  obtain q a where "fold (apply_event (client_id v) (stream_id v)) es [?q, ?a] = [q, a]"
    "cm_id a = stream_id v" "cm_content a = concat (map delta_text es)"
    using apply_events_pair [of "client_id v" "stream_id v" ?q ?a es] assms(2,3) pending_ids_differ
    by (auto simp: pending_chat_message_def)
  then show ?thesis
    using apply_events_prefix [OF assms(1), of es "[?q, ?a]"] by (auto simp: pending_pair_def)
qed

definition sample_session :: chat_session where
  "sample_session = prototype_chat_session (\<lambda>k. k) ''u0'' empty_session_request"

definition sample_payload :: chat_message_request where
  "sample_payload = \<lparr>cmr_content = ''Hello'', cmr_model_key = None, cmr_routing_key = None,
     cmr_temperature = None, cmr_max_tokens = None, cmr_metadata = None\<rparr>"

definition sample_send :: send_env where
  "sample_send = \<lparr>sv_now = ''now'', sv_client_uuid = ''1'', sv_stream_uuid = ''2'',
     sv_created = Inr sample_session, sv_stream = Inl (timeout_error ''slow''),
     sv_refreshed = Inr [], sv_after_abort = Inr [], sv_sessions = (\<lambda>_. Inr []), sv_aborted = False\<rparr>"

lemma stream_builds_answer_witness:
  "\<exists>question answer.
    fold (apply_event (client_id sample_send) (stream_id sample_send))
      [Ev_Delta ''Hi'', Ev_Status \<lparr>ss_stage = ''runtime'', ss_state = ''started'', ss_payload = JNull\<rparr>,
       Ev_Delta '' there''] ([] @ pending_pair sample_send sample_payload sample_session)
      = [] @ [question, answer]
    \<and> cm_id answer = stream_id sample_send \<and> cm_content answer = ''Hi there''"
  using stream_builds_answer [of sample_send "[]"
      "[Ev_Delta ''Hi'', Ev_Status \<lparr>ss_stage = ''runtime'', ss_state = ''started'', ss_payload = JNull\<rparr>,
        Ev_Delta '' there'']" sample_payload sample_session]
  by (simp add: untouched_def not_done_def server_ids_def delta_text_def map_filter_def)

text \<open>
  C15: A message that could not be sent leaves no trace but the error: when the stream call fails
  before its first event, and the user did not stop it, the console is as before, with the error
  message set and the sending flag and the controller cleared.
\<close>

theorem failed_send_rolls_back:
  assumes "con_active s = Some x" and "sv_stream v = Inl e" and "\<not> sv_aborted v"
    and "untouched (client_id v) (stream_id v) (con_messages s)"
  shows "send_message t v payload session s =
     s\<lparr>con_sending := False, con_error := Some (chat_error_message t e), con_abort := None\<rparr>"
proof -
  have keep: "filter (\<lambda>m. cm_id m \<noteq> client_id v \<and> cm_id m \<noteq> stream_id v)
      (con_messages s @ pending_pair v payload y) = con_messages s" for y
    using assms(4) by (simp add: untouched_def pending_pair_def pending_chat_message_def filter_id_conv)
  show ?thesis
    using assms(1-3) keep
    by (cases session)
       (simp_all add: send_message_def ensure_session_def run_stream_def send_failed_def
         send_finally_def Let_def)
qed

lemma failed_send_rolls_back_witness:
  "send_message (\<lambda>k. k) sample_send sample_payload None (console_init\<lparr>con_active := Some sample_session\<rparr>)
   = (console_init\<lparr>con_active := Some sample_session\<rparr>)
       \<lparr>con_sending := False,
        con_error := Some (chat_error_message (\<lambda>k. k) (timeout_error ''slow'')), con_abort := None\<rparr>"
  by (rule failed_send_rolls_back [of _ sample_session])
     (simp_all add: sample_send_def console_init_def untouched_def)

text \<open>
  C16: Sending always settles: on every path (no session, failed or broken stream, failed refresh,
  abort, success, prototype) the sending flag is cleared in the end, and outside the prototype so
  is the controller; an aborted send reports no error.
\<close>

theorem send_settles:
  "\<not> con_sending (send_message t v payload session s) \<and> con_abort (send_message t v payload session s) = None
   \<and> \<not> con_sending (send_message_prototype t v u payload session s)
   \<and> con_error (send_message t (v\<lparr>sv_aborted := True\<rparr>) payload session s) = None"
proof -
  have frame: "con_error (send_failed t w before e c) = con_error c" if "sv_aborted w" for w before e c
    using that by (simp add: send_failed_def Let_def split: option.split sum.split)
  have ensure: "con_error (snd (ensure_session cr c)) = con_error c" for cr c
    by (simp add: ensure_session_def add_session_def split: option.split sum.split)
  have "con_error (send_message t (v\<lparr>sv_aborted := True\<rparr>) payload session s) = None"
    using ensure [of "sv_created v" "s\<lparr>con_sending := True, con_error := None, con_abort := Some False\<rparr>"]
    by (auto simp: send_message_def send_finally_def frame Let_def split: option.split sum.split prod.split)
  then show ?thesis
    by (simp add: send_message_def send_finally_def send_message_prototype_def Let_def split: prod.split)
qed

text \<open>
  C17: A late answer to the message load hides the stream: opening a new session makes it active,
  which starts loading its messages; if that answer arrives after the pending pair was added, it
  replaces the list, and from then on no event of the stream shows any more.
\<close>

theorem late_load_hides_stream:
  assumes "con_active s = Some x" and "untouched client strm loaded"
  shows "fold (apply_event client strm) es (con_messages (load_messages (\<lambda>_. Inr loaded) s)) = loaded"
proof -
  have "fst (with_retry (\<lambda>_. Inr loaded) None None) = (Inr loaded :: exn + chat_message list)"
    by (simp add: with_retry_def retry_loop_Inr)
  then have "con_messages (load_messages (\<lambda>_. Inr loaded) s) = loaded"
    using assms(1) by (simp add: load_messages_def)
  then show ?thesis by (simp add: apply_events_untouched [OF assms(2)])
qed

lemma late_load_hides_stream_witness:
  "fold (apply_event (client_id sample_send) (stream_id sample_send)) [Ev_Delta ''Hi'']
     (con_messages (load_messages (\<lambda>_. Inr [])
        (console_init\<lparr>con_active := Some sample_session,
           con_messages := pending_pair sample_send sample_payload sample_session\<rparr>))) = []"
  by (rule late_load_hides_stream) (simp_all add: untouched_def)

end
