(* ===== verification/Collections.thy ===== *)
theory Collections
  imports Prelude
begin

text \<open>
  Lists of records with a key, as the stores of the front end keep them: a new record goes to the
  front, an update maps over the list, a removal filters it, a lookup finds the first match.

  The locale \<open>keyed_rows\<close> is the contract of one such list inside a larger state: a view of the
  state (\<open>get\<close>, \<open>put\<close>) and the key of a row.  Its lemmas say what a lookup finds after each
  operation and that keys stay distinct; it is interpreted on every list of the prototype store
  and on the media job list.
\<close>

named_theorems row_simps \<open>lookups after the operations on a keyed list\<close>

definition find_row :: "('r \<Rightarrow> string) \<Rightarrow> string \<Rightarrow> 'r list \<Rightarrow> 'r option" where
  "find_row key k xs = List.find (\<lambda>x. key x = k) xs"

definition amend_row :: "('r \<Rightarrow> string) \<Rightarrow> string \<Rightarrow> ('r \<Rightarrow> 'r) \<Rightarrow> 'r list \<Rightarrow> 'r list" where
  "amend_row key k f xs = map (\<lambda>x. if key x = k then f x else x) xs"

definition discard_row :: "('r \<Rightarrow> string) \<Rightarrow> string \<Rightarrow> 'r list \<Rightarrow> 'r list" where
  "discard_row key k xs = filter (\<lambda>x. key x \<noteq> k) xs"

lemma find_row_Nil [row_simps]: "find_row key k [] = None"
  by (simp add: find_row_def)

lemma find_row_Cons [row_simps]: "find_row key k (x # xs) = (if key x = k then Some x else find_row key k xs)"
  by (simp add: find_row_def)

lemma find_row_amend [row_simps]:
  "(\<And>x. key (f x) = key x) \<Longrightarrow>
   find_row key k (amend_row key k' f xs) =
     (if k = k' then map_option f (find_row key k xs) else find_row key k xs)"
  by (induction xs) (auto simp: find_row_def amend_row_def)

lemma find_row_discard [row_simps]:
  "find_row key k (discard_row key k' xs) = (if k = k' then None else find_row key k xs)"
  by (induction xs) (auto simp: find_row_def discard_row_def)

lemma find_row_None_iff: "find_row key k xs = None \<longleftrightarrow> k \<notin> key ` set xs"
  by (induction xs) (auto simp: find_row_def)

lemma find_row_Some: "find_row key k xs = Some x \<Longrightarrow> x \<in> set xs \<and> key x = k"
  unfolding find_row_def by (rule find_Some_mem)

lemma keys_amend [simp]: "(\<And>x. key (f x) = key x) \<Longrightarrow> map key (amend_row key k f xs) = map key xs"
  by (simp add: amend_row_def)

lemma distinct_discard: "distinct (map key xs) \<Longrightarrow> distinct (map key (discard_row key k xs))"
  by (induction xs) (auto simp: discard_row_def)

lemma amend_absent: "k \<notin> key ` set xs \<Longrightarrow> amend_row key k f xs = xs"
  by (auto simp: amend_row_def intro!: map_idI)

lemma in_amend: "y \<in> set (amend_row key k f xs) \<longleftrightarrow> (\<exists>x\<in>set xs. y = (if key x = k then f x else x))"
  unfolding amend_row_def set_map image_iff by blast

locale keyed_rows =
  fixes key :: "'r \<Rightarrow> string"
    and get :: "'s \<Rightarrow> 'r list"
    and put :: "'r list \<Rightarrow> 's \<Rightarrow> 's"
  assumes get_put: "get (put xs s) = xs"
    and put_put: "put ys (put xs s) = put ys s"
    and put_get: "put (get s) s = s"
begin

definition row :: "string \<Rightarrow> 's \<Rightarrow> 'r option" where
  "row k s = find_row key k (get s)"

definition add :: "'r \<Rightarrow> 's \<Rightarrow> 's" where
  "add x s = put (x # get s) s"

definition amend :: "string \<Rightarrow> ('r \<Rightarrow> 'r) \<Rightarrow> 's \<Rightarrow> 's" where
  "amend k f s = put (amend_row key k f (get s)) s"

definition discard :: "string \<Rightarrow> 's \<Rightarrow> 's" where
  "discard k s = put (discard_row key k (get s)) s"

definition keys_distinct :: "'s \<Rightarrow> bool" where
  "keys_distinct s \<longleftrightarrow> distinct (map key (get s))"

lemma row_add: "row k (add x s) = (if key x = k then Some x else row k s)"
  by (simp add: row_def add_def get_put row_simps)

lemma row_amend:
  "(\<And>x. key (f x) = key x) \<Longrightarrow>
   row k (amend k' f s) = (if k = k' then map_option f (row k s) else row k s)"
  by (simp add: row_def amend_def get_put row_simps)

lemma row_discard: "row k (discard k' s) = (if k = k' then None else row k s)"
  by (simp add: row_def discard_def get_put row_simps)

lemma distinct_add: "keys_distinct s \<Longrightarrow> row (key x) s = None \<Longrightarrow> keys_distinct (add x s)"
  by (simp add: keys_distinct_def add_def get_put row_def find_row_None_iff)

lemma distinct_amend: "(\<And>x. key (f x) = key x) \<Longrightarrow> keys_distinct s \<Longrightarrow> keys_distinct (amend k f s)"
  by (simp add: keys_distinct_def amend_def get_put)

lemma distinct_discarded: "keys_distinct s \<Longrightarrow> keys_distinct (discard k s)"
  by (simp add: keys_distinct_def discard_def get_put distinct_discard)

lemma amend_unknown: "row k s = None \<Longrightarrow> amend k f s = s"
  by (simp add: row_def amend_def find_row_None_iff amend_absent put_get)

lemma discard_add: "row (key x) s = None \<Longrightarrow> discard (key x) (add x s) = s"
proof -
  assume "row (key x) s = None"
  then have "discard_row key (key x) (get s) = get s"
    unfolding row_def find_row_None_iff discard_row_def filter_id_conv by (metis imageI)
  then show ?thesis by (simp add: discard_def add_def get_put put_put discard_row_def put_get)
qed

end

end
