(* ===== verification/Proto_Types.thy ===== *)
theory Proto_Types
  imports Chat_Types Collections
begin

text \<open>
  The resources the prototype store holds, as \<open>lib/api/agents.ts\<close>, \<open>lib/api/knowledge.ts\<close>,
  \<open>lib/api/channels.ts\<close> and \<open>lib/api/license.ts\<close> declare them.  An optional field that may also be
  null is an option; in an update request, where the code asks whether the field is present, it is
  an option of an option (\<open>None\<close>: absent, \<open>Some None\<close>: null).
\<close>

section \<open>Agents\<close>

datatype agent_visibility = Vis_Tenant | Vis_Department | Vis_Private

datatype instance_status = Inst_Draft | Inst_Active | Inst_Disabled

record agent_catalog_entry =
  ac_agent_key :: string
  ac_name :: string
  ac_category :: string
  ac_description :: string
  ac_status :: string
  ac_version :: string
  ac_capabilities :: "string list"
  ac_required_module :: string
  ac_orchestration_runtime :: string
  ac_orchestration_features :: "string list"
  ac_licensed :: "bool option"
  ac_installed :: "bool option"
  ac_enabled :: "bool option"
  ac_license_gate :: string

record agent_instance_create =
  aic_name :: string
  aic_slug :: "string option"
  aic_agent_key :: string
  aic_description :: "string option"
  aic_visibility :: "agent_visibility option"
  aic_department_id :: "string option"
  aic_owner_user_id :: "string option"
  aic_model_routing_key :: "string option"
  aic_model_key :: "string option"
  aic_system_prompt :: "string option"
  aic_config :: "props option"
  aic_metadata :: "props option"

record agent_instance_update =
  aiu_name :: "string option"
  aiu_description :: "string option option"
  aiu_status :: "instance_status option"
  aiu_visibility :: "agent_visibility option"
  aiu_department_id :: "string option option"
  aiu_owner_user_id :: "string option option"
  aiu_model_routing_key :: "string option option"
  aiu_model_key :: "string option option"
  aiu_system_prompt :: "string option option"
  aiu_config :: "props option option"
  aiu_metadata :: "props option option"

record agent_instance =
  ai_id :: string
  ai_tenant_id :: string
  ai_name :: string
  ai_slug :: string
  ai_agent_key :: string
  ai_module_key :: string
  ai_description :: "string option"
  ai_status :: instance_status
  ai_visibility :: agent_visibility
  ai_department_id :: "string option"
  ai_owner_user_id :: "string option"
  ai_model_routing_key :: "string option"
  ai_model_key :: "string option"
  ai_system_prompt :: "string option"
  ai_config :: props
  ai_metadata :: props
  ai_created_by :: "string option"
  ai_created_at :: string
  ai_updated_at :: string
  ai_runnable :: "bool option"
  ai_readiness :: "string option"
  ai_readiness_reasons :: "string list option"
  ai_model_available :: "bool option"
  ai_knowledge_base_count :: "nat option"
  ai_knowledge_enabled :: "bool option"

record agent_run_request =
  arr_input :: string
  arr_context :: props
  arr_model_key :: "string option"
  arr_routing_key :: "string option"
  arr_max_tokens :: "jsnum option"

record agent_run_response =
  ar_answer :: string
  ar_usage :: llm_usage
  ar_model_key :: string
  ar_request_id :: string
  ar_sources :: "props list"
  ar_metadata :: props

section \<open>Modules\<close>

datatype module_state =
  Not_Installed | Installed | Enabled | Disabled | Expired | Not_Licensed

record agent_module =
  am_id :: string
  am_name :: string
  am_scenario :: string
  am_priority :: string
  am_description :: string
  am_version :: string
  am_state :: module_state
  am_licensed :: bool
  am_installed :: bool
  am_enabled :: bool
  am_required_features :: "string list"
  am_missing_features :: "string list"
  am_dependencies :: "string list"
  am_missing_dependencies :: "string list"

record module_action_response =
  ma_module_id :: string
  ma_state :: module_state
  ma_message :: string

datatype module_action = Install | Enable | Disable

section \<open>Knowledge\<close>

datatype rag_engine = Ragflow | Pgvector

datatype base_status = Base_Active | Base_Archived

datatype document_status =
  Pending_Upload | Uploaded | Ingesting | Indexed | Doc_Failed | Deleted

datatype document_source = Api_Upload | Channel_Attachment | Internal_Import

record retrieval_config =
  rc_top_k :: int
  rc_score_threshold :: "jsnum option"
  rc_rerank_enabled :: bool
  rc_citation_required :: bool
  rc_metadata_filters :: props

record knowledge_base_create =
  kbc_name :: string
  kbc_description :: "string option"
  kbc_visibility :: agent_visibility
  kbc_department_ids :: "string list option"
  kbc_rag_engine :: rag_engine
  kbc_embedding_model_key :: "string option"
  kbc_retrieval_config :: "retrieval_config option"
  kbc_tags :: "string list option"
  kbc_metadata :: "props option"

record knowledge_base =
  kb_id :: string
  kb_tenant_id :: string
  kb_name :: string
  kb_description :: "string option"
  kb_visibility :: agent_visibility
  kb_department_ids :: "string list"
  kb_rag_engine :: rag_engine
  kb_embedding_model_key :: "string option"
  kb_retrieval_config :: retrieval_config
  kb_status :: base_status
  kb_document_count :: nat
  kb_tags :: "string list"
  kb_metadata :: props
  kb_created_at :: string
  kb_updated_at :: string

record knowledge_document =
  kd_id :: string
  kd_base_id :: string
  kd_tenant_id :: string
  kd_filename :: string
  kd_content_type :: "string option"
  kd_size_bytes :: "nat option"
  kd_checksum :: "string option"
  kd_source :: document_source
  kd_status :: document_status
  kd_storage_bucket :: string
  kd_storage_object_key :: string
  kd_rag_document_id :: "string option"
  kd_chunk_count :: nat
  kd_error_message :: "string option"
  kd_metadata :: props
  kd_created_at :: string
  kd_updated_at :: string

record knowledge_delete_response =
  kx_id :: string
  kx_deleted :: bool
  kx_message :: string
  kx_diagnostics :: props

record document_upload_response =
  du_document :: knowledge_document
  du_auto_ingest :: bool
  du_ingest_status :: "document_status option"
  du_message :: string
  du_diagnostics :: props

record retrieval_test_request =
  rt_query :: string
  rt_top_k :: int
  rt_filters :: "props option"
  rt_rerank :: "bool option"

record retrieval_test_response =
  rr_knowledge_base_id :: string
  rr_query :: string
  rr_engine :: rag_engine
  rr_elapsed_ms :: nat
  rr_results :: "props list"
  rr_diagnostics :: props
  rr_checked_at :: string

record upload_file =
  file_name :: string
  file_type :: string
  file_size :: nat

section \<open>Channels\<close>

datatype channel_type = Wecom | Dingtalk | Feishu | Web_Widget | Rest_Api

datatype channel_status = Chan_Active | Chan_Disabled | Chan_Testing | Chan_Error

record channel_create =
  chc_name :: string
  chc_type :: channel_type
  chc_key :: string
  chc_agent_id :: "string option"
  chc_status :: channel_status
  chc_config :: props
  chc_secret :: "string option"

record channel =
  ch_id :: string
  ch_tenant_id :: string
  ch_name :: string
  ch_type :: channel_type
  ch_key :: string
  ch_agent_id :: "string option"
  ch_status :: channel_status
  ch_webhook_path :: string
  ch_config :: props
  ch_secret_configured :: bool
  ch_created_at :: string
  ch_updated_at :: string

record channel_create_response =
  chr_channel :: channel
  chr_message :: string

record channel_processing =
  cp_routed :: bool
  cp_agent_key :: "string option"
  cp_conversation_id :: "string option"
  cp_response_text :: "string option"
  cp_request_id :: "string option"
  cp_model_key :: "string option"
  cp_runtime_evidence :: props
  cp_metadata :: props
  cp_error :: "string option"

record signature_verification =
  sg_checked :: bool
  sg_valid :: bool
  sg_method :: "string option"
  sg_reason :: "string option"

record inbound_message =
  im_tenant_id :: "string option"
  im_channel_id :: "string option"
  im_channel_type :: channel_type
  im_channel_key :: "string option"
  im_external_user_id :: "string option"
  im_external_message_id :: "string option"
  im_conversation_key :: string
  im_message_type :: string
  im_text :: "string option"
  im_attachments :: "props list"
  im_raw_payload :: props
  im_signature :: signature_verification
  im_trace_id :: "string option"
  im_request_id :: "string option"
  im_received_at :: string

record channel_test_request =
  ctr_text :: string
  ctr_external_user_id :: string
  ctr_conversation_key :: "string option"
  ctr_raw_payload :: props

record channel_test_response =
  ct_ok :: bool
  ct_channel_id :: string
  ct_normalized :: inbound_message
  ct_processing :: "channel_processing option"
  ct_message :: string

datatype push_mode = Push_Direct | Push_Agent

record outbound_delivery =
  od_attempted :: bool
  od_delivered :: bool
  od_mode :: string
  od_status_code :: "int option"
  od_target :: "string option"
  od_error :: "string option"
  od_details :: props

record channel_push_request =
  cpr_external_user_id :: string
  cpr_text :: string
  cpr_mode :: push_mode
  cpr_conversation_key :: "string option"

record channel_push_response =
  cps_channel_id :: string
  cps_channel_type :: channel_type
  cps_channel_key :: string
  cps_mode :: push_mode
  cps_delivered :: bool
  cps_agent_invoked :: bool
  cps_agent_key :: "string option"
  cps_response_text :: "string option"
  cps_conversation_key :: string
  cps_outbound :: outbound_delivery
  cps_request_id :: string
  cps_error :: "string option"
  cps_message :: string

text \<open>The strings the wire uses for the enumerations.\<close>

definition visibility_str :: "agent_visibility \<Rightarrow> string" where
  "visibility_str v = (case v of Vis_Tenant \<Rightarrow> ''tenant'' | Vis_Department \<Rightarrow> ''department''
     | Vis_Private \<Rightarrow> ''private'')"

definition rag_engine_str :: "rag_engine \<Rightarrow> string" where
  "rag_engine_str e = (case e of Ragflow \<Rightarrow> ''ragflow'' | Pgvector \<Rightarrow> ''pgvector'')"

definition channel_type_str :: "channel_type \<Rightarrow> string" where
  "channel_type_str c = (case c of Wecom \<Rightarrow> ''wecom'' | Dingtalk \<Rightarrow> ''dingtalk'' | Feishu \<Rightarrow> ''feishu''
     | Web_Widget \<Rightarrow> ''web_widget'' | Rest_Api \<Rightarrow> ''rest_api'')"

definition push_mode_str :: "push_mode \<Rightarrow> string" where
  "push_mode_str m = (case m of Push_Direct \<Rightarrow> ''direct'' | Push_Agent \<Rightarrow> ''agent'')"

end
