(* ===== verification/Proto_Data.thy ===== *)
theory Proto_Data
  imports Proto_Types
begin

text \<open>
  The data of the prototype mode, \<open>hooks/admin/prototypeData.ts\<close>: the seed rows of every list and
  the constructors of the records and answers the mode makes up.  The current time and random
  identifiers are arguments.  Texts outside ASCII are given by their code points.
\<close>

section \<open>Identifiers\<close>

definition proto_now :: string where "proto_now = ''2026-01-01T00:00:00.000Z''"
definition proto_tenant :: string where "proto_tenant = ''00000000-0000-4000-8000-000000000001''"
definition proto_department :: string where "proto_department = ''00000000-0000-4000-8000-000000000301''"
definition proto_admin_user :: string where "proto_admin_user = ''00000000-0000-4000-8000-000000000201''"
definition proto_agent_owner :: string where "proto_agent_owner = ''00000000-0000-4000-8000-000000000202''"
definition proto_instance_id :: string where "proto_instance_id = ''00000000-0000-4000-8000-000000000701''"
definition proto_hr_instance_id :: string where "proto_hr_instance_id = ''00000000-0000-4000-8000-000000000702''"
definition proto_web_channel_id :: string where "proto_web_channel_id = ''00000000-0000-4000-8000-000000000801''"
definition proto_wecom_channel_id :: string where "proto_wecom_channel_id = ''00000000-0000-4000-8000-000000000802''"
definition proto_after_sales_kb :: string where "proto_after_sales_kb = ''kb-after-sales''"

section \<open>Modules\<close>

definition proto_enabled_module_ids :: "string list" where
  "proto_enabled_module_ids = [''agent.customer_service'', ''agent.hr_screening'']"

definition is_module_enabled :: "string \<Rightarrow> bool" where
  "is_module_enabled m = List.member proto_enabled_module_ids m"

record module_seed =
  md_id :: string
  md_name :: string
  md_scenario :: string
  md_priority :: string
  md_description :: string
  md_state :: module_state
  md_licensed :: bool
  md_installed :: bool
  md_enabled :: bool
  md_dependencies :: "string list option"
  md_required_features :: "string list option"

definition module_entry :: "module_seed \<Rightarrow> agent_module" where
  "module_entry e =
     (let deps = coalesce (md_dependencies e) [];
          feats = coalesce (md_required_features e) [''feature.agent_catalog'']
      in \<lparr>am_id = md_id e, am_name = md_name e, am_scenario = md_scenario e, am_priority = md_priority e,
          am_description = md_description e, am_version = ''0.1.0'', am_state = md_state e,
          am_licensed = md_licensed e, am_installed = md_installed e, am_enabled = md_enabled e,
          am_required_features = feats,
          am_missing_features = filter (\<lambda>f. f \<noteq> ''feature.agent_catalog'' \<and> f \<noteq> ''feature.model_budget'' \<and>
                                            f \<noteq> ''feature.media_generation'') feats,
          am_dependencies = deps,
          am_missing_dependencies = filter (\<lambda>d. \<not> is_module_enabled d) deps\<rparr>)"

definition proto_module_seeds :: "module_seed list" where
  "proto_module_seeds =
    [\<lparr>md_id = ''agent.customer_service'', md_name = ''E-commerce Customer Service Assistant'',
       md_scenario = ''Customer support answers, policy lookup, source citation'', md_priority = ''P0'',
       md_description = ''Knowledge-grounded support Agent for ecommerce pre-sales and after-sales workflows.'',
       md_state = Enabled, md_licensed = True, md_installed = True, md_enabled = True,
       md_dependencies = None, md_required_features = None\<rparr>,
     \<lparr>md_id = ''agent.hr_screening'', md_name = ''HR Resume Screening Assistant'',
       md_scenario = ''HR resume parsing and candidate matching'', md_priority = ''P0'',
       md_description = ''Parses resumes, scores job fit, and drafts structured screening summaries.'',
       md_state = Enabled, md_licensed = True, md_installed = True, md_enabled = True,
       md_dependencies = None, md_required_features = None\<rparr>,
     \<lparr>md_id = ''agent.copywriting'', md_name = ''Copywriting Assistant'',
       md_scenario = ''Marketing copy and platform adaptation'', md_priority = ''P0'',
       md_description = ''Generates channel-specific copy for Xiaohongshu, Douyin, WeChat Moments, and stores.'',
       md_state = Installed, md_licensed = True, md_installed = True, md_enabled = False,
       md_dependencies = None, md_required_features = None\<rparr>,
     \<lparr>md_id = ''agent.image_generation'', md_name = ''Product Image Generation Assistant'',
       md_scenario = ''Product image generation and reference image editing'', md_priority = ''P0'',
       md_description = ''Plans product images, poster variants, reference-image edits, and brand-safe visual prompts.'',
       md_state = Not_Installed, md_licensed = True, md_installed = False, md_enabled = False,
       md_dependencies = None,
       md_required_features = Some [''feature.agent_catalog'', ''feature.media_generation'', ''feature.model_budget'']\<rparr>,
     \<lparr>md_id = ''agent.video_generation'', md_name = ''Short Video Generation Assistant'',
       md_scenario = ''Product video generation and material breakdown'', md_priority = ''P0'',
       md_description = ''Plans product videos from prompts, reference images, reference videos, and uploaded raw material.'',
       md_state = Not_Installed, md_licensed = True, md_installed = False, md_enabled = False,
       md_dependencies = None,
       md_required_features = Some [''feature.agent_catalog'', ''feature.media_generation'', ''feature.model_budget'']\<rparr>,
     \<lparr>md_id = ''agent.content_analysis'', md_name = ''Viral Content Analysis Assistant'',
       md_scenario = ''Content and video performance analysis'', md_priority = ''P1'',
       md_description = ''Breaks down viral hooks, structure, rhythm, and reusable content patterns.'',
       md_state = Not_Licensed, md_licensed = False, md_installed = False, md_enabled = False,
       md_dependencies = Some [''agent.copywriting''], md_required_features = None\<rparr>,
     \<lparr>md_id = ''agent.report_writer'', md_name = ''Project Report Assistant'',
       md_scenario = ''Project updates and management reporting'', md_priority = ''P1'',
       md_description = ''Turns project facts into weekly reports, monthly reports, and executive summaries.'',
       md_state = Not_Installed, md_licensed = True, md_installed = False, md_enabled = False,
       md_dependencies = None, md_required_features = None\<rparr>,
     \<lparr>md_id = ''agent.product_design'', md_name = ''New Product Design Assistant'',
       md_scenario = ''Product ideas and selling point extraction'', md_priority = ''P1'',
       md_description = ''Creates product ideas, selling point briefs, and launch material directions.'',
       md_state = Not_Licensed, md_licensed = False, md_installed = False, md_enabled = False,
       md_dependencies = None, md_required_features = None\<rparr>,
     \<lparr>md_id = ''agent.finance'', md_name = ''Finance Efficiency Assistant'',
       md_scenario = ''Finance Q&A and report interpretation'', md_priority = ''P2'',
       md_description = ''Explains finance policies, reports, and common accounting workflows.'',
       md_state = Not_Licensed, md_licensed = False, md_installed = False, md_enabled = False,
       md_dependencies = Some [''agent.report_writer''],
       md_required_features = Some [''feature.agent_catalog'', ''feature.model_budget'']\<rparr>,
     \<lparr>md_id = ''agent.store_operations'', md_name = ''Store Operations Assistant'',
       md_scenario = ''Store operations and listing optimization'', md_priority = ''P2'',
       md_description = ''Optimizes product titles, listings, promotion plans, and operating suggestions.'',
       md_state = Not_Licensed, md_licensed = False, md_installed = False, md_enabled = False,
       md_dependencies = Some [''agent.customer_service''], md_required_features = None\<rparr>,
     \<lparr>md_id = ''agent.data_analyst'', md_name = ''Data Analyst Assistant'',
       md_scenario = ''Business data Q&A and trend analysis'', md_priority = ''P2'',
       md_description = ''Answers business metric questions, explains trends, and drafts data insights.'',
       md_state = Not_Licensed, md_licensed = False, md_installed = False, md_enabled = False,
       md_dependencies = Some [''agent.report_writer''],
       md_required_features = Some [''feature.agent_catalog'', ''feature.model_budget'']\<rparr>]"

definition proto_agent_modules :: "agent_module list" where
  "proto_agent_modules = map module_entry proto_module_seeds"

definition capabilities_for_module :: "string \<Rightarrow> string list" where
  "capabilities_for_module m = coalesce (map_of
     [(''agent.content_analysis'', [''hook_analysis'', ''rewrite_brief'', ''content_breakdown'']),
      (''agent.copywriting'', [''copy_generation'', ''tone_variants'', ''platform_adaptation'']),
      (''agent.customer_service'', [''knowledge_retrieval'', ''reply_drafting'', ''source_citation'', ''budget_guard'']),
      (''agent.data_analyst'', [''metric_qa'', ''trend_analysis'', ''insight_summary'']),
      (''agent.finance'', [''finance_qa'', ''statement_interpretation'', ''policy_lookup'']),
      (''agent.hr_screening'', [''resume_parse'', ''candidate_scoring'', ''screening_summary'']),
      (''agent.image_generation'', [''prompt_to_image'', ''reference_image'', ''image_variants'', ''brand_style_control'']),
      (''agent.product_design'', [''idea_generation'', ''selling_point_extraction'', ''persona_fit'']),
      (''agent.report_writer'', [''report_outline'', ''progress_summary'', ''risk_summary'']),
      (''agent.store_operations'', [''listing_optimization'', ''campaign_ideas'', ''operation_suggestions'']),
      (''agent.video_generation'', [''prompt_to_video'', ''reference_image_to_video'', ''reference_video'',
         ''duration_fps_resolution_control''])] m) []"

definition orchestration_runtime :: "string \<Rightarrow> string" where
  "orchestration_runtime m =
     (if m = ''customer_service'' \<or> m = ''agent.customer_service'' then ''langgraph''
      else if m = ''agent.image_generation'' \<or> m = ''agent.video_generation'' then ''media_gateway''
      else ''langchain'')"

definition orchestration_features :: "string \<Rightarrow> string list" where
  "orchestration_features m =
     (if m = ''agent.customer_service'' then
        [''state_graph'', ''typed_state'', ''checkpoint_ready'', ''knowledge_retrieval_node'']
      else if m = ''agent.image_generation'' \<or> m = ''agent.video_generation'' then
        [''media_generation_plan'', ''reference_assets'', ''async_job_ready'', ''minio_output_contract'']
      else [''prompt_template'', ''runnable_chain'', ''structured_output''])"

definition catalog_from_modules :: "agent_module list \<Rightarrow> agent_catalog_entry list" where
  "catalog_from_modules ms = map (\<lambda>m.
     \<lparr>ac_agent_key = replace_first ''agent.'' [] (am_id m), ac_name = am_name m,
      ac_category = am_priority m, ac_description = am_description m,
      ac_status = (if am_enabled m then ''ready'' else if am_licensed m then ''available'' else ''locked''),
      ac_version = am_version m, ac_capabilities = capabilities_for_module (am_id m),
      ac_required_module = am_id m, ac_orchestration_runtime = orchestration_runtime (am_id m),
      ac_orchestration_features = orchestration_features (am_id m),
      ac_licensed = Some (am_licensed m), ac_installed = Some (am_installed m),
      ac_enabled = Some (am_enabled m), ac_license_gate = ''enforced''\<rparr>) ms"

definition proto_agent_catalog :: "agent_catalog_entry list" where
  "proto_agent_catalog = catalog_from_modules proto_agent_modules"

definition module_action_str :: "module_action \<Rightarrow> string" where
  "module_action_str a = (case a of Install \<Rightarrow> ''install'' | Enable \<Rightarrow> ''enable'' | Disable \<Rightarrow> ''disable'')"

definition proto_module_action :: "string \<Rightarrow> module_action \<Rightarrow> module_action_response" where
  "proto_module_action m a =
     \<lparr>ma_module_id = m,
      ma_state = (case a of Disable \<Rightarrow> Disabled | Enable \<Rightarrow> Enabled | Install \<Rightarrow> Installed),
      ma_message = ''Prototype '' @ module_action_str a @ '' completed for '' @ m @ ''.''\<rparr>"

section \<open>Knowledge\<close>

definition default_retrieval_config :: retrieval_config where
  "default_retrieval_config = \<lparr>rc_top_k = 5, rc_score_threshold = None, rc_rerank_enabled = False,
     rc_citation_required = True, rc_metadata_filters = []\<rparr>"

definition proto_knowledge_bases :: "knowledge_base list" where
  "proto_knowledge_bases =
    [\<lparr>kb_id = proto_after_sales_kb, kb_tenant_id = proto_tenant, kb_name = ''After-sales Policy'',
       kb_description = Some ''Approved refund, exchange, shipping SLA, and escalation policies for customer-facing Agents.'',
       kb_visibility = Vis_Department, kb_department_ids = [proto_department], kb_rag_engine = Pgvector,
       kb_embedding_model_key = Some ''bge-m3'', kb_retrieval_config = default_retrieval_config,
       kb_status = Base_Active, kb_document_count = 2, kb_tags = [''support'', ''refund'', ''exchange''],
       kb_metadata = [(''minio_bucket'', JStr ''agenthive-knowledge''), (''owner_department'', JStr ''Customer Success'')],
       kb_created_at = proto_now, kb_updated_at = proto_now\<rparr>,
     \<lparr>kb_id = ''kb-hr-hiring'', kb_tenant_id = proto_tenant, kb_name = ''HR Hiring Playbook'',
       kb_description = Some ''Hiring criteria, role scorecards, and interview process notes for HR screening Agents.'',
       kb_visibility = Vis_Tenant, kb_department_ids = [], kb_rag_engine = Pgvector,
       kb_embedding_model_key = Some ''bge-m3'', kb_retrieval_config = default_retrieval_config,
       kb_status = Base_Active, kb_document_count = 1, kb_tags = [''hr'', ''resume'', ''screening''],
       kb_metadata = [(''minio_bucket'', JStr ''agenthive-knowledge''), (''owner_department'', JStr ''Human Resources'')],
       kb_created_at = proto_now, kb_updated_at = proto_now\<rparr>]"

definition document_entry :: "nat \<Rightarrow> string \<Rightarrow> string \<Rightarrow> string \<Rightarrow> nat \<Rightarrow> knowledge_document" where
  "document_entry chunks filename did base size_bytes =
     \<lparr>kd_id = did, kd_base_id = base, kd_tenant_id = proto_tenant, kd_filename = filename,
      kd_content_type = Some ''text/markdown'', kd_size_bytes = Some size_bytes,
      kd_checksum = Some ''sha256:prototype'', kd_source = Api_Upload, kd_status = Indexed,
      kd_storage_bucket = ''agenthive-knowledge'',
      kd_storage_object_key = proto_tenant @ ''/'' @ base @ ''/'' @ filename,
      kd_rag_document_id = Some (''rag-'' @ did), kd_chunk_count = chunks, kd_error_message = None,
      kd_metadata = [(''language'', JStr ''zh-CN''), (''prototype'', JBool True)],
      kd_created_at = proto_now, kd_updated_at = proto_now\<rparr>"

definition proto_knowledge_documents :: "knowledge_document list" where
  "proto_knowledge_documents =
    [document_entry 12 ''refund-policy-2026.md'' ''doc-refund-policy'' proto_after_sales_kb 18432,
     document_entry 9 ''shipping-sla.md'' ''doc-shipping-sla'' proto_after_sales_kb 12980,
     document_entry 7 ''customer-success-scorecard.md'' ''doc-hr-scorecard'' ''kb-hr-hiring'' 10240]"

definition proto_knowledge_base :: "string \<Rightarrow> string \<Rightarrow> knowledge_base_create \<Rightarrow> knowledge_base" where
  "proto_knowledge_base now uuid p =
     \<lparr>kb_id = uuid, kb_tenant_id = proto_tenant, kb_name = kbc_name p, kb_description = kbc_description p,
      kb_visibility = kbc_visibility p, kb_department_ids = coalesce (kbc_department_ids p) [],
      kb_rag_engine = kbc_rag_engine p,
      kb_embedding_model_key = Some (coalesce (kbc_embedding_model_key p) ''bge-m3''),
      kb_retrieval_config = coalesce (kbc_retrieval_config p) default_retrieval_config,
      kb_status = Base_Active, kb_document_count = 0, kb_tags = coalesce (kbc_tags p) [],
      kb_metadata = obj_spread [(''prototype'', JBool True)] (coalesce (kbc_metadata p) []),
      kb_created_at = now, kb_updated_at = now\<rparr>"

definition proto_base_documents :: "string \<Rightarrow> knowledge_document list" where
  "proto_base_documents base = filter (\<lambda>d. kd_base_id d = base) proto_knowledge_documents"

definition proto_knowledge_upload ::
  "string \<Rightarrow> string \<Rightarrow> string \<Rightarrow> string \<Rightarrow> upload_file \<Rightarrow> document_upload_response" where
  "proto_knowledge_upload now uuid rag_uuid base f =
     \<lparr>du_document =
        \<lparr>kd_id = uuid, kd_base_id = base, kd_tenant_id = proto_tenant, kd_filename = file_name f,
         kd_content_type = Some (if file_type f \<noteq> [] then file_type f else ''application/octet-stream''),
         kd_size_bytes = Some (file_size f), kd_checksum = Some ''sha256:prototype'',
         kd_source = Api_Upload, kd_status = Indexed, kd_storage_bucket = ''agenthive-knowledge'',
         kd_storage_object_key = proto_tenant @ ''/'' @ base @ ''/'' @ file_name f,
         kd_rag_document_id = Some (''rag-'' @ rag_uuid), kd_chunk_count = 4, kd_error_message = None,
         kd_metadata = [(''prototype_upload'', JBool True)], kd_created_at = now, kd_updated_at = now\<rparr>,
      du_auto_ingest = True, du_ingest_status = Some Indexed,
      du_message = file_name f @ '' indexed in Prototype Mode.'',
      du_diagnostics = [(''engine'', JStr ''pgvector''), (''minio_bucket'', JStr ''agenthive-knowledge''),
        (''prototype'', JBool True)]\<rparr>"

definition proto_knowledge_delete :: "string \<Rightarrow> string \<Rightarrow> knowledge_delete_response" where
  "proto_knowledge_delete i target =
     \<lparr>kx_id = i, kx_deleted = True, kx_message = ''Prototype '' @ target @ '' deleted.'',
      kx_diagnostics = [(''prototype'', JBool True), (''target'', JStr target)]\<rparr>"

definition retrieval_sources :: "string \<Rightarrow> props list" where
  "retrieval_sources base =
     (if base = ''kb-hr-hiring'' then
        [[(''chunk_id'', JStr ''chunk-hr-001''), (''document_id'', JStr ''doc-hr-scorecard''),
          (''metadata'', JObj [(''section'', JStr ''scorecard'')]), (''score'', JNum (round_double (903/1000))),
          (''source_name'', JStr ''customer-success-scorecard.md''),
          (''text'', JStr ''Customer Success candidates should be scored on communication clarity, escalation judgment, and structured problem solving.'')]]
      else map (\<lambda>source. obj_spread source
          [(''knowledge_base_id'', JStr proto_after_sales_kb),
           (''knowledge_base_name'', JStr ''After-sales Policy'')])
        [[(''chunk_id'', JStr ''chunk-refund-002''), (''document_id'', JStr ''doc-refund-policy''),
          (''metadata'', JObj [(''section'', JStr ''exchange''), (''visibility'', JStr ''department'')]),
          (''score'', JNum (round_double (918/1000))), (''source_name'', JStr ''refund-policy-2026.md''),
          (''text'', JStr ''Size exchanges are allowed within seven days after receipt when the item is unworn and packaging plus tags are intact.'')],
         [(''chunk_id'', JStr ''chunk-shipping-004''), (''document_id'', JStr ''doc-shipping-sla''),
          (''metadata'', JObj [(''section'', JStr ''sla''), (''visibility'', JStr ''department'')]),
          (''score'', JNum (round_double (872/1000))), (''source_name'', JStr ''shipping-sla.md''),
          (''text'', JStr ''Delayed shipments require an apology, an expected delivery window, and escalation when the SLA breach is confirmed.'')]])"

definition find_base_or_first :: "string \<Rightarrow> knowledge_base" where
  "find_base_or_first base =
     coalesce (find_row kb_id base proto_knowledge_bases) (proto_knowledge_bases ! 0)"

definition proto_retrieval_test ::
  "string \<Rightarrow> string \<Rightarrow> retrieval_test_request \<Rightarrow> retrieval_test_response" where
  "proto_retrieval_test now base_id p =
     (let base = find_base_or_first base_id in
      \<lparr>rr_knowledge_base_id = kb_id base, rr_query = rt_query p, rr_engine = kb_rag_engine base,
       rr_elapsed_ms = 42,
       rr_results = take (nat (max 1 (min (rt_top_k p) 5))) (retrieval_sources (kb_id base)),
       rr_diagnostics = [(''adapter'', JStr ''pgvector''), (''fallback_available'', JBool True),
         (''filters'', JObj (coalesce (rt_filters p) [])), (''prototype'', JBool True),
         (''rerank'', JBool (coalesce (rt_rerank p) False))],
       rr_checked_at = now\<rparr>)"

section \<open>Agent instances\<close>

definition proto_agent_instances :: "agent_instance list" where
  "proto_agent_instances =
    [\<lparr>ai_id = proto_instance_id, ai_tenant_id = proto_tenant, ai_name = ''E-commerce Customer Service Agent'',
       ai_slug = ''ecommerce-customer-service'', ai_agent_key = ''customer_service'',
       ai_module_key = ''agent.customer_service'',
       ai_description = Some ''Customer-facing support Agent with knowledge base retrieval and model budget guardrails.'',
       ai_status = Inst_Active, ai_visibility = Vis_Department, ai_department_id = Some proto_department,
       ai_owner_user_id = Some proto_agent_owner, ai_model_routing_key = Some ''cn-primary-chat'',
       ai_model_key = Some ''qwen-plus'',
       ai_system_prompt = Some ''Answer with approved after-sales policy and cite knowledge sources.'',
       ai_config = [(''channel_ready'', JBool True), (''knowledge_base_ids'', JArr [JStr proto_after_sales_kb]),
         (''knowledge_top_k'', JNum (Fin 3)), (''rag'', JStr ''pgvector'')],
       ai_metadata = [(''demo'', JBool True), (''readiness'', JStr ''ready'')],
       ai_created_by = Some proto_admin_user, ai_created_at = proto_now, ai_updated_at = proto_now,
       ai_runnable = None, ai_readiness = None, ai_readiness_reasons = None, ai_model_available = None,
       ai_knowledge_base_count = None, ai_knowledge_enabled = None\<rparr>,
     \<lparr>ai_id = proto_hr_instance_id, ai_tenant_id = proto_tenant, ai_name = ''HR Resume Screening Agent'',
       ai_slug = ''hr-resume-screening'', ai_agent_key = ''hr_screening'', ai_module_key = ''agent.hr_screening'',
       ai_description = Some ''HR screening Agent with hiring playbook retrieval and structured candidate scorecards.'',
       ai_status = Inst_Active, ai_visibility = Vis_Tenant, ai_department_id = None,
       ai_owner_user_id = Some proto_agent_owner, ai_model_routing_key = Some ''cn-hr-screening'',
       ai_model_key = Some ''qwen-plus'',
       ai_system_prompt = Some ''Score candidates against approved hiring criteria and flag items for HR review.'',
       ai_config = [(''knowledge_base_ids'', JArr [JStr ''kb-hr-hiring'']), (''knowledge_top_k'', JNum (Fin 3)),
         (''screening_template'', JStr ''scorecard'')],
       ai_metadata = [(''demo'', JBool True), (''readiness'', JStr ''ready'')],
       ai_created_by = Some proto_admin_user, ai_created_at = proto_now, ai_updated_at = proto_now,
       ai_runnable = None, ai_readiness = None, ai_readiness_reasons = None, ai_model_available = None,
       ai_knowledge_base_count = None, ai_knowledge_enabled = None\<rparr>]"

definition slug_char :: "char \<Rightarrow> bool" where
  "slug_char c \<longleftrightarrow> (let n = of_char c :: nat in 97 \<le> n \<and> n \<le> 122 \<or> 48 \<le> n \<and> n \<le> 57)"

function slug_runs :: "string \<Rightarrow> string" where \<comment> \<open>\<open>replace(/[^a-z0-9]+/g, "-")\<close>\<close>
  "slug_runs [] = []"
| "slug_runs (c # s) =
     (if slug_char c then c # slug_runs s
      else CHR ''-'' # slug_runs (dropWhile (\<lambda>x. \<not> slug_char x) s))"
  by pat_completeness auto
termination
  by (relation "measure length") (auto simp: length_dropWhile_le le_imp_less_Suc)

definition slugify :: "string \<Rightarrow> string" where
  "slugify name =
     (let r = slug_runs (to_lower name);
          a = (if r \<noteq> [] \<and> hd r = CHR ''-'' then tl r else r)
      in if a \<noteq> [] \<and> last a = CHR ''-'' then butlast a else a)"

definition proto_agent_instance :: "string \<Rightarrow> string \<Rightarrow> agent_instance_create \<Rightarrow> agent_instance" where
  "proto_agent_instance now uuid p =
     (let catalog = find_row ac_agent_key (aic_agent_key p) proto_agent_catalog in
      \<lparr>ai_id = uuid, ai_tenant_id = proto_tenant, ai_name = aic_name p,
       ai_slug = coalesce (aic_slug p) (slugify (aic_name p)), ai_agent_key = aic_agent_key p,
       ai_module_key = coalesce (map_option ac_required_module catalog) (''agent.'' @ aic_agent_key p),
       ai_description = or_else (aic_description p) (map_option ac_description catalog),
       ai_status = Inst_Active, ai_visibility = coalesce (aic_visibility p) Vis_Tenant,
       ai_department_id = Some (coalesce (aic_department_id p) proto_department),
       ai_owner_user_id = aic_owner_user_id p, ai_model_routing_key = aic_model_routing_key p,
       ai_model_key = aic_model_key p, ai_system_prompt = aic_system_prompt p,
       ai_config = coalesce (aic_config p) [],
       ai_metadata = obj_spread [(''prototype'', JBool True)] (coalesce (aic_metadata p) []),
       ai_created_by = Some proto_admin_user, ai_created_at = now, ai_updated_at = now,
       ai_runnable = None, ai_readiness = None, ai_readiness_reasons = None, ai_model_available = None,
       ai_knowledge_base_count = None, ai_knowledge_enabled = None\<rparr>)"

definition proto_updated_agent_instance :: "string \<Rightarrow> string \<Rightarrow> agent_instance_update \<Rightarrow> agent_instance" where
  "proto_updated_agent_instance now i p =
     (let cur = coalesce (find_row ai_id i proto_agent_instances) (proto_agent_instances ! 0);
          pick = (\<lambda>new old. or_else (coalesce new None) old)
      in cur\<lparr>ai_config := coalesce (coalesce (aiu_config p) None) (ai_config cur),
             ai_department_id := pick (aiu_department_id p) (ai_department_id cur),
             ai_description := pick (aiu_description p) (ai_description cur),
             ai_metadata := coalesce (coalesce (aiu_metadata p) None) (ai_metadata cur),
             ai_model_key := pick (aiu_model_key p) (ai_model_key cur),
             ai_model_routing_key := pick (aiu_model_routing_key p) (ai_model_routing_key cur),
             ai_name := coalesce (aiu_name p) (ai_name cur),
             ai_owner_user_id := pick (aiu_owner_user_id p) (ai_owner_user_id cur),
             ai_status := coalesce (aiu_status p) (ai_status cur),
             ai_system_prompt := pick (aiu_system_prompt p) (ai_system_prompt cur),
             ai_updated_at := now,
             ai_visibility := coalesce (aiu_visibility p) (ai_visibility cur)\<rparr>)"

definition knowledge_base_ids_of :: "props option \<Rightarrow> string list" where
  "knowledge_base_ids_of config =
     (case get_prop ''knowledge_base_ids'' (JObj (coalesce config [])) of
        JArr vs \<Rightarrow> filter (\<lambda>s. s \<noteq> []) (List.map_filter json_str vs)
      | _ \<Rightarrow> [])"

definition hr_answer :: string where
  "hr_answer =
   (utf8 [0x5019, 0x9009, 0x4EBA, 0x6458, 0x8981, 0xFF1A, 0x5019, 0x9009, 0x4EBA, 0x5177, 0x5907] @
    '' 3 '' @ utf8 [0x5E74, 0x7535, 0x5546, 0x5BA2, 0x670D, 0x4E0E, 0x552E, 0x540E] @ '' SOP '' @
    utf8 [0x7ECF, 0x9A8C, 0xFF0C, 0x719F, 0x6089, 0x9000, 0x6B3E, 0x3001, 0x6362, 0x8D27, 0x3001,
    0x7269, 0x6D41, 0x5F02, 0x5E38, 0x5904, 0x7406, 0x3002] @ [nl] @ [nl]) @
   (utf8 [0x5339, 0x914D, 0x8BC4, 0x5206, 0xFF1A] @ ''82/100'' @ utf8 [0x3002, 0x5339, 0x914D,
    0x70B9, 0x5728, 0x5BA2, 0x670D, 0x6D41, 0x7A0B, 0x3001, 0x6C9F, 0x901A, 0x7A33, 0x5B9A, 0x6027,
    0x548C, 0x6570, 0x636E, 0x8BB0, 0x5F55, 0x4E60, 0x60EF, 0xFF1B, 0x5F85, 0x786E, 0x8BA4, 0x9879,
    0x662F, 0x9AD8, 0x5CF0, 0x671F, 0x6392, 0x73ED, 0x63A5, 0x53D7, 0x5EA6, 0x4E0E, 0x8DE8, 0x5E73,
    0x53F0, 0x5DE5, 0x5177, 0x7ECF, 0x9A8C, 0x3002] @ [nl] @ [nl]) @
   (utf8 [0x5173, 0x952E, 0x8BC1, 0x636E, 0xFF1A, 0x7B80, 0x5386, 0x4E2D, 0x7684, 0x552E, 0x540E,
    0x5DE5, 0x5355, 0x5904, 0x7406, 0x3001, 0x5BA2, 0x6237, 0x6EE1, 0x610F, 0x5EA6, 0x7EF4, 0x62A4,
    0x548C] @ '' SOP '' @ utf8 [0x66F4, 0x65B0, 0x7ECF, 0x5386, 0xFF0C, 0x4E0E] @
    '' HR Hiring Playbook '' @ utf8 [0x7684, 0x5C97, 0x4F4D, 0x8BB0, 0x5206, 0x5361, 0x9AD8, 0x5EA6,
    0x76F8, 0x5173, 0x3002] @ [nl] @ [nl]) @
   (utf8 [0x9762, 0x8BD5, 0x5EFA, 0x8BAE, 0xFF1A, 0x91CD, 0x70B9, 0x8FFD, 0x95EE, 0x590D, 0x6742,
    0x7EA0, 0x7EB7, 0x6848, 0x4F8B, 0x3001, 0x5E73, 0x53F0, 0x89C4, 0x5219, 0x8FB9, 0x754C, 0x610F,
    0x8BC6, 0x3001, 0x4EE5, 0x53CA, 0x662F, 0x5426, 0x80FD, 0x6309, 0x516C, 0x53F8, 0x77E5, 0x8BC6,
    0x5E93, 0x8F93, 0x51FA, 0x6807, 0x51C6, 0x8BDD, 0x672F, 0x3002])"

definition cs_answer :: string where
  "cs_answer =
   (utf8 [0x53EF, 0x4EE5, 0x8FD9, 0x6837, 0x56DE, 0x590D, 0x5BA2, 0x6237, 0xFF1A, 0x60A8, 0x597D,
    0xFF0C, 0x6536, 0x5230, 0x60A8, 0x53CD, 0x9988, 0x5C3A, 0x7801, 0x504F, 0x5C0F, 0x3002, 0x6839,
    0x636E, 0x552E, 0x540E, 0x653F, 0x7B56, 0xFF0C, 0x5546, 0x54C1, 0x7B7E, 0x6536, 0x540E] @
    '' 7 '' @ utf8 [0x5929, 0x5185, 0x3001, 0x672A, 0x7A7F, 0x7740, 0x4E14, 0x540A, 0x724C, 0x548C,
    0x5305, 0x88C5, 0x5B8C, 0x6574, 0x7684, 0x60C5, 0x51B5, 0x4E0B, 0x652F, 0x6301, 0x6362, 0x7801,
    0x3002]) @
   (utf8 [0x8BF7, 0x60A8, 0x5148, 0x63D0, 0x4F9B, 0x8BA2, 0x5355, 0x53F7, 0x548C, 0x5546, 0x54C1,
    0x7167, 0x7247, 0xFF0C, 0x6211, 0x4EEC, 0x4F1A, 0x4E3A, 0x60A8, 0x6838, 0x9A8C, 0x5E93, 0x5B58,
    0x5E76, 0x53D1, 0x8D77, 0x6362, 0x5927, 0x4E00, 0x7801, 0x6D41, 0x7A0B, 0x3002, 0x5982, 0x5F53,
    0x524D, 0x5C3A, 0x7801, 0x5E93, 0x5B58, 0x4E0D, 0x8DB3, 0xFF0C, 0x6211, 0x4F1A, 0x540C, 0x6B65,
    0x7ED9, 0x60A8, 0x53EF, 0x9009, 0x65B9, 0x6848, 0x3002])"

definition channel_test_answer :: string where
  "channel_test_answer =
   (utf8 [0x5DF2, 0x6839, 0x636E, 0x552E, 0x540E, 0x77E5, 0x8BC6, 0x5E93, 0x751F, 0x6210, 0x56DE,
    0x590D, 0xFF0C, 0x5E76, 0x8BB0, 0x5F55, 0x5230] @ '' Customer Success '' @ utf8 [0x6210, 0x672C,
    0x4E2D, 0x5FC3, 0x3002])"

definition channel_push_answer :: string where
  "channel_push_answer =
   (utf8 [0x5DF2, 0x6839, 0x636E, 0x552E, 0x540E, 0x77E5, 0x8BC6, 0x5E93, 0x751F, 0x6210, 0x4E3B,
    0x52A8, 0x56DE, 0x590D, 0xFF0C, 0x5E76, 0x901A, 0x8FC7, 0x5F53, 0x524D, 0x6E20, 0x9053, 0x4E0B,
    0x53D1, 0x3002])"

definition answer_for_agent :: "string \<Rightarrow> string" where
  "answer_for_agent agent_key = (if agent_key = ''hr_screening'' then hr_answer else cs_answer)"

definition pad3 :: "string \<Rightarrow> string" where \<comment> \<open>\<open>padStart(3, "0")\<close>\<close>
  "pad3 s = replicate (3 - length s) (CHR ''0'') @ s"

definition run_source :: "string \<Rightarrow> props list" where
  "run_source i = map (\<lambda>src. obj_spread src [(''knowledge_base_id'', JStr i)]) (retrieval_sources i)"

definition js_number :: "jsval \<Rightarrow> jsnum" where \<comment> \<open>\<open>Number(v)\<close>\<close>
  "js_number v = (case v of JUndef \<Rightarrow> NaN | JNull \<Rightarrow> Fin 0 | JBool b \<Rightarrow> Fin (if b then 1 else 0)
     | JNum n \<Rightarrow> n | JStr s \<Rightarrow> to_number s | JObj _ \<Rightarrow> NaN | JArr _ \<Rightarrow> to_number (js_string v))"

definition proto_agent_run :: "nat \<Rightarrow> string \<Rightarrow> agent_run_request \<Rightarrow> agent_run_response" where
  "proto_agent_run now_ms agent_key p =
     (let ctx = JObj (arr_context p);
          selected = or_else
            (List.find (\<lambda>i. JStr (ai_id i) = get_prop ''agent_id'' ctx) proto_agent_instances)
            (find_row ai_agent_key agent_key proto_agent_instances);
          catalog = find_row ac_agent_key agent_key proto_agent_catalog;
          ids = (case get_prop ''knowledge_base_ids'' ctx of
                   JArr vs \<Rightarrow> map js_string vs
                 | _ \<Rightarrow> knowledge_base_ids_of (map_option ai_config selected));
          sources = concat (map run_source ids);
          model_key = (if js_truthy_str (arr_model_key p) then the (arr_model_key p)
             else if js_truthy_str (Option.bind selected ai_model_key) then the (Option.bind selected ai_model_key)
             else ''qwen-plus'');
          required = coalesce (map_option ai_module_key selected)
             (coalesce (map_option ac_required_module catalog) (''agent.'' @ agent_key))
      in \<lparr>ar_answer = answer_for_agent agent_key,
          ar_usage = \<lparr>us_input_tokens = JNum (Fin 1280), us_output_tokens = JNum (Fin 426),
            us_total_tokens = JNum (Fin 1706), us_cost_usd = JStr ''0.0064''\<rparr>,
          ar_model_key = model_key,
          ar_request_id = ''proto-run-'' @ pad3 (nat_str (now_ms mod 1000)),
          ar_sources = sources,
          ar_metadata =
            [(''agent_instance'', case selected of
                None \<Rightarrow> JObj [(''enabled'', JBool False)]
              | Some i \<Rightarrow> JObj [(''enabled'', JBool True), (''id'', JStr (ai_id i)), (''name'', JStr (ai_name i)),
                  (''slug'', JStr (ai_slug i)), (''visibility'', JStr (visibility_str (ai_visibility i)))]),
             (''budget_guard'', JObj [(''actual_cost_usd'', JStr ''0.0064''), (''actual_tokens'', JNum (Fin 1706)),
                (''guard_status'', JStr ''settled''), (''policy_name'', JStr ''Customer Success model spend''),
                (''reason'', JStr ''Pre-call budget guard allowed cn-primary-chat and settled usage to department ledger.'')]),
             (''knowledge'', JObj
                [(''enabled'', JBool (sources \<noteq> [])), (''knowledge_base_ids'', JArr (map JStr ids)),
                 (''per_base'', JArr (map (\<lambda>i.
                    let base = find_row kb_id i proto_knowledge_bases in
                    JObj [(''elapsed_ms'', JNum (Fin 42)),
                      (''engine'', JStr (coalesce (map_option (rag_engine_str \<circ> kb_rag_engine) base) ''pgvector'')),
                      (''knowledge_base_id'', JStr i),
                      (''knowledge_base_name'', JStr (coalesce (map_option kb_name base) i)),
                      (''knowledge_base_visibility'',
                         JStr (coalesce (map_option (visibility_str \<circ> kb_visibility) base) ''tenant'')),
                      (''source_count'', JNum (Fin (of_nat (length
                         (filter (\<lambda>src. get_prop ''knowledge_base_id'' (JObj src) = JStr i) sources)))))]) ids)),
                 (''reason'', JStr (if sources \<noteq> [] then ''sources_found'' else ''no_sources'')),
                 (''source_count'', JNum (Fin (of_nat (length sources)))),
                 (''top_k'', JNum (js_number (js_coalesce (get_prop ''knowledge_top_k'' ctx) (JNum (Fin 3)))))]),
             (''license_gate'', JStr ''enforced''),
             (''license_gate_reason'', JStr (required @ '' licensed and enabled'')),
             (''required_module'', JStr required),
             (''routing_key'', JStr (coalesce (or_else (arr_routing_key p)
                (Option.bind selected ai_model_routing_key)) ''cn-primary-chat''))]\<rparr>)"

section \<open>Channels\<close>

definition proto_channels :: "channel list" where
  "proto_channels =
    [\<lparr>ch_id = proto_web_channel_id, ch_tenant_id = proto_tenant, ch_name = ''Support Web Widget'',
       ch_type = Web_Widget, ch_key = ''web-support-widget'', ch_agent_id = Some proto_instance_id,
       ch_status = Chan_Active, ch_webhook_path = ''/api/v1/channels/webhook/web_widget/web-support-widget'',
       ch_config = [(''allowed_origins'', JArr [JStr ''https://shop.example.com'']), (''streaming'', JBool True)],
       ch_secret_configured = True, ch_created_at = proto_now, ch_updated_at = proto_now\<rparr>,
     \<lparr>ch_id = proto_wecom_channel_id, ch_tenant_id = proto_tenant, ch_name = ''WeCom Customer Service'',
       ch_type = Wecom, ch_key = ''wecom-customer-service'', ch_agent_id = Some proto_instance_id,
       ch_status = Chan_Testing, ch_webhook_path = ''/api/v1/channels/webhook/wecom/wecom-customer-service'',
       ch_config = [(''corp_id_configured'', JBool True), (''aes_key_configured'', JBool True)],
       ch_secret_configured = True, ch_created_at = proto_now, ch_updated_at = proto_now\<rparr>]"

definition proto_channel :: "string \<Rightarrow> string \<Rightarrow> channel_create \<Rightarrow> channel_create_response" where
  "proto_channel now uuid p =
     \<lparr>chr_channel =
        \<lparr>ch_id = uuid, ch_tenant_id = proto_tenant, ch_name = chc_name p, ch_type = chc_type p,
         ch_key = chc_key p, ch_agent_id = Some (coalesce (chc_agent_id p) proto_instance_id),
         ch_status = chc_status p,
         ch_webhook_path = ''/api/v1/channels/webhook/'' @ channel_type_str (chc_type p) @ ''/'' @ chc_key p,
         ch_config = chc_config p, ch_secret_configured = js_truthy_str (chc_secret p),
         ch_created_at = now, ch_updated_at = now\<rparr>,
      chr_message = chc_name p @ '' created in Prototype Mode.''\<rparr>"

definition find_channel_or_first :: "string \<Rightarrow> channel" where
  "find_channel_or_first i = coalesce (find_row ch_id i proto_channels) (proto_channels ! 0)"

definition proto_channel_status :: "string \<Rightarrow> string \<Rightarrow> channel_status \<Rightarrow> channel" where
  "proto_channel_status now i st = (find_channel_or_first i)\<lparr>ch_status := st, ch_updated_at := now\<rparr>"

definition proto_channel_test :: "string \<Rightarrow> string \<Rightarrow> channel_test_request \<Rightarrow> channel_test_response" where
  "proto_channel_test now i p =
     (let c = find_channel_or_first i;
          conversation = coalesce (ctr_conversation_key p) (''test:'' @ ch_key c)
      in \<lparr>ct_ok = True, ct_channel_id = ch_id c,
          ct_normalized =
            \<lparr>im_tenant_id = Some proto_tenant, im_channel_id = Some (ch_id c), im_channel_type = ch_type c,
             im_channel_key = Some (ch_key c), im_external_user_id = Some (ctr_external_user_id p),
             im_external_message_id = Some ''proto-message-001'', im_conversation_key = conversation,
             im_message_type = ''text'', im_text = Some (ctr_text p), im_attachments = [],
             im_raw_payload = ctr_raw_payload p,
             im_signature = \<lparr>sg_checked = True, sg_valid = True, sg_method = Some ''hmac-sha256'', sg_reason = None\<rparr>,
             im_trace_id = Some ''trace-proto-channel-001'', im_request_id = Some ''proto-run-001'',
             im_received_at = now\<rparr>,
          ct_processing = Some
            \<lparr>cp_routed = True, cp_agent_key = Some ''customer_service'',
             cp_conversation_id = Some ''conversation-proto-channel-001'',
             cp_response_text = Some channel_test_answer, cp_request_id = Some ''proto-run-001'',
             cp_model_key = Some ''qwen-plus'',
             cp_runtime_evidence =
               [(''agent_key'', JStr ''customer_service''), (''channel_execution'', JStr ''channel_gateway''),
                (''channel_id'', JStr (ch_id c)), (''channel_key'', JStr (ch_key c)),
                (''channel_type'', JStr (channel_type_str (ch_type c))), (''conversation_key'', JStr conversation),
                (''llm_gateway_called'', JBool True), (''message_type'', JStr ''text''),
                (''model_key'', JStr ''qwen-plus''), (''provider_key'', JStr ''qwen''),
                (''request_id'', JStr ''proto-run-001''), (''routed'', JBool True),
                (''signature_checked'', JBool True), (''signature_method'', JStr ''hmac-sha256''),
                (''signature_valid'', JBool True)],
             cp_metadata = [(''provider_key'', JStr ''qwen'')], cp_error = None\<rparr>,
          ct_message = ''Prototype channel test normalized and routed to customer_service.''\<rparr>)"

definition proto_channel_push :: "string \<Rightarrow> channel_push_request \<Rightarrow> channel_push_response" where
  "proto_channel_push i p =
     (let c = find_channel_or_first i;
          conversation = coalesce (cpr_conversation_key p)
            (channel_type_str (ch_type c) @ '':'' @ ch_key c @ '':'' @ cpr_external_user_id p);
          invoked = (cpr_mode p = Push_Agent)
      in \<lparr>cps_channel_id = ch_id c, cps_channel_type = ch_type c, cps_channel_key = ch_key c,
          cps_mode = cpr_mode p, cps_delivered = True, cps_agent_invoked = invoked,
          cps_agent_key = (if invoked then Some ''customer_service'' else None),
          cps_response_text = (if invoked then Some channel_push_answer else None),
          cps_conversation_key = conversation,
          cps_outbound = \<lparr>od_attempted = True, od_delivered = True, od_mode = ''prototype'',
            od_status_code = Some 200, od_target = Some (cpr_external_user_id p), od_error = None,
            od_details = [(''prototype'', JBool True)]\<rparr>,
          cps_request_id = ''proto-push-001'', cps_error = None,
          cps_message = ''Prototype push ('' @ push_mode_str (cpr_mode p) @ '') delivered to '' @
            cpr_external_user_id p @ ''.''\<rparr>)"

end
