(* ===== verification/Proto_Store.thy ===== *)
theory Proto_Store
  imports Proto_Data Transitions
begin

text \<open>
  The in-memory store of the prototype mode, \<open>hooks/admin/prototypeState.ts\<close>: five lists, the
  snapshot the views subscribe to, and every operation that changes them.  Copies of a list
  (\<open>cloneList\<close>) are the list itself, values being immutable here.  \<open>notified\<close> counts how often the
  listeners were called.
\<close>

section \<open>The store\<close>

record snapshot =
  sn_agent_catalog :: "agent_catalog_entry list"
  sn_agent_instances :: "agent_instance list"
  sn_agent_modules :: "agent_module list"
  sn_channels :: "channel list"
  sn_knowledge_bases :: "knowledge_base list"
  sn_knowledge_documents :: "knowledge_document list"

record store =
  agent_modules :: "agent_module list"
  agent_instances :: "agent_instance list"
  knowledge_bases :: "knowledge_base list"
  knowledge_documents :: "knowledge_document list"
  channels :: "channel list"
  current_snapshot :: snapshot
  notified :: nat

definition create_snapshot :: "store \<Rightarrow> snapshot" where
  "create_snapshot s =
     \<lparr>sn_agent_catalog = catalog_from_modules (agent_modules s), sn_agent_instances = agent_instances s,
      sn_agent_modules = agent_modules s, sn_channels = channels s,
      sn_knowledge_bases = knowledge_bases s, sn_knowledge_documents = knowledge_documents s\<rparr>"

definition emit :: "store \<Rightarrow> store" where
  "emit s = s\<lparr>current_snapshot := create_snapshot s, notified := Suc (notified s)\<rparr>"

definition store_init :: store where
  "store_init =
     \<lparr>agent_modules = proto_agent_modules, agent_instances = proto_agent_instances,
      knowledge_bases = proto_knowledge_bases, knowledge_documents = proto_knowledge_documents,
      channels = proto_channels,
      current_snapshot =
        \<lparr>sn_agent_catalog = catalog_from_modules proto_agent_modules,
         sn_agent_instances = proto_agent_instances, sn_agent_modules = proto_agent_modules,
         sn_channels = proto_channels, sn_knowledge_bases = proto_knowledge_bases,
         sn_knowledge_documents = proto_knowledge_documents\<rparr>,
      notified = 0\<rparr>"

definition reset_store :: "store \<Rightarrow> store" where
  "reset_store s =
     emit (s\<lparr>agent_modules := proto_agent_modules, agent_instances := proto_agent_instances,
             knowledge_bases := proto_knowledge_bases, knowledge_documents := proto_knowledge_documents,
             channels := proto_channels\<rparr>)"

section \<open>Agent instances\<close>

definition create_agent_instance ::
  "string \<Rightarrow> string \<Rightarrow> agent_instance_create \<Rightarrow> store \<Rightarrow> agent_instance \<times> store" where
  "create_agent_instance now uuid p s =
     (let created = proto_agent_instance now uuid p
      in (created, emit (s\<lparr>agent_instances := created # agent_instances s\<rparr>)))"

definition given :: "'a option \<Rightarrow> 'a \<Rightarrow> 'a" where
  \<comment> \<open>\<open>Object.hasOwn(payload, f) ? v : old\<close>\<close>
  "given new old = coalesce new old"

definition updated_instance :: "string \<Rightarrow> agent_instance_update \<Rightarrow> agent_instance \<Rightarrow> agent_instance" where
  "updated_instance now p cur =
     cur\<lparr>ai_config := given (map_option (\<lambda>v. coalesce v []) (aiu_config p)) (ai_config cur),
         ai_department_id := given (aiu_department_id p) (ai_department_id cur),
         ai_description := given (aiu_description p) (ai_description cur),
         ai_metadata := given (map_option (\<lambda>v. coalesce v []) (aiu_metadata p)) (ai_metadata cur),
         ai_model_key := given (aiu_model_key p) (ai_model_key cur),
         ai_model_routing_key := given (aiu_model_routing_key p) (ai_model_routing_key cur),
         ai_name := coalesce (aiu_name p) (ai_name cur),
         ai_owner_user_id := given (aiu_owner_user_id p) (ai_owner_user_id cur),
         ai_status := coalesce (aiu_status p) (ai_status cur),
         ai_system_prompt := given (aiu_system_prompt p) (ai_system_prompt cur),
         ai_updated_at := now,
         ai_visibility := coalesce (aiu_visibility p) (ai_visibility cur)\<rparr>"

definition update_agent_instance ::
  "string \<Rightarrow> string \<Rightarrow> agent_instance_update \<Rightarrow> store \<Rightarrow> (exn + agent_instance) \<times> store" where
  "update_agent_instance now agent_id p s =
     (case or_else (find_row ai_id agent_id (agent_instances s))
             (case agent_instances s of [] \<Rightarrow> None | x # _ \<Rightarrow> Some x) of
        None \<Rightarrow> (Inl (Named_Error ''TypeError'' ''current is undefined''), s)
      | Some cur \<Rightarrow>
          (let updated = updated_instance now p cur
           in (Inr updated,
               emit (s\<lparr>agent_instances := amend_row ai_id agent_id (\<lambda>_. updated) (agent_instances s)\<rparr>))))"

section \<open>Modules\<close>

definition recalculate_dependencies :: "agent_module list \<Rightarrow> agent_module list" where
  "recalculate_dependencies ms =
     (let on_ids = map am_id (filter am_enabled ms)
      in map (\<lambda>m. m\<lparr>am_missing_dependencies := filter (\<lambda>d. \<not> List.member on_ids d) (am_dependencies m)\<rparr>) ms)"

definition act_on_module :: "string \<Rightarrow> module_action \<Rightarrow> agent_module \<Rightarrow> agent_module" where
  "act_on_module mid a m =
     (if am_id m \<noteq> mid \<or> \<not> am_licensed m \<or> length (am_missing_features m) > 0 then m
      else case a of
        Install \<Rightarrow> m\<lparr>am_enabled := False, am_installed := True, am_state := Installed\<rparr>
      | Enable \<Rightarrow> m\<lparr>am_enabled := True, am_installed := True, am_state := Enabled\<rparr>
      | Disable \<Rightarrow> m\<lparr>am_enabled := False, am_installed := True, am_state := Disabled\<rparr>)"

definition run_module_action ::
  "string \<Rightarrow> module_action \<Rightarrow> store \<Rightarrow> module_action_response \<times> store" where
  "run_module_action mid a s =
     (proto_module_action mid a,
      emit (s\<lparr>agent_modules := recalculate_dependencies (map (act_on_module mid a) (agent_modules s))\<rparr>))"

section \<open>Knowledge\<close>

definition create_knowledge_base ::
  "string \<Rightarrow> string \<Rightarrow> knowledge_base_create \<Rightarrow> store \<Rightarrow> knowledge_base \<times> store" where
  "create_knowledge_base now uuid p s =
     (let created = proto_knowledge_base now uuid p
      in (created, emit (s\<lparr>knowledge_bases := created # knowledge_bases s\<rparr>)))"

definition documents_in :: "string \<Rightarrow> knowledge_document list \<Rightarrow> nat" where
  "documents_in base docs = length (filter (\<lambda>d. kd_base_id d = base) docs)"

definition recount_base :: "string \<Rightarrow> string \<Rightarrow> knowledge_document list \<Rightarrow> knowledge_base list \<Rightarrow> knowledge_base list" where
  "recount_base now base docs =
     amend_row kb_id base (\<lambda>b. b\<lparr>kb_document_count := documents_in base docs, kb_updated_at := now\<rparr>)"

definition upload_document ::
  "string \<Rightarrow> string \<Rightarrow> string \<Rightarrow> string \<Rightarrow> upload_file \<Rightarrow> store \<Rightarrow> document_upload_response \<times> store" where
  "upload_document now uuid rag_uuid base f s =
     (let r = proto_knowledge_upload now uuid rag_uuid base f;
          docs = du_document r # knowledge_documents s
      in (r, emit (s\<lparr>knowledge_documents := docs,
                     knowledge_bases := recount_base (kd_updated_at (du_document r)) base docs (knowledge_bases s)\<rparr>)))"

definition delete_knowledge_base :: "string \<Rightarrow> store \<Rightarrow> knowledge_delete_response \<times> store" where
  "delete_knowledge_base base s =
     (proto_knowledge_delete base ''base'',
      emit (s\<lparr>knowledge_bases := discard_row kb_id base (knowledge_bases s),
              knowledge_documents := filter (\<lambda>d. kd_base_id d \<noteq> base) (knowledge_documents s)\<rparr>))"

definition delete_document :: "string \<Rightarrow> string \<Rightarrow> string \<Rightarrow> store \<Rightarrow> knowledge_delete_response \<times> store" where
  "delete_document now base did s =
     (let docs = discard_row kd_id did (knowledge_documents s)
      in (proto_knowledge_delete did ''document'',
          emit (s\<lparr>knowledge_documents := docs,
                  knowledge_bases := recount_base now base docs (knowledge_bases s)\<rparr>)))"

definition reingest_document ::
  "string \<Rightarrow> string \<Rightarrow> string \<Rightarrow> store \<Rightarrow> document_upload_response option \<times> store" where
  "reingest_document now base did s =
     (case List.find (\<lambda>d. kd_base_id d = base \<and> kd_id d = did) (knowledge_documents s) of
        None \<Rightarrow> (None, s)
      | Some d \<Rightarrow>
          (let updated = d\<lparr>kd_error_message := None, kd_status := Indexed, kd_updated_at := now\<rparr>
           in (Some \<lparr>du_document = updated, du_auto_ingest = True, du_ingest_status = Some Indexed,
                 du_message = ''Document reindexed in Prototype Mode.'',
                 du_diagnostics = [(''engine'', JStr ''pgvector''), (''prototype'', JBool True)]\<rparr>,
               emit (s\<lparr>knowledge_documents := amend_row kd_id did (\<lambda>_. updated) (knowledge_documents s),
                       knowledge_bases := amend_row kb_id base (\<lambda>b. b\<lparr>kb_updated_at := now\<rparr>) (knowledge_bases s)\<rparr>))))"

section \<open>Channels\<close>

definition create_channel ::
  "string \<Rightarrow> string \<Rightarrow> channel_create \<Rightarrow> store \<Rightarrow> channel_create_response \<times> store" where
  "create_channel now uuid p s =
     (let r = proto_channel now uuid p
      in (r, emit (s\<lparr>channels := chr_channel r # channels s\<rparr>)))"

definition update_channel_status ::
  "string \<Rightarrow> string \<Rightarrow> channel_status \<Rightarrow> store \<Rightarrow> channel option \<times> store" where
  "update_channel_status now cid st s =
     (let s1 = emit (s\<lparr>channels := amend_row ch_id cid
            (\<lambda>c. c\<lparr>ch_status := st, ch_updated_at := now\<rparr>) (channels s)\<rparr>)
      in (or_else (find_row ch_id cid (channels s1)) (case channels s1 of [] \<Rightarrow> None | c # _ \<Rightarrow> Some c), s1))"

section \<open>Events\<close>

datatype store_event =
    Reset
  | Create_Instance string string agent_instance_create
  | Update_Instance string string agent_instance_update
  | Module_Action string module_action
  | Create_Base string string knowledge_base_create
  | Upload string string string string upload_file
  | Delete_Base string
  | Delete_Document string string string
  | Reingest string string string
  | Create_Channel string string channel_create
  | Channel_Status string string channel_status

definition store_step :: "store_event \<Rightarrow> store \<Rightarrow> store" where
  "store_step e s =
     (case e of
        Reset \<Rightarrow> reset_store s
      | Create_Instance now u p \<Rightarrow> snd (create_agent_instance now u p s)
      | Update_Instance now i p \<Rightarrow> snd (update_agent_instance now i p s)
      | Module_Action i a \<Rightarrow> snd (run_module_action i a s)
      | Create_Base now u p \<Rightarrow> snd (create_knowledge_base now u p s)
      | Upload now u r b f \<Rightarrow> snd (upload_document now u r b f s)
      | Delete_Base b \<Rightarrow> snd (delete_knowledge_base b s)
      | Delete_Document now b d \<Rightarrow> snd (delete_document now b d s)
      | Reingest now b d \<Rightarrow> snd (reingest_document now b d s)
      | Create_Channel now u p \<Rightarrow> snd (create_channel now u p s)
      | Channel_Status now i st \<Rightarrow> snd (update_channel_status now i st s))"

section \<open>The lists as keyed rows\<close>

interpretation instance_rows: keyed_rows ai_id agent_instances "\<lambda>xs s. s\<lparr>agent_instances := xs\<rparr>"
  by unfold_locales simp_all

interpretation module_rows: keyed_rows am_id agent_modules "\<lambda>xs s. s\<lparr>agent_modules := xs\<rparr>"
  by unfold_locales simp_all

interpretation base_rows: keyed_rows kb_id knowledge_bases "\<lambda>xs s. s\<lparr>knowledge_bases := xs\<rparr>"
  by unfold_locales simp_all

interpretation document_rows: keyed_rows kd_id knowledge_documents "\<lambda>xs s. s\<lparr>knowledge_documents := xs\<rparr>"
  by unfold_locales simp_all

interpretation channel_rows: keyed_rows ch_id channels "\<lambda>xs s. s\<lparr>channels := xs\<rparr>"
  by unfold_locales simp_all

lemma emit_frame [simp]:
  "agent_modules (emit s) = agent_modules s" "agent_instances (emit s) = agent_instances s"
  "knowledge_bases (emit s) = knowledge_bases s" "knowledge_documents (emit s) = knowledge_documents s"
  "channels (emit s) = channels s"
  by (simp_all add: emit_def)

lemma snapshot_emit [simp]: "current_snapshot (emit s) = create_snapshot (emit s)"
  by (simp add: emit_def create_snapshot_def)

section \<open>Well-formed stores\<close>

definition enabled_ids :: "agent_module list \<Rightarrow> string set" where
  "enabled_ids ms = set (map am_id (filter am_enabled ms))"

definition module_fixed :: "agent_module \<Rightarrow> string \<times> bool \<times> string list \<times> string list" where
  "module_fixed m = (am_id m, am_licensed m, am_missing_features m, am_dependencies m)"

definition module_sound :: "agent_module \<Rightarrow> bool" where
  "module_sound m \<longleftrightarrow>
     (am_enabled m \<longrightarrow> am_licensed m \<and> am_installed m \<and> am_missing_features m = []) \<and>
     (am_enabled m \<longleftrightarrow> am_state m = Enabled)"

definition modules_ok :: "agent_module list \<Rightarrow> bool" where
  "modules_ok ms \<longleftrightarrow>
     map module_fixed ms = map module_fixed proto_agent_modules \<and>
     list_all module_sound ms \<and>
     list_all (\<lambda>m. am_missing_dependencies m = filter (\<lambda>d. d \<notin> enabled_ids ms) (am_dependencies m)) ms"

definition counts_ok :: "knowledge_base list \<Rightarrow> knowledge_document list \<Rightarrow> bool" where
  "counts_ok bases docs \<longleftrightarrow> list_all (\<lambda>b. kb_document_count b = documents_in (kb_id b) docs) bases"

definition store_ok :: "store \<Rightarrow> bool" where
  "store_ok s \<longleftrightarrow>
     modules_ok (agent_modules s) \<and> agent_instances s \<noteq> [] \<and>
     distinct (map ai_id (agent_instances s)) \<and> distinct (map kb_id (knowledge_bases s)) \<and>
     distinct (map kd_id (knowledge_documents s)) \<and> distinct (map ch_id (channels s)) \<and>
     counts_ok (knowledge_bases s) (knowledge_documents s) \<and>
     current_snapshot s = create_snapshot s"

text \<open>
  What the callers guarantee: random identifiers are new, and a document is deleted under its own
  knowledge base.
\<close>

definition event_ok :: "store \<Rightarrow> store_event \<Rightarrow> bool" where
  "event_ok s e \<longleftrightarrow>
     (case e of
        Create_Instance now u p \<Rightarrow> u \<notin> ai_id ` set (agent_instances s)
      | Create_Base now u p \<Rightarrow>
          u \<notin> kb_id ` set (knowledge_bases s) \<and> u \<notin> kd_base_id ` set (knowledge_documents s)
      | Upload now u r b f \<Rightarrow> u \<notin> kd_id ` set (knowledge_documents s)
      | Delete_Document now b d \<Rightarrow>
          list_all (\<lambda>x. kd_id x = d \<longrightarrow> kd_base_id x = b) (knowledge_documents s)
      | Create_Channel now u p \<Rightarrow> u \<notin> ch_id ` set (channels s)
      | _ \<Rightarrow> True)"

inductive store_reachable :: "store \<Rightarrow> bool" where
  start: "store_reachable store_init"
| step: "store_reachable s \<Longrightarrow> event_ok s e \<Longrightarrow> store_reachable (store_step e s)"

inductive_cases store_reachableE: "store_reachable s"

subsection \<open>Modules\<close>

lemma recalculate_fixed: "map module_fixed (recalculate_dependencies ms) = map module_fixed ms"
  by (simp add: recalculate_dependencies_def Let_def module_fixed_def)

lemma recalculate_enabled: "enabled_ids (recalculate_dependencies ms) = enabled_ids ms"
  by (simp add: recalculate_dependencies_def Let_def enabled_ids_def filter_map comp_def)

lemma recalculate_sound: "list_all module_sound (recalculate_dependencies ms) = list_all module_sound ms"
  by (auto simp: recalculate_dependencies_def Let_def module_sound_def list_all_iff)

lemma recalculate_missing:
  "list_all (\<lambda>m. am_missing_dependencies m =
      filter (\<lambda>d. d \<notin> enabled_ids (recalculate_dependencies ms)) (am_dependencies m))
    (recalculate_dependencies ms)"
  unfolding recalculate_enabled
  by (auto simp: recalculate_dependencies_def Let_def enabled_ids_def list_all_iff intro!: filter_cong)

lemma act_on_module_fixed: "module_fixed (act_on_module mid a m) = module_fixed m"
  by (cases a) (simp_all add: act_on_module_def module_fixed_def)

lemma act_on_module_sound: "module_sound m \<Longrightarrow> module_sound (act_on_module mid a m)"
  by (cases a) (auto simp: act_on_module_def module_sound_def)

lemma modules_ok_action:
  "modules_ok ms \<Longrightarrow> modules_ok (recalculate_dependencies (map (act_on_module mid a) ms))"
  unfolding modules_ok_def recalculate_fixed recalculate_sound
  using recalculate_missing [of "map (act_on_module mid a) ms"]
  by (auto simp: act_on_module_fixed comp_def list_all_iff intro: act_on_module_sound)

lemma modules_ok_seeds: "modules_ok proto_agent_modules"
  by code_simp

subsection \<open>Document counts\<close>

lemma counts_okI: "(\<And>b. b \<in> set bases \<Longrightarrow> kb_document_count b = documents_in (kb_id b) docs) \<Longrightarrow> counts_ok bases docs"
  by (simp add: counts_ok_def list_all_iff)

lemma counts_recount:
  assumes "counts_ok bases docs"
    and "\<And>i. i \<noteq> base \<Longrightarrow> documents_in i docs' = documents_in i docs"
  shows "counts_ok (recount_base now base docs' bases) docs'"
proof (rule counts_okI)
  fix b assume "b \<in> set (recount_base now base docs' bases)"
  then obtain b0 where "b0 \<in> set bases"
    "b = (if kb_id b0 = base then b0\<lparr>kb_document_count := documents_in base docs', kb_updated_at := now\<rparr> else b0)"
    by (auto simp: recount_base_def in_amend)
  with assms show "kb_document_count b = documents_in (kb_id b) docs'"
    by (auto simp: counts_ok_def list_all_iff)
qed

lemma counts_touch:
  "counts_ok bases docs \<Longrightarrow> (\<And>b. kb_id (f b) = kb_id b \<and> kb_document_count (f b) = kb_document_count b) \<Longrightarrow>
   counts_ok (amend_row kb_id base f bases) docs"
  by (auto simp: counts_ok_def list_all_iff in_amend)

lemma documents_in_cong: "map kd_base_id docs = map kd_base_id docs' \<Longrightarrow> documents_in i docs = documents_in i docs'"
proof -
  have "documents_in i ds = count_list (map kd_base_id ds) i" for ds
    by (induction ds) (auto simp: documents_in_def)
  then show "map kd_base_id docs = map kd_base_id docs' \<Longrightarrow> ?thesis" by simp
qed

lemma map_kb_id_recount [simp]: "map kb_id (recount_base now base docs bases) = map kb_id bases"
  by (simp add: recount_base_def)

subsection \<open>Preservation\<close>

lemma store_ok_init: "store_ok store_init"
proof -
  have "counts_ok proto_knowledge_bases proto_knowledge_documents"
    by (simp add: counts_ok_def documents_in_def proto_knowledge_bases_def proto_knowledge_documents_def
        document_entry_def proto_after_sales_kb_def)
  moreover have "distinct (map ai_id proto_agent_instances)" "distinct (map kb_id proto_knowledge_bases)"
    "distinct (map kd_id proto_knowledge_documents)" "distinct (map ch_id proto_channels)"
    "proto_agent_instances \<noteq> []"
    by (simp_all add: proto_agent_instances_def proto_knowledge_bases_def proto_knowledge_documents_def
        proto_channels_def proto_instance_id_def proto_hr_instance_id_def proto_after_sales_kb_def
        document_entry_def proto_web_channel_id_def proto_wecom_channel_id_def)
  ultimately show ?thesis
    by (simp add: store_ok_def store_init_def modules_ok_seeds create_snapshot_def)
qed

lemma ai_id_updated [simp]: "ai_id (updated_instance now p cur) = ai_id cur"
  by (simp add: updated_instance_def)

lemma store_ok_update_instance:
  assumes "store_ok s"
  shows "store_ok (snd (update_agent_instance now i p s))"
proof (cases "find_row ai_id i (agent_instances s)")
  case None
  then have "amend_row ai_id i f (agent_instances s) = agent_instances s" for f
    by (simp add: find_row_None_iff amend_absent)
  with None assms show ?thesis
    by (auto simp: update_agent_instance_def Let_def store_ok_def split: list.split)
next
  case (Some cur)
  then have "ai_id cur = i" by (simp add: find_row_Some)
  then have "map ai_id (amend_row ai_id i (\<lambda>_. updated_instance now p cur) (agent_instances s))
      = map ai_id (agent_instances s)"
    by (auto simp: amend_row_def)
  moreover have "amend_row ai_id i (\<lambda>_. updated_instance now p cur) (agent_instances s) \<noteq> []"
    using assms by (simp add: store_ok_def amend_row_def)
  ultimately show ?thesis
    using assms Some by (simp add: update_agent_instance_def Let_def store_ok_def)
qed

lemma store_ok_upload:
  assumes "store_ok s" "u \<notin> kd_id ` set (knowledge_documents s)"
  shows "store_ok (snd (upload_document now u r b f s))"
proof -
  let ?d = "du_document (proto_knowledge_upload now u r b f)"
  have d: "kd_id ?d = u" "kd_base_id ?d = b" by (simp_all add: proto_knowledge_upload_def)
  have "counts_ok (recount_base (kd_updated_at ?d) b (?d # knowledge_documents s) (knowledge_bases s))
      (?d # knowledge_documents s)"
    by (rule counts_recount) (use assms(1) d in \<open>auto simp: store_ok_def documents_in_def\<close>)
  with assms d show ?thesis
    by (simp add: upload_document_def Let_def store_ok_def)
qed

lemma store_ok_delete_base:
  assumes "store_ok s"
  shows "store_ok (snd (delete_knowledge_base b s))"
proof -
  have "counts_ok (discard_row kb_id b (knowledge_bases s)) (filter (\<lambda>d. kd_base_id d \<noteq> b) (knowledge_documents s))"
  proof (rule counts_okI)
    fix x assume "x \<in> set (discard_row kb_id b (knowledge_bases s))"
    then have x: "x \<in> set (knowledge_bases s)" "kb_id x \<noteq> b" by (auto simp: discard_row_def)
    then have "documents_in (kb_id x) (filter (\<lambda>d. kd_base_id d \<noteq> b) (knowledge_documents s))
        = documents_in (kb_id x) (knowledge_documents s)"
      by (auto simp: documents_in_def intro!: arg_cong [where f = length] filter_cong)
    with x assms show "kb_document_count x =
        documents_in (kb_id x) (filter (\<lambda>d. kd_base_id d \<noteq> b) (knowledge_documents s))"
      by (simp add: store_ok_def counts_ok_def list_all_iff)
  qed
  with assms show ?thesis
    by (simp add: delete_knowledge_base_def store_ok_def distinct_discard distinct_map_filter)
qed

lemma store_ok_delete_document:
  assumes "store_ok s" "list_all (\<lambda>x. kd_id x = d \<longrightarrow> kd_base_id x = b) (knowledge_documents s)"
  shows "store_ok (snd (delete_document now b d s))"
proof -
  have "counts_ok (recount_base now b (discard_row kd_id d (knowledge_documents s)) (knowledge_bases s))
      (discard_row kd_id d (knowledge_documents s))"
  proof (rule counts_recount)
    show "documents_in i (discard_row kd_id d (knowledge_documents s)) = documents_in i (knowledge_documents s)"
      if "i \<noteq> b" for i
      using assms(2) that
      by (auto simp: documents_in_def discard_row_def list_all_iff intro!: arg_cong [where f = length] filter_cong)
  qed (use assms(1) in \<open>simp add: store_ok_def\<close>)
  with assms(1) show ?thesis
    by (simp add: delete_document_def Let_def store_ok_def distinct_discard)
qed

lemma store_ok_reingest:
  assumes "store_ok s"
  shows "store_ok (snd (reingest_document now b d s))"
proof (cases "List.find (\<lambda>x. kd_base_id x = b \<and> kd_id x = d) (knowledge_documents s)")
  case None
  with assms show ?thesis by (simp add: reingest_document_def)
next
  case (Some x)
  then have x: "x \<in> set (knowledge_documents s)" "kd_base_id x = b" "kd_id x = d"
    by (auto dest: find_Some_mem)
  let ?u = "x\<lparr>kd_error_message := None, kd_status := Indexed, kd_updated_at := now\<rparr>"
  let ?docs = "amend_row kd_id d (\<lambda>_. ?u) (knowledge_documents s)"
  have same: "y = x" if "y \<in> set (knowledge_documents s)" "kd_id y = d" for y
    using assms x(1,3) that unfolding store_ok_def distinct_map by (metis inj_onD)
  have ids: "map kd_id ?docs = map kd_id (knowledge_documents s)"
    using x(3) by (auto simp: amend_row_def)
  have "kd_base_id y = b" if "y \<in> set (knowledge_documents s)" "kd_id y = d" for y
    using same [OF that] x(2) by simp
  then have bases: "map kd_base_id ?docs = map kd_base_id (knowledge_documents s)"
    using x(2) by (auto simp: amend_row_def)
  have "counts_ok (amend_row kb_id b (\<lambda>b. b\<lparr>kb_updated_at := now\<rparr>) (knowledge_bases s)) ?docs"
  proof (rule counts_touch)
    show "counts_ok (knowledge_bases s) ?docs"
      using assms documents_in_cong [OF bases] by (simp add: store_ok_def counts_ok_def)
  qed simp
  with assms Some ids show ?thesis by (simp add: reingest_document_def Let_def store_ok_def)
qed

lemma store_ok_step:
  assumes "store_ok s" "event_ok s e"
  shows "store_ok (store_step e s)"
proof (cases e)
  case Reset
  then show ?thesis
    using store_ok_init by (simp add: store_step_def reset_store_def store_ok_def store_init_def)
next
  case (Create_Instance now u p)
  with assms show ?thesis
    by (simp add: store_step_def create_agent_instance_def Let_def store_ok_def event_ok_def
        proto_agent_instance_def)
next
  case (Update_Instance now i p)
  with store_ok_update_instance [OF assms(1)] show ?thesis by (simp add: store_step_def)
next
  case (Module_Action i a)
  with assms modules_ok_action show ?thesis
    by (simp add: store_step_def run_module_action_def store_ok_def)
next
  case (Create_Base now u p)
  have "documents_in u (knowledge_documents s) = 0" if "u \<notin> kd_base_id ` set (knowledge_documents s)"
    using that by (auto simp: documents_in_def filter_empty_conv)
  with Create_Base assms show ?thesis
    by (simp add: store_step_def create_knowledge_base_def Let_def store_ok_def event_ok_def
        proto_knowledge_base_def counts_ok_def)
next
  case (Upload now u r b f)
  with store_ok_upload assms show ?thesis by (simp add: store_step_def event_ok_def)
next
  case (Delete_Base b)
  with store_ok_delete_base assms show ?thesis by (simp add: store_step_def)
next
  case (Delete_Document now b d)
  with store_ok_delete_document assms show ?thesis by (simp add: store_step_def event_ok_def)
next
  case (Reingest now b d)
  with store_ok_reingest assms show ?thesis by (simp add: store_step_def)
next
  case (Create_Channel now u p)
  with assms show ?thesis
    by (simp add: store_step_def create_channel_def Let_def store_ok_def event_ok_def proto_channel_def)
next
  case (Channel_Status now i st)
  with assms show ?thesis
    by (simp add: store_step_def update_channel_status_def Let_def store_ok_def)
qed

lemma reachable_ok: "store_reachable s \<Longrightarrow> store_ok s"
  by (induction rule: store_reachable.induct) (simp_all add: store_ok_init store_ok_step)

lemma modules_step: "modules_ok (agent_modules s) \<Longrightarrow> modules_ok (agent_modules (store_step e s))"
  by (cases e)
     (simp_all add: store_step_def reset_store_def create_agent_instance_def update_agent_instance_def
       run_module_action_def create_knowledge_base_def upload_document_def delete_knowledge_base_def
       delete_document_def reingest_document_def create_channel_def update_channel_status_def Let_def
       modules_ok_seeds modules_ok_action split: option.split)

interpretation module_system: event_system "\<lambda>s. s = store_init" store_step "\<lambda>s. modules_ok (agent_modules s)"
  by unfold_locales (simp_all add: store_init_def modules_ok_seeds modules_step)

section \<open>Slugs\<close>

definition slug_shape :: "string \<Rightarrow> bool" where
  "slug_shape s \<longleftrightarrow>
     list_all (\<lambda>c. slug_char c \<or> c = CHR ''-'') s \<and>
     (s = [] \<or> slug_char (hd s) \<and> slug_char (last s)) \<and>
     successively (\<lambda>c d. c \<noteq> CHR ''-'' \<or> d \<noteq> CHR ''-'') s"

lemma dash_not_slug [simp]: "\<not> slug_char (CHR ''-'')"
  by (simp add: slug_char_def Let_def)

lemma slug_runs_chars: "c \<in> set (slug_runs s) \<Longrightarrow> slug_char c \<or> c = CHR ''-''"
  by (induction s rule: slug_runs.induct) (auto split: if_splits)

lemma slug_runs_hd: "s \<noteq> [] \<Longrightarrow> slug_char (hd s) \<Longrightarrow> hd (slug_runs s) = hd s"
  by (cases s) simp_all

lemma slug_runs_nonempty [simp]: "slug_runs s = [] \<longleftrightarrow> s = []"
  by (cases s) simp_all

lemma slug_runs_alternate: "successively (\<lambda>c d. c \<noteq> CHR ''-'' \<or> d \<noteq> CHR ''-'') (slug_runs s)"
proof (induction s rule: slug_runs.induct)
  case (2 c s)
  show ?case
  proof (cases "slug_char c")
    case True
    with 2(1) show ?thesis by (auto simp: successively_Cons)
  next
    case False
    let ?r = "dropWhile (\<lambda>x. \<not> slug_char x) s"
    have "?r \<noteq> [] \<Longrightarrow> hd (slug_runs ?r) \<noteq> CHR ''-''"
      using hd_dropWhile [of "\<lambda>x. \<not> slug_char x" s] slug_runs_hd [of ?r] by auto
    with 2(2) False show ?thesis by (auto simp: successively_Cons)
  qed
qed simp

lemma successively_tl: "successively P xs \<Longrightarrow> successively P (tl xs)"
  by (cases xs) (auto simp: successively_Cons)

lemma successively_butlast: "successively P xs \<Longrightarrow> successively P (butlast xs)"
  by (induction xs rule: rev_induct) (auto simp: successively_append_iff)

lemma slugify_shape: "slug_shape (slugify name)"
proof -
  let ?Q = "\<lambda>c d. c \<noteq> CHR ''-'' \<or> d \<noteq> CHR ''-''"
  define r where "r = slug_runs (to_lower name)"
  define a where "a = (if r \<noteq> [] \<and> hd r = CHR ''-'' then tl r else r)"
  define b where "b = (if a \<noteq> [] \<and> last a = CHR ''-'' then butlast a else a)"
  have eq: "slugify name = b" by (simp add: slugify_def Let_def r_def a_def b_def)
  have r: "successively ?Q r" "\<forall>c\<in>set r. slug_char c \<or> c = CHR ''-''"
    using slug_runs_alternate slug_runs_chars by (auto simp: r_def)
  have a: "successively ?Q a" "\<forall>c\<in>set a. slug_char c \<or> c = CHR ''-''"
    using r successively_tl [of ?Q r] by (auto simp: a_def dest: list.set_sel(2))
  have a_hd: "a = [] \<or> slug_char (hd a)"
  proof (cases r)
    case (Cons c r')
    with r show ?thesis by (cases r') (auto simp: a_def successively_Cons)
  qed (simp add: a_def)
  have b: "successively ?Q b" "\<forall>c\<in>set b. slug_char c \<or> c = CHR ''-''"
    using a successively_butlast [of ?Q a] by (auto simp: b_def dest: in_set_butlastD)
  have b_hd: "b = [] \<or> slug_char (hd b)"
    using a_hd by (cases a) (auto simp: b_def)
  have b_last: "b = [] \<or> slug_char (last b)"
  proof (cases a rule: rev_cases)
    case (snoc a' c)
    with a show ?thesis
      by (cases a' rule: rev_cases) (auto simp: b_def successively_append_iff butlast_append)
  qed (simp add: b_def)
  from b b_hd b_last show ?thesis unfolding eq by (auto simp: slug_shape_def list_all_iff)
qed

section \<open>Properties\<close>

text \<open>
  C18: The prototype store stays consistent along every sequence of operations: identifiers are
  distinct, every knowledge base counts exactly its documents, every module's missing dependencies
  are exactly its disabled ones, there is always an agent instance to update, and the snapshot the
  views read is the one of the current lists.
\<close>

theorem reachable_store_ok:
  assumes "store_reachable s"
  shows "store_ok s"
  using assms by (rule reachable_ok)

definition sample_file :: upload_file where
  "sample_file = \<lparr>file_name = ''faq.md'', file_type = [], file_size = 12\<rparr>"

lemma reachable_store_ok_witness:
  "store_ok (store_step (Delete_Document ''t2'' ''kb-hr-hiring'' ''doc-new'')
     (store_step (Upload ''t1'' ''doc-new'' ''r'' ''kb-hr-hiring'' sample_file) store_init))"
proof (rule reachable_store_ok)
  let ?s = "store_step (Upload ''t1'' ''doc-new'' ''r'' ''kb-hr-hiring'' sample_file) store_init"
  have "event_ok store_init (Upload ''t1'' ''doc-new'' ''r'' ''kb-hr-hiring'' sample_file)"
    by (simp add: event_ok_def store_init_def proto_knowledge_documents_def document_entry_def)
  then have "store_reachable ?s" by (rule store_reachable.step [OF store_reachable.start])
  moreover have "event_ok ?s (Delete_Document ''t2'' ''kb-hr-hiring'' ''doc-new'')"
    by (simp add: event_ok_def store_step_def upload_document_def Let_def store_init_def
        proto_knowledge_documents_def document_entry_def proto_knowledge_upload_def)
  ultimately show "store_reachable (store_step (Delete_Document ''t2'' ''kb-hr-hiring'' ''doc-new'') ?s)"
    by (rule store_reachable.step)
qed

text \<open>
  C19: No sequence of operations, well-behaved or not, enables a module the licence does not cover:
  there is never an enabled module that is unlicensed, not installed, lacks a feature, or whose
  state says otherwise; and which modules exist and are licensed never changes.
\<close>

theorem no_unlicensed_module_enabled:
  "filter (\<lambda>m. am_enabled m \<and> \<not> (am_licensed m \<and> am_installed m \<and>
       am_missing_features m = [] \<and> am_state m = Enabled))
     (agent_modules (fold store_step es store_init)) = []
   \<and> map am_licensed (agent_modules (fold store_step es store_init)) = map md_licensed proto_module_seeds
   \<and> map am_id (agent_modules (fold store_step es store_init)) = map md_id proto_module_seeds"
proof -
  let ?ms = "agent_modules (fold store_step es store_init)"
  have ok: "modules_ok ?ms" by (rule module_system.inv_reachable) simp
  then have "map module_fixed ?ms = map module_fixed proto_agent_modules" by (simp add: modules_ok_def)
  then have "map (fst \<circ> snd) (map module_fixed ?ms) = map (fst \<circ> snd) (map module_fixed proto_agent_modules)"
    and "map fst (map module_fixed ?ms) = map fst (map module_fixed proto_agent_modules)" by simp_all
  then have "map am_licensed ?ms = map md_licensed proto_module_seeds" "map am_id ?ms = map md_id proto_module_seeds"
    by (simp_all add: module_fixed_def comp_def proto_agent_modules_def module_entry_def Let_def)
  with ok show ?thesis
    by (auto simp: modules_ok_def list_all_iff module_sound_def filter_empty_conv)
qed

text \<open>
  Acting on a module that is not licensed changes nothing, yet reports success: the answer
  says that the module is now enabled and the action completed, while the list of modules is the
  one before.
\<close>

theorem refused_action_reports_success:
  assumes "store_reachable s" and "list_all (\<lambda>m. am_id m = mid \<longrightarrow> \<not> am_licensed m) (agent_modules s)"
  shows "agent_modules (snd (run_module_action mid Enable s)) = agent_modules s
       \<and> ma_state (fst (run_module_action mid Enable s)) = Enabled
       \<and> ma_message (fst (run_module_action mid Enable s)) = ''Prototype enable completed for '' @ mid @ ''.''"
proof -
  have ok: "modules_ok (agent_modules s)" using reachable_ok [OF assms(1)] by (simp add: store_ok_def)
  have "map (act_on_module mid Enable) (agent_modules s) = agent_modules s"
    using assms(2) by (auto simp: act_on_module_def list_all_iff intro!: map_idI)
  moreover have "recalculate_dependencies (agent_modules s) = agent_modules s"
    unfolding recalculate_dependencies_def Let_def
    using ok by (intro map_idI) (auto simp: modules_ok_def enabled_ids_def list_all_iff)
  ultimately show ?thesis
    by (simp add: run_module_action_def proto_module_action_def module_action_str_def)
qed

lemma refused_action_reports_success_witness:
  "agent_modules (snd (run_module_action ''agent.finance'' Enable store_init)) = agent_modules store_init
   \<and> ma_state (fst (run_module_action ''agent.finance'' Enable store_init)) = Enabled"
proof -
  have "list_all (\<lambda>m. am_id m = ''agent.finance'' \<longrightarrow> \<not> am_licensed m) (agent_modules store_init)"
    by (simp add: store_init_def proto_agent_modules_def proto_module_seeds_def module_entry_def)
  from refused_action_reports_success [OF store_reachable.start this] show ?thesis by blast
qed

text \<open>
  Creating a knowledge base, uploading to it and deleting it again leaves the bases and the
  documents as they were.
\<close>

theorem knowledge_base_roundtrip:
  assumes "u \<notin> kb_id ` set (knowledge_bases s)" and "u \<notin> kd_base_id ` set (knowledge_documents s)"
  shows "(let s1 = snd (create_knowledge_base now u p s);
              s2 = snd (upload_document now' d r u f s1);
              s3 = snd (delete_knowledge_base u s2)
          in knowledge_bases s3 = knowledge_bases s \<and> knowledge_documents s3 = knowledge_documents s)"
proof -
  let ?c = "proto_knowledge_base now u p"
  let ?d = "du_document (proto_knowledge_upload now' d r u f)"
  have c: "kb_id ?c = u" by (simp add: proto_knowledge_base_def)
  have d: "kd_base_id ?d = u" by (simp add: proto_knowledge_upload_def)
  have old: "discard_row kb_id u (knowledge_bases s) = knowledge_bases s"
    "filter (\<lambda>d. kd_base_id d \<noteq> u) (knowledge_documents s) = knowledge_documents s"
    using assms by (auto simp: discard_row_def filter_id_conv)
  have disc: "discard_row kb_id u (recount_base t u docs xs) = discard_row kb_id u xs" for t docs xs
    by (induction xs) (simp_all add: recount_base_def discard_row_def amend_row_def)
  have "discard_row kb_id u (?c # xs) = discard_row kb_id u xs" for xs
    using c by (simp add: discard_row_def)
  then show ?thesis
    by (simp add: Let_def create_knowledge_base_def upload_document_def delete_knowledge_base_def
        disc old d)
qed

lemma knowledge_base_roundtrip_witness:
  "\<exists>p. let s1 = snd (create_knowledge_base ''t'' ''u'' p store_init);
        s2 = snd (upload_document ''t'' ''d'' ''r'' ''u'' sample_file s1);
        s3 = snd (delete_knowledge_base ''u'' s2)
    in knowledge_bases s3 = knowledge_bases store_init \<and> knowledge_documents s3 = knowledge_documents store_init"
  by (rule exI, rule knowledge_base_roundtrip)
     (simp_all add: store_init_def proto_knowledge_bases_def proto_knowledge_documents_def
       document_entry_def proto_after_sales_kb_def)

text \<open>
  An update of an agent instance changes the fields the request names and no others: an absent
  field keeps its value, a null one is cleared, and every other instance is left alone.
\<close>

theorem update_instance_spec:
  assumes "find_row ai_id i (agent_instances s) = Some cur"
  shows "(let (r, s') = update_agent_instance now i p s in
          r = Inr (updated_instance now p cur)
          \<and> find_row ai_id j (agent_instances s') =
              (if j = i then Some (updated_instance now p cur) else find_row ai_id j (agent_instances s))
          \<and> ai_model_key (updated_instance now p cur) =
              (case aiu_model_key p of None \<Rightarrow> ai_model_key cur | Some v \<Rightarrow> v))"
proof -
  have id: "ai_id cur = i" using assms by (simp add: find_row_Some)
  have "find_row ai_id j (amend_row ai_id i (\<lambda>_. updated_instance now p cur) xs) =
      (if j = i then map_option (\<lambda>_. updated_instance now p cur) (find_row ai_id j xs) else find_row ai_id j xs)" for xs
    using id by (induction xs) (auto simp: find_row_def amend_row_def)
  with assms show ?thesis
    by (simp add: update_agent_instance_def Let_def given_def updated_instance_def split: option.split)
qed

definition rename_request :: agent_instance_update where
  "rename_request = \<lparr>aiu_name = Some ''Desk'', aiu_description = None, aiu_status = None, aiu_visibility = None,
     aiu_department_id = None, aiu_owner_user_id = None, aiu_model_routing_key = None,
     aiu_model_key = Some None, aiu_system_prompt = None, aiu_config = None, aiu_metadata = None\<rparr>"

lemma update_instance_spec_witness:
  "\<exists>r. fst (update_agent_instance ''t'' proto_instance_id rename_request store_init) = Inr r \<and> ai_model_key r = None"
proof -
  have "find_row ai_id proto_instance_id (agent_instances store_init) = Some (proto_agent_instances ! 0)"
    by (simp add: find_row_def store_init_def proto_agent_instances_def)
  from update_instance_spec [OF this, of "''t''" rename_request "[]"] show ?thesis
    by (auto simp: Let_def rename_request_def split: prod.splits)
qed

text \<open>
  C20: A slug made from a name is well formed whatever the name is: it holds only lower-case
  letters, digits and single dashes between them, never a dash at an end or two in a row.
\<close>

theorem created_slug_shape:
  "ai_slug (fst (create_agent_instance now u p s)) = coalesce (aic_slug p) (slugify (aic_name p))
   \<and> slug_shape (slugify (aic_name p))"
  by (simp add: create_agent_instance_def Let_def proto_agent_instance_def slugify_shape)

end
