(* ===== verification/Media_Types.thy ===== *)
theory Media_Types
  imports Chat_Types
begin

text \<open>
  The data of media generation, \<open>lib/api/media.ts\<close> and the form of \<open>pages/media/mediaUtils.ts\<close>:
  models, requests, plans, jobs, their events, and the answers of the server.  An optional field is
  \<open>None\<close> both when it is missing and when it is null: the modelled code reads them all with \<open>??\<close>
  or \<open>||\<close>.
\<close>

section \<open>Enumerations and their names\<close>

datatype media_kind = Image_Kind | Video_Kind

datatype media_mode = Manual_Prompt | Natural_Language | Material_Breakdown

datatype media_provider =
  Openai_Images | Nano_Banana | Volcengine_Seedance | Openai_Compatible_Media | Custom_Media

datatype job_status = Queued | Running | Succeeded | Job_Failed | Canceled

datatype price_unit = Per_Output | Per_Second

datatype model_status = Model_Active | Model_Not_Configured

fun kind_str :: "media_kind \<Rightarrow> string" where
  "kind_str Image_Kind = ''image''"
| "kind_str Video_Kind = ''video''"

fun mode_str :: "media_mode \<Rightarrow> string" where
  "mode_str Manual_Prompt = ''manual_prompt''"
| "mode_str Natural_Language = ''natural_language''"
| "mode_str Material_Breakdown = ''material_breakdown''"

fun job_status_str :: "job_status \<Rightarrow> string" where
  "job_status_str Queued = ''queued''"
| "job_status_str Running = ''running''"
| "job_status_str Succeeded = ''succeeded''"
| "job_status_str Job_Failed = ''failed''"
| "job_status_str Canceled = ''canceled''"

fun price_unit_str :: "price_unit \<Rightarrow> string" where
  "price_unit_str Per_Output = ''output''"
| "price_unit_str Per_Second = ''second''"

section \<open>Records\<close>

record asset_ref =
  as_kind :: media_kind
  as_bucket :: "string option"
  as_object_key :: "string option"
  as_url :: "string option"
  as_mime_type :: "string option"
  as_metadata :: "props option"

record media_model =
  mm_provider_key :: string
  mm_provider_type :: media_provider
  mm_model_key :: string
  mm_routing_key :: string
  mm_kind :: media_kind
  mm_display_name :: string
  mm_capabilities :: "string list"
  mm_default_parameters :: props
  mm_price_unit :: price_unit
  mm_price_usd :: string
  mm_pricing_note :: "string option"
  mm_status :: model_status
  mm_configuration_issues :: "string list"
  mm_configuration_hint :: "string option"

record media_request =
  mr_kind :: media_kind
  mr_mode :: "media_mode option"
  mr_prompt :: string
  mr_negative_prompt :: "string option"
  mr_model_key :: "string option"
  mr_routing_key :: "string option"
  mr_reference_assets :: "asset_ref list option"
  mr_image_count :: "jsnum option"
  mr_aspect_ratio :: "string option"
  mr_resolution :: "string option"
  mr_duration_seconds :: "jsnum option"
  mr_fps :: "jsnum option"
  mr_seed :: "jsnum option"
  mr_metadata :: "props option"

record media_plan =
  mp_kind :: media_kind
  mp_provider_key :: string
  mp_provider_type :: media_provider
  mp_model_key :: string
  mp_routing_key :: string
  mp_mode :: media_mode
  mp_prompt :: string
  mp_estimated_output_count :: jsnum
  mp_estimated_cost_usd :: string
  mp_pricing :: props
  mp_normalized_parameters :: props
  mp_reference_asset_count :: int
  mp_output_storage :: props
  mp_execution :: props

record media_job =
  mj_id :: string
  mj_tenant_id :: string
  mj_user_id :: "string option"
  mj_department_id :: "string option"
  mj_agent_id :: "string option"
  mj_conversation_id :: "string option"
  mj_request_id :: "string option"
  mj_kind :: media_kind
  mj_mode :: media_mode
  mj_status :: job_status
  mj_provider_key :: string
  mj_provider_type :: media_provider
  mj_model_key :: string
  mj_routing_key :: string
  mj_prompt :: string
  mj_negative_prompt :: "string option"
  mj_reference_assets :: "props list"
  mj_request_parameters :: props
  mj_normalized_parameters :: props
  mj_output_storage :: props
  mj_outputs :: "props list"
  mj_external_job_id :: "string option"
  mj_error_message :: "string option"
  mj_metadata :: props
  mj_created_at :: string
  mj_updated_at :: string
  mj_started_at :: "string option"
  mj_completed_at :: "string option"

record media_event =
  me_id :: string
  me_action :: string
  me_status :: string
  me_request_id :: "string option"
  me_actor_id :: "string option"
  me_actor_type :: string
  me_details :: props
  me_created_at :: string

record enqueue_response =
  eq_job_id :: string
  eq_task_id :: string
  eq_queued :: bool

record poll_batch_response =
  pb_requested :: int
  pb_queued :: int
  pb_skipped :: int
  pb_failed :: int

record media_form =
  mf_kind :: media_kind
  mf_mode :: media_mode
  mf_prompt :: string
  mf_negative_prompt :: string
  mf_model_key :: string
  mf_routing_key :: string
  mf_reference_url :: string
  mf_reference_kind :: media_kind
  mf_image_count :: jsnum
  mf_aspect_ratio :: string
  mf_resolution :: string
  mf_duration_seconds :: jsnum
  mf_fps :: jsnum
  mf_seed :: string

definition default_media_form :: media_form where
  "default_media_form =
     \<lparr>mf_kind = Image_Kind, mf_mode = Manual_Prompt, mf_prompt = [], mf_negative_prompt = [],
      mf_model_key = [], mf_routing_key = [], mf_reference_url = [], mf_reference_kind = Image_Kind,
      mf_image_count = Fin 1, mf_aspect_ratio = ''1:1'', mf_resolution = ''1024x1024'',
      mf_duration_seconds = Fin 5, mf_fps = Fin 24, mf_seed = []\<rparr>"

section \<open>Objects of the records\<close>

text \<open>A property that is missing in the record is missing in the object.\<close>

definition opt_prop :: "string \<Rightarrow> ('a \<Rightarrow> jsval) \<Rightarrow> 'a option \<Rightarrow> props" where
  "opt_prop k f v = (case v of None \<Rightarrow> [] | Some x \<Rightarrow> [(k, f x)])"

definition asset_props :: "asset_ref \<Rightarrow> props" where \<comment> \<open>\<open>{ ...asset }\<close>\<close>
  "asset_props a =
     [(''kind'', JStr (kind_str (as_kind a)))] @ opt_prop ''bucket'' JStr (as_bucket a) @
     opt_prop ''object_key'' JStr (as_object_key a) @ opt_prop ''url'' JStr (as_url a) @
     opt_prop ''mime_type'' JStr (as_mime_type a) @ opt_prop ''metadata'' JObj (as_metadata a)"

definition request_props :: "media_request \<Rightarrow> props" where \<comment> \<open>\<open>{ ...request }\<close>\<close>
  "request_props r =
     [(''kind'', JStr (kind_str (mr_kind r)))] @
     opt_prop ''mode'' (\<lambda>m. JStr (mode_str m)) (mr_mode r) @
     [(''prompt'', JStr (mr_prompt r)),
      (''negative_prompt'', opt_str (mr_negative_prompt r)),
      (''model_key'', opt_str (mr_model_key r)), (''routing_key'', opt_str (mr_routing_key r))] @
     opt_prop ''reference_assets'' (\<lambda>as. JArr (map (\<lambda>a. JObj (asset_props a)) as)) (mr_reference_assets r) @
     opt_prop ''image_count'' JNum (mr_image_count r) @
     [(''aspect_ratio'', opt_str (mr_aspect_ratio r)), (''resolution'', opt_str (mr_resolution r)),
      (''duration_seconds'', case_option JNull JNum (mr_duration_seconds r)),
      (''fps'', case_option JNull JNum (mr_fps r)), (''seed'', case_option JNull JNum (mr_seed r))] @
     opt_prop ''metadata'' JObj (mr_metadata r)"

end
