(* ===== verification/Media_Jobs.thy ===== *)
theory Media_Jobs
  imports Media_Types
begin

text \<open>
  Media generation jobs, \<open>pages/media/mediaUtils.ts\<close>: the request a form makes, the plan, the job
  and the events the prototype mode makes up, and the transitions of a prototype job.  A reading of
  the clock is an argument: its ISO text and the milliseconds the identifiers are made of.
\<close>

section \<open>Requests\<close>

definition default_routing_key :: "media_kind \<Rightarrow> string" where
  "default_routing_key k = (if k = Video_Kind then ''video-generation'' else ''image-generation'')"

definition non_empty :: "string \<Rightarrow> string option" where \<comment> \<open>\<open>s || null\<close>\<close>
  "non_empty s = (if s = [] then None else Some s)"

definition reference_assets :: "media_form \<Rightarrow> asset_ref list" where
  "reference_assets f =
     (let url = trim (mf_reference_url f) in
      if url = [] then []
      else [\<lparr>as_kind = mf_reference_kind f, as_bucket = None, as_object_key = None, as_url = Some url,
             as_mime_type = None, as_metadata = Some [(''source'', JStr ''console_reference_url'')]\<rparr>])"

definition request_from_form :: "media_form \<Rightarrow> media_request" where
  "request_from_form f =
     \<lparr>mr_kind = mf_kind f, mr_mode = Some (mf_mode f), mr_prompt = trim (mf_prompt f),
      mr_negative_prompt = non_empty (trim (mf_negative_prompt f)),
      mr_model_key = non_empty (mf_model_key f), mr_routing_key = non_empty (mf_routing_key f),
      mr_reference_assets = Some (reference_assets f),
      mr_image_count = Some (if mf_kind f = Image_Kind then mf_image_count f else Fin 1),
      mr_aspect_ratio = (if mf_kind f = Image_Kind then non_empty (mf_aspect_ratio f) else None),
      mr_resolution = non_empty (mf_resolution f),
      mr_duration_seconds = (if mf_kind f = Video_Kind then Some (mf_duration_seconds f) else None),
      mr_fps = (if mf_kind f = Video_Kind then Some (mf_fps f) else None),
      mr_seed = (if mf_seed f = [] then None else Some (to_number (mf_seed f))),
      mr_metadata = Some [(''source'', JStr ''agenthive_console'')]\<rparr>"

section \<open>Plans\<close>

definition proto_image_model :: media_model where
  "proto_image_model =
     \<lparr>mm_provider_key = ''google'', mm_provider_type = Nano_Banana, mm_model_key = ''google/nano-banana'',
      mm_routing_key = ''image-generation'', mm_kind = Image_Kind, mm_display_name = ''Nano Banana'',
      mm_capabilities = [''prompt_to_image'', ''reference_image'', ''style_transfer''],
      mm_default_parameters = [(''image_count'', JNum (Fin 1)), (''resolution'', JStr ''1024x1024'')],
      mm_price_unit = Per_Output, mm_price_usd = ''0.030000'', mm_pricing_note = Some ''Built-in estimate.'',
      mm_status = Model_Active, mm_configuration_issues = [], mm_configuration_hint = None\<rparr>"

definition proto_video_model :: media_model where
  "proto_video_model =
     \<lparr>mm_provider_key = ''volcengine'', mm_provider_type = Volcengine_Seedance,
      mm_model_key = ''volcengine/seedance-2.0'', mm_routing_key = ''video-generation'',
      mm_kind = Video_Kind, mm_display_name = ''Volcengine Seedance 2.0'',
      mm_capabilities = [''prompt_to_video'', ''reference_image_to_video'', ''reference_video'', ''async_job''],
      mm_default_parameters =
        [(''duration_seconds'', JNum (Fin 5)), (''fps'', JNum (Fin 24)), (''resolution'', JStr ''1080p'')],
      mm_price_unit = Per_Second, mm_price_usd = ''0.080000'', mm_pricing_note = Some ''Built-in estimate.'',
      mm_status = Model_Active, mm_configuration_issues = [], mm_configuration_hint = None\<rparr>"

definition proto_media_models :: "media_model list" where
  "proto_media_models = [proto_image_model, proto_video_model]"

definition pick_model :: "media_request \<Rightarrow> media_model list \<Rightarrow> media_model" where
  "pick_model r ms =
     coalesce
       (or_else (List.find (\<lambda>m. Some (mm_model_key m) = mr_model_key r \<and> mm_kind m = mr_kind r) ms)
       (or_else (List.find (\<lambda>m. mm_kind m = mr_kind r \<and> mm_status m = Model_Active) ms)
                (List.find (\<lambda>m. mm_kind m = mr_kind r) proto_media_models)))
       proto_image_model"

definition asset_count :: "media_request \<Rightarrow> int" where
  "asset_count r = (case mr_reference_assets r of None \<Rightarrow> 0 | Some as \<Rightarrow> int (length as))"

definition normalized_parameters :: "media_request \<Rightarrow> props" where
  "normalized_parameters r =
     (let assets = (''reference_assets'', JObj [(''count'', JNum (Fin (of_int (asset_count r))))]) in
      if mr_kind r = Video_Kind then
        [(''duration_seconds'', JNum (coalesce (mr_duration_seconds r) (Fin 5))),
         (''fps'', JNum (coalesce (mr_fps r) (Fin 24))),
         (''resolution'', JStr (coalesce (mr_resolution r) ''1080p'')),
         (''aspect_ratio'', JStr (coalesce (mr_aspect_ratio r) ''16:9'')), assets]
      else
        [(''image_count'', JNum (coalesce (mr_image_count r) (Fin 1))),
         (''aspect_ratio'', JStr (coalesce (mr_aspect_ratio r) ''1:1'')),
         (''resolution'', JStr (coalesce (mr_resolution r) ''1024x1024'')),
         (''seed'', case_option JNull JNum (mr_seed r)), assets])"

fun value_number :: "jsval \<Rightarrow> jsnum" where \<comment> \<open>\<open>Number(v)\<close>\<close>
  "value_number JUndef = NaN"
| "value_number JNull = Fin 0"
| "value_number (JBool b) = (if b then Fin 1 else Fin 0)"
| "value_number (JNum n) = n"
| "value_number v = to_number (js_string v)"

definition estimated_count :: "media_request \<Rightarrow> props \<Rightarrow> jsnum" where
  "estimated_count r normalized =
     (if mr_kind r = Video_Kind
      then value_number (js_coalesce (get_prop ''duration_seconds'' (JObj normalized)) (JNum (Fin 5)))
      else value_number (js_coalesce (get_prop ''image_count'' (JObj normalized)) (JNum (Fin 1))))"

definition proto_plan :: "media_request \<Rightarrow> media_model list \<Rightarrow> media_plan" where
  "proto_plan r ms =
     (let model = pick_model r ms;
          normalized = normalized_parameters r;
          outputs = estimated_count r normalized;
          price = to_number (mm_price_usd model)
      in \<lparr>mp_kind = mr_kind r, mp_provider_key = mm_provider_key model,
          mp_provider_type = mm_provider_type model, mp_model_key = mm_model_key model,
          mp_routing_key = coalesce (Option.bind (mr_routing_key r) non_empty) (mm_routing_key model),
          mp_mode = coalesce (mr_mode r) Manual_Prompt, mp_prompt = mr_prompt r,
          mp_estimated_output_count = outputs,
          mp_estimated_cost_usd = to_fixed 6 (num_mult price outputs),
          mp_pricing = [(''currency'', JStr ''USD''), (''unit'', JStr (price_unit_str (mm_price_unit model))),
                        (''unit_price_usd'', JStr (mm_price_usd model))],
          mp_normalized_parameters = normalized,
          mp_reference_asset_count = asset_count r,
          mp_output_storage = [(''driver'', JStr ''minio''),
            (''prefix'', JStr (''generated/'' @ kind_str (mr_kind r) @ ''_generation''))],
          mp_execution = [(''mode'', JStr (if mr_kind r = Video_Kind then ''async_provider_job''
                                           else ''sync_provider_job'')),
            (''prototype'', JBool True),
            (''governed_by'', JArr [JStr ''license'', JStr ''budget'', JStr ''policy'', JStr ''audit''])]\<rparr>)"

section \<open>Jobs\<close>

record clock = \<comment> \<open>what one call reads: the time, and the milliseconds of its first and second identifier\<close>
  iso_now :: string
  first_ms :: nat
  second_ms :: nat

definition proto_job :: "clock \<Rightarrow> media_request \<Rightarrow> media_model list \<Rightarrow> media_job" where
  "proto_job c r ms =
     (let plan = proto_plan r ms in
      \<lparr>mj_id = ''proto-media-job-'' @ nat_str (first_ms c), mj_tenant_id = ''proto-tenant'',
       mj_user_id = Some ''proto-user'', mj_department_id = None, mj_agent_id = None,
       mj_conversation_id = None,
       mj_request_id = Some (''proto-media-request-'' @ nat_str (second_ms c)),
       mj_kind = mr_kind r, mj_mode = mp_mode plan, mj_status = Queued,
       mj_provider_key = mp_provider_key plan, mj_provider_type = mp_provider_type plan,
       mj_model_key = mp_model_key plan, mj_routing_key = mp_routing_key plan,
       mj_prompt = mr_prompt r, mj_negative_prompt = mr_negative_prompt r,
       mj_reference_assets = map asset_props (coalesce (mr_reference_assets r) []),
       mj_request_parameters = request_props r,
       mj_normalized_parameters = mp_normalized_parameters plan,
       mj_output_storage = mp_output_storage plan, mj_outputs = [], mj_external_job_id = None,
       mj_error_message = None,
       mj_metadata =
         [(''estimated_output_count'', JNum (mp_estimated_output_count plan)),
          (''estimated_cost_usd'', JStr (mp_estimated_cost_usd plan)),
          (''pricing'', JObj (mp_pricing plan)),
          (''reference_asset_count'', JNum (Fin (of_int (mp_reference_asset_count plan)))),
          (''prototype'', JBool True)],
       mj_created_at = iso_now c, mj_updated_at = iso_now c, mj_started_at = None,
       mj_completed_at = None\<rparr>)"

definition proto_media_jobs :: "(nat \<Rightarrow> string) \<Rightarrow> media_job list" where
  \<comment> \<open>the times are those of the five readings of the clock while the module loads\<close>
  "proto_media_jobs t =
    [\<lparr>mj_id = ''proto-media-job-1'', mj_tenant_id = ''proto-tenant'', mj_user_id = Some ''proto-user'',
      mj_department_id = None, mj_agent_id = None, mj_conversation_id = None,
      mj_request_id = Some ''proto-media-request'', mj_kind = Image_Kind, mj_mode = Manual_Prompt,
      mj_status = Queued, mj_provider_key = ''google'', mj_provider_type = Nano_Banana,
      mj_model_key = ''google/nano-banana'', mj_routing_key = ''image-generation'',
      mj_prompt = ''Generate a clean white-background sneaker product image.'',
      mj_negative_prompt = None, mj_reference_assets = [],
      mj_request_parameters = [(''image_count'', JNum (Fin 2)), (''aspect_ratio'', JStr ''1:1'')],
      mj_normalized_parameters = [(''image_count'', JNum (Fin 2)), (''aspect_ratio'', JStr ''1:1''),
        (''resolution'', JStr ''1024x1024'')],
      mj_output_storage = [(''driver'', JStr ''minio''), (''prefix'', JStr ''generated/image_generation'')],
      mj_outputs = [], mj_external_job_id = None, mj_error_message = None,
      mj_metadata = [(''estimated_output_count'', JNum (Fin 2)), (''estimated_cost_usd'', JStr ''0.060000''),
        (''pricing'', JObj [(''currency'', JStr ''USD''), (''unit'', JStr ''output''),
                           (''unit_price_usd'', JStr ''0.030000'')]),
        (''reference_asset_count'', JNum (Fin 0))],
      mj_created_at = t 0, mj_updated_at = t 1, mj_started_at = None, mj_completed_at = None\<rparr>,
     \<lparr>mj_id = ''proto-media-job-2'', mj_tenant_id = ''proto-tenant'', mj_user_id = Some ''proto-user'',
      mj_department_id = None, mj_agent_id = None, mj_conversation_id = None,
      mj_request_id = Some ''proto-media-request-video'', mj_kind = Video_Kind, mj_mode = Natural_Language,
      mj_status = Running, mj_provider_key = ''volcengine'', mj_provider_type = Volcengine_Seedance,
      mj_model_key = ''volcengine/seedance-2.0'', mj_routing_key = ''video-generation'',
      mj_prompt = utf8 [29992, 21442, 32771, 22270, 29983, 25104, 19968, 26465] @ '' 8 '' @ utf8 [31186] @ '' 16:9 '' @ utf8 [30340, 30005, 21830, 21334, 28857, 30701, 35270, 39057, 12290],
      mj_negative_prompt = None,
      mj_reference_assets = [[(''kind'', JStr ''image''), (''url'', JStr ''https://cdn.example.com/ref/shoe.png'')]],
      mj_request_parameters = [(''duration_seconds'', JNum (Fin 8)), (''fps'', JNum (Fin 24)),
        (''resolution'', JStr ''1080p'')],
      mj_normalized_parameters = [(''duration_seconds'', JNum (Fin 8)), (''fps'', JNum (Fin 24)),
        (''resolution'', JStr ''1080p''), (''aspect_ratio'', JStr ''16:9'')],
      mj_output_storage = [(''driver'', JStr ''minio''), (''prefix'', JStr ''generated/video_generation'')],
      mj_outputs = [], mj_external_job_id = Some ''seedance-task-proto-42'', mj_error_message = None,
      mj_metadata = [(''estimated_output_count'', JNum (Fin 1)), (''estimated_cost_usd'', JStr ''0.640000''),
        (''pricing'', JObj [(''currency'', JStr ''USD''), (''unit'', JStr ''second''),
                           (''unit_price_usd'', JStr ''0.080000'')]),
        (''reference_asset_count'', JNum (Fin 1)),
        (''poll'', JObj [(''provider_type'', JStr ''volcengine_seedance''),
                        (''external_job_id'', JStr ''seedance-task-proto-42'')])],
      mj_created_at = t 2, mj_updated_at = t 3, mj_started_at = Some (t 4), mj_completed_at = None\<rparr>]"

datatype job_action = Job_Cancel | Job_Enqueue | Job_Enqueue_Poll | Job_Poll | Job_Retry | Job_Run

fun job_action_str :: "job_action \<Rightarrow> string" where
  "job_action_str Job_Cancel = ''cancel''"
| "job_action_str Job_Enqueue = ''enqueue''"
| "job_action_str Job_Enqueue_Poll = ''enqueue_poll''"
| "job_action_str Job_Poll = ''poll''"
| "job_action_str Job_Retry = ''retry''"
| "job_action_str Job_Run = ''run''"

definition queue_metadata :: "string \<Rightarrow> nat \<Rightarrow> job_status \<Rightarrow> jsval" where
  "queue_metadata now ms st =
     JObj [(''task_id'', JStr (''proto-task-'' @ nat_str ms)), (''enqueued_at'', JStr now),
           (''actor_id'', JStr ''proto-user''), (''request_id'', JStr ''proto-media-request''),
           (''status_at_enqueue'', JStr (job_status_str st)), (''prototype'', JBool True)]"

definition outputs_for_job :: "media_job \<Rightarrow> props list" where
  "outputs_for_job j =
     (let video = mj_kind j = Video_Kind in
      [[(''bucket'', JStr ''agenthive-media''),
        (''object_key'', JStr (''prototype/'' @ mj_id j @ ''/output.'' @ (if video then ''mp4'' else ''png''))),
        (''mime_type'', JStr (if video then ''video/mp4'' else ''image/png'')),
        (''metadata'', JObj [(''prototype'', JBool True), (''provider_key'', JStr (mj_provider_key j)),
                             (''model_key'', JStr (mj_model_key j))])]])"

definition provider_job_id :: "media_job \<Rightarrow> nat \<Rightarrow> string" where
  "provider_job_id j ms =
     coalesce (mj_external_job_id j) (''proto-provider-'' @ kind_str (mj_kind j) @ ''-'' @ nat_str ms)"

definition transition_job :: "clock \<Rightarrow> job_action \<Rightarrow> media_job \<Rightarrow> media_job" where
  "transition_job c a j =
     (let now = iso_now c in
      case a of
        Job_Enqueue \<Rightarrow>
          j\<lparr>mj_status := Running,
            mj_external_job_id := Some (provider_job_id j (first_ms c)),
            mj_metadata := obj_put ''queue'' (queue_metadata now (second_ms c) (mj_status j)) (mj_metadata j),
            mj_started_at := Some (coalesce (mj_started_at j) now), mj_updated_at := now\<rparr>
      | Job_Enqueue_Poll \<Rightarrow>
          j\<lparr>mj_metadata := obj_put ''poll_queue'' (queue_metadata now (first_ms c) (mj_status j)) (mj_metadata j),
            mj_updated_at := now\<rparr>
      | Job_Retry \<Rightarrow>
          j\<lparr>mj_status := Queued, mj_error_message := None, mj_outputs := [],
            mj_metadata := obj_put ''retry''
              (JObj [(''requested_at'', JStr now), (''prototype'', JBool True)]) (mj_metadata j),
            mj_completed_at := None, mj_updated_at := now\<rparr>
      | Job_Cancel \<Rightarrow>
          j\<lparr>mj_status := Canceled,
            mj_metadata := obj_put ''canceled''
              (JObj [(''at'', JStr now), (''prototype'', JBool True)]) (mj_metadata j),
            mj_completed_at := Some now, mj_updated_at := now\<rparr>
      | _ \<Rightarrow>
          j\<lparr>mj_status := Succeeded,
            mj_external_job_id := Some (provider_job_id j (first_ms c)),
            mj_outputs := outputs_for_job j,
            mj_metadata := obj_put ''prototype'' (JBool True)
              (obj_put ''completed_by'' (JStr (job_action_str a)) (mj_metadata j)),
            mj_started_at := Some (coalesce (mj_started_at j) now), mj_completed_at := Some now,
            mj_updated_at := now\<rparr>)"

section \<open>Events and labels\<close>

definition proto_event :: "media_job \<Rightarrow> string \<Rightarrow> string \<Rightarrow> string \<Rightarrow> media_event" where
  "proto_event j action st tm =
     \<lparr>me_id = mj_id j @ ''-'' @ action @ ''-'' @ tm, me_action = action, me_status = st,
      me_request_id = mj_request_id j, me_actor_id = Some ''proto-user'', me_actor_type = ''user'',
      me_details = [(''prototype'', JBool True), (''model_key'', JStr (mj_model_key j)),
                    (''routing_key'', JStr (mj_routing_key j))],
      me_created_at = tm\<rparr>"

definition js_set :: "string option \<Rightarrow> string option" where \<comment> \<open>a time that is truthy\<close>
  "js_set v = Option.bind v non_empty"

definition proto_events :: "media_job \<Rightarrow> media_event list" where
  "proto_events j =
     [proto_event j ''media.generation.create'' ''queued'' (mj_created_at j)] @
     (case js_set (mj_started_at j) of
        Some tm \<Rightarrow> [proto_event j ''media.generation.enqueue'' ''running'' tm] | None \<Rightarrow> []) @
     (case js_set (mj_completed_at j) of
        Some tm \<Rightarrow> [proto_event j ''media.generation.status_update'' (job_status_str (mj_status j)) tm]
      | None \<Rightarrow>
          if mj_updated_at j \<noteq> mj_created_at j
          then [proto_event j ''media.generation.status_update'' (job_status_str (mj_status j)) (mj_updated_at j)]
          else [])"

definition capitalize_part :: "string \<Rightarrow> string" where
  "capitalize_part p = to_upper (take 1 p) @ drop 1 p"

definition status_label_key :: "job_status \<Rightarrow> string" where
  "status_label_key s = ''mediaStatus'' @ concat (map capitalize_part (split ''_'' (job_status_str s)))"

definition mode_label_key :: "media_mode \<Rightarrow> string" where
  "mode_label_key m =
     (if m = Manual_Prompt then ''mediaModeManualPrompt''
      else if m = Material_Breakdown then ''mediaModeMaterialBreakdown'' else ''mediaModeNaturalLanguage'')"

definition kind_label_key :: "media_kind \<Rightarrow> string" where
  "kind_label_key k = (if k = Video_Kind then ''mediaKindVideo'' else ''mediaKindImage'')"

definition has_active_jobs :: "media_job list \<Rightarrow> bool" where
  "has_active_jobs js \<longleftrightarrow> list_ex (\<lambda>j. mj_status j = Queued \<or> mj_status j = Running) js"

definition short_id :: "string option \<Rightarrow> string" where
  "short_id v =
     (case js_set v of
        None \<Rightarrow> ''-''
      | Some s \<Rightarrow> if take 6 s = ''proto-'' then s else take 8 s)"

end
