(* ===== verification/Media_Page.thy ===== *)
theory Media_Page
  imports Media_Jobs Session Collections Transitions
begin

text \<open>
  The media page, \<open>pages/media/useMediaPageController.ts\<close>: its state, what each action does before
  and after its request, and the requests in flight, which may be answered in any order.  The
  prototype mode answers at once.  \<open>media_step\<close> is one event: a click the page allows, the answer
  of one request in flight, or one run of the effects.
\<close>

section \<open>State\<close>

datatype page_tab = Tab_Compose | Tab_Jobs | Tab_Models
datatype compose_step = Step_Configure | Step_Plan
datatype jobs_tab = Jobs_Queue | Jobs_Details
datatype notice_tone = Info | Error_Tone

datatype jobs_then = \<comment> \<open>what follows an awaited \<open>loadJobs\<close>\<close>
  Then_Nothing | Then_Poll_Done nat | Then_End_Saving | Then_End_Action

datatype media_call = \<comment> \<open>a request in flight\<close>
    Call_Models
  | Call_Jobs bool jobs_then
  | Call_Events nat
  | Call_Plan
  | Call_Create
  | Call_Enqueue_Created string
  | Call_Action job_action string
  | Call_Batch

record media_page =
  active_tab :: page_tab
  compose_at :: compose_step
  active_jobs_tab :: jobs_tab
  models :: "media_model list"
  jobs :: "media_job list"
  selected_job_id :: "string option"
  form :: media_form
  models_loading :: bool
  jobs_loading :: bool
  models_error :: "string option"
  jobs_error :: "string option"
  job_events :: "media_event list"
  job_events_error :: "string option"
  job_events_loading :: bool
  plan :: "media_plan option"
  plan_error :: "string option"
  notice :: string
  notice_tone :: notice_tone
  planning :: bool
  saving :: bool
  action_job_id :: "string option"
  last_jobs_refresh :: "string option"
  calls :: "media_call list"
  events_run :: nat \<comment> \<open>runs of the job events effect; an answer of an older run is cancelled\<close>
  interval_on :: bool
  poll_run :: nat \<comment> \<open>runs of the timer effect, each with an \<open>inFlight\<close> of its own\<close>
  poll_in_flight :: bool

record media_env =
  auto_enqueue :: bool
  prototype :: bool
  tr :: "string \<Rightarrow> string" \<comment> \<open>\<open>t\<close>: the message of a key in the current locale\<close>
  seed_time :: "nat \<Rightarrow> string"

definition media_init :: media_page where
  "media_init =
     \<lparr>active_tab = Tab_Compose, compose_at = Step_Configure, active_jobs_tab = Jobs_Queue, models = [],
      jobs = [], selected_job_id = None, form = default_media_form, models_loading = True,
      jobs_loading = True, models_error = None, jobs_error = None, job_events = [],
      job_events_error = None, job_events_loading = False, plan = None, plan_error = None, notice = [],
      notice_tone = Info, planning = False, saving = False, action_job_id = None,
      last_jobs_refresh = None, calls = [], events_run = 0, interval_on = False, poll_run = 0, poll_in_flight = False\<rparr>"

definition selected_job :: "media_page \<Rightarrow> media_job option" where
  "selected_job s =
     or_else (Option.bind (selected_job_id s) (\<lambda>k. find_row mj_id k (jobs s)))
             (case jobs s of [] \<Rightarrow> None | j # _ \<Rightarrow> Some j)"

definition show_notice :: "string \<Rightarrow> notice_tone \<Rightarrow> media_page \<Rightarrow> media_page" where
  "show_notice msg tone s = s\<lparr>notice := msg, notice_tone := tone\<rparr>"

definition clear_notice :: "media_page \<Rightarrow> media_page" where
  "clear_notice s = s\<lparr>notice := [], notice_tone := Info\<rparr>"

definition media_error :: "exn \<Rightarrow> string" where \<comment> \<open>\<open>errorMessage\<close>\<close>
  "media_error e = exn_message e ''Request failed.''"

definition send :: "media_call \<Rightarrow> media_page \<Rightarrow> media_page" where
  "send c s = s\<lparr>calls := calls s @ [c]\<rparr>"

section \<open>Loading\<close>

definition load_models :: "media_env \<Rightarrow> media_page \<Rightarrow> media_page" where
  "load_models env s0 =
     (let s = s0\<lparr>models_loading := True, models_error := None\<rparr> in
      if prototype env then s\<lparr>models := proto_media_models, models_loading := False\<rparr>
      else send Call_Models s)"

definition models_answered :: "exn + media_model list \<Rightarrow> media_page \<Rightarrow> media_page" where
  "models_answered r s =
     (case r of
        Inr ms \<Rightarrow> s\<lparr>models := ms, models_loading := False\<rparr>
      | Inl e \<Rightarrow> s\<lparr>models_error := Some (media_error e), models_loading := False\<rparr>)"

definition jobs_continue :: "jobs_then \<Rightarrow> media_page \<Rightarrow> media_page" where
  "jobs_continue k s =
     (case k of
        Then_Nothing \<Rightarrow> s
      | Then_Poll_Done run \<Rightarrow> if run = poll_run s then s\<lparr>poll_in_flight := False\<rparr> else s
      | Then_End_Saving \<Rightarrow> s\<lparr>saving := False\<rparr>
      | Then_End_Action \<Rightarrow> s\<lparr>action_job_id := None\<rparr>)"

definition load_jobs :: "media_env \<Rightarrow> string \<Rightarrow> bool \<Rightarrow> jobs_then \<Rightarrow> media_page \<Rightarrow> media_page" where
  "load_jobs env now silent k s0 =
     (let s = s0\<lparr>jobs_loading := (if silent then jobs_loading s0 else True), jobs_error := None\<rparr> in
      if prototype env then
        jobs_continue k
          (s\<lparr>jobs := (if jobs s \<noteq> [] then jobs s else proto_media_jobs (seed_time env)),
             last_jobs_refresh := Some now, jobs_loading := (if silent then jobs_loading s else False)\<rparr>)
      else send (Call_Jobs silent k) s)"

definition jobs_answered ::
  "string \<Rightarrow> bool \<Rightarrow> jobs_then \<Rightarrow> exn + media_job list \<Rightarrow> media_page \<Rightarrow> media_page" where
  "jobs_answered now silent k r s0 =
     (let s = (case r of
                 Inr js \<Rightarrow> s0\<lparr>jobs := js, last_jobs_refresh := Some now\<rparr>
               | Inl e \<Rightarrow> s0\<lparr>jobs_error := Some (media_error e)\<rparr>)
      in jobs_continue k (s\<lparr>jobs_loading := (if silent then jobs_loading s else False)\<rparr>))"

definition refresh_all :: "media_env \<Rightarrow> string \<Rightarrow> media_page \<Rightarrow> media_page" where
  "refresh_all env now s = load_jobs env now False Then_Nothing (load_models env s)"

section \<open>Effects\<close>

definition select_effect :: "media_page \<Rightarrow> media_page" where
  "select_effect s =
     (case jobs s of
        [] \<Rightarrow> s
      | j # _ \<Rightarrow> if js_set (selected_job_id s) = None then s\<lparr>selected_job_id := Some (mj_id j)\<rparr> else s)"

definition events_effect :: "media_env \<Rightarrow> media_page \<Rightarrow> media_page" where
  \<comment> \<open>one run, the request of the previous run being cancelled\<close>
  "events_effect env s0 =
     (let s = s0\<lparr>events_run := Suc (events_run s0)\<rparr> in
      case selected_job s of
        None \<Rightarrow> s\<lparr>job_events := [], job_events_error := None\<rparr>
      | Some j \<Rightarrow>
          if prototype env then
            s\<lparr>job_events := proto_events j, job_events_error := None, job_events_loading := False\<rparr>
          else
            send (Call_Events (events_run s)) (s\<lparr>job_events_loading := True, job_events_error := None\<rparr>))"

definition events_answered :: "nat \<Rightarrow> exn + media_event list \<Rightarrow> media_page \<Rightarrow> media_page" where
  "events_answered run r s =
     (if run \<noteq> events_run s then s
      else case r of
        Inr es \<Rightarrow> s\<lparr>job_events := es, job_events_loading := False\<rparr>
      | Inl e \<Rightarrow> s\<lparr>job_events_error := Some (media_error e), job_events := [], job_events_loading := False\<rparr>)"

definition interval_effect :: "media_env \<Rightarrow> media_page \<Rightarrow> media_page" where
  \<comment> \<open>the timer is set up or cleared when \<open>autoRefreshingJobs\<close> changes\<close>
  "interval_effect env s =
     (let on = (\<not> prototype env \<and> has_active_jobs (jobs s)) in
      if on = interval_on s then s
      else s\<lparr>interval_on := on, poll_run := Suc (poll_run s), poll_in_flight := False\<rparr>)"

definition poll_tick :: "media_env \<Rightarrow> string \<Rightarrow> media_page \<Rightarrow> media_page" where
  "poll_tick env now s =
     (if \<not> interval_on s \<or> poll_in_flight s then s
      else load_jobs env now True (Then_Poll_Done (poll_run s)) (s\<lparr>poll_in_flight := True\<rparr>))"

section \<open>Planning and creating\<close>

definition update_form :: "media_form \<Rightarrow> media_page \<Rightarrow> media_page" where
  "update_form f s = s\<lparr>form := f, plan := None, plan_error := None\<rparr>"

definition preview_plan :: "media_env \<Rightarrow> media_page \<Rightarrow> media_page" where
  "preview_plan env s0 =
     (let s = clear_notice (s0\<lparr>planning := True, plan_error := None\<rparr>) in
      if prototype env then
        s\<lparr>plan := Some (proto_plan (request_from_form (form s)) (models s)), planning := False\<rparr>
      else send Call_Plan s)"

definition preview_plan_and_show :: "media_env \<Rightarrow> media_page \<Rightarrow> media_page" where
  "preview_plan_and_show env s = preview_plan env (s\<lparr>compose_at := Step_Plan\<rparr>)"

definition plan_answered :: "exn + media_plan \<Rightarrow> media_page \<Rightarrow> media_page" where
  "plan_answered r s =
     (case r of
        Inr p \<Rightarrow> s\<lparr>plan := Some p, planning := False\<rparr>
      | Inl e \<Rightarrow> s\<lparr>plan_error := Some (media_error e), planning := False\<rparr>)"

definition show_job :: "string \<Rightarrow> media_page \<Rightarrow> media_page" where
  "show_job k s = s\<lparr>selected_job_id := Some k, active_tab := Tab_Jobs, active_jobs_tab := Jobs_Details\<rparr>"

definition create_job :: "media_env \<Rightarrow> clock \<Rightarrow> clock \<Rightarrow> media_page \<Rightarrow> media_page" where
  "create_job env c c2 s0 =
     (let s = clear_notice (s0\<lparr>saving := True\<rparr>) in
      if prototype env then
        let made = proto_job c (request_from_form (form s)) (models s);
            created = (if auto_enqueue env then transition_job c2 Job_Enqueue made else made);
            key = (if auto_enqueue env then ''mediaJobCreatedAndEnqueued'' else ''mediaJobCreated'')
        in (show_job (mj_id created)
             (show_notice (tr env key) Info
               (s\<lparr>jobs := created # jobs s, last_jobs_refresh := Some (iso_now c2)\<rparr>)))\<lparr>saving := False\<rparr>
      else send Call_Create s)"

definition create_finished :: "media_env \<Rightarrow> string \<Rightarrow> string \<Rightarrow> string \<Rightarrow> media_page \<Rightarrow> media_page" where
  \<comment> \<open>the end of the \<open>try\<close>: \<open>saving\<close> stays set until the reload has been answered\<close>
  "create_finished env now key k s =
     load_jobs env now False Then_End_Saving (show_job k (show_notice (tr env key) Info s))"

definition create_answered :: "media_env \<Rightarrow> string \<Rightarrow> exn + media_job \<Rightarrow> media_page \<Rightarrow> media_page" where
  "create_answered env now r s =
     (case r of
        Inl e \<Rightarrow> (show_notice (media_error e) Error_Tone s)\<lparr>saving := False\<rparr>
      | Inr j \<Rightarrow>
          if auto_enqueue env then send (Call_Enqueue_Created (mj_id j)) s
          else create_finished env now ''mediaJobCreated'' (mj_id j) s)"

definition enqueue_created_answered ::
  "media_env \<Rightarrow> string \<Rightarrow> string \<Rightarrow> exn + enqueue_response \<Rightarrow> media_page \<Rightarrow> media_page" where
  "enqueue_created_answered env now k r s =
     (case r of
        Inr _ \<Rightarrow> create_finished env now ''mediaJobCreatedAndEnqueued'' k s
      | Inl e \<Rightarrow>
          load_jobs env now False Then_End_Saving
            (show_job k
              (show_notice
                (replace_first ''{{reason}}'' (media_error e) (tr env ''mediaJobCreatedQueueFailed''))
                Error_Tone s)))"

section \<open>Actions on a job\<close>

definition action_notice_key :: "job_action \<Rightarrow> string" where
  "action_notice_key a =
     (case a of
        Job_Cancel \<Rightarrow> ''mediaJobCanceled''
      | Job_Enqueue \<Rightarrow> ''mediaJobEnqueued''
      | Job_Enqueue_Poll \<Rightarrow> ''mediaPollEnqueued''
      | Job_Poll \<Rightarrow> ''mediaJobPolled''
      | Job_Retry \<Rightarrow> ''mediaJobRetried''
      | Job_Run \<Rightarrow> ''mediaJobRun'')"

definition apply_transition :: "media_env \<Rightarrow> clock \<Rightarrow> media_job \<Rightarrow> job_action \<Rightarrow> media_page \<Rightarrow> media_page" where
  "apply_transition env c j a s =
     (let updated = transition_job c a j in
      (show_notice (tr env (action_notice_key a)) Info
        (s\<lparr>jobs := map (\<lambda>x. if mj_id x = mj_id j then updated else x) (jobs s),
           selected_job_id := Some (mj_id updated), last_jobs_refresh := Some (iso_now c)\<rparr>))
        \<lparr>action_job_id := None\<rparr>)"

definition page_job_action :: "media_env \<Rightarrow> clock \<Rightarrow> job_action \<Rightarrow> media_job \<Rightarrow> media_page \<Rightarrow> media_page" where
  \<comment> \<open>\<open>enqueueJob\<close>, \<open>runJob\<close>, \<open>retryJob\<close>, \<open>pollJob\<close>, \<open>enqueuePollJob\<close>, \<open>cancelJob\<close>\<close>
  "page_job_action env c a j s =
     (if prototype env then apply_transition env c j a s
      else send (Call_Action a (mj_id j)) (clear_notice (s\<lparr>action_job_id := Some (mj_id j)\<rparr>)))"

datatype action_result = Result_Job media_job | Result_Enqueue enqueue_response

definition queue_reused_notice :: "media_env \<Rightarrow> string \<Rightarrow> string \<Rightarrow> string" where
  "queue_reused_notice env key task = replace_first ''{{taskId}}'' task (tr env key)"

definition action_succeeded :: "media_env \<Rightarrow> job_action \<Rightarrow> action_result \<Rightarrow> media_page \<Rightarrow> media_page" where
  "action_succeeded env a r s =
     (case r of
        Result_Enqueue q \<Rightarrow>
          show_notice
            (if eq_queued q then tr env (action_notice_key a)
             else queue_reused_notice env
                    (if a = Job_Enqueue then ''mediaJobEnqueueReused'' else ''mediaPollEnqueueReused'')
                    (eq_task_id q)) Info s
      | Result_Job j \<Rightarrow>
          show_notice (tr env (action_notice_key a)) Info (s\<lparr>selected_job_id := Some (mj_id j)\<rparr>))"

definition action_answered ::
  "media_env \<Rightarrow> string \<Rightarrow> job_action \<Rightarrow> exn + action_result \<Rightarrow> media_page \<Rightarrow> media_page" where
  "action_answered env now a r s =
     (case r of
        Inr x \<Rightarrow> load_jobs env now False Then_End_Action (action_succeeded env a x s)
      | Inl e \<Rightarrow> (show_notice (media_error e) Error_Tone s)\<lparr>action_job_id := None\<rparr>)"

definition pollable :: "media_job \<Rightarrow> bool" where
  "pollable j \<longleftrightarrow> mj_status j = Running \<and> js_set (mj_external_job_id j) \<noteq> None"

definition batch_notice :: "media_env \<Rightarrow> int \<Rightarrow> int \<Rightarrow> int \<Rightarrow> string" where
  "batch_notice env queued skipped failed =
     replace_first ''{{failed}}'' (int_str failed)
       (replace_first ''{{skipped}}'' (int_str skipped)
         (replace_first ''{{queued}}'' (int_str queued) (tr env ''mediaBatchPollEnqueued'')))"

definition enqueue_running_polls :: "media_env \<Rightarrow> clock \<Rightarrow> media_page \<Rightarrow> media_page" where
  \<comment> \<open>\<open>queued\<close> is read before React runs the queued update of the list that counts, so it is 0\<close>
  "enqueue_running_polls env c s0 =
     (let s = clear_notice (s0\<lparr>action_job_id := Some ''batch-poll''\<rparr>) in
      if prototype env then
        (show_notice (batch_notice env 0 0 0) Info
          (s\<lparr>jobs := map (\<lambda>j. if pollable j then transition_job c Job_Enqueue_Poll j else j) (jobs s),
             last_jobs_refresh := Some (iso_now c)\<rparr>))\<lparr>action_job_id := None\<rparr>
      else send Call_Batch s)"

definition batch_answered :: "media_env \<Rightarrow> string \<Rightarrow> exn + poll_batch_response \<Rightarrow> media_page \<Rightarrow> media_page" where
  "batch_answered env now r s =
     (case r of
        Inr b \<Rightarrow>
          load_jobs env now False Then_End_Action
            (show_notice (batch_notice env (pb_queued b) (pb_skipped b) (pb_failed b)) Info s)
      | Inl e \<Rightarrow> (show_notice (media_error e) Error_Tone s)\<lparr>action_job_id := None\<rparr>)"

section \<open>Events\<close>

datatype media_reply =
    Reply_Models "exn + media_model list"
  | Reply_Jobs "exn + media_job list"
  | Reply_Events "exn + media_event list"
  | Reply_Plan "exn + media_plan"
  | Reply_Create "exn + media_job"
  | Reply_Enqueue "exn + enqueue_response"
  | Reply_Action "exn + action_result"
  | Reply_Batch "exn + poll_batch_response"

definition answer_call :: "media_env \<Rightarrow> string \<Rightarrow> media_call \<Rightarrow> media_reply \<Rightarrow> media_page \<Rightarrow> media_page option" where
  \<comment> \<open>\<open>None\<close>: not an answer of this request\<close>
  "answer_call env now c r s =
     (case (c, r) of
        (Call_Models, Reply_Models x) \<Rightarrow> Some (models_answered x s)
      | (Call_Jobs silent k, Reply_Jobs x) \<Rightarrow> Some (jobs_answered now silent k x s)
      | (Call_Events run, Reply_Events x) \<Rightarrow> Some (events_answered run x s)
      | (Call_Plan, Reply_Plan x) \<Rightarrow> Some (plan_answered x s)
      | (Call_Create, Reply_Create x) \<Rightarrow> Some (create_answered env now x s)
      | (Call_Enqueue_Created k, Reply_Enqueue x) \<Rightarrow> Some (enqueue_created_answered env now k x s)
      | (Call_Action a k, Reply_Action x) \<Rightarrow> Some (action_answered env now a x s)
      | (Call_Batch, Reply_Batch x) \<Rightarrow> Some (batch_answered env now x s)
      | _ \<Rightarrow> None)"

definition drop_call :: "nat \<Rightarrow> media_page \<Rightarrow> media_page" where
  "drop_call i s = s\<lparr>calls := take i (calls s) @ drop (Suc i) (calls s)\<rparr>"

definition settle_call :: "media_env \<Rightarrow> string \<Rightarrow> nat \<Rightarrow> media_reply \<Rightarrow> media_page \<Rightarrow> media_page" where
  "settle_call env now i r s =
     (if i < length (calls s)
      then coalesce (answer_call env now (calls s ! i) r (drop_call i s)) s else s)"

definition allowed :: "job_action \<Rightarrow> media_job \<Rightarrow> bool" where
  \<comment> \<open>\<open>runnable\<close>, \<open>pollable\<close> and \<open>retryable\<close> of \<open>MediaJobsTable\<close>\<close>
  "allowed a j \<longleftrightarrow>
     (case a of
        Job_Retry \<Rightarrow> mj_status j = Job_Failed \<or> mj_status j = Canceled
      | Job_Poll \<Rightarrow> pollable j
      | Job_Enqueue_Poll \<Rightarrow> pollable j
      | _ \<Rightarrow> mj_status j = Queued \<or> mj_status j = Running)"

definition action_enabled :: "job_action \<Rightarrow> media_job \<Rightarrow> media_page \<Rightarrow> bool" where
  "action_enabled a j s \<longleftrightarrow> allowed a j \<and> action_job_id s \<noteq> Some (mj_id j)"

datatype media_input =
    Refresh string
  | Load_Models
  | Load_Jobs string
  | Update_Form media_form
  | Preview
  | Preview_And_Show
  | Create clock clock
  | Act clock job_action string
  | Batch clock
  | Select string
  | Show_Tab page_tab
  | Show_Step compose_step
  | Show_Jobs_Tab jobs_tab
  | Poll_Tick string
  | Select_Effect
  | Events_Effect
  | Interval_Effect
  | Answer string nat media_reply

definition media_step :: "media_env \<Rightarrow> media_input \<Rightarrow> media_page \<Rightarrow> media_page" where
  "media_step env i s =
     (case i of
        Refresh now \<Rightarrow> refresh_all env now s
      | Load_Models \<Rightarrow> load_models env s
      | Load_Jobs now \<Rightarrow> load_jobs env now False Then_Nothing s
      | Update_Form f \<Rightarrow> update_form f s
      | Preview \<Rightarrow> preview_plan env s
      | Preview_And_Show \<Rightarrow> if planning s then s else preview_plan_and_show env s
      | Create c c2 \<Rightarrow> if saving s then s else create_job env c c2 s
      | Act c a k \<Rightarrow>
          (case find_row mj_id k (jobs s) of
             Some j \<Rightarrow> if action_enabled a j s then page_job_action env c a j s else s
           | None \<Rightarrow> s)
      | Batch c \<Rightarrow>
          if list_ex pollable (jobs s) \<and> action_job_id s \<noteq> Some ''batch-poll''
          then enqueue_running_polls env c s else s
      | Select k \<Rightarrow> s\<lparr>selected_job_id := Some k, active_jobs_tab := Jobs_Details\<rparr>
      | Show_Tab tb \<Rightarrow> s\<lparr>active_tab := tb\<rparr>
      | Show_Step st \<Rightarrow> s\<lparr>compose_at := st\<rparr>
      | Show_Jobs_Tab tb \<Rightarrow> s\<lparr>active_jobs_tab := tb\<rparr>
      | Poll_Tick now \<Rightarrow> poll_tick env now s
      | Select_Effect \<Rightarrow> select_effect s
      | Events_Effect \<Rightarrow> events_effect env s
      | Interval_Effect \<Rightarrow> interval_effect env s
      | Answer now n r \<Rightarrow> settle_call env now n r s)"

section \<open>Busy marks\<close>

text \<open>The requests that clear a mark: the creation chain, plans, action chains, the current timer.\<close>

fun creates :: "media_call \<Rightarrow> bool" where
  "creates Call_Create = True"
| "creates (Call_Enqueue_Created _) = True"
| "creates (Call_Jobs _ k) = (k = Then_End_Saving)"
| "creates _ = False"

fun acts :: "media_call \<Rightarrow> bool" where
  "acts (Call_Action _ _) = True"
| "acts Call_Batch = True"
| "acts (Call_Jobs _ k) = (k = Then_End_Action)"
| "acts _ = False"

fun polls :: "nat \<Rightarrow> media_call \<Rightarrow> bool" where
  "polls n (Call_Jobs _ (Then_Poll_Done r)) = (r = n)"
| "polls n _ = False"

fun poll_bound :: "nat \<Rightarrow> media_call \<Rightarrow> bool" where
  "poll_bound n (Call_Jobs _ (Then_Poll_Done r)) = (r \<le> n)"
| "poll_bound n _ = True"

definition in_flight :: "(media_call \<Rightarrow> bool) \<Rightarrow> media_page \<Rightarrow> nat" where
  "in_flight P s = length (filter P (calls s))"

definition busy_inv :: "media_page \<Rightarrow> bool" where
  "busy_inv s \<longleftrightarrow>
     in_flight creates s = (if saving s then 1 else 0) \<and>
     (planning s \<longrightarrow> 0 < in_flight (\<lambda>c. c = Call_Plan) s) \<and>
     (action_job_id s \<noteq> None \<longrightarrow> 0 < in_flight acts s) \<and>
     in_flight (polls (poll_run s)) s = (if poll_in_flight s then 1 else 0) \<and>
     list_all (poll_bound (poll_run s)) (calls s)"

lemma length_filter_drop_nth:
  assumes "i < length xs"
  shows "length (filter P xs) = length (filter P (take i xs @ drop (Suc i) xs)) + (if P (xs ! i) then 1 else 0)"
  by (subst (1) id_take_nth_drop [OF assms]) simp

lemma in_flight_drop:
  "i < length (calls s) \<Longrightarrow>
   in_flight P s = in_flight P (drop_call i s) + (if P (calls s ! i) then 1 else 0)"
  unfolding in_flight_def drop_call_def by (simp add: length_filter_drop_nth)

lemma drop_call_frame [simp]:
  "saving (drop_call i s) = saving s" "planning (drop_call i s) = planning s"
  "action_job_id (drop_call i s) = action_job_id s" "poll_run (drop_call i s) = poll_run s"
  "poll_in_flight (drop_call i s) = poll_in_flight s"
  by (simp_all add: drop_call_def)

lemma list_all_drop_call: "list_all P (calls s) \<Longrightarrow> list_all P (calls (drop_call i s))"
  by (auto simp: drop_call_def list_all_iff dest: in_set_takeD in_set_dropD)

lemma fresh_poll: "list_all (poll_bound n) cs \<Longrightarrow> filter (polls (Suc n)) cs = []"
  by (induction cs) (auto elim: poll_bound.elims)

lemma poll_bound_Suc: "poll_bound n c \<Longrightarrow> poll_bound (Suc n) c"
  by (cases "(n, c)" rule: poll_bound.cases) auto

lemmas media_ops =
  load_models_def load_jobs_def refresh_all_def select_effect_def events_effect_def update_form_def
  preview_plan_def preview_plan_and_show_def create_job_def page_job_action_def apply_transition_def
  enqueue_running_polls_def show_job_def show_notice_def clear_notice_def jobs_continue_def send_def
  interval_effect_def poll_tick_def

lemmas media_answers =
  models_answered_def jobs_answered_def events_answered_def plan_answered_def create_answered_def
  create_finished_def enqueue_created_answered_def action_answered_def action_succeeded_def
  batch_answered_def

lemmas media_splits = option.splits sum.splits list.splits jobs_then.splits action_result.splits

lemma busy_cong:
  "saving s' = saving s \<Longrightarrow> planning s' = planning s \<Longrightarrow> action_job_id s' = action_job_id s \<Longrightarrow>
   poll_run s' = poll_run s \<Longrightarrow> poll_in_flight s' = poll_in_flight s \<Longrightarrow> calls s' = calls s \<Longrightarrow>
   busy_inv s' = busy_inv s"
  by (simp add: busy_inv_def in_flight_def)

lemma busy_view:
  "busy_inv (s\<lparr>selected_job_id := k\<rparr>) = busy_inv s" "busy_inv (s\<lparr>active_tab := tb\<rparr>) = busy_inv s"
  "busy_inv (s\<lparr>compose_at := st\<rparr>) = busy_inv s" "busy_inv (s\<lparr>active_jobs_tab := jt\<rparr>) = busy_inv s"
  "busy_inv (s\<lparr>models_loading := b\<rparr>) = busy_inv s" "busy_inv (s\<lparr>models_error := e\<rparr>) = busy_inv s"
  "busy_inv (s\<lparr>models := ms\<rparr>) = busy_inv s" "busy_inv (s\<lparr>jobs := js\<rparr>) = busy_inv s"
  "busy_inv (s\<lparr>jobs_loading := b\<rparr>) = busy_inv s" "busy_inv (s\<lparr>jobs_error := e\<rparr>) = busy_inv s"
  "busy_inv (s\<lparr>last_jobs_refresh := n\<rparr>) = busy_inv s" "busy_inv (s\<lparr>events_run := r\<rparr>) = busy_inv s"
  "busy_inv (s\<lparr>job_events := evs\<rparr>) = busy_inv s" "busy_inv (s\<lparr>job_events_error := e\<rparr>) = busy_inv s"
  "busy_inv (s\<lparr>job_events_loading := b\<rparr>) = busy_inv s" "busy_inv (s\<lparr>form := fm\<rparr>) = busy_inv s"
  "busy_inv (s\<lparr>plan := p\<rparr>) = busy_inv s" "busy_inv (s\<lparr>plan_error := e\<rparr>) = busy_inv s"
  by (rule busy_cong; simp)+

lemma in_flight_send: "in_flight P (send c s) = in_flight P s + (if P c then 1 else 0)"
  by (simp add: in_flight_def send_def)

lemma send_frame:
  "saving (send c s) = saving s" "planning (send c s) = planning s"
  "action_job_id (send c s) = action_job_id s" "poll_run (send c s) = poll_run s"
  "poll_in_flight (send c s) = poll_in_flight s" "calls (send c s) = calls s @ [c]"
  by (simp_all add: send_def)

lemma busy_send:
  "\<not> creates c \<Longrightarrow> \<not> polls (poll_run s) c \<Longrightarrow> poll_bound (poll_run s) c \<Longrightarrow> busy_inv s \<Longrightarrow> busy_inv (send c s)"
  by (simp add: busy_inv_def in_flight_send send_frame)

lemma busy_step_ops:
  assumes "busy_inv s"
  shows "busy_inv (load_models env s)" "busy_inv (load_jobs env now False Then_Nothing s)"
    "busy_inv (update_form f s)" "busy_inv (preview_plan env s)" "busy_inv (preview_plan_and_show env s)"
    "\<not> saving s \<Longrightarrow> busy_inv (create_job env c c2 s)" "busy_inv (page_job_action env c a j s)"
    "busy_inv (enqueue_running_polls env c s)" "busy_inv (select_effect s)" "busy_inv (events_effect env s)"
    "busy_inv (poll_tick env now s)"
proof -
  from assms show "busy_inv (load_models env s)" by (simp add: load_models_def busy_view busy_send Let_def)
  from assms show "busy_inv (load_jobs env now False Then_Nothing s)" by (simp add: load_jobs_def jobs_continue_def busy_view busy_send Let_def)
  from assms show "busy_inv (update_form f s)" by (simp add: update_form_def busy_view)
  from assms show "busy_inv (preview_plan env s)" by (auto simp: busy_inv_def in_flight_def Let_def media_ops split: option.splits)
  from assms show "busy_inv (preview_plan_and_show env s)" by (auto simp: busy_inv_def in_flight_def Let_def media_ops split: option.splits)
  from assms show "\<not> saving s \<Longrightarrow> busy_inv (create_job env c c2 s)" by (auto simp: busy_inv_def in_flight_def Let_def media_ops split: option.splits)
  from assms show "busy_inv (page_job_action env c a j s)" by (auto simp: busy_inv_def in_flight_def Let_def media_ops split: option.splits)
  from assms show "busy_inv (enqueue_running_polls env c s)" by (auto simp: busy_inv_def in_flight_def Let_def media_ops split: option.splits)
  from assms show "busy_inv (select_effect s)" by (simp add: select_effect_def busy_view split: list.splits)
  from assms show "busy_inv (events_effect env s)" by (simp add: events_effect_def busy_view busy_send Let_def split: option.splits)
  from assms show "busy_inv (poll_tick env now s)" by (auto simp: busy_inv_def in_flight_def Let_def media_ops split: option.splits)
qed

lemma busy_interval: "busy_inv s \<Longrightarrow> busy_inv (interval_effect env s)"
  using fresh_poll [of "poll_run s" "calls s"] 
  by (auto simp: busy_inv_def in_flight_def interval_effect_def Let_def list_all_iff poll_bound_Suc)

definition lacks :: "media_call \<Rightarrow> media_page \<Rightarrow> bool" where
  \<comment> \<open>the marks hold when \<open>c\<close> is counted among the requests in flight\<close>
  "lacks c s \<longleftrightarrow>
     in_flight creates s + (if creates c then 1 else 0) = (if saving s then 1 else 0) \<and>
     (planning s \<longrightarrow> c = Call_Plan \<or> 0 < in_flight (\<lambda>c. c = Call_Plan) s) \<and>
     (action_job_id s \<noteq> None \<longrightarrow> acts c \<or> 0 < in_flight acts s) \<and>
     in_flight (polls (poll_run s)) s + (if polls (poll_run s) c then 1 else 0) =
       (if poll_in_flight s then 1 else 0) \<and>
     list_all (poll_bound (poll_run s)) (calls s)"

lemma lacks_drop: "busy_inv s \<Longrightarrow> i < length (calls s) \<Longrightarrow> lacks (calls s ! i) (drop_call i s)"
  using in_flight_drop [of i s creates] in_flight_drop [of i s "polls (poll_run s)"]
    in_flight_drop [of i s acts] in_flight_drop [of i s "\<lambda>c. c = Call_Plan"]
  by (auto simp: busy_inv_def lacks_def list_all_drop_call split: if_splits)

lemma lacks_upd:
  "lacks c (s\<lparr>jobs := js\<rparr>) = lacks c s" "lacks c (s\<lparr>jobs_loading := b\<rparr>) = lacks c s"
  "lacks c (s\<lparr>jobs_error := e\<rparr>) = lacks c s" "lacks c (s\<lparr>last_jobs_refresh := t\<rparr>) = lacks c s"
  by (simp_all add: lacks_def in_flight_def)

lemma lacks_continue: "lacks (Call_Jobs b k) s \<Longrightarrow> busy_inv (jobs_continue k s)"
  by (cases k) (auto simp: lacks_def busy_inv_def in_flight_def jobs_continue_def split: if_splits)

lemma lacks_send: "lacks c s \<Longrightarrow> poll_bound (poll_run s) c \<Longrightarrow> busy_inv (send c s)"
  unfolding lacks_def busy_inv_def in_flight_send send_frame list_all_append by force

lemma lacks_reload:
  "lacks (Call_Jobs False k) s \<Longrightarrow> poll_bound (poll_run s) (Call_Jobs False k) \<Longrightarrow>
   busy_inv (load_jobs env now False k s)"
  by (simp add: load_jobs_def Let_def lacks_upd lacks_continue lacks_send)

lemma lacks_same:
  "lacks (Call_Action a k) s = lacks (Call_Jobs False Then_End_Action) s"
  "lacks Call_Batch s = lacks (Call_Jobs False Then_End_Action) s"
  "lacks Call_Create s = lacks (Call_Jobs False Then_End_Saving) s"
  "lacks (Call_Enqueue_Created k) s = lacks (Call_Jobs False Then_End_Saving) s"
  by (simp_all add: lacks_def)

lemma action_succeeded_frame:
  "lacks c (action_succeeded env a x s) = lacks c s"
  by (cases x) (simp_all add: action_succeeded_def show_notice_def lacks_def in_flight_def)

lemma show_frame:
  "lacks c (show_job k s) = lacks c s" "lacks c (show_notice m tn s) = lacks c s"
  by (simp_all add: show_job_def show_notice_def lacks_def in_flight_def)

lemma lacks_stop:
  "lacks (Call_Jobs False Then_End_Action) s \<Longrightarrow> busy_inv (s\<lparr>action_job_id := None\<rparr>)"
  "lacks (Call_Jobs False Then_End_Saving) s \<Longrightarrow> busy_inv (s\<lparr>saving := False\<rparr>)"
  "lacks (Call_Jobs False Then_End_Saving) s \<Longrightarrow> busy_inv (send (Call_Enqueue_Created k) s)"
  by (auto simp: lacks_def busy_inv_def in_flight_def send_def split: if_splits)

lemma lacks_other:
  "\<not> creates c \<Longrightarrow> c \<noteq> Call_Plan \<Longrightarrow> \<not> acts c \<Longrightarrow> \<not> polls (poll_run s) c \<Longrightarrow> lacks c s = busy_inv s"
  by (simp add: lacks_def busy_inv_def)

lemma lacks_planned:
  "lacks Call_Plan s \<Longrightarrow> busy_inv (s\<lparr>plan := p, planning := False\<rparr>)"
  "lacks Call_Plan s \<Longrightarrow> busy_inv (s\<lparr>plan_error := e, planning := False\<rparr>)"
  by (simp_all add: lacks_def busy_inv_def in_flight_def)

lemma lacks_answered:
  assumes "lacks c s" "answer_call env now c r s = Some s'"
  shows "busy_inv s'"
proof -
  have "\<And>x. lacks Call_Models s \<Longrightarrow> busy_inv (models_answered x s)"
    by (simp add: models_answered_def lacks_other busy_view split: sum.splits)
  moreover have "\<And>x b k. lacks (Call_Jobs b k) s \<Longrightarrow> busy_inv (jobs_answered now b k x s)"
    by (auto simp: jobs_answered_def Let_def lacks_upd split: sum.splits intro!: lacks_continue)
  moreover have "\<And>x k. lacks (Call_Events k) s \<Longrightarrow> busy_inv (events_answered k x s)"
    by (simp add: events_answered_def lacks_other busy_view split: sum.splits)
  moreover have "\<And>x. lacks Call_Plan s \<Longrightarrow> busy_inv (plan_answered x s)"
    by (auto simp: plan_answered_def intro: lacks_planned split: sum.splits)
  moreover have "\<And>x. lacks Call_Create s \<Longrightarrow> busy_inv (create_answered env now x s)"
    by (auto simp: create_answered_def create_finished_def lacks_same show_frame split: sum.splits
        intro!: lacks_stop lacks_reload)
  moreover have "\<And>x k. lacks (Call_Enqueue_Created k) s \<Longrightarrow> busy_inv (enqueue_created_answered env now k x s)"
    by (auto simp: enqueue_created_answered_def create_finished_def lacks_same show_frame split: sum.splits
        intro!: lacks_reload)
  moreover have "\<And>x a k. lacks (Call_Action a k) s \<Longrightarrow> busy_inv (action_answered env now a x s)"
    by (auto simp: action_answered_def lacks_same show_frame action_succeeded_frame split: sum.splits
        intro!: lacks_stop lacks_reload)
  moreover have "\<And>x. lacks Call_Batch s \<Longrightarrow> busy_inv (batch_answered env now x s)"
    by (auto simp: batch_answered_def lacks_same show_frame split: sum.splits intro!: lacks_stop lacks_reload)
  ultimately show ?thesis
    using assms by (cases c; cases r) (auto simp: answer_call_def)
qed

lemma busy_settle: "busy_inv s \<Longrightarrow> busy_inv (settle_call env now i r s)"
  using lacks_answered [OF lacks_drop, of s i env now r]
  by (cases "answer_call env now (calls s ! i) r (drop_call i s)") (auto simp: settle_call_def)

lemma busy_step: "busy_inv s \<Longrightarrow> busy_inv (media_step env e s)"
  by (cases e)
    (simp_all add: media_step_def refresh_all_def busy_view busy_step_ops busy_settle busy_interval
      split: option.split)

interpretation media: event_system "\<lambda>s. s = media_init" "media_step env" busy_inv for env
  by unfold_locales (auto simp: busy_step, simp add: busy_inv_def media_init_def in_flight_def)

section \<open>Jobs of the prototype mode\<close>

definition job_ok :: "media_job \<Rightarrow> bool" where
  "job_ok j \<longleftrightarrow>
     (case mj_status j of
        Queued \<Rightarrow> mj_outputs j = [] \<and> mj_completed_at j = None
      | Running \<Rightarrow> mj_outputs j = [] \<and> mj_completed_at j = None \<and> mj_started_at j \<noteq> None \<and>
                   mj_external_job_id j \<noteq> None
      | Succeeded \<Rightarrow> mj_outputs j = outputs_for_job j \<and> mj_completed_at j \<noteq> None \<and>
                     mj_started_at j \<noteq> None \<and> mj_external_job_id j \<noteq> None
      | Canceled \<Rightarrow> mj_outputs j = [] \<and> mj_completed_at j \<noteq> None
      | Job_Failed \<Rightarrow> False)"

lemma transition_job_ok: "job_ok j \<Longrightarrow> allowed a j \<Longrightarrow> job_ok (transition_job c a j)"
  by (cases a; cases "mj_status j")
    (auto simp: job_ok_def transition_job_def allowed_def Let_def outputs_for_job_def pollable_def)

lemma transition_job_id [simp]: "mj_id (transition_job c a j) = mj_id j"
  by (cases a) (simp_all add: transition_job_def Let_def)

lemma proto_job_ok: "job_ok (proto_job c r ms)"
  by (simp add: job_ok_def proto_job_def Let_def)

lemma allowed_new: "allowed Job_Enqueue (proto_job c r ms)"
  by (simp add: allowed_def proto_job_def Let_def)

lemma proto_media_jobs_ok: "list_all job_ok (proto_media_jobs t)" "distinct (map mj_id (proto_media_jobs t))"
  by (simp_all add: proto_media_jobs_def job_ok_def)

lemma keys_replaced: "key u = k \<Longrightarrow> map key (map (\<lambda>x. if key x = k then u else x) xs) = map key xs"
  by (induction xs) auto

definition proto_inv :: "media_page \<Rightarrow> bool" where
  "proto_inv s \<longleftrightarrow>
     list_all job_ok (jobs s) \<and> distinct (map mj_id (jobs s)) \<and> calls s = [] \<and> \<not> saving s \<and>
     \<not> planning s \<and> action_job_id s = None"

definition fresh_input :: "media_page \<Rightarrow> media_input \<Rightarrow> bool" where
  \<comment> \<open>the clock gives a new job an identifier no job of the list has\<close>
  "fresh_input s i \<longleftrightarrow>
     (case i of Create c _ \<Rightarrow> ''proto-media-job-'' @ nat_str (first_ms c) \<notin> mj_id ` set (jobs s) | _ \<Rightarrow> True)"

lemma proto_inv_load: "prototype env \<Longrightarrow> proto_inv s \<Longrightarrow> proto_inv (load_jobs env now b Then_Nothing s)"
  using proto_media_jobs_ok [of "seed_time env"]
  by (simp add: proto_inv_def load_jobs_def jobs_continue_def Let_def)

lemma proto_inv_create:
  assumes "prototype env" "proto_inv s" "fresh_input s (Create c c2)"
  shows "proto_inv (create_job env c c2 s)"
proof -
  have "mj_id (proto_job c r ms) = ''proto-media-job-'' @ nat_str (first_ms c)" for r ms
    by (simp add: proto_job_def Let_def)
  with assms show ?thesis
    by (simp add: proto_inv_def create_job_def clear_notice_def show_job_def show_notice_def Let_def
        proto_job_ok transition_job_ok allowed_new fresh_input_def)
qed

lemma proto_inv_act:
  assumes "prototype env" "proto_inv s" "find_row mj_id k (jobs s) = Some j" "allowed a j"
  shows "proto_inv (page_job_action env c a j s)"
proof -
  from find_row_Some [OF assms(3)] assms(2) have "job_ok j" by (auto simp: proto_inv_def list_all_iff)
  with assms show ?thesis
    by (auto simp: proto_inv_def page_job_action_def apply_transition_def show_notice_def Let_def
        list_all_iff transition_job_ok keys_replaced simp del: map_map)
qed

lemma proto_inv_batch: "prototype env \<Longrightarrow> proto_inv s \<Longrightarrow> proto_inv (enqueue_running_polls env c s)"
proof -
  assume *: "prototype env" "proto_inv s"
  have "allowed Job_Enqueue_Poll j" if "pollable j" for j using that by (simp add: allowed_def)
  moreover have "map mj_id (map (\<lambda>j. if pollable j then transition_job c Job_Enqueue_Poll j else j) js) =
      map mj_id js" for js by (induction js) auto
  ultimately show ?thesis using *
    by (auto simp: proto_inv_def enqueue_running_polls_def clear_notice_def show_notice_def Let_def
        list_all_iff transition_job_ok simp del: map_map)
qed

lemma proto_inv_step:
  assumes "prototype env" "proto_inv s" "fresh_input s i"
  shows "proto_inv (media_step env i s)"
  using assms proto_inv_load [of env "load_models env s"]
  by (cases i)
    (auto simp: media_step_def refresh_all_def proto_inv_load proto_inv_create proto_inv_act proto_inv_batch
      action_enabled_def settle_call_def split: option.split,
     simp_all add: proto_inv_def media_ops settle_call_def proto_media_jobs_ok Let_def split: list.split option.split)

lemma job_ok_cases:
  "job_ok j \<Longrightarrow>
     mj_outputs j = (if mj_status j = Succeeded then outputs_for_job j else []) \<and>
     (mj_status j = Running \<longrightarrow> mj_started_at j \<noteq> None \<and> mj_external_job_id j \<noteq> None) \<and>
     (mj_completed_at j \<noteq> None \<longleftrightarrow> mj_status j = Succeeded \<or> mj_status j = Canceled) \<and>
     mj_status j \<noteq> Job_Failed"
  by (cases "mj_status j") (simp_all add: job_ok_def)

inductive media_reachable :: "media_env \<Rightarrow> media_page \<Rightarrow> bool" for env where
  start: "media_reachable env media_init"
| step: "media_reachable env s \<Longrightarrow> fresh_input s i \<Longrightarrow> media_reachable env (media_step env i s)"

inductive_cases media_reachableE: "media_reachable env s"

lemma reachable_proto_inv: "media_reachable env s \<Longrightarrow> prototype env \<Longrightarrow> proto_inv s"
proof (induction rule: media_reachable.induct)
  case start
  then show ?case by (simp add: proto_inv_def media_init_def)
qed (rule proto_inv_step)

text \<open>
  C21: In the prototype mode every job of the media page is consistent after every sequence of
  actions the page allows: a job has outputs exactly when it succeeded, and then they are its own;
  a running job has a start time and a provider job; a job has a completion time exactly when it
  succeeded or was cancelled; no job fails; identifiers are distinct.
\<close>

theorem prototype_jobs_consistent:
  assumes "media_reachable env s" "prototype env"
  shows "distinct (map mj_id (jobs s)) \<and>
         (\<forall>j\<in>set (jobs s).
           mj_outputs j = (if mj_status j = Succeeded then outputs_for_job j else []) \<and>
           (mj_status j = Running \<longrightarrow> mj_started_at j \<noteq> None \<and> mj_external_job_id j \<noteq> None) \<and>
           (mj_completed_at j \<noteq> None \<longleftrightarrow> mj_status j = Succeeded \<or> mj_status j = Canceled) \<and>
           mj_status j \<noteq> Job_Failed)"
  using reachable_proto_inv [OF assms] job_ok_cases unfolding proto_inv_def list_all_iff by metis

definition demo_media_env :: media_env where
  "demo_media_env =
     \<lparr>auto_enqueue = True, prototype = True, tr = (\<lambda>k. k), seed_time = (\<lambda>_. ''2026-01-01T00:00:00.000Z'')\<rparr>"

definition demo_clock :: "nat \<Rightarrow> clock" where
  "demo_clock n = \<lparr>iso_now = ''2026-01-02T00:00:00.000Z'', first_ms = n, second_ms = n\<rparr>"

definition demo_media_page :: media_page where
  "demo_media_page =
     media_step demo_media_env (Act (demo_clock 7) Job_Run ''proto-media-job-1'')
       (media_step demo_media_env (Create (demo_clock 42) (demo_clock 43))
         (media_step demo_media_env (Load_Jobs ''now'') media_init))"

lemma demo_loaded:
  "media_step demo_media_env (Load_Jobs now) media_init =
   media_init\<lparr>jobs := proto_media_jobs (seed_time demo_media_env), last_jobs_refresh := Some now,
              jobs_loading := False\<rparr>"
  by (simp add: media_step_def load_jobs_def media_init_def demo_media_env_def jobs_continue_def Let_def)

lemma demo_media_reachable: "media_reachable demo_media_env demo_media_page"
proof -
  have "fresh_input (media_step demo_media_env (Load_Jobs ''now'') media_init)
          (Create (demo_clock 42) (demo_clock 43))"
    unfolding demo_loaded
    by (simp add: fresh_input_def demo_clock_def proto_media_jobs_def nat_str_def dec_str.simps digit_char_def)
  then show ?thesis
    unfolding demo_media_page_def
    by (intro media_reachable.step media_reachable.start) (simp_all add: fresh_input_def)
qed

theorem prototype_jobs_consistent_witness:
  "distinct (map mj_id (jobs demo_media_page)) \<and>
   list_all (\<lambda>j. mj_status j \<noteq> Job_Failed) (jobs demo_media_page)"
  using prototype_jobs_consistent [OF demo_media_reachable] by (simp add: demo_media_env_def list_all_iff)

section \<open>Busy marks on the page\<close>

text \<open>
  C22: For every order of clicks and answers, a creation is marked as saving exactly while its chain
  of requests is in flight, so there is at most one; and when every request has been answered no
  mark is left: nothing on the page stays disabled.
\<close>

theorem busy_marks_clear:
  assumes "s = fold (media_step env) es media_init"
  shows "length (filter creates (calls s)) = (if saving s then 1 else 0) \<and>
         (calls s = [] \<longrightarrow>
           \<not> saving s \<and> \<not> planning s \<and> action_job_id s = None \<and> \<not> poll_in_flight s)"
proof -
  have "busy_inv s" unfolding assms by (rule media.inv_reachable) simp
  then show ?thesis by (auto simp: busy_inv_def in_flight_def split: if_splits)
qed

definition server_media_env :: media_env where
  "server_media_env = demo_media_env\<lparr>auto_enqueue := False, prototype := False\<rparr>"

theorem busy_marks_clear_witness:
  "saving (fold (media_step server_media_env) [Create (demo_clock 1) (demo_clock 2)] media_init) \<and>
   length (filter creates (calls (fold (media_step server_media_env)
     [Create (demo_clock 1) (demo_clock 2)] media_init))) = 1"
proof -
  have "saving (fold (media_step server_media_env) [Create (demo_clock 1) (demo_clock 2)] media_init)"
    by (simp add: media_step_def create_job_def server_media_env_def demo_media_env_def media_init_def
        send_def clear_notice_def Let_def)
  with busy_marks_clear [OF refl, of server_media_env "[Create (demo_clock 1) (demo_clock 2)]"]
  show ?thesis by simp
qed

text \<open>
  The page has one busy mark for all jobs.  When an action is started on a second job while the
  first job's request is in flight, the first job's buttons are enabled again and the same request
  can be sent twice.
\<close>

theorem second_action_unlocks_first:
  fixes c1 c2 :: clock
  assumes "\<not> prototype env"
    and "find_row mj_id k1 (jobs s) = Some j1" "find_row mj_id k2 (jobs s) = Some j2" "k1 \<noteq> k2"
    and "action_enabled a1 j1 s" "action_enabled a2 j2 s"
    and "s2 = media_step env (Act c2 a2 k2) (media_step env (Act c1 a1 k1) s)"
  shows "Call_Action a1 k1 \<in> set (calls s2) \<and> action_enabled a1 j1 s2 \<and>
         length (filter ((=) (Call_Action a1 k1)) (calls (media_step env (Act c1 a1 k1) s2))) \<ge> 2"
proof -
  have ids: "mj_id j1 = k1" "mj_id j2 = k2"
    using find_row_Some [OF assms(2)] find_row_Some [OF assms(3)] by auto
  with assms(1-6) show ?thesis
    unfolding assms(7)
    by (simp add: media_step_def page_job_action_def send_def clear_notice_def action_enabled_def)
qed

theorem second_action_unlocks_first_witness:
  "\<exists>s2. action_enabled Job_Run (hd (proto_media_jobs (\<lambda>_. []))) s2 \<and>
        Call_Action Job_Run ''proto-media-job-1'' \<in> set (calls s2)"
proof -
  define s where "s = media_init\<lparr>jobs := proto_media_jobs (\<lambda>_. [])\<rparr>"
  have "find_row mj_id ''proto-media-job-1'' (jobs s) = Some (hd (proto_media_jobs (\<lambda>_. [])))"
    "find_row mj_id ''proto-media-job-2'' (jobs s) = Some (proto_media_jobs (\<lambda>_. []) ! 1)"
    "action_enabled Job_Run (hd (proto_media_jobs (\<lambda>_. []))) s"
    "action_enabled Job_Cancel (proto_media_jobs (\<lambda>_. []) ! 1) s"
    by (simp_all add: s_def proto_media_jobs_def find_row_def action_enabled_def allowed_def media_init_def)
  then show ?thesis
    using second_action_unlocks_first [of server_media_env "''proto-media-job-1''" s _ "''proto-media-job-2''"]
    by (simp add: server_media_env_def) blast
qed

end
