(* ===== verification/Resource_Hooks.thy ===== *)
theory Resource_Hooks
  imports Chat_Types Transitions
begin

text \<open>
  The data hooks of \<open>hooks/admin\<close>: every list the console shows is loaded by a hook that keeps an
  \<open>AsyncState\<close>, marks it as loading, and replaces it by the answer or the error.  Loads may overlap:
  the state keeps the requests in flight, and an answer names the load it belongs to.

  There are two kinds.  A \<open>plain\<close> hook applies every answer.  A \<open>latest\<close> hook carries a request
  number and drops the answers of earlier loads.  The first is what most hooks do, the second is
  \<open>useKnowledgeDocuments\<close>, \<open>useWorkbenchKnowledgeDocuments\<close> and \<open>useAuditLogs\<close>.  The abstract
  contract of a list is \<open>spec\<close>: what is shown is the answer of the last load.
\<close>

section \<open>The state of a hook\<close>

record ('q, 'a) resource =
  shown :: "'a async_state"
  waiting :: "(nat \<times> 'q) list" \<comment> \<open>loads in flight, with what they asked for\<close>
  latest :: nat \<comment> \<open>the number of the last load\<close>

definition loading_again :: "'a async_state \<Rightarrow> 'a async_state" where
  "loading_again a = a\<lparr>as_error := None, as_loading := True\<rparr>"

definition loaded :: "'a \<Rightarrow> 'a async_state" where
  "loaded d = \<lparr>as_data = Some d, as_error = None, as_loading = False\<rparr>"

definition load_failed :: "string \<Rightarrow> 'a async_state" where
  "load_failed m = \<lparr>as_data = None, as_error = Some m, as_loading = False\<rparr>"

definition resource_init :: "bool \<Rightarrow> ('q, 'a) resource" where
  "resource_init busy =
     \<lparr>shown = \<lparr>as_data = None, as_error = None, as_loading = busy\<rparr>, waiting = [], latest = 0\<rparr>"

definition settle :: "(string \<Rightarrow> string) \<Rightarrow> exn + 'a \<Rightarrow> 'a async_state" where
  "settle t r = (case r of Inr d \<Rightarrow> loaded d | Inl e \<Rightarrow> load_failed (error_to_message t e))"

definition ask :: "'q \<Rightarrow> ('q, 'a) resource \<Rightarrow> ('q, 'a) resource" where
  \<comment> \<open>\<open>load\<close> up to its request\<close>
  "ask q s =
     s\<lparr>latest := Suc (latest s), shown := loading_again (shown s),
       waiting := waiting s @ [(Suc (latest s), q)]\<rparr>"

definition show_now :: "'a async_state \<Rightarrow> ('q, 'a) resource \<Rightarrow> ('q, 'a) resource" where
  \<comment> \<open>\<open>load\<close> without a request: the prototype data, or nothing when the hook is disabled\<close>
  "show_now d s = s\<lparr>latest := Suc (latest s), shown := d\<rparr>"

definition drop_waiting :: "nat \<Rightarrow> ('q, 'a) resource \<Rightarrow> ('q, 'a) resource" where
  "drop_waiting n s = s\<lparr>waiting := filter (\<lambda>(i, _). i \<noteq> n) (waiting s)\<rparr>"

definition plain_answer :: "nat \<Rightarrow> 'a async_state \<Rightarrow> ('q, 'a) resource \<Rightarrow> ('q, 'a) resource" where
  "plain_answer n d s = (drop_waiting n s)\<lparr>shown := d\<rparr>"

definition latest_answer :: "nat \<Rightarrow> 'a async_state \<Rightarrow> ('q, 'a) resource \<Rightarrow> ('q, 'a) resource" where
  "latest_answer n d s =
     (if n = latest s then (drop_waiting n s)\<lparr>shown := d\<rparr> else drop_waiting n s)"

definition leave :: "('q, 'a) resource \<Rightarrow> ('q, 'a) resource" where
  \<comment> \<open>the clean-up of the effect of a \<open>latest\<close> hook\<close>
  "leave s = s\<lparr>latest := Suc (latest s)\<rparr>"

definition retried :: "(nat \<Rightarrow> exn + 'a) \<Rightarrow> exn + 'a" where \<comment> \<open>\<open>withRetry\<close> around the request\<close>
  "retried attempts = fst (with_retry attempts None None)"

section \<open>Events and the contract\<close>

datatype ('q, 'a) load_event =
    Ask 'q
  | Show_Now "'a async_state"
  | Settled nat "'a async_state"
  | Leave

definition in_waiting :: "nat \<Rightarrow> ('q, 'a) resource \<Rightarrow> bool" where
  "in_waiting n s \<longleftrightarrow> List.member (map fst (waiting s)) n"

definition plain_step :: "('q, 'a) load_event \<Rightarrow> ('q, 'a) resource \<Rightarrow> ('q, 'a) resource" where
  "plain_step e s =
     (case e of
        Ask q \<Rightarrow> ask q s
      | Show_Now d \<Rightarrow> show_now d s
      | Settled n d \<Rightarrow> if in_waiting n s then plain_answer n d s else s
      | Leave \<Rightarrow> s)"

definition latest_step :: "('q, 'a) load_event \<Rightarrow> ('q, 'a) resource \<Rightarrow> ('q, 'a) resource" where
  "latest_step e s =
     (case e of
        Ask q \<Rightarrow> ask q s
      | Show_Now d \<Rightarrow> show_now d s
      | Settled n d \<Rightarrow> if in_waiting n s then latest_answer n d s else s
      | Leave \<Rightarrow> leave s)"

datatype ('q, 'a) view = \<comment> \<open>what a list shows, seen from outside\<close>
    Idle
  | Waiting_For 'q nat
  | Showing "'a async_state"

definition spec_step :: "('q, 'a) load_event \<Rightarrow> nat \<times> ('q, 'a) view \<Rightarrow> nat \<times> ('q, 'a) view" where
  \<comment> \<open>only the last load counts; leaving abandons it\<close>
  "spec_step e v =
     (case e of
        Ask q \<Rightarrow> (Suc (fst v), Waiting_For q (Suc (fst v)))
      | Show_Now d \<Rightarrow> (Suc (fst v), Showing d)
      | Settled n d \<Rightarrow>
          (case snd v of
             Waiting_For q m \<Rightarrow> if n = m then (fst v, Showing d) else v
           | _ \<Rightarrow> v)
      | Leave \<Rightarrow> (Suc (fst v), case snd v of Waiting_For _ _ \<Rightarrow> Idle | w \<Rightarrow> w))"

definition view_of :: "('q, 'a) resource \<Rightarrow> nat \<times> ('q, 'a) view" where
  "view_of s =
     (latest s,
      case map_of (waiting s) (latest s) of
        Some q \<Rightarrow> Waiting_For q (latest s)
      | None \<Rightarrow> if as_loading (shown s) then Idle else Showing (shown s))"

definition resource_ok :: "('q, 'a) resource \<Rightarrow> bool" where
  "resource_ok s \<longleftrightarrow>
     (\<forall>(i, q)\<in>set (waiting s). i \<le> latest s) \<and> distinct (map fst (waiting s)) \<and>
     (map_of (waiting s) (latest s) \<noteq> None \<longrightarrow> as_loading (shown s))"

definition event_done :: "('q, 'a) load_event \<Rightarrow> bool" where
  \<comment> \<open>an answer ends the loading\<close>
  "event_done e \<longleftrightarrow>
     (case e of Show_Now d \<Rightarrow> \<not> as_loading d | Settled _ d \<Rightarrow> \<not> as_loading d | _ \<Rightarrow> True)"

lemma settle_done [simp]: "\<not> as_loading (settle t r)"
  by (cases r) (simp_all add: settle_def loaded_def load_failed_def)

section \<open>A guarded hook follows the contract\<close>

lemma map_of_dropped: "map_of (filter (\<lambda>(i, _). i \<noteq> n) xs) k = (if k = n then None else map_of xs k)"
  by (induction xs) auto

lemma map_of_sent: "k \<notin> fst ` set xs \<Longrightarrow> map_of (xs @ [(k, q)]) k = Some q"
  by (simp add: map_add_def map_of_eq_None_iff [THEN iffD2])

lemma waiting_frame [simp]:
  "latest (drop_waiting n s) = latest s" "shown (drop_waiting n s) = shown s"
  "waiting (drop_waiting n s) = filter (\<lambda>(i, _). i \<noteq> n) (waiting s)"
  by (simp_all add: drop_waiting_def)

lemma not_yet_asked: "resource_ok s \<Longrightarrow> Suc (latest s) \<notin> fst ` set (waiting s)"
  by (fastforce simp: resource_ok_def)

lemma none_waiting: "resource_ok s \<Longrightarrow> map_of (waiting s) (Suc (latest s)) = None"
  using not_yet_asked by (simp add: map_of_eq_None_iff)

lemma resource_ok_latest:
  assumes ok: "resource_ok s" and ev: "event_done e"
  shows "resource_ok (latest_step e s)"
proof (cases e)
  case (Ask q)
  with ok not_yet_asked [OF ok] show ?thesis
    by (auto simp: latest_step_def ask_def resource_ok_def loading_again_def)
next
  case (Show_Now d)
  with ok none_waiting [OF ok] show ?thesis
    by (auto simp: latest_step_def show_now_def resource_ok_def)
next
  case (Settled n d)
  have "distinct (map fst (filter (\<lambda>(i, _). i \<noteq> n) (waiting s)))"
    using ok by (induction "waiting s") (auto simp: resource_ok_def intro: distinct_map_filter)
  with Settled ok show ?thesis
    by (auto simp: latest_step_def latest_answer_def resource_ok_def map_of_dropped)
next
  case Leave
  with ok none_waiting [OF ok] show ?thesis
    by (auto simp: latest_step_def leave_def resource_ok_def)
qed

lemma latest_refines:
  assumes ok: "resource_ok s" and ev: "event_done e"
  shows "view_of (latest_step e s) = spec_step e (view_of s)"
proof (cases e)
  case (Ask q)
  with map_of_sent [OF not_yet_asked [OF ok]] show ?thesis
    by (simp add: latest_step_def ask_def view_of_def spec_step_def)
next
  case (Show_Now d)
  with ev none_waiting [OF ok] show ?thesis
    by (simp add: latest_step_def show_now_def view_of_def spec_step_def event_done_def)
next
  case Leave
  with ok none_waiting [OF ok] show ?thesis
    by (auto simp: latest_step_def leave_def view_of_def spec_step_def resource_ok_def split: option.splits)
next
  case (Settled n d)
  show ?thesis
  proof (cases "in_waiting n s")
    case True
    then have "n = latest s \<Longrightarrow> map_of (waiting s) (latest s) \<noteq> None"
      by (simp add: in_waiting_def  map_of_eq_None_iff)
    with True Settled ok ev show ?thesis
      by (auto simp: latest_step_def latest_answer_def view_of_def spec_step_def event_done_def
          map_of_dropped resource_ok_def split: option.splits)
  next
    case False
    then have "n = latest s \<Longrightarrow> map_of (waiting s) (latest s) = None"
      by (simp add: in_waiting_def  map_of_eq_None_iff)
    with False Settled show ?thesis
      by (auto simp: latest_step_def view_of_def spec_step_def split: option.splits)
  qed
qed

interpretation latest_hook: refinement view_of latest_step spec_step resource_ok event_done
  by unfold_locales (simp_all add: resource_ok_latest latest_refines)

lemma resource_ok_init [simp]: "resource_ok (resource_init b)"
  by (simp add: resource_ok_def resource_init_def)

lemma latest_run:
  "list_all event_done es \<Longrightarrow>
   view_of (fold latest_step es (resource_init b)) = fold spec_step es (view_of (resource_init b))"
  by (rule latest_hook.run_refines) simp_all

text \<open>A plain hook does so as long as no earlier load is answered after a later one.\<close>

lemma plain_as_latest:
  "(case e of Settled n d \<Rightarrow> n = latest s | Leave \<Rightarrow> False | _ \<Rightarrow> True) \<Longrightarrow> plain_step e s = latest_step e s"
  by (cases e) (simp_all add: plain_step_def latest_step_def plain_answer_def latest_answer_def)

lemma plain_reversed:
  "fold plain_step [Ask q1, Ask q2, Settled 2 d2, Settled 1 d1] (resource_init b) =
     \<lparr>shown = d1, waiting = [], latest = 2\<rparr>"
  by (simp add: plain_step_def ask_def resource_init_def in_waiting_def plain_answer_def drop_waiting_def)

lemma spec_reversed:
  "fold spec_step [Ask q1, Ask q2, Settled 2 d2, Settled 1 d1] (0, v) = (2, Showing d2)"
  by (simp add: spec_step_def numeral_2_eq_2)

end
