(* ===== verification/Action_Hooks.thy ===== *)
theory Action_Hooks
  imports Retry
begin

text \<open>
  The action hooks of \<open>hooks/admin\<close>: a click marks itself as busy and clears the message and the
  error; the answer of the request sets one of them (and shows a toast where the hook has them);
  the mark is cleared at the end, whatever happened.  A hook has several marks: \<open>'m\<close> names them, and
  the value of a mark is the identifier it was set to (empty for a Boolean one).
\<close>

record 'm actions =
  marks :: "'m \<Rightarrow> string option"
  act_message :: "string option"
  act_error :: "string option"
  toasts :: "(string \<times> bool) list" \<comment> \<open>text, and whether it reports success\<close>

definition actions_init :: "'m actions" where
  "actions_init = \<lparr>marks = (\<lambda>_. None), act_message = None, act_error = None, toasts = []\<rparr>"

definition act_begin :: "'m \<Rightarrow> string \<Rightarrow> 'm actions \<Rightarrow> 'm actions" where
  "act_begin m v s = s\<lparr>marks := (marks s)(m := Some v), act_message := None, act_error := None\<rparr>"

definition unmark :: "'m \<Rightarrow> 'm actions \<Rightarrow> 'm actions" where
  "unmark m s = s\<lparr>marks := (marks s)(m := None)\<rparr>"

definition toast :: "bool \<Rightarrow> string \<Rightarrow> bool \<Rightarrow> 'm actions \<Rightarrow> 'm actions" where
  "toast on msg good s = (if on then s\<lparr>toasts := toasts s @ [(msg, good)]\<rparr> else s)"

definition report_success :: "bool \<Rightarrow> string \<Rightarrow> 'm actions \<Rightarrow> 'm actions" where
  "report_success on msg s = toast on msg True (s\<lparr>act_message := Some msg\<rparr>)"

definition report_error :: "bool \<Rightarrow> string \<Rightarrow> 'm actions \<Rightarrow> 'm actions" where
  "report_error on msg s = toast on msg False (s\<lparr>act_error := Some msg\<rparr>)"

definition act_end ::
  "(string \<Rightarrow> string) \<Rightarrow> bool \<Rightarrow> 'm \<Rightarrow> ('r \<Rightarrow> string) \<Rightarrow> exn + 'r \<Rightarrow> 'm actions \<Rightarrow> 'r option \<times> 'm actions" where
  \<comment> \<open>the \<open>try\<close>, its \<open>catch\<close> and its \<open>finally\<close>, once the request is answered\<close>
  "act_end t on m label r s =
     (case r of
        Inr x \<Rightarrow> (Some x, unmark m (report_success on (label x) s))
      | Inl e \<Rightarrow> (None, unmark m (report_error on (error_to_message t e) s)))"

definition run_action ::
  "(string \<Rightarrow> string) \<Rightarrow> bool \<Rightarrow> 'm \<Rightarrow> string \<Rightarrow> ('r \<Rightarrow> string) \<Rightarrow> exn + 'r \<Rightarrow> 'm actions \<Rightarrow> 'r option \<times> 'm actions" where
  \<comment> \<open>a whole action that no other one interrupts\<close>
  "run_action t on m v label r s = act_end t on m label r (act_begin m v s)"

section \<open>What every action leaves\<close>

definition reported :: "'m actions \<Rightarrow> bool" where
  "reported s \<longleftrightarrow> (act_message s = None) \<noteq> (act_error s = None)"

lemmas action_simps =
  act_begin_def unmark_def toast_def report_success_def report_error_def act_end_def run_action_def

lemma run_action_outcome:
  "run_action t on m v label r s = (x, s') \<Longrightarrow>
   reported s' \<and> marks s' = (marks s)(m := None) \<and>
   (x = None \<longleftrightarrow> act_error s' \<noteq> None) \<and>
   toasts s' = toasts s @ (if on then [(case r of Inr y \<Rightarrow> (label y, True) | Inl e \<Rightarrow> (error_to_message t e, False))]
                           else [])"
  by (auto simp: action_simps reported_def split: sum.splits)

lemma run_action_success: "run_action t on m v label (Inr y) s = (Some y, snd (run_action t on m v label (Inr y) s))"
  by (simp add: action_simps)

end
