(* ===== verification/Knowledge_Hooks.thy ===== *)
theory Knowledge_Hooks
  imports Proto_Store Resource_Hooks Action_Hooks
begin

text \<open>
  The knowledge hooks of \<open>hooks/admin/knowledge.ts\<close>: the lists of bases, documents and governance
  targets, in their administration and their workbench form, and the actions on them.  In the
  prototype mode the lists are read from the store of \<open>Proto_Store\<close> and the actions change it;
  otherwise the server answers.  The document hooks number their loads; the refinement at the end
  shows that they follow the contract of \<open>Resource_Hooks\<close>.
\<close>

section \<open>Responses\<close>

record knowledge_base_list =
  kbl_bases :: "knowledge_base list"

record workbench_base =
  wb_id :: string
  wb_name :: string
  wb_description :: "string option"
  wb_visibility :: agent_visibility
  wb_department_ids :: "string list"
  wb_status :: base_status
  wb_document_count :: nat
  wb_tags :: "string list"
  wb_updated_at :: string

record workbench_base_list =
  wbl_bases :: "workbench_base list"

record knowledge_target =
  kt_id :: string
  kt_label :: string
  kt_description :: "string option"
  kt_metadata :: props

record knowledge_targets =
  kts_departments :: "knowledge_target list"

record knowledge_document_list =
  kdl_documents :: "knowledge_document list"

record workbench_document =
  wd_id :: string
  wd_base_id :: string
  wd_filename :: string
  wd_content_type :: "string option"
  wd_size_bytes :: "nat option"
  wd_source :: document_source
  wd_status :: document_status
  wd_chunk_count :: nat
  wd_updated_at :: string

record workbench_document_list =
  wdl_documents :: "workbench_document list"

definition proto_knowledge_targets :: knowledge_targets where
  "proto_knowledge_targets =
     \<lparr>kts_departments =
        [\<lparr>kt_id = proto_department, kt_label = ''Customer Success'',
          kt_description = Some ''Prototype department for private knowledge and Agent governance.'',
          kt_metadata = [(''parent_id'', JNull), (''sort_order'', JNum (Fin 10))]\<rparr>]\<rparr>"

definition to_workbench_base :: "knowledge_base \<Rightarrow> workbench_base" where
  "to_workbench_base b =
     \<lparr>wb_id = kb_id b, wb_name = kb_name b, wb_description = kb_description b,
      wb_visibility = kb_visibility b, wb_department_ids = kb_department_ids b, wb_status = kb_status b,
      wb_document_count = kb_document_count b, wb_tags = kb_tags b, wb_updated_at = kb_updated_at b\<rparr>"

definition to_workbench_document :: "knowledge_document \<Rightarrow> workbench_document" where
  "to_workbench_document d =
     \<lparr>wd_id = kd_id d, wd_base_id = kd_base_id d, wd_filename = kd_filename d,
      wd_content_type = kd_content_type d, wd_size_bytes = kd_size_bytes d, wd_source = kd_source d,
      wd_status = kd_status d, wd_chunk_count = kd_chunk_count d, wd_updated_at = kd_updated_at d\<rparr>"

section \<open>Options of a hook\<close>

record hook_options =
  hook_enabled :: bool
  fallback_on_error :: bool \<comment> \<open>the prototype mode\<close>

definition shown_as :: "hook_options \<Rightarrow> 'a async_state \<Rightarrow> 'a async_state \<Rightarrow> ('q, 'a) resource \<Rightarrow> 'a async_state" where
  \<comment> \<open>what a hook returns: its state, unless it is disabled or in the prototype mode\<close>
  "shown_as opt off proto s =
     (if \<not> hook_enabled opt then off else if fallback_on_error opt then proto else shown s)"

definition no_data :: "'a async_state" where
  "no_data = \<lparr>as_data = None, as_error = None, as_loading = False\<rparr>"

section \<open>Plain hooks\<close>

definition load_knowledge_targets ::
  "hook_options \<Rightarrow> (unit, knowledge_targets) resource \<Rightarrow> (unit, knowledge_targets) resource" where
  "load_knowledge_targets opt s =
     (if \<not> hook_enabled opt then show_now no_data s
      else if fallback_on_error opt then show_now (loaded proto_knowledge_targets) s
      else ask () s)"

definition knowledge_targets_answered ::
  "(string \<Rightarrow> string) \<Rightarrow> nat \<Rightarrow> (nat \<Rightarrow> exn + knowledge_targets) \<Rightarrow>
   (unit, knowledge_targets) resource \<Rightarrow> (unit, knowledge_targets) resource" where
  "knowledge_targets_answered t n attempts = plain_answer n (settle t (retried attempts))"

definition knowledge_targets_shown ::
  "hook_options \<Rightarrow> (unit, knowledge_targets) resource \<Rightarrow> knowledge_targets async_state" where
  "knowledge_targets_shown opt = shown_as opt no_data (loaded proto_knowledge_targets)"

definition load_knowledge_bases ::
  "hook_options \<Rightarrow> snapshot \<Rightarrow> (unit, knowledge_base list) resource \<Rightarrow> (unit, knowledge_base list) resource" where
  "load_knowledge_bases opt snap s =
     (if \<not> hook_enabled opt then show_now (loaded []) s
      else if fallback_on_error opt then show_now (loaded (sn_knowledge_bases snap)) s
      else ask () s)"

definition knowledge_bases_answered ::
  "(string \<Rightarrow> string) \<Rightarrow> nat \<Rightarrow> (nat \<Rightarrow> exn + knowledge_base_list) \<Rightarrow>
   (unit, knowledge_base list) resource \<Rightarrow> (unit, knowledge_base list) resource" where
  "knowledge_bases_answered t n attempts =
     plain_answer n (settle t (map_sum id kbl_bases (retried attempts)))"

definition knowledge_bases_shown ::
  "hook_options \<Rightarrow> snapshot \<Rightarrow> (unit, knowledge_base list) resource \<Rightarrow> knowledge_base list async_state" where
  "knowledge_bases_shown opt snap = shown_as opt (loaded []) (loaded (sn_knowledge_bases snap))"

definition load_workbench_bases ::
  "hook_options \<Rightarrow> snapshot \<Rightarrow> (unit, workbench_base list) resource \<Rightarrow> (unit, workbench_base list) resource" where
  "load_workbench_bases opt snap s =
     (if \<not> hook_enabled opt then show_now (loaded []) s
      else if fallback_on_error opt
      then show_now (loaded (map to_workbench_base (sn_knowledge_bases snap))) s
      else ask () s)"

definition workbench_bases_answered ::
  "(string \<Rightarrow> string) \<Rightarrow> nat \<Rightarrow> (nat \<Rightarrow> exn + workbench_base_list) \<Rightarrow>
   (unit, workbench_base list) resource \<Rightarrow> (unit, workbench_base list) resource" where
  "workbench_bases_answered t n attempts =
     plain_answer n (settle t (map_sum id wbl_bases (retried attempts)))"

definition workbench_bases_shown ::
  "hook_options \<Rightarrow> snapshot \<Rightarrow> (unit, workbench_base list) resource \<Rightarrow> workbench_base list async_state" where
  "workbench_bases_shown opt snap =
     shown_as opt (loaded []) (loaded (map to_workbench_base (sn_knowledge_bases snap)))"

section \<open>Documents: numbered loads\<close>

definition base_given :: "string option \<Rightarrow> bool" where \<comment> \<open>\<open>baseId\<close> as a condition\<close>
  "base_given b \<longleftrightarrow> (case b of None \<Rightarrow> False | Some i \<Rightarrow> i \<noteq> [])"

definition documents_of :: "string option \<Rightarrow> snapshot \<Rightarrow> knowledge_document list" where
  "documents_of b snap =
     (if base_given b then filter (\<lambda>d. Some (kd_base_id d) = b) (sn_knowledge_documents snap) else [])"

definition load_documents ::
  "hook_options \<Rightarrow> snapshot \<Rightarrow> string option \<Rightarrow>
   (string, knowledge_document list) resource \<Rightarrow> (string, knowledge_document list) resource" where
  "load_documents opt snap b s =
     (if \<not> hook_enabled opt \<or> \<not> base_given b then show_now (loaded []) s
      else if fallback_on_error opt then show_now (loaded (documents_of b snap)) s
      else ask (the b) s)"

definition documents_answered ::
  "(string \<Rightarrow> string) \<Rightarrow> nat \<Rightarrow> (nat \<Rightarrow> exn + knowledge_document_list) \<Rightarrow>
   (string, knowledge_document list) resource \<Rightarrow> (string, knowledge_document list) resource" where
  "documents_answered t n attempts =
     latest_answer n (settle t (map_sum id kdl_documents (retried attempts)))"

definition documents_shown ::
  "hook_options \<Rightarrow> snapshot \<Rightarrow> string option \<Rightarrow>
   (string, knowledge_document list) resource \<Rightarrow> knowledge_document list async_state" where
  "documents_shown opt snap b = shown_as opt (loaded []) (loaded (documents_of b snap))"

definition load_workbench_documents ::
  "hook_options \<Rightarrow> snapshot \<Rightarrow> string option \<Rightarrow>
   (string, workbench_document list) resource \<Rightarrow> (string, workbench_document list) resource" where
  "load_workbench_documents opt snap b s =
     (if \<not> hook_enabled opt \<or> \<not> base_given b then show_now (loaded []) s
      else if fallback_on_error opt
      then show_now (loaded (map to_workbench_document (documents_of b snap))) s
      else ask (the b) s)"

definition workbench_documents_answered ::
  "(string \<Rightarrow> string) \<Rightarrow> nat \<Rightarrow> (nat \<Rightarrow> exn + workbench_document_list) \<Rightarrow>
   (string, workbench_document list) resource \<Rightarrow> (string, workbench_document list) resource" where
  "workbench_documents_answered t n attempts =
     latest_answer n (settle t (map_sum id wdl_documents (retried attempts)))"

definition workbench_documents_shown ::
  "hook_options \<Rightarrow> snapshot \<Rightarrow> string option \<Rightarrow>
   (string, workbench_document list) resource \<Rightarrow> workbench_document list async_state" where
  "workbench_documents_shown opt snap b =
     shown_as opt (loaded []) (loaded (map to_workbench_document (documents_of b snap)))"

section \<open>Actions\<close>

datatype knowledge_mark = Saving_Base | Uploading | Deleting_Base | Deleting_Document | Reingesting | Testing

datatype knowledge_call =
    Create_Base knowledge_base_create "exn + knowledge_base"
  | Upload string upload_file "exn + document_upload_response"
  | Delete_Base string "exn + knowledge_delete_response"
  | Delete_Document string string "exn + knowledge_delete_response"
  | Reingest string string "exn + document_upload_response"
  | Retrieval_Test string retrieval_test_request "exn + retrieval_test_response"

record call_env =
  call_t :: "string \<Rightarrow> string"
  call_now :: string
  call_uuid :: string
  call_uuid2 :: string
  call_proto :: bool

definition answered_by :: "bool \<Rightarrow> 'r \<times> 's \<Rightarrow> exn + 'r \<Rightarrow> 's \<Rightarrow> (exn + 'r) \<times> 's" where
  \<comment> \<open>the prototype store, or the server\<close>
  "answered_by proto p r st = (if proto then (Inr (fst p), snd p) else (r, st))"

definition create_base_action ::
  "call_env \<Rightarrow> knowledge_base_create \<Rightarrow> exn + knowledge_base \<Rightarrow> knowledge_mark actions \<times> store \<Rightarrow>
   knowledge_base option \<times> knowledge_mark actions \<times> store" where
  "create_base_action env p r w =
     (let (a, st) = answered_by (call_proto env) (create_knowledge_base (call_now env) (call_uuid env) p (snd w)) r (snd w);
          (x, acts) = run_action (call_t env) True Saving_Base []
            (\<lambda>b. replace_first ''{{name}}'' (kb_name b) (call_t env ''knowledgeBaseCreated'')) a (fst w)
      in (x, acts, st))"

definition upload_action ::
  "call_env \<Rightarrow> string \<Rightarrow> upload_file \<Rightarrow> exn + document_upload_response \<Rightarrow> knowledge_mark actions \<times> store \<Rightarrow>
   document_upload_response option \<times> knowledge_mark actions \<times> store" where
  "upload_action env b f r w =
     (let (a, st) = answered_by (call_proto env)
            (upload_document (call_now env) (call_uuid env) (call_uuid2 env) b f (snd w)) r (snd w);
          (x, acts) = run_action (call_t env) True Uploading []
            (\<lambda>u. text_or (du_message u)
               (replace_first ''{{name}}'' (kd_filename (du_document u)) (call_t env ''knowledgeDocumentUploaded''))) a (fst w)
      in (x, acts, st))"

definition delete_base_action ::
  "call_env \<Rightarrow> string \<Rightarrow> exn + knowledge_delete_response \<Rightarrow> knowledge_mark actions \<times> store \<Rightarrow>
   knowledge_delete_response option \<times> knowledge_mark actions \<times> store" where
  "delete_base_action env b r w =
     (let (a, st) = answered_by (call_proto env) (delete_knowledge_base b (snd w)) r (snd w);
          (x, acts) = run_action (call_t env) True Deleting_Base b
            (\<lambda>d. text_or (kx_message d) (call_t env ''knowledgeBaseDeleted'')) a (fst w)
      in (x, acts, st))"

definition delete_document_action ::
  "call_env \<Rightarrow> string \<Rightarrow> string \<Rightarrow> exn + knowledge_delete_response \<Rightarrow> knowledge_mark actions \<times> store \<Rightarrow>
   knowledge_delete_response option \<times> knowledge_mark actions \<times> store" where
  "delete_document_action env b d r w =
     (let (a, st) = answered_by (call_proto env) (delete_document (call_now env) b d (snd w)) r (snd w);
          (x, acts) = run_action (call_t env) True Deleting_Document d
            (\<lambda>k. text_or (kx_message k) (call_t env ''knowledgeDocumentDeleted'')) a (fst w)
      in (x, acts, st))"

definition reingest_label :: "call_env \<Rightarrow> document_upload_response \<Rightarrow> string" where
  "reingest_label env u = text_or (du_message u) (call_t env ''knowledgeDocumentReingested'')"

definition reingest_action ::
  "call_env \<Rightarrow> string \<Rightarrow> string \<Rightarrow> exn + document_upload_response \<Rightarrow> knowledge_mark actions \<times> store \<Rightarrow>
   document_upload_response option \<times> knowledge_mark actions \<times> store" where
  "reingest_action env b d r w =
     (if call_proto env then
        (case reingest_document (call_now env) b d (snd w) of
           (None, st) \<Rightarrow>
             (None, report_error True (call_t env ''knowledgeDocumentReingested'')
                      (unmark Reingesting (act_begin Reingesting d (fst w))), st)
         | (Some u, st) \<Rightarrow>
             (Some u, report_success True (reingest_label env u)
                        (unmark Reingesting (act_begin Reingesting d (fst w))), st))
      else
        (let (x, acts) = run_action (call_t env) True Reingesting d (reingest_label env) r (fst w)
         in (x, acts, snd w)))"

definition retrieval_test_action ::
  "call_env \<Rightarrow> string \<Rightarrow> retrieval_test_request \<Rightarrow> exn + retrieval_test_response \<Rightarrow> knowledge_mark actions \<times> store \<Rightarrow>
   retrieval_test_response option \<times> knowledge_mark actions \<times> store" where
  "retrieval_test_action env b p r w =
     (let (a, st) = answered_by (call_proto env) (proto_retrieval_test (call_now env) b p, snd w) r (snd w);
          (x, acts) = run_action (call_t env) True Testing []
            (\<lambda>u. replace_first ''{{count}}'' (nat_str (length (rr_results u))) (call_t env ''knowledgeRetrievedSources''))
            a (fst w)
      in (x, acts, st))"

definition succeeded :: "'r option \<times> 'w \<Rightarrow> bool \<times> 'w" where
  "succeeded r = (fst r \<noteq> None, snd r)"

definition run_knowledge_call ::
  "call_env \<Rightarrow> knowledge_call \<Rightarrow> knowledge_mark actions \<times> store \<Rightarrow> bool \<times> knowledge_mark actions \<times> store" where
  "run_knowledge_call env c w =
     (case c of
        Create_Base p r \<Rightarrow> succeeded (create_base_action env p r w)
      | Upload b f r \<Rightarrow> succeeded (upload_action env b f r w)
      | Delete_Base b r \<Rightarrow> succeeded (delete_base_action env b r w)
      | Delete_Document b d r \<Rightarrow> succeeded (delete_document_action env b d r w)
      | Reingest b d r \<Rightarrow> succeeded (reingest_action env b d r w)
      | Retrieval_Test b p r \<Rightarrow> succeeded (retrieval_test_action env b p r w))"

fun mark_of :: "knowledge_call \<Rightarrow> knowledge_mark" where
  "mark_of (Create_Base _ _) = Saving_Base"
| "mark_of (Upload _ _ _) = Uploading"
| "mark_of (Delete_Base _ _) = Deleting_Base"
| "mark_of (Delete_Document _ _ _) = Deleting_Document"
| "mark_of (Reingest _ _ _) = Reingesting"
| "mark_of (Retrieval_Test _ _ _) = Testing"

section \<open>What an action leaves\<close>

definition reported_once :: "'m \<Rightarrow> 'm actions \<Rightarrow> bool \<Rightarrow> 'm actions \<Rightarrow> bool" where
  \<comment> \<open>the mark is cleared, and success or failure is reported, not both, with one toast\<close>
  "reported_once m a ok a' \<longleftrightarrow>
     marks a' = (marks a)(m := None) \<and>
     (\<exists>txt. act_message a' = (if ok then Some txt else None) \<and>
            act_error a' = (if ok then None else Some txt) \<and> toasts a' = toasts a @ [(txt, ok)])"

lemma run_action_reported:
  "run_action t True m v label r a = (x, a') \<Longrightarrow> reported_once m a (x \<noteq> None) a'"
  by (auto simp: action_simps reported_once_def split: sum.splits)

lemmas knowledge_action_defs =
  create_base_action_def upload_action_def delete_base_action_def delete_document_action_def retrieval_test_action_def

lemma reingest_reported:
  "reingest_action env b d r w = (x, a', st) \<Longrightarrow> reported_once Reingesting (fst w) (x \<noteq> None) a'"
  by (auto simp: reingest_action_def reported_once_def action_simps split: sum.splits if_splits option.splits prod.splits)

lemma knowledge_call_reported:
  assumes "run_knowledge_call env c w = (ok, a', st)"
  shows "reported_once (mark_of c) (fst w) ok a'"
proof (cases c)
  case (Reingest b d r)
  with assms obtain x where "reingest_action env b d r w = (x, a', st)" "ok = (x \<noteq> None)"
    by (cases "reingest_action env b d r w") (auto simp: run_knowledge_call_def succeeded_def)
  with Reingest reingest_reported show ?thesis by simp
qed (use assms in \<open>auto simp: run_knowledge_call_def succeeded_def knowledge_action_defs
       split: prod.splits dest!: run_action_reported\<close>)

lemma server_call_keeps_store:
  "\<not> call_proto env \<Longrightarrow> snd (snd (run_knowledge_call env c w)) = snd w"
  by (cases c) (auto simp: run_knowledge_call_def succeeded_def knowledge_action_defs reingest_action_def
      answered_by_def split: prod.splits)

text \<open>
  Every action of the knowledge pages, with the prototype store or the server, ends with its own
  mark cleared and no other mark touched, exactly one of the success message and the error set, and
  one toast that says the same; without the prototype mode it leaves the prototype store alone.
\<close>

theorem knowledge_actions_report:
  assumes "run_knowledge_call env c (a, st) = (ok, a', st')"
  shows "reported_once (mark_of c) a ok a' \<and> (call_proto env \<or> st' = st)"
  using knowledge_call_reported [OF assms] server_call_keeps_store [of env c "(a, st)"] assms by auto

definition demo_call_env :: call_env where
  "demo_call_env = \<lparr>call_t = id, call_now = ''2026-01-02T00:00:00.000Z'', call_uuid = ''u1'', call_uuid2 = ''u2'',
     call_proto = False\<rparr>"

theorem knowledge_actions_report_witness:
  "reported_once Deleting_Base actions_init False
     (fst (snd (run_knowledge_call demo_call_env (Delete_Base ''b'' (Inl (Named_Error ''TypeError'' ''x'')))
                  (actions_init, store_init))))"
  using knowledge_actions_report [of demo_call_env "Delete_Base ''b'' (Inl (Named_Error ''TypeError'' ''x''))"
      actions_init store_init False]
  by (simp add: run_knowledge_call_def succeeded_def knowledge_action_defs answered_by_def demo_call_env_def
      run_action_def act_end_def)

section \<open>The document hooks follow the contract\<close>

datatype documents_event =
    Open_Base hook_options snapshot "string option" \<comment> \<open>the effect of the hook, or a refetch\<close>
  | Documents_Arrive nat "nat \<Rightarrow> exn + knowledge_document_list"
  | Close_Base \<comment> \<open>the clean-up of the effect\<close>

definition documents_step ::
  "(string \<Rightarrow> string) \<Rightarrow> documents_event \<Rightarrow>
   (string, knowledge_document list) resource \<Rightarrow> (string, knowledge_document list) resource" where
  "documents_step t e s =
     (case e of
        Open_Base opt snap b \<Rightarrow> load_documents opt snap b s
      | Documents_Arrive n attempts \<Rightarrow> if in_waiting n s then documents_answered t n attempts s else s
      | Close_Base \<Rightarrow> leave s)"

definition documents_contract ::
  "(string \<Rightarrow> string) \<Rightarrow> documents_event \<Rightarrow> (string, knowledge_document list) load_event" where
  \<comment> \<open>what an event means to somebody who looks at the list only\<close>
  "documents_contract t e =
     (case e of
        Open_Base opt snap b \<Rightarrow>
          if hook_enabled opt \<and> base_given b \<and> \<not> fallback_on_error opt then Ask (the b)
          else Show_Now (loaded (if hook_enabled opt then documents_of b snap else []))
      | Documents_Arrive n attempts \<Rightarrow> Settled n (settle t (map_sum id kdl_documents (retried attempts)))
      | Close_Base \<Rightarrow> Leave)"

lemma documents_step_latest: "documents_step t e s = latest_step (documents_contract t e) s"
  by (cases e) (simp_all add: documents_step_def documents_contract_def latest_step_def load_documents_def
      documents_answered_def documents_of_def)

lemma documents_done: "list_all event_done (map (documents_contract t) es)"
  by (auto simp: list_all_iff event_done_def documents_contract_def loaded_def split: documents_event.splits)

text \<open>
  C23: the hook that lists the documents of a knowledge base implements the contract of a list: over
  every sequence of opening bases, leaving them and answers arriving in any order, what it shows is
  what the abstract list shows, where only the answer to the last load counts.
\<close>

theorem documents_hook_refines:
  "view_of (fold (documents_step t) es (resource_init False)) =
   fold spec_step (map (documents_contract t) es) (0, Showing no_data)"
proof -
  have "fold (documents_step t) es s = fold latest_step (map (documents_contract t) es) s" for s
    by (induction es arbitrary: s) (simp_all add: documents_step_latest)
  moreover have "view_of (resource_init False :: (string, knowledge_document list) resource) = (0, Showing no_data)"
    by (simp add: view_of_def resource_init_def no_data_def)
  ultimately show ?thesis
    using latest_run [OF documents_done, of t es False] by simp
qed

section \<open>The prototype lists and the retrieval test\<close>

text \<open>
  A knowledge base created in the prototype mode is at once the first one the administration and
  the workbench lists show, but a retrieval test on it answers for the first built-in base instead:
  the test looks the base up in the built-in list, not in the store.
\<close>

theorem created_base_not_testable:
  assumes "call_proto env" and "call_uuid env \<notin> kb_id ` set proto_knowledge_bases"
    and "create_base_action env p r (a, st) = (x, a', st')"
    and "opt = \<lparr>hook_enabled = True, fallback_on_error = True\<rparr>"
    and b: "b = proto_knowledge_base (call_now env) (call_uuid env) p"
  shows "x = Some b \<and>
    knowledge_bases_shown opt (current_snapshot st') k = loaded (b # knowledge_bases st) \<and>
    workbench_bases_shown opt (current_snapshot st') w =
      loaded (to_workbench_base b # map to_workbench_base (knowledge_bases st)) \<and>
    rr_knowledge_base_id (proto_retrieval_test now (kb_id b) q) = proto_after_sales_kb \<and> kb_id b \<noteq> proto_after_sales_kb"
proof (intro conjI)
  from assms(1,3) show "x = Some b"
    by (auto simp: b create_base_action_def answered_by_def create_knowledge_base_def Let_def action_simps)
  from assms(1,3) have st: "st' = snd (create_knowledge_base (call_now env) (call_uuid env) p st)"
    by (auto simp: create_base_action_def answered_by_def split: prod.splits)
  then show "knowledge_bases_shown opt (current_snapshot st') k = loaded (b # knowledge_bases st)"
    "workbench_bases_shown opt (current_snapshot st') w =
      loaded (to_workbench_base b # map to_workbench_base (knowledge_bases st))"
    using assms(4) by (simp_all add: b knowledge_bases_shown_def workbench_bases_shown_def shown_as_def
        create_knowledge_base_def Let_def create_snapshot_def)
  have "find_row kb_id (call_uuid env) proto_knowledge_bases = None"
    using assms(2) by (simp add: find_row_None_iff)
  then show "rr_knowledge_base_id (proto_retrieval_test now (kb_id b) q) = proto_after_sales_kb"
    by (simp add: b proto_retrieval_test_def find_base_or_first_def Let_def proto_knowledge_base_def
        proto_knowledge_bases_def)
  show "kb_id b \<noteq> proto_after_sales_kb"
    using assms(2) by (auto simp: b proto_knowledge_base_def proto_knowledge_bases_def)
qed

definition demo_base_request :: knowledge_base_create where
  "demo_base_request = \<lparr>kbc_name = ''Returns'', kbc_description = None, kbc_visibility = Vis_Tenant,
     kbc_department_ids = None, kbc_rag_engine = Pgvector, kbc_embedding_model_key = None,
     kbc_retrieval_config = None, kbc_tags = None, kbc_metadata = None\<rparr>"

definition demo_query :: retrieval_test_request where
  "demo_query = \<lparr>rt_query = ''exchange'', rt_top_k = 3, rt_filters = None, rt_rerank = None\<rparr>"

theorem created_base_not_testable_witness:
  "rr_knowledge_base_id (proto_retrieval_test ''now''
     (kb_id (proto_knowledge_base (call_now demo_call_env) (call_uuid demo_call_env) demo_base_request)) demo_query) =
   proto_after_sales_kb"
proof -
  let ?env = "demo_call_env\<lparr>call_proto := True\<rparr>"
  obtain x a' st' where run: "create_base_action ?env demo_base_request (Inl (Named_Error [] []))
      (actions_init, store_init) = (x, a', st')"
    by (rule prod_cases3)
  have "call_proto ?env" "call_uuid ?env \<notin> kb_id ` set proto_knowledge_bases"
    by (simp_all add: demo_call_env_def proto_knowledge_bases_def proto_after_sales_kb_def)
  from created_base_not_testable [OF this run refl refl, where q = demo_query and now = "''now''"]
  show ?thesis by simp
qed

end
