(* ===== verification/Budget_Types.thy ===== *)
theory Budget_Types
  imports Chat_Types
begin

text \<open>
  The budget data of \<open>lib/api/budgets.ts\<close>: policies, summaries, the two ledgers and the usage
  breakdown.  Money is text, as the server sends it; a number is a double.  An optional field is
  \<open>None\<close> when it is missing or null.
\<close>

section \<open>Enumerations and their names\<close>

datatype budget_scope = Scope_Tenant | Scope_Department | Scope_Cost_Center | Scope_User | Scope_Agent | Scope_Channel

fun budget_scope_str :: "budget_scope \<Rightarrow> string" where
  "budget_scope_str Scope_Tenant = ''tenant''"
| "budget_scope_str Scope_Department = ''department''"
| "budget_scope_str Scope_Cost_Center = ''cost_center''"
| "budget_scope_str Scope_User = ''user''"
| "budget_scope_str Scope_Agent = ''agent''"
| "budget_scope_str Scope_Channel = ''channel''"

datatype budget_period = Daily | Monthly | Custom_Period

fun budget_period_str :: "budget_period \<Rightarrow> string" where
  "budget_period_str Daily = ''daily''"
| "budget_period_str Monthly = ''monthly''"
| "budget_period_str Custom_Period = ''custom''"

datatype limit_type = Hard | Soft

fun limit_type_str :: "limit_type \<Rightarrow> string" where
  "limit_type_str Hard = ''hard''"
| "limit_type_str Soft = ''soft''"

datatype policy_status = Policy_Active | Policy_Inactive

fun policy_status_str :: "policy_status \<Rightarrow> string" where
  "policy_status_str Policy_Active = ''active''"
| "policy_status_str Policy_Inactive = ''inactive''"

datatype limit_health = Health_Ok | Health_Warning | Health_Exceeded

fun limit_health_str :: "limit_health \<Rightarrow> string" where
  "limit_health_str Health_Ok = ''ok''"
| "limit_health_str Health_Warning = ''warning''"
| "limit_health_str Health_Exceeded = ''exceeded''"

datatype budget_event = Ev_Reserve | Ev_Settle | Ev_Release | Ev_Deny | Ev_Alert

fun budget_event_str :: "budget_event \<Rightarrow> string" where
  "budget_event_str Ev_Reserve = ''reserve''"
| "budget_event_str Ev_Settle = ''settle''"
| "budget_event_str Ev_Release = ''release''"
| "budget_event_str Ev_Deny = ''deny''"
| "budget_event_str Ev_Alert = ''alert''"

datatype usage_dimension = By_Department | By_User | By_Cost_Center | By_Agent | By_Channel | By_Model | By_Status

fun usage_dimension_str :: "usage_dimension \<Rightarrow> string" where
  "usage_dimension_str By_Department = ''department''"
| "usage_dimension_str By_User = ''user''"
| "usage_dimension_str By_Cost_Center = ''cost_center''"
| "usage_dimension_str By_Agent = ''agent''"
| "usage_dimension_str By_Channel = ''channel''"
| "usage_dimension_str By_Model = ''model''"
| "usage_dimension_str By_Status = ''status''"

section \<open>Records\<close>

record budget_policy_request =
  bpr_id :: "string option"
  bpr_name :: "string option"
  bpr_description :: "string option"
  bpr_scope_type :: budget_scope
  bpr_scope_id :: "string option"
  bpr_period :: budget_period
  bpr_custom_period_start :: "string option"
  bpr_custom_period_end :: "string option"
  bpr_budget_type :: limit_type
  bpr_currency :: string
  bpr_amount_limit :: jsval
  bpr_token_limit :: "jsnum option"
  bpr_alert_threshold_pct :: jsnum
  bpr_status :: policy_status

record budget_policy =
  bp_id :: string
  bp_tenant_id :: string
  bp_name :: "string option"
  bp_description :: "string option"
  bp_scope_type :: budget_scope
  bp_scope_id :: "string option"
  bp_period :: budget_period
  bp_custom_period_start :: "string option"
  bp_custom_period_end :: "string option"
  bp_budget_type :: limit_type
  bp_currency :: string
  bp_amount_limit :: string
  bp_amount_spent :: string
  bp_token_limit :: "jsnum option"
  bp_tokens_used :: jsnum
  bp_alert_threshold_pct :: jsnum
  bp_status :: policy_status
  bp_health :: limit_health
  bp_created_at :: string
  bp_updated_at :: string

record budget_target =
  bt_id :: string
  bt_label :: string
  bt_description :: "string option"
  bt_status :: "string option"
  bt_metadata :: props

record budget_targets =
  bts_departments :: "budget_target list"
  bts_cost_centers :: "budget_target list"
  bts_users :: "budget_target list"
  bts_agents :: "budget_target list"
  bts_channels :: "budget_target list"

record scope_summary =
  sc_scope_type :: budget_scope
  sc_policy_count :: jsnum
  sc_active_policy_count :: jsnum
  sc_amount_limit :: string
  sc_amount_spent :: string
  sc_token_limit :: "jsnum option"
  sc_tokens_used :: jsnum

record budget_summary =
  bs_tenant_id :: string
  bs_currency :: string
  bs_period :: budget_period
  bs_period_start :: string
  bs_period_end :: string
  bs_generated_at :: string
  bs_policy_count :: jsnum
  bs_active_policy_count :: jsnum
  bs_hard_policy_count :: jsnum
  bs_soft_policy_count :: jsnum
  bs_warning_policy_count :: jsnum
  bs_exceeded_policy_count :: jsnum
  bs_total_amount_limit :: string
  bs_total_amount_spent :: string
  bs_total_token_limit :: "jsnum option"
  bs_total_tokens_used :: jsnum
  bs_by_scope :: "scope_summary list"
  bs_metadata :: props

record usage_item =
  ul_id :: string
  ul_tenant_id :: string
  ul_created_at :: string
  ul_deployment_id :: "string option"
  ul_user_id :: "string option"
  ul_department_id :: "string option"
  ul_agent_id :: "string option"
  ul_channel_id :: "string option"
  ul_conversation_id :: "string option"
  ul_cost_center_id :: "string option"
  ul_request_id :: string
  ul_model_key :: string
  ul_input_tokens :: jsnum
  ul_output_tokens :: jsnum
  ul_total_tokens :: jsnum
  ul_cost_amount :: string
  ul_currency :: string
  ul_status :: string
  ul_error_code :: "string option"
  ul_metadata :: props

record usage_ledger =
  ulr_items :: "usage_item list"
  ulr_total :: jsnum
  ulr_limit :: jsnum
  ulr_offset :: jsnum

record ledger_item =
  bl_id :: string
  bl_tenant_id :: string
  bl_created_at :: string
  bl_budget_id :: "string option"
  bl_reservation_id :: string
  bl_request_id :: string
  bl_event_type :: budget_event
  bl_scope_type :: budget_scope
  bl_scope_id :: "string option"
  bl_user_id :: "string option"
  bl_department_id :: "string option"
  bl_cost_center_id :: "string option"
  bl_agent_id :: "string option"
  bl_channel_id :: "string option"
  bl_conversation_id :: "string option"
  bl_estimated_tokens :: jsnum
  bl_actual_tokens :: jsnum
  bl_estimated_cost_amount :: string
  bl_actual_cost_amount :: string
  bl_currency :: string
  bl_reason :: "string option"
  bl_metadata :: props

record budget_ledger =
  blr_items :: "ledger_item list"
  blr_total :: jsnum
  blr_limit :: jsnum
  blr_offset :: jsnum

record breakdown_item =
  ub_dimension :: usage_dimension
  ub_key :: string
  ub_label :: "string option"
  ub_request_count :: jsnum
  ub_success_count :: jsnum
  ub_error_count :: jsnum
  ub_input_tokens :: jsnum
  ub_output_tokens :: jsnum
  ub_total_tokens :: jsnum
  ub_cost_amount :: string
  ub_currency :: string
  ub_last_used_at :: "string option"

record usage_breakdown =
  ubr_tenant_id :: string
  ubr_dimension :: usage_dimension
  ubr_period_start :: "string option"
  ubr_period_end :: "string option"
  ubr_items :: "breakdown_item list"
  ubr_total_request_count :: jsnum
  ubr_total_cost_amount :: string
  ubr_total_tokens :: jsnum

record summary_filters =
  sf_period :: "budget_period option"
  sf_period_start :: "string option"
  sf_period_end :: "string option"

record usage_filters =
  uf_limit :: "jsnum option"
  uf_start :: "string option"
  uf_end :: "string option"
  uf_user_id :: "string option"
  uf_department_id :: "string option"
  uf_cost_center_id :: "string option"
  uf_agent_id :: "string option"
  uf_channel_id :: "string option"
  uf_model_key :: "string option"
  uf_status :: "string option"

record ledger_filters =
  lf_limit :: "jsnum option"
  lf_start :: "string option"
  lf_end :: "string option"
  lf_budget_id :: "string option"
  lf_reservation_id :: "string option"
  lf_request_id :: "string option"
  lf_event_type :: "budget_event option"
  lf_scope_type :: "budget_scope option"
  lf_scope_id :: "string option"
  lf_user_id :: "string option"
  lf_department_id :: "string option"
  lf_cost_center_id :: "string option"
  lf_agent_id :: "string option"
  lf_channel_id :: "string option"

end
