(* ===== verification/Budget_Data.thy ===== *)
theory Budget_Data
  imports Budget_Types
begin

text \<open>
  The budget data of the prototype mode, \<open>hooks/admin/budgetPrototype.ts\<close>: policies, the two
  ledgers, the summary of a period, the breakdown by a dimension, a policy made from a request, and
  the export of a ledger.  The current time is an argument.
\<close>

section \<open>Identifiers\<close>

definition bud_now :: string where "bud_now = ''2026-01-01T09:12:00.000Z''"
definition bud_month_start :: string where "bud_month_start = ''2026-01-01T00:00:00.000Z''"
definition bud_month_end :: string where "bud_month_end = ''2026-01-31T23:59:59.000Z''"
definition bud_day_start :: string where "bud_day_start = ''2026-01-01T00:00:00.000Z''"
definition bud_day_end :: string where "bud_day_end = ''2026-01-01T23:59:59.000Z''"
definition bud_tenant :: string where "bud_tenant = ''00000000-0000-4000-8000-000000000001''"
definition bud_user :: string where "bud_user = ''00000000-0000-4000-8000-000000000202''"
definition bud_department :: string where "bud_department = ''00000000-0000-4000-8000-000000000301''"
definition bud_cost_center :: string where "bud_cost_center = ''00000000-0000-4000-8000-000000000401''"
definition bud_agent :: string where "bud_agent = ''00000000-0000-4000-8000-000000000701''"
definition bud_channel :: string where "bud_channel = ''00000000-0000-4000-8000-000000000801''"
definition bud_conversation :: string where "bud_conversation = ''00000000-0000-4000-8000-000000000901''"
definition bud_primary_request :: string where "bud_primary_request = ''proto-run-001''"
definition bud_denied_request :: string where "bud_denied_request = ''proto-run-002''"
definition bud_fallback_request :: string where "bud_fallback_request = ''proto-run-003''"

section \<open>Policies and ledgers\<close>

definition proto_budget_policies :: "budget_policy list" where
  "proto_budget_policies =
    [\<lparr>bp_id = ''00000000-0000-4000-8000-000000140001'', bp_tenant_id = bud_tenant,
    bp_name = Some ''Tenant monthly hard cap'',
    bp_description = Some ''Tenant-wide hard stop before any model call leaves AgentHive LLM Gateway.'',
    bp_scope_type = Scope_Tenant, bp_scope_id = None, bp_period = Monthly,
    bp_custom_period_start = None, bp_custom_period_end = None, bp_budget_type = Hard,
    bp_currency = ''USD'', bp_amount_limit = ''1000.0000'', bp_amount_spent = ''186.4200'',
    bp_token_limit = Some (Fin 1000000), bp_tokens_used = Fin 248360,
    bp_alert_threshold_pct = Fin 80, bp_status = Policy_Active, bp_health = Health_Ok,
    bp_created_at = bud_month_start, bp_updated_at = bud_now\<rparr>,
    \<lparr>bp_id = ''00000000-0000-4000-8000-000000140002'', bp_tenant_id = bud_tenant,
    bp_name = Some ''Customer Success model spend'',
    bp_description = Some ''Customer Success receives warnings before premium routes are denied.'',
    bp_scope_type = Scope_Department, bp_scope_id = Some bud_department, bp_period = Monthly,
    bp_custom_period_start = None, bp_custom_period_end = None, bp_budget_type = Soft,
    bp_currency = ''USD'', bp_amount_limit = ''850.0000'', bp_amount_spent = ''716.2800'',
    bp_token_limit = Some (Fin 320000), bp_tokens_used = Fin 268100,
    bp_alert_threshold_pct = Fin 75, bp_status = Policy_Active, bp_health = Health_Warning,
    bp_created_at = bud_month_start, bp_updated_at = bud_now\<rparr>,
    \<lparr>bp_id = ''00000000-0000-4000-8000-000000140003'', bp_tenant_id = bud_tenant,
    bp_name = Some ''Customer Service Agent route guard'',
    bp_description = Some ''Customer Service Agent must fall back to cost-chat when premium route is near cap.'',
    bp_scope_type = Scope_Agent, bp_scope_id = Some bud_agent, bp_period = Monthly,
    bp_custom_period_start = None, bp_custom_period_end = None, bp_budget_type = Hard,
    bp_currency = ''USD'', bp_amount_limit = ''125.0000'', bp_amount_spent = ''116.0600'',
    bp_token_limit = Some (Fin 90000), bp_tokens_used = Fin 84160, bp_alert_threshold_pct = Fin 85,
    bp_status = Policy_Active, bp_health = Health_Warning, bp_created_at = bud_month_start,
    bp_updated_at = bud_now\<rparr>]"

definition proto_usage_items :: "usage_item list" where
  "proto_usage_items =
    [\<lparr>ul_id = ''00000000-0000-4000-8000-000000150001'', ul_tenant_id = bud_tenant,
    ul_created_at = ''2026-01-01T09:11:30.000Z'',
    ul_deployment_id = Some ''00000000-0000-4000-8000-000000100004'', ul_user_id = Some bud_user,
    ul_department_id = Some bud_department, ul_agent_id = Some bud_agent,
    ul_channel_id = Some bud_channel, ul_conversation_id = Some bud_conversation,
    ul_cost_center_id = Some bud_cost_center, ul_request_id = bud_primary_request,
    ul_model_key = ''qwen-plus'', ul_input_tokens = Fin 1280, ul_output_tokens = Fin 426,
    ul_total_tokens = Fin 1706, ul_cost_amount = ''0.0064'', ul_currency = ''USD'',
    ul_status = ''success'', ul_error_code = None, ul_metadata = [(''budget_guard'',
    JStr ''settled''), (''fallback_attempts'', JNum (Fin 0)), (''provider_key'', JStr ''qwen''),
    (''route_reason'', JStr ''department policy selected cn-primary-chat'')]\<rparr>,
    \<lparr>ul_id = ''00000000-0000-4000-8000-000000150002'', ul_tenant_id = bud_tenant,
    ul_created_at = ''2026-01-01T09:09:20.000Z'',
    ul_deployment_id = Some ''00000000-0000-4000-8000-000000100001'', ul_user_id = Some bud_user,
    ul_department_id = Some bud_department, ul_agent_id = Some bud_agent,
    ul_channel_id = Some bud_channel, ul_conversation_id = Some bud_conversation,
    ul_cost_center_id = Some bud_cost_center, ul_request_id = bud_denied_request,
    ul_model_key = ''gpt-4o'', ul_input_tokens = Fin 2100, ul_output_tokens = Fin 0,
    ul_total_tokens = Fin 2100, ul_cost_amount = ''0.0000'', ul_currency = ''USD'',
    ul_status = ''denied'', ul_error_code = Some ''budget_hard_limit'',
    ul_metadata = [(''budget_guard'', JStr ''denied''), (''fallback_attempts'', JNum (Fin 0)),
    (''provider_key'', JStr ''openai''), (''route_reason'',
    JStr ''premium-chat denied by agent hard cap'')]\<rparr>,
    \<lparr>ul_id = ''00000000-0000-4000-8000-000000150003'', ul_tenant_id = bud_tenant,
    ul_created_at = ''2026-01-01T09:09:28.000Z'',
    ul_deployment_id = Some ''00000000-0000-4000-8000-000000100005'', ul_user_id = Some bud_user,
    ul_department_id = Some bud_department, ul_agent_id = Some bud_agent,
    ul_channel_id = Some bud_channel, ul_conversation_id = Some bud_conversation,
    ul_cost_center_id = Some bud_cost_center, ul_request_id = bud_fallback_request,
    ul_model_key = ''deepseek-v4-flash'', ul_input_tokens = Fin 2100, ul_output_tokens = Fin 612,
    ul_total_tokens = Fin 2712, ul_cost_amount = ''0.0031'', ul_currency = ''USD'',
    ul_status = ''success'', ul_error_code = None, ul_metadata = [(''budget_guard'',
    JStr ''settled''), (''fallback_attempts'', JNum (Fin 1)), (''fallback_from'',
    JStr ''premium-chat''), (''provider_key'', JStr ''deepseek''), (''route_reason'',
    JStr ''fallback selected cost-chat after premium denial'')]\<rparr>]"

record ledger_seed =
  lsd_actual_cost :: string
  lsd_actual_tokens :: jsnum
  lsd_budget_id :: string
  lsd_created_at :: string
  lsd_estimated_cost :: string
  lsd_estimated_tokens :: jsnum
  lsd_event_type :: budget_event
  lsd_id :: string
  lsd_reason :: string
  lsd_request_id :: string
  lsd_reservation_id :: string
  lsd_scope_id :: string
  lsd_scope_type :: budget_scope

definition budget_ledger_item :: "ledger_seed \<Rightarrow> ledger_item" where
  "budget_ledger_item s =
    \<lparr>bl_id = lsd_id s, bl_tenant_id = bud_tenant, bl_created_at = lsd_created_at s,
    bl_budget_id = Some (lsd_budget_id s), bl_reservation_id = lsd_reservation_id s,
    bl_request_id = lsd_request_id s, bl_event_type = lsd_event_type s,
    bl_scope_type = lsd_scope_type s, bl_scope_id = Some (lsd_scope_id s),
    bl_user_id = Some bud_user, bl_department_id = Some bud_department,
    bl_cost_center_id = Some bud_cost_center, bl_agent_id = Some bud_agent,
    bl_channel_id = Some bud_channel, bl_conversation_id = Some bud_conversation,
    bl_estimated_tokens = lsd_estimated_tokens s, bl_actual_tokens = lsd_actual_tokens s,
    bl_estimated_cost_amount = lsd_estimated_cost s, bl_actual_cost_amount = lsd_actual_cost s,
    bl_currency = ''USD'', bl_reason = Some (lsd_reason s), bl_metadata = [(''source'',
    JStr ''prototype_governance_ledger'')]\<rparr>"

definition proto_ledger_items :: "ledger_item list" where
  "proto_ledger_items =
    [budget_ledger_item \<lparr>lsd_actual_cost = ''0.0064'', lsd_actual_tokens = Fin 1706,
    lsd_budget_id = ''00000000-0000-4000-8000-000000140002'',
    lsd_created_at = ''2026-01-01T09:11:31.000Z'', lsd_estimated_cost = ''0.0070'',
    lsd_estimated_tokens = Fin 1900, lsd_event_type = Ev_Settle,
    lsd_id = ''00000000-0000-4000-8000-000000160001'',
    lsd_reason = ''Qwen call settled to Customer Success department ledger.'',
    lsd_request_id = bud_primary_request, lsd_reservation_id = ''reserve-proto-run-001'',
    lsd_scope_id = bud_department, lsd_scope_type = Scope_Department\<rparr>,
    budget_ledger_item \<lparr>lsd_actual_cost = ''0.0000'', lsd_actual_tokens = Fin 0,
    lsd_budget_id = ''00000000-0000-4000-8000-000000140003'',
    lsd_created_at = ''2026-01-01T09:09:20.000Z'', lsd_estimated_cost = ''0.0410'',
    lsd_estimated_tokens = Fin 4200, lsd_event_type = Ev_Deny,
    lsd_id = ''00000000-0000-4000-8000-000000160002'',
    lsd_reason = ''Premium route denied before model call because Agent hard cap is above threshold.'',
    lsd_request_id = bud_denied_request, lsd_reservation_id = ''reserve-proto-run-002'',
    lsd_scope_id = bud_agent, lsd_scope_type = Scope_Agent\<rparr>,
    budget_ledger_item \<lparr>lsd_actual_cost = ''0.0031'', lsd_actual_tokens = Fin 2712,
    lsd_budget_id = ''00000000-0000-4000-8000-000000140003'',
    lsd_created_at = ''2026-01-01T09:09:29.000Z'', lsd_estimated_cost = ''0.0042'',
    lsd_estimated_tokens = Fin 3000, lsd_event_type = Ev_Settle,
    lsd_id = ''00000000-0000-4000-8000-000000160003'',
    lsd_reason = ''DeepSeek fallback settled after premium route denial.'',
    lsd_request_id = bud_fallback_request, lsd_reservation_id = ''reserve-proto-run-003'',
    lsd_scope_id = bud_agent, lsd_scope_type = Scope_Agent\<rparr>,
    budget_ledger_item \<lparr>lsd_actual_cost = ''0.0000'', lsd_actual_tokens = Fin 0,
    lsd_budget_id = ''00000000-0000-4000-8000-000000140002'',
    lsd_created_at = ''2026-01-01T09:08:50.000Z'', lsd_estimated_cost = ''0.0000'',
    lsd_estimated_tokens = Fin 0, lsd_event_type = Ev_Alert,
    lsd_id = ''00000000-0000-4000-8000-000000160004'',
    lsd_reason = ''Customer Success exceeded 75% soft threshold.'',
    lsd_request_id = ''proto-alert-001'', lsd_reservation_id = ''alert-customer-success'',
    lsd_scope_id = bud_department, lsd_scope_type = Scope_Department\<rparr>]"

record analytics_totals =
  at_total_requests :: jsnum
  at_total_tokens :: jsnum
  at_total_cost_usd :: jsnum
  at_success_rate :: jsnum

record model_usage =
  mu_model_key :: string
  mu_tokens :: jsnum
  mu_cost_usd :: jsnum
  mu_requests :: jsnum

record daily_usage =
  du_day_date :: string
  du_day_tokens :: jsnum
  du_day_cost_usd :: jsnum
  du_day_requests :: jsnum

record department_usage =
  du_dep_department_id :: "string option"
  du_dep_department_name :: string
  du_dep_tokens :: jsnum
  du_dep_cost_usd :: jsnum
  du_dep_requests :: jsnum

record user_usage =
  uu_user_id :: "string option"
  uu_user_name :: string
  uu_tokens :: jsnum
  uu_cost_usd :: jsnum
  uu_requests :: jsnum

record agent_usage =
  au_agent_agent_id :: "string option"
  au_agent_agent_name :: string
  au_agent_agent_key :: "string option"
  au_agent_tokens :: jsnum
  au_agent_cost_usd :: jsnum
  au_agent_requests :: jsnum

record analytics_overview =
  ao_totals :: analytics_totals
  ao_model_usage :: "model_usage list"
  ao_daily_usage :: "daily_usage list"
  ao_department_usage :: "department_usage list"
  ao_user_usage :: "user_usage list"
  ao_agent_usage :: "agent_usage list"
  ao_generated_at :: string
  ao_metadata :: props

definition proto_analytics_overview :: "analytics_overview" where
  "proto_analytics_overview =
    \<lparr>ao_totals = \<lparr>at_total_requests = Fin 3223, at_total_tokens = Fin 354520,
    at_total_cost_usd = to_number ''1018.76'', at_success_rate = to_number ''0.982''\<rparr>,
    ao_model_usage = [\<lparr>mu_model_key = ''qwen-plus'', mu_tokens = Fin 224300,
    mu_cost_usd = to_number ''616.28'', mu_requests = Fin 1560\<rparr>,
    \<lparr>mu_model_key = ''deepseek-v4-flash'', mu_tokens = Fin 84160,
    mu_cost_usd = to_number ''116.06'', mu_requests = Fin 620\<rparr>,
    \<lparr>mu_model_key = ''moonshot-v1-128k'', mu_tokens = Fin 46200,
    mu_cost_usd = to_number ''286.42'', mu_requests = Fin 1043\<rparr>,
    \<lparr>mu_model_key = ''gpt-4o'', mu_tokens = Fin 12860, mu_cost_usd = Fin 0,
    mu_requests = Fin 18\<rparr>], ao_daily_usage = [\<lparr>du_day_date = ''2026-01-01'',
    du_day_tokens = Fin 38200, du_day_cost_usd = to_number ''112.4'',
    du_day_requests = Fin 420\<rparr>, \<lparr>du_day_date = ''2026-01-02'',
    du_day_tokens = Fin 49600, du_day_cost_usd = to_number ''148.7'',
    du_day_requests = Fin 530\<rparr>, \<lparr>du_day_date = ''2026-01-03'',
    du_day_tokens = Fin 45240, du_day_cost_usd = to_number ''132.9'',
    du_day_requests = Fin 490\<rparr>, \<lparr>du_day_date = ''2026-01-04'',
    du_day_tokens = Fin 61200, du_day_cost_usd = to_number ''176.2'',
    du_day_requests = Fin 680\<rparr>, \<lparr>du_day_date = ''2026-01-05'',
    du_day_tokens = Fin 73460, du_day_cost_usd = to_number ''205.1'',
    du_day_requests = Fin 760\<rparr>, \<lparr>du_day_date = ''2026-01-06'',
    du_day_tokens = Fin 86820, du_day_cost_usd = to_number ''243.46'',
    du_day_requests = Fin 843\<rparr>],
    ao_department_usage = [\<lparr>du_dep_department_id = Some bud_department,
    du_dep_department_name = ''Customer Success'', du_dep_tokens = Fin 268100,
    du_dep_cost_usd = to_number ''716.28'', du_dep_requests = Fin 1840\<rparr>,
    \<lparr>du_dep_department_id = Some ''00000000-0000-4000-8000-000000000302'',
    du_dep_department_name = ''Marketing'', du_dep_tokens = Fin 86420,
    du_dep_cost_usd = to_number ''302.48'', du_dep_requests = Fin 1383\<rparr>],
    ao_user_usage = [\<lparr>uu_user_id = Some bud_user, uu_user_name = ''Operations Lead'',
    uu_tokens = Fin 268100, uu_cost_usd = to_number ''716.28'', uu_requests = Fin 1840\<rparr>,
    \<lparr>uu_user_id = Some ''00000000-0000-4000-8000-000000000203'',
    uu_user_name = ''Content Manager'', uu_tokens = Fin 52480, uu_cost_usd = to_number ''186.42'',
    uu_requests = Fin 870\<rparr>], ao_agent_usage = [\<lparr>au_agent_agent_id = Some bud_agent,
    au_agent_agent_name = ''E-commerce Customer Service Agent'',
    au_agent_agent_key = Some ''customer_service'', au_agent_tokens = Fin 268100,
    au_agent_cost_usd = to_number ''716.28'', au_agent_requests = Fin 1840\<rparr>,
    \<lparr>au_agent_agent_id = Some ''00000000-0000-4000-8000-000000000702'',
    au_agent_agent_name = ''Copywriting Assistant'', au_agent_agent_key = Some ''copywriting'',
    au_agent_tokens = Fin 52480, au_agent_cost_usd = to_number ''186.42'',
    au_agent_requests = Fin 870\<rparr>], ao_generated_at = bud_now,
    ao_metadata = [(''budget_guard'', JStr ''pre-call enforced''), (''demo_request_id'',
    JStr bud_primary_request), (''fallback_request_id'', JStr bud_fallback_request), (''license'',
    JStr ''enterprise-active''), (''storage'', JStr ''postgres-pgvector-minio'')]\<rparr>"

definition proto_budget_summary :: "budget_period \<Rightarrow> budget_summary" where
  "proto_budget_summary period =
     (let scale = (if period = Daily then to_number ''0.08'' else Fin 1) in
    \<lparr>bs_tenant_id = bud_tenant, bs_currency = ''USD'', bs_period = period,
    bs_period_start = (if period = Daily then bud_day_start else bud_month_start),
    bs_period_end = (if period = Daily then bud_day_end else bud_month_end),
    bs_generated_at = bud_now, bs_policy_count = Fin 3, bs_active_policy_count = Fin 3,
    bs_hard_policy_count = Fin 2, bs_soft_policy_count = Fin 1, bs_warning_policy_count = Fin 2,
    bs_exceeded_policy_count = Fin 0, bs_total_amount_limit = ''1975.0000'',
    bs_total_amount_spent = to_fixed 4 (num_mult (to_number ''1018.76'') scale),
    bs_total_token_limit = Some (Fin 1410000),
    bs_total_tokens_used = num_round (num_mult (Fin 354520) scale),
    bs_by_scope = [\<lparr>sc_scope_type = Scope_Tenant, sc_policy_count = Fin 1,
    sc_active_policy_count = Fin 1, sc_amount_limit = ''1000.0000'',
    sc_amount_spent = to_fixed 4 (num_mult (to_number ''186.42'') scale),
    sc_token_limit = Some (Fin 1000000),
    sc_tokens_used = num_round (num_mult (Fin 248360) scale)\<rparr>,
    \<lparr>sc_scope_type = Scope_Department, sc_policy_count = Fin 1,
    sc_active_policy_count = Fin 1, sc_amount_limit = ''850.0000'',
    sc_amount_spent = to_fixed 4 (num_mult (to_number ''716.28'') scale),
    sc_token_limit = Some (Fin 320000),
    sc_tokens_used = num_round (num_mult (Fin 268100) scale)\<rparr>,
    \<lparr>sc_scope_type = Scope_Agent, sc_policy_count = Fin 1, sc_active_policy_count = Fin 1,
    sc_amount_limit = ''125.0000'',
    sc_amount_spent = to_fixed 4 (num_mult (to_number ''116.06'') scale),
    sc_token_limit = Some (Fin 90000),
    sc_tokens_used = num_round (num_mult (Fin 84160) scale)\<rparr>],
    bs_metadata = [(''demo_request_id'', JStr bud_primary_request), (''fallback_request_id'',
    JStr bud_fallback_request), (''governance_flow'',
    JStr ''pre_call_reserve -> budget_guard -> model_route -> usage_settle -> ledger''),
    (''source'', JStr ''prototype_governance_ledger'')]\<rparr>)"

definition proto_usage_ledger :: usage_ledger where
  "proto_usage_ledger =
     \<lparr>ulr_items = proto_usage_items, ulr_total = num_of_nat (length proto_usage_items), ulr_limit = Fin 12,
      ulr_offset = Fin 0\<rparr>"

definition proto_budget_ledger :: budget_ledger where
  "proto_budget_ledger =
     \<lparr>blr_items = proto_ledger_items, blr_total = num_of_nat (length proto_ledger_items), blr_limit = Fin 12,
      blr_offset = Fin 0\<rparr>"

section \<open>Breakdown\<close>

definition breakdown_counted ::
  "usage_dimension \<Rightarrow> string \<Rightarrow> string \<Rightarrow> int \<Rightarrow> jsnum \<Rightarrow> int \<Rightarrow> breakdown_item" where
  \<comment> \<open>\<open>usageBreakdownModel\<close> and \<open>usageBreakdownStatus\<close>, which differ in the dimension only\<close>
  "breakdown_counted dm key cost requests tokens errors =
     \<lparr>ub_dimension = dm, ub_key = key, ub_label = Some key, ub_request_count = Fin (of_int requests),
      ub_success_count = Fin (of_int (requests - errors)), ub_error_count = Fin (of_int errors),
      ub_input_tokens = tokens, ub_output_tokens = Fin 0, ub_total_tokens = tokens, ub_cost_amount = cost,
      ub_currency = ''USD'', ub_last_used_at = Some ''2026-01-01T09:11:30.000Z''\<rparr>"

definition breakdown_shared :: "usage_dimension \<Rightarrow> string \<Rightarrow> string \<Rightarrow> breakdown_item" where
  "breakdown_shared dm key lbl =
     \<lparr>ub_dimension = dm, ub_key = key, ub_label = Some lbl, ub_request_count = Fin 3, ub_success_count = Fin 2,
      ub_error_count = Fin 1, ub_input_tokens = Fin 5480, ub_output_tokens = Fin 1038,
      ub_total_tokens = Fin 6518, ub_cost_amount = ''0.0095'', ub_currency = ''USD'',
      ub_last_used_at = Some ''2026-01-01T09:11:30.000Z''\<rparr>"

definition breakdown_items :: "usage_dimension \<Rightarrow> breakdown_item list" where
  "breakdown_items dm =
     (case dm of
        By_Agent \<Rightarrow> [breakdown_shared dm bud_agent ''E-commerce Customer Service Agent'']
      | By_Channel \<Rightarrow> [breakdown_shared dm bud_channel ''Support Web Widget'']
      | By_Cost_Center \<Rightarrow> [breakdown_shared dm bud_cost_center ''CS - Customer Success'']
      | By_Department \<Rightarrow> [breakdown_shared dm bud_department ''Customer Success'']
      | By_User \<Rightarrow> [breakdown_shared dm bud_user ''Operations Lead'']
      | By_Model \<Rightarrow>
          [breakdown_counted By_Model ''qwen-plus'' ''0.0064'' 1 (Fin 1706) 0,
           breakdown_counted By_Model ''deepseek-v4-flash'' ''0.0031'' 1 (Fin 2712) 0,
           breakdown_counted By_Model ''gpt-4o'' ''0.0000'' 1 (Fin 2100) 1]
      | By_Status \<Rightarrow>
          [breakdown_counted By_Status ''success'' ''0.0095'' 2 (Fin 4418) 0,
           breakdown_counted By_Status ''denied'' ''0.0000'' 1 (Fin 2100) 1])"

definition sum_currency :: "breakdown_item list \<Rightarrow> string" where
  "sum_currency items = to_fixed 4 (fold (\<lambda>i total. num_add total (to_number (ub_cost_amount i))) items (Fin 0))"

definition proto_usage_breakdown :: "usage_dimension \<Rightarrow> usage_breakdown" where
  "proto_usage_breakdown dm =
     (let items = breakdown_items dm in
      \<lparr>ubr_tenant_id = bud_tenant, ubr_dimension = dm, ubr_period_start = Some bud_month_start,
       ubr_period_end = Some bud_month_end, ubr_items = items,
       ubr_total_request_count = fold (\<lambda>i total. num_add total (ub_request_count i)) items (Fin 0),
       ubr_total_cost_amount = sum_currency items,
       ubr_total_tokens = fold (\<lambda>i total. num_add total (ub_total_tokens i)) items (Fin 0)\<rparr>)"

section \<open>Changing a policy\<close>

definition create_budget_policy :: "string \<Rightarrow> budget_policy_request \<Rightarrow> budget_policy" where
  "create_budget_policy now p =
     \<lparr>bp_id = coalesce (bpr_id p) ''00000000-0000-4000-8000-000000149999'', bp_tenant_id = bud_tenant,
      bp_name = bpr_name p, bp_description = bpr_description p, bp_scope_type = bpr_scope_type p,
      bp_scope_id = bpr_scope_id p, bp_period = bpr_period p,
      bp_custom_period_start = bpr_custom_period_start p, bp_custom_period_end = bpr_custom_period_end p,
      bp_budget_type = bpr_budget_type p, bp_currency = bpr_currency p,
      bp_amount_limit = js_string (bpr_amount_limit p), bp_amount_spent = ''0.0000'',
      bp_token_limit = bpr_token_limit p, bp_tokens_used = Fin 0,
      bp_alert_threshold_pct = bpr_alert_threshold_pct p, bp_status = bpr_status p,
      bp_health = Health_Ok, bp_created_at = bud_now, bp_updated_at = now\<rparr>"

definition update_budget_policy_status :: "string \<Rightarrow> string \<Rightarrow> policy_status \<Rightarrow> budget_policy" where
  "update_budget_policy_status now pid st =
     (let existing = coalesce (List.find (\<lambda>p. bp_id p = pid) proto_budget_policies) (hd proto_budget_policies)
      in existing\<lparr>bp_status := st, bp_updated_at := now\<rparr>)"

section \<open>Targets\<close>

definition proto_budget_targets :: "budget_targets" where
  "proto_budget_targets =
    \<lparr>bts_departments = [\<lparr>bt_id = ''00000000-0000-4000-8000-000000000301'',
    bt_label = ''Customer Success'',
    bt_description = Some ''Owns customer-facing Agent workflows and knowledge quality.'',
    bt_status = None, bt_metadata = [(''parent_id'', JNull), (''sort_order'',
    JNum (Fin 10))]\<rparr>],
    bts_cost_centers = [\<lparr>bt_id = ''00000000-0000-4000-8000-000000000401'',
    bt_label = ''CS - Customer Success'',
    bt_description = Some ''Monthly model spend for customer-facing Agent operations.'',
    bt_status = Some ''active'', bt_metadata = [(''code'', JStr ''CS''), (''department_id'',
    JStr ''00000000-0000-4000-8000-000000000301''), (''monthly_budget_usd'',
    JStr ''2500.0000'')]\<rparr>],
    bts_users = [\<lparr>bt_id = ''00000000-0000-4000-8000-000000000201'',
    bt_label = ''Deployment Admin (admin@agenthive.internal)'', bt_description = None,
    bt_status = Some ''active'', bt_metadata = [(''email'', JStr ''admin@agenthive.internal''),
    (''is_tenant_admin'', JBool True)]\<rparr>],
    bts_agents = [\<lparr>bt_id = ''00000000-0000-4000-8000-000000000701'',
    bt_label = ''Customer Service Assistant (customer_service:customer-service, active)'',
    bt_description = Some ''Customer service Agent instance for support workflows.'',
    bt_status = Some ''active'', bt_metadata = [(''agent_key'', JStr ''customer_service''),
    (''department_id'', JStr ''00000000-0000-4000-8000-000000000301''), (''module_key'',
    JStr ''agent.customer_service''), (''visibility'', JStr ''department'')]\<rparr>],
    bts_channels = [\<lparr>bt_id = ''00000000-0000-4000-8000-000000000801'',
    bt_label = ''Web Widget (web_widget:default)'', bt_description = None,
    bt_status = Some ''active'', bt_metadata = [(''agent_id'',
    JStr ''00000000-0000-4000-8000-000000000701''), (''channel_key'', JStr ''default''),
    (''channel_type'', JStr ''web_widget'')]\<rparr>]\<rparr>"

section \<open>Export\<close>

definition usage_row :: "usage_item \<Rightarrow> props" where
  "usage_row r =
    [(''agent_id'', opt_str (ul_agent_id r)), (''channel_id'', opt_str (ul_channel_id r)),
    (''conversation_id'', opt_str (ul_conversation_id r)), (''cost_amount'',
    JStr (ul_cost_amount r)), (''cost_center_id'', opt_str (ul_cost_center_id r)), (''created_at'',
    JStr (ul_created_at r)), (''currency'', JStr (ul_currency r)), (''department_id'',
    opt_str (ul_department_id r)), (''deployment_id'', opt_str (ul_deployment_id r)),
    (''error_code'', opt_str (ul_error_code r)), (''id'', JStr (ul_id r)), (''input_tokens'',
    JNum (ul_input_tokens r)), (''metadata'', JObj (ul_metadata r)), (''model_key'',
    JStr (ul_model_key r)), (''output_tokens'', JNum (ul_output_tokens r)), (''request_id'',
    JStr (ul_request_id r)), (''status'', JStr (ul_status r)), (''tenant_id'',
    JStr (ul_tenant_id r)), (''total_tokens'', JNum (ul_total_tokens r)), (''user_id'',
    opt_str (ul_user_id r))]"

definition ledger_row :: "ledger_item \<Rightarrow> props" where
  "ledger_row r =
    [(''actual_cost_amount'', JStr (bl_actual_cost_amount r)), (''actual_tokens'',
    JNum (bl_actual_tokens r)), (''agent_id'', opt_str (bl_agent_id r)), (''budget_id'',
    opt_str (bl_budget_id r)), (''channel_id'', opt_str (bl_channel_id r)), (''conversation_id'',
    opt_str (bl_conversation_id r)), (''cost_center_id'', opt_str (bl_cost_center_id r)),
    (''created_at'', JStr (bl_created_at r)), (''currency'', JStr (bl_currency r)),
    (''department_id'', opt_str (bl_department_id r)), (''estimated_cost_amount'',
    JStr (bl_estimated_cost_amount r)), (''estimated_tokens'', JNum (bl_estimated_tokens r)),
    (''event_type'', JStr (budget_event_str (bl_event_type r))), (''id'', JStr (bl_id r)),
    (''metadata'', JObj (bl_metadata r)), (''reason'', opt_str (bl_reason r)), (''request_id'',
    JStr (bl_request_id r)), (''reservation_id'', JStr (bl_reservation_id r)), (''scope_id'',
    opt_str (bl_scope_id r)), (''scope_type'', JStr (budget_scope_str (bl_scope_type r))),
    (''tenant_id'', JStr (bl_tenant_id r)), (''user_id'', opt_str (bl_user_id r))]"

datatype export_format = Csv | Json
datatype export_ledger = Budget_Rows | Usage_Rows

definition export_rows :: "export_ledger \<Rightarrow> props list" where
  "export_rows l =
     (case l of Budget_Rows \<Rightarrow> map ledger_row proto_ledger_items | Usage_Rows \<Rightarrow> map usage_row proto_usage_items)"

definition csv_cell :: "props \<Rightarrow> string \<Rightarrow> string" where
  "csv_cell row k = stringify (js_coalesce (get_prop k (JObj row)) (JStr []))"

definition budget_export :: "export_format \<Rightarrow> export_ledger \<Rightarrow> string" where
  "budget_export fmt l =
     (let rows = export_rows l in
      case fmt of
        Json \<Rightarrow> stringify_pretty (JArr (map JObj rows))
      | Csv \<Rightarrow>
          let keys = (case rows of [] \<Rightarrow> [] | r # _ \<Rightarrow> map fst r)
          in join [nl] (join '','' keys # map (\<lambda>r. join '','' (map (csv_cell r) keys)) rows))"

end
