(* ===== verification/Page_Env.thy ===== *)
theory Page_Env
  imports Resource_Hooks Action_Hooks Access
begin

text \<open>
  What a page is given: whether the console runs on the prototype data, the signed-in user, and the
  messages of the current language; and the checklists of the pages, whose entries are passed, to be
  reviewed or blocked.
\<close>

record page_env =
  in_prototype :: bool
  page_user :: "auth_user option"
  page_t :: "string \<Rightarrow> string"

definition has_permission :: "string \<Rightarrow> page_env \<Rightarrow> bool" where
  \<comment> \<open>\<open>isPrototype || canAccess(user, [permission])\<close>\<close>
  "has_permission p env \<longleftrightarrow> in_prototype env \<or> can_access (page_user env) (Some [p]) None"

section \<open>Checklists\<close>

datatype check_tone = Check_Ok | Check_Warning | Check_Blocked

definition checks_passed :: "(string \<times> check_tone) list \<Rightarrow> nat" where
  "checks_passed cs = length (filter (\<lambda>c. snd c = Check_Ok) cs)"

definition preferred_check :: "(string \<times> check_tone) list \<Rightarrow> string \<Rightarrow> string" where
  \<comment> \<open>the first blocked entry, or the first to be reviewed, or the given one\<close>
  "preferred_check cs d =
     coalesce (or_else (map_option fst (List.find (\<lambda>c. snd c = Check_Blocked) cs))
       (map_option fst (List.find (\<lambda>c. snd c = Check_Warning) cs))) d"

end
