(* ===== verification/Query_Params.thy ===== *)
theory Query_Params
  imports Api_Client
begin

text \<open>
  \<open>URLSearchParams\<close>, with which the API modules write the query of a request: \<open>set\<close>, and the
  \<open>application/x-www-form-urlencoded\<close> text of \<open>toString\<close>.  \<open>parse_query\<close> is what a server reads
  from it; \<open>parse_query_string\<close> is the round trip every query of the client relies on.  A string is
  its UTF-8 bytes.
\<close>

section \<open>Writing\<close>

definition form_safe :: "char \<Rightarrow> bool" where
  "form_safe c \<longleftrightarrow>
     (let n = of_char c :: nat in
      (48 \<le> n \<and> n \<le> 57) \<or> (65 \<le> n \<and> n \<le> 90) \<or> (97 \<le> n \<and> n \<le> 122) \<or>
      c = CHR ''*'' \<or> c = CHR ''-'' \<or> c = CHR ''.'' \<or> c = CHR ''_'')"

definition form_byte :: "char \<Rightarrow> string" where
  "form_byte c =
     (if form_safe c then [c]
      else if c = CHR '' '' then ''+''
      else [CHR ''%'', upper_hex (of_char c div 16), upper_hex (of_char c mod 16)])"

definition form_encode :: "string \<Rightarrow> string" where
  "form_encode s = concat (map form_byte s)"

type_synonym query = "(string \<times> string) list"

definition query_string :: "query \<Rightarrow> string" where \<comment> \<open>\<open>params.toString()\<close>\<close>
  "query_string q = join ''&'' (map (\<lambda>(k, v). form_encode k @ ''='' @ form_encode v) q)"

definition query_suffix :: "query \<Rightarrow> string" where \<comment> \<open>\<open>query ? `?${query}` : ""\<close>\<close>
  "query_suffix q = (if query_string q = [] then [] else CHR ''?'' # query_string q)"

definition put_trimmed :: "string \<Rightarrow> string option \<Rightarrow> query \<Rightarrow> query" where
  \<comment> \<open>\<open>const value = filters[key]?.trim(); if (value) params.set(key, value)\<close>\<close>
  "put_trimmed k v q =
     (case v of None \<Rightarrow> q | Some s \<Rightarrow> if trim s = [] then q else obj_put k (trim s) q)"

definition put_given :: "string \<Rightarrow> string option \<Rightarrow> query \<Rightarrow> query" where
  \<comment> \<open>\<open>if (filters.k) params.set(k, filters.k)\<close>\<close>
  "put_given k v q = (case v of None \<Rightarrow> q | Some s \<Rightarrow> if s = [] then q else obj_put k s q)"

section \<open>Reading\<close>

fun form_decode :: "string \<Rightarrow> string" where
  "form_decode (CHR ''%'' # a # b # s) =
     (case (hex_val a, hex_val b) of
        (Some x, Some y) \<Rightarrow> char_of (16 * x + y) # form_decode s
      | _ \<Rightarrow> CHR ''%'' # form_decode (a # b # s))"
| "form_decode (CHR ''+'' # s) = CHR '' '' # form_decode s"
| "form_decode (c # s) = c # form_decode s"
| "form_decode [] = []"

definition parse_pair :: "string \<Rightarrow> string \<times> string" where
  "parse_pair s =
     (case break_on ''='' s of
        None \<Rightarrow> (form_decode s, [])
      | Some (k, v) \<Rightarrow> (form_decode k, form_decode v))"

definition parse_query :: "string \<Rightarrow> query" where
  "parse_query s = map parse_pair (filter (\<lambda>p. p \<noteq> []) (split ''&'' s))"

section \<open>Round trip\<close>

lemma form_safe_plain:
  "form_safe c \<Longrightarrow> c \<noteq> CHR ''%'' \<and> c \<noteq> CHR ''+'' \<and> c \<noteq> CHR ''&'' \<and> c \<noteq> CHR ''='' \<and> c \<noteq> CHR '' ''"
  by (auto simp: form_safe_def Let_def)

lemma upper_hex_safe: "n < 16 \<Longrightarrow> form_safe (upper_hex n)"
  by (auto simp: form_safe_def upper_hex_def of_char_mod_256 Let_def)

lemma form_decode_safe: "c \<noteq> CHR ''%'' \<Longrightarrow> c \<noteq> CHR ''+'' \<Longrightarrow> form_decode (c # s) = c # form_decode s"
  by (cases "c # s" rule: form_decode.cases) auto

lemma form_decode_byte: "form_decode (form_byte c @ s) = c # form_decode s"
proof -
  have d: "of_char c div 16 < (16 :: nat)" "of_char c mod 16 < (16 :: nat)"
    using nat_of_char_less_256 [of c] by linarith simp
  show ?thesis
    using form_safe_plain [of c] d
    by (auto simp: form_byte_def form_decode_safe hex_val_upper_hex)
qed

lemma form_roundtrip [simp]: "form_decode (form_encode s) = s"
  by (induction s) (simp_all add: form_encode_def form_decode_byte)

lemma form_byte_chars: "x \<in> set (form_byte c) \<Longrightarrow> x \<noteq> CHR ''&'' \<and> x \<noteq> CHR ''=''"
proof -
  assume "x \<in> set (form_byte c)"
  moreover have d: "of_char c div 16 < (16 :: nat)" "of_char c mod 16 < (16 :: nat)"
    using nat_of_char_less_256 [of c] by linarith simp
  ultimately show ?thesis
    using form_safe_plain upper_hex_safe [OF d(1)] upper_hex_safe [OF d(2)]
    by (auto simp: form_byte_def split: if_splits)
qed

lemma form_encode_chars [simp]: "CHR ''&'' \<notin> set (form_encode s)" "CHR ''='' \<notin> set (form_encode s)"
  using form_byte_chars by (auto simp: form_encode_def)

lemma parse_pair_encoded [simp]: "parse_pair (form_encode k @ ''='' @ form_encode v) = (k, v)"
  by (simp add: parse_pair_def break_on_char)

lemma split_joined:
  "(\<And>x. x \<in> set xs \<Longrightarrow> c \<notin> set x) \<Longrightarrow> xs \<noteq> [] \<Longrightarrow> split [c] (join [c] xs) = xs"
proof (induction xs)
  case (Cons x xs)
  then show ?case by (cases xs) (simp_all add: split_char_single split_char_Cons)
qed simp

lemma parse_query_string: "parse_query (query_string q) = q"
proof (cases q)
  case Nil
  then show ?thesis by (simp add: query_string_def parse_query_def split_char_single)
next
  case (Cons p r)
  let ?enc = "map (\<lambda>(k, v). form_encode k @ ''='' @ form_encode v) q"
  have "split ''&'' (join ''&'' ?enc) = ?enc"
    by (rule split_joined) (auto simp: Cons)
  moreover have "filter (\<lambda>p. p \<noteq> []) ?enc = ?enc"
    by (rule filter_True) auto
  moreover have "map parse_pair ?enc = q"
    using parse_pair_encoded by (induction q) (auto simp del: append_Cons)
  ultimately show ?thesis by (simp add: query_string_def parse_query_def)
qed

section \<open>Filters\<close>

definition written_filters :: "(string \<times> string option) list \<Rightarrow> query" where
  \<comment> \<open>the filters that are given and not blank, trimmed\<close>
  "written_filters fs =
     map (\<lambda>(k, v). (k, trim (coalesce v []))) (filter (\<lambda>(k, v). trim (coalesce v []) \<noteq> []) fs)"

lemma written_filters_Cons:
  "written_filters ((k, v) # fs) =
   (if trim (coalesce v []) = [] then written_filters fs else (k, trim (coalesce v [])) # written_filters fs)"
  by (simp add: written_filters_def)

lemma obj_put_fresh: "k \<notin> fst ` set q \<Longrightarrow> obj_put k v q = q @ [(k, v)]"
  by (induction k v q rule: obj_put.induct) auto

lemma put_trimmed_fresh:
  "k \<notin> fst ` set q \<Longrightarrow>
   put_trimmed k v q = (if trim (coalesce v []) = [] then q else q @ [(k, trim (coalesce v []))])"
  by (cases v) (simp_all add: put_trimmed_def obj_put_fresh)

lemma put_all_written:
  "distinct (map fst (q @ map (\<lambda>(k, v). (k, [])) fs)) \<Longrightarrow>
   fold (\<lambda>(k, v). put_trimmed k v) fs q = q @ written_filters fs"
proof (induction fs arbitrary: q)
  case Nil
  then show ?case by (simp add: written_filters_def)
next
  case (Cons kv fs)
  obtain k v where kv: "kv = (k, v)" by (cases kv)
  with Cons.prems have "k \<notin> fst ` set q" by auto
  with Cons kv show ?case
    by (auto simp: put_trimmed_fresh written_filters_Cons)
qed

end
