(* ===== verification/Budget_Page.thy ===== *)
theory Budget_Page
  imports Budget_Data Page_Env Query_Params
begin

text \<open>
  Budget governance: the requests of \<open>lib/api/budgets.ts\<close>, the hooks of \<open>hooks/admin/budgets.ts\<close>, the
  policy form of \<open>pages/budgets/budgetUtils.ts\<close>, and the page that ties them together,
  \<open>pages/budgets/useBudgetsPageController.ts\<close>.  Answers of the server are arguments of the
  operations that wait for them; the message table is part of the environment.
\<close>

section \<open>Requests\<close>

definition budget_summary_path :: "summary_filters \<Rightarrow> string" where
  "budget_summary_path f =
     ''/api/v1/budgets/summary'' @
     query_suffix
       (put_given ''period_end'' (sf_period_end f)
         (put_given ''period_start'' (sf_period_start f)
           (put_given ''period'' (map_option budget_period_str (sf_period f)) [])))"

definition usage_ledger_params :: "usage_filters \<Rightarrow> query" where
  "usage_ledger_params f =
     fold (\<lambda>(k, v). put_trimmed k v)
       [(''start'', uf_start f), (''end'', uf_end f), (''user_id'', uf_user_id f),
        (''department_id'', uf_department_id f), (''cost_center_id'', uf_cost_center_id f),
        (''agent_id'', uf_agent_id f), (''channel_id'', uf_channel_id f), (''model_key'', uf_model_key f),
        (''status'', uf_status f)]
       [(''limit'', num_str (coalesce (uf_limit f) (Fin 50)))]"

definition ledger_filter_fields :: "ledger_filters \<Rightarrow> (string \<times> string option) list" where
  "ledger_filter_fields f =
       [(''start'', lf_start f), (''end'', lf_end f), (''budget_id'', lf_budget_id f),
        (''reservation_id'', lf_reservation_id f), (''request_id'', lf_request_id f),
        (''event_type'', map_option budget_event_str (lf_event_type f)),
        (''scope_type'', map_option budget_scope_str (lf_scope_type f)), (''scope_id'', lf_scope_id f),
        (''user_id'', lf_user_id f), (''department_id'', lf_department_id f),
        (''cost_center_id'', lf_cost_center_id f), (''agent_id'', lf_agent_id f),
        (''channel_id'', lf_channel_id f)]"

definition budget_ledger_params :: "ledger_filters \<Rightarrow> query" where
  "budget_ledger_params f =
     fold (\<lambda>(k, v). put_trimmed k v) (ledger_filter_fields f)
       [(''limit'', num_str (coalesce (lf_limit f) (Fin 50)))]"

definition budget_ledger_csv_path :: "ledger_filters \<Rightarrow> string" where
  "budget_ledger_csv_path f =
     ''/api/v1/budgets/budget-ledger/export?'' @
     query_string (budget_ledger_params (f\<lparr>lf_limit := Some (coalesce (lf_limit f) (Fin 5000))\<rparr>))"

definition budget_ledger_json_path :: "ledger_filters \<Rightarrow> string" where
  "budget_ledger_json_path f =
     ''/api/v1/budgets/budget-ledger/export?'' @
     query_string (obj_put ''format'' ''json''
       (budget_ledger_params (f\<lparr>lf_limit := Some (coalesce (lf_limit f) (Fin 5000))\<rparr>)))"

definition usage_ledger_csv_path :: "usage_filters \<Rightarrow> string" where
  "usage_ledger_csv_path f =
     ''/api/v1/budgets/usage-ledger/export?'' @
     query_string (usage_ledger_params (f\<lparr>uf_limit := Some (coalesce (uf_limit f) (Fin 5000))\<rparr>))"

definition usage_ledger_json_path :: "usage_filters \<Rightarrow> string" where
  "usage_ledger_json_path f =
     ''/api/v1/budgets/usage-ledger/export?'' @
     query_string (obj_put ''format'' ''json''
       (usage_ledger_params (f\<lparr>uf_limit := Some (coalesce (uf_limit f) (Fin 5000))\<rparr>)))"

definition usage_breakdown_path :: "usage_dimension \<Rightarrow> string" where
  "usage_breakdown_path d =
     ''/api/v1/budgets/usage-breakdown?dimension='' @ usage_dimension_str d @ ''&limit=8''"

section \<open>Hooks\<close>

definition load_budget_summary ::
  "bool \<Rightarrow> budget_period \<Rightarrow> (budget_period, budget_summary) resource \<Rightarrow> (budget_period, budget_summary) resource" where
  "load_budget_summary proto period s =
     (if proto then show_now (loaded (proto_budget_summary period)) s else ask period s)"

definition budget_summary_answered ::
  "(string \<Rightarrow> string) \<Rightarrow> nat \<Rightarrow> (nat \<Rightarrow> exn + budget_summary) \<Rightarrow>
   (budget_period, budget_summary) resource \<Rightarrow> (budget_period, budget_summary) resource" where
  "budget_summary_answered t n attempts = plain_answer n (settle t (retried attempts))"

record budget_policy_list =
  bpl_policies :: "budget_policy list"

definition load_budget_policies :: "bool \<Rightarrow> (unit, budget_policy list) resource \<Rightarrow> (unit, budget_policy list) resource" where
  "load_budget_policies proto s =
     (if proto then show_now (loaded proto_budget_policies) s else ask () s)"

definition budget_policies_answered ::
  "(string \<Rightarrow> string) \<Rightarrow> nat \<Rightarrow> (nat \<Rightarrow> exn + budget_policy_list) \<Rightarrow>
   (unit, budget_policy list) resource \<Rightarrow> (unit, budget_policy list) resource" where
  "budget_policies_answered t n attempts =
     plain_answer n (settle t (map_sum id bpl_policies (retried attempts)))"

definition load_usage_ledger :: "bool \<Rightarrow> (unit, usage_ledger) resource \<Rightarrow> (unit, usage_ledger) resource" where
  "load_usage_ledger proto s = (if proto then show_now (loaded proto_usage_ledger) s else ask () s)"

definition usage_ledger_answered ::
  "(string \<Rightarrow> string) \<Rightarrow> nat \<Rightarrow> (nat \<Rightarrow> exn + usage_ledger) \<Rightarrow>
   (unit, usage_ledger) resource \<Rightarrow> (unit, usage_ledger) resource" where
  "usage_ledger_answered t n attempts = plain_answer n (settle t (retried attempts))"

definition load_budget_ledger :: "bool \<Rightarrow> (unit, budget_ledger) resource \<Rightarrow> (unit, budget_ledger) resource" where
  "load_budget_ledger proto s = (if proto then show_now (loaded proto_budget_ledger) s else ask () s)"

definition budget_ledger_answered ::
  "(string \<Rightarrow> string) \<Rightarrow> nat \<Rightarrow> (nat \<Rightarrow> exn + budget_ledger) \<Rightarrow>
   (unit, budget_ledger) resource \<Rightarrow> (unit, budget_ledger) resource" where
  "budget_ledger_answered t n attempts = plain_answer n (settle t (retried attempts))"

definition load_usage_breakdown ::
  "bool \<Rightarrow> usage_dimension \<Rightarrow> (usage_dimension, usage_breakdown) resource \<Rightarrow>
   (usage_dimension, usage_breakdown) resource" where
  "load_usage_breakdown proto d s =
     (if proto then show_now (loaded (proto_usage_breakdown d)) s else ask d s)"

definition usage_breakdown_answered ::
  "(string \<Rightarrow> string) \<Rightarrow> nat \<Rightarrow> (nat \<Rightarrow> exn + usage_breakdown) \<Rightarrow>
   (usage_dimension, usage_breakdown) resource \<Rightarrow> (usage_dimension, usage_breakdown) resource" where
  "usage_breakdown_answered t n attempts = plain_answer n (settle t (retried attempts))"

definition load_budget_targets :: "bool \<Rightarrow> (unit, budget_targets) resource \<Rightarrow> (unit, budget_targets) resource" where
  "load_budget_targets proto s = (if proto then show_now (loaded proto_budget_targets) s else ask () s)"

definition budget_targets_answered ::
  "(string \<Rightarrow> string) \<Rightarrow> nat \<Rightarrow> (nat \<Rightarrow> exn + budget_targets) \<Rightarrow>
   (unit, budget_targets) resource \<Rightarrow> (unit, budget_targets) resource" where
  "budget_targets_answered t n attempts = plain_answer n (settle t (retried attempts))"

datatype budget_mark = Saving_Policy | Policy_Status

definition save_budget_policy ::
  "(string \<Rightarrow> string) \<Rightarrow> exn + budget_policy \<Rightarrow> budget_mark actions \<Rightarrow> budget_policy option \<times> budget_mark actions" where
  "save_budget_policy t =
     run_action t True Saving_Policy []
       (\<lambda>r. replace_first ''{{type}}'' (limit_type_str (bp_budget_type r))
              (replace_first ''{{scope}}'' (budget_scope_str (bp_scope_type r)) (t ''budgetsPolicySaved'')))"

definition budget_policy_status ::
  "(string \<Rightarrow> string) \<Rightarrow> string \<Rightarrow> exn + budget_policy \<Rightarrow> budget_mark actions \<Rightarrow>
   budget_policy option \<times> budget_mark actions" where
  "budget_policy_status t pid =
     run_action t True Policy_Status pid (\<lambda>_. t ''budgetsPolicyStatusUpdated'')"

section \<open>The policy form\<close>

record budget_form =
  bf_alert_threshold :: string
  bf_amount_limit :: string
  bf_budget_type :: limit_type
  bf_name :: string
  bf_period :: budget_period
  bf_scope_id :: string
  bf_scope_type :: budget_scope
  bf_token_limit :: string

definition capitalized :: "string \<Rightarrow> string" where
  "capitalized p = to_upper (take 1 p) @ drop 1 p"

definition scope_key_suffix :: "budget_scope \<Rightarrow> string" where
  "scope_key_suffix sc = concat (map capitalized (split ''_'' (budget_scope_str sc)))"

definition format_scope :: "budget_scope \<Rightarrow> (string \<Rightarrow> string) option \<Rightarrow> string" where
  "format_scope sc t =
     (case t of
        Some f \<Rightarrow> f (''budgetsScope'' @ scope_key_suffix sc)
      | None \<Rightarrow> join '' '' (map capitalized (split ''_'' (budget_scope_str sc))))"

definition format_budget_status :: "budget_policy \<Rightarrow> string" where
  "format_budget_status p =
     (if bp_status p = Policy_Inactive then ''INACTIVE''
      else if bp_health p = Health_Exceeded then ''EXCEEDED''
      else if bp_health p = Health_Warning then ''WARNING''
      else ''NORMAL'')"

definition target_option :: "budget_target \<Rightarrow> string \<times> string" where
  "target_option x =
     (bt_id x,
      case bt_status x of
        None \<Rightarrow> bt_label x
      | Some st \<Rightarrow> if st \<noteq> [] \<and> st \<noteq> ''active'' then bt_label x @ '' ('' @ st @ '')'' else bt_label x)"

definition budget_scope_options :: "budget_scope \<Rightarrow> budget_targets \<Rightarrow> (string \<times> string) list" where
  "budget_scope_options sc targets =
     (case sc of
        Scope_Department \<Rightarrow> map target_option (bts_departments targets)
      | Scope_Cost_Center \<Rightarrow> map target_option (bts_cost_centers targets)
      | Scope_User \<Rightarrow> map target_option (bts_users targets)
      | Scope_Channel \<Rightarrow> map target_option (bts_channels targets)
      | Scope_Agent \<Rightarrow> map target_option (bts_agents targets)
      | Scope_Tenant \<Rightarrow> [])"

definition is_positive_decimal :: "string \<Rightarrow> bool" where
  "is_positive_decimal v =
     (trim v \<noteq> [] \<and> num_is_finite (to_number (trim v)) \<and> num_less (Fin 0) (to_number (trim v)))"

definition is_positive_integer :: "string \<Rightarrow> bool" where
  "is_positive_integer v =
     (trim v \<noteq> [] \<and> num_is_safe_integer (to_number (trim v)) \<and> num_less (Fin 0) (to_number (trim v)))"

definition form_valid_limit :: "budget_form \<Rightarrow> bool" where
  "form_valid_limit f \<longleftrightarrow> is_positive_decimal (bf_amount_limit f) \<or> is_positive_integer (bf_token_limit f)"

definition form_valid_threshold :: "budget_form \<Rightarrow> bool" where
  "form_valid_threshold f \<longleftrightarrow>
     (let v = to_number (trim (bf_alert_threshold f)) in
      num_is_finite v \<and> num_less (Fin 0) v \<and> num_le v (Fin 100))"

definition policy_payload :: "budget_form \<Rightarrow> budget_policy_request" where
  "policy_payload f =
     \<lparr>bpr_id = None, bpr_name = Some (bf_name f), bpr_description = None, bpr_scope_type = bf_scope_type f,
      bpr_scope_id = (if bf_scope_type f = Scope_Tenant then None
                      else if bf_scope_id f = [] then None else Some (bf_scope_id f)),
      bpr_period = bf_period f, bpr_custom_period_start = None, bpr_custom_period_end = None,
      bpr_budget_type = bf_budget_type f, bpr_currency = ''USD'', bpr_amount_limit = JStr (bf_amount_limit f),
      bpr_token_limit = (if bf_token_limit f = [] then None else Some (to_number (bf_token_limit f))),
      bpr_alert_threshold_pct = to_number (bf_alert_threshold f), bpr_status = Policy_Active\<rparr>"

definition policy_body :: "budget_policy_request \<Rightarrow> jsval" where
  \<comment> \<open>the body of the request; the fields the form does not have are undefined and left out\<close>
  "policy_body p =
     JObj [(''alert_threshold_pct'', JNum (bpr_alert_threshold_pct p)), (''amount_limit'', bpr_amount_limit p),
       (''budget_type'', JStr (limit_type_str (bpr_budget_type p))), (''currency'', JStr (bpr_currency p)),
       (''name'', opt_str (bpr_name p)), (''period'', JStr (budget_period_str (bpr_period p))),
       (''scope_id'', opt_str (bpr_scope_id p)), (''scope_type'', JStr (budget_scope_str (bpr_scope_type p))),
       (''status'', JStr (policy_status_str (bpr_status p))),
       (''token_limit'', case bpr_token_limit p of None \<Rightarrow> JNull | Some n \<Rightarrow> JNum n)]"

section \<open>The page\<close>

datatype budgets_tab = Budgets_Overview | Budgets_Policies | Budgets_Ledger
datatype overview_tab = Overview_Health | Overview_Attribution
datatype policy_tab = Policy_Create | Policy_List
datatype ledger_tab = Ledger_Budget | Ledger_Usage

record budgets_page =
  bud_tab :: budgets_tab
  bud_overview_tab :: overview_tab
  bud_policy_tab :: policy_tab
  bud_ledger_tab :: ledger_tab
  summary_period :: budget_period
  breakdown_dimension :: usage_dimension
  exporting_ledger :: "string option"
  export_error :: "string option"
  budget_form_of :: budget_form
  summary_hook :: "(budget_period, budget_summary) resource"
  policies_hook :: "(unit, budget_policy list) resource"
  budget_ledger_hook :: "(unit, budget_ledger) resource"
  usage_ledger_hook :: "(unit, usage_ledger) resource"
  breakdown_hook :: "(usage_dimension, usage_breakdown) resource"
  targets_hook :: "(unit, budget_targets) resource"
  budget_actions :: "budget_mark actions"
  downloads :: "(string \<times> string \<times> string) list" \<comment> \<open>content, file name, MIME type\<close>

definition can_write_budgets :: "page_env \<Rightarrow> bool" where
  "can_write_budgets env \<longleftrightarrow>
     in_prototype env \<or> can_access (page_user env) (Some [''budgets:write'']) None"

definition can_export_budgets :: "page_env \<Rightarrow> bool" where
  "can_export_budgets env \<longleftrightarrow>
     in_prototype env \<or> can_access (page_user env) (Some [''budgets:export'']) None"

definition budgets_page_init :: "page_env \<Rightarrow> budgets_page" where
  "budgets_page_init env =
     \<lparr>bud_tab = Budgets_Overview, bud_overview_tab = Overview_Health, bud_policy_tab = Policy_List,
      bud_ledger_tab = Ledger_Budget, summary_period = Monthly,
      breakdown_dimension = By_Department, exporting_ledger = None, export_error = None,
      budget_form_of = \<lparr>bf_alert_threshold = ''80'', bf_amount_limit = ''1000'', bf_budget_type = Hard,
        bf_name = page_t env ''budgetsDefaultPolicyName'', bf_period = Monthly, bf_scope_id = [],
        bf_scope_type = Scope_Tenant, bf_token_limit = []\<rparr>,
      summary_hook = resource_init True, policies_hook = resource_init True,
      budget_ledger_hook = resource_init True, usage_ledger_hook = resource_init True,
      breakdown_hook = resource_init True, targets_hook = resource_init True,
      budget_actions = actions_init, downloads = []\<rparr>"

definition can_save_budget :: "page_env \<Rightarrow> budgets_page \<Rightarrow> bool" where
  "can_save_budget env s \<longleftrightarrow>
     (let f = budget_form_of s in
      can_write_budgets env \<and> marks (budget_actions s) Saving_Policy = None \<and>
      (bf_scope_type f = Scope_Tenant \<or> bf_scope_id f \<noteq> []) \<and> form_valid_limit f \<and> form_valid_threshold f)"

definition total_limit :: "budgets_page \<Rightarrow> string" where
  "total_limit s = coalesce (map_option bs_total_amount_limit (as_data (shown (summary_hook s)))) ''0''"

definition total_spent :: "budgets_page \<Rightarrow> string" where
  "total_spent s = coalesce (map_option bs_total_amount_spent (as_data (shown (summary_hook s)))) ''0''"

definition period_label :: "page_env \<Rightarrow> budgets_page \<Rightarrow> string" where
  "period_label env s =
     (case map_option bs_period (as_data (shown (summary_hook s))) of
        Some Daily \<Rightarrow> page_t env ''budgetsPeriodLabelDay''
      | Some Custom_Period \<Rightarrow> page_t env ''budgetsPeriodLabelCustom''
      | _ \<Rightarrow> page_t env ''budgetsPeriodLabelMonth'')"

definition empty_budget_targets :: budget_targets where
  "empty_budget_targets =
     \<lparr>bts_departments = [], bts_cost_centers = [], bts_users = [], bts_agents = [], bts_channels = []\<rparr>"

definition page_scope_options :: "budgets_page \<Rightarrow> (string \<times> string) list" where
  "page_scope_options s =
     budget_scope_options (bf_scope_type (budget_form_of s))
       (coalesce (as_data (shown (targets_hook s))) empty_budget_targets)"

definition refresh_budget_data :: "page_env \<Rightarrow> budgets_page \<Rightarrow> budgets_page" where
  "refresh_budget_data env s =
     s\<lparr>summary_hook := load_budget_summary (in_prototype env) (summary_period s) (summary_hook s),
       policies_hook := load_budget_policies (in_prototype env) (policies_hook s),
       budget_ledger_hook := load_budget_ledger (in_prototype env) (budget_ledger_hook s),
       usage_ledger_hook := load_usage_ledger (in_prototype env) (usage_ledger_hook s),
       breakdown_hook := load_usage_breakdown (in_prototype env) (breakdown_dimension s) (breakdown_hook s)\<rparr>"

definition mount_budgets_page :: "page_env \<Rightarrow> budgets_page" where
  \<comment> \<open>the first render and the effects of the hooks\<close>
  "mount_budgets_page env =
     (let s = refresh_budget_data env (budgets_page_init env) in
      s\<lparr>targets_hook := load_budget_targets (in_prototype env) (targets_hook s)\<rparr>)"

definition summary_arrives :: "page_env \<Rightarrow> nat \<Rightarrow> (nat \<Rightarrow> exn + budget_summary) \<Rightarrow> budgets_page \<Rightarrow> budgets_page" where
  "summary_arrives env n attempts s =
     s\<lparr>summary_hook := budget_summary_answered (page_t env) n attempts (summary_hook s)\<rparr>"

definition set_summary_period :: "page_env \<Rightarrow> budget_period \<Rightarrow> budgets_page \<Rightarrow> budgets_page" where
  \<comment> \<open>a new period is a new \<open>load\<close>, which the effect of the hook runs\<close>
  "set_summary_period env p s =
     (if p = summary_period s then s
      else s\<lparr>summary_period := p,
             summary_hook := load_budget_summary (in_prototype env) p (summary_hook s)\<rparr>)"

definition set_breakdown_dimension :: "page_env \<Rightarrow> usage_dimension \<Rightarrow> budgets_page \<Rightarrow> budgets_page" where
  "set_breakdown_dimension env d s =
     (if d = breakdown_dimension s then s
      else s\<lparr>breakdown_dimension := d,
             breakdown_hook := load_usage_breakdown (in_prototype env) d (breakdown_hook s)\<rparr>)"

definition policy_answer :: "page_env \<Rightarrow> string \<Rightarrow> budget_form \<Rightarrow> exn + budget_policy \<Rightarrow> exn + budget_policy" where
  \<comment> \<open>the prototype makes the policy up, otherwise the server answers\<close>
  "policy_answer env now f r =
     (if in_prototype env then Inr (create_budget_policy now (policy_payload f)) else r)"

definition handle_save_budget :: "page_env \<Rightarrow> string \<Rightarrow> exn + budget_policy \<Rightarrow> budgets_page \<Rightarrow> budgets_page" where
  "handle_save_budget env now r s =
     (if \<not> can_write_budgets env then s
      else case save_budget_policy (page_t env) (policy_answer env now (budget_form_of s) r) (budget_actions s) of
        (saved, acts) \<Rightarrow>
          (let s1 = s\<lparr>budget_actions := acts\<rparr> in
           if saved = None then s1
           else (refresh_budget_data env s1)\<lparr>bud_policy_tab := Policy_List\<rparr>))"

definition handle_policy_status ::
  "page_env \<Rightarrow> string \<Rightarrow> string \<Rightarrow> policy_status \<Rightarrow> exn + budget_policy \<Rightarrow> budgets_page \<Rightarrow> budgets_page" where
  "handle_policy_status env now pid st r s =
     (if \<not> can_write_budgets env then s
      else case budget_policy_status (page_t env) pid
                  (if in_prototype env then Inr (update_budget_policy_status now pid st) else r)
                  (budget_actions s) of
        (updated, acts) \<Rightarrow>
          (let s1 = s\<lparr>budget_actions := acts\<rparr> in
           if updated = None then s1 else refresh_budget_data env s1))"

definition primary_enabled :: "page_env \<Rightarrow> budgets_page \<Rightarrow> bool" where \<comment> \<open>the main button of the page\<close>
  "primary_enabled env s \<longleftrightarrow> can_write_budgets env \<and> \<not> (bud_tab s = Budgets_Policies \<and> \<not> can_save_budget env s)"

definition primary_budget_action :: "page_env \<Rightarrow> string \<Rightarrow> exn + budget_policy \<Rightarrow> budgets_page \<Rightarrow> budgets_page" where
  "primary_budget_action env now r s =
     (if bud_tab s \<noteq> Budgets_Policies then s\<lparr>bud_tab := Budgets_Policies, bud_policy_tab := Policy_Create\<rparr>
      else if bud_policy_tab s \<noteq> Policy_Create then s\<lparr>bud_policy_tab := Policy_Create\<rparr>
      else handle_save_budget env now r s)"

definition create_policy_from_overview :: "budgets_page \<Rightarrow> budgets_page" where
  "create_policy_from_overview s = s\<lparr>bud_tab := Budgets_Policies, bud_policy_tab := Policy_Create\<rparr>"

definition export_budget_file ::
  "page_env \<Rightarrow> string \<Rightarrow> string \<Rightarrow> string \<Rightarrow> string \<Rightarrow> exn + string \<Rightarrow> budgets_page \<Rightarrow> budgets_page" where
  "export_budget_file env now ext pre mime r s0 =
     (let s = s0\<lparr>export_error := None, exporting_ledger := None\<rparr> in
      case r of
        Inr content \<Rightarrow> s\<lparr>downloads := downloads s @ [(content, pre @ ''-'' @ take 10 now @ ''.'' @ ext, mime)]\<rparr>
      | Inl e \<Rightarrow> s\<lparr>export_error := Some (exn_message e (page_t env ''budgetsExportFailedMessage''))\<rparr>)"

definition export_ledger :: "page_env \<Rightarrow> string \<Rightarrow> export_format \<Rightarrow> export_ledger \<Rightarrow> exn + string \<Rightarrow> budgets_page \<Rightarrow> budgets_page" where
  \<comment> \<open>the four \<open>handleExport\<close> functions\<close>
  "export_ledger env now fmt l r =
     export_budget_file env now
       (case fmt of Csv \<Rightarrow> ''csv'' | Json \<Rightarrow> ''json'')
       (case l of Budget_Rows \<Rightarrow> ''agenthive-budget-ledger'' | Usage_Rows \<Rightarrow> ''agenthive-usage-ledger'')
       (case fmt of Csv \<Rightarrow> ''text/csv;charset=utf-8'' | Json \<Rightarrow> ''application/json;charset=utf-8'')
       (if in_prototype env then Inr (budget_export fmt l) else r)"

section \<open>What the form lets through\<close>

definition limit_given :: "budget_policy_request \<Rightarrow> bool" where
  \<comment> \<open>one of the two limits is a positive number\<close>
  "limit_given p \<longleftrightarrow>
     (case bpr_amount_limit p of
        JStr a \<Rightarrow> num_is_finite (to_number a) \<and> num_less (Fin 0) (to_number a)
      | _ \<Rightarrow> False) \<or>
     (case bpr_token_limit p of
        Some n \<Rightarrow> num_is_safe_integer n \<and> num_less (Fin 0) n
      | None \<Rightarrow> False)"

definition request_bounded :: "budget_policy_request \<Rightarrow> bool" where
  "request_bounded p \<longleftrightarrow>
     num_is_finite (bpr_alert_threshold_pct p) \<and> num_less (Fin 0) (bpr_alert_threshold_pct p) \<and>
     num_le (bpr_alert_threshold_pct p) (Fin 100) \<and> limit_given p \<and>
     (bpr_scope_type p = Scope_Tenant) = (bpr_scope_id p = None)"

lemma limit_given_payload: "form_valid_limit f \<Longrightarrow> limit_given (policy_payload f)"
  by (auto simp: form_valid_limit_def is_positive_decimal_def is_positive_integer_def limit_given_def policy_payload_def)

lemma threshold_payload:
  "form_valid_threshold f \<Longrightarrow>
   num_is_finite (bpr_alert_threshold_pct (policy_payload f)) \<and>
   num_less (Fin 0) (bpr_alert_threshold_pct (policy_payload f)) \<and>
   num_le (bpr_alert_threshold_pct (policy_payload f)) (Fin 100)"
  by (simp add: form_valid_threshold_def policy_payload_def Let_def)

text \<open>
  C24: when the page enables saving, the request it would send is within its bounds: the alert
  threshold is a finite percentage above 0 and at most 100, at least one limit is a positive number
  (the token limit an exact integer), and a scope is named exactly when the policy is not for the
  whole tenant.
\<close>

theorem saved_policy_bounded:
  assumes "can_save_budget env s"
  shows "request_bounded (policy_payload (budget_form_of s))"
proof -
  let ?f = "budget_form_of s"
  from assms have "form_valid_limit ?f" "form_valid_threshold ?f"
      and scope: "bf_scope_type ?f = Scope_Tenant \<or> bf_scope_id ?f \<noteq> []"
    by (simp_all add: can_save_budget_def Let_def)
  moreover from scope have "(bpr_scope_type (policy_payload ?f) = Scope_Tenant) = (bpr_scope_id (policy_payload ?f) = None)"
    by (auto simp: policy_payload_def)
  ultimately show ?thesis
    using limit_given_payload threshold_payload by (simp add: request_bounded_def)
qed

definition demo_env :: page_env where
  "demo_env = \<lparr>in_prototype = True, page_user = None, page_t = id\<rparr>"

definition demo_page :: "string \<Rightarrow> string \<Rightarrow> budgets_page" where
  "demo_page amount tokens =
     (budgets_page_init demo_env)\<lparr>budget_form_of :=
        (budget_form_of (budgets_page_init demo_env))\<lparr>bf_amount_limit := amount, bf_token_limit := tokens\<rparr>\<rparr>"

lemma demo_page_saves: "form_valid_limit (budget_form_of (demo_page a k)) \<Longrightarrow> can_save_budget demo_env (demo_page a k)"
proof -
  have "form_valid_threshold (budget_form_of (demo_page a k))"
    by (simp add: demo_page_def budgets_page_init_def form_valid_threshold_def) code_simp
  then show "form_valid_limit (budget_form_of (demo_page a k)) \<Longrightarrow> can_save_budget demo_env (demo_page a k)"
    by (simp add: can_save_budget_def Let_def demo_page_def budgets_page_init_def demo_env_def can_write_budgets_def actions_init_def)
qed

theorem saved_policy_bounded_witness:
  "request_bounded (policy_payload (budget_form_of (demo_page ''1000'' ''500'')))"
proof (rule saved_policy_bounded [OF demo_page_saves])
  show "form_valid_limit (budget_form_of (demo_page ''1000'' ''500''))" by code_simp
qed

text \<open>
  A token limit that is no number does not keep a policy from being saved when the amount is
  valid: the request sent is, to the character, the one of an empty token field, so the limit the
  user typed is dropped without a word.
\<close>

theorem unreadable_token_limit_dropped:
  assumes "can_save_budget env s" and "to_number (bf_token_limit (budget_form_of s)) = NaN"
  shows "stringify (policy_body (policy_payload (budget_form_of s))) =
         stringify (policy_body (policy_payload ((budget_form_of s)\<lparr>bf_token_limit := []\<rparr>)))"
  using assms(2) by (simp add: policy_body_def policy_payload_def)

theorem unreadable_token_limit_dropped_witness:
  "stringify (policy_body (policy_payload (budget_form_of (demo_page ''1000'' ''10k'')))) =
   stringify (policy_body (policy_payload ((budget_form_of (demo_page ''1000'' ''10k''))\<lparr>bf_token_limit := []\<rparr>)))"
proof (rule unreadable_token_limit_dropped [OF demo_page_saves])
  show "form_valid_limit (budget_form_of (demo_page ''1000'' ''10k''))" by code_simp
  show "to_number (bf_token_limit (budget_form_of (demo_page ''1000'' ''10k''))) = NaN" by code_simp
qed

text \<open>
  What a server reads from the query of a budget ledger request is the limit, followed by
  exactly the filters that are not blank, trimmed, in the order of the source.
\<close>

theorem ledger_query_roundtrip:
  "parse_query (query_string (budget_ledger_params f)) =
   (''limit'', num_str (coalesce (lf_limit f) (Fin 50))) # written_filters (ledger_filter_fields f)"
proof -
  have "budget_ledger_params f =
        [(''limit'', num_str (coalesce (lf_limit f) (Fin 50)))] @ written_filters (ledger_filter_fields f)"
    unfolding budget_ledger_params_def by (rule put_all_written) (simp add: ledger_filter_fields_def)
  then show ?thesis by (simp add: parse_query_string)
qed

section \<open>Overlapping loads of the summary\<close>

text \<open>
  The summary hook applies every answer.  When the period is changed while the first summary is
  still loading and the answers come back in the other order, the page says daily and shows the
  monthly summary, with nothing left in flight to correct it.
\<close>

theorem late_summary_replaces_current:
  "let env = env0\<lparr>in_prototype := False\<rparr>;
       s = summary_arrives env 1 monthly (summary_arrives env 2 daily
             (set_summary_period env Daily (mount_budgets_page env)))
   in summary_period s = Daily \<and> waiting (summary_hook s) = [] \<and>
      shown (summary_hook s) = settle (page_t env) (retried monthly)"
  by (simp add: summary_arrives_def set_summary_period_def mount_budgets_page_def refresh_budget_data_def
      budgets_page_init_def load_budget_summary_def budget_summary_answered_def plain_answer_def drop_waiting_def
      ask_def resource_init_def Let_def)

end
