(* ===== verification/Model_Types.thy ===== *)
theory Model_Types
  imports Proto_Types
begin

text \<open>
  The model gateway data of \<open>lib/api/models.ts\<close>: providers, deployments, prices, policies,
  credentials, connection tests and governance targets.  An optional field is \<open>None\<close> when it is
  missing or null.
\<close>

section \<open>Enumerations and their names\<close>

datatype adapter_type = Litellm | Openai_Compatible | Anthropic_Compatible

fun adapter_type_str :: "adapter_type \<Rightarrow> string" where
  "adapter_type_str Litellm = ''litellm''"
| "adapter_type_str Openai_Compatible = ''openai_compatible''"
| "adapter_type_str Anthropic_Compatible = ''anthropic_compatible''"

datatype provider_status = Provider_Active | Provider_Inactive | Not_Configured

fun provider_status_str :: "provider_status \<Rightarrow> string" where
  "provider_status_str Provider_Active = ''active''"
| "provider_status_str Provider_Inactive = ''inactive''"
| "provider_status_str Not_Configured = ''not_configured''"

datatype deployment_status = Deployment_Active | Deployment_Inactive

datatype llm_scope = For_Tenant | For_Department | For_Cost_Center | For_User | For_Agent | For_Channel

datatype llm_effect = Allow | Deny

datatype llm_policy_status = Rule_Active | Rule_Inactive

section \<open>Records\<close>

record llm_provider =
  lp_provider_key :: string
  lp_name :: string
  lp_adapter_type :: adapter_type
  lp_base_url :: "string option"
  lp_region :: "string option"
  lp_status :: provider_status
  lp_capabilities :: "string list"
  lp_credential_configured :: bool
  lp_metadata :: props

record llm_provider_list =
  lpl_providers :: "llm_provider list"

record llm_deployment =
  ld_id :: string
  ld_provider_key :: string
  ld_provider_name :: string
  ld_adapter_type :: adapter_type
  ld_model_key :: string
  ld_display_name :: string
  ld_deployment_name :: string
  ld_routing_key :: string
  ld_status :: deployment_status
  ld_context_window :: "jsnum option"
  ld_capabilities :: "string list"
  ld_priority :: jsnum
  ld_config :: props

record llm_deployment_list =
  ldl_deployments :: "llm_deployment list"

record deployment_readiness =
  dr_deployment_id :: string
  dr_provider_key :: string
  dr_provider_name :: string
  dr_model_key :: string
  dr_display_name :: string
  dr_routing_key :: string
  dr_deployment_name :: string
  dr_readiness :: string
  dr_credential_configured :: bool
  dr_deployment_active :: bool
  dr_live_probe_ok :: bool
  dr_live_probe_checked_at :: "string option"
  dr_last_probe_message :: "string option"
  dr_pricing_configured :: bool
  dr_policy_referenced :: bool
  dr_fallback_configured :: bool
  dr_blockers :: "string list"
  dr_warnings :: "string list"
  dr_evidence :: props

record llm_readiness =
  lr_generated_at :: string
  lr_summary :: props
  lr_deployments :: "deployment_readiness list"

record llm_price =
  mp_id :: string
  mp_model_id :: string
  mp_provider_key :: string
  mp_model_key :: string
  mp_display_name :: string
  mp_currency :: string
  mp_input_per_1k_tokens :: jsval
  mp_output_per_1k_tokens :: jsval
  mp_effective_from :: string
  mp_effective_to :: "string option"

record llm_price_list =
  mpl_prices :: "llm_price list"

record llm_price_request =
  mpr_provider_key :: string
  mpr_model_key :: string
  mpr_display_name :: "string option"
  mpr_currency :: "string option"
  mpr_input_per_1k_tokens :: jsval
  mpr_output_per_1k_tokens :: jsval
  mpr_effective_from :: "string option"
  mpr_effective_to :: "string option"

record llm_policy =
  lo_id :: string
  lo_tenant_id :: string
  lo_name :: string
  lo_description :: "string option"
  lo_scope_type :: llm_scope
  lo_scope_id :: "string option"
  lo_effect :: llm_effect
  lo_allowed_models :: "string list"
  lo_allowed_routing_keys :: "string list"
  lo_default_model_key :: "string option"
  lo_default_routing_key :: "string option"
  lo_max_tokens :: "jsnum option"
  lo_priority :: jsnum
  lo_status :: llm_policy_status
  lo_metadata :: props
  lo_created_at :: string
  lo_updated_at :: string

record llm_policy_list =
  lol_policies :: "llm_policy list"

record llm_policy_request =
  lor_id :: "string option"
  lor_name :: string
  lor_description :: "string option"
  lor_scope_type :: llm_scope
  lor_scope_id :: "string option"
  lor_effect :: llm_effect
  lor_allowed_models :: "string list"
  lor_allowed_routing_keys :: "string list"
  lor_default_model_key :: "string option"
  lor_default_routing_key :: "string option"
  lor_max_tokens :: "jsnum option"
  lor_priority :: jsnum
  lor_status :: llm_policy_status
  lor_metadata :: "props option"

record credential_request =
  crq_display_name :: string
  crq_api_key :: string
  crq_base_url :: "string option"
  crq_owner_type :: "string option"
  crq_owner_id :: "string option"
  crq_model_key :: "string option"
  crq_deployment_name :: "string option"
  crq_routing_key :: "string option"
  crq_make_default :: "bool option"

record credential_response =
  crs_provider_key :: string
  crs_display_name :: string
  crs_masked_secret :: string
  crs_credential_configured :: bool
  crs_base_url :: "string option"
  crs_owner_type :: string
  crs_owner_id :: "string option"
  crs_deployment_id :: "string option"
  crs_routing_key :: "string option"
  crs_model_key :: "string option"

record connection_request =
  cnq_adapter_type :: "adapter_type option"
  cnq_api_key :: "string option"
  cnq_base_url :: "string option"
  cnq_deployment_id :: "string option"
  cnq_live_check :: "bool option"
  cnq_model_key :: "string option"
  cnq_probe_path :: "string option"
  cnq_provider_key :: "string option"
  cnq_timeout_seconds :: "jsnum option"

record connection_response =
  cns_ok :: bool
  cns_provider_key :: "string option"
  cns_adapter_type :: adapter_type
  cns_model_key :: "string option"
  cns_latency_ms :: jsnum
  cns_checked_at :: string
  cns_message :: string
  cns_diagnostics :: props

record connection_history_item =
  chi_id :: string
  chi_request_id :: "string option"
  chi_actor_id :: "string option"
  chi_status :: string
  chi_ok :: bool
  chi_provider_key :: "string option"
  chi_provider_type :: "string option"
  chi_deployment_id :: "string option"
  chi_model_key :: "string option"
  chi_adapter_type :: "string option"
  chi_latency_ms :: "jsnum option"
  chi_checked_at :: string
  chi_message :: "string option"
  chi_operation :: "string option"
  chi_configuration_source :: "string option"
  chi_probe_path :: "string option"
  chi_status_code :: "jsnum option"
  chi_fallback_attempt_count :: "jsnum option"
  chi_selected_route_reason :: "string option"
  chi_temporary_api_key_provided :: bool
  chi_temporary_base_url_provided :: bool
  chi_live_network_call :: "bool option"

record connection_history =
  chs_tests :: "connection_history_item list"

record llm_target =
  lt_id :: string
  lt_label :: string
  lt_description :: "string option"
  lt_status :: "string option"
  lt_metadata :: props

record llm_targets =
  lts_departments :: "llm_target list"
  lts_cost_centers :: "llm_target list"
  lts_users :: "llm_target list"
  lts_agents :: "llm_target list"
  lts_channels :: "llm_target list"

record acceptance_request =
  acq_prompt :: "string option"
  acq_max_tokens :: "jsnum option"

record acceptance_response =
  acs_ok :: bool
  acs_request_id :: string
  acs_deployment_id :: string
  acs_provider_key :: string
  acs_model_key :: string
  acs_routing_key :: string
  acs_content_preview :: string
  acs_usage :: llm_usage
  acs_route_attempts :: "props list"
  acs_live_network_call :: "bool option"
  acs_mock :: "bool option"
  acs_usage_recorded :: bool
  acs_audit_action :: string
  acs_evidence :: props

end
