(* ===== verification/Model_Data.thy ===== *)
theory Model_Data
  imports Model_Types
begin

text \<open>
  The model gateway data of the prototype mode, \<open>hooks/admin/modelPrototype.ts\<close>, with the answers it
  makes up for the actions.  The current time is an argument.
\<close>

section \<open>Catalogue\<close>

definition mod_now :: string where "mod_now = ''2026-01-01T00:00:00.000Z''"
definition mod_tenant :: string where "mod_tenant = ''00000000-0000-4000-8000-000000000001''"

definition proto_providers :: "llm_provider list" where
  "proto_providers =
    [\<lparr>lp_provider_key = ''openai'', lp_name = ''OpenAI GPT'', lp_adapter_type = Litellm,
    lp_base_url = None, lp_region = Some ''global'', lp_status = Provider_Active,
    lp_capabilities = [''chat'', ''vision'', ''tool_calling'', ''json_mode''],
    lp_credential_configured = True, lp_metadata = [(''governance'', JStr ''tenant-default''),
    (''regions'', JArr [JStr ''us'', JStr ''eu''])]\<rparr>,
    \<lparr>lp_provider_key = ''anthropic'', lp_name = ''Anthropic Claude'',
    lp_adapter_type = Litellm, lp_base_url = None, lp_region = Some ''global'',
    lp_status = Provider_Active, lp_capabilities = [''chat'', ''long_context'', ''tool_calling''],
    lp_credential_configured = True, lp_metadata = [(''governance'', JStr ''department-key''),
    (''regions'', JArr [JStr ''us''])]\<rparr>, \<lparr>lp_provider_key = ''anthropic_compatible'',
    lp_name = ''Anthropic-compatible Endpoint'', lp_adapter_type = Anthropic_Compatible,
    lp_base_url = Some [], lp_region = Some ''private'', lp_status = Not_Configured,
    lp_capabilities = [''chat'', ''stream'', ''long_context''], lp_credential_configured = False,
    lp_metadata = [(''governance'', JStr ''private-endpoint''), (''protocol'',
    JStr ''anthropic-compatible'')]\<rparr>, \<lparr>lp_provider_key = ''gemini'',
    lp_name = ''Google Gemini'', lp_adapter_type = Litellm, lp_base_url = None,
    lp_region = Some ''global'', lp_status = Provider_Active, lp_capabilities = [''chat'',
    ''vision'', ''long_context''], lp_credential_configured = True, lp_metadata = [(''governance'',
    JStr ''tenant-default''), (''regions'', JArr [JStr ''global''])]\<rparr>,
    \<lparr>lp_provider_key = ''qwen'', lp_name = ''Qwen'', lp_adapter_type = Openai_Compatible,
    lp_base_url = Some ''https://dashscope.aliyuncs.com/compatible-mode/v1'',
    lp_region = Some ''cn'', lp_status = Provider_Active, lp_capabilities = [''chat'',
    ''embedding'', ''tool_calling''], lp_credential_configured = True,
    lp_metadata = [(''governance'', JStr ''china-primary''), (''owner'',
    JStr ''customer-success'')]\<rparr>, \<lparr>lp_provider_key = ''deepseek'',
    lp_name = ''DeepSeek'', lp_adapter_type = Openai_Compatible,
    lp_base_url = Some ''https://api.deepseek.com'', lp_region = Some ''cn'',
    lp_status = Provider_Active, lp_capabilities = [''chat'', ''reasoning'', ''coding''],
    lp_credential_configured = True, lp_metadata = [(''governance'', JStr ''cost-optimized''),
    (''fallback_for'', JArr [JStr ''openai'', JStr ''qwen''])]\<rparr>,
    \<lparr>lp_provider_key = ''kimi'', lp_name = ''Kimi'', lp_adapter_type = Openai_Compatible,
    lp_base_url = Some ''https://api.moonshot.cn/v1'', lp_region = Some ''cn'',
    lp_status = Provider_Active, lp_capabilities = [''chat'', ''long_context''],
    lp_credential_configured = True, lp_metadata = [(''governance'', JStr ''long-context''),
    (''max_context'', JNum (Fin 128000))]\<rparr>, \<lparr>lp_provider_key = ''minimax'',
    lp_name = ''MiniMax'', lp_adapter_type = Openai_Compatible,
    lp_base_url = Some ''https://api.minimax.chat/v1'', lp_region = Some ''cn'',
    lp_status = Not_Configured, lp_capabilities = [''chat'', ''voice'', ''multimodal''],
    lp_credential_configured = False, lp_metadata = [(''governance'',
    JStr ''optional-module'')]\<rparr>, \<lparr>lp_provider_key = ''mimo'', lp_name = ''MiMo'',
    lp_adapter_type = Openai_Compatible, lp_base_url = Some [], lp_region = Some ''cn'',
    lp_status = Not_Configured, lp_capabilities = [''chat'', ''reasoning''],
    lp_credential_configured = False, lp_metadata = [(''governance'', JStr ''optional-module''),
    (''protocol'', JStr ''openai-compatible'')]\<rparr>, \<lparr>lp_provider_key = ''glm'',
    lp_name = ''GLM'', lp_adapter_type = Openai_Compatible,
    lp_base_url = Some ''https://open.bigmodel.cn/api/paas/v4'', lp_region = Some ''cn'',
    lp_status = Not_Configured, lp_capabilities = [''chat'', ''tool_calling''],
    lp_credential_configured = False, lp_metadata = [(''governance'',
    JStr ''optional-module'')]\<rparr>, \<lparr>lp_provider_key = ''litellm'',
    lp_name = ''LiteLLM Proxy'', lp_adapter_type = Litellm,
    lp_base_url = Some ''http://litellm:4000'', lp_region = Some ''private'',
    lp_status = Provider_Active, lp_capabilities = [''routing'', ''fallback'', ''virtual_key'',
    ''budget''], lp_credential_configured = True, lp_metadata = [(''control_plane'',
    JStr ''protocol-adapter'')]\<rparr>, \<lparr>lp_provider_key = ''openai_compatible'',
    lp_name = ''OpenAI-compatible'', lp_adapter_type = Openai_Compatible,
    lp_base_url = Some ''https://llm-gateway.customer.example/v1'', lp_region = Some ''private'',
    lp_status = Provider_Active, lp_capabilities = [''chat'', ''embedding'', ''private_endpoint''],
    lp_credential_configured = True, lp_metadata = [(''governance'',
    JStr ''bring-your-own-endpoint'')]\<rparr>, \<lparr>lp_provider_key = ''ollama'',
    lp_name = ''Ollama'', lp_adapter_type = Openai_Compatible,
    lp_base_url = Some ''http://ollama:11434/v1'', lp_region = Some ''local'',
    lp_status = Provider_Active, lp_capabilities = [''chat'', ''local'', ''offline''],
    lp_credential_configured = True, lp_metadata = [(''governance'',
    JStr ''offline-fallback'')]\<rparr>, \<lparr>lp_provider_key = ''openai_images'',
    lp_name = ''OpenAI Images'', lp_adapter_type = Openai_Compatible,
    lp_base_url = Some ''https://api.openai.com/v1'', lp_region = Some ''global'',
    lp_status = Not_Configured, lp_capabilities = [''image_generation'', ''reference_image''],
    lp_credential_configured = False, lp_metadata = [(''governance'',
    JStr ''optional-media-module''), (''probe_path'', JStr ''/models'')]\<rparr>,
    \<lparr>lp_provider_key = ''nano_banana'', lp_name = ''Nano Banana'',
    lp_adapter_type = Openai_Compatible,
    lp_base_url = Some ''https://media-gateway.customer.example/v1'', lp_region = Some ''global'',
    lp_status = Not_Configured, lp_capabilities = [''image_generation'', ''reference_image'',
    ''style_transfer''], lp_credential_configured = False, lp_metadata = [(''governance'',
    JStr ''optional-media-module''), (''probe_path'', JStr ''/models'')]\<rparr>,
    \<lparr>lp_provider_key = ''volcengine_seedance'', lp_name = ''Volcengine Seedance'',
    lp_adapter_type = Openai_Compatible,
    lp_base_url = Some ''https://ark.cn-beijing.volces.com/api/v3'', lp_region = Some ''cn'',
    lp_status = Not_Configured, lp_capabilities = [''video_generation'',
    ''reference_image_to_video'', ''reference_video'', ''async_job''],
    lp_credential_configured = False, lp_metadata = [(''governance'',
    JStr ''optional-media-module''), (''probe_path'', JStr ''/models'')]\<rparr>,
    \<lparr>lp_provider_key = ''openai_compatible_media'',
    lp_name = ''Private OpenAI-compatible Media'', lp_adapter_type = Openai_Compatible,
    lp_base_url = Some ''https://private-media.customer.example/v1'', lp_region = Some ''private'',
    lp_status = Not_Configured, lp_capabilities = [''image_generation'', ''video_generation'',
    ''private_endpoint''], lp_credential_configured = False, lp_metadata = [(''governance'',
    JStr ''bring-your-own-media-endpoint''), (''probe_path'', JStr ''/models'')]\<rparr>]"

definition proto_deployments :: "llm_deployment list" where
  "proto_deployments =
    [\<lparr>ld_id = ''00000000-0000-4000-8000-000000100001'', ld_provider_key = ''openai'',
    ld_provider_name = ''OpenAI GPT'', ld_adapter_type = Litellm, ld_model_key = ''gpt-4o'',
    ld_display_name = ''GPT-4o'', ld_deployment_name = ''Global Premium Chat'',
    ld_routing_key = ''premium-chat'', ld_status = Deployment_Active,
    ld_context_window = Some (Fin 128000), ld_capabilities = [''chat'', ''vision'',
    ''tool_calling''], ld_priority = Fin 10, ld_config = [(''fallback'',
    JArr [JStr ''deepseek-v4-flash'', JStr ''qwen-plus'']), (''policy'',
    JStr ''premium-quality'')]\<rparr>, \<lparr>ld_id = ''00000000-0000-4000-8000-000000100002'',
    ld_provider_key = ''anthropic'', ld_provider_name = ''Anthropic Claude'',
    ld_adapter_type = Litellm, ld_model_key = ''claude-3-5-sonnet'',
    ld_display_name = ''Claude Sonnet'', ld_deployment_name = ''Executive Analysis'',
    ld_routing_key = ''analysis-chat'', ld_status = Deployment_Active,
    ld_context_window = Some (Fin 200000), ld_capabilities = [''chat'', ''long_context'',
    ''tool_calling''], ld_priority = Fin 20, ld_config = [(''fallback'',
    JArr [JStr ''gpt-4o-mini'']), (''policy'', JStr ''high-accuracy'')]\<rparr>,
    \<lparr>ld_id = ''00000000-0000-4000-8000-000000100012'',
    ld_provider_key = ''anthropic_compatible'',
    ld_provider_name = ''Anthropic-compatible Endpoint'', ld_adapter_type = Anthropic_Compatible,
    ld_model_key = ''claude-compatible'', ld_display_name = ''Claude-compatible'',
    ld_deployment_name = ''Private Claude-compatible Chat'',
    ld_routing_key = ''anthropic-private-chat'', ld_status = Deployment_Inactive,
    ld_context_window = Some (Fin 200000), ld_capabilities = [''chat'', ''stream'',
    ''long_context''], ld_priority = Fin 120, ld_config = [(''protocol'',
    JStr ''anthropic-compatible''), (''requires_configuration'', JBool True)]\<rparr>,
    \<lparr>ld_id = ''00000000-0000-4000-8000-000000100003'', ld_provider_key = ''gemini'',
    ld_provider_name = ''Google Gemini'', ld_adapter_type = Litellm,
    ld_model_key = ''gemini-1.5-pro'', ld_display_name = ''Gemini Pro'',
    ld_deployment_name = ''Multimodal Review'', ld_routing_key = ''vision-chat'',
    ld_status = Deployment_Active, ld_context_window = Some (Fin 1000000),
    ld_capabilities = [''chat'', ''vision'', ''long_context''], ld_priority = Fin 30,
    ld_config = [(''policy'', JStr ''multimodal-review'')]\<rparr>,
    \<lparr>ld_id = ''00000000-0000-4000-8000-000000100004'', ld_provider_key = ''qwen'',
    ld_provider_name = ''Qwen'', ld_adapter_type = Openai_Compatible, ld_model_key = ''qwen-plus'',
    ld_display_name = ''Qwen Plus'', ld_deployment_name = ''China Primary Chat'',
    ld_routing_key = ''cn-primary-chat'', ld_status = Deployment_Active,
    ld_context_window = Some (Fin 131000), ld_capabilities = [''chat'', ''embedding'',
    ''tool_calling''], ld_priority = Fin 5, ld_config = [(''policy'', JStr ''china-primary''),
    (''budget_scope'', JStr ''department'')]\<rparr>,
    \<lparr>ld_id = ''00000000-0000-4000-8000-000000100005'', ld_provider_key = ''deepseek'',
    ld_provider_name = ''DeepSeek'', ld_adapter_type = Openai_Compatible,
    ld_model_key = ''deepseek-v4-flash'', ld_display_name = ''DeepSeek V4 Flash'',
    ld_deployment_name = ''Cost Optimized Reasoning'', ld_routing_key = ''cost-chat'',
    ld_status = Deployment_Active, ld_context_window = Some (Fin 64000),
    ld_capabilities = [''chat'', ''reasoning'', ''coding''], ld_priority = Fin 6,
    ld_config = [(''policy'', JStr ''cost-optimized''), (''fallback_for'',
    JArr [JStr ''premium-chat'', JStr ''cn-primary-chat''])]\<rparr>,
    \<lparr>ld_id = ''00000000-0000-4000-8000-000000100006'', ld_provider_key = ''kimi'',
    ld_provider_name = ''Kimi'', ld_adapter_type = Openai_Compatible,
    ld_model_key = ''moonshot-v1-128k'', ld_display_name = ''Kimi 128K'',
    ld_deployment_name = ''Long Context Documents'', ld_routing_key = ''long-context-chat'',
    ld_status = Deployment_Active, ld_context_window = Some (Fin 128000),
    ld_capabilities = [''chat'', ''long_context''], ld_priority = Fin 40, ld_config = [(''policy'',
    JStr ''document-heavy'')]\<rparr>, \<lparr>ld_id = ''00000000-0000-4000-8000-000000100008'',
    ld_provider_key = ''mimo'', ld_provider_name = ''MiMo'', ld_adapter_type = Openai_Compatible,
    ld_model_key = ''mimo-chat'', ld_display_name = ''MiMo Chat'',
    ld_deployment_name = ''Mimo Optional Reasoning'', ld_routing_key = ''mimo-chat'',
    ld_status = Deployment_Inactive, ld_context_window = Some (Fin 32768),
    ld_capabilities = [''chat'', ''reasoning''], ld_priority = Fin 45, ld_config = [(''policy'',
    JStr ''optional-china-reasoning''), (''requires_configuration'', JBool True)]\<rparr>,
    \<lparr>ld_id = ''00000000-0000-4000-8000-000000100007'', ld_provider_key = ''ollama'',
    ld_provider_name = ''Ollama'', ld_adapter_type = Openai_Compatible, ld_model_key = ''llama3.1'',
    ld_display_name = ''Llama 3.1 Local'', ld_deployment_name = ''Offline Local Fallback'',
    ld_routing_key = ''offline-chat'', ld_status = Deployment_Active,
    ld_context_window = Some (Fin 32000), ld_capabilities = [''chat'', ''local'', ''offline''],
    ld_priority = Fin 100, ld_config = [(''policy'', JStr ''offline-demo''), (''live_network_call'',
    JBool False)]\<rparr>]"

definition proto_llm_policies :: "llm_policy list" where
  "proto_llm_policies =
    [\<lparr>lo_id = ''00000000-0000-4000-8000-000000110001'', lo_tenant_id = mod_tenant,
    lo_name = ''Tenant default model policy'',
    lo_description = Some ''Tenant default route keeps China-friendly models primary and falls back through LiteLLM.'',
    lo_scope_type = For_Tenant, lo_scope_id = None, lo_effect = Allow,
    lo_allowed_models = [''qwen-plus'', ''deepseek-v4-flash'', ''mimo-chat'', ''gpt-4o-mini''],
    lo_allowed_routing_keys = [''cn-primary-chat'', ''cost-chat'', ''mimo-chat'', ''default-chat''],
    lo_default_model_key = Some ''qwen-plus'', lo_default_routing_key = Some ''cn-primary-chat'',
    lo_max_tokens = Some (Fin 4096), lo_priority = Fin 100, lo_status = Rule_Active,
    lo_metadata = [(''budget_scope'', JStr ''tenant''), (''deny_overrides_allowed'', JBool True)],
    lo_created_at = mod_now, lo_updated_at = mod_now\<rparr>,
    \<lparr>lo_id = ''00000000-0000-4000-8000-000000110002'', lo_tenant_id = mod_tenant,
    lo_name = ''Customer Success department policy'',
    lo_description = Some ''Customer Success can use long-context document answers within a department budget.'',
    lo_scope_type = For_Department, lo_scope_id = Some ''00000000-0000-4000-8000-000000000301'',
    lo_effect = Allow, lo_allowed_models = [''qwen-plus'', ''deepseek-v4-flash'', ''mimo-chat'',
    ''moonshot-v1-128k''], lo_allowed_routing_keys = [''cn-primary-chat'', ''cost-chat'',
    ''mimo-chat'', ''long-context-chat''], lo_default_model_key = Some ''qwen-plus'',
    lo_default_routing_key = Some ''cn-primary-chat'', lo_max_tokens = Some (Fin 8192),
    lo_priority = Fin 90, lo_status = Rule_Active, lo_metadata = [(''department'',
    JStr ''Customer Success''), (''monthly_budget_usd'', JNum (Fin 2500))], lo_created_at = mod_now,
    lo_updated_at = mod_now\<rparr>, \<lparr>lo_id = ''00000000-0000-4000-8000-000000110003'',
    lo_tenant_id = mod_tenant, lo_name = ''Deny premium routes for copywriting'',
    lo_description = Some ''Copywriting agent cannot use premium routes unless explicitly approved.'',
    lo_scope_type = For_Agent, lo_scope_id = Some ''00000000-0000-4000-8000-000000000701'',
    lo_effect = Deny, lo_allowed_models = [''gpt-4o'', ''claude-3-5-sonnet''],
    lo_allowed_routing_keys = [''premium-chat'', ''analysis-chat''], lo_default_model_key = None,
    lo_default_routing_key = None, lo_max_tokens = Some (Fin 2048), lo_priority = Fin 10,
    lo_status = Rule_Active, lo_metadata = [(''reason'', JStr ''cost-control''), (''fallback'',
    JStr ''cost-chat'')], lo_created_at = mod_now, lo_updated_at = mod_now\<rparr>]"

definition proto_prices :: "llm_price list" where
  "proto_prices =
    [\<lparr>mp_id = ''00000000-0000-4000-8000-000000120001'',
    mp_model_id = ''00000000-0000-4000-8000-000000100001'', mp_provider_key = ''openai'',
    mp_model_key = ''gpt-4o'', mp_display_name = ''GPT-4o'', mp_currency = ''USD'',
    mp_input_per_1k_tokens = JStr ''0.0050'', mp_output_per_1k_tokens = JStr ''0.0150'',
    mp_effective_from = mod_now, mp_effective_to = None\<rparr>,
    \<lparr>mp_id = ''00000000-0000-4000-8000-000000120002'',
    mp_model_id = ''00000000-0000-4000-8000-000000100002'', mp_provider_key = ''anthropic'',
    mp_model_key = ''claude-3-5-sonnet'', mp_display_name = ''Claude Sonnet'',
    mp_currency = ''USD'', mp_input_per_1k_tokens = JStr ''0.0030'',
    mp_output_per_1k_tokens = JStr ''0.0150'', mp_effective_from = mod_now,
    mp_effective_to = None\<rparr>, \<lparr>mp_id = ''00000000-0000-4000-8000-000000120003'',
    mp_model_id = ''00000000-0000-4000-8000-000000100004'', mp_provider_key = ''qwen'',
    mp_model_key = ''qwen-plus'', mp_display_name = ''Qwen Plus'', mp_currency = ''CNY'',
    mp_input_per_1k_tokens = JStr ''0.0008'', mp_output_per_1k_tokens = JStr ''0.0020'',
    mp_effective_from = mod_now, mp_effective_to = None\<rparr>,
    \<lparr>mp_id = ''00000000-0000-4000-8000-000000120004'',
    mp_model_id = ''00000000-0000-4000-8000-000000100005'', mp_provider_key = ''deepseek'',
    mp_model_key = ''deepseek-v4-flash'', mp_display_name = ''DeepSeek V4 Flash'',
    mp_currency = ''CNY'', mp_input_per_1k_tokens = JStr ''0.0005'',
    mp_output_per_1k_tokens = JStr ''0.0015'', mp_effective_from = mod_now,
    mp_effective_to = None\<rparr>, \<lparr>mp_id = ''00000000-0000-4000-8000-000000120005'',
    mp_model_id = ''00000000-0000-4000-8000-000000100008'', mp_provider_key = ''mimo'',
    mp_model_key = ''mimo-chat'', mp_display_name = ''MiMo Chat'', mp_currency = ''CNY'',
    mp_input_per_1k_tokens = JStr ''0.0000'', mp_output_per_1k_tokens = JStr ''0.0000'',
    mp_effective_from = mod_now, mp_effective_to = None\<rparr>]"

definition proto_connection_tests :: "connection_history_item list" where
  "proto_connection_tests =
    [\<lparr>chi_id = ''00000000-0000-4000-8000-000000130001'',
    chi_request_id = Some ''req_model_demo_001'',
    chi_actor_id = Some ''00000000-0000-4000-8000-000000000201'', chi_status = ''success'',
    chi_ok = True, chi_provider_key = Some ''qwen'', chi_provider_type = Some ''openai_compatible'',
    chi_deployment_id = Some ''00000000-0000-4000-8000-000000100004'',
    chi_model_key = Some ''qwen-plus'', chi_adapter_type = Some ''openai_compatible'',
    chi_latency_ms = Some (Fin 186), chi_checked_at = ''2026-01-01T09:10:00.000Z'',
    chi_message = Some ''Qwen route healthy.'', chi_operation = Some ''model_connection_check'',
    chi_configuration_source = Some ''prototype'', chi_probe_path = None, chi_status_code = None,
    chi_fallback_attempt_count = Some (Fin 0),
    chi_selected_route_reason = Some ''department policy matched Customer Success'',
    chi_temporary_api_key_provided = False, chi_temporary_base_url_provided = False,
    chi_live_network_call = Some True\<rparr>,
    \<lparr>chi_id = ''00000000-0000-4000-8000-000000130005'',
    chi_request_id = Some ''req_model_demo_005'',
    chi_actor_id = Some ''00000000-0000-4000-8000-000000000201'', chi_status = ''not_configured'',
    chi_ok = False, chi_provider_key = Some ''mimo'',
    chi_provider_type = Some ''openai_compatible'',
    chi_deployment_id = Some ''00000000-0000-4000-8000-000000100008'',
    chi_model_key = Some ''mimo-chat'', chi_adapter_type = Some ''openai_compatible'',
    chi_latency_ms = Some (Fin 0), chi_checked_at = ''2026-01-01T09:02:00.000Z'',
    chi_message = Some ''MiMo route is available after customer Base URL and API key are configured.'',
    chi_operation = Some ''model_connection_check'', chi_configuration_source = Some ''prototype'',
    chi_probe_path = None, chi_status_code = None, chi_fallback_attempt_count = Some (Fin 0),
    chi_selected_route_reason = Some ''optional provider awaiting credential'',
    chi_temporary_api_key_provided = False, chi_temporary_base_url_provided = False,
    chi_live_network_call = Some False\<rparr>,
    \<lparr>chi_id = ''00000000-0000-4000-8000-000000130002'',
    chi_request_id = Some ''req_model_demo_002'',
    chi_actor_id = Some ''00000000-0000-4000-8000-000000000201'', chi_status = ''success'',
    chi_ok = True, chi_provider_key = Some ''deepseek'',
    chi_provider_type = Some ''openai_compatible'',
    chi_deployment_id = Some ''00000000-0000-4000-8000-000000100005'',
    chi_model_key = Some ''deepseek-v4-flash'', chi_adapter_type = Some ''openai_compatible'',
    chi_latency_ms = Some (Fin 243), chi_checked_at = ''2026-01-01T09:08:00.000Z'',
    chi_message = Some ''DeepSeek fallback route accepted.'',
    chi_operation = Some ''model_connection_check'', chi_configuration_source = Some ''prototype'',
    chi_probe_path = None, chi_status_code = None, chi_fallback_attempt_count = Some (Fin 1),
    chi_selected_route_reason = Some ''premium route budget guard selected cost fallback'',
    chi_temporary_api_key_provided = False, chi_temporary_base_url_provided = False,
    chi_live_network_call = Some True\<rparr>,
    \<lparr>chi_id = ''00000000-0000-4000-8000-000000130003'',
    chi_request_id = Some ''req_model_demo_003'',
    chi_actor_id = Some ''00000000-0000-4000-8000-000000000201'', chi_status = ''success'',
    chi_ok = True, chi_provider_key = Some ''kimi'', chi_provider_type = Some ''openai_compatible'',
    chi_deployment_id = Some ''00000000-0000-4000-8000-000000100006'',
    chi_model_key = Some ''moonshot-v1-128k'', chi_adapter_type = Some ''openai_compatible'',
    chi_latency_ms = Some (Fin 412), chi_checked_at = ''2026-01-01T09:04:00.000Z'',
    chi_message = Some ''Kimi long context route accepted.'',
    chi_operation = Some ''model_connection_check'', chi_configuration_source = Some ''prototype'',
    chi_probe_path = None, chi_status_code = None, chi_fallback_attempt_count = Some (Fin 0),
    chi_selected_route_reason = Some ''document-heavy workload requested long context'',
    chi_temporary_api_key_provided = True, chi_temporary_base_url_provided = False,
    chi_live_network_call = Some True\<rparr>,
    \<lparr>chi_id = ''00000000-0000-4000-8000-000000130004'',
    chi_request_id = Some ''req_model_demo_004'',
    chi_actor_id = Some ''00000000-0000-4000-8000-000000000201'', chi_status = ''success'',
    chi_ok = True, chi_provider_key = Some ''ollama'', chi_provider_type = Some ''ollama'',
    chi_deployment_id = Some ''00000000-0000-4000-8000-000000100007'',
    chi_model_key = Some ''llama3.1'', chi_adapter_type = Some ''openai_compatible'',
    chi_latency_ms = Some (Fin 38), chi_checked_at = ''2026-01-01T08:58:00.000Z'',
    chi_message = Some ''Offline local fallback verified with mock adapter.'',
    chi_operation = Some ''model_connection_check'', chi_configuration_source = Some ''prototype'',
    chi_probe_path = None, chi_status_code = None, chi_fallback_attempt_count = Some (Fin 0),
    chi_selected_route_reason = Some ''private deployment offline health check'',
    chi_temporary_api_key_provided = False, chi_temporary_base_url_provided = False,
    chi_live_network_call = Some False\<rparr>]"

definition proto_llm_targets :: "llm_targets" where
  "proto_llm_targets =
    \<lparr>lts_departments = [\<lparr>lt_id = ''00000000-0000-4000-8000-000000000301'',
    lt_label = ''Customer Success'',
    lt_description = Some ''Owns customer-facing Agent workflows and knowledge quality.'',
    lt_status = None, lt_metadata = [(''parent_id'', JNull), (''sort_order'',
    JNum (Fin 10))]\<rparr>],
    lts_cost_centers = [\<lparr>lt_id = ''00000000-0000-4000-8000-000000000401'',
    lt_label = ''CS - Customer Success'',
    lt_description = Some ''Monthly model spend for customer-facing Agent operations.'',
    lt_status = Some ''active'', lt_metadata = [(''code'', JStr ''CS''), (''department_id'',
    JStr ''00000000-0000-4000-8000-000000000301''), (''monthly_budget_usd'',
    JStr ''2500.0000'')]\<rparr>],
    lts_users = [\<lparr>lt_id = ''00000000-0000-4000-8000-000000000201'',
    lt_label = ''Deployment Admin (admin@agenthive.internal)'', lt_description = None,
    lt_status = Some ''active'', lt_metadata = [(''email'', JStr ''admin@agenthive.internal''),
    (''is_tenant_admin'', JBool True)]\<rparr>],
    lts_agents = [\<lparr>lt_id = ''00000000-0000-4000-8000-000000000701'',
    lt_label = ''Customer Service Assistant (customer_service:customer-service, active)'',
    lt_description = Some ''Customer service Agent instance for support workflows.'',
    lt_status = Some ''active'', lt_metadata = [(''agent_key'', JStr ''customer_service''),
    (''department_id'', JStr ''00000000-0000-4000-8000-000000000301''), (''module_key'',
    JStr ''agent.customer_service''), (''visibility'', JStr ''department'')]\<rparr>],
    lts_channels = [\<lparr>lt_id = ''00000000-0000-4000-8000-000000000801'',
    lt_label = ''Web Widget (web_widget:default)'', lt_description = None,
    lt_status = Some ''active'', lt_metadata = [(''agent_id'',
    JStr ''00000000-0000-4000-8000-000000000701''), (''channel_key'', JStr ''default''),
    (''channel_type'', JStr ''web_widget'')]\<rparr>]\<rparr>"

section \<open>Made-up answers\<close>

definition provider_of :: "string \<Rightarrow> llm_provider option" where
  "provider_of key = List.find (\<lambda>p. lp_provider_key p = key) proto_providers"

definition secret_suffix :: "string \<Rightarrow> string" where
  \<comment> \<open>\<open>providerKey.slice(0, 3).padEnd(3, "x").toUpperCase()\<close>\<close>
  "secret_suffix key = to_upper (take 3 key @ replicate (3 - length key) (CHR ''x''))"

definition proto_credential :: "string \<Rightarrow> credential_request \<Rightarrow> credential_response" where
  "proto_credential key p =
     \<lparr>crs_provider_key = key, crs_display_name = crq_display_name p,
      crs_masked_secret = ''sk-...'' @ secret_suffix key, crs_credential_configured = True,
      crs_base_url = or_else (crq_base_url p) (Option.bind (provider_of key) lp_base_url),
      crs_owner_type = coalesce (crq_owner_type p) ''tenant'', crs_owner_id = crq_owner_id p,
      crs_deployment_id = map_option ld_id (List.find (\<lambda>d. ld_provider_key d = key) proto_deployments),
      crs_routing_key = crq_routing_key p, crs_model_key = crq_model_key p\<rparr>"

definition proto_connection_test :: "string \<Rightarrow> connection_request \<Rightarrow> connection_response" where
  "proto_connection_test now p =
     (let key = coalesce (cnq_provider_key p) ''openai_compatible'';
          live = coalesce (cnq_live_check p) False in
      \<lparr>cns_ok = True, cns_provider_key = Some key,
       cns_adapter_type = coalesce (or_else (cnq_adapter_type p) (map_option lp_adapter_type (provider_of key)))
         Openai_Compatible,
       cns_model_key = cnq_model_key p, cns_latency_ms = Fin 72, cns_checked_at = now,
       cns_message = ''Prototype connection accepted.'',
       cns_diagnostics = [(''fallback_attempts'', JNum (Fin 0)), (''live_network_call'', JBool False),
         (''mode'', JStr ''prototype''),
         (''operation'', JStr (if live then ''media_provider_live_probe'' else ''model_connection_check'')),
         (''probe_path'', JStr (coalesce (cnq_probe_path p) ''/models'')),
         (''requested_live_check'', JBool live),
         (''route_reason'', JStr ''prototype mode validates policy and routing shape without calling external providers'')]\<rparr>)"

definition proto_acceptance_test :: "nat \<Rightarrow> string \<Rightarrow> acceptance_response" where
  \<comment> \<open>the first argument is \<open>Date.now()\<close>\<close>
  "proto_acceptance_test millis did =
     (let d = coalesce (List.find (\<lambda>d. ld_id d = did) proto_deployments) (hd proto_deployments) in
      \<lparr>acs_ok = True, acs_request_id = ''prototype-'' @ nat_str millis, acs_deployment_id = ld_id d,
       acs_provider_key = ld_provider_key d, acs_model_key = ld_model_key d, acs_routing_key = ld_routing_key d,
       acs_content_preview = ''AgentHive prototype acceptance check ok.'',
       acs_usage = \<lparr>us_input_tokens = JNum (Fin 8), us_output_tokens = JNum (Fin 6),
         us_total_tokens = JNum (Fin 14), us_cost_usd = JStr ''0''\<rparr>,
       acs_route_attempts = [[(''attempt'', JNum (Fin 1)), (''deployment_id'', JStr (ld_id d)),
         (''model_key'', JStr (ld_model_key d)), (''provider_key'', JStr (ld_provider_key d)),
         (''routing_key'', JStr (ld_routing_key d)), (''status'', JStr ''success'')]],
       acs_live_network_call = Some False, acs_mock = Some True, acs_usage_recorded = True,
       acs_audit_action = ''llm.deployment.acceptance_test'',
       acs_evidence = [(''credential_configured'', JBool True), (''fallback_attempt_count'', JNum (Fin 0)),
         (''selected_route_reason'', JStr ''prototype'')]\<rparr>)"

definition deployment_blockers :: "llm_deployment \<Rightarrow> string list" where
  "deployment_blockers d =
     (if coalesce (map_option lp_credential_configured (provider_of (ld_provider_key d))) False \<and>
         ld_status d = Deployment_Active
      then [] else [''credential_or_deployment_missing''])"

definition deployment_warnings :: "llm_deployment \<Rightarrow> string list" where
  "deployment_warnings d =
     (if truthy (get_prop ''fallback'' (JObj (ld_config d))) \<or>
         truthy (get_prop ''fallback_group'' (JObj (ld_config d)))
      then [] else [''fallback_not_configured''])"

definition readiness_of :: "llm_deployment \<Rightarrow> string" where
  "readiness_of d =
     (if deployment_blockers d \<noteq> [] then ''blocked''
      else if deployment_warnings d \<noteq> [] then ''warning'' else ''ready'')"

definition proto_deployment_readiness :: "llm_deployment \<Rightarrow> deployment_readiness" where
  "proto_deployment_readiness d =
     \<lparr>dr_deployment_id = ld_id d, dr_provider_key = ld_provider_key d, dr_provider_name = ld_provider_name d,
      dr_model_key = ld_model_key d, dr_display_name = ld_display_name d, dr_routing_key = ld_routing_key d,
      dr_deployment_name = ld_deployment_name d, dr_readiness = readiness_of d,
      dr_credential_configured =
        coalesce (map_option lp_credential_configured (provider_of (ld_provider_key d))) False,
      dr_deployment_active = (ld_status d = Deployment_Active), dr_live_probe_ok = (readiness_of d \<noteq> ''blocked''),
      dr_live_probe_checked_at = Some mod_now, dr_last_probe_message = Some ''Prototype readiness evidence.'',
      dr_pricing_configured = True, dr_policy_referenced = True,
      dr_fallback_configured = (deployment_warnings d = []), dr_blockers = deployment_blockers d,
      dr_warnings = deployment_warnings d, dr_evidence = [(''mode'', JStr ''prototype'')]\<rparr>"

definition count_readiness :: "string \<Rightarrow> deployment_readiness list \<Rightarrow> jsval" where
  "count_readiness r ds = JNum (num_of_nat (length (filter (\<lambda>d. dr_readiness d = r) ds)))"

definition proto_readiness :: "string \<Rightarrow> llm_readiness" where
  "proto_readiness now =
     (let ds = map proto_deployment_readiness proto_deployments in
      \<lparr>lr_generated_at = now,
       lr_summary = [(''blocked'', count_readiness ''blocked'' ds), (''ready'', count_readiness ''ready'' ds),
         (''total'', JNum (num_of_nat (length ds))), (''warning'', count_readiness ''warning'' ds)],
       lr_deployments = ds\<rparr>)"

definition proto_policy :: "string \<Rightarrow> llm_policy_request \<Rightarrow> llm_policy" where
  "proto_policy now p =
     \<lparr>lo_id = coalesce (lor_id p) ''00000000-0000-4000-8000-000000119999'', lo_tenant_id = mod_tenant,
      lo_name = lor_name p, lo_description = lor_description p, lo_scope_type = lor_scope_type p,
      lo_scope_id = lor_scope_id p, lo_effect = lor_effect p, lo_allowed_models = lor_allowed_models p,
      lo_allowed_routing_keys = lor_allowed_routing_keys p, lo_default_model_key = lor_default_model_key p,
      lo_default_routing_key = lor_default_routing_key p, lo_max_tokens = lor_max_tokens p,
      lo_priority = lor_priority p, lo_status = lor_status p,
      lo_metadata = coalesce (lor_metadata p) [(''mode'', JStr ''prototype'')],
      lo_created_at = mod_now, lo_updated_at = now\<rparr>"

definition proto_policy_status :: "string \<Rightarrow> string \<Rightarrow> llm_policy_status \<Rightarrow> llm_policy" where
  "proto_policy_status now pid st =
     (coalesce (List.find (\<lambda>p. lo_id p = pid) proto_llm_policies) (hd proto_llm_policies))
       \<lparr>lo_status := st, lo_updated_at := now\<rparr>"

definition proto_price :: "string \<Rightarrow> llm_price_request \<Rightarrow> llm_price" where
  "proto_price now p =
     \<lparr>mp_id = ''00000000-0000-4000-8000-000000129999'',
      mp_model_id = coalesce (map_option ld_id (List.find (\<lambda>d. ld_provider_key d = mpr_provider_key p \<and>
          ld_model_key d = mpr_model_key p) proto_deployments)) ''00000000-0000-4000-8000-000000109999'',
      mp_provider_key = mpr_provider_key p, mp_model_key = mpr_model_key p,
      mp_display_name = coalesce (mpr_display_name p) (mpr_model_key p),
      mp_currency = coalesce (mpr_currency p) ''USD'', mp_input_per_1k_tokens = mpr_input_per_1k_tokens p,
      mp_output_per_1k_tokens = mpr_output_per_1k_tokens p,
      mp_effective_from = coalesce (mpr_effective_from p) now, mp_effective_to = mpr_effective_to p\<rparr>"

end
