(* ===== verification/Model_Hooks.thy ===== *)
theory Model_Hooks
  imports Model_Data Resource_Hooks Action_Hooks
begin

text \<open>
  The model gateway hooks of \<open>hooks/admin/models.ts\<close>: seven lists, and the actions that save a
  credential, test a connection or a deployment, save or switch a policy, and save a price.  Some
  lists are loaded with retries and some without, as the code has it; \<open>proto\<close> is the prototype mode.
\<close>

section \<open>Lists\<close>

definition load_or_show :: "bool \<Rightarrow> 'a \<Rightarrow> (unit, 'a) resource \<Rightarrow> (unit, 'a) resource" where
  \<comment> \<open>\<open>load\<close>, the same in every hook of the file\<close>
  "load_or_show proto d s = (if proto then show_now (loaded d) s else ask () s)"

definition load_providers :: "bool \<Rightarrow> (unit, llm_provider list) resource \<Rightarrow> (unit, llm_provider list) resource" where
  "load_providers proto = load_or_show proto proto_providers"

definition providers_answered ::
  "(string \<Rightarrow> string) \<Rightarrow> nat \<Rightarrow> exn + llm_provider_list \<Rightarrow>
   (unit, llm_provider list) resource \<Rightarrow> (unit, llm_provider list) resource" where
  "providers_answered t n r = plain_answer n (settle t (map_sum id lpl_providers r))"

definition load_deployments :: "bool \<Rightarrow> (unit, llm_deployment list) resource \<Rightarrow> (unit, llm_deployment list) resource" where
  "load_deployments proto = load_or_show proto proto_deployments"

definition deployments_answered ::
  "(string \<Rightarrow> string) \<Rightarrow> nat \<Rightarrow> (nat \<Rightarrow> exn + llm_deployment_list) \<Rightarrow>
   (unit, llm_deployment list) resource \<Rightarrow> (unit, llm_deployment list) resource" where
  "deployments_answered t n attempts =
     plain_answer n (settle t (map_sum id ldl_deployments (retried attempts)))"

definition load_llm_policies :: "bool \<Rightarrow> (unit, llm_policy list) resource \<Rightarrow> (unit, llm_policy list) resource" where
  "load_llm_policies proto = load_or_show proto proto_llm_policies"

definition llm_policies_answered ::
  "(string \<Rightarrow> string) \<Rightarrow> nat \<Rightarrow> exn + llm_policy_list \<Rightarrow>
   (unit, llm_policy list) resource \<Rightarrow> (unit, llm_policy list) resource" where
  "llm_policies_answered t n r = plain_answer n (settle t (map_sum id lol_policies r))"

definition load_prices :: "bool \<Rightarrow> (unit, llm_price list) resource \<Rightarrow> (unit, llm_price list) resource" where
  "load_prices proto = load_or_show proto proto_prices"

definition prices_answered ::
  "(string \<Rightarrow> string) \<Rightarrow> nat \<Rightarrow> (nat \<Rightarrow> exn + llm_price_list) \<Rightarrow>
   (unit, llm_price list) resource \<Rightarrow> (unit, llm_price list) resource" where
  "prices_answered t n attempts = plain_answer n (settle t (map_sum id mpl_prices (retried attempts)))"

definition connection_tests_path :: "nat \<Rightarrow> string" where
  "connection_tests_path limit = ''/api/v1/models/connection-tests?limit='' @ nat_str limit"

definition load_connection_tests ::
  "bool \<Rightarrow> (unit, connection_history_item list) resource \<Rightarrow> (unit, connection_history_item list) resource" where
  "load_connection_tests proto = load_or_show proto proto_connection_tests"

definition connection_tests_answered ::
  "(string \<Rightarrow> string) \<Rightarrow> nat \<Rightarrow> (nat \<Rightarrow> exn + connection_history) \<Rightarrow>
   (unit, connection_history_item list) resource \<Rightarrow> (unit, connection_history_item list) resource" where
  "connection_tests_answered t n attempts =
     plain_answer n (settle t (map_sum id chs_tests (retried attempts)))"

definition load_readiness :: "bool \<Rightarrow> string \<Rightarrow> (unit, llm_readiness) resource \<Rightarrow> (unit, llm_readiness) resource" where
  "load_readiness proto now = load_or_show proto (proto_readiness now)"

definition readiness_answered ::
  "(string \<Rightarrow> string) \<Rightarrow> nat \<Rightarrow> exn + llm_readiness \<Rightarrow>
   (unit, llm_readiness) resource \<Rightarrow> (unit, llm_readiness) resource" where
  "readiness_answered t n r = plain_answer n (settle t r)"

definition load_llm_targets :: "bool \<Rightarrow> (unit, llm_targets) resource \<Rightarrow> (unit, llm_targets) resource" where
  "load_llm_targets proto = load_or_show proto proto_llm_targets"

definition llm_targets_answered ::
  "(string \<Rightarrow> string) \<Rightarrow> nat \<Rightarrow> (nat \<Rightarrow> exn + llm_targets) \<Rightarrow>
   (unit, llm_targets) resource \<Rightarrow> (unit, llm_targets) resource" where
  "llm_targets_answered t n attempts = plain_answer n (settle t (retried attempts))"

section \<open>Credential actions\<close>

datatype credential_mark = Saving_Credential | Testing_Connection

record credential_actions =
  cred_actions :: "credential_mark actions"
  last_test :: "connection_response option"
  last_acceptance :: "acceptance_response option"

definition credential_actions_init :: credential_actions where
  "credential_actions_init = \<lparr>cred_actions = actions_init, last_test = None, last_acceptance = None\<rparr>"

definition made_up :: "bool \<Rightarrow> 'r \<Rightarrow> exn + 'r \<Rightarrow> exn + 'r" where
  \<comment> \<open>\<open>fallbackOnError ? made up : await request\<close>\<close>
  "made_up proto x r = (if proto then Inr x else r)"

definition save_credential ::
  "(string \<Rightarrow> string) \<Rightarrow> bool \<Rightarrow> string \<Rightarrow> credential_request \<Rightarrow> exn + credential_response \<Rightarrow>
   credential_actions \<Rightarrow> credential_response option \<times> credential_actions" where
  "save_credential t proto key p r s =
     (let (x, a) = run_action t False Saving_Credential []
            (\<lambda>c. replace_first ''{{secret}}'' (crs_masked_secret c)
                   (replace_first ''{{name}}'' (crs_display_name c) (t ''modelsCredentialSaved'')))
            (made_up proto (proto_credential key p) r) (cred_actions s)
      in (x, \<lparr>cred_actions = a, last_test = None, last_acceptance = None\<rparr>))"

definition connection_accepted :: "(string \<Rightarrow> string) \<Rightarrow> connection_request \<Rightarrow> connection_response \<Rightarrow> string" where
  "connection_accepted t p c =
     replace_first ''{{latency}}'' (num_str (cns_latency_ms c))
       (replace_first ''{{provider}}''
         (coalesce (or_else (cns_provider_key c) (cnq_provider_key p)) (t ''modelsUnknownProvider''))
         (t ''modelsConnectionAccepted''))"

definition test_connection ::
  "(string \<Rightarrow> string) \<Rightarrow> bool \<Rightarrow> string \<Rightarrow> connection_request \<Rightarrow> exn + connection_response \<Rightarrow>
   credential_actions \<Rightarrow> connection_response option \<times> credential_actions" where
  "test_connection t proto now p r s =
     (let a = act_begin Testing_Connection [] (cred_actions s) in
      case made_up proto (proto_connection_test now p) r of
        Inl e \<Rightarrow>
          (None, \<lparr>cred_actions = unmark Testing_Connection (report_error False (error_to_message t e) a),
                  last_test = None, last_acceptance = None\<rparr>)
      | Inr c \<Rightarrow>
          (Some c, \<lparr>cred_actions = unmark Testing_Connection
                      (if cns_ok c then report_success False (connection_accepted t p c) a
                       else report_error False (cns_message c) a),
                    last_test = Some c, last_acceptance = None\<rparr>))"

definition run_acceptance_test ::
  "(string \<Rightarrow> string) \<Rightarrow> bool \<Rightarrow> nat \<Rightarrow> string \<Rightarrow> exn + acceptance_response \<Rightarrow>
   credential_actions \<Rightarrow> acceptance_response option \<times> credential_actions" where
  \<comment> \<open>the last connection test is kept\<close>
  "run_acceptance_test t proto millis did r s =
     (let (x, a) = run_action t False Testing_Connection []
            (\<lambda>c. replace_first ''{{requestId}}'' (acs_request_id c)
                   (replace_first ''{{provider}}'' (acs_provider_key c) (t ''modelsAcceptanceAccepted'')))
            (made_up proto (proto_acceptance_test millis did) r) (cred_actions s)
      in (x, s\<lparr>cred_actions := a, last_acceptance := x\<rparr>))"

section \<open>Policy and price actions\<close>

datatype rule_mark = Saving_Rule | Rule_Status

definition save_llm_policy ::
  "(string \<Rightarrow> string) \<Rightarrow> bool \<Rightarrow> string \<Rightarrow> llm_policy_request \<Rightarrow> exn + llm_policy \<Rightarrow>
   rule_mark actions \<Rightarrow> llm_policy option \<times> rule_mark actions" where
  "save_llm_policy t proto now p r =
     run_action t False Saving_Rule [] (\<lambda>x. replace_first ''{{name}}'' (lo_name x) (t ''modelsPolicySaved''))
       (made_up proto (proto_policy now p) r)"

definition llm_policy_status_action ::
  "(string \<Rightarrow> string) \<Rightarrow> bool \<Rightarrow> string \<Rightarrow> string \<Rightarrow> llm_policy_status \<Rightarrow> exn + llm_policy \<Rightarrow>
   rule_mark actions \<Rightarrow> llm_policy option \<times> rule_mark actions" where
  "llm_policy_status_action t proto now pid st r =
     run_action t False Rule_Status pid (\<lambda>_. t ''modelsPolicyStatusUpdated'')
       (made_up proto (proto_policy_status now pid st) r)"

datatype price_mark = Saving_Price

definition save_price ::
  "(string \<Rightarrow> string) \<Rightarrow> bool \<Rightarrow> string \<Rightarrow> llm_price_request \<Rightarrow> exn + llm_price \<Rightarrow>
   price_mark actions \<Rightarrow> llm_price option \<times> price_mark actions" where
  "save_price t proto now p r =
     run_action t False Saving_Price [] (\<lambda>x. replace_first ''{{model}}'' (mp_model_key x) (t ''modelsPriceSaved''))
       (made_up proto (proto_price now p) r)"

end
