(* ===== verification/Model_Form.thy ===== *)
theory Model_Form
  imports Model_Types
begin

text \<open>
  The forms of the model pages, \<open>pages/models/modelUtils.ts\<close> and \<open>modelPolicyScopeOptions.ts\<close>: the
  policy form with its validation, the defaults and labels of a provider, and the targets a policy or
  a credential may name.  \<open>accepted_policy_bounded\<close> is what validation guarantees of the request.
\<close>

section \<open>The policy form\<close>

record model_policy_form =
  mf_allowed_models :: string
  mf_allowed_routing_keys :: string
  mf_default_model_key :: string
  mf_default_routing_key :: string
  mf_effect :: llm_effect
  mf_max_tokens :: string
  mf_name :: string
  mf_priority :: string
  mf_scope_id :: string
  mf_scope_type :: llm_scope
  mf_status :: llm_policy_status

definition default_model_policy_form :: model_policy_form where
  "default_model_policy_form =
     \<lparr>mf_allowed_models = ''gpt-4o-mini'', mf_allowed_routing_keys = ''default-chat'', mf_default_model_key = [],
      mf_default_routing_key = ''default-chat'', mf_effect = Allow, mf_max_tokens = ''2048'',
      mf_name = ''Tenant default model policy'', mf_priority = ''100'', mf_scope_id = [],
      mf_scope_type = For_Tenant, mf_status = Rule_Active\<rparr>"

definition split_policy_list :: "string \<Rightarrow> string list" where
  "split_policy_list v =
     uniq (filter (\<lambda>s. s \<noteq> []) (map trim (split_any (\<lambda>c. c = CHR '','' \<or> c = nl) v)))"

definition utf16_length :: "string \<Rightarrow> nat" where
  \<comment> \<open>\<open>s.length\<close> of a string given by its UTF-8 bytes: one unit for each lead byte, two for a lead
      byte of four\<close>
  "utf16_length s =
     length (filter (\<lambda>c. let n = of_char c :: nat in n < 128 \<or> 192 \<le> n) s) +
     length (filter (\<lambda>c. 240 \<le> (of_char c :: nat)) s)"

definition code_points :: "string \<Rightarrow> nat" where
  \<comment> \<open>the length Python counts: the bytes that do not continue a code point\<close>
  "code_points s = length (filter (\<lambda>c. let n = of_char c :: nat in n < 128 \<or> 192 \<le> n) s)"

lemma code_points_le_length: "code_points s \<le> length s"
  by (simp add: code_points_def)

lemma code_points_le_utf16: "code_points s \<le> utf16_length s"
  by (simp add: code_points_def utf16_length_def)

definition has_control_characters :: "string \<Rightarrow> bool" where
  "has_control_characters s = list_ex (\<lambda>c. let n = of_char c :: nat in n \<le> 31 \<or> n = 127) s"

definition is_required_positive_integer :: "string \<Rightarrow> bool" where
  "is_required_positive_integer v =
     (let n = to_number (trim v) in num_is_safe_integer n \<and> num_less (Fin 0) n \<and> num_le n (Fin 10000000))"

definition is_optional_positive_integer :: "string \<Rightarrow> bool" where
  "is_optional_positive_integer v = (trim v = [] \<or> is_required_positive_integer (trim v))"

definition alphanumeric :: "char \<Rightarrow> bool" where \<comment> \<open>\<open>[A-Za-z0-9]\<close>\<close>
  "alphanumeric c =
     (let n = of_char c :: nat in (48 \<le> n \<and> n \<le> 57) \<or> (65 \<le> n \<and> n \<le> 90) \<or> (97 \<le> n \<and> n \<le> 122))"

definition is_policy_model_key :: "string \<Rightarrow> bool" where
  "is_policy_model_key v =
     (utf16_length v \<le> 160 \<and> v \<noteq> [] \<and> list_all (\<lambda>c. alphanumeric c \<or> c \<in> set ''._:/-'') v)"

definition is_policy_routing_key :: "string \<Rightarrow> bool" where
  "is_policy_routing_key v =
     (utf16_length v \<le> 96 \<and> v \<noteq> [] \<and> list_all (\<lambda>c. alphanumeric c \<or> c \<in> set ''._-'') v)"

record scope_options =
  so_target_ids :: "string list"
  so_loading :: bool

definition scope_error :: "model_policy_form \<Rightarrow> scope_options \<Rightarrow> string option" where
  "scope_error f opt =
     (if mf_scope_type f = For_Tenant then None
      else if so_loading opt then Some ''modelsPolicyScopeTargetsLoading''
      else if trim (mf_scope_id f) = [] then Some ''modelsPolicyScopeTargetRequired''
      else if so_target_ids opt \<noteq> [] \<and> \<not> List.member (so_target_ids opt) (trim (mf_scope_id f))
      then Some ''modelsPolicyScopeTargetInvalid''
      else None)"

definition model_policy_validation_key :: "model_policy_form \<Rightarrow> scope_options \<Rightarrow> string option" where
  "model_policy_validation_key f opt =
     (let models = split_policy_list (mf_allowed_models f);
          routes = split_policy_list (mf_allowed_routing_keys f);
          model = trim (mf_default_model_key f);
          route = trim (mf_default_routing_key f) in
      if trim (mf_name f) = [] then Some ''modelsPolicyNameRequired''
      else if 120 < utf16_length (trim (mf_name f)) \<or> has_control_characters (mf_name f)
      then Some ''modelsPolicyNameInvalid''
      else if scope_error f opt \<noteq> None then scope_error f opt
      else if \<not> is_optional_positive_integer (mf_max_tokens f) then Some ''modelsPolicyMaxTokensInvalid''
      else if \<not> is_required_positive_integer (mf_priority f) then Some ''modelsPolicyPriorityInvalid''
      else if models = [] \<and> routes = [] \<and> model = [] \<and> route = [] then Some ''modelsPolicyRouteOrModelRequired''
      else if list_ex (\<lambda>k. \<not> is_policy_model_key k) models \<or> (model \<noteq> [] \<and> \<not> is_policy_model_key model)
      then Some ''modelsPolicyModelKeyInvalid''
      else if list_ex (\<lambda>k. \<not> is_policy_routing_key k) routes \<or> (route \<noteq> [] \<and> \<not> is_policy_routing_key route)
      then Some ''modelsPolicyRoutingKeyInvalid''
      else if model \<noteq> [] \<and> models \<noteq> [] \<and> \<not> List.member models model
      then Some ''modelsPolicyDefaultModelNotAllowed''
      else if route \<noteq> [] \<and> routes \<noteq> [] \<and> \<not> List.member routes route
      then Some ''modelsPolicyDefaultRouteNotAllowed''
      else None)"

definition or_null :: "string \<Rightarrow> string option" where \<comment> \<open>\<open>s || null\<close>\<close>
  "or_null s = (if s = [] then None else Some s)"

definition model_policy_request :: "model_policy_form \<Rightarrow> llm_policy_request" where
  \<comment> \<open>the request of \<open>handleSavePolicy\<close>\<close>
  "model_policy_request f =
     \<lparr>lor_id = None, lor_name = (if trim (mf_name f) = [] then ''Model policy'' else trim (mf_name f)),
      lor_description = None, lor_scope_type = mf_scope_type f,
      lor_scope_id = (if mf_scope_type f = For_Tenant then None else or_null (trim (mf_scope_id f))),
      lor_effect = mf_effect f, lor_allowed_models = split_policy_list (mf_allowed_models f),
      lor_allowed_routing_keys = split_policy_list (mf_allowed_routing_keys f),
      lor_default_model_key = or_null (trim (mf_default_model_key f)),
      lor_default_routing_key = or_null (trim (mf_default_routing_key f)),
      lor_max_tokens = (if trim (mf_max_tokens f) = [] then None else Some (to_number (mf_max_tokens f))),
      lor_priority = (if mf_priority f = [] then Fin 100 else to_number (mf_priority f)),
      lor_status = mf_status f, lor_metadata = None\<rparr>"

section \<open>What an accepted form sends\<close>

definition bounded_count :: "jsnum \<Rightarrow> bool" where
  "bounded_count n \<longleftrightarrow> num_is_safe_integer n \<and> num_less (Fin 0) n \<and> num_le n (Fin 10000000)"

definition choice_ok :: "(string \<Rightarrow> bool) \<Rightarrow> string list \<Rightarrow> string option \<Rightarrow> bool" where
  \<comment> \<open>distinct well-formed keys, and a default that is one of them unless all are allowed\<close>
  "choice_ok key ks d \<longleftrightarrow>
     distinct ks \<and> list_all key ks \<and>
     (case d of None \<Rightarrow> True | Some k \<Rightarrow> key k \<and> (ks = [] \<or> List.member ks k))"

definition policy_request_ok :: "llm_policy_request \<Rightarrow> scope_options \<Rightarrow> bool" where
  "policy_request_ok p opt \<longleftrightarrow>
     lor_name p \<noteq> [] \<and> trim (lor_name p) = lor_name p \<and> utf16_length (lor_name p) \<le> 120 \<and>
     \<not> has_control_characters (lor_name p) \<and>
     (case lor_scope_id p of
        None \<Rightarrow> lor_scope_type p = For_Tenant
      | Some i \<Rightarrow> lor_scope_type p \<noteq> For_Tenant \<and> i \<noteq> [] \<and>
          (so_target_ids opt = [] \<or> List.member (so_target_ids opt) i)) \<and>
     bounded_count (lor_priority p) \<and>
     (case lor_max_tokens p of None \<Rightarrow> True | Some n \<Rightarrow> bounded_count n) \<and>
     choice_ok is_policy_model_key (lor_allowed_models p) (lor_default_model_key p) \<and>
     choice_ok is_policy_routing_key (lor_allowed_routing_keys p) (lor_default_routing_key p) \<and>
     (lor_allowed_models p \<noteq> [] \<or> lor_allowed_routing_keys p \<noteq> [] \<or>
      lor_default_model_key p \<noteq> None \<or> lor_default_routing_key p \<noteq> None)"

lemma control_characters_trim: "\<not> has_control_characters s \<Longrightarrow> \<not> has_control_characters (trim s)"
  using set_trim [of s] by (auto simp: has_control_characters_def list_ex_iff)

lemma distinct_split_policy_list [simp]: "distinct (split_policy_list v)"
  by (simp add: split_policy_list_def)

lemma required_integer_given: "is_required_positive_integer v \<Longrightarrow> v \<noteq> []"
  by (auto simp: is_required_positive_integer_def to_number_def Let_def)

lemma request_fields:
  "lor_name (model_policy_request f) = (if trim (mf_name f) = [] then ''Model policy'' else trim (mf_name f))"
  "lor_scope_type (model_policy_request f) = mf_scope_type f"
  "lor_allowed_models (model_policy_request f) = split_policy_list (mf_allowed_models f)"
  "lor_allowed_routing_keys (model_policy_request f) = split_policy_list (mf_allowed_routing_keys f)"
  "lor_default_model_key (model_policy_request f) = or_null (trim (mf_default_model_key f))"
  "lor_default_routing_key (model_policy_request f) = or_null (trim (mf_default_routing_key f))"
  by (simp_all add: model_policy_request_def)

lemma or_null_None [simp]: "or_null s = None \<longleftrightarrow> s = []"
  by (simp add: or_null_def)

lemma scope_accepted:
  "scope_error f opt = None \<Longrightarrow>
   (case lor_scope_id (model_policy_request f) of
        None \<Rightarrow> lor_scope_type (model_policy_request f) = For_Tenant
      | Some i \<Rightarrow> lor_scope_type (model_policy_request f) \<noteq> For_Tenant \<and> i \<noteq> [] \<and>
          (so_target_ids opt = [] \<or> List.member (so_target_ids opt) i))"
  by (auto simp: scope_error_def model_policy_request_def or_null_def split: if_splits)

lemma choice_accepted:
  "\<not> list_ex (\<lambda>k. \<not> key k) ks \<Longrightarrow> distinct ks \<Longrightarrow> (d \<noteq> [] \<longrightarrow> key d) \<Longrightarrow>
   (d \<noteq> [] \<and> ks \<noteq> [] \<longrightarrow> List.member ks d) \<Longrightarrow> choice_ok key ks (or_null d)"
  by (auto simp: choice_ok_def or_null_def list_ex_iff list_all_iff)

lemma no_error_iff:
  "(if c then Some x else k) = None \<longleftrightarrow> \<not> c \<and> k = None" "(if e \<noteq> None then e else k) = None \<longleftrightarrow> e = None \<and> k = None"
  by (cases e; simp)+

text \<open>
  C25: a policy form that validation accepts yields a request within its bounds: a trimmed name of 1
  to 120 characters without control characters, a scope target exactly for a scope other than the
  tenant, an integral priority and token limit between 1 and ten million, distinct well-formed model
  and routing keys, defaults among the allowed ones, and at least one route or model named.
\<close>

theorem accepted_policy_bounded:
  assumes "model_policy_validation_key f opt = None"
  shows "policy_request_ok (model_policy_request f) opt"
proof -
  note accepted = assms [unfolded model_policy_validation_key_def Let_def no_error_iff]
  from accepted have name: "trim (mf_name f) \<noteq> []" "utf16_length (trim (mf_name f)) \<le> 120"
      "\<not> has_control_characters (mf_name f)"
    and scope: "scope_error f opt = None"
    and counts: "is_optional_positive_integer (mf_max_tokens f)" "is_required_positive_integer (mf_priority f)"
    and some: "split_policy_list (mf_allowed_models f) \<noteq> [] \<or> split_policy_list (mf_allowed_routing_keys f) \<noteq> [] \<or>
               trim (mf_default_model_key f) \<noteq> [] \<or> trim (mf_default_routing_key f) \<noteq> []"
    by simp_all
  from accepted have models: "choice_ok is_policy_model_key (split_policy_list (mf_allowed_models f))
                   (or_null (trim (mf_default_model_key f)))"
    by (intro choice_accepted) auto
  from accepted have routes: "choice_ok is_policy_routing_key (split_policy_list (mf_allowed_routing_keys f))
                   (or_null (trim (mf_default_routing_key f)))"
    by (intro choice_accepted) auto
  have "bounded_count (lor_priority (model_policy_request f))"
    using counts(2) required_integer_given [OF counts(2)]
    by (simp add: bounded_count_def model_policy_request_def is_required_positive_integer_def Let_def)
  moreover have "case lor_max_tokens (model_policy_request f) of None \<Rightarrow> True | Some n \<Rightarrow> bounded_count n"
    using counts(1)
    by (auto simp: bounded_count_def model_policy_request_def is_optional_positive_integer_def
        is_required_positive_integer_def Let_def)
  ultimately show ?thesis
    using name scope_accepted [OF scope] models routes some control_characters_trim [OF name(3)]
    unfolding policy_request_ok_def by (simp add: request_fields)
qed

theorem accepted_policy_bounded_witness:
  "policy_request_ok (model_policy_request default_model_policy_form) \<lparr>so_target_ids = [], so_loading = False\<rparr>"
  by (rule accepted_policy_bounded) code_simp

end
