(* ===== verification/Model_Labels.thy ===== *)
theory Model_Labels
  imports Model_Types
begin

text \<open>
  The provider tables of \<open>pages/models/modelUtils.ts\<close>: coverage groups, names, default models, routes
  and deployment names, labels and placeholders.  A table is an association list from provider keys;
  the keys come from the provider catalogue.
\<close>

section \<open>Tables\<close>

definition protocol_coverage :: "(string \<times> string list) list" where
  "protocol_coverage =
    [(''litellm'', [''litellm'']), (''openaiCompatible'', [''openai_compatible'', ''qwen'',
    ''deepseek'', ''kimi'', ''minimax'', ''mimo'', ''glm'', ''doubao'', ''baidu_qianfan'',
    ''hunyuan'', ''spark'', ''siliconflow'', ''ai302'']), (''anthropicCompatible'',
    [''anthropic_compatible'', ''bedrock'']), (''mediaCompatible'', [''openai_compatible_media'',
    ''openai_images'', ''nano_banana'', ''volcengine_seedance''])]"

definition coverage_groups :: "(string \<times> string list) list" where
  "coverage_groups =
    [(''international'', [''openai'', ''anthropic'', ''anthropic_compatible'', ''gemini'',
    ''azure_openai'', ''bedrock'', ''vertex_ai'', ''mistral'', ''cohere'', ''xai'']), (''china'',
    [''qwen'', ''deepseek'', ''kimi'', ''minimax'', ''mimo'', ''glm'', ''doubao'',
    ''baidu_qianfan'', ''hunyuan'', ''spark'']), (''aggregators'', [''litellm'', ''openrouter'',
    ''together'', ''fireworks'', ''groq'', ''novita'', ''siliconflow'', ''ai302'']), (''private'',
    [''openai_compatible'', ''ollama'', ''vllm'', ''sglang'', ''lmstudio'', ''xinference'',
    ''localai'']), (''media'', [''openai_images'', ''nano_banana'', ''volcengine_seedance'',
    ''openai_compatible_media''])]"

definition provider_display_names :: "(string \<times> string) list" where
  "provider_display_names =
    [(''ai302'', ''302.AI''), (''anthropic'', ''Claude''), (''anthropic_compatible'',
    ''Anthropic-compatible''), (''azure_openai'', ''Azure OpenAI''), (''baidu_qianfan'',
    ''Baidu Qianfan''), (''bedrock'', ''AWS Bedrock''), (''cohere'', ''Cohere''), (''deepseek'',
    ''DeepSeek''), (''doubao'', ''Doubao''), (''fireworks'', ''Fireworks''), (''gemini'',
    ''Gemini''), (''glm'', ''GLM''), (''groq'', ''Groq''), (''hunyuan'', ''Hunyuan''), (''kimi'',
    ''Kimi''), (''litellm'', ''LiteLLM''), (''lmstudio'', ''LM Studio''), (''localai'',
    ''LocalAI''), (''mimo'', ''MiMo''), (''minimax'', ''MiniMax''), (''mistral'', ''Mistral''),
    (''novita'', ''Novita''), (''ollama'', ''Ollama''), (''openai'', ''GPT''), (''openai_images'',
    ''OpenAI Images''), (''openai_compatible_media'', ''Private Media''), (''openai_compatible'',
    ''OpenAI-compatible''), (''openrouter'', ''OpenRouter''), (''qwen'', ''Qwen''),
    (''nano_banana'', ''Nano Banana''), (''sglang'', ''SGLang''), (''siliconflow'',
    ''SiliconFlow''), (''spark'', ''Spark''), (''together'', ''Together AI''), (''vertex_ai'',
    ''Vertex AI''), (''volcengine_seedance'', ''Seedance''), (''vllm'', ''vLLM''), (''xai'',
    ''xAI''), (''xinference'', ''Xinference'')]"

definition default_model_keys :: "(string \<times> string) list" where
  "default_model_keys =
    [(''ai302'', ''gpt-4o-mini''), (''anthropic'', ''claude-3-5-sonnet''),
    (''anthropic_compatible'', ''claude-compatible''), (''azure_openai'', ''gpt-4o-mini''),
    (''baidu_qianfan'', ''ernie-4.0-turbo-8k''), (''bedrock'',
    ''anthropic.claude-3-5-sonnet-20240620-v1:0''), (''cohere'', ''command-r-plus''), (''deepseek'',
    ''deepseek-v4-flash''), (''doubao'', ''doubao-pro-32k''), (''fireworks'',
    ''accounts/fireworks/models/llama-v3p1-70b-instruct''), (''gemini'', ''gemini-1.5-pro''),
    (''glm'', ''glm-4-plus''), (''groq'', ''llama-3.1-70b-versatile''), (''hunyuan'',
    ''hunyuan-pro''), (''kimi'', ''moonshot-v1-128k''), (''litellm'', ''gpt-4o-mini''),
    (''lmstudio'', ''local-model''), (''localai'', ''local-chat''), (''mimo'', ''mimo-chat''),
    (''minimax'', ''abab6.5s-chat''), (''mistral'', ''mistral-large-latest''), (''novita'',
    ''meta-llama/llama-3.1-70b-instruct''), (''ollama'', ''llama3.1''), (''openai'', ''gpt-4o''),
    (''openai_images'', ''openai/gpt-image-2''), (''openai_compatible'', ''local-chat''),
    (''openai_compatible_media'', ''openai-compatible-image''), (''openrouter'',
    ''openai/gpt-4o-mini''), (''qwen'', ''qwen-plus''), (''nano_banana'', ''google/nano-banana''),
    (''sglang'', ''local-chat''), (''siliconflow'', ''deepseek-ai/DeepSeek-V3''), (''spark'',
    ''spark-max''), (''together'', ''meta-llama/Meta-Llama-3.1-70B-Instruct-Turbo''),
    (''vertex_ai'', ''gemini-1.5-pro''), (''volcengine_seedance'', ''volcengine/seedance-2.0''),
    (''vllm'', ''local-chat''), (''xai'', ''grok-2-latest''), (''xinference'', ''local-chat'')]"

definition default_model_names :: "(string \<times> string) list" where
  "default_model_names =
    [(''openai_images'', ''ChatGPT Images 2.0''), (''nano_banana'', ''Nano Banana''),
    (''volcengine_seedance'', ''Seedance 2.0 Video''), (''openai_compatible_media'',
    ''Private Image/Video Model'')]"

section \<open>Status and adapter\<close>

definition format_provider_status :: "string \<Rightarrow> bool \<Rightarrow> string" where
  "format_provider_status status configured =
     (if configured then ''configured''
      else if status = ''active'' then ''catalog-active''
      else if status = ''not_configured'' then ''not-configured''
      else to_lower (map (\<lambda>c. if c = CHR ''_'' then CHR ''-'' else c) status))"

definition provider_status_label_key :: "string \<Rightarrow> bool \<Rightarrow> string option" where
  "provider_status_label_key status configured =
     (if configured then Some ''modelsProviderStatusConfigured''
      else if status = ''active'' then Some ''modelsProviderStatusCatalogActive''
      else if status = ''not_configured'' then Some ''modelsProviderStatusNotConfigured''
      else None)"

definition format_adapter_detail :: "llm_provider \<Rightarrow> string" where
  "format_adapter_detail p =
     (case lp_base_url p of
        Some (c # cs) \<Rightarrow> c # cs
      | _ \<Rightarrow>
          (case lp_adapter_type p of
             Litellm \<Rightarrow> ''LiteLLM adapter''
           | Anthropic_Compatible \<Rightarrow> ''Anthropic-compatible adapter''
           | Openai_Compatible \<Rightarrow> ''OpenAI-compatible adapter''))"

definition provider_protocol_label_key :: "llm_provider \<Rightarrow> string" where
  "provider_protocol_label_key p =
     (case lp_adapter_type p of
        Litellm \<Rightarrow> ''modelsProtocolLitellm''
      | Anthropic_Compatible \<Rightarrow> ''modelsProtocolAnthropicCompatible''
      | Openai_Compatible \<Rightarrow>
          if lp_provider_key p = ''openai_compatible_media'' then ''modelsProtocolMediaCompatible''
          else ''modelsProtocolOpenaiCompatible'')"

definition provider_credential_hint_key :: "llm_provider \<Rightarrow> string" where
  "provider_credential_hint_key p =
     (case lp_adapter_type p of
        Litellm \<Rightarrow> ''modelsCredentialHintLiteLlm''
      | Anthropic_Compatible \<Rightarrow> ''modelsCredentialHintAnthropicCompatible''
      | Openai_Compatible \<Rightarrow>
          if lp_provider_key p = ''openai_compatible_media'' then ''modelsCredentialHintMediaCompatible''
          else if lp_provider_key p = ''deepseek'' then ''modelsCredentialHintDeepSeek''
          else if lp_provider_key p = ''mimo'' then ''modelsCredentialHintMimo''
          else ''modelsCredentialHintOpenAiCompatible'')"

section \<open>Defaults of a provider\<close>

definition default_model_key :: "string \<Rightarrow> string" where
  "default_model_key p = coalesce (map_of default_model_keys p) ''chat-model''"

definition default_model_display_name :: "string \<Rightarrow> string" where
  "default_model_display_name p = coalesce (map_of default_model_names p) (default_model_key p)"

definition default_routing_key_for :: "string \<Rightarrow> string" where
  "default_routing_key_for p =
     (if p = ''litellm'' then ''default-chat''
      else if p = ''openai_compatible'' then ''private-chat''
      else if p = ''anthropic_compatible'' then ''anthropic-private-chat''
      else if p = ''openai_images'' \<or> p = ''nano_banana'' then p @ ''-image''
      else if p = ''volcengine_seedance'' then ''volcengine-seedance-video''
      else if p = ''openai_compatible_media'' then ''private-media-generation''
      else p @ ''-chat'')"

definition is_media_provider :: "string \<Rightarrow> bool" where
  "is_media_provider p =
     List.member [''openai_images'', ''nano_banana'', ''volcengine_seedance'', ''openai_compatible_media''] p"

definition default_deployment_name :: "string \<Rightarrow> string \<Rightarrow> string" where
  "default_deployment_name p name =
     (if p = ''openai_images'' \<or> p = ''nano_banana'' then name @ '' Default Image''
      else if p = ''volcengine_seedance'' then name @ '' Default Video''
      else if p = ''openai_compatible_media'' then name @ '' Default Media''
      else name @ '' Default Chat'')"

definition model_key_placeholder :: "string \<Rightarrow> string" where
  "model_key_placeholder p =
     (if p = ''openai_images'' then ''openai/gpt-image-2''
      else if p = ''nano_banana'' then ''google/nano-banana''
      else if p = ''volcengine_seedance'' then ''volcengine/seedance-2.0''
      else if p = ''openai_compatible_media'' then ''openai-compatible-image, openai-compatible-video''
      else if p = ''mimo'' then ''mimo-chat''
      else ''gpt-4o-mini, qwen-plus, deepseek-v4-flash...'')"

definition routing_key_placeholder :: "string \<Rightarrow> string" where
  "routing_key_placeholder p = (if is_media_provider p then default_routing_key_for p else ''default-chat'')"

definition default_token_price :: "string \<Rightarrow> string \<times> string" where \<comment> \<open>input and output per 1k\<close>
  "default_token_price p = (if is_media_provider p then (''0'', ''0'') else (''0.001'', ''0.002''))"

definition configured_provider_keys :: "llm_provider list \<Rightarrow> string list" where
  "configured_provider_keys ps = uniq (map lp_provider_key (filter lp_credential_configured ps))"

section \<open>Targets\<close>

definition llm_target_option :: "llm_target \<Rightarrow> string \<times> string" where
  "llm_target_option x =
     (lt_id x,
      case lt_status x of
        None \<Rightarrow> lt_label x
      | Some st \<Rightarrow> if st \<noteq> [] \<and> st \<noteq> ''active'' then lt_label x @ '' ('' @ st @ '')'' else lt_label x)"

datatype credential_owner = Owner_Tenant | Owner_Department | Owner_User

fun credential_owner_str :: "credential_owner \<Rightarrow> string" where
  "credential_owner_str Owner_Tenant = ''tenant''"
| "credential_owner_str Owner_Department = ''department''"
| "credential_owner_str Owner_User = ''user''"

definition credential_owner_options :: "llm_targets \<Rightarrow> credential_owner \<Rightarrow> (string \<times> string) list" where
  "credential_owner_options targets owner =
     (case owner of
        Owner_Department \<Rightarrow> map llm_target_option (lts_departments targets)
      | Owner_User \<Rightarrow> map llm_target_option (lts_users targets)
      | Owner_Tenant \<Rightarrow> [])"

definition policy_scope_options :: "llm_scope \<Rightarrow> llm_targets \<Rightarrow> (string \<times> string) list" where
  "policy_scope_options sc targets =
     (case sc of
        For_Department \<Rightarrow> map llm_target_option (lts_departments targets)
      | For_Cost_Center \<Rightarrow> map llm_target_option (lts_cost_centers targets)
      | For_User \<Rightarrow> map llm_target_option (lts_users targets)
      | For_Agent \<Rightarrow> map llm_target_option (lts_agents targets)
      | For_Channel \<Rightarrow> map llm_target_option (lts_channels targets)
      | For_Tenant \<Rightarrow> [])"

section \<open>The tables agree\<close>

text \<open>Every provider of a coverage group has a name and a default model, and no provider is in two groups.\<close>

lemma coverage_groups_named:
  "list_all (\<lambda>(g, ps). list_all (\<lambda>p. map_of provider_display_names p \<noteq> None \<and>
      map_of default_model_keys p \<noteq> None) ps) coverage_groups"
  by code_simp

lemma coverage_groups_disjoint: "distinct (concat (map snd coverage_groups))"
  by code_simp

end
