(* ===== verification/Model_Page.thy ===== *)
theory Model_Page
  imports Model_Hooks Model_Form Model_Labels Page_Env Session
begin

text \<open>
  The model gateway page, \<open>pages/models/useModelsPageController.ts\<close>: its tabs, the selected provider
  and the forms that follow it, and the handlers of its buttons.  A form is reset by an effect when
  the selected provider or deployment is another object, which is so after every answer that holds
  it.
\<close>

section \<open>State\<close>

datatype model_tab = Tab_Coverage | Tab_Credentials | Tab_Governance | Tab_Diagnostics
datatype coverage_tab = Coverage_Providers | Coverage_Deployments
datatype credential_stage = Stage_Providers | Stage_Credential
datatype diagnostics_tab = Diagnostics_Handoff | Diagnostics_History
datatype governance_tab = Governance_Policies | Governance_Prices

record credential_form =
  cf_api_key :: string
  cf_base_url :: string
  cf_deployment_name :: string
  cf_display_name :: string
  cf_model_key :: string
  cf_owner_id :: string
  cf_owner_type :: credential_owner
  cf_probe_path :: string
  cf_routing_key :: string

record price_form =
  pf_currency :: string
  pf_display_name :: string
  pf_input_per_1k :: string
  pf_model_key :: string
  pf_output_per_1k :: string
  pf_provider_key :: string

record models_page =
  mod_tab :: model_tab
  mod_coverage_tab :: coverage_tab
  mod_credential_stage :: credential_stage
  mod_diagnostics_tab :: diagnostics_tab
  mod_governance_tab :: governance_tab
  providers_hook :: "(unit, llm_provider list) resource"
  deployments_hook :: "(unit, llm_deployment list) resource"
  rules_hook :: "(unit, llm_policy list) resource"
  prices_hook :: "(unit, llm_price list) resource"
  tests_hook :: "(unit, connection_history_item list) resource"
  readiness_hook :: "(unit, llm_readiness) resource"
  llm_targets_hook :: "(unit, llm_targets) resource"
  credential_state :: credential_actions
  rule_state :: "rule_mark actions"
  price_state :: "price_mark actions"
  selected_provider_key :: "string option"
  local_notice :: string
  credential_form_of :: credential_form
  policy_form_of :: model_policy_form
  policy_validation_error :: "string option"
  price_form_of :: price_form

definition models_tab_key :: string where
  "models_tab_key = ''agenthive.models.default_tab''"

definition consume_requested_tab :: "browser \<Rightarrow> model_tab \<times> browser" where
  "consume_requested_tab b =
     (case map_of [(''coverage'', Tab_Coverage), (''credentials'', Tab_Credentials),
             (''governance'', Tab_Governance), (''diagnostics'', Tab_Diagnostics)]
            (coalesce (session_get models_tab_key b) []) of
        Some tab \<Rightarrow> (tab, session_remove models_tab_key b)
      | None \<Rightarrow> (Tab_Coverage, b))"

definition can_write_models :: "page_env \<Rightarrow> bool" where
  "can_write_models = has_permission ''models:write''"

definition can_write_prices :: "page_env \<Rightarrow> bool" where
  "can_write_prices env \<longleftrightarrow>
     in_prototype env \<or> (case page_user env of None \<Rightarrow> False | Some u \<Rightarrow> is_super_admin u)"

section \<open>Derived values\<close>

definition list_shown :: "(unit, 'a list) resource \<Rightarrow> 'a list" where
  "list_shown h = coalesce (as_data (shown h)) []"

definition selected_provider :: "models_page \<Rightarrow> llm_provider option" where
  "selected_provider s =
     List.find (\<lambda>p. Some (lp_provider_key p) = selected_provider_key s) (list_shown (providers_hook s))"

definition provider_deployments :: "models_page \<Rightarrow> llm_deployment list" where
  "provider_deployments s =
     filter (\<lambda>d. Some (ld_provider_key d) = selected_provider_key s) (list_shown (deployments_hook s))"

definition selected_deployment :: "models_page \<Rightarrow> llm_deployment option" where
  "selected_deployment s =
     or_else (List.find (\<lambda>d. Some (ld_provider_key d) = selected_provider_key s \<and> ld_status d = Deployment_Active)
                (list_shown (deployments_hook s)))
       (List.find (\<lambda>d. Some (ld_provider_key d) = selected_provider_key s) (list_shown (deployments_hook s)))"

definition connected_count :: "models_page \<Rightarrow> nat" where
  "connected_count s =
     length (filter (\<lambda>p. lp_credential_configured p \<or> lp_status p = Provider_Active) (list_shown (providers_hook s)))"

definition llm_targets_of :: "models_page \<Rightarrow> llm_targets" where
  "llm_targets_of s =
     coalesce (as_data (shown (llm_targets_hook s)))
       \<lparr>lts_departments = [], lts_cost_centers = [], lts_users = [], lts_agents = [], lts_channels = []\<rparr>"

definition scope_options_of :: "models_page \<Rightarrow> scope_options" where
  "scope_options_of s =
     \<lparr>so_target_ids = map fst (policy_scope_options (mf_scope_type (policy_form_of s)) (llm_targets_of s)),
      so_loading = (mf_scope_type (policy_form_of s) \<noteq> For_Tenant \<and> as_loading (shown (llm_targets_hook s)))\<rparr>"

definition owner_options_of :: "models_page \<Rightarrow> (string \<times> string) list" where
  "owner_options_of s = credential_owner_options (llm_targets_of s) (cf_owner_type (credential_form_of s))"

section \<open>Forms that follow the selection\<close>

definition credential_form_for :: "llm_provider \<Rightarrow> llm_deployment option \<Rightarrow> credential_form" where
  "credential_form_for p d =
     \<lparr>cf_api_key = [], cf_base_url = coalesce (lp_base_url p) [],
      cf_deployment_name =
        coalesce (map_option ld_deployment_name d) (default_deployment_name (lp_provider_key p) (lp_name p)),
      cf_display_name = lp_name p @ '' Default Key'',
      cf_model_key = coalesce (map_option ld_model_key d) (default_model_key (lp_provider_key p)),
      cf_owner_id = [], cf_owner_type = Owner_Tenant, cf_probe_path = ''/models'',
      cf_routing_key = coalesce (map_option ld_routing_key d) (default_routing_key_for (lp_provider_key p))\<rparr>"

definition price_form_for :: "llm_provider \<Rightarrow> llm_deployment option \<Rightarrow> price_form \<Rightarrow> price_form" where
  "price_form_for p d f =
     f\<lparr>pf_display_name :=
         coalesce (map_option ld_display_name d) (default_model_display_name (lp_provider_key p)),
       pf_input_per_1k := fst (default_token_price (lp_provider_key p)),
       pf_model_key := coalesce (map_option ld_model_key d) (default_model_key (lp_provider_key p)),
       pf_output_per_1k := snd (default_token_price (lp_provider_key p)),
       pf_provider_key := lp_provider_key p\<rparr>"

definition reset_forms :: "models_page \<Rightarrow> models_page" where \<comment> \<open>the two form effects\<close>
  "reset_forms s =
     (case selected_provider s of
        None \<Rightarrow> s
      | Some p \<Rightarrow>
          s\<lparr>credential_form_of := credential_form_for p (selected_deployment s),
            price_form_of := price_form_for p (selected_deployment s) (price_form_of s)\<rparr>)"

definition default_selection :: "models_page \<Rightarrow> models_page" where \<comment> \<open>the selection effect\<close>
  "default_selection s =
     (case list_shown (providers_hook s) of
        [] \<Rightarrow> s
      | p # _ \<Rightarrow> s\<lparr>selected_provider_key := Some (coalesce (selected_provider_key s) (lp_provider_key p))\<rparr>)"

definition select_provider :: "string \<Rightarrow> models_page \<Rightarrow> models_page" where
  "select_provider k s =
     (if selected_provider_key s = Some k then s else reset_forms (s\<lparr>selected_provider_key := Some k\<rparr>))"

definition providers_arrive :: "page_env \<Rightarrow> nat \<Rightarrow> exn + llm_provider_list \<Rightarrow> models_page \<Rightarrow> models_page" where
  "providers_arrive env n r s =
     reset_forms (default_selection
       (s\<lparr>providers_hook := providers_answered (page_t env) n r (providers_hook s)\<rparr>))"

definition deployments_arrive ::
  "page_env \<Rightarrow> nat \<Rightarrow> (nat \<Rightarrow> exn + llm_deployment_list) \<Rightarrow> models_page \<Rightarrow> models_page" where
  "deployments_arrive env n attempts s =
     (let s' = s\<lparr>deployments_hook := deployments_answered (page_t env) n attempts (deployments_hook s)\<rparr> in
      if selected_deployment s = None \<and> selected_deployment s' = None then s' else reset_forms s')"

definition models_page_init :: "page_env \<Rightarrow> browser \<Rightarrow> models_page \<times> browser" where
  \<comment> \<open>the first render, before the effects of the hooks\<close>
  "models_page_init env b =
     (let (tab, b') = consume_requested_tab b in
      (\<lparr>mod_tab = tab, mod_coverage_tab = Coverage_Providers, mod_credential_stage = Stage_Providers,
        mod_diagnostics_tab = Diagnostics_Handoff, mod_governance_tab = Governance_Policies,
        providers_hook = resource_init True, deployments_hook = resource_init True,
        rules_hook = resource_init True, prices_hook = resource_init True, tests_hook = resource_init True,
        readiness_hook = resource_init True, llm_targets_hook = resource_init True,
        credential_state = credential_actions_init, rule_state = actions_init, price_state = actions_init,
        selected_provider_key = None,
        local_notice = (if tab = Tab_Coverage then page_t env ''modelsCoverageFocused'' else []),
        credential_form_of =
          \<lparr>cf_api_key = [], cf_base_url = [], cf_deployment_name = [],
           cf_display_name = ''Default Provider Credential'', cf_model_key = [], cf_owner_id = [],
           cf_owner_type = Owner_Tenant, cf_probe_path = ''/models'', cf_routing_key = []\<rparr>,
        policy_form_of = default_model_policy_form, policy_validation_error = None,
        price_form_of =
          \<lparr>pf_currency = ''USD'', pf_display_name = [], pf_input_per_1k = ''0.001'', pf_model_key = [],
           pf_output_per_1k = ''0.002'', pf_provider_key = []\<rparr>\<rparr>, b'))"

section \<open>Reloading\<close>

definition refetch_providers :: "page_env \<Rightarrow> models_page \<Rightarrow> models_page" where
  "refetch_providers env s = s\<lparr>providers_hook := load_providers (in_prototype env) (providers_hook s)\<rparr>"

definition refetch_deployments :: "page_env \<Rightarrow> models_page \<Rightarrow> models_page" where
  "refetch_deployments env s = s\<lparr>deployments_hook := load_deployments (in_prototype env) (deployments_hook s)\<rparr>"

definition refetch_rules :: "page_env \<Rightarrow> models_page \<Rightarrow> models_page" where
  "refetch_rules env s = s\<lparr>rules_hook := load_llm_policies (in_prototype env) (rules_hook s)\<rparr>"

definition refetch_prices :: "page_env \<Rightarrow> models_page \<Rightarrow> models_page" where
  "refetch_prices env s = s\<lparr>prices_hook := load_prices (in_prototype env) (prices_hook s)\<rparr>"

definition refetch_tests :: "page_env \<Rightarrow> models_page \<Rightarrow> models_page" where
  "refetch_tests env s = s\<lparr>tests_hook := load_connection_tests (in_prototype env) (tests_hook s)\<rparr>"

definition refetch_readiness :: "page_env \<Rightarrow> string \<Rightarrow> models_page \<Rightarrow> models_page" where
  "refetch_readiness env now s = s\<lparr>readiness_hook := load_readiness (in_prototype env) now (readiness_hook s)\<rparr>"

section \<open>Handlers\<close>

text \<open>
  A handler runs up to the first reload it starts; what it does after that reload is answered is a
  definition of its own, \<open>..._then\<close>.  The first component is what the handler returns.
\<close>

definition credential_payload :: "llm_provider \<Rightarrow> credential_form \<Rightarrow> credential_request" where
  "credential_payload p f =
     \<lparr>crq_display_name = text_or (trim (cf_display_name f)) (lp_name p @ '' Default Key''),
      crq_api_key = trim (cf_api_key f), crq_base_url = or_null (trim (cf_base_url f)),
      crq_owner_type = Some (credential_owner_str (cf_owner_type f)),
      crq_owner_id = (if cf_owner_type f = Owner_Tenant then None else Some (trim (cf_owner_id f))),
      crq_model_key = or_null (trim (cf_model_key f)),
      crq_deployment_name = Some (text_or (trim (cf_deployment_name f))
         (default_deployment_name (lp_provider_key p) (lp_name p))),
      crq_routing_key = or_null (trim (cf_routing_key f)), crq_make_default = Some True\<rparr>"

definition handle_save_credential :: "page_env \<Rightarrow> exn + credential_response \<Rightarrow> models_page \<Rightarrow> bool \<times> models_page" where
  "handle_save_credential env r s =
     (case selected_provider s of
        None \<Rightarrow> (False, s)
      | Some p \<Rightarrow>
          let f = credential_form_of s in
          if \<not> can_write_models env \<or> trim (cf_api_key f) = [] then (False, s)
          else case save_credential (page_t env) (in_prototype env) (lp_provider_key p)
                      (credential_payload p f) r (credential_state s) of
            (None, c) \<Rightarrow> (False, s\<lparr>credential_state := c\<rparr>)
          | (Some saved, c) \<Rightarrow>
              (True, refetch_providers env
                 (s\<lparr>credential_state := c,
                    credential_form_of := f\<lparr>cf_api_key := [],
                      cf_base_url := coalesce (crs_base_url saved) (cf_base_url f),
                      cf_model_key := coalesce (crs_model_key saved) (cf_model_key f),
                      cf_routing_key := coalesce (crs_routing_key saved) (cf_routing_key f)\<rparr>\<rparr>)))"

definition save_credential_then :: "page_env \<Rightarrow> string \<Rightarrow> nat \<Rightarrow> models_page \<Rightarrow> models_page" where
  \<comment> \<open>after the providers: the deployments; after these: the readiness\<close>
  "save_credential_then env now k s =
     (if k = 1 then refetch_deployments env s else if k = 2 then refetch_readiness env now s else s)"

definition connection_payload :: "llm_provider \<Rightarrow> llm_deployment option \<Rightarrow> credential_form \<Rightarrow> bool \<Rightarrow> connection_request" where
  "connection_payload p d f live =
     \<lparr>cnq_adapter_type = Some (lp_adapter_type p), cnq_api_key = or_null (trim (cf_api_key f)),
      cnq_base_url = or_null (trim (cf_base_url f)),
      cnq_deployment_id =
        (if trim (cf_api_key f) \<noteq> [] \<or> trim (cf_base_url f) \<noteq> [] then None else map_option ld_id d),
      cnq_live_check = Some live,
      cnq_model_key = or_else (or_null (trim (cf_model_key f))) (map_option ld_model_key d),
      cnq_probe_path = Some (text_or (trim (cf_probe_path f)) ''/models''),
      cnq_provider_key = Some (lp_provider_key p), cnq_timeout_seconds = Some (Fin 10)\<rparr>"

definition handle_test_connection ::
  "page_env \<Rightarrow> string \<Rightarrow> bool \<Rightarrow> exn + connection_response \<Rightarrow> models_page \<Rightarrow> bool \<times> models_page" where
  "handle_test_connection env now live r s =
     (case selected_provider s of
        None \<Rightarrow> (False, s)
      | Some p \<Rightarrow>
          if \<not> can_write_models env then (False, s)
          else case test_connection (page_t env) (in_prototype env) now
                      (connection_payload p (selected_deployment s) (credential_form_of s) live) r (credential_state s) of
            (None, c) \<Rightarrow> (False, s\<lparr>credential_state := c\<rparr>)
          | (Some _, c) \<Rightarrow> (True, refetch_tests env (s\<lparr>credential_state := c\<rparr>)))"

definition handle_run_acceptance_test ::
  "page_env \<Rightarrow> nat \<Rightarrow> exn + acceptance_response \<Rightarrow> models_page \<Rightarrow> bool \<times> models_page" where
  "handle_run_acceptance_test env millis r s =
     (case selected_deployment s of
        None \<Rightarrow> (False, s)
      | Some d \<Rightarrow>
          if \<not> can_write_models env then (False, s)
          else case run_acceptance_test (page_t env) (in_prototype env) millis (ld_id d) r (credential_state s) of
            (None, c) \<Rightarrow> (False, s\<lparr>credential_state := c\<rparr>)
          | (Some _, c) \<Rightarrow> (True, refetch_tests env (s\<lparr>credential_state := c\<rparr>)))"

definition tested_then :: "page_env \<Rightarrow> string \<Rightarrow> models_page \<Rightarrow> models_page" where
  "tested_then env now = refetch_readiness env now"

definition handle_save_policy :: "page_env \<Rightarrow> string \<Rightarrow> exn + llm_policy \<Rightarrow> models_page \<Rightarrow> bool \<times> models_page" where
  "handle_save_policy env now r s =
     (if \<not> can_write_models env then (False, s)
      else case model_policy_validation_key (policy_form_of s) (scope_options_of s) of
        Some k \<Rightarrow> (False, s\<lparr>policy_validation_error := Some (page_t env k)\<rparr>)
      | None \<Rightarrow>
          (case save_llm_policy (page_t env) (in_prototype env) now (model_policy_request (policy_form_of s)) r
                  (rule_state s) of
             (None, a) \<Rightarrow> (False, s\<lparr>policy_validation_error := None, rule_state := a\<rparr>)
           | (Some _, a) \<Rightarrow> (True, refetch_rules env (s\<lparr>policy_validation_error := None, rule_state := a\<rparr>))))"

definition handle_rule_status ::
  "page_env \<Rightarrow> string \<Rightarrow> string \<Rightarrow> llm_policy_status \<Rightarrow> exn + llm_policy \<Rightarrow> models_page \<Rightarrow> models_page" where
  "handle_rule_status env now pid st r s =
     (if \<not> can_write_models env then s
      else case llm_policy_status_action (page_t env) (in_prototype env) now pid st r (rule_state s) of
        (None, a) \<Rightarrow> s\<lparr>rule_state := a\<rparr>
      | (Some _, a) \<Rightarrow> refetch_rules env (s\<lparr>rule_state := a\<rparr>))"

definition price_payload :: "price_form \<Rightarrow> llm_price_request" where
  "price_payload f =
     \<lparr>mpr_provider_key = trim (pf_provider_key f), mpr_model_key = trim (pf_model_key f),
      mpr_display_name = or_null (trim (pf_display_name f)),
      mpr_currency = Some (text_or (to_upper (trim (pf_currency f))) ''USD''),
      mpr_input_per_1k_tokens = JStr (trim (pf_input_per_1k f)),
      mpr_output_per_1k_tokens = JStr (trim (pf_output_per_1k f)),
      mpr_effective_from = None, mpr_effective_to = None\<rparr>"

definition handle_save_price :: "page_env \<Rightarrow> string \<Rightarrow> exn + llm_price \<Rightarrow> models_page \<Rightarrow> bool \<times> models_page" where
  "handle_save_price env now r s =
     (if \<not> can_write_prices env then (False, s)
      else case save_price (page_t env) (in_prototype env) now (price_payload (price_form_of s)) r (price_state s) of
        (None, a) \<Rightarrow> (False, s\<lparr>price_state := a\<rparr>)
      | (Some _, a) \<Rightarrow> (True, refetch_prices env (s\<lparr>price_state := a\<rparr>)))"

definition update_policy_form :: "(model_policy_form \<Rightarrow> model_policy_form) \<Rightarrow> models_page \<Rightarrow> models_page" where
  "update_policy_form g s = s\<lparr>policy_validation_error := None, policy_form_of := g (policy_form_of s)\<rparr>"

definition focus_endpoint_form :: "page_env \<Rightarrow> models_page \<Rightarrow> models_page" where
  \<comment> \<open>up to its timers: one clears the notice, the other scrolls\<close>
  "focus_endpoint_form env s =
     (select_provider ''openai_compatible'' (s\<lparr>mod_tab := Tab_Credentials, mod_credential_stage := Stage_Credential\<rparr>))
       \<lparr>local_notice := page_t env ''modelsEndpointFocused''\<rparr>"

definition clear_local_notice :: "models_page \<Rightarrow> models_page" where
  "clear_local_notice s = s\<lparr>local_notice := []\<rparr>"

definition policy_error_shown :: "models_page \<Rightarrow> string option" where
  "policy_error_shown s = or_else (policy_validation_error s) (act_error (rule_state s))"

section \<open>What the page does to a form\<close>

text \<open>
  An answer that still holds the selected provider discards what was typed into the credential form,
  the key included; so does the reload that follows a successful save, with the values the answer of
  the save had put there.
\<close>

lemma providers_answer_resets_form:
  "selected_provider (providers_arrive env n r s) = Some p \<Longrightarrow>
   cf_api_key (credential_form_of (providers_arrive env n r s)) = [] \<and>
   cf_base_url (credential_form_of (providers_arrive env n r s)) = coalesce (lp_base_url p) []"
  by (auto simp: providers_arrive_def reset_forms_def selected_provider_def credential_form_for_def
      split: option.splits)

text \<open>
  The form of a provider with a base URL names no deployment in a connection test until the URL is
  cleared: the test is sent as a temporary configuration without a key, whichever deployment the page
  shows as selected.
\<close>

lemma unedited_test_names_no_deployment:
  "selected_provider s = Some p \<Longrightarrow> lp_base_url p = Some u \<Longrightarrow> trim u \<noteq> [] \<Longrightarrow>
   cnq_deployment_id (connection_payload p (selected_deployment s) (credential_form_of (reset_forms s)) live) = None \<and>
   cnq_api_key (connection_payload p (selected_deployment s) (credential_form_of (reset_forms s)) live) = None"
  by (simp add: reset_forms_def connection_payload_def credential_form_for_def)

text \<open>Without the permission no handler of the page changes anything.\<close>

lemma models_read_only:
  assumes "\<not> can_write_models env"
  shows "handle_save_credential env r s = (False, s)" "handle_test_connection env now live c s = (False, s)"
    "handle_run_acceptance_test env millis a s = (False, s)" "handle_save_policy env now l s = (False, s)"
    "handle_rule_status env now pid st l s = s"
  using assms by (auto simp: handle_save_credential_def handle_test_connection_def handle_run_acceptance_test_def
      handle_save_policy_def handle_rule_status_def Let_def split: option.splits)

end
