(* ===== verification/Agent_Hooks.thy ===== *)
theory Agent_Hooks
  imports Knowledge_Hooks Session
begin

text \<open>
  The agent, module and channel hooks, \<open>hooks/admin/agents.ts\<close>, \<open>hooks/admin/agentModules.ts\<close> and
  \<open>hooks/admin/channels.ts\<close>: lists and actions over the prototype store or the server, the view of
  an agent the workbench shows, and the runner.  An operation of the store that throws is called
  outside the \<open>try\<close>: the action is rejected with its mark still set, \<open>thrown\<close>.
\<close>

section \<open>Responses\<close>

record agent_catalog =
  acl_agents :: "agent_catalog_entry list"

record agent_instance_list =
  ail_agents :: "agent_instance list"

record workbench_agent_base =
  wk_id :: string
  wk_name :: string
  wk_description :: "string option"
  wk_visibility :: agent_visibility
  wk_status :: base_status
  wk_document_count :: nat
  wk_tags :: "string list"
  wk_updated_at :: string

record workbench_agent =
  wa_id :: string
  wa_name :: string
  wa_slug :: string
  wa_agent_key :: string
  wa_module_key :: string
  wa_description :: "string option"
  wa_status :: string
  wa_visibility :: agent_visibility
  wa_department_id :: "string option"
  wa_category :: "string option"
  wa_workflow_profile :: "string option"
  wa_runnable :: bool
  wa_readiness :: string
  wa_readiness_reasons :: "string list"
  wa_model_profile :: "string option"
  wa_model_policy :: string
  wa_model_available :: bool
  wa_knowledge_base_count :: nat
  wa_knowledge_enabled :: bool
  wa_knowledge_bases :: "workbench_agent_base list"

record workbench_agent_list =
  wal_agents :: "workbench_agent list"

record agent_target =
  at_id :: string
  at_label :: string
  at_description :: "string option"
  at_metadata :: props

record agent_targets =
  ats_departments :: "agent_target list"
  ats_users :: "agent_target list"
  ats_knowledge_bases :: "agent_target list"
  ats_model_deployments :: "agent_target list"

record agent_module_list =
  aml_modules :: "agent_module list"

record channel_list =
  chl_channels :: "channel list"

section \<open>The workbench view of an agent\<close>

definition knowledge_base_refs :: "props \<Rightarrow> string list" where
  "knowledge_base_refs config =
     (let one = get_prop ''knowledge_base_id'' (JObj config);
          many = get_prop ''knowledge_base_ids'' (JObj config);
          raw = (if truthy one then [one] else []) @ (case many of JArr vs \<Rightarrow> vs | _ \<Rightarrow> [])
      in take 5 (uniq (filter (\<lambda>s. s \<noteq> []) (map (\<lambda>v. trim (js_string v)) raw))))"

definition model_profile_of :: "agent_instance \<Rightarrow> string option" where
  \<comment> \<open>\<open>model_routing_key || model_key\<close>\<close>
  "model_profile_of i =
     (if js_truthy_str (ai_model_routing_key i) then ai_model_routing_key i else ai_model_key i)"

definition knowledge_agents :: "string list" where
  "knowledge_agents = [''customer_service'', ''data_analyst'', ''finance'', ''hr_screening'', ''report_writer'', ''store_operations'']"

definition readiness_reasons :: "agent_instance \<Rightarrow> string list" where
  "readiness_reasons i =
     (if js_truthy_str (model_profile_of i) then [] else [''model_policy_not_configured'']) @
     (if List.member knowledge_agents (ai_agent_key i) \<and> knowledge_base_refs (ai_config i) = []
      then [''knowledge_not_bound''] else [])"

definition to_agent_base :: "knowledge_base \<Rightarrow> workbench_agent_base" where
  "to_agent_base b =
     \<lparr>wk_id = kb_id b, wk_name = kb_name b, wk_description = kb_description b, wk_visibility = kb_visibility b,
      wk_status = kb_status b, wk_document_count = kb_document_count b, wk_tags = kb_tags b,
      wk_updated_at = kb_updated_at b\<rparr>"

definition bound_bases :: "snapshot \<Rightarrow> string list \<Rightarrow> workbench_agent_base list" where
  "bound_bases snap refs =
     map to_agent_base
       (List.map_filter (\<lambda>i. List.find (\<lambda>b. kb_id b = i \<and> kb_status b = Base_Active) (sn_knowledge_bases snap)) refs)"

definition to_workbench_agent :: "snapshot \<Rightarrow> agent_instance \<Rightarrow> workbench_agent" where
  "to_workbench_agent snap i =
     (let refs = knowledge_base_refs (ai_config i);
          profile = model_profile_of i;
          reasons = readiness_reasons i in
      \<lparr>wa_id = ai_id i, wa_name = ai_name i, wa_slug = ai_slug i, wa_agent_key = ai_agent_key i,
       wa_module_key = ai_module_key i, wa_description = ai_description i, wa_status = ''active'',
       wa_visibility = ai_visibility i, wa_department_id = ai_department_id i,
       wa_category = None, wa_workflow_profile = None,
       wa_runnable = (reasons = []),
       wa_readiness = (if reasons \<noteq> [] then ''needs_configuration'' else ''ready''),
       wa_readiness_reasons = reasons,
       wa_model_profile = (if js_truthy_str profile then profile else None),
       wa_model_policy = (if js_truthy_str profile then ''configured'' else ''system_default''),
       wa_model_available = js_truthy_str profile, wa_knowledge_base_count = length refs,
       wa_knowledge_enabled = (0 < length refs), wa_knowledge_bases = bound_bases snap refs\<rparr>)"

definition workbench_agents :: "snapshot \<Rightarrow> workbench_agent list" where
  "workbench_agents snap =
     map (to_workbench_agent snap) (filter (\<lambda>i. ai_status i = Inst_Active) (sn_agent_instances snap))"

definition proto_agent_targets :: "snapshot \<Rightarrow> agent_targets" where
  "proto_agent_targets snap =
     \<lparr>ats_departments =
        [\<lparr>at_id = ''00000000-0000-4000-8000-000000000301'', at_label = ''Customer Success'',
          at_description = Some ''Prototype department for Agent ownership and routing.'',
          at_metadata = [(''parent_id'', JNull), (''sort_order'', JNum (Fin 10))]\<rparr>],
      ats_users =
        [\<lparr>at_id = ''00000000-0000-4000-8000-000000000201'', at_label = ''AgentHive Admin (admin@agenthive.local)'',
          at_description = Some ''Prototype administrator'',
          at_metadata = [(''email'', JStr ''admin@agenthive.local''), (''username'', JStr ''admin'')]\<rparr>],
      ats_knowledge_bases = map (\<lambda>b.
        \<lparr>at_id = kb_id b, at_label = kb_name b @ '' '' @ utf8 [0xB7] @ '' '' @ rag_engine_str (kb_rag_engine b),
         at_description = kb_description b,
         at_metadata = [(''document_count'', JNum (num_of_nat (kb_document_count b))), (''name'', JStr (kb_name b)),
           (''rag_engine'', JStr (rag_engine_str (kb_rag_engine b))),
           (''status'', JStr (case kb_status b of Base_Active \<Rightarrow> ''active'' | Base_Archived \<Rightarrow> ''archived'')),
           (''visibility'', JStr (visibility_str (kb_visibility b)))]\<rparr>) (sn_knowledge_bases snap),
      ats_model_deployments =
        [\<lparr>at_id = ''00000000-0000-4000-8000-000000000901'',
          at_label = ''default-chat '' @ utf8 [0xB7] @ '' Policy Default'',
          at_description = Some ''Prototype policy default route.'',
          at_metadata = [(''deployment_name'', JStr ''Policy Default''), (''priority'', JNum (Fin 100)),
            (''routing_key'', JStr ''default-chat'')]\<rparr>]\<rparr>"

section \<open>Lists\<close>

definition store_load :: "bool \<Rightarrow> 'a \<Rightarrow> (unit, 'a) resource \<Rightarrow> (unit, 'a) resource" where
  \<comment> \<open>\<open>load\<close>, the same in every hook of these files\<close>
  "store_load proto d s = (if proto then show_now (loaded d) s else ask () s)"

definition store_answered ::
  "(string \<Rightarrow> string) \<Rightarrow> ('r \<Rightarrow> 'a) \<Rightarrow> nat \<Rightarrow> (nat \<Rightarrow> exn + 'r) \<Rightarrow> (unit, 'a) resource \<Rightarrow> (unit, 'a) resource" where
  "store_answered t sel n attempts = plain_answer n (settle t (map_sum id sel (retried attempts)))"

definition store_shown :: "bool \<Rightarrow> 'a \<Rightarrow> (unit, 'a) resource \<Rightarrow> 'a async_state" where
  "store_shown proto d s = (if proto then loaded d else shown s)"

definition load_agent_targets :: "bool \<Rightarrow> snapshot \<Rightarrow> (unit, agent_targets) resource \<Rightarrow> (unit, agent_targets) resource" where
  "load_agent_targets proto snap = store_load proto (proto_agent_targets snap)"

definition load_agent_catalog ::
  "bool \<Rightarrow> snapshot \<Rightarrow> (unit, agent_catalog_entry list) resource \<Rightarrow> (unit, agent_catalog_entry list) resource" where
  "load_agent_catalog proto snap = store_load proto (sn_agent_catalog snap)"

definition load_agent_instances ::
  "bool \<Rightarrow> snapshot \<Rightarrow> (unit, agent_instance list) resource \<Rightarrow> (unit, agent_instance list) resource" where
  "load_agent_instances proto snap = store_load proto (sn_agent_instances snap)"

definition load_workbench_agents ::
  "bool \<Rightarrow> snapshot \<Rightarrow> (unit, workbench_agent list) resource \<Rightarrow> (unit, workbench_agent list) resource" where
  "load_workbench_agents proto snap = store_load proto (workbench_agents snap)"

definition load_agent_modules ::
  "bool \<Rightarrow> snapshot \<Rightarrow> (unit, agent_module list) resource \<Rightarrow> (unit, agent_module list) resource" where
  "load_agent_modules proto snap = store_load proto (sn_agent_modules snap)"

definition load_channels :: "bool \<Rightarrow> snapshot \<Rightarrow> (unit, channel list) resource \<Rightarrow> (unit, channel list) resource" where
  "load_channels proto snap = store_load proto (sn_channels snap)"

definition agent_targets_answered ::
  "(string \<Rightarrow> string) \<Rightarrow> nat \<Rightarrow> (nat \<Rightarrow> exn + agent_targets) \<Rightarrow> (unit, agent_targets) resource \<Rightarrow> (unit, agent_targets) resource" where
  "agent_targets_answered t = store_answered t (\<lambda>r. r)"

definition agent_catalog_answered ::
  "(string \<Rightarrow> string) \<Rightarrow> nat \<Rightarrow> (nat \<Rightarrow> exn + agent_catalog) \<Rightarrow>
   (unit, agent_catalog_entry list) resource \<Rightarrow> (unit, agent_catalog_entry list) resource" where
  "agent_catalog_answered t = store_answered t acl_agents"

definition agent_instances_answered ::
  "(string \<Rightarrow> string) \<Rightarrow> nat \<Rightarrow> (nat \<Rightarrow> exn + agent_instance_list) \<Rightarrow>
   (unit, agent_instance list) resource \<Rightarrow> (unit, agent_instance list) resource" where
  "agent_instances_answered t = store_answered t ail_agents"

definition workbench_agents_answered ::
  "(string \<Rightarrow> string) \<Rightarrow> nat \<Rightarrow> (nat \<Rightarrow> exn + workbench_agent_list) \<Rightarrow>
   (unit, workbench_agent list) resource \<Rightarrow> (unit, workbench_agent list) resource" where
  "workbench_agents_answered t = store_answered t wal_agents"

definition agent_modules_answered ::
  "(string \<Rightarrow> string) \<Rightarrow> nat \<Rightarrow> (nat \<Rightarrow> exn + agent_module_list) \<Rightarrow>
   (unit, agent_module list) resource \<Rightarrow> (unit, agent_module list) resource" where
  "agent_modules_answered t = store_answered t aml_modules"

definition channels_answered ::
  "(string \<Rightarrow> string) \<Rightarrow> nat \<Rightarrow> (nat \<Rightarrow> exn + channel_list) \<Rightarrow>
   (unit, channel list) resource \<Rightarrow> (unit, channel list) resource" where
  "channels_answered t = store_answered t chl_channels"


section \<open>What the hooks return\<close>

definition agent_targets_shown :: "bool \<Rightarrow> snapshot \<Rightarrow> (unit, agent_targets) resource \<Rightarrow> agent_targets async_state" where
  "agent_targets_shown proto snap = store_shown proto (proto_agent_targets snap)"

definition agent_catalog_shown ::
  "bool \<Rightarrow> snapshot \<Rightarrow> (unit, agent_catalog_entry list) resource \<Rightarrow> agent_catalog_entry list async_state" where
  "agent_catalog_shown proto snap = store_shown proto (sn_agent_catalog snap)"

definition agent_instances_shown ::
  "bool \<Rightarrow> snapshot \<Rightarrow> (unit, agent_instance list) resource \<Rightarrow> agent_instance list async_state" where
  "agent_instances_shown proto snap = store_shown proto (sn_agent_instances snap)"

definition workbench_agents_shown ::
  "bool \<Rightarrow> snapshot \<Rightarrow> (unit, workbench_agent list) resource \<Rightarrow> workbench_agent list async_state" where
  "workbench_agents_shown proto snap = store_shown proto (workbench_agents snap)"

definition agent_modules_shown ::
  "bool \<Rightarrow> snapshot \<Rightarrow> (unit, agent_module list) resource \<Rightarrow> agent_module list async_state" where
  "agent_modules_shown proto snap = store_shown proto (sn_agent_modules snap)"

definition channels_shown :: "bool \<Rightarrow> snapshot \<Rightarrow> (unit, channel list) resource \<Rightarrow> channel list async_state" where
  "channels_shown proto snap = store_shown proto (sn_channels snap)"

section \<open>Actions on agents\<close>

datatype agent_mark = Saving_Agent

definition agent_named :: "call_env \<Rightarrow> string \<Rightarrow> agent_instance \<Rightarrow> string" where
  "agent_named env k i = replace_first ''{{name}}'' (ai_name i) (call_t env k)"

definition create_agent_action ::
  "call_env \<Rightarrow> agent_instance_create \<Rightarrow> exn + agent_instance \<Rightarrow> agent_mark actions \<times> store \<Rightarrow>
   agent_instance option \<times> agent_mark actions \<times> store" where
  "create_agent_action env p r w =
     (let (a, st) = answered_by (call_proto env) (create_agent_instance (call_now env) (call_uuid env) p (snd w)) r (snd w);
          (x, acts) = run_action (call_t env) True Saving_Agent [] (agent_named env ''agentInstancesCreated'') a (fst w)
      in (x, acts, st))"

datatype 'r call_outcome = Returns "'r option" | Rejects exn \<comment> \<open>how the promise of an action ends\<close>

definition update_agent_action ::
  "call_env \<Rightarrow> string \<Rightarrow> agent_instance_update \<Rightarrow> exn + agent_instance \<Rightarrow> agent_mark actions \<times> store \<Rightarrow>
   agent_instance call_outcome \<times> agent_mark actions \<times> store" where
  "update_agent_action env i p r w =
     (if call_proto env then
        (case update_agent_instance (call_now env) i p (snd w) of
           (Inl e, st) \<Rightarrow> (Rejects e, act_begin Saving_Agent [] (fst w), st)
         | (Inr u, st) \<Rightarrow>
             (Returns (Some u),
              report_success True (agent_named env ''agentInstancesUpdated'' u)
                (unmark Saving_Agent (act_begin Saving_Agent [] (fst w))), st))
      else
        (let (x, acts) = run_action (call_t env) True Saving_Agent [] (agent_named env ''agentInstancesUpdated'') r (fst w)
         in (Returns x, acts, snd w)))"

section \<open>The runner\<close>

record agent_runner =
  rn_running :: bool
  rn_response :: "agent_run_response option"
  rn_error :: "string option"

definition runner_init :: agent_runner where
  "runner_init = \<lparr>rn_running = False, rn_response = None, rn_error = None\<rparr>"

definition run_started :: "agent_runner \<Rightarrow> agent_runner" where
  "run_started s = s\<lparr>rn_running := True, rn_error := None\<rparr>"

definition run_ended ::
  "(string \<Rightarrow> string) \<Rightarrow> exn + agent_run_response \<Rightarrow> agent_runner \<Rightarrow> agent_run_response option \<times> agent_runner" where
  "run_ended t r s =
     (case r of
        Inr d \<Rightarrow> (Some d, s\<lparr>rn_response := Some d, rn_running := False\<rparr>)
      | Inl e \<Rightarrow> (None, s\<lparr>rn_error := Some (error_to_message t e), rn_running := False\<rparr>))"

definition run_agent ::
  "(string \<Rightarrow> string) \<Rightarrow> bool \<Rightarrow> nat \<Rightarrow> string \<Rightarrow> agent_run_request \<Rightarrow> exn + agent_run_response \<Rightarrow>
   agent_runner \<Rightarrow> agent_run_response option \<times> agent_runner" where
  "run_agent t proto now_ms key p r s =
     run_ended t (if proto then Inr (proto_agent_run now_ms key p) else r) (run_started s)"

section \<open>Actions on modules\<close>

datatype module_mark = Busy_Module

definition module_action_path :: "string \<Rightarrow> module_action \<Rightarrow> string" where
  "module_action_path mid act =
     ''/api/v1/agent-modules/'' @ mid @
       (case act of Install \<Rightarrow> ''/install'' | Enable \<Rightarrow> ''/enable'' | Disable \<Rightarrow> ''/disable'')"

text \<open>
  The call also returns the paths it posts to, none in the prototype: what a page has sent is
  collected from them.
\<close>

definition module_action_call ::
  "call_env \<Rightarrow> string \<Rightarrow> module_action \<Rightarrow> exn + module_action_response \<Rightarrow> module_mark actions \<times> store \<Rightarrow>
   string list \<times> module_action_response option \<times> module_mark actions \<times> store" where
  "module_action_call env mid act r w =
     (let (a, st) = answered_by (call_proto env) (run_module_action mid act (snd w)) r (snd w);
          (x, acts) = run_action (call_t env) False Busy_Module mid ma_message a (fst w)
      in (if call_proto env then [] else [module_action_path mid act], x, acts, st))"

section \<open>Actions on channels\<close>

datatype channel_mark = Saving_Channel | Updating_Status | Testing_Channel | Pushing

definition create_channel_action ::
  "call_env \<Rightarrow> channel_create \<Rightarrow> exn + channel_create_response \<Rightarrow> channel_mark actions \<times> store \<Rightarrow>
   channel_create_response option \<times> channel_mark actions \<times> store" where
  "create_channel_action env p r w =
     (let (a, st) = answered_by (call_proto env) (create_channel (call_now env) (call_uuid env) p (snd w)) r (snd w);
          (x, acts) = run_action (call_t env) True Saving_Channel []
            (\<lambda>c. replace_first ''{{name}}'' (ch_name (chr_channel c)) (call_t env ''channelsCreated'')) a (fst w)
      in (x, acts, st))"

definition test_channel_action ::
  "call_env \<Rightarrow> string \<Rightarrow> channel_test_request \<Rightarrow> exn + channel_test_response \<Rightarrow> channel_mark actions \<Rightarrow>
   channel_test_response option \<times> channel_mark actions" where
  "test_channel_action env i p r =
     run_action (call_t env) True Testing_Channel [] ct_message
       (if call_proto env then Inr (proto_channel_test (call_now env) i p) else r)"

definition status_label :: "call_env \<Rightarrow> channel \<Rightarrow> string" where
  "status_label env c = call_t env (if ch_status c = Chan_Active then ''channelsEnabled'' else ''channelsDisabled'')"

definition update_status_action ::
  "call_env \<Rightarrow> string \<Rightarrow> channel_status \<Rightarrow> exn + channel \<Rightarrow> channel_mark actions \<times> store \<Rightarrow>
   channel call_outcome \<times> channel_mark actions \<times> store" where
  \<comment> \<open>without a channel the store answers \<open>undefined\<close>, and reading its status throws\<close>
  "update_status_action env i st r w =
     (if call_proto env then
        (case update_channel_status (call_now env) i st (snd w) of
           (None, s1) \<Rightarrow>
             (Rejects (Named_Error ''TypeError'' ''response is undefined''),
              unmark Updating_Status (act_begin Updating_Status i (fst w)), s1)
         | (Some c, s1) \<Rightarrow>
             (Returns (Some c),
              report_success True (status_label env c) (unmark Updating_Status (act_begin Updating_Status i (fst w))), s1))
      else
        (let (x, acts) = run_action (call_t env) True Updating_Status i (status_label env) r (fst w)
         in (Returns x, acts, snd w)))"

definition push_channel_action ::
  "call_env \<Rightarrow> string \<Rightarrow> channel_push_request \<Rightarrow> exn + channel_push_response \<Rightarrow> channel_mark actions \<Rightarrow>
   channel_push_response option \<times> channel_mark actions" where
  "push_channel_action env i p r =
     run_action (call_t env) True Pushing [] cps_message
       (if call_proto env then Inr (proto_channel_push i p) else r)"

section \<open>The view of an agent\<close>

lemma refs_bounded: "length (knowledge_base_refs c) \<le> 5 \<and> distinct (knowledge_base_refs c) \<and> [] \<notin> set (knowledge_base_refs c)"
proof -
  have "length (take 5 (uniq xs)) \<le> 5 \<and> distinct (take 5 (uniq xs)) \<and> [] \<notin> set (take 5 (uniq xs))"
    if "[] \<notin> set xs" for xs :: "string list"
    using that set_take_subset [of 5 "uniq xs"] by (simp add: distinct_take subset_iff) blast
  then show ?thesis unfolding knowledge_base_refs_def Let_def by this simp
qed

lemma runnable_iff: "wa_runnable (to_workbench_agent snap i) = (wa_readiness_reasons (to_workbench_agent snap i) = [])"
  by (simp add: to_workbench_agent_def Let_def)

lemma bases_at_most_refs: "length (bound_bases snap refs) \<le> length refs"
proof (induction refs)
  case (Cons r refs)
  then show ?case by (simp add: bound_bases_def List.map_filter_simps split: option.split)
qed (simp add: bound_bases_def List.map_filter_simps)

text \<open>
  Deleting a base leaves the references of the agents to it: the agent stays runnable, with its
  knowledge enabled and counted, and only the list of its bases is empty.
\<close>

lemma deleted_base_still_counted:
  assumes "knowledge_base_refs (ai_config i) = [b]"
  shows "wa_knowledge_base_count (to_workbench_agent (current_snapshot (snd (delete_knowledge_base b s))) i) = 1 \<and>
    wa_knowledge_bases (to_workbench_agent (current_snapshot (snd (delete_knowledge_base b s))) i) = [] \<and>
    wa_runnable (to_workbench_agent (current_snapshot (snd (delete_knowledge_base b s))) i) = wa_runnable (to_workbench_agent snap i)"
proof -
  have "List.find (\<lambda>k. kb_id k = b \<and> kb_status k = Base_Active) (discard_row kb_id b (knowledge_bases s)) = None"
    by (simp add: find_None_iff discard_row_def)
  with assms show ?thesis
    by (simp add: to_workbench_agent_def Let_def bound_bases_def List.map_filter_simps delete_knowledge_base_def
        create_snapshot_def readiness_reasons_def)
qed

lemma runner_done: "\<not> rn_running (snd (run_agent t proto n k p r s))"
  by (simp add: run_agent_def run_ended_def split: sum.split)

lemma runner_keeps_last_response:
  "run_agent t False n k p (Inl e) s = (None, s\<lparr>rn_running := False, rn_error := Some (error_to_message t e)\<rparr>)"
  by (simp add: run_agent_def run_ended_def run_started_def)

lemma failed_update_stays_marked:
  assumes "call_proto env" "agent_instances st = []"
  shows "marks (fst (snd (update_agent_action env i p r (a, st)))) Saving_Agent = Some []"
  using assms by (simp add: update_agent_action_def update_agent_instance_def find_row_def act_begin_def)

lemma created_channel_not_testable:
  assumes "find_row ch_id i proto_channels = None" "call_proto env"
  shows "map_option ct_channel_id (fst (test_channel_action env i p r a)) = Some proto_web_channel_id"
  using assms by (simp add: test_channel_action_def run_action_def act_end_def proto_channel_test_def
      find_channel_or_first_def Let_def proto_channels_def)

end
