(* ===== verification/Org_Types.thy ===== *)
theory Org_Types
  imports Chat_Types
begin

text \<open>
  The organisation: the requests and responses of \<open>lib/api/org.ts\<close> and the prototype rows of
  \<open>hooks/admin/org.ts\<close>.  A field a request may leave out has one more \<open>option\<close> than its type:
  \<open>None\<close> is absent, \<open>Some None\<close> is \<open>null\<close>.
\<close>

section \<open>Departments\<close>

record department_create =
  dpc_parent_id :: "string option"
  dpc_name :: string
  dpc_description :: "string option"
  dpc_sort_order :: nat

record department_update =
  dpu_parent_id :: "string option option"
  dpu_name :: "string option option"
  dpu_description :: "string option option"
  dpu_sort_order :: "jsnum option option"

record department =
  dp_id :: string
  dp_tenant_id :: string
  dp_parent_id :: "string option"
  dp_name :: string
  dp_description :: "string option"
  dp_sort_order :: nat
  dp_created_at :: string
  dp_updated_at :: string

datatype dept_tree = Dept_Node (dept_of: department) (dept_children: "dept_tree list")

record department_list =
  dpl_departments :: "department list"
  dpl_tree :: "dept_tree list"
  dpl_total :: nat

section \<open>Cost centres\<close>

record cost_center_create =
  ccc_department_id :: "string option"
  ccc_code :: string
  ccc_name :: string
  ccc_description :: "string option"
  ccc_monthly_budget :: "string option"
  ccc_is_active :: bool

record cost_center_update =
  ccu_department_id :: "string option option"
  ccu_code :: "string option option"
  ccu_name :: "string option option"
  ccu_description :: "string option option"
  ccu_monthly_budget :: "string option option"
  ccu_is_active :: "bool option option"

record cost_center =
  cc_id :: string
  cc_tenant_id :: string
  cc_department_id :: "string option"
  cc_code :: string
  cc_name :: string
  cc_description :: "string option"
  cc_monthly_budget :: "string option"
  cc_is_active :: bool
  cc_created_at :: string
  cc_updated_at :: string

record cost_center_list =
  ccl_cost_centers :: "cost_center list"
  ccl_total :: nat

section \<open>Users\<close>

record department_binding =
  db_department_id :: string
  db_is_leader :: bool
  db_is_primary :: bool
  db_position_title :: "string option"
  db_cost_center_id :: "string option"

record user_department = department_binding +
  db_department_name :: "string option"
  db_cost_center_code :: "string option"
  db_cost_center_name :: "string option"

record user_create =
  usc_email :: string
  usc_password :: string
  usc_username :: "string option"
  usc_full_name :: "string option"
  usc_is_tenant_admin :: bool
  usc_is_active :: bool
  usc_bindings :: "department_binding list"
  usc_role_ids :: "string list"

record user_update =
  usu_email :: "string option option"
  usu_username :: "string option option"
  usu_full_name :: "string option option"
  usu_phone :: "string option option"
  usu_is_tenant_admin :: "bool option option"
  usu_bindings :: "department_binding list option option"
  usu_role_ids :: "string list option option"

record user_role =
  ur_id :: string
  ur_name :: string
  ur_description :: "string option"
  ur_permissions :: "string list"
  ur_is_system :: bool

record org_user =
  us_id :: string
  us_tenant_id :: string
  us_email :: string
  us_username :: "string option"
  us_full_name :: "string option"
  us_avatar_url :: "string option"
  us_phone :: "string option"
  us_is_super_admin :: bool
  us_is_tenant_admin :: bool
  us_is_active :: bool
  us_last_login_at :: "string option"
  us_departments :: "user_department list"
  us_roles :: "user_role list"
  us_permissions :: "string list"
  us_created_at :: string
  us_updated_at :: string

record org_user_list =
  usl_users :: "org_user list"
  usl_total :: nat

section \<open>Roles\<close>

record role_create =
  rlc_name :: string
  rlc_description :: "string option"
  rlc_permissions :: "string list"
  rlc_is_system :: bool

record role_update =
  rlu_name :: "string option option"
  rlu_description :: "string option option"
  rlu_permissions :: "string list option option"

record role =
  rl_id :: string
  rl_tenant_id :: string
  rl_name :: string
  rl_description :: "string option"
  rl_permissions :: "string list"
  rl_is_system :: bool
  rl_created_at :: string
  rl_updated_at :: string

record role_list =
  rll_roles :: "role list"
  rll_total :: nat

record deletion =
  del_id :: string
  del_deleted :: bool

record permission_item =
  pi_value :: string
  pi_category :: string
  pi_label :: string

record permission_catalog =
  pc_permissions :: "permission_item list"
  pc_total :: nat

record org_role_preset =
  rp_key :: string
  rp_name :: string
  rp_description :: string
  rp_permissions :: "string list"
  rp_scope :: string
  rp_category :: string

record org_role_preset_list =
  rpl_presets :: "org_role_preset list"
  rpl_total :: nat

section \<open>Prototype rows\<close>

definition org_now :: string where "org_now = ''2026-01-01T00:00:00.000Z''"
definition org_tenant :: string where "org_tenant = ''00000000-0000-4000-8000-000000000001''"
definition org_department :: string where "org_department = ''00000000-0000-4000-8000-000000000301''"
definition org_cost_center :: string where "org_cost_center = ''00000000-0000-4000-8000-000000000401''"

definition proto_department_row :: department where
  "proto_department_row =
     \<lparr>dp_id = org_department, dp_tenant_id = org_tenant, dp_parent_id = None, dp_name = ''Customer Success'',
      dp_description = Some ''Owns customer-facing Agent workflows and knowledge quality.'',
      dp_sort_order = 10, dp_created_at = org_now, dp_updated_at = org_now\<rparr>"

definition proto_departments :: department_list where
  "proto_departments =
     \<lparr>dpl_departments = [proto_department_row], dpl_tree = [Dept_Node proto_department_row []], dpl_total = 1\<rparr>"

definition proto_cost_centers :: "cost_center list" where
  "proto_cost_centers =
     [\<lparr>cc_id = org_cost_center, cc_tenant_id = org_tenant, cc_department_id = Some org_department, cc_code = ''CS'',
       cc_name = ''Customer Success'',
       cc_description = Some ''Monthly model spend for customer-facing Agent operations.'',
       cc_monthly_budget = Some ''2500.0000'', cc_is_active = True, cc_created_at = org_now, cc_updated_at = org_now\<rparr>]"

definition role_row :: "string \<Rightarrow> string \<Rightarrow> string \<Rightarrow> bool \<Rightarrow> string list \<Rightarrow> role" where
  "role_row i name descr sys ps =
     \<lparr>rl_id = i, rl_tenant_id = org_tenant, rl_name = name, rl_description = Some descr, rl_permissions = ps,
      rl_is_system = sys, rl_created_at = org_now, rl_updated_at = org_now\<rparr>"

definition admin_role :: role where
  "admin_role = role_row ''00000000-0000-4000-8000-000000000101'' ''Tenant Administrator''
     ''Full tenant administration for the private AgentHive deployment.'' True [''tenant.admin'']"

definition agent_manager_role :: role where
  "agent_manager_role = role_row ''00000000-0000-4000-8000-000000000102'' ''Agent Manager''
     ''Operate Agent instances, knowledge bases, and support workflows.'' False
     [''agents:read'', ''agents:write'', ''chat:read'', ''chat:write'', ''knowledge:read'', ''knowledge:write'']"

definition operator_role :: role where
  "operator_role = role_row ''00000000-0000-4000-8000-000000000103'' ''Implementation Operator''
     ''Export redacted diagnostics packages for private deployment support.'' False
     [''users:read'', ''departments:read'', ''agents:read'', ''chat:read'', ''channels:read'', ''channels:write'',
      ''license:read'', ''audit:read'', ''system:diagnostics'']"

definition proto_roles :: "role list" where
  "proto_roles = [admin_role, agent_manager_role, operator_role]"

definition proto_role_presets :: "org_role_preset list" where
  "proto_role_presets =
     [\<lparr>rp_key = ''enterprise_admin'', rp_name = ''Enterprise Admin'',
       rp_description = ''Full tenant administration for users, departments, models, budgets, License, audit, and delivery.'',
       rp_permissions = [''tenant.admin''], rp_scope = ''tenant'', rp_category = ''administration''\<rparr>,
      \<lparr>rp_key = ''implementation_operator'', rp_name = ''Ops / Implementation'',
       rp_description = ''Runs diagnostics, support bundles, upgrades, and private delivery troubleshooting.'',
       rp_permissions = [''users:read'', ''departments:read'', ''channels:read'', ''channels:write'',
         ''license:read'', ''audit:read'', ''system:diagnostics''],
       rp_scope = ''tenant'', rp_category = ''operations''\<rparr>,
      \<lparr>rp_key = ''model_admin'', rp_name = ''Model Admin'',
       rp_description = ''Configures providers, Base URLs, API keys, model prices, routing policies, and budget guardrails.'',
       rp_permissions = [''models:read'', ''models:write'', ''budgets:read'', ''audit:read''],
       rp_scope = ''tenant'', rp_category = ''models''\<rparr>,
      \<lparr>rp_key = ''agent_admin'', rp_name = ''Agent Admin'',
       rp_description = ''Installs Agent modules, manages Agent instances, and binds knowledge bases by department.'',
       rp_permissions = [''agents:read'', ''agents:write'', ''chat:read'', ''chat:write'', ''knowledge:read'',
         ''knowledge:write'', ''channels:read''],
       rp_scope = ''department'', rp_category = ''agents''\<rparr>,
      \<lparr>rp_key = ''department_leader'', rp_name = ''Department Leader'',
       rp_description = ''Reviews department users, budget posture, Agent usage, and knowledge workflows.'',
       rp_permissions = [''users:read'', ''departments:read'', ''agents:read'', ''chat:read'', ''knowledge:read'',
         ''budgets:read'', ''analytics:read''],
       rp_scope = ''department'', rp_category = ''governance''\<rparr>,
      \<lparr>rp_key = ''employee'', rp_name = ''Employee'',
       rp_description = ''Uses approved Agents and knowledge workflows with minimal configuration visibility.'',
       rp_permissions = [''agents:read'', ''chat:read'', ''chat:write'', ''knowledge:read''],
       rp_scope = ''self'', rp_category = ''employee''\<rparr>,
      \<lparr>rp_key = ''audit_finance'', rp_name = ''Audit / Finance'',
       rp_description = ''Reviews audit records, budget ledgers, spend exports, and model cost evidence.'',
       rp_permissions = [''budgets:read'', ''budgets:export'', ''audit:read'', ''audit:export'', ''analytics:read''],
       rp_scope = ''tenant'', rp_category = ''audit''\<rparr>]"

definition proto_binding :: "bool \<Rightarrow> string \<Rightarrow> user_department" where
  "proto_binding leader title =
     \<lparr>db_department_id = org_department, db_is_leader = leader, db_is_primary = True,
      db_position_title = Some title, db_cost_center_id = Some org_cost_center,
      db_department_name = Some ''Customer Success'', db_cost_center_code = Some ''CS'',
      db_cost_center_name = Some ''Customer Success''\<rparr>"

definition role_of_user :: "role \<Rightarrow> user_role" where
  "role_of_user r =
     \<lparr>ur_id = rl_id r, ur_name = rl_name r, ur_description = rl_description r, ur_permissions = rl_permissions r,
      ur_is_system = rl_is_system r\<rparr>"

definition proto_users :: "org_user list" where
  "proto_users =
     [\<lparr>us_id = ''00000000-0000-4000-8000-000000000201'', us_tenant_id = org_tenant,
       us_email = ''admin@agenthive.internal'', us_username = None, us_full_name = Some ''Deployment Admin'',
       us_avatar_url = None, us_phone = None, us_is_super_admin = False, us_is_tenant_admin = True,
       us_is_active = True, us_last_login_at = Some org_now,
       us_departments = [proto_binding True ''AI Program Owner''], us_roles = [role_of_user admin_role],
       us_permissions = [''tenant.admin''], us_created_at = org_now, us_updated_at = org_now\<rparr>,
      \<lparr>us_id = ''00000000-0000-4000-8000-000000000202'', us_tenant_id = org_tenant,
       us_email = ''ops@example.com'', us_username = None, us_full_name = Some ''Operations Lead'',
       us_avatar_url = None, us_phone = Some ''+1 555 0100'', us_is_super_admin = False, us_is_tenant_admin = False,
       us_is_active = True, us_last_login_at = None,
       us_departments = [proto_binding False ''Operations Lead''], us_roles = [role_of_user agent_manager_role],
       us_permissions = rl_permissions agent_manager_role, us_created_at = org_now, us_updated_at = org_now\<rparr>]"

definition permission_row :: "string \<Rightarrow> string \<Rightarrow> string \<Rightarrow> permission_item" where
  "permission_row c l v = \<lparr>pi_value = v, pi_category = c, pi_label = l\<rparr>"

definition proto_role_permissions :: "permission_item list" where
  "proto_role_permissions =
     [permission_row ''admin'' ''Tenant administration'' ''tenant.admin'',
      permission_row ''organization'' ''Read users'' ''users:read'',
      permission_row ''organization'' ''Manage users'' ''users:write'',
      permission_row ''organization'' ''Read departments'' ''departments:read'',
      permission_row ''organization'' ''Manage departments'' ''departments:write'',
      permission_row ''agent'' ''Read agents'' ''agents:read'',
      permission_row ''agent'' ''Manage agents'' ''agents:write'',
      permission_row ''agent'' ''Read conversations'' ''chat:read'',
      permission_row ''agent'' ''Use Agents'' ''chat:write'',
      permission_row ''agent'' ''Read knowledge bases'' ''knowledge:read'',
      permission_row ''agent'' ''Manage knowledge bases'' ''knowledge:write'',
      permission_row ''channel'' ''Read channels'' ''channels:read'',
      permission_row ''channel'' ''Manage channels'' ''channels:write'',
      permission_row ''models'' ''Read model settings'' ''models:read'',
      permission_row ''models'' ''Manage model settings'' ''models:write'',
      permission_row ''budgets'' ''Read budgets'' ''budgets:read'',
      permission_row ''budgets'' ''Manage budgets'' ''budgets:write'',
      permission_row ''budgets'' ''Export budget ledgers'' ''budgets:export'',
      permission_row ''analytics'' ''Read analytics dashboards'' ''analytics:read'',
      permission_row ''audit'' ''Read audit logs'' ''audit:read'',
      permission_row ''audit'' ''Export audit logs'' ''audit:export'',
      permission_row ''license'' ''Read license'' ''license:read'',
      permission_row ''license'' ''Manage license'' ''license:write'',
      permission_row ''system'' ''Export system diagnostics'' ''system:diagnostics'']"

lemma presets_in_catalog:
  "list_all (\<lambda>p. list_all (List.member (map pi_value proto_role_permissions)) (rp_permissions p)) proto_role_presets"
  by (simp add: proto_role_presets_def proto_role_permissions_def permission_row_def)

lemma roles_in_catalog:
  "list_all (\<lambda>r. list_all (List.member (map pi_value proto_role_permissions)) (rl_permissions r)) proto_roles"
  by (simp add: proto_roles_def admin_role_def agent_manager_role_def operator_role_def role_row_def
      proto_role_permissions_def permission_row_def)

end
