(* ===== verification/Org_Hooks.thy ===== *)
theory Org_Hooks
  imports Org_Types Resource_Hooks Action_Hooks
begin

text \<open>
  The organisation hooks of \<open>hooks/admin/org.ts\<close>: six lists and thirteen actions.  The lists always
  ask the server; with \<open>fallbackOnError\<close> an error, and for four of them an empty answer, is replaced
  by the prototype rows.  The actions always go to the server.
\<close>

section \<open>Lists\<close>

definition or_prototype ::
  "(string \<Rightarrow> string) \<Rightarrow> bool \<Rightarrow> 'a \<Rightarrow> ('a \<Rightarrow> bool) \<Rightarrow> exn + 'a \<Rightarrow> 'a async_state" where
  \<comment> \<open>the \<open>try\<close> and the \<open>catch\<close> of a load, once the request is answered\<close>
  "or_prototype t fallback proto none r =
     (case r of
        Inr d \<Rightarrow> loaded (if fallback \<and> none d then proto else d)
      | Inl e \<Rightarrow> if fallback then loaded proto else load_failed (error_to_message t e))"

definition load_org :: "(unit, 'a) resource \<Rightarrow> (unit, 'a) resource" where
  "load_org = ask ()"

definition departments_answered ::
  "(string \<Rightarrow> string) \<Rightarrow> bool \<Rightarrow> nat \<Rightarrow> (nat \<Rightarrow> exn + department_list) \<Rightarrow>
   (unit, department_list) resource \<Rightarrow> (unit, department_list) resource" where
  "departments_answered t fb n attempts =
     plain_answer n (or_prototype t fb proto_departments (\<lambda>d. dpl_departments d = []) (retried attempts))"

definition cost_centers_answered ::
  "(string \<Rightarrow> string) \<Rightarrow> bool \<Rightarrow> nat \<Rightarrow> exn + cost_center_list \<Rightarrow>
   (unit, cost_center list) resource \<Rightarrow> (unit, cost_center list) resource" where
  \<comment> \<open>not retried\<close>
  "cost_centers_answered t fb n r =
     plain_answer n (or_prototype t fb proto_cost_centers (\<lambda>d. d = []) (map_sum id ccl_cost_centers r))"

definition users_answered ::
  "(string \<Rightarrow> string) \<Rightarrow> bool \<Rightarrow> nat \<Rightarrow> (nat \<Rightarrow> exn + org_user_list) \<Rightarrow>
   (unit, org_user list) resource \<Rightarrow> (unit, org_user list) resource" where
  "users_answered t fb n attempts =
     plain_answer n (or_prototype t fb proto_users (\<lambda>d. d = []) (map_sum id usl_users (retried attempts)))"

definition roles_answered ::
  "(string \<Rightarrow> string) \<Rightarrow> bool \<Rightarrow> nat \<Rightarrow> (nat \<Rightarrow> exn + role_list) \<Rightarrow>
   (unit, role list) resource \<Rightarrow> (unit, role list) resource" where
  "roles_answered t fb n attempts =
     plain_answer n (or_prototype t fb proto_roles (\<lambda>d. d = []) (map_sum id rll_roles (retried attempts)))"

definition role_permissions_answered ::
  "(string \<Rightarrow> string) \<Rightarrow> bool \<Rightarrow> nat \<Rightarrow> (nat \<Rightarrow> exn + permission_catalog) \<Rightarrow>
   (unit, permission_item list) resource \<Rightarrow> (unit, permission_item list) resource" where
  "role_permissions_answered t fb n attempts =
     plain_answer n (or_prototype t fb proto_role_permissions (\<lambda>_. False) (map_sum id pc_permissions (retried attempts)))"

definition role_presets_answered ::
  "(string \<Rightarrow> string) \<Rightarrow> bool \<Rightarrow> nat \<Rightarrow> (nat \<Rightarrow> exn + org_role_preset_list) \<Rightarrow>
   (unit, org_role_preset list) resource \<Rightarrow> (unit, org_role_preset list) resource" where
  "role_presets_answered t fb n attempts =
     plain_answer n (or_prototype t fb proto_role_presets (\<lambda>_. False) (map_sum id rpl_presets (retried attempts)))"

lemma or_prototype_fallback:
  "as_error (or_prototype t True proto none r) = None \<and> as_data (or_prototype t True proto none r) \<noteq> None \<and>
   \<not> as_loading (or_prototype t True proto none r)"
  by (simp add: or_prototype_def loaded_def split: sum.split)

lemma or_prototype_never_empty:
  "\<not> none proto \<Longrightarrow> as_data (or_prototype t True proto none r) = Some d \<Longrightarrow> \<not> none d"
  by (auto simp: or_prototype_def loaded_def split: sum.splits if_splits)

lemma or_prototype_server: "or_prototype t False proto none r = settle t r"
  by (simp add: or_prototype_def settle_def split: sum.split)

section \<open>Actions\<close>

datatype org_mark =
    Org_Saving | Password_Resetting | Role_Deleting | Role_Updating | User_Updating | Status_Updating

record org_labels =
  lb_cost_center_created :: string
  lb_cost_center_deleted :: string
  lb_cost_center_updated :: string
  lb_department_created :: string
  lb_department_deleted :: string
  lb_department_updated :: string
  lb_role_created :: string
  lb_role_deleted :: string
  lb_role_updated :: string
  lb_user_created :: string
  lb_user_updated :: string
  lb_user_password_reset :: string
  lb_user_status_updated :: string

definition default_labels :: org_labels where
  "default_labels =
     \<lparr>lb_cost_center_created = ''Cost center created.'', lb_cost_center_deleted = ''Cost center deleted.'',
      lb_cost_center_updated = ''Cost center updated.'', lb_department_created = ''Department created.'',
      lb_department_deleted = ''Department deleted.'', lb_department_updated = ''Department updated.'',
      lb_role_created = ''Role created.'', lb_role_deleted = ''Role deleted.'', lb_role_updated = ''Role updated.'',
      lb_user_created = ''User created.'', lb_user_updated = ''User updated.'',
      lb_user_password_reset = ''User password reset.'', lb_user_status_updated = ''User status updated.''\<rparr>"

text \<open>The requests of \<open>orgApi\<close> the actions make, answered by the server.\<close>

record org_server =
  srv_create_department :: "department_create \<Rightarrow> exn + department"
  srv_update_department :: "string \<Rightarrow> department_update \<Rightarrow> exn + department"
  srv_delete_department :: "string \<Rightarrow> exn + deletion"
  srv_create_cost_center :: "cost_center_create \<Rightarrow> exn + cost_center"
  srv_update_cost_center :: "string \<Rightarrow> cost_center_update \<Rightarrow> exn + cost_center"
  srv_delete_cost_center :: "string \<Rightarrow> exn + deletion"
  srv_create_user :: "user_create \<Rightarrow> exn + org_user"
  srv_update_user :: "string \<Rightarrow> user_update \<Rightarrow> exn + org_user"
  srv_update_user_status :: "string \<Rightarrow> bool \<Rightarrow> exn + org_user"
  srv_reset_user_password :: "string \<Rightarrow> string \<Rightarrow> exn + org_user"
  srv_create_role :: "role_create \<Rightarrow> exn + role"
  srv_update_role :: "string \<Rightarrow> role_update \<Rightarrow> exn + role"
  srv_delete_role :: "string \<Rightarrow> exn + deletion"

record org_env =
  org_t :: "string \<Rightarrow> string"
  org_labels_of :: org_labels
  org_server_of :: org_server

definition org_run ::
  "org_env \<Rightarrow> org_mark \<Rightarrow> string \<Rightarrow> (org_labels \<Rightarrow> string) \<Rightarrow> exn + 'r \<Rightarrow> org_mark actions \<Rightarrow>
   'r option \<times> org_mark actions" where
  "org_run env m v label = run_action (org_t env) True m v (\<lambda>_. label (org_labels_of env))"

definition act_create_department :: "org_env \<Rightarrow> department_create \<Rightarrow> org_mark actions \<Rightarrow> department option \<times> org_mark actions" where
  "act_create_department env p = org_run env Org_Saving [] lb_department_created (srv_create_department (org_server_of env) p)"

definition act_update_department ::
  "org_env \<Rightarrow> string \<Rightarrow> department_update \<Rightarrow> org_mark actions \<Rightarrow> department option \<times> org_mark actions" where
  "act_update_department env i p = org_run env Org_Saving [] lb_department_updated (srv_update_department (org_server_of env) i p)"

definition act_delete_department :: "org_env \<Rightarrow> string \<Rightarrow> org_mark actions \<Rightarrow> deletion option \<times> org_mark actions" where
  "act_delete_department env i = org_run env Org_Saving [] lb_department_deleted (srv_delete_department (org_server_of env) i)"

definition act_create_cost_center ::
  "org_env \<Rightarrow> cost_center_create \<Rightarrow> org_mark actions \<Rightarrow> cost_center option \<times> org_mark actions" where
  "act_create_cost_center env p = org_run env Org_Saving [] lb_cost_center_created (srv_create_cost_center (org_server_of env) p)"

definition act_update_cost_center ::
  "org_env \<Rightarrow> string \<Rightarrow> cost_center_update \<Rightarrow> org_mark actions \<Rightarrow> cost_center option \<times> org_mark actions" where
  "act_update_cost_center env i p =
     org_run env Org_Saving [] lb_cost_center_updated (srv_update_cost_center (org_server_of env) i p)"

definition act_delete_cost_center :: "org_env \<Rightarrow> string \<Rightarrow> org_mark actions \<Rightarrow> deletion option \<times> org_mark actions" where
  "act_delete_cost_center env i = org_run env Org_Saving [] lb_cost_center_deleted (srv_delete_cost_center (org_server_of env) i)"

definition act_create_user :: "org_env \<Rightarrow> user_create \<Rightarrow> org_mark actions \<Rightarrow> org_user option \<times> org_mark actions" where
  "act_create_user env p = org_run env Org_Saving [] lb_user_created (srv_create_user (org_server_of env) p)"

definition act_update_user :: "org_env \<Rightarrow> string \<Rightarrow> user_update \<Rightarrow> org_mark actions \<Rightarrow> org_user option \<times> org_mark actions" where
  "act_update_user env i p = org_run env User_Updating i lb_user_updated (srv_update_user (org_server_of env) i p)"

definition act_create_role :: "org_env \<Rightarrow> role_create \<Rightarrow> org_mark actions \<Rightarrow> role option \<times> org_mark actions" where
  "act_create_role env p = org_run env Org_Saving [] lb_role_created (srv_create_role (org_server_of env) p)"

definition act_update_role :: "org_env \<Rightarrow> string \<Rightarrow> role_update \<Rightarrow> org_mark actions \<Rightarrow> role option \<times> org_mark actions" where
  "act_update_role env i p = org_run env Role_Updating i lb_role_updated (srv_update_role (org_server_of env) i p)"

definition act_delete_role :: "org_env \<Rightarrow> string \<Rightarrow> org_mark actions \<Rightarrow> deletion option \<times> org_mark actions" where
  "act_delete_role env i = org_run env Role_Deleting i lb_role_deleted (srv_delete_role (org_server_of env) i)"

definition act_update_user_status :: "org_env \<Rightarrow> string \<Rightarrow> bool \<Rightarrow> org_mark actions \<Rightarrow> org_user option \<times> org_mark actions" where
  "act_update_user_status env i on =
     org_run env Status_Updating i lb_user_status_updated (srv_update_user_status (org_server_of env) i on)"

definition act_reset_user_password ::
  "org_env \<Rightarrow> string \<Rightarrow> string \<Rightarrow> org_mark actions \<Rightarrow> org_user option \<times> org_mark actions" where
  "act_reset_user_password env i pw =
     org_run env Password_Resetting i lb_user_password_reset (srv_reset_user_password (org_server_of env) i pw)"

lemmas org_action_defs =
  act_create_department_def act_update_department_def act_delete_department_def act_create_cost_center_def
  act_update_cost_center_def act_delete_cost_center_def act_create_user_def act_update_user_def act_create_role_def
  act_update_role_def act_delete_role_def act_update_user_status_def act_reset_user_password_def

lemma org_run_fst: "fst (org_run env m v label r a) = (case r of Inl e \<Rightarrow> None | Inr x \<Rightarrow> Some x)"
  by (simp add: org_run_def action_simps split: sum.split)

lemma org_run_reported:
  "org_run env m v label r a = (x, a') \<Longrightarrow> reported a' \<and> marks a' = (marks a)(m := None)"
  using run_action_outcome [of "org_t env" True m v "\<lambda>_. label (org_labels_of env)" r a x a'] by (simp add: org_run_def)

lemma org_run_success:
  "fst (org_run env m v label r a) \<noteq> None \<Longrightarrow> act_message (snd (org_run env m v label r a)) = Some (label (org_labels_of env))"
  by (simp add: org_run_def action_simps split: sum.splits)

end
