(* ===== verification/Js_Date.thy ===== *)
theory Js_Date
  imports Prelude Js_Number
begin

text \<open>
  What the front end uses of \<open>Date\<close>: the value in milliseconds of the date texts the server sends and
  the forms hold, and \<open>toISOString\<close> for the years 0 to 9999.  A date-time without a zone is read in the
  time zone of the host, the parameter \<open>zone\<close>: the minutes by which local time is ahead of UTC at a
  local minute.  Other texts are not dates of this program; JavaScript leaves them to the host.
\<close>

section \<open>Reading\<close>

definition leap_year :: "int \<Rightarrow> bool" where
  "leap_year y \<longleftrightarrow> y mod 4 = 0 \<and> (y mod 100 \<noteq> 0 \<or> y mod 400 = 0)"

definition days_in_month :: "int \<Rightarrow> int \<Rightarrow> int" where
  "days_in_month y m =
     (if m = 2 then (if leap_year y then 29 else 28) else if m = 4 \<or> m = 6 \<or> m = 9 \<or> m = 11 then 30 else 31)"

definition days_from_civil :: "int \<Rightarrow> int \<Rightarrow> int \<Rightarrow> int" where
  \<comment> \<open>days since 1970-01-01 in the proleptic Gregorian calendar\<close>
  "days_from_civil y m d =
     (let y' = (if m \<le> 2 then y - 1 else y);
          yoe = y' mod 400;
          doy = (153 * (if m > 2 then m - 3 else m + 9) + 2) div 5 + d - 1
      in (y' div 400) * 146097 + (yoe * 365 + yoe div 4 - yoe div 100 + doy) - 719468)"

definition two_digits :: "char \<Rightarrow> char \<Rightarrow> int option" where
  "two_digits a b = (if is_digit a \<and> is_digit b then Some (int (10 * digit_val a + digit_val b)) else None)"

definition in_range :: "int \<Rightarrow> int \<Rightarrow> int option \<Rightarrow> int option" where
  "in_range lo hi x = (case x of None \<Rightarrow> None | Some n \<Rightarrow> if lo \<le> n \<and> n \<le> hi then Some n else None)"

fun parse_day :: "string \<Rightarrow> (int \<times> string) option" where \<comment> \<open>the day number of \<open>YYYY-MM-DD\<close>, and the rest\<close>
  "parse_day (a # b # c # d # h1 # e # f # h2 # g # h # rest) =
     (case (two_digits a b, two_digits c d, in_range 1 12 (two_digits e f), two_digits g h) of
        (Some hi, Some lo, Some m, Some dd) \<Rightarrow>
          (let y = 100 * hi + lo in
           if h1 = CHR ''-'' \<and> h2 = CHR ''-'' \<and> 1 \<le> dd \<and> dd \<le> days_in_month y m
           then Some (days_from_civil y m dd, rest) else None)
      | _ \<Rightarrow> None)"
| "parse_day _ = None"

fun parse_minute :: "string \<Rightarrow> (int \<times> string) option" where \<comment> \<open>the minutes of \<open>HH:mm\<close>\<close>
  "parse_minute (a # b # c # d # e # rest) =
     (case (in_range 0 23 (two_digits a b), in_range 0 59 (two_digits d e)) of
        (Some h, Some m) \<Rightarrow> if c = CHR '':'' then Some (60 * h + m, rest) else None
      | _ \<Rightarrow> None)"
| "parse_minute _ = None"

definition parse_millis :: "string \<Rightarrow> (int \<times> string) option" where \<comment> \<open>an optional \<open>.ddd\<close>, cut to milliseconds\<close>
  "parse_millis s =
     (case s of
        CHR ''.'' # ds \<Rightarrow>
          (let n = takeWhile is_digit ds in
           if n = [] then None
           else Some (digits_val 0 (take 3 (n @ ''00'')), dropWhile is_digit ds))
      | _ \<Rightarrow> Some (0, s))"

definition parse_second :: "string \<Rightarrow> (int \<times> string) option" where \<comment> \<open>an optional \<open>:ss.ddd\<close>, in milliseconds\<close>
  "parse_second s =
     (case s of
        c # a # b # rest \<Rightarrow>
          if c = CHR '':'' then
            (case (in_range 0 59 (two_digits a b), parse_millis rest) of
               (Some n, Some (ms, rest')) \<Rightarrow> Some (1000 * n + ms, rest')
             | _ \<Rightarrow> None)
          else Some (0, s)
      | _ \<Rightarrow> Some (0, s))"

definition parse_offset :: "string \<Rightarrow> int option" where \<comment> \<open>\<open>Z\<close> or \<open>+HH:mm\<close>, in minutes\<close>
  "parse_offset s =
     (case s of
        [] \<Rightarrow> None
      | c # rest \<Rightarrow>
          if s = ''Z'' then Some 0
          else if c = CHR ''+'' \<or> c = CHR ''-'' then
            (case parse_minute rest of
               Some (m, []) \<Rightarrow> Some (if c = CHR ''-'' then - m else m)
             | _ \<Rightarrow> None)
          else None)"

definition date_ms :: "string \<Rightarrow> jsnum" where
  \<comment> \<open>\<open>new Date(s).valueOf()\<close> for the dates the server sends: a day, or a time with its zone; NaN otherwise\<close>
  "date_ms s =
     (case parse_day s of
        None \<Rightarrow> NaN
      | Some (d, []) \<Rightarrow> Fin (of_int (86400000 * d))
      | Some (d, c # t) \<Rightarrow>
          if c \<noteq> CHR ''T'' then NaN
          else
            (case parse_minute t of
               None \<Rightarrow> NaN
             | Some (m, t') \<Rightarrow>
                 (case parse_second t' of
                    None \<Rightarrow> NaN
                  | Some (ms, z) \<Rightarrow>
                      (case parse_offset z of
                         None \<Rightarrow> NaN
                       | Some off \<Rightarrow> Fin (of_int (86400000 * d + 60000 * (m - off) + ms))))))"

lemma date_examples:
  "date_ms ''1970-01-01'' = Fin 0"
  "date_ms ''2026-01-01T00:00:00.000Z'' = Fin 1767225600000"
  "date_ms ''2024-02-29T12:30:00+02:00'' = Fin 1709202600000"
  "date_ms ''2025-02-29T12:30:00Z'' = NaN"
  by code_simp+

definition date_ms_in :: "(int \<Rightarrow> int) \<Rightarrow> string \<Rightarrow> jsnum" where
  \<comment> \<open>the same, and a date-time without a zone is local\<close>
  "date_ms_in zone s =
     (case parse_day s of
        Some (d, c # t) \<Rightarrow>
          (case (if c = CHR ''T'' then parse_minute t else None) of
             Some (m, t') \<Rightarrow>
               (case parse_second t' of
                  Some (ms, []) \<Rightarrow>
                    (let l = 1440 * d + m in Fin (of_int (60000 * (l - zone l) + ms)))
                | _ \<Rightarrow> date_ms s)
           | None \<Rightarrow> NaN)
      | _ \<Rightarrow> date_ms s)"

section \<open>Writing\<close>

definition civil_from_days :: "int \<Rightarrow> int \<times> int \<times> int" where
  "civil_from_days z0 =
     (let z = z0 + 719468;
          doe = z mod 146097;
          yoe = (doe - doe div 1460 + doe div 36524 - doe div 146096) div 365;
          doy = doe - (365 * yoe + yoe div 4 - yoe div 100);
          mp = (5 * doy + 2) div 153;
          m = (if mp < 10 then mp + 3 else mp - 9)
      in (yoe + (z div 146097) * 400 + (if m \<le> 2 then 1 else 0), m, doy - (153 * mp + 2) div 5 + 1))"

definition padded :: "nat \<Rightarrow> int \<Rightarrow> string" where
  "padded n x = (let s = dec_str x in replicate (n - length s) (CHR ''0'') @ s)"

definition iso_string :: "int \<Rightarrow> string" where \<comment> \<open>\<open>new Date(ms).toISOString()\<close>\<close>
  "iso_string ms =
     (let (y, m, d) = civil_from_days (ms div 86400000);
          t = ms mod 86400000
      in padded 4 y @ ''-'' @ padded 2 m @ ''-'' @ padded 2 d @ ''T'' @ padded 2 (t div 3600000) @ '':'' @
         padded 2 (t div 60000 mod 60) @ '':'' @ padded 2 (t div 1000 mod 60) @ ''.'' @ padded 3 (t mod 1000) @ ''Z'')"

lemma iso_examples:
  "iso_string 1767225600000 = ''2026-01-01T00:00:00.000Z''"
  "iso_string 1709209800123 = ''2024-02-29T12:30:00.123Z''"
  "date_ms_in (\<lambda>_. 480) ''2026-01-01T08:00'' = Fin 1767225600000"
  by code_simp+

end
