(* ===== verification/Tables.thy ===== *)
theory Tables
  imports Js_Date "HOL-Library.Multiset"
begin

text \<open>
  The tables of the console: \<open>components/SortableTh.tsx\<close> (sorting by a column) and
  \<open>components/TablePagination.tsx\<close> (cutting into pages), with what they use of the language: the
  stable \<open>Array.prototype.sort\<close> under a comparison, \<open>slice\<close>, the order of strings and the value of
  a date.  The order of strings is that of their UTF-8 encodings, which is the order of code points;
  JavaScript compares UTF-16 code units and differs only when a character beyond the basic plane
  meets one of \<open>U+E000\<close> to \<open>U+FFFF\<close>.

  The locale \<open>weak_order\<close> is what a comparison must satisfy for the result of a sort to be
  determined; it is interpreted on the comparison of texts and on that of the numbers other than
  NaN.
\<close>

section \<open>A stable sort\<close>

fun insert_by :: "('a \<Rightarrow> 'a \<Rightarrow> int) \<Rightarrow> 'a \<Rightarrow> 'a list \<Rightarrow> 'a list" where
  "insert_by cmp x [] = [x]"
| "insert_by cmp x (y # ys) = (if cmp x y \<le> 0 then x # y # ys else y # insert_by cmp x ys)"

definition sort_by :: "('a \<Rightarrow> 'a \<Rightarrow> int) \<Rightarrow> 'a list \<Rightarrow> 'a list" where \<comment> \<open>\<open>xs.sort(cmp)\<close>\<close>
  "sort_by cmp xs = foldr (insert_by cmp) xs []"

lemma sort_by_simps [simp]: "sort_by cmp [] = []" "sort_by cmp (x # xs) = insert_by cmp x (sort_by cmp xs)"
  by (simp_all add: sort_by_def)

lemma mset_insert_by [simp]: "mset (insert_by cmp x xs) = add_mset x (mset xs)"
  by (induction xs) auto

lemma mset_sort_by [simp]: "mset (sort_by cmp xs) = mset xs"
  by (induction xs) simp_all

lemma set_sort_by [simp]: "set (sort_by cmp xs) = set xs"
  by (metis mset_sort_by set_mset_mset)

lemma length_sort_by [simp]: "length (sort_by cmp xs) = length xs"
  by (metis mset_sort_by size_mset)

lemma set_insert_by [simp]: "set (insert_by cmp x xs) = insert x (set xs)"
  by (metis mset_insert_by set_mset_add_mset_insert set_mset_mset)

lemma sorted_wrt_sort_by:
  assumes le: "\<And>x y. cmp x y \<le> 0 \<Longrightarrow> R x y" and gt: "\<And>x y. \<not> cmp x y \<le> 0 \<Longrightarrow> R y x"
    and trans: "\<And>x y z. R x y \<Longrightarrow> R y z \<Longrightarrow> R x z"
  shows "sorted_wrt R (sort_by cmp xs)"
proof (induction xs)
  case (Cons x xs)
  have "sorted_wrt R ys \<Longrightarrow> sorted_wrt R (insert_by cmp x ys)" for ys
    by (induction ys) (auto intro: trans le gt)
  with Cons show ?case by simp
qed simp

section \<open>What a comparison must satisfy\<close>

locale weak_order =
  fixes less :: "'a \<Rightarrow> 'a \<Rightarrow> bool" and proper :: "'a \<Rightarrow> bool"
  assumes asym: "proper a \<Longrightarrow> proper b \<Longrightarrow> less a b \<Longrightarrow> \<not> less b a"
    and between: "proper a \<Longrightarrow> proper b \<Longrightarrow> proper c \<Longrightarrow> less a c \<Longrightarrow> less a b \<or> less b c"
begin

definition level :: "'a \<Rightarrow> 'a \<Rightarrow> bool" where
  "level a b \<longleftrightarrow> \<not> less a b \<and> \<not> less b a"

lemma level_trans: "proper a \<Longrightarrow> proper b \<Longrightarrow> proper c \<Longrightarrow> level a b \<Longrightarrow> level b c \<Longrightarrow> level a c"
  unfolding level_def using between by blast

lemma not_less_trans:
  "proper a \<Longrightarrow> proper b \<Longrightarrow> proper c \<Longrightarrow> \<not> less b a \<Longrightarrow> \<not> less c b \<Longrightarrow> \<not> less c a"
  using between by blast

text \<open>A comparison by a key, ascending or descending.\<close>

definition compares :: "bool \<Rightarrow> ('r \<Rightarrow> 'a) \<Rightarrow> ('r \<Rightarrow> 'r \<Rightarrow> int) \<Rightarrow> bool" where
  "compares up key cmp \<longleftrightarrow>
     (\<forall>x y. (cmp x y \<le> 0) = (\<not> (if up then less (key y) (key x) else less (key x) (key y))))"

definition in_order :: "bool \<Rightarrow> ('r \<Rightarrow> 'a) \<Rightarrow> 'r \<Rightarrow> 'r \<Rightarrow> bool" where
  "in_order up key x y \<longleftrightarrow> \<not> (if up then less (key y) (key x) else less (key x) (key y))"

lemma in_order_trans:
  "proper (key x) \<Longrightarrow> proper (key y) \<Longrightarrow> proper (key z) \<Longrightarrow>
   in_order up key x y \<Longrightarrow> in_order up key y z \<Longrightarrow> in_order up key x z"
  using not_less_trans [of "key x" "key y" "key z"] not_less_trans [of "key z" "key y" "key x"]
  by (auto simp: in_order_def split: if_splits)

lemma out_of_order: "proper (key x) \<Longrightarrow> proper (key y) \<Longrightarrow> \<not> in_order up key x y \<Longrightarrow> in_order up key y x"
  using asym by (auto simp: in_order_def split: if_splits)

lemma sorted_insert_by:
  assumes "compares up key cmp" "proper (key x)" "list_all (\<lambda>r. proper (key r)) xs"
    and "sorted_wrt (in_order up key) xs"
  shows "sorted_wrt (in_order up key) (insert_by cmp x xs)"
  using assms(3,4)
proof (induction xs)
  case (Cons y ys)
  have cmp: "cmp x y \<le> 0 \<longleftrightarrow> in_order up key x y"
    using assms(1) by (simp add: compares_def in_order_def)
  from Cons.prems have ok: "proper (key y)" "\<And>z. z \<in> set ys \<Longrightarrow> proper (key z)"
    by (simp_all add: list_all_iff)
  show ?case
  proof (cases "in_order up key x y")
    case True
    then have "in_order up key x z" if "z \<in> set ys" for z
      using that Cons.prems ok assms(2) in_order_trans [of key x y z up] by auto
    with True cmp Cons.prems show ?thesis by simp
  next
    case False
    then have "in_order up key y x" using out_of_order [of key x y up] assms(2) ok(1) by simp
    with False cmp Cons show ?thesis by simp
  qed
qed simp

lemma sorted_sort_by:
  assumes "compares up key cmp" "list_all (\<lambda>r. proper (key r)) xs"
  shows "sorted_wrt (in_order up key) (sort_by cmp xs)"
  using assms(2)
proof (induction xs)
  case (Cons x xs)
  then have "proper (key x)" "list_all (\<lambda>r. proper (key r)) (sort_by cmp xs)"
    by (simp_all add: list_all_iff)
  from sorted_insert_by [OF assms(1) this] Cons show ?case by simp
qed simp

lemma insert_by_other:
  "\<not> P x \<Longrightarrow> filter P (insert_by cmp x xs) = filter P xs"
  by (induction xs) auto

lemma insert_by_level:
  assumes cmp: "compares up key cmp" and pr: "list_all (\<lambda>r. proper (key r)) (x # xs)" and k: "level k (key x)"
    and pk: "proper k"
  shows "filter (\<lambda>r. level k (key r)) (insert_by cmp x xs) = x # filter (\<lambda>r. level k (key r)) xs"
  using pr
proof (induction xs)
  case (Cons y ys)
  have c: "cmp x y \<le> 0 \<longleftrightarrow> in_order up key x y"
    using cmp by (simp add: compares_def in_order_def)
  show ?case
  proof (cases "in_order up key x y")
    case False
    then have "\<not> level (key x) (key y)" by (auto simp: in_order_def level_def split: if_splits)
    moreover have "level (key x) (key y)" if "level k (key y)"
      using that k pk Cons.prems level_trans [of "key x" k "key y"] by (auto simp: level_def)
    ultimately show ?thesis using False c Cons k by auto
  qed (use c k in simp)
qed (use k in simp)

lemma sort_by_stable:
  assumes "compares up key cmp" "list_all (\<lambda>r. proper (key r)) xs" "proper k"
  shows "filter (\<lambda>r. level k (key r)) (sort_by cmp xs) = filter (\<lambda>r. level k (key r)) xs"
  using assms(2)
proof (induction xs)
  case (Cons x xs)
  have pr: "list_all (\<lambda>r. proper (key r)) (x # sort_by cmp xs)"
    using Cons.prems by (simp add: list_all_iff)
  show ?case
  proof (cases "level k (key x)")
    case True
    with insert_by_level [OF assms(1) pr True assms(3)] Cons show ?thesis by simp
  next
    case False
    with Cons insert_by_other [of "\<lambda>r. level k (key r)" x cmp "sort_by cmp xs"] show ?thesis by simp
  qed
qed simp

end

section \<open>Values of a column\<close>

fun str_less :: "string \<Rightarrow> string \<Rightarrow> bool" where \<comment> \<open>\<open>s < t\<close>\<close>
  "str_less [] t = (t \<noteq> [])"
| "str_less (c # s) [] = False"
| "str_less (c # s) (d # t) =
     ((of_char c :: nat) < of_char d \<or> (c = d \<and> str_less s t))"

lemma str_less_irrefl [simp]: "\<not> str_less s s"
  by (induction s) simp_all

lemma str_less_Nil [simp]: "\<not> str_less s []"
  by (cases s) simp_all

lemma str_less_asym: "str_less s t \<Longrightarrow> \<not> str_less t s"
  by (induction s t rule: str_less.induct) auto

lemma str_less_linear: "\<not> str_less s t \<Longrightarrow> \<not> str_less t s \<Longrightarrow> s = t"
proof (induction s t rule: str_less.induct)
  case (3 c s d t)
  then show ?case by (cases "c = d") (auto simp: linorder_neq_iff dest: of_char_eqI)
qed auto

lemma str_less_trans: "str_less a b \<Longrightarrow> str_less b c \<Longrightarrow> str_less a c"
proof (induction a b arbitrary: c rule: str_less.induct)
  case (1 t)
  then show ?case by (cases c; cases t) auto
next
  case (3 x s d t)
  then show ?case by (cases c) auto
qed auto

datatype sort_value = Text_Value string | Number_Value jsnum

fun value_less :: "sort_value \<Rightarrow> sort_value \<Rightarrow> bool" where
  \<comment> \<open>\<open>a < b\<close>; a column holds values of one kind, and a date is its number\<close>
  "value_less (Text_Value s) (Text_Value t) = str_less s t"
| "value_less (Number_Value x) (Number_Value y) = num_less x y"
| "value_less _ _ = False"

definition sort_compare :: "bool \<Rightarrow> ('r \<Rightarrow> sort_value) \<Rightarrow> 'r \<Rightarrow> 'r \<Rightarrow> int" where
  "sort_compare up val a b =
     (if value_less (val a) (val b) then (if up then -1 else 1)
      else if value_less (val b) (val a) then (if up then 1 else -1)
      else 0)"

datatype sort_direction = Ascending | Descending

definition next_direction :: "bool \<Rightarrow> sort_direction option \<Rightarrow> sort_direction option" where
  "next_direction active d =
     (if active then
        (case d of Some Ascending \<Rightarrow> Some Descending | Some Descending \<Rightarrow> None | None \<Rightarrow> Some Ascending)
      else Some Ascending)"

definition sort_items :: "sort_direction option \<Rightarrow> ('r \<Rightarrow> sort_value) \<Rightarrow> 'r list \<Rightarrow> 'r list" where
  "sort_items d val xs =
     (case d of None \<Rightarrow> xs | Some dir \<Rightarrow> sort_by (sort_compare (dir = Ascending) val) xs)"

definition is_text :: "sort_value \<Rightarrow> bool" where
  "is_text v \<longleftrightarrow> (case v of Text_Value _ \<Rightarrow> True | _ \<Rightarrow> False)"

definition is_number :: "sort_value \<Rightarrow> bool" where
  "is_number v \<longleftrightarrow> (case v of Number_Value x \<Rightarrow> x \<noteq> NaN | _ \<Rightarrow> False)"

interpretation text_column: weak_order value_less is_text
proof
  show "is_text a \<Longrightarrow> is_text b \<Longrightarrow> value_less a b \<Longrightarrow> \<not> value_less b a" for a b
    by (auto simp: is_text_def dest: str_less_asym split: sort_value.splits)
  show "is_text a \<Longrightarrow> is_text b \<Longrightarrow> is_text c \<Longrightarrow> value_less a c \<Longrightarrow> value_less a b \<or> value_less b c" for a b c
    by (auto simp: is_text_def split: sort_value.splits) (metis str_less_linear str_less_trans)
qed

lemma num_less_asym: "num_less x y \<Longrightarrow> \<not> num_less y x"
  by (cases x; cases y) auto

lemma value_less_asym: "value_less a b \<Longrightarrow> \<not> value_less b a"
  by (cases a; cases b) (auto dest: str_less_asym num_less_asym)

lemma num_less_between: "y \<noteq> NaN \<Longrightarrow> num_less x z \<Longrightarrow> num_less x y \<or> num_less y z"
  by (cases x; cases y; cases z) auto

interpretation number_column: weak_order value_less is_number
proof
  show "is_number a \<Longrightarrow> is_number b \<Longrightarrow> value_less a b \<Longrightarrow> \<not> value_less b a" for a b
    by (auto simp: is_number_def dest: num_less_asym split: sort_value.splits)
  show "is_number a \<Longrightarrow> is_number b \<Longrightarrow> is_number c \<Longrightarrow> value_less a c \<Longrightarrow> value_less a b \<or> value_less b c" for a b c
    by (auto simp: is_number_def dest: num_less_between split: sort_value.splits)
qed

lemma sort_compare_compares:
  "text_column.compares up val (sort_compare up val)" "number_column.compares up val (sort_compare up val)"
  by (auto simp: text_column.compares_def number_column.compares_def sort_compare_def
      dest: value_less_asym)

section \<open>Pages\<close>

definition js_slice :: "int \<Rightarrow> int \<Rightarrow> 'a list \<Rightarrow> 'a list" where \<comment> \<open>\<open>xs.slice(a, b)\<close>\<close>
  "js_slice a b xs =
     (let n = int (length xs);
          from = (if a < 0 then max 0 (n + a) else min a n);
          to = (if b < 0 then max 0 (n + b) else min b n)
      in take (nat (to - from)) (drop (nat from) xs))"

definition default_page_size :: nat where "default_page_size = 20"
definition page_sizes :: "nat list" where "page_sizes = [10, 20, 50, 100]"

definition paginate :: "int \<Rightarrow> nat \<Rightarrow> 'a list \<Rightarrow> 'a list" where
  "paginate page psize xs = (let start = (page - 1) * int psize in js_slice start (start + int psize) xs)"

definition total_pages :: "nat \<Rightarrow> nat \<Rightarrow> nat" where \<comment> \<open>\<open>Math.max(1, Math.ceil(total / pageSize))\<close>\<close>
  "total_pages rows psize = max 1 ((rows + psize - 1) div psize)"

definition safe_page :: "nat \<Rightarrow> nat \<Rightarrow> int \<Rightarrow> int" where
  "safe_page rows psize page = min (max 1 page) (int (total_pages rows psize))"

definition shown_range :: "nat \<Rightarrow> nat \<Rightarrow> int \<Rightarrow> int \<times> int" where
  \<comment> \<open>the first and the last row number under the table\<close>
  "shown_range rows psize page =
     (let p = safe_page rows psize page in
      (if rows = 0 then 0 else (p - 1) * int psize + 1, min (p * int psize) (int rows)))"

lemma js_slice_nat: "js_slice (int a) (int (a + n)) xs = take n (drop a xs)"
proof (cases "a \<le> length xs")
  case True
  have "nat (min (int (a + n)) (int (length xs)) - min (int a) (int (length xs))) = min (a + n) (length xs) - a"
    using True by linarith
  with True show ?thesis
    by (simp add: js_slice_def min_def take_all_iff split: if_splits)
qed (simp add: js_slice_def)

lemma paginate_nat: "1 \<le> p \<Longrightarrow> paginate (int p) psize xs = take psize (drop ((p - 1) * psize) xs)"
  using js_slice_nat [of "(p - 1) * psize" psize xs] by (simp add: paginate_def of_nat_diff)

lemma safe_page_bounds: "1 \<le> safe_page rows psize page" "safe_page rows psize page \<le> int (total_pages rows psize)"
  by (simp_all add: safe_page_def total_pages_def)

lemma total_pages_enough: "0 < psize \<Longrightarrow> rows \<le> total_pages rows psize * psize"
proof -
  assume s: "0 < psize"
  have "rows \<le> (rows + psize - 1) div psize * psize"
    using s div_mult_mod_eq [of "rows + psize - 1" psize] mod_less_divisor [OF s, of "rows + psize - 1"] by linarith
  then show ?thesis by (simp add: total_pages_def) (meson le_trans max.cobounded2 mult_le_mono1)
qed

lemma total_pages_least: "0 < psize \<Longrightarrow> 0 < rows \<Longrightarrow> (total_pages rows psize - 1) * psize < rows"
proof -
  assume s: "0 < psize" and t: "0 < rows"
  let ?q = "(rows + psize - 1) div psize"
  have "?q * psize \<le> rows + psize - 1" by simp
  moreover have "1 \<le> ?q" using s t by (simp add: div_greater_zero_iff Suc_leI)
  ultimately have "(?q - 1) * psize < rows"
    using s t unfolding diff_mult_distrib by linarith
  with \<open>1 \<le> ?q\<close> show ?thesis by (simp add: total_pages_def)
qed

lemma shown_page_nonempty:
  assumes "0 < psize" "xs \<noteq> []"
  shows "paginate (safe_page (length xs) psize page) psize xs \<noteq> []"
proof -
  define p where "p = nat (safe_page (length xs) psize page)"
  have p: "safe_page (length xs) psize page = int p" "1 \<le> p" "p \<le> total_pages (length xs) psize"
    using safe_page_bounds [of "length xs" psize page] by (simp_all add: p_def)
  have "(p - 1) * psize \<le> (total_pages (length xs) psize - 1) * psize"
    using p(3) by (intro mult_le_mono1) simp
  also have "\<dots> < length xs" using total_pages_least assms by simp
  finally show ?thesis using assms p by (simp add: paginate_nat)
qed

lemma pages_cover:
  "1 \<le> k \<Longrightarrow> concat (map (\<lambda>p. paginate (int p) psize xs) [1..<k]) = take ((k - 1) * psize) xs"
proof (induction k rule: nat_induct_at_least)
  case (Suc n)
  then have "take (n * psize) xs = take ((n - 1) * psize) xs @ take psize (drop ((n - 1) * psize) xs)"
    by (metis Suc_diff_le add.commute diff_Suc_1 le_add_diff_inverse mult_Suc take_add)
  with Suc show ?case by (simp add: paginate_nat)
qed simp

lemma pages_partition:
  assumes "0 < psize"
  shows "concat (map (\<lambda>p. paginate (int p) psize xs) [1..<Suc (total_pages (length xs) psize)]) = xs"
  using pages_cover [of "Suc (total_pages (length xs) psize)" psize xs] total_pages_enough [OF assms, of "length xs"]
  by simp

end
