(* ===== verification/Org_Forms.thy ===== *)
theory Org_Forms
  imports Org_Types Session Tables
begin

text \<open>
  The forms of the organisation page: \<open>pages/departments/departmentUtils.ts\<close>, the role forms of
  \<open>RoleQuickCreatePanel.tsx\<close> and \<open>RoleManagementPanel.tsx\<close>, the user forms of \<open>UserEditRow.tsx\<close>,
  \<open>UserPasswordResetRow.tsx\<close> and \<open>UserQuickCreatePanel.tsx\<close>, and the editors of
  \<open>OrgGovernancePanel.tsx\<close>.  \<open>localeCompare\<close> depends on the collation tables of the host and is the
  parameter \<open>collate\<close>.
\<close>

section \<open>Form states\<close>

record department_form =
  df_description :: string
  df_name :: string

record cost_center_form =
  cf_code :: string
  cf_monthly_budget :: string
  cf_name :: string

record role_form =
  rf_description :: string
  rf_name :: string
  rf_permissions :: string
  rf_template_key :: string

record user_form =
  uf_cost_center_id :: string
  uf_email :: string
  uf_full_name :: string
  uf_password :: string
  uf_role_id :: string

definition text_or_null :: "string \<Rightarrow> string option" where \<comment> \<open>\<open>s.trim() || null\<close>\<close>
  "text_or_null s = (if trim s = [] then None else Some (trim s))"

section \<open>Departments and users\<close>

fun flatten_tree :: "nat \<Rightarrow> dept_tree list \<Rightarrow> (nat \<times> department) list" where
  "flatten_tree depth [] = []"
| "flatten_tree depth (Dept_Node d children # ns) =
     (depth, d) # flatten_tree (Suc depth) children @ flatten_tree depth ns"

definition user_display_name :: "org_user \<Rightarrow> string" where
  "user_display_name u =
     (if js_truthy_str (us_full_name u) then the (us_full_name u)
      else if js_truthy_str (us_username u) then the (us_username u) else us_email u)"

definition name_separator :: "char \<Rightarrow> bool" where \<comment> \<open>\<open>[.\\s@_-]\<close>\<close>
  "name_separator c \<longleftrightarrow> is_space c \<or> c \<in> set ''.@_-''"

definition initials :: "string \<Rightarrow> string" where
  "initials v = concat (map (\<lambda>p. to_upper (take 1 p)) (take 2 (filter (\<lambda>p. p \<noteq> []) (split_any name_separator v))))"

definition format_user_status :: "org_user \<Rightarrow> string" where
  "format_user_status u =
     (if \<not> us_is_active u then ''DISABLED'' else if us_is_tenant_admin u then ''ADMIN'' else ''ACTIVE'')"

definition user_status_label_key :: "string \<Rightarrow> string" where
  "user_status_label_key s =
     (if s = ''DISABLED'' then ''departmentsStatusDisabled''
      else if s = ''ADMIN'' then ''departmentsStatusAdmin'' else ''departmentsStatusActive'')"

definition preferred_cost_center :: "cost_center list \<Rightarrow> department option \<Rightarrow> cost_center option" where
  "preferred_cost_center ccs d =
     (case d of
        None \<Rightarrow> or_else (List.find (\<lambda>c. cc_department_id c = None) ccs) (first_of ccs)
      | Some dep \<Rightarrow>
          or_else (List.find (\<lambda>c. cc_department_id c = Some (dp_id dep)) ccs)
            (or_else (List.find (\<lambda>c. cc_department_id c = None) ccs) (first_of ccs)))"

definition selectable_cost_centers :: "cost_center list \<Rightarrow> department option \<Rightarrow> cost_center list" where
  "selectable_cost_centers ccs d =
     filter (\<lambda>c. \<not> js_truthy_str (cc_department_id c) \<or> d = None \<or> cc_department_id c = map_option dp_id d) ccs"

section \<open>Permissions as text\<close>

definition parse_permissions :: "string \<Rightarrow> string list" where
  "parse_permissions v = filter (\<lambda>p. p \<noteq> []) (map trim (split '','' v))"

definition format_permissions :: "string list \<Rightarrow> string" where
  "format_permissions ps = join '','' (uniq ps)"

definition toggle_permission :: "string \<Rightarrow> string \<Rightarrow> string" where
  "toggle_permission cur p =
     (let vs = parse_permissions cur in
      if List.member vs p then format_permissions (filter (\<lambda>v. v \<noteq> p) vs) else format_permissions (vs @ [p]))"

definition category_order :: "string list" where
  "category_order = [''admin'', ''organization'', ''agent'', ''models'', ''budgets'', ''analytics'', ''audit'',
     ''license'', ''system'']"

definition category_rank :: "string \<Rightarrow> int" where
  "category_rank c =
     coalesce (map_of (zip category_order (map int [0..<length category_order])) c) 9007199254740991"

definition compare_groups ::
  "(string \<Rightarrow> string \<Rightarrow> int) \<Rightarrow> string \<times> permission_item list \<Rightarrow> string \<times> permission_item list \<Rightarrow> int" where
  "compare_groups collate a b =
     (if category_rank (fst a) \<noteq> category_rank (fst b) then category_rank (fst a) - category_rank (fst b)
      else collate (fst a) (fst b))"

definition group_permissions ::
  "(string \<Rightarrow> string \<Rightarrow> int) \<Rightarrow> permission_item list \<Rightarrow> (string \<times> permission_item list) list" where
  "group_permissions collate ps =
     sort_by (compare_groups collate)
       (map (\<lambda>c. (c, sort_by (\<lambda>a b. collate (pi_value a) (pi_value b)) (filter (\<lambda>p. pi_category p = c) ps)))
         (uniq (map pi_category ps)))"

definition category_label_key :: "string \<Rightarrow> string" where
  "category_label_key c =
     (if c = ''admin'' then ''departmentsPermissionCategoryAdmin''
      else if c = ''organization'' then ''departmentsPermissionCategoryOrganization''
      else if c = ''agent'' then ''departmentsPermissionCategoryAgent''
      else if c = ''models'' then ''departmentsPermissionCategoryModels''
      else if c = ''budgets'' then ''departmentsPermissionCategoryBudgets''
      else if c = ''analytics'' then ''departmentsPermissionCategoryAnalytics''
      else if c = ''audit'' then ''departmentsPermissionCategoryAudit''
      else if c = ''license'' then ''departmentsPermissionCategoryLicense''
      else if c = ''system'' then ''departmentsPermissionCategorySystem''
      else ''departmentsPermissionCategoryOther'')"

section \<open>Role forms\<close>

definition apply_role_preset :: "org_role_preset list \<Rightarrow> string \<Rightarrow> role_form \<Rightarrow> role_form" where
  "apply_role_preset presets k f =
     (case List.find (\<lambda>p. rp_key p = k) presets of
        None \<Rightarrow> f\<lparr>rf_template_key := []\<rparr>
      | Some p \<Rightarrow>
          \<lparr>rf_description = rp_description p, rf_name = rp_name p,
           rf_permissions = join '','' (rp_permissions p), rf_template_key = rp_key p\<rparr>)"

definition toggle_role_permission :: "string \<Rightarrow> role_form \<Rightarrow> role_form" where
  "toggle_role_permission p f =
     f\<lparr>rf_permissions := toggle_permission (rf_permissions f) p, rf_template_key := []\<rparr>"

definition role_create_payload :: "role_form \<Rightarrow> role_create" where
  "role_create_payload f =
     \<lparr>rlc_name = trim (rf_name f),
      rlc_description = Some (text_or (trim (rf_description f)) ''Created from AgentHive admin console.''),
      rlc_permissions = parse_permissions (rf_permissions f), rlc_is_system = False\<rparr>"

record role_edit_form =
  re_description :: string
  re_name :: string
  re_permissions :: string

definition role_to_form :: "role \<Rightarrow> role_edit_form" where \<comment> \<open>\<open>startEditing\<close>\<close>
  "role_to_form r =
     \<lparr>re_description = coalesce (rl_description r) [], re_name = rl_name r,
      re_permissions = join '','' (rl_permissions r)\<rparr>"

definition role_edit_payload :: "role_edit_form \<Rightarrow> role_update" where
  "role_edit_payload f =
     \<lparr>rlu_name = Some (Some (trim (re_name f))), rlu_description = Some (text_or_null (re_description f)),
      rlu_permissions = Some (Some (parse_permissions (re_permissions f)))\<rparr>"

section \<open>User forms\<close>

record user_edit_form =
  ue_cost_center_id :: string
  ue_department_id :: string
  ue_email :: string
  ue_full_name :: string
  ue_is_leader :: bool
  ue_is_tenant_admin :: bool
  ue_phone :: string
  ue_position_title :: string
  ue_role_id :: string

definition primary_department :: "org_user \<Rightarrow> user_department option" where
  "primary_department u = or_else (List.find db_is_primary (us_departments u)) (first_of (us_departments u))"

definition user_to_form :: "org_user \<Rightarrow> department list \<Rightarrow> role list \<Rightarrow> user_edit_form" where
  "user_to_form u ds rs =
     (let b = primary_department u in
      \<lparr>ue_cost_center_id = coalesce (Option.bind b db_cost_center_id) [],
       ue_department_id = coalesce (or_else (map_option db_department_id b) (map_option dp_id (first_of ds))) [],
       ue_email = us_email u, ue_full_name = coalesce (us_full_name u) [],
       ue_is_leader = coalesce (map_option db_is_leader b) False, ue_is_tenant_admin = us_is_tenant_admin u,
       ue_phone = coalesce (us_phone u) [], ue_position_title = coalesce (Option.bind b db_position_title) [],
       ue_role_id = coalesce (or_else (map_option ur_id (first_of (us_roles u))) (map_option rl_id (first_of rs))) []\<rparr>)"

definition id_or_null :: "string \<Rightarrow> string option" where \<comment> \<open>\<open>id || null\<close>\<close>
  "id_or_null i = (if i = [] then None else Some i)"

definition user_edit_payload :: "user_edit_form \<Rightarrow> user_update" where
  "user_edit_payload f =
     \<lparr>usu_email = Some (Some (trim (ue_email f))), usu_username = Some None,
      usu_full_name = Some (text_or_null (ue_full_name f)), usu_phone = Some (text_or_null (ue_phone f)),
      usu_is_tenant_admin = Some (Some (ue_is_tenant_admin f)),
      usu_bindings = Some (Some
        (if ue_department_id f = [] then []
         else [\<lparr>db_department_id = ue_department_id f, db_is_leader = ue_is_leader f, db_is_primary = True,
                db_position_title = text_or_null (ue_position_title f),
                db_cost_center_id = id_or_null (ue_cost_center_id f)\<rparr>])),
      usu_role_ids = Some (Some (if ue_role_id f = [] then [] else [ue_role_id f]))\<rparr>"

definition change_department :: "string \<Rightarrow> user_edit_form \<Rightarrow> user_edit_form" where
  "change_department d f = f\<lparr>ue_cost_center_id := [], ue_department_id := d\<rparr>"

definition edit_selectable_cost_centers :: "cost_center list \<Rightarrow> user_edit_form \<Rightarrow> cost_center list" where
  "edit_selectable_cost_centers ccs f =
     filter (\<lambda>c. \<not> js_truthy_str (cc_department_id c) \<or> ue_department_id f = [] \<or>
                 cc_department_id c = Some (ue_department_id f)) ccs"

definition reset_password_request :: "string \<Rightarrow> string option" where
  \<comment> \<open>the password \<open>save\<close> of the password row sends; none when it is too short\<close>
  "reset_password_request p = (if length (trim p) < 8 then None else Some (trim p))"

definition create_user_disabled :: "bool \<Rightarrow> user_form \<Rightarrow> bool" where
  "create_user_disabled saving f \<longleftrightarrow> saving \<or> trim (uf_email f) = [] \<or> length (uf_password f) < 8"

definition password_alphabet :: string where
  "password_alphabet = ''ABCDEFGHJKLMNPQRSTUVWXYZabcdefghijkmnopqrstuvwxyz23456789!@#$%''"

definition temporary_password :: "nat list \<Rightarrow> string" where \<comment> \<open>from the random bytes\<close>
  "temporary_password bytes = map (\<lambda>b. password_alphabet ! (b mod length password_alphabet)) bytes"

section \<open>Governance editors\<close>

record department_edit_form =
  de_description :: string
  de_name :: string
  de_sort_order :: string

record cost_center_edit_form =
  ce_code :: string
  ce_department_id :: string
  ce_description :: string
  ce_is_active :: bool
  ce_monthly_budget :: string
  ce_name :: string

definition department_to_form :: "department option \<Rightarrow> department_edit_form" where
  "department_to_form d =
     \<lparr>de_description = coalesce (Option.bind d dp_description) [], de_name = coalesce (map_option dp_name d) [],
      de_sort_order = nat_str (coalesce (map_option dp_sort_order d) 0)\<rparr>"

definition department_edit_payload :: "department \<Rightarrow> department_edit_form \<Rightarrow> department_update" where
  \<comment> \<open>\<open>saveDepartment\<close>\<close>
  "department_edit_payload d f =
     \<lparr>dpu_parent_id = Some (dp_parent_id d), dpu_name = Some (Some (trim (de_name f))),
      dpu_description = Some (text_or_null (de_description f)),
      dpu_sort_order = Some (Some
        (if de_sort_order f = [] then num_of_nat (dp_sort_order d) else to_number (de_sort_order f)))\<rparr>"

definition cost_center_to_form :: "cost_center option \<Rightarrow> cost_center_edit_form" where
  "cost_center_to_form c =
     \<lparr>ce_code = coalesce (map_option cc_code c) [],
      ce_department_id = coalesce (Option.bind c cc_department_id) [],
      ce_description = coalesce (Option.bind c cc_description) [],
      ce_is_active = coalesce (map_option cc_is_active c) True,
      ce_monthly_budget = coalesce (Option.bind c cc_monthly_budget) [],
      ce_name = coalesce (map_option cc_name c) []\<rparr>"

definition cost_center_edit_payload :: "cost_center_edit_form \<Rightarrow> cost_center_update" where
  "cost_center_edit_payload f =
     \<lparr>ccu_department_id = Some (id_or_null (ce_department_id f)), ccu_code = Some (Some (trim (ce_code f))),
      ccu_name = Some (Some (trim (ce_name f))), ccu_description = Some (text_or_null (ce_description f)),
      ccu_monthly_budget = Some (text_or_null (ce_monthly_budget f)), ccu_is_active = Some (Some (ce_is_active f))\<rparr>"

section \<open>Permissions as text: lemmas\<close>

definition clean_permission :: "string \<Rightarrow> bool" where
  "clean_permission p \<longleftrightarrow> p \<noteq> [] \<and> trim p = p \<and> CHR '','' \<notin> set p"

lemma split_char_no_sep: "w \<in> set (split [c] s) \<Longrightarrow> c \<notin> set w"
proof (induction "length s" arbitrary: s w rule: less_induct)
  case less
  show ?case
  proof (cases "c \<in> set s")
    case True
    then obtain b a where ba: "s = b @ c # a" "c \<notin> set b"
      by (metis split_list_first)
    with less.prems have "w = b \<or> w \<in> set (split [c] a)" by (simp add: split_char_Cons)
    with ba less.hyps [of a w] show ?thesis by auto
  next
    case False
    with less.prems show ?thesis by (simp add: split_char_single)
  qed
qed

lemma parse_clean: "p \<in> set (parse_permissions v) \<Longrightarrow> clean_permission p"
  using set_trim split_char_no_sep [of _ "CHR '',''" v]
  by (fastforce simp: parse_permissions_def clean_permission_def)

lemma split_join_clean:
  "ps \<noteq> [] \<Longrightarrow> list_all clean_permission ps \<Longrightarrow> split '','' (join '','' ps) = ps"
proof (induction ps rule: induct_list012)
  case (2 p)
  then show ?case by (simp add: clean_permission_def split_char_single)
next
  case (3 p q ps)
  then show ?case by (simp add: clean_permission_def split_char_Cons)
qed simp

lemma parse_join: "list_all clean_permission ps \<Longrightarrow> parse_permissions (join '','' ps) = ps"
proof (cases "ps = []")
  case True
  then show ?thesis by (simp add: parse_permissions_def split_None)
next
  case False
  assume clean: "list_all clean_permission ps"
  then have "map trim ps = ps" "filter (\<lambda>p. p \<noteq> []) ps = ps"
    by (induction ps) (auto simp: clean_permission_def)
  with False clean show ?thesis by (simp add: parse_permissions_def split_join_clean)
qed

lemma parse_format: "list_all clean_permission ps \<Longrightarrow> parse_permissions (format_permissions ps) = uniq ps"
  unfolding format_permissions_def by (rule parse_join) (simp add: list_all_iff)

text \<open>
  Pressing a permission in the role form removes it when the text holds it and adds it at the end
  when it does not, repetitions are dropped, and no other permission is touched.
\<close>

theorem toggle_permission_spec:
  assumes "clean_permission p"
  shows "parse_permissions (toggle_permission cur p) =
    (if p \<in> set (parse_permissions cur) then uniq (filter (\<lambda>v. v \<noteq> p) (parse_permissions cur))
     else uniq (parse_permissions cur) @ [p])"
proof -
  have clean: "list_all clean_permission (parse_permissions cur)"
    by (simp add: list_all_iff parse_clean)
  have "uniq (xs @ [p]) = uniq xs @ [p]" if "p \<notin> set xs" for xs
    using that by (induction xs) auto
  moreover have "list_all clean_permission (filter (\<lambda>v. v \<noteq> p) (parse_permissions cur))"
    using clean by (simp add: list_all_iff)
  ultimately show ?thesis
    using assms clean by (simp add: toggle_permission_def Let_def parse_format)
qed

theorem toggle_permission_spec_witness:
  "parse_permissions (toggle_permission ''chat:read, agents:read'' ''chat:read'') = [''agents:read'']"
  using toggle_permission_spec [of "''chat:read''" "''chat:read, agents:read''"]
  by (simp add: clean_permission_def parse_permissions_def split.simps trim_def trim_start_def trim_end_def is_space_def)

lemma preset_role_permissions:
  assumes "List.find (\<lambda>p. rp_key p = k) presets = Some p" and "list_all clean_permission (rp_permissions p)"
  shows "rlc_permissions (role_create_payload (apply_role_preset presets k f)) = rp_permissions p"
  using assms by (simp add: apply_role_preset_def role_create_payload_def parse_join)

lemma presets_clean: "list_all (\<lambda>p. list_all clean_permission (rp_permissions p)) proto_role_presets"
  by code_simp

definition stored_text :: "string option \<Rightarrow> bool" where
  "stored_text t \<longleftrightarrow> (case t of None \<Rightarrow> True | Some s \<Rightarrow> s \<noteq> [] \<and> trim s = s)"

lemma stored_text_kept: "stored_text t \<Longrightarrow> text_or_null (coalesce t []) = t"
  by (auto simp: stored_text_def text_or_null_def split: option.splits)

text \<open>
  Editing a role and saving it unchanged sends its own name, description and permissions.
\<close>

theorem unchanged_role_edit:
  assumes "trim (rl_name r) = rl_name r" and "stored_text (rl_description r)"
    and "list_all clean_permission (rl_permissions r)"
  shows "role_edit_payload (role_to_form r) =
    \<lparr>rlu_name = Some (Some (rl_name r)), rlu_description = Some (rl_description r),
     rlu_permissions = Some (Some (rl_permissions r))\<rparr>"
  using assms by (simp add: role_edit_payload_def role_to_form_def stored_text_kept parse_join)

theorem unchanged_role_edit_witness:
  "rlu_permissions (role_edit_payload (role_to_form admin_role)) = Some (Some [''tenant.admin''])"
  using unchanged_role_edit [of admin_role]
  by (simp add: admin_role_def role_row_def clean_permission_def stored_text_def trim_def trim_start_def
      trim_end_def is_space_def)

section \<open>Groups of permissions\<close>

lemma group_concat:
  "distinct cs \<Longrightarrow> set (map f ps) \<subseteq> set cs \<Longrightarrow> mset (concat (map (\<lambda>c. filter (\<lambda>p. f p = c) ps) cs)) = mset ps"
proof (induction cs arbitrary: ps)
  case (Cons c cs)
  let ?rest = "filter (\<lambda>p. f p \<noteq> c) ps"
  have eq: "map (\<lambda>d. filter (\<lambda>p. f p = d) ps) cs = map (\<lambda>d. filter (\<lambda>p. f p = d) ?rest) cs"
  proof (rule map_cong [OF refl])
    fix d assume "d \<in> set cs"
    with Cons.prems have "d \<noteq> c" by auto
    then show "filter (\<lambda>p. f p = d) ps = filter (\<lambda>p. f p = d) ?rest"
      by (auto simp: intro: filter_cong)
  qed
  have "mset (concat (map (\<lambda>d. filter (\<lambda>p. f p = d) ?rest) cs)) = mset ?rest"
    by (rule Cons.IH) (use Cons.prems in auto)
  moreover have "mset (filter (\<lambda>p. f p = c) ps) + mset ?rest = mset ps"
    by (induction ps) auto
  ultimately show ?case by (simp only: list.map concat.simps mset_append eq)
qed simp

text \<open>
  The permission catalogue is shown in groups that hold every permission once, each group those of
  one category, no category twice, in the order of the category list with the others last, whatever
  the collation of the host is.
\<close>

theorem group_permissions_spec:
  "mset (concat (map snd (group_permissions collate ps))) = mset ps \<and>
   distinct (map fst (group_permissions collate ps)) \<and>
   list_all (\<lambda>g. snd g \<noteq> [] \<and> list_all (\<lambda>p. pi_category p = fst g) (snd g)) (group_permissions collate ps) \<and>
   sorted (map (\<lambda>g. category_rank (fst g)) (group_permissions collate ps))"
proof -
  define items where "items = (\<lambda>c. sort_by (\<lambda>a b. collate (pi_value a) (pi_value b)) (filter (\<lambda>p. pi_category p = c) ps))"
  define gs where "gs = map (\<lambda>c. (c, items c)) (uniq (map pi_category ps))"
  have g: "group_permissions collate ps = sort_by (compare_groups collate) gs"
    by (simp add: group_permissions_def gs_def items_def)
  have "mset (concat (map snd gs)) = mset (concat (map (\<lambda>c. filter (\<lambda>p. pi_category p = c) ps) (uniq (map pi_category ps))))"
    by (simp add: gs_def mset_concat comp_def items_def del: mset_filter)
  then have "mset (concat (map snd gs)) = mset ps" by (simp add: group_concat)
  then have 1: "mset (concat (map snd (sort_by (compare_groups collate) gs))) = mset ps"
    by (simp add: mset_concat flip: sum_mset_sum_list)
  have "distinct (map fst gs)" by (simp add: gs_def comp_def)
  then have 2: "distinct (map fst (sort_by (compare_groups collate) gs))"
    by (metis mset_sort_by mset_map mset_eq_imp_distinct_iff)
  have 3: "list_all (\<lambda>g. snd g \<noteq> [] \<and> list_all (\<lambda>p. pi_category p = fst g) (snd g)) (sort_by (compare_groups collate) gs)"
  proof -
    have "items c \<noteq> []" if "c \<in> pi_category ` set ps" for c
    proof -
      from that obtain p where "p \<in> set (filter (\<lambda>p. pi_category p = c) ps)" by auto
      then have "p \<in> set (items c)" by (simp add: items_def)
      then show ?thesis by auto
    qed
    then show ?thesis by (auto simp: list_all_iff gs_def) (simp add: items_def)
  qed
  have "sorted_wrt (\<lambda>a b. category_rank (fst a) \<le> category_rank (fst b)) (sort_by (compare_groups collate) gs)"
    by (rule sorted_wrt_sort_by) (auto simp: compare_groups_def split: if_splits)
  then have 4: "sorted (map (\<lambda>g. category_rank (fst g)) (sort_by (compare_groups collate) gs))"
    by (simp add: sorted_wrt_map)
  from 1 2 3 4 show ?thesis by (simp add: g)
qed

lemma channels_grouped_last: "category_rank ''channel'' = 9007199254740991 \<and> category_label_key ''channel'' = ''departmentsPermissionCategoryOther''"
  by code_simp

section \<open>Trees\<close>

lemma flatten_tree_append: "flatten_tree n (xs @ ys) = flatten_tree n xs @ flatten_tree n ys"
  by (induction n xs rule: flatten_tree.induct) simp_all

lemma flatten_tree_shift: "flatten_tree (n + k) ts = map (\<lambda>(i, d). (i + k, d)) (flatten_tree n ts)"
  by (induction n ts rule: flatten_tree.induct) (simp_all flip: add_Suc)

lemma first_of_in: "first_of xs = Some x \<Longrightarrow> x \<in> set xs"
  by (cases xs) (simp_all add: first_of_def)

lemma find_or_first_in: "or_else (List.find P xs) (first_of xs) = Some x \<Longrightarrow> x \<in> set xs"
  using find_Some_mem [of P xs x] first_of_in [of xs x] by (cases "List.find P xs") simp_all

section \<open>What an edited user loses\<close>

text \<open>
  Saving the edit row of a user without changing anything asks the server to drop the user name,
  every role but the first and every department but the primary one; a user without a role is given
  the first role of the list, and one without a department is put into the first department.
\<close>

theorem unchanged_user_edit:
  assumes "usu = user_edit_payload (user_to_form u (d # ds) (r # rs))"
    and "list_all (\<lambda>b. db_department_id b \<noteq> []) (us_departments u)" "list_all (\<lambda>q. ur_id q \<noteq> []) (us_roles u)"
    and "dp_id d \<noteq> []" "rl_id r \<noteq> []"
  shows "usu_username usu = Some None \<and>
    usu_role_ids usu = Some (Some [case us_roles u of [] \<Rightarrow> rl_id r | q # _ \<Rightarrow> ur_id q]) \<and>
    map_option (map_option (map db_department_id)) (usu_bindings usu) =
      Some (Some [case primary_department u of None \<Rightarrow> dp_id d | Some b \<Rightarrow> db_department_id b])"
proof -
  have "primary_department u = Some b \<Longrightarrow> db_department_id b \<noteq> []" for b
    using assms(2) find_or_first_in [of db_is_primary "us_departments u" b]
    by (auto simp: primary_department_def list_all_iff)
  with assms show ?thesis
    by (cases "primary_department u"; cases "us_roles u")
      (simp_all add: user_edit_payload_def user_to_form_def Let_def first_of_def)
qed

definition roleless_user :: org_user where
  "roleless_user = (proto_users ! 1)\<lparr>us_roles := []\<rparr>"

theorem unchanged_user_edit_witness:
  "usu_role_ids (user_edit_payload (user_to_form roleless_user [proto_department_row] proto_roles)) =
   Some (Some [rl_id admin_role])"
  using unchanged_user_edit [OF refl, where u = roleless_user and d = proto_department_row and ds = "[]" and r = admin_role and rs = "[agent_manager_role, operator_role]"]
  by (simp add: proto_roles_def roleless_user_def proto_users_def proto_binding_def proto_department_row_def
      admin_role_def role_row_def org_department_def)

section \<open>Cost centres\<close>

lemma preferred_cost_center_cases:
  assumes "preferred_cost_center ccs (Some d) = Some c"
  shows "c \<in> set ccs \<and>
    (cc_department_id c = Some (dp_id d) \<or> cc_department_id c = None \<or>
     \<not> list_ex (\<lambda>x. cc_department_id x = Some (dp_id d) \<or> cc_department_id x = None) ccs)"
proof (cases "List.find (\<lambda>c. cc_department_id c = Some (dp_id d)) ccs")
  case (Some x)
  with assms find_Some_mem [OF Some] show ?thesis by (simp add: preferred_cost_center_def)
next
  case own: None
  show ?thesis
  proof (cases "List.find (\<lambda>c. cc_department_id c = None) ccs")
    case (Some x)
    with own assms find_Some_mem [OF Some] show ?thesis by (simp add: preferred_cost_center_def)
  next
    case None
    with own have "\<not> list_ex (\<lambda>x. cc_department_id x = Some (dp_id d) \<or> cc_department_id x = None) ccs"
      by (auto simp: find_None_iff list_ex_iff)
    moreover from own None assms have "first_of ccs = Some c" by (simp add: preferred_cost_center_def)
    ultimately show ?thesis using first_of_in [of ccs c] by simp
  qed
qed

lemma preferred_from_other_department:
  assumes "list_all (\<lambda>c. cc_department_id c = Some e \<and> e \<noteq> []) (c # ccs)" "e \<noteq> dp_id d"
  shows "preferred_cost_center (c # ccs) (Some d) = Some c \<and> selectable_cost_centers (c # ccs) (Some d) = []"
proof -
  have "List.find (\<lambda>c. cc_department_id c = Some (dp_id d)) (c # ccs) = None"
    "List.find (\<lambda>c. cc_department_id c = None) (c # ccs) = None"
    using assms by (auto simp: find_None_iff list_all_iff)
  moreover have "filter (\<lambda>x. \<not> js_truthy_str (cc_department_id x) \<or> cc_department_id x = Some (dp_id d)) (c # ccs) = []"
    using assms by (auto simp: filter_empty_conv list_all_iff)
  ultimately show ?thesis
    by (simp add: preferred_cost_center_def selectable_cost_centers_def first_of_def del: find.simps filter.simps)
qed

section \<open>Passwords\<close>

lemma reset_password_long: "reset_password_request p = Some q \<Longrightarrow> 8 \<le> length q \<and> q = trim p"
  by (auto simp: reset_password_request_def split: if_splits)

lemma temporary_password_accepted:
  "length bytes = 14 \<Longrightarrow> length (temporary_password bytes) = 14 \<and> set (temporary_password bytes) \<subseteq> set password_alphabet \<and>
   create_user_disabled saving (f\<lparr>uf_password := temporary_password bytes\<rparr>) = (saving \<or> trim (uf_email f) = [])"
proof -
  have "password_alphabet \<noteq> []" by (simp add: password_alphabet_def)
  then have "password_alphabet ! (b mod length password_alphabet) \<in> set password_alphabet" for b
    by (intro nth_mem mod_less_divisor) simp
  then show "length bytes = 14 \<Longrightarrow> ?thesis"
    by (auto simp: temporary_password_def create_user_disabled_def)
qed

end
