(* ===== verification/Org_Page.thy ===== *)
theory Org_Page
  imports Org_Hooks Org_Forms
begin

text \<open>
  The organisation page, \<open>pages/departments/useDepartmentsPageController.ts\<close>: its tabs, the selected
  department, the six lists and the four forms, the two effects that keep the selection and the user
  form in step with the lists, and the handlers of its buttons.  A handler runs its action without
  interruption and then starts the reload; the answers of the reload are events of their own.
\<close>

section \<open>State\<close>

datatype departments_tab = Tab_People | Tab_Setup | Tab_Org_Governance
datatype org_governance_tab = Governance_Department | Governance_Roles | Governance_Costs
datatype org_setup_tab = Setup_Department | Setup_User | Setup_Role | Setup_Cost

record org_page =
  og_tab :: departments_tab
  og_setup :: org_setup_tab
  og_governance :: org_governance_tab
  og_departments :: "(unit, department_list) resource"
  og_cost_centers :: "(unit, cost_center list) resource"
  og_users :: "(unit, org_user list) resource"
  og_roles :: "(unit, role list) resource"
  og_permissions :: "(unit, permission_item list) resource"
  og_presets :: "(unit, org_role_preset list) resource"
  og_actions :: "org_mark actions"
  og_selected :: "string option"
  og_department_form :: department_form
  og_cost_center_form :: cost_center_form
  og_role_form :: role_form
  og_user_form :: user_form

record org_page_env =
  og_prototype :: bool
  og_env :: org_env

definition page_labels :: "(string \<Rightarrow> string) \<Rightarrow> org_labels" where
  "page_labels t =
     \<lparr>lb_cost_center_created = t ''departmentsCostCenterCreated'', lb_cost_center_deleted = t ''departmentsCostCenterDeleted'',
      lb_cost_center_updated = t ''departmentsCostCenterUpdated'', lb_department_created = t ''departmentsDepartmentCreated'',
      lb_department_deleted = t ''departmentsDepartmentDeleted'', lb_department_updated = t ''departmentsDepartmentUpdated'',
      lb_role_created = t ''departmentsRoleCreated'', lb_role_deleted = t ''departmentsRoleDeleted'',
      lb_role_updated = t ''departmentsRoleUpdated'', lb_user_created = t ''departmentsUserCreated'',
      lb_user_updated = t ''departmentsUserUpdated'', lb_user_password_reset = t ''departmentsUserPasswordReset'',
      lb_user_status_updated = t ''departmentsUserStatusUpdated''\<rparr>"

definition org_page_init :: org_page where
  "org_page_init =
     \<lparr>og_tab = Tab_People, og_setup = Setup_User, og_governance = Governance_Department,
      og_departments = resource_init True, og_cost_centers = resource_init True, og_users = resource_init True,
      og_roles = resource_init True, og_permissions = resource_init True, og_presets = resource_init True,
      og_actions = actions_init, og_selected = None,
      og_department_form = \<lparr>df_description = [], df_name = ''Customer Success''\<rparr>,
      og_cost_center_form = \<lparr>cf_code = ''CS'', cf_monthly_budget = ''1000'', cf_name = ''Customer Success''\<rparr>,
      og_role_form =
        \<lparr>rf_description = ''Can manage approved Agent operations.'', rf_name = ''Agent Manager'',
         rf_permissions = ''agents:read,chat:read,chat:write'', rf_template_key = []\<rparr>,
      og_user_form =
        \<lparr>uf_cost_center_id = [], uf_email = ''new.user@example.com'', uf_full_name = ''New User'',
         uf_password = [], uf_role_id = []\<rparr>\<rparr>"

section \<open>Derived values\<close>

definition departments_of :: "org_page \<Rightarrow> department list" where
  "departments_of s = coalesce (map_option dpl_departments (as_data (shown (og_departments s)))) []"

definition selected_department :: "org_page \<Rightarrow> department option" where
  "selected_department s =
     or_else (List.find (\<lambda>d. Some (dp_id d) = og_selected s) (departments_of s)) (first_of (departments_of s))"

definition users_of :: "org_page \<Rightarrow> org_user list" where
  "users_of s = coalesce (as_data (shown (og_users s))) []"

definition filtered_users :: "org_page \<Rightarrow> org_user list" where
  "filtered_users s =
     (case selected_department s of
        None \<Rightarrow> users_of s
      | Some d \<Rightarrow> filter (\<lambda>u. list_ex (\<lambda>b. db_department_id b = dp_id d) (us_departments u)) (users_of s))"

definition visible_users :: "org_page \<Rightarrow> org_user list" where
  "visible_users s =
     (if selected_department s \<noteq> None \<and> filtered_users s \<noteq> [] then filtered_users s else users_of s)"

definition roles_of :: "org_page \<Rightarrow> role list" where
  "roles_of s = coalesce (as_data (shown (og_roles s))) []"

definition cost_centers_of :: "org_page \<Rightarrow> cost_center list" where
  "cost_centers_of s = coalesce (as_data (shown (og_cost_centers s))) []"

definition preferred_of :: "org_page \<Rightarrow> cost_center option" where
  "preferred_of s = preferred_cost_center (cost_centers_of s) (selected_department s)"

definition selectable_of :: "org_page \<Rightarrow> cost_center list" where
  "selectable_of s = selectable_cost_centers (cost_centers_of s) (selected_department s)"

section \<open>Effects\<close>

definition default_department :: "org_page \<Rightarrow> org_page" where
  "default_department s =
     (case departments_of s of
        [] \<Rightarrow> s
      | d # _ \<Rightarrow> if js_truthy_str (og_selected s) then s else s\<lparr>og_selected := Some (dp_id d)\<rparr>)"

definition settle_user_form :: "org_page \<Rightarrow> org_page" where
  "settle_user_form s =
     (let f = og_user_form s;
          r = (if list_ex (\<lambda>x. rl_id x = uf_role_id f) (roles_of s) then uf_role_id f
               else coalesce (map_option rl_id (first_of (roles_of s))) []);
          c = (if list_ex (\<lambda>x. cc_id x = uf_cost_center_id f) (selectable_of s) then uf_cost_center_id f
               else coalesce (map_option cc_id (preferred_of s)) [])
      in s\<lparr>og_user_form := f\<lparr>uf_cost_center_id := c, uf_role_id := r\<rparr>\<rparr>)"

definition org_effects :: "org_page \<Rightarrow> org_page" where
  "org_effects s = settle_user_form (default_department s)"

definition lists_unloaded :: "org_page \<Rightarrow> bool" where
  \<comment> \<open>then \<open>roles ?? []\<close> or \<open>costCenters ?? []\<close> is another array at every render, and the form effect runs\<close>
  "lists_unloaded s \<longleftrightarrow> as_data (shown (og_roles s)) = None \<or> as_data (shown (og_cost_centers s)) = None"

definition change_user_form :: "user_form \<Rightarrow> org_page \<Rightarrow> org_page" where
  "change_user_form f s =
     (let s' = s\<lparr>og_user_form := f\<rparr> in if lists_unloaded s' then settle_user_form s' else s')"

definition select_department :: "string \<Rightarrow> org_page \<Rightarrow> org_page" where
  "select_department i s =
     (if og_selected s = Some i then s else org_effects (s\<lparr>og_selected := Some i\<rparr>))"

section \<open>Reloading\<close>

definition refresh_users :: "org_page \<Rightarrow> org_page" where
  "refresh_users s = s\<lparr>og_users := load_org (og_users s)\<rparr>"

definition refresh_org :: "org_page \<Rightarrow> org_page" where
  "refresh_org s =
     s\<lparr>og_departments := load_org (og_departments s), og_cost_centers := load_org (og_cost_centers s),
       og_users := load_org (og_users s), og_roles := load_org (og_roles s),
       og_permissions := load_org (og_permissions s), og_presets := load_org (og_presets s)\<rparr>"

definition departments_arrive :: "org_page_env \<Rightarrow> nat \<Rightarrow> (nat \<Rightarrow> exn + department_list) \<Rightarrow> org_page \<Rightarrow> org_page" where
  "departments_arrive env n a s =
     org_effects (s\<lparr>og_departments := departments_answered (org_t (og_env env)) (og_prototype env) n a (og_departments s)\<rparr>)"

definition cost_centers_arrive :: "org_page_env \<Rightarrow> nat \<Rightarrow> exn + cost_center_list \<Rightarrow> org_page \<Rightarrow> org_page" where
  "cost_centers_arrive env n a s =
     org_effects (s\<lparr>og_cost_centers := cost_centers_answered (org_t (og_env env)) (og_prototype env) n a (og_cost_centers s)\<rparr>)"

definition users_arrive :: "org_page_env \<Rightarrow> nat \<Rightarrow> (nat \<Rightarrow> exn + org_user_list) \<Rightarrow> org_page \<Rightarrow> org_page" where
  "users_arrive env n a s =
     s\<lparr>og_users := users_answered (org_t (og_env env)) (og_prototype env) n a (og_users s)\<rparr>"

definition roles_arrive :: "org_page_env \<Rightarrow> nat \<Rightarrow> (nat \<Rightarrow> exn + role_list) \<Rightarrow> org_page \<Rightarrow> org_page" where
  "roles_arrive env n a s =
     org_effects (s\<lparr>og_roles := roles_answered (org_t (og_env env)) (og_prototype env) n a (og_roles s)\<rparr>)"

definition permissions_arrive :: "org_page_env \<Rightarrow> nat \<Rightarrow> (nat \<Rightarrow> exn + permission_catalog) \<Rightarrow> org_page \<Rightarrow> org_page" where
  "permissions_arrive env n a s =
     s\<lparr>og_permissions := role_permissions_answered (org_t (og_env env)) (og_prototype env) n a (og_permissions s)\<rparr>"

definition presets_arrive :: "org_page_env \<Rightarrow> nat \<Rightarrow> (nat \<Rightarrow> exn + org_role_preset_list) \<Rightarrow> org_page \<Rightarrow> org_page" where
  "presets_arrive env n a s =
     s\<lparr>og_presets := role_presets_answered (org_t (og_env env)) (og_prototype env) n a (og_presets s)\<rparr>"

section \<open>Handlers\<close>

definition after_org_action :: "'r option \<times> org_mark actions \<Rightarrow> (org_page \<Rightarrow> org_page) \<Rightarrow> org_page \<Rightarrow> bool \<times> org_page" where
  \<comment> \<open>what is done when the action answered, and whether it did\<close>
  "after_org_action r next s =
     (let s' = s\<lparr>og_actions := snd r\<rparr> in if fst r = None then (False, s') else (True, next s'))"

definition department_payload :: "org_page \<Rightarrow> department_create" where
  "department_payload s =
     \<lparr>dpc_parent_id = og_selected s, dpc_name = trim (df_name (og_department_form s)),
      dpc_description = text_or_null (df_description (og_department_form s)),
      dpc_sort_order = length (departments_of s) + 1\<rparr>"

definition handle_create_department :: "org_page_env \<Rightarrow> org_page \<Rightarrow> org_page" where
  "handle_create_department env s =
     (let r = act_create_department (og_env env) (department_payload s) (og_actions s) in
      snd (after_org_action r
        (\<lambda>s'. refresh_org (org_effects (s'\<lparr>og_selected := map_option dp_id (fst r)\<rparr>))) s))"

definition handle_primary_department :: "org_page_env \<Rightarrow> org_page \<Rightarrow> org_page" where
  "handle_primary_department env s =
     (let s' = s\<lparr>og_setup := Setup_Department\<rparr> in
      if og_tab s \<noteq> Tab_Setup then s'\<lparr>og_tab := Tab_Setup\<rparr>
      else if og_setup s = Setup_Department then handle_create_department env s' else s')"

definition cost_center_payload :: "org_page \<Rightarrow> cost_center_create" where
  "cost_center_payload s =
     (let f = og_cost_center_form s in
      \<lparr>ccc_department_id = og_selected s, ccc_code = trim (cf_code f), ccc_name = trim (cf_name f),
       ccc_description = None, ccc_monthly_budget = text_or_null (cf_monthly_budget f), ccc_is_active = True\<rparr>)"

definition handle_create_cost_center :: "org_page_env \<Rightarrow> org_page \<Rightarrow> org_page" where
  "handle_create_cost_center env s =
     snd (after_org_action (act_create_cost_center (og_env env) (cost_center_payload s) (og_actions s)) refresh_org s)"

definition handle_update_department :: "org_page_env \<Rightarrow> string \<Rightarrow> department_update \<Rightarrow> org_page \<Rightarrow> bool \<times> org_page" where
  "handle_update_department env i p s =
     after_org_action (act_update_department (og_env env) i p (og_actions s)) refresh_org s"

definition handle_delete_department :: "org_page_env \<Rightarrow> string \<Rightarrow> org_page \<Rightarrow> bool \<times> org_page" where
  "handle_delete_department env i s =
     after_org_action (act_delete_department (og_env env) i (og_actions s))
       (\<lambda>s'. refresh_org (if og_selected s = Some i then org_effects (s'\<lparr>og_selected := None\<rparr>) else s')) s"

definition handle_update_cost_center :: "org_page_env \<Rightarrow> string \<Rightarrow> cost_center_update \<Rightarrow> org_page \<Rightarrow> bool \<times> org_page" where
  "handle_update_cost_center env i p s =
     after_org_action (act_update_cost_center (og_env env) i p (og_actions s)) refresh_org s"

definition handle_delete_cost_center :: "org_page_env \<Rightarrow> string \<Rightarrow> org_page \<Rightarrow> bool \<times> org_page" where
  "handle_delete_cost_center env i s =
     after_org_action (act_delete_cost_center (og_env env) i (og_actions s)) refresh_org s"

definition handle_create_role :: "org_page_env \<Rightarrow> org_page \<Rightarrow> org_page" where
  "handle_create_role env s =
     snd (after_org_action (act_create_role (og_env env) (role_create_payload (og_role_form s)) (og_actions s)) refresh_org s)"

definition handle_update_role :: "org_page_env \<Rightarrow> string \<Rightarrow> role_edit_form \<Rightarrow> org_page \<Rightarrow> bool \<times> org_page" where
  "handle_update_role env i f s =
     after_org_action (act_update_role (og_env env) i (role_edit_payload f) (og_actions s)) refresh_org s"

definition handle_delete_role :: "org_page_env \<Rightarrow> string \<Rightarrow> org_page \<Rightarrow> bool \<times> org_page" where
  "handle_delete_role env i s =
     after_org_action (act_delete_role (og_env env) i (og_actions s)) refresh_org s"

definition user_payload :: "org_page \<Rightarrow> user_create" where
  "user_payload s =
     (let f = og_user_form s in
      \<lparr>usc_email = trim (uf_email f), usc_password = uf_password f, usc_username = None,
       usc_full_name = Some (trim (uf_full_name f)), usc_is_tenant_admin = False, usc_is_active = True,
       usc_bindings =
         (case selected_department s of
            None \<Rightarrow> []
          | Some d \<Rightarrow>
              [\<lparr>db_department_id = dp_id d, db_is_leader = False, db_is_primary = True,
                db_position_title = Some ''Member'',
                db_cost_center_id =
                  (if uf_cost_center_id f \<noteq> [] then Some (uf_cost_center_id f)
                   else Option.bind (preferred_of s) (\<lambda>c. id_or_null (cc_id c)))\<rparr>]),
       usc_role_ids = (if uf_role_id f \<noteq> [] then [uf_role_id f] else [])\<rparr>)"

definition handle_create_user :: "org_page_env \<Rightarrow> org_page \<Rightarrow> org_page" where
  "handle_create_user env s =
     snd (after_org_action (act_create_user (og_env env) (user_payload s) (og_actions s)) refresh_org s)"

definition handle_primary_user :: "org_page_env \<Rightarrow> org_page \<Rightarrow> org_page" where
  "handle_primary_user env s =
     (let s' = s\<lparr>og_setup := Setup_User\<rparr> in
      if og_tab s \<noteq> Tab_Setup then s'\<lparr>og_tab := Tab_Setup\<rparr>
      else if og_setup s = Setup_User then handle_create_user env s' else s')"

definition handle_update_user :: "org_page_env \<Rightarrow> string \<Rightarrow> user_update \<Rightarrow> org_page \<Rightarrow> bool \<times> org_page" where
  "handle_update_user env i p s =
     after_org_action (act_update_user (og_env env) i p (og_actions s)) refresh_users s"

definition handle_toggle_user_status :: "org_page_env \<Rightarrow> string \<Rightarrow> bool \<Rightarrow> org_page \<Rightarrow> org_page" where
  "handle_toggle_user_status env i on s =
     (if list_ex (\<lambda>u. us_id u = i) (users_of s)
      then snd (after_org_action (act_update_user_status (og_env env) i on (og_actions s)) refresh_users s) else s)"

definition handle_reset_password :: "org_page_env \<Rightarrow> string \<Rightarrow> string \<Rightarrow> org_page \<Rightarrow> bool \<times> org_page" where
  "handle_reset_password env i pw s =
     after_org_action (act_reset_user_password (og_env env) i pw (og_actions s)) refresh_users s"

section \<open>Events\<close>

datatype org_event =
    Mount
  | Departments_Answer nat "nat \<Rightarrow> exn + department_list"
  | Cost_Centers_Answer nat "exn + cost_center_list"
  | Users_Answer nat "nat \<Rightarrow> exn + org_user_list"
  | Roles_Answer nat "nat \<Rightarrow> exn + role_list"
  | Permissions_Answer nat "nat \<Rightarrow> exn + permission_catalog"
  | Presets_Answer nat "nat \<Rightarrow> exn + org_role_preset_list"
  | Show_Tab departments_tab
  | Show_Setup org_setup_tab
  | Show_Governance org_governance_tab
  | Pick_Department string
  | Edit_Department_Form department_form
  | Edit_Cost_Center_Form cost_center_form
  | Edit_Role_Form role_form
  | Edit_User_Form user_form
  | Press_Department
  | Press_User
  | Press_Create_Cost_Center
  | Press_Create_Role
  | Save_Department string department_update
  | Remove_Department string
  | Save_Cost_Center string cost_center_update
  | Remove_Cost_Center string
  | Save_Role string role_edit_form
  | Remove_Role string
  | Save_User string user_update
  | Switch_User string bool
  | Set_Password string string

definition org_step :: "org_page_env \<Rightarrow> org_event \<Rightarrow> org_page \<Rightarrow> org_page" where
  "org_step env e s =
     (case e of
        Mount \<Rightarrow> refresh_org s
      | Departments_Answer n a \<Rightarrow> departments_arrive env n a s
      | Cost_Centers_Answer n a \<Rightarrow> cost_centers_arrive env n a s
      | Users_Answer n a \<Rightarrow> users_arrive env n a s
      | Roles_Answer n a \<Rightarrow> roles_arrive env n a s
      | Permissions_Answer n a \<Rightarrow> permissions_arrive env n a s
      | Presets_Answer n a \<Rightarrow> presets_arrive env n a s
      | Show_Tab tab \<Rightarrow> s\<lparr>og_tab := tab\<rparr>
      | Show_Setup tab \<Rightarrow> s\<lparr>og_setup := tab\<rparr>
      | Show_Governance tab \<Rightarrow> s\<lparr>og_governance := tab\<rparr>
      | Pick_Department i \<Rightarrow> select_department i s
      | Edit_Department_Form f \<Rightarrow> s\<lparr>og_department_form := f\<rparr>
      | Edit_Cost_Center_Form f \<Rightarrow> s\<lparr>og_cost_center_form := f\<rparr>
      | Edit_Role_Form f \<Rightarrow> s\<lparr>og_role_form := f\<rparr>
      | Edit_User_Form f \<Rightarrow> change_user_form f s
      | Press_Department \<Rightarrow> handle_primary_department env s
      | Press_User \<Rightarrow> handle_primary_user env s
      | Press_Create_Cost_Center \<Rightarrow> handle_create_cost_center env s
      | Press_Create_Role \<Rightarrow> handle_create_role env s
      | Save_Department i p \<Rightarrow> snd (handle_update_department env i p s)
      | Remove_Department i \<Rightarrow> snd (handle_delete_department env i s)
      | Save_Cost_Center i p \<Rightarrow> snd (handle_update_cost_center env i p s)
      | Remove_Cost_Center i \<Rightarrow> snd (handle_delete_cost_center env i s)
      | Save_Role i f \<Rightarrow> snd (handle_update_role env i f s)
      | Remove_Role i \<Rightarrow> snd (handle_delete_role env i s)
      | Save_User i p \<Rightarrow> snd (handle_update_user env i p s)
      | Switch_User i on \<Rightarrow> handle_toggle_user_status env i on s
      | Set_Password i pw \<Rightarrow> snd (handle_reset_password env i pw s))"

definition org_event_ok :: "org_page \<Rightarrow> org_event \<Rightarrow> bool" where
  \<comment> \<open>the selects of the user form offer the listed roles, the selectable cost centres and nothing\<close>
  "org_event_ok s e =
     (case e of
        Edit_User_Form f \<Rightarrow>
          uf_role_id f \<in> set ([] # uf_role_id (og_user_form s) # map rl_id (roles_of s)) \<and>
          uf_cost_center_id f \<in> set ([] # uf_cost_center_id (og_user_form s) # map cc_id (selectable_of s))
      | _ \<Rightarrow> True)"

definition org_offered :: "org_page_env \<Rightarrow> org_event \<Rightarrow> org_page \<Rightarrow> org_page" where
  \<comment> \<open>what the page lets happen\<close>
  "org_offered env e s = (if org_event_ok s e then org_step env e s else s)"

section \<open>The user form follows the lists\<close>

definition user_form_ok :: "org_page \<Rightarrow> bool" where
  "user_form_ok s \<longleftrightarrow>
     uf_role_id (og_user_form s) \<in> set ([] # map rl_id (roles_of s)) \<and>
     uf_cost_center_id (og_user_form s) \<in>
       set ([] # map cc_id (selectable_of s) @ (case preferred_of s of None \<Rightarrow> [] | Some c \<Rightarrow> [cc_id c]))"

lemmas org_views =
  departments_of_def selected_department_def roles_of_def cost_centers_of_def preferred_of_def selectable_of_def

lemma org_view_cong:
  assumes "shown (og_departments s') = shown (og_departments s)" "shown (og_cost_centers s') = shown (og_cost_centers s)"
    "shown (og_roles s') = shown (og_roles s)" "og_selected s' = og_selected s" "og_user_form s' = og_user_form s"
  shows "user_form_ok s' = user_form_ok s"
  using assms by (simp add: user_form_ok_def org_views)

lemma settle_frame [simp]:
  "departments_of (settle_user_form s) = departments_of s" "roles_of (settle_user_form s) = roles_of s"
  "selected_department (settle_user_form s) = selected_department s"
  "selectable_of (settle_user_form s) = selectable_of s" "preferred_of (settle_user_form s) = preferred_of s"
  "og_selected (settle_user_form s) = og_selected s"
  by (simp_all add: settle_user_form_def org_views Let_def)

lemma kept_or_default:
  "(if list_ex (\<lambda>x. f x = i) xs then i else coalesce (map_option f y) []) \<in>
   set ([] # map f xs @ (case y of None \<Rightarrow> [] | Some c \<Rightarrow> [f c]))"
  by (cases y) (auto simp: list_ex_iff)

lemma kept_or_first: "(if list_ex (\<lambda>x. f x = i) xs then i else coalesce (map_option f (first_of xs)) []) \<in> set ([] # map f xs)"
  using kept_or_default [of f i xs "first_of xs"] by (cases xs) (auto simp: first_of_def)

lemma settled_fields:
  "uf_role_id (og_user_form (settle_user_form s)) =
     (if list_ex (\<lambda>x. rl_id x = uf_role_id (og_user_form s)) (roles_of s) then uf_role_id (og_user_form s)
      else coalesce (map_option rl_id (first_of (roles_of s))) [])"
  "uf_cost_center_id (og_user_form (settle_user_form s)) =
     (if list_ex (\<lambda>x. cc_id x = uf_cost_center_id (og_user_form s)) (selectable_of s)
      then uf_cost_center_id (og_user_form s) else coalesce (map_option cc_id (preferred_of s)) [])"
  by (simp_all add: settle_user_form_def Let_def)

lemma settle_ok: "user_form_ok (settle_user_form s)"
  unfolding user_form_ok_def settle_frame
  using kept_or_first [of rl_id "uf_role_id (og_user_form s)" "roles_of s"]
    kept_or_default [of cc_id "uf_cost_center_id (og_user_form s)" "selectable_of s" "preferred_of s"]
  by (simp only: settled_fields simp_thms)

lemma settle_idem: "settle_user_form (settle_user_form s) = settle_user_form s"
proof -
  have "list_ex (\<lambda>x. rl_id x = coalesce (map_option rl_id (first_of rs)) []) rs \<or> first_of rs = None" for rs
    by (cases rs) (simp_all add: first_of_def)
  then show ?thesis
    unfolding settle_user_form_def [of "settle_user_form s"] settle_frame
    by (auto simp: settle_user_form_def Let_def)
qed

lemma load_org_data [simp]: "as_data (shown (load_org h)) = as_data (shown h)"
  by (simp add: load_org_def ask_def loading_again_def)

lemma refresh_views [simp]:
  "departments_of (refresh_org s) = departments_of s" "roles_of (refresh_org s) = roles_of s"
  "cost_centers_of (refresh_org s) = cost_centers_of s" "selected_department (refresh_org s) = selected_department s"
  "selectable_of (refresh_org s) = selectable_of s" "preferred_of (refresh_org s) = preferred_of s"
  "og_user_form (refresh_org s) = og_user_form s" "og_selected (refresh_org s) = og_selected s"
  by (simp_all add: refresh_org_def org_views)

lemma refresh_ok [simp]: "user_form_ok (refresh_org s) = user_form_ok s"
  by (simp add: user_form_ok_def)

lemma effects_ok [simp]: "user_form_ok (org_effects s)"
  by (simp add: org_effects_def settle_ok)

lemma actions_ok [simp]: "user_form_ok (s\<lparr>og_actions := a\<rparr>) = user_form_ok s"
  by (rule org_view_cong) simp_all

lemma after_org_action_ok:
  "user_form_ok s \<Longrightarrow> (\<And>s'. user_form_ok s' \<Longrightarrow> user_form_ok (next s')) \<Longrightarrow>
   user_form_ok (snd (after_org_action r next s))"
  by (simp add: after_org_action_def Let_def)

lemma frame_ok [simp]:
  "user_form_ok (s\<lparr>og_tab := tab\<rparr>) = user_form_ok s" "user_form_ok (s\<lparr>og_setup := st\<rparr>) = user_form_ok s"
  "user_form_ok (s\<lparr>og_governance := g\<rparr>) = user_form_ok s" "user_form_ok (s\<lparr>og_users := u\<rparr>) = user_form_ok s"
  "user_form_ok (s\<lparr>og_permissions := pm\<rparr>) = user_form_ok s" "user_form_ok (s\<lparr>og_presets := ps\<rparr>) = user_form_ok s"
  "user_form_ok (s\<lparr>og_department_form := df\<rparr>) = user_form_ok s"
  "user_form_ok (s\<lparr>og_cost_center_form := cf\<rparr>) = user_form_ok s" "user_form_ok (s\<lparr>og_role_form := rf\<rparr>) = user_form_ok s"
  by (rule org_view_cong; simp)+

lemma change_user_form_ok:
  assumes ok: "user_form_ok s" and ev: "org_event_ok s (Edit_User_Form f)"
  shows "user_form_ok (change_user_form f s)"
proof (cases "lists_unloaded (s\<lparr>og_user_form := f\<rparr>)")
  case True
  then show ?thesis by (simp add: change_user_form_def settle_ok)
next
  case False
  have "roles_of (s\<lparr>og_user_form := f\<rparr>) = roles_of s" "selectable_of (s\<lparr>og_user_form := f\<rparr>) = selectable_of s"
    "preferred_of (s\<lparr>og_user_form := f\<rparr>) = preferred_of s"
    by (simp_all add: org_views)
  with False ok ev show ?thesis
    by (auto simp: change_user_form_def user_form_ok_def org_event_ok_def)
qed

lemma handlers_ok:
  assumes "user_form_ok s"
  shows "user_form_ok (handle_create_department env s)" "user_form_ok (handle_create_cost_center env s)"
    "user_form_ok (handle_create_role env s)" "user_form_ok (handle_create_user env s)"
    "user_form_ok (snd (handle_update_department env i dpu s))" "user_form_ok (snd (handle_delete_department env i s))"
    "user_form_ok (snd (handle_update_cost_center env i ccu s))" "user_form_ok (snd (handle_delete_cost_center env i s))"
    "user_form_ok (snd (handle_update_role env i ref s))" "user_form_ok (snd (handle_delete_role env i s))"
    "user_form_ok (snd (handle_update_user env i usu s))" "user_form_ok (handle_toggle_user_status env i b s)"
    "user_form_ok (snd (handle_reset_password env i pw s))"
  using assms
  by (simp_all add: handle_create_department_def handle_create_cost_center_def handle_create_role_def
      handle_create_user_def handle_update_department_def handle_delete_department_def handle_update_cost_center_def
      handle_delete_cost_center_def handle_update_role_def handle_delete_role_def handle_update_user_def
      handle_toggle_user_status_def handle_reset_password_def refresh_users_def Let_def after_org_action_ok)

lemma user_form_ok_step: "user_form_ok s \<Longrightarrow> user_form_ok (org_offered env e s)"
  by (cases e)
    (simp_all add: org_offered_def org_step_def handlers_ok change_user_form_ok departments_arrive_def
      cost_centers_arrive_def roles_arrive_def users_arrive_def permissions_arrive_def presets_arrive_def
      select_department_def handle_primary_department_def handle_primary_user_def Let_def)

interpretation org_screen: event_system "\<lambda>s. s = org_page_init" "org_offered env" user_form_ok for env
  by unfold_locales (simp_all add: user_form_ok_step, simp add: user_form_ok_def org_page_init_def)

text \<open>
  C26: whatever the lists answer and whatever is pressed, in any order, the user the page asks the server
  to create is active and no administrator, has at most one role, one of those listed, and at most one
  department, the selected one, with a cost centre of the list or none.
\<close>

theorem created_user_within_lists:
  "let s = fold (org_offered env) es org_page_init; p = user_payload s in
    \<not> usc_is_tenant_admin p \<and> usc_is_active p \<and>
    usc_role_ids p \<in> set ([] # map (\<lambda>r. [rl_id r]) (roles_of s)) \<and>
    map db_department_id (usc_bindings p) = (case selected_department s of None \<Rightarrow> [] | Some d \<Rightarrow> [dp_id d]) \<and>
    set (map db_cost_center_id (usc_bindings p)) \<subseteq> insert None (Some ` cc_id ` set (cost_centers_of s))"
proof -
  define s where "s = fold (org_offered env) es org_page_init"
  define p where "p = user_payload s"
  have ok: "user_form_ok s"
    unfolding s_def by (rule org_screen.inv_reachable) simp
  have sel: "set (selectable_of s) \<subseteq> set (cost_centers_of s)"
    by (auto simp: selectable_of_def selectable_cost_centers_def)
  have pref: "preferred_of s = Some c \<Longrightarrow> c \<in> set (cost_centers_of s)" for c
    using find_Some_mem find_or_first_in
    by (fastforce simp: preferred_of_def preferred_cost_center_def dest!: or_else_SomeE dest: first_of_in split: option.splits)
  have fallback: "Option.bind (preferred_of s) (\<lambda>c. id_or_null (cc_id c)) \<in> insert None (Some ` cc_id ` set (cost_centers_of s))"
    using pref by (cases "preferred_of s") (auto simp: id_or_null_def)
  have "usc_role_ids p \<in> set ([] # map (\<lambda>r. [rl_id r]) (roles_of s))"
    using ok by (auto simp: p_def user_form_ok_def user_payload_def Let_def)
  moreover have "set (map db_cost_center_id (usc_bindings p)) \<subseteq> insert None (Some ` cc_id ` set (cost_centers_of s))"
    using ok sel pref fallback
    by (auto simp: p_def user_form_ok_def user_payload_def Let_def split: option.splits if_splits)
  moreover have "\<not> usc_is_tenant_admin p \<and> usc_is_active p \<and>
    map db_department_id (usc_bindings p) = (case selected_department s of None \<Rightarrow> [] | Some d \<Rightarrow> [dp_id d])"
    by (simp add: p_def user_payload_def Let_def split: option.split)
  ultimately show ?thesis by (simp add: Let_def s_def p_def)
qed

section \<open>Deleting the first department\<close>

text \<open>
  The selection is cleared while the list still holds the deleted department, and the effect selects
  the first of the list again.
\<close>

lemma deleted_first_reselected:
  assumes "departments_of s = d # ds" "og_selected s = Some (dp_id d)" "dp_id d \<noteq> []"
    and "srv_delete_department (org_server_of (og_env env)) (dp_id d) = Inr x"
  shows "og_selected (snd (handle_delete_department env (dp_id d) s)) = Some (dp_id d)"
proof -
  have "departments_of (s\<lparr>og_actions := a, og_selected := None\<rparr>) = d # ds" for a
    using assms(1) by (simp add: departments_of_def)
  then show ?thesis
    using assms
    by (simp add: handle_delete_department_def after_org_action_def Let_def act_delete_department_def org_run_fst
        org_effects_def default_department_def js_truthy_str_def)
qed

text \<open>
  After the first department of the list, selected, is deleted and the list is loaded again without
  it, the page shows another department as selected, but still asks for new departments under the
  deleted one and for cost centres of the deleted one.
\<close>

theorem deleted_department_stays_selected:
  assumes "departments_of s = d # ds" "og_selected s = Some (dp_id d)" "dp_id d \<noteq> []"
    and "srv_delete_department (org_server_of (og_env env)) (dp_id d) = Inr x"
    and "retried a = Inr \<lparr>dpl_departments = e # es, dpl_tree = ts, dpl_total = n\<rparr>"
    and "list_all (\<lambda>y. dp_id y \<noteq> dp_id d) (e # es)"
    and s': "s' = departments_arrive env k a (snd (handle_delete_department env (dp_id d) s))"
  shows "selected_department s' = Some e \<and> dpc_parent_id (department_payload s') = Some (dp_id d) \<and>
    ccc_department_id (cost_center_payload s') = Some (dp_id d)"
proof -
  let ?t = "snd (handle_delete_department env (dp_id d) s)"
  let ?u = "?t\<lparr>og_departments := departments_answered (org_t (og_env env)) (og_prototype env) k a (og_departments ?t)\<rparr>"
  have sel: "og_selected ?t = Some (dp_id d)"
    by (rule deleted_first_reselected [OF assms(1-4)])
  have deps: "departments_of ?u = e # es"
    using assms(5) by (simp add: departments_of_def departments_answered_def plain_answer_def or_prototype_def loaded_def)
  have u: "default_department ?u = ?u"
    using sel deps assms(3) by (simp add: default_department_def js_truthy_str_def)
  have find: "List.find (\<lambda>y. dp_id y = dp_id d) (e # es) = None"
    using assms(6) by (auto simp: find_None_iff list_all_iff)
  have "selected_department ?u = Some e"
    using sel deps find by (simp add: selected_department_def first_of_def del: find.simps)
  moreover have "og_selected s' = Some (dp_id d)"
    using sel by (simp add: s' departments_arrive_def org_effects_def u)
  ultimately show ?thesis
    by (simp add: s' departments_arrive_def org_effects_def u department_payload_def cost_center_payload_def Let_def)
qed

definition demo_department :: "string \<Rightarrow> department" where
  "demo_department i = proto_department_row\<lparr>dp_id := i, dp_name := i\<rparr>"

definition demo_org_env :: org_page_env where
  "demo_org_env =
     \<lparr>og_prototype = False,
      og_env =
        \<lparr>org_t = id, org_labels_of = default_labels,
         org_server_of =
           \<lparr>srv_create_department = (\<lambda>_. Inl (Named_Error [] [])), srv_update_department = (\<lambda>_ _. Inl (Named_Error [] [])),
            srv_delete_department = (\<lambda>i. Inr \<lparr>del_id = i, del_deleted = True\<rparr>),
            srv_create_cost_center = (\<lambda>_. Inl (Named_Error [] [])), srv_update_cost_center = (\<lambda>_ _. Inl (Named_Error [] [])),
            srv_delete_cost_center = (\<lambda>_. Inl (Named_Error [] [])), srv_create_user = (\<lambda>_. Inl (Named_Error [] [])),
            srv_update_user = (\<lambda>_ _. Inl (Named_Error [] [])), srv_update_user_status = (\<lambda>_ _. Inl (Named_Error [] [])),
            srv_reset_user_password = (\<lambda>_ _. Inl (Named_Error [] [])), srv_create_role = (\<lambda>_. Inl (Named_Error [] [])),
            srv_update_role = (\<lambda>_ _. Inl (Named_Error [] [])), srv_delete_role = (\<lambda>_. Inl (Named_Error [] []))\<rparr>\<rparr>\<rparr>"

definition demo_org_page :: org_page where
  "demo_org_page = org_page_init
     \<lparr>og_departments := (resource_init False)\<lparr>shown := loaded
        \<lparr>dpl_departments = [demo_department ''A'', demo_department ''B''], dpl_tree = [], dpl_total = 2\<rparr>\<rparr>,
      og_selected := Some ''A''\<rparr>"

theorem deleted_department_stays_selected_witness:
  "dpc_parent_id (department_payload (departments_arrive demo_org_env 1
     (\<lambda>_. Inr \<lparr>dpl_departments = [demo_department ''B''], dpl_tree = [], dpl_total = 1\<rparr>)
     (snd (handle_delete_department demo_org_env ''A'' demo_org_page)))) = Some ''A''"
proof -
  have "departments_of demo_org_page = [demo_department ''A'', demo_department ''B'']" "og_selected demo_org_page = Some ''A''"
    by (simp_all add: demo_org_page_def departments_of_def loaded_def)
  moreover have "srv_delete_department (org_server_of (og_env demo_org_env)) ''A'' = Inr \<lparr>del_id = ''A'', del_deleted = True\<rparr>"
    by (simp add: demo_org_env_def)
  moreover have "retried (\<lambda>_. Inr \<lparr>dpl_departments = [demo_department ''B''], dpl_tree = [], dpl_total = 1\<rparr>) =
      Inr \<lparr>dpl_departments = [demo_department ''B''], dpl_tree = [], dpl_total = 1\<rparr>"
    by (simp add: retried_def with_retry_def retry_delays_ms_def retry_loop_Inr)
  ultimately show ?thesis
    using deleted_department_stays_selected [where s = demo_org_page and d = "demo_department ''A''"
        and e = "demo_department ''B''" and es = "[]" and env = demo_org_env]
    by (simp add: demo_department_def)
qed

end
