(* ===== verification/Users_Table.thy ===== *)
theory Users_Table
  imports Org_Forms Access Transitions
begin

text \<open>
  The table of users of the organisation page, \<open>pages/departments/UsersTable.tsx\<close>: sorting, pages, the
  row that is being edited or given a password, and the confirmation before a user is deactivated.
  The requests for a status change are collected in \<open>ut_requests\<close>.
\<close>

section \<open>State\<close>

record users_table =
  ut_users :: "org_user list"
  ut_can_write :: bool
  ut_editing :: "string option"
  ut_resetting :: "string option"
  ut_pending :: "org_user option"
  ut_page :: int
  ut_page_size :: nat
  ut_sort_key :: "string option"
  ut_direction :: "sort_direction option"
  ut_last_count :: nat
  ut_requests :: "(string \<times> bool) list"

definition users_table_init :: "bool \<Rightarrow> org_user list \<Rightarrow> users_table" where
  "users_table_init w us =
     \<lparr>ut_users = us, ut_can_write = w, ut_editing = None, ut_resetting = None, ut_pending = None, ut_page = 1,
      ut_page_size = default_page_size, ut_sort_key = None, ut_direction = None, ut_last_count = length us,
      ut_requests = []\<rparr>"

definition default_can_write_users :: "bool \<Rightarrow> auth_user option \<Rightarrow> bool" where
  \<comment> \<open>the default of \<open>canWriteUsers\<close>, from the stored prototype mode and the stored user\<close>
  "default_can_write_users proto user \<longleftrightarrow> proto \<or> can_access user (Some [''users:write'']) None"

section \<open>Sorting and pages\<close>

definition user_column :: "string \<Rightarrow> org_user \<Rightarrow> sort_value" where
  "user_column k u =
     (if k = ''full_name'' then Text_Value (user_display_name u)
      else if k = ''email'' then Text_Value (us_email u)
      else if k = ''created_at'' then Number_Value (if us_created_at u = [] then Fin 0 else date_ms (us_created_at u))
      else if k = ''last_login_at'' then
        Number_Value (if js_truthy_str (us_last_login_at u) then date_ms (the (us_last_login_at u)) else Fin 0)
      else Text_Value [])"

definition sorted_users :: "users_table \<Rightarrow> org_user list" where
  "sorted_users s =
     (if js_truthy_str (ut_sort_key s) then sort_items (ut_direction s) (user_column (the (ut_sort_key s))) (ut_users s)
      else ut_users s)"

definition table_page :: "users_table \<Rightarrow> int" where
  "table_page s = safe_page (length (sorted_users s)) (ut_page_size s) (ut_page s)"

definition paged_users :: "users_table \<Rightarrow> org_user list" where
  "paged_users s = paginate (table_page s) (ut_page_size s) (sorted_users s)"

definition handle_sort :: "string \<Rightarrow> users_table \<Rightarrow> users_table" where
  \<comment> \<open>a click on a header, through \<open>SortableTh\<close>\<close>
  "handle_sort k s =
     s\<lparr>ut_sort_key := Some k, ut_direction := next_direction (ut_sort_key s = Some k) (ut_direction s), ut_page := 1\<rparr>"

definition change_page_size :: "nat \<Rightarrow> users_table \<Rightarrow> users_table" where
  "change_page_size n s = s\<lparr>ut_page_size := n, ut_page := 1\<rparr>"

definition change_users :: "org_user list \<Rightarrow> users_table \<Rightarrow> users_table" where
  \<comment> \<open>a render with other users: another number of them leads back to the first page\<close>
  "change_users us s =
     (let s' = s\<lparr>ut_users := us\<rparr> in
      if length us \<noteq> ut_last_count s then s'\<lparr>ut_last_count := length us, ut_page := 1\<rparr> else s')"

section \<open>Rows\<close>

definition press_edit :: "string \<Rightarrow> users_table \<Rightarrow> users_table" where
  "press_edit i s = s\<lparr>ut_resetting := None, ut_editing := (if ut_editing s = Some i then None else Some i)\<rparr>"

definition press_reset :: "string \<Rightarrow> users_table \<Rightarrow> users_table" where
  "press_reset i s = s\<lparr>ut_editing := None, ut_resetting := (if ut_resetting s = Some i then None else Some i)\<rparr>"

definition request_status :: "string \<Rightarrow> bool \<Rightarrow> users_table \<Rightarrow> users_table" where \<comment> \<open>\<open>onToggleUserStatus\<close>\<close>
  "request_status i on s = s\<lparr>ut_requests := ut_requests s @ [(i, on)]\<rparr>"

definition toggle_status :: "org_user \<Rightarrow> users_table \<Rightarrow> users_table" where
  "toggle_status u s =
     (if \<not> ut_can_write s then s
      else if us_is_active u then s\<lparr>ut_pending := Some u\<rparr>
      else request_status (us_id u) (\<not> us_is_active u) s)"

definition confirm_deactivate :: "users_table \<Rightarrow> users_table" where
  "confirm_deactivate s =
     (if \<not> ut_can_write s then s\<lparr>ut_pending := None\<rparr>
      else
        (let s' = s\<lparr>ut_pending := None\<rparr> in
         case ut_pending s of None \<Rightarrow> s' | Some u \<Rightarrow> request_status (us_id u) False s'))"

datatype table_event =
    Users_Given "org_user list"
  | Header string
  | Go_To_Page int
  | Page_Size nat
  | Edit_Row string
  | Close_Edit
  | Reset_Row string
  | Close_Reset
  | Toggle_Status org_user
  | Confirm
  | Cancel

definition table_step :: "table_event \<Rightarrow> users_table \<Rightarrow> users_table" where
  "table_step e s =
     (case e of
        Users_Given us \<Rightarrow> change_users us s
      | Header k \<Rightarrow> handle_sort k s
      | Go_To_Page p \<Rightarrow> s\<lparr>ut_page := p\<rparr>
      | Page_Size n \<Rightarrow> if n \<in> set page_sizes then change_page_size n s else s
      | Edit_Row i \<Rightarrow> press_edit i s
      | Close_Edit \<Rightarrow> s\<lparr>ut_editing := None\<rparr>
      | Reset_Row i \<Rightarrow> press_reset i s
      | Close_Reset \<Rightarrow> s\<lparr>ut_resetting := None\<rparr>
      | Toggle_Status u \<Rightarrow> toggle_status u s
      | Confirm \<Rightarrow> confirm_deactivate s
      | Cancel \<Rightarrow> s\<lparr>ut_pending := None\<rparr>)"

section \<open>What the table keeps\<close>

definition table_ok :: "bool \<Rightarrow> users_table \<Rightarrow> bool" where
  "table_ok w s \<longleftrightarrow>
     ut_can_write s = w \<and> 0 < ut_page_size s \<and> \<not> (ut_editing s \<noteq> None \<and> ut_resetting s \<noteq> None) \<and>
     (w \<or> ut_requests s = [] \<and> ut_pending s = None) \<and> (case ut_pending s of None \<Rightarrow> True | Some u \<Rightarrow> us_is_active u)"

lemmas table_defs =
  table_step_def change_users_def handle_sort_def change_page_size_def press_edit_def press_reset_def
  toggle_status_def confirm_deactivate_def request_status_def Let_def

lemma table_ok_step: "table_ok w s \<Longrightarrow> table_ok w (table_step e s)"
  by (cases e) (auto simp: table_ok_def table_defs page_sizes_def split: option.split)

interpretation users_screen: event_system "\<lambda>s. \<exists>us. s = users_table_init w us" table_step "table_ok w" for w
  by unfold_locales (auto simp: table_ok_step, simp add: table_ok_def users_table_init_def default_page_size_def)

lemma sorted_users_perm [simp]: "mset (sorted_users s) = mset (ut_users s)"
  by (simp add: sorted_users_def sort_items_def split: option.split)

lemma sorted_users_length [simp]: "length (sorted_users s) = length (ut_users s)"
  by (metis size_mset sorted_users_perm)

text \<open>
  C27: over every sequence of clicks and renders, at most one of the edit row and the password row is
  open; without the permission no status change is requested; the page shown is one of the table, and is
  empty only when there is no user; and the pages together show every user once.
\<close>

theorem users_table_consistent:
  "let s = fold table_step es (users_table_init w us) in
   (ut_editing s = None \<or> ut_resetting s = None) \<and> (w \<or> ut_requests s = []) \<and>
   table_page s \<in> {1 .. int (total_pages (length (ut_users s)) (ut_page_size s))} \<and>
   (paged_users s = []) = (ut_users s = []) \<and>
   mset (concat (map (\<lambda>p. paginate (int p) (ut_page_size s) (sorted_users s))
     [1..<Suc (total_pages (length (ut_users s)) (ut_page_size s))])) = mset (ut_users s)"
proof -
  define s where "s = fold table_step es (users_table_init w us)"
  have ok: "table_ok w s"
    unfolding s_def by (rule users_screen.inv_reachable) blast
  then have size: "0 < ut_page_size s" by (simp add: table_ok_def)
  have "(sorted_users s = []) = (ut_users s = [])"
    by (metis length_0_conv sorted_users_length)
  then have "(paged_users s = []) = (ut_users s = [])"
    using shown_page_nonempty [OF size, of "sorted_users s" "ut_page s"]
    by (auto simp: paged_users_def table_page_def paginate_def js_slice_def)
  with ok size pages_partition [OF size, of "sorted_users s"] show ?thesis
    by (auto simp: Let_def table_ok_def table_page_def safe_page_bounds simp flip: s_def)
qed

text \<open>
  A user is deactivated only by a confirmation, and the one deactivated is the one the confirmation
  named: of all events only that one adds a request to switch a user off.
\<close>

theorem deactivation_is_confirmed:
  assumes "ut_requests (table_step e s) = ut_requests s @ [(i, False)]"
  shows "e = Confirm \<and> ut_can_write s \<and> (\<exists>u. ut_pending s = Some u \<and> us_id u = i)"
  using assms by (cases e) (auto simp: table_defs split: if_splits option.splits)

theorem deactivation_is_confirmed_witness:
  "\<exists>u. ut_pending ((users_table_init True proto_users)\<lparr>ut_pending := Some (proto_users ! 0)\<rparr>) = Some u \<and>
       us_id u = us_id (proto_users ! 0)"
  using deactivation_is_confirmed [of Confirm "(users_table_init True proto_users)\<lparr>ut_pending := Some (proto_users ! 0)\<rparr>"
      "us_id (proto_users ! 0)"]
  by (simp add: table_step_def confirm_deactivate_def request_status_def users_table_init_def)

section \<open>Sorting by a text\<close>

lemma text_sorted:
  assumes "\<And>u. is_text (v u)"
  shows "sorted_wrt (\<lambda>a b. \<not> (if up then value_less (v b) (v a) else value_less (v a) (v b))) (sort_by (sort_compare up v) xs)"
proof -
  have "text_column.in_order up v = (\<lambda>a b. \<not> (if up then value_less (v b) (v a) else value_less (v a) (v b)))"
    by (intro ext) (simp add: text_column.in_order_def)
  then show ?thesis
    using text_column.sorted_sort_by [OF sort_compare_compares(1), of v xs up] assms by (simp add: list_all_iff)
qed

lemma text_stable:
  assumes "\<And>u. is_text (v u)"
  shows "filter (\<lambda>u. v u = Text_Value n) (sort_by (sort_compare up v) xs) = filter (\<lambda>u. v u = Text_Value n) xs"
proof -
  have "text_column.level (Text_Value n) (v u) = (v u = Text_Value n)" for u
    using assms [of u] str_less_linear
    by (cases "v u") (auto simp: text_column.level_def is_text_def)
  then show ?thesis
    using text_column.sort_by_stable [OF sort_compare_compares(1), of v xs "Text_Value n" up] assms
    by (simp add: list_all_iff is_text_def)
qed

text \<open>
  C28: a sort by name shows the same users, ordered by the displayed name in the chosen direction, and
  users of one name in their former order.
\<close>

theorem name_column_sorted:
  "let name = user_column ''full_name''; ys = sort_items (Some dir) name us in
   mset ys = mset us \<and>
   sorted_wrt (\<lambda>a b. \<not> (if dir = Ascending then value_less (name b) (name a) else value_less (name a) (name b))) ys \<and>
   filter (\<lambda>u. user_display_name u = n) ys = filter (\<lambda>u. user_display_name u = n) us"
proof -
  have t: "is_text (user_column ''full_name'' u)" for u
    by (simp add: user_column_def is_text_def)
  have "user_display_name u = n \<longleftrightarrow> user_column ''full_name'' u = Text_Value n" for u
    by (simp add: user_column_def)
  then show ?thesis
    using text_sorted [of "user_column ''full_name''" "dir = Ascending" us, OF t] text_stable [of "user_column ''full_name''" n "dir = Ascending" us, OF t]
    by (simp add: Let_def sort_items_def)
qed

end
