(* ===== verification/Audit_Data.thy ===== *)
theory Audit_Data
  imports Js_Date Query_Params Tables Resource_Hooks Budget_Data
begin

text \<open>
  Audit logs: the records and requests of \<open>lib/api/audit.ts\<close>, the prototype rows with their
  filters, pages and exports of \<open>hooks/admin/auditPrototype.ts\<close>, and the hook
  \<open>useAuditLogs\<close> of \<open>hooks/admin/insights.ts\<close>, which drops the answers of earlier loads.
\<close>

section \<open>Records\<close>

record audit_log =
  al_action :: string
  al_actor_id :: "string option"
  al_actor_type :: string
  al_created_at :: string
  al_details :: "(string \<times> jsval) list"
  al_id :: string
  al_ip_address :: "string option"
  al_request_id :: "string option"
  al_resource_id :: "string option"
  al_resource_type :: "string option"
  al_status :: string
  al_tenant_id :: string
  al_user_agent :: "string option"

record audit_logs =
  all_items :: "audit_log list"
  all_limit :: int
  all_offset :: int
  all_total :: nat

record audit_filters =
  af_action :: "string option"
  af_actor_id :: "string option"
  af_resource_type :: "string option"
  af_status :: "string option"
  af_request_id :: "string option"
  af_created_from :: "string option"
  af_created_to :: "string option"
  af_limit :: "int option"
  af_offset :: "int option"

definition no_audit_filters :: audit_filters where
  "no_audit_filters =
     \<lparr>af_action = None, af_actor_id = None, af_resource_type = None, af_status = None, af_request_id = None,
      af_created_from = None, af_created_to = None, af_limit = None, af_offset = None\<rparr>"

definition audit_log_value :: "audit_log \<Rightarrow> (string \<times> jsval) list" where
  \<comment> \<open>a row as the object \<open>auditEvent\<close> builds\<close>
  "audit_log_value r =
     [(''action'', JStr (al_action r)), (''actor_id'', opt_str (al_actor_id r)),
      (''actor_type'', JStr (al_actor_type r)), (''created_at'', JStr (al_created_at r)),
      (''details'', JObj (al_details r)), (''id'', JStr (al_id r)), (''ip_address'', opt_str (al_ip_address r)),
      (''request_id'', opt_str (al_request_id r)), (''resource_id'', opt_str (al_resource_id r)),
      (''resource_type'', opt_str (al_resource_type r)), (''status'', JStr (al_status r)),
      (''tenant_id'', JStr (al_tenant_id r)), (''user_agent'', opt_str (al_user_agent r))]"

section \<open>Requests\<close>

definition audit_filter_fields :: "audit_filters \<Rightarrow> (string \<times> string option) list" where
  "audit_filter_fields f =
     [(''action'', af_action f), (''actor_id'', af_actor_id f), (''resource_type'', af_resource_type f),
      (''status'', af_status f), (''request_id'', af_request_id f), (''created_from'', af_created_from f),
      (''created_to'', af_created_to f)]"

definition audit_params :: "audit_filters \<Rightarrow> query" where
  "audit_params f =
     fold (\<lambda>(k, v). put_trimmed k v) (audit_filter_fields f)
       [(''limit'', int_str (coalesce (af_limit f) 50)), (''offset'', int_str (coalesce (af_offset f) 0))]"

definition audit_path :: "audit_filters \<Rightarrow> string" where
  "audit_path f = ''/api/v1/audit/logs?'' @ query_string (audit_params f)"

definition audit_export_params :: "audit_filters \<Rightarrow> query" where
  "audit_export_params f =
     filter (\<lambda>(k, v). k \<noteq> ''offset'') (audit_params (f\<lparr>af_limit := Some (coalesce (af_limit f) 5000)\<rparr>))"

definition audit_csv_path :: "audit_filters \<Rightarrow> string" where
  "audit_csv_path f = ''/api/v1/audit/logs/export?'' @ query_string (audit_export_params f)"

definition audit_json_path :: "audit_filters \<Rightarrow> string" where
  "audit_json_path f =
     ''/api/v1/audit/logs/export?'' @ query_string (obj_put ''format'' ''json'' (audit_export_params f))"

lemma audit_params_written:
  "audit_params f =
     [(''limit'', int_str (coalesce (af_limit f) 50)), (''offset'', int_str (coalesce (af_offset f) 0))] @
     written_filters (audit_filter_fields f)"
  unfolding audit_params_def by (rule put_all_written) (simp add: audit_filter_fields_def)

lemma written_filter_keys: "set (map fst (written_filters fs)) \<subseteq> set (map fst fs)"
  by (force simp: written_filters_def)

lemma audit_export_written:
  "audit_export_params f = (''limit'', int_str (coalesce (af_limit f) 5000)) # written_filters (audit_filter_fields f)"
proof -
  have "filter (\<lambda>(k, v). k \<noteq> ''offset'') (written_filters (audit_filter_fields f)) =
        written_filters (audit_filter_fields f)"
    using written_filter_keys [of "audit_filter_fields f"]
    by (intro filter_True) (auto simp: audit_filter_fields_def)
  then show ?thesis
    by (simp add: audit_export_params_def audit_params_written audit_filter_fields_def)
qed

section \<open>Prototype rows\<close>

definition audit_tenant :: string where "audit_tenant = ''00000000-0000-4000-8000-000000000001''"
definition audit_admin :: string where "audit_admin = ''00000000-0000-4000-8000-000000000201''"
definition audit_operator :: string where "audit_operator = ''00000000-0000-4000-8000-000000000202''"
definition audit_agent :: string where "audit_agent = ''00000000-0000-4000-8000-000000000701''"
definition audit_channel :: string where "audit_channel = ''00000000-0000-4000-8000-000000000801''"
definition audit_department :: string where "audit_department = ''00000000-0000-4000-8000-000000000301''"

definition audit_event ::
  "string \<Rightarrow> string option \<Rightarrow> string \<Rightarrow> string \<Rightarrow> (string \<times> jsval) list \<Rightarrow>
   string \<Rightarrow> string \<Rightarrow> string \<Rightarrow> string \<Rightarrow> string \<Rightarrow> audit_log" where
  "audit_event act actor atype created dets i request res_id res_type st =
     \<lparr>al_action = act, al_actor_id = actor, al_actor_type = atype, al_created_at = created, al_details = dets,
      al_id = i, al_ip_address = Some (if atype = ''system'' then ''127.0.0.1'' else ''10.0.12.24''),
      al_request_id = Some request, al_resource_id = Some res_id, al_resource_type = Some res_type,
      al_status = st, al_tenant_id = audit_tenant,
      al_user_agent = Some (if atype = ''system'' then ''AgentHive/System'' else ''AgentHive Admin Console'')\<rparr>"

definition prototype_audit_rows :: "audit_log list" where
  "prototype_audit_rows =
     [audit_event ''chat.message.send'' (Some audit_operator) ''user'' ''2026-01-01T09:12:12.000Z''
       [(''model_key'', JStr ''deepseek-v4-flash''), (''provider_key'', JStr ''deepseek''), (''runtime'',
         JObj [(''deployment_id'', JStr ''00000000-0000-4000-8000-000000100005''), (''execution'',
         JStr ''agent_runtime''), (''fallback_attempt_count'', JNum (Fin 0)), (''llm_gateway_called'', JBool True),
         (''route_attempts'', JArr [JObj [(''attempt'', JNum (Fin 1)), (''deployment_id'',
         JStr ''00000000-0000-4000-8000-000000100005''), (''model_key'', JStr ''deepseek-v4-flash''),
         (''provider_key'', JStr ''deepseek''), (''routing_key'', JStr ''cost-chat''), (''status'',
         JStr ''success'')]]), (''routing_key'', JStr ''cost-chat''), (''selected_route_reason'',
         JStr ''priority_route'')]), (''runtime_summary'', JObj [(''adapter_mode'', JStr ''live_gateway''),
         (''execution'', JStr ''agent_runtime''), (''fallback_attempt_count'', JNum (Fin 0)), (''gateway_called'',
         JBool True), (''model_key'', JStr ''deepseek-v4-flash''), (''provider_key'', JStr ''deepseek''),
         (''selected_route_reason'', JStr ''priority_route''), (''status'', JStr ''real_model_call'')]),
         (''total_tokens'', JNum (Fin 20))]
       ''00000000-0000-4000-8000-000000170010'' ''proto-run-010'' audit_agent ''conversation'' ''success'',
      audit_event ''llm.chat.settle'' (Some audit_operator) ''user'' ''2026-01-01T09:11:31.000Z''
       [(''budget_event'', JStr ''settle''), (''cost_usd'', JStr ''0.0064''), (''model_key'', JStr ''qwen-plus''),
         (''provider_key'', JStr ''qwen''), (''routing_key'', JStr ''cn-primary-chat''), (''tokens'',
         JNum (Fin 1706))]
       ''00000000-0000-4000-8000-000000170001'' ''proto-run-001'' audit_agent ''agent'' ''success'',
      audit_event ''budget.guard.deny'' (Some audit_operator) ''user'' ''2026-01-01T09:09:20.000Z''
       [(''budget_policy'', JStr ''Customer Service Agent route guard''), (''denied_route'', JStr ''premium-chat''),
         (''fallback_route'', JStr ''cost-chat''), (''reason'', JStr ''agent hard cap above threshold'')]
       ''00000000-0000-4000-8000-000000170002'' ''proto-run-002'' audit_agent ''budget_policy'' ''denied'',
      audit_event ''llm.route.fallback'' None ''system'' ''2026-01-01T09:09:29.000Z''
       [(''fallback_from'', JStr ''gpt-4o''), (''fallback_to'', JStr ''deepseek-v4-flash''), (''reason'',
         JStr ''budget guard selected cost route''), (''selected_route'', JStr ''cost-chat'')]
       ''00000000-0000-4000-8000-000000170003'' ''proto-run-003'' ''00000000-0000-4000-8000-000000100005''
       ''model_deployment'' ''success'' ,
      audit_event ''knowledge.retrieve'' (Some audit_operator) ''user'' ''2026-01-01T09:11:28.000Z''
       [(''engine'', JStr ''pgvector''), (''knowledge_base'', JStr ''After-sales Policy''), (''source_count'',
         JNum (Fin 2)), (''top_k'', JNum (Fin 3))]
       ''00000000-0000-4000-8000-000000170004'' ''proto-run-001'' ''kb-after-sales'' ''knowledge_base'' ''success'',
      audit_event ''license.module.check'' None ''system'' ''2026-01-01T09:11:27.000Z''
       [(''allowed'', JBool True), (''module'', JStr ''agent.customer_service''), (''tenant_license'',
         JStr ''enterprise'')]
       ''00000000-0000-4000-8000-000000170005'' ''proto-run-001'' ''agent.customer_service'' ''license_module''
       ''success'' ,
      audit_event ''rbac.permission.check'' (Some audit_admin) ''user'' ''2026-01-01T09:07:10.000Z''
       [(''decision'', JStr ''allow''), (''permission'', JStr ''models:write''), (''role'',
         JStr ''Tenant Administrator'')]
       ''00000000-0000-4000-8000-000000170006'' ''req-model-policy-save'' ''00000000-0000-4000-8000-000000110002''
       ''model_policy'' ''success'' ,
      audit_event ''model.policy.update'' (Some audit_admin) ''user'' ''2026-01-01T09:07:12.000Z''
       [(''default_route'', JStr ''cn-primary-chat''), (''scope'', JStr ''department''), (''strategy'',
         JStr ''explicit deny > user > agent > channel > department > tenant'')]
       ''00000000-0000-4000-8000-000000170007'' ''req-model-policy-save'' audit_department ''department'' ''success'',
      audit_event ''channel.message.ingest'' None ''system'' ''2026-01-01T09:11:25.000Z''
       [(''channel_key'', JStr ''web-support-widget''), (''normalized_message'', JBool True),
         (''signature_checked'', JBool True)]
       ''00000000-0000-4000-8000-000000170008'' ''proto-run-001'' audit_channel ''channel'' ''success'',
      audit_event ''diagnostics.export'' (Some audit_admin) ''user'' ''2026-01-01T08:55:00.000Z''
       [(''redacted'', JBool True), (''support_bundle'', JStr ''agenthive-support-bundle''), (''target'',
         JStr ''private deployment'')]
       ''00000000-0000-4000-8000-000000170009'' ''req-support-bundle'' audit_tenant ''tenant'' ''success'']"

section \<open>Filters and pages\<close>

definition later_than :: "(int \<Rightarrow> int) \<Rightarrow> string \<Rightarrow> string \<Rightarrow> bool" where \<comment> \<open>\<open>new Date(a) > new Date(b)\<close>\<close>
  "later_than zone a b \<longleftrightarrow> num_less (date_ms_in zone b) (date_ms_in zone a)"

definition given_differs :: "string option \<Rightarrow> string option \<Rightarrow> bool" where \<comment> \<open>\<open>filter && value !== filter\<close>\<close>
  "given_differs f v \<longleftrightarrow> (case f of None \<Rightarrow> False | Some s \<Rightarrow> s \<noteq> [] \<and> v \<noteq> Some s)"

definition audit_kept :: "(int \<Rightarrow> int) \<Rightarrow> audit_filters \<Rightarrow> audit_log \<Rightarrow> bool" where
  "audit_kept zone f r =
     (if js_truthy_str (af_action f) \<and> \<not> str_includes (coalesce (af_action f) []) (al_action r) then False
      else if given_differs (af_actor_id f) (al_actor_id r) then False
      else if given_differs (af_resource_type f) (al_resource_type r) then False
      else if given_differs (af_status f) (Some (al_status r)) then False
      else if given_differs (af_request_id f) (al_request_id r) then False
      else if js_truthy_str (af_created_from f) \<and> later_than zone (coalesce (af_created_from f) []) (al_created_at r) then False
      else if js_truthy_str (af_created_to f) \<and> later_than zone (al_created_at r) (coalesce (af_created_to f) []) then False
      else True)"

definition filter_audit :: "(int \<Rightarrow> int) \<Rightarrow> audit_filters \<Rightarrow> audit_log list \<Rightarrow> audit_log list" where
  "filter_audit zone f rows = filter (audit_kept zone f) rows"

definition prototype_audit_logs :: "(int \<Rightarrow> int) \<Rightarrow> audit_filters \<Rightarrow> audit_logs" where
  "prototype_audit_logs zone f =
     (let rows = filter_audit zone f prototype_audit_rows;
          off = coalesce (af_offset f) 0;
          lmt = coalesce (af_limit f) 50
      in \<lparr>all_items = js_slice off (off + lmt) rows, all_limit = lmt, all_offset = off, all_total = length rows\<rparr>)"

section \<open>Exports\<close>

definition audit_csv_headers :: "string list" where
  "audit_csv_headers =
     [''id'', ''created_at'', ''actor_type'', ''actor_id'', ''action'', ''resource_type'', ''resource_id'', ''status'',
      ''request_id'', ''details'']"

definition audit_cell :: "audit_log \<Rightarrow> string \<Rightarrow> string" where
  "audit_cell r k =
     (let v = (if k = ''details'' then JStr (stringify (JObj (al_details r)))
               else get_prop k (JObj (audit_log_value r)))
      in stringify (js_coalesce v (JStr [])))"

definition audit_csv_row :: "audit_log \<Rightarrow> string" where
  "audit_csv_row r = join '','' (map (audit_cell r) audit_csv_headers)"

definition prototype_audit_export :: "(int \<Rightarrow> int) \<Rightarrow> audit_filters \<Rightarrow> export_format \<Rightarrow> string" where
  "prototype_audit_export zone f fmt =
     (let rows = filter_audit zone f prototype_audit_rows in
      case fmt of
        Json \<Rightarrow> stringify_pretty (JArr (map (\<lambda>r. JObj (audit_log_value r)) rows))
      | Csv \<Rightarrow> join [nl] (join '','' audit_csv_headers # map audit_csv_row rows))"

section \<open>The hook\<close>

definition load_audit :: "(int \<Rightarrow> int) \<Rightarrow> bool \<Rightarrow> audit_filters \<Rightarrow> (audit_filters, audit_logs) resource \<Rightarrow> (audit_filters, audit_logs) resource" where
  "load_audit zone proto f s =
     (if proto then show_now (loaded (prototype_audit_logs zone f)) s else ask f s)"

definition audit_answered ::
  "(string \<Rightarrow> string) \<Rightarrow> nat \<Rightarrow> (nat \<Rightarrow> exn + audit_logs) \<Rightarrow> (audit_filters, audit_logs) resource \<Rightarrow>
   (audit_filters, audit_logs) resource" where
  "audit_answered t n attempts s =
     (if in_waiting n s then latest_answer n (settle t (retried attempts)) s else s)"

definition change_audit_filters ::
  "(int \<Rightarrow> int) \<Rightarrow> bool \<Rightarrow> audit_filters \<Rightarrow> (audit_filters, audit_logs) resource \<Rightarrow> (audit_filters, audit_logs) resource" where
  \<comment> \<open>the clean-up of the effect and its next run\<close>
  "change_audit_filters zone proto f s = load_audit zone proto f (leave s)"

end
