(* ===== verification/Audit_Page.thy ===== *)
theory Audit_Page
  imports Audit_Data Page_Env
begin

text \<open>
  The audit page: \<open>pages/audit/auditUtils.ts\<close> (filters, summary, the run-time part of an event),
  \<open>AuditFiltersPanel.tsx\<close>, \<open>AuditLogTable.tsx\<close> and the state of \<open>pages/AuditPage.tsx\<close> with its
  handlers.  The server is a function of the number of the load and of what was asked; an answer
  event delivers its answer to the load it names.
\<close>

section \<open>Filters\<close>

record audit_filter_state =
  fs_action :: string
  fs_actor_id :: string
  fs_created_from :: string
  fs_created_to :: string
  fs_request_id :: string
  fs_resource_type :: string
  fs_status :: string

definition empty_audit_filters :: audit_filter_state where
  "empty_audit_filters =
     \<lparr>fs_action = [], fs_actor_id = [], fs_created_from = [], fs_created_to = [], fs_request_id = [],
      fs_resource_type = [], fs_status = []\<rparr>"

definition to_iso_date_time :: "(int \<Rightarrow> int) \<Rightarrow> string \<Rightarrow> string option" where
  "to_iso_date_time zone s =
     (if trim s = [] then None
      else case date_ms_in zone s of Fin ms \<Rightarrow> Some (iso_string \<lfloor>ms\<rfloor>) | _ \<Rightarrow> None)"

definition trimmed_or_none :: "string \<Rightarrow> string option" where \<comment> \<open>\<open>s.trim() || undefined\<close>\<close>
  "trimmed_or_none s = (if trim s = [] then None else Some (trim s))"

definition to_audit_query_filters :: "(int \<Rightarrow> int) \<Rightarrow> audit_filter_state \<Rightarrow> int option \<Rightarrow> int option \<Rightarrow> audit_filters" where
  "to_audit_query_filters zone f lmt off =
     \<lparr>af_action = trimmed_or_none (fs_action f), af_actor_id = trimmed_or_none (fs_actor_id f),
      af_resource_type = trimmed_or_none (fs_resource_type f), af_status = trimmed_or_none (fs_status f),
      af_request_id = trimmed_or_none (fs_request_id f),
      af_created_from = to_iso_date_time zone (fs_created_from f),
      af_created_to = to_iso_date_time zone (fs_created_to f),
      af_limit = Some (coalesce lmt 50), af_offset = Some (coalesce off 0)\<rparr>"

definition audit_status_label :: "string \<Rightarrow> (string \<Rightarrow> string) \<Rightarrow> string" where
  "audit_status_label st t =
     (if st = ''success'' then t ''auditStatusSuccess''
      else if st = ''failed'' then t ''auditStatusFailed''
      else if st = ''denied'' then t ''auditStatusDenied''
      else if st = ''error'' then t ''auditStatusError''
      else text_or st ''-'')"

definition active_filter :: "string \<Rightarrow> string \<Rightarrow> string list" where
  "active_filter label v = (if trim v = [] then [] else [label @ '': '' @ trim v])"

definition active_audit_filters :: "audit_filter_state \<Rightarrow> (string \<Rightarrow> string) \<Rightarrow> string list" where
  "active_audit_filters f t =
     active_filter (t ''auditAction'') (fs_action f) @
     (if trim (fs_status f) = [] then []
      else [t ''auditStatusFilter'' @ '': '' @ audit_status_label (trim (fs_status f)) t]) @
     active_filter (t ''auditActorId'') (fs_actor_id f) @
     active_filter (t ''auditResourceType'') (fs_resource_type f) @
     active_filter (t ''auditRequestId'') (fs_request_id f) @
     active_filter (t ''auditCreatedFrom'') (fs_created_from f) @
     active_filter (t ''auditCreatedTo'') (fs_created_to f)"

definition filter_panel_summary :: "audit_filter_state \<Rightarrow> (string \<Rightarrow> string) \<Rightarrow> string" where
  "filter_panel_summary f t =
     (let active = active_audit_filters f t in
      if active \<noteq> [] then join '' / '' (take 3 active) else t ''auditFilterNoActive'')"

section \<open>What is shown of an event\<close>

record audit_summary =
  as_actor_count :: nat
  as_failures :: nat
  as_system_events :: nat

definition summarise_audit :: "audit_log list \<Rightarrow> audit_summary" where
  "summarise_audit rows =
     \<lparr>as_actor_count = length (uniq (filter (\<lambda>a. a \<noteq> []) (map (\<lambda>r. coalesce (al_actor_id r) (al_actor_type r)) rows))),
      as_failures = length (filter (\<lambda>r. al_status r \<noteq> ''success'') rows),
      as_system_events = length (filter (\<lambda>r. al_actor_type r = ''system'') rows)\<rparr>"

definition compact_identifier :: "string option \<Rightarrow> string" where
  "compact_identifier v =
     (let s = coalesce v [] in
      if length s \<le> 18 then s else take 8 s @ ''...'' @ drop (length s - 4) s)"

definition compact_resource :: "audit_log \<Rightarrow> string \<Rightarrow> string" where
  "compact_resource r system_label =
     coalesce (al_resource_type r) system_label @
     (if js_truthy_str (al_resource_id r) then CHR '':'' # compact_identifier (al_resource_id r) else [])"

definition string_value :: "jsval \<Rightarrow> string" where
  "string_value v = (if is_nullish v \<or> v = JStr [] then ''-'' else js_string v)"

definition as_record :: "jsval \<Rightarrow> jsval option" where
  "as_record v = (case v of JObj _ \<Rightarrow> Some v | _ \<Rightarrow> None)"

definition as_record_array :: "jsval \<Rightarrow> jsval list" where
  "as_record_array v = (case v of JArr vs \<Rightarrow> filter (\<lambda>x. as_record x \<noteq> None) vs | _ \<Rightarrow> [])"

record runtime_attempt =
  rta_attempt :: string
  rta_deployment :: string
  rta_error :: string
  rta_model :: string
  rta_provider :: string
  rta_routing :: string
  rta_status :: string

record runtime_summary =
  rts_adapter_mode :: string
  rts_deployment :: string
  rts_execution :: string
  rts_fallbacks :: string
  rts_gateway_called :: bool
  rts_model :: string
  rts_provider :: string
  rts_attempts :: "runtime_attempt list"
  rts_routing :: string
  rts_reason :: string
  rts_status :: string

definition attempt_preview :: "jsval \<Rightarrow> runtime_attempt" where
  "attempt_preview v =
     \<lparr>rta_attempt = string_value (get_prop ''attempt'' v), rta_deployment = string_value (get_prop ''deployment_id'' v),
      rta_error = string_value (get_prop ''error_code'' v), rta_model = string_value (get_prop ''model_key'' v),
      rta_provider = string_value (get_prop ''provider_key'' v), rta_routing = string_value (get_prop ''routing_key'' v),
      rta_status = string_value (get_prop ''status'' v)\<rparr>"

definition opt_prop :: "string \<Rightarrow> jsval option \<Rightarrow> jsval" where \<comment> \<open>\<open>x?.k\<close>\<close>
  "opt_prop k x = (case x of None \<Rightarrow> JUndef | Some v \<Rightarrow> get_prop k v)"

definition attempt_text :: "(runtime_attempt \<Rightarrow> string) \<Rightarrow> runtime_attempt option \<Rightarrow> jsval" where
  "attempt_text field x = (case x of None \<Rightarrow> JUndef | Some a \<Rightarrow> JStr (field a))"

definition audit_runtime_summary :: "(string \<times> jsval) list \<Rightarrow> runtime_summary option" where
  "audit_runtime_summary details =
     (let d = JObj details;
          run = as_record (get_prop ''runtime'' d);
          sm = as_record (get_prop ''runtime_summary'' d)
      in if run = None \<and> sm = None then None
         else
           (let attempts = map attempt_preview (as_record_array (opt_prop ''route_attempts'' run));
                chosen = or_else (List.find (\<lambda>a. rta_status a = ''success'') attempts) (first_of attempts)
            in Some
              \<lparr>rts_adapter_mode = string_value (opt_prop ''adapter_mode'' sm),
               rts_deployment =
                 string_value (js_coalesce (opt_prop ''deployment_id'' run) (attempt_text rta_deployment chosen)),
               rts_execution = string_value (js_coalesce (opt_prop ''execution'' sm) (opt_prop ''execution'' run)),
               rts_fallbacks =
                 string_value (js_coalesce (opt_prop ''fallback_attempt_count'' sm) (opt_prop ''fallback_attempt_count'' run)),
               rts_gateway_called =
                 (opt_prop ''gateway_called'' sm = JBool True \<or> opt_prop ''llm_gateway_called'' run = JBool True),
               rts_model =
                 string_value (js_coalesce (js_coalesce (opt_prop ''model_key'' sm) (get_prop ''model_key'' d))
                   (attempt_text rta_model chosen)),
               rts_provider =
                 string_value (js_coalesce (js_coalesce (opt_prop ''provider_key'' sm) (get_prop ''provider_key'' d))
                   (attempt_text rta_provider chosen)),
               rts_attempts = attempts,
               rts_routing = string_value (js_coalesce (opt_prop ''routing_key'' run) (attempt_text rta_routing chosen)),
               rts_reason =
                 string_value (js_coalesce (opt_prop ''selected_route_reason'' sm) (opt_prop ''selected_route_reason'' run)),
               rts_status = string_value (opt_prop ''status'' sm)\<rparr>))"

definition dotted :: "string list \<Rightarrow> string" where
  "dotted parts = join ('' '' @ utf8 [0xB7] @ '' '') parts"

definition compact_detail_value :: "jsval \<Rightarrow> string" where
  "compact_detail_value v =
     (case v of
        JArr vs \<Rightarrow> ''['' @ nat_str (length vs) @ '']''
      | JObj _ \<Rightarrow> ''{...}''
      | _ \<Rightarrow> js_string v)"

definition compact_details :: "(string \<times> jsval) list \<Rightarrow> string \<Rightarrow> string" where
  "compact_details details empty_label =
     (case audit_runtime_summary details of
        Some r \<Rightarrow>
          (let m = string_value (js_coalesce (get_prop ''model_key'' (JObj details)) (JStr (rts_model r)));
               p = string_value (js_coalesce (get_prop ''provider_key'' (JObj details)) (JStr (rts_provider r)));
               pair = (if m \<noteq> ''-'' \<or> p \<noteq> ''-'' then p @ ''/'' @ m else ''-'')
           in dotted
                ((if pair \<noteq> ''-'' then [''model: '' @ pair] else []) @
                 (if rts_routing r \<noteq> ''-'' then [''route: '' @ rts_routing r] else []) @
                 (if rts_deployment r \<noteq> ''-'' then [''deployment: '' @ compact_identifier (Some (rts_deployment r))] else [])))
      | None \<Rightarrow>
          if details = [] then empty_label
          else dotted (map (\<lambda>(k, v). k @ '': '' @ compact_detail_value v) (take 2 details)))"

section \<open>State of the page\<close>

record audit_env =
  ad_env :: page_env
  ad_zone :: "int \<Rightarrow> int"
  ad_server :: "nat \<Rightarrow> audit_filters \<Rightarrow> nat \<Rightarrow> exn + audit_logs"

record audit_page =
  au_filters :: audit_filter_state
  au_untouched :: bool \<comment> \<open>the filters are the constant \<open>emptyAuditFilters\<close> itself\<close>
  au_page :: nat
  au_selected :: "string option"
  au_logs :: "(audit_filters, audit_logs) resource"
  au_exporting :: "(export_format \<times> audit_filters) option"
  au_export_error :: "string option"
  au_files :: "(string \<times> string \<times> string) list" \<comment> \<open>content, file name, MIME type\<close>

definition audit_page_size :: nat where "audit_page_size = 50"

definition audit_page_init :: audit_page where
  "audit_page_init =
     \<lparr>au_filters = empty_audit_filters, au_untouched = True, au_page = 0, au_selected = None,
      au_logs = resource_init True, au_exporting = None, au_export_error = None, au_files = []\<rparr>"

definition audit_query :: "audit_env \<Rightarrow> audit_page \<Rightarrow> audit_filters" where \<comment> \<open>\<open>queryFilters\<close>\<close>
  "audit_query env s =
     to_audit_query_filters (ad_zone env) (au_filters s) (Some (int audit_page_size))
       (Some (int (au_page s * audit_page_size)))"

definition audit_export_query :: "audit_env \<Rightarrow> audit_page \<Rightarrow> audit_filters" where \<comment> \<open>\<open>exportFilters\<close>\<close>
  "audit_export_query env s = to_audit_query_filters (ad_zone env) (au_filters s) None None"

definition audit_rows :: "audit_page \<Rightarrow> audit_log list" where
  "audit_rows s = coalesce (map_option all_items (as_data (shown (au_logs s)))) []"

definition audit_total :: "audit_page \<Rightarrow> nat" where
  "audit_total s = coalesce (map_option all_total (as_data (shown (au_logs s)))) 0"

definition selected_event :: "audit_page \<Rightarrow> audit_log option" where
  "selected_event s = List.find (\<lambda>r. Some (al_id r) = au_selected s) (audit_rows s)"

definition can_export_audit :: "audit_env \<Rightarrow> bool" where
  "can_export_audit env = has_permission ''audit:export'' (ad_env env)"

definition has_previous_page :: "audit_page \<Rightarrow> bool" where
  "has_previous_page s \<longleftrightarrow> 0 < au_page s"

definition has_next_page :: "audit_page \<Rightarrow> bool" where
  "has_next_page s \<longleftrightarrow> (au_page s + 1) * audit_page_size < audit_total s"

section \<open>Handlers\<close>

definition requery :: "audit_env \<Rightarrow> audit_page \<Rightarrow> audit_page" where
  \<comment> \<open>the effect of \<open>useAuditLogs\<close> when \<open>queryFilters\<close> is another object\<close>
  "requery env s =
     s\<lparr>au_logs := change_audit_filters (ad_zone env) (in_prototype (ad_env env)) (audit_query env s) (au_logs s)\<rparr>"

definition refetch_audit :: "audit_env \<Rightarrow> audit_page \<Rightarrow> audit_page" where
  "refetch_audit env s =
     s\<lparr>au_logs := load_audit (ad_zone env) (in_prototype (ad_env env)) (audit_query env s) (au_logs s)\<rparr>"

definition change_filters :: "audit_env \<Rightarrow> audit_filter_state \<Rightarrow> audit_page \<Rightarrow> audit_page" where
  "change_filters env f s =
     requery env (s\<lparr>au_filters := f, au_untouched := False, au_page := 0, au_selected := None\<rparr>)"

definition clear_filters :: "audit_env \<Rightarrow> audit_page \<Rightarrow> audit_page" where
  "clear_filters env s =
     (let s' = s\<lparr>au_filters := empty_audit_filters, au_untouched := True, au_page := 0, au_selected := None\<rparr> in
      if au_untouched s \<and> au_page s = 0 then s' else requery env s')"

definition previous_page :: "audit_env \<Rightarrow> audit_page \<Rightarrow> audit_page" where
  "previous_page env s =
     (let s' = s\<lparr>au_page := au_page s - 1, au_selected := None\<rparr> in
      if au_page s' = au_page s then s' else requery env s')"

definition next_page :: "audit_env \<Rightarrow> audit_page \<Rightarrow> audit_page" where
  "next_page env s = requery env (s\<lparr>au_page := au_page s + 1, au_selected := None\<rparr>)"

definition audit_page_change :: "audit_env \<Rightarrow> int \<Rightarrow> audit_page \<Rightarrow> audit_page" where
  \<comment> \<open>\<open>handlePageChange\<close> of the table\<close>
  "audit_page_change env p s =
     (let current = int (au_page s * audit_page_size div audit_page_size) + 1 in
      if current < p \<and> has_next_page s then next_page env s
      else if p < current \<and> has_previous_page s then previous_page env s
      else s)"

definition pager_shown :: "audit_page \<Rightarrow> bool" where
  "pager_shown s \<longleftrightarrow> audit_total s \<noteq> 0"

definition pager_page :: "audit_page \<Rightarrow> int" where \<comment> \<open>\<open>currentPage\<close> of \<open>TablePagination\<close>\<close>
  "pager_page s = safe_page (audit_total s) audit_page_size (int (au_page s) + 1)"

definition pager_back :: "audit_page \<Rightarrow> bool" where
  "pager_back s \<longleftrightarrow> pager_shown s \<and> 1 < pager_page s"

definition pager_forward :: "audit_page \<Rightarrow> bool" where
  "pager_forward s \<longleftrightarrow> pager_shown s \<and> pager_page s < int (total_pages (audit_total s) audit_page_size)"

definition start_export :: "audit_env \<Rightarrow> export_format \<Rightarrow> audit_page \<Rightarrow> audit_page" where
  "start_export env fmt s =
     (if can_export_audit env \<and> au_exporting s = None
      then s\<lparr>au_exporting := Some (fmt, audit_export_query env s), au_export_error := None\<rparr> else s)"

definition finish_export :: "audit_env \<Rightarrow> string \<Rightarrow> exn + string \<Rightarrow> audit_page \<Rightarrow> audit_page" where
  \<comment> \<open>the rest of \<open>exportAuditFile\<close>, at the time \<open>now\<close>\<close>
  "finish_export env now r s =
     (case au_exporting s of
        None \<Rightarrow> s
      | Some (fmt, f) \<Rightarrow>
          (let s' = s\<lparr>au_exporting := None\<rparr> in
           case (if in_prototype (ad_env env) then Inr (prototype_audit_export (ad_zone env) f fmt) else r) of
             Inl e \<Rightarrow> s'\<lparr>au_export_error := Some (exn_message e (page_t (ad_env env) ''auditExportFailedMessage''))\<rparr>
           | Inr content \<Rightarrow>
               s'\<lparr>au_files := au_files s @
                 [(content, ''agenthive-audit-'' @ take 10 now @ ''.'' @ (case fmt of Csv \<Rightarrow> ''csv'' | Json \<Rightarrow> ''json''),
                   case fmt of Csv \<Rightarrow> ''text/csv;charset=utf-8'' | Json \<Rightarrow> ''application/json;charset=utf-8'')]\<rparr>))"

definition audit_arrives :: "audit_env \<Rightarrow> nat \<Rightarrow> audit_page \<Rightarrow> audit_page" where
  "audit_arrives env n s =
     (case map_of (waiting (au_logs s)) n of
        None \<Rightarrow> s
      | Some q \<Rightarrow> s\<lparr>au_logs := audit_answered (page_t (ad_env env)) n (ad_server env n q) (au_logs s)\<rparr>)"

datatype audit_ui_event =
    Audit_Mount
  | Audit_Arrives nat
  | Change_Filters audit_filter_state
  | Clear_Filters
  | Pager_Back
  | Pager_Forward
  | Select_Event string
  | Close_Details
  | Press_Audit_Retry
  | Press_Export export_format
  | Export_Arrives string "exn + string"

definition audit_step :: "audit_env \<Rightarrow> audit_ui_event \<Rightarrow> audit_page \<Rightarrow> audit_page" where
  "audit_step env e s =
     (case e of
        Audit_Mount \<Rightarrow> refetch_audit env s
      | Audit_Arrives n \<Rightarrow> audit_arrives env n s
      | Change_Filters f \<Rightarrow> change_filters env f s
      | Clear_Filters \<Rightarrow> clear_filters env s
      | Pager_Back \<Rightarrow> if pager_back s then audit_page_change env (pager_page s - 1) s else s
      | Pager_Forward \<Rightarrow> if pager_forward s then audit_page_change env (pager_page s + 1) s else s
      | Select_Event i \<Rightarrow> s\<lparr>au_selected := Some i\<rparr>
      | Close_Details \<Rightarrow> s\<lparr>au_selected := None\<rparr>
      | Press_Audit_Retry \<Rightarrow>
          if as_error (shown (au_logs s)) \<noteq> None \<and> \<not> as_loading (shown (au_logs s)) then refetch_audit env s else s
      | Press_Export fmt \<Rightarrow> start_export env fmt s
      | Export_Arrives now r \<Rightarrow> finish_export env now r s)"

section \<open>The page and its server\<close>

definition audit_answer :: "audit_env \<Rightarrow> audit_page \<Rightarrow> audit_logs async_state" where
  \<comment> \<open>what the data source answers to the last load, for the current filters and page\<close>
  "audit_answer env s =
     (if in_prototype (ad_env env) then loaded (prototype_audit_logs (ad_zone env) (audit_query env s))
      else settle (page_t (ad_env env)) (retried (ad_server env (latest (au_logs s)) (audit_query env s))))"

definition no_later_load :: "(audit_filters, audit_logs) resource \<Rightarrow> bool" where
  "no_later_load l \<longleftrightarrow> (\<forall>x\<in>set (waiting l). fst x \<le> latest l)"

definition audit_ok :: "audit_env \<Rightarrow> audit_page \<Rightarrow> bool" where
  "audit_ok env s \<longleftrightarrow>
     no_later_load (au_logs s) \<and> (in_prototype (ad_env env) \<longrightarrow> waiting (au_logs s) = []) \<and>
     (\<forall>q. (latest (au_logs s), q) \<in> set (waiting (au_logs s)) \<longrightarrow> q = audit_query env s) \<and>
     (\<not> as_loading (shown (au_logs s)) \<longrightarrow> shown (au_logs s) = audit_answer env s)"

lemmas audit_load_defs = load_audit_def show_now_def ask_def loading_again_def loaded_def

lemma audit_view_cong:
  "au_logs s' = au_logs s \<Longrightarrow> au_filters s' = au_filters s \<Longrightarrow> au_page s' = au_page s \<Longrightarrow>
   audit_ok env s' = audit_ok env s"
  by (simp add: audit_ok_def audit_answer_def audit_query_def)

lemma query_of_logs [simp]: "audit_query env (s\<lparr>au_logs := l\<rparr>) = audit_query env s"
  by (simp add: audit_query_def)

lemma no_later_leave [intro]: "no_later_load l \<Longrightarrow> no_later_load (leave l)"
  by (auto simp: no_later_load_def leave_def)

lemma loaded_ok:
  assumes "no_later_load l" and "in_prototype (ad_env env) \<Longrightarrow> waiting l = []"
  shows "audit_ok env (s\<lparr>au_logs := load_audit (ad_zone env) (in_prototype (ad_env env)) (audit_query env s) l\<rparr>)"
proof -
  have "(Suc (latest l), q) \<notin> set (waiting l)" for q
    using assms(1) by (force simp: no_later_load_def)
  with assms show ?thesis
    by (auto simp: audit_ok_def audit_answer_def audit_load_defs no_later_load_def)
qed

lemma leave_waiting [simp]: "waiting (leave l) = waiting l"
  by (simp add: leave_def)

lemma reload_ok:
  assumes "audit_ok env s" and "au_logs s' = au_logs s"
  shows "audit_ok env (requery env s')" "audit_ok env (refetch_audit env s')"
proof -
  from assms have "no_later_load (au_logs s')" "in_prototype (ad_env env) \<Longrightarrow> waiting (au_logs s') = []"
    by (simp_all add: audit_ok_def)
  then show "audit_ok env (requery env s')" "audit_ok env (refetch_audit env s')"
    unfolding requery_def refetch_audit_def change_audit_filters_def by (simp_all add: loaded_ok no_later_leave)
qed

lemma arrives_ok: "audit_ok env s \<Longrightarrow> audit_ok env (audit_arrives env n s)"
proof (cases "map_of (waiting (au_logs s)) n")
  case (Some q)
  assume ok: "audit_ok env s"
  from Some have "(n, q) \<in> set (waiting (au_logs s))" by (rule map_of_SomeD)
  with ok Some show ?thesis
    by (auto simp: audit_arrives_def audit_answered_def latest_answer_def drop_waiting_def audit_ok_def
        audit_answer_def no_later_load_def)
qed (simp add: audit_arrives_def)

lemma reload_frame [simp]:
  "au_filters (requery env s) = au_filters s" "au_untouched (requery env s) = au_untouched s"
  "au_filters (refetch_audit env s) = au_filters s" "au_untouched (refetch_audit env s) = au_untouched s"
  by (simp_all add: requery_def refetch_audit_def)

lemma arrives_frame [simp]:
  "au_filters (audit_arrives env n s) = au_filters s" "au_untouched (audit_arrives env n s) = au_untouched s"
  by (simp_all add: audit_arrives_def split: option.split)

lemma turn_frame [simp]:
  "au_filters (audit_page_change env p s) = au_filters s" "au_untouched (audit_page_change env p s) = au_untouched s"
  by (simp_all add: audit_page_change_def next_page_def previous_page_def Let_def)

lemma start_frame [simp]:
  "au_logs (start_export env fmt s) = au_logs s" "au_filters (start_export env fmt s) = au_filters s"
  "au_page (start_export env fmt s) = au_page s" "au_untouched (start_export env fmt s) = au_untouched s"
  by (simp_all add: start_export_def)

lemma finish_frame [simp]:
  "au_logs (finish_export env now r s) = au_logs s" "au_filters (finish_export env now r s) = au_filters s"
  "au_page (finish_export env now r s) = au_page s" "au_untouched (finish_export env now r s) = au_untouched s"
  by (simp_all add: finish_export_def Let_def split: option.split sum.split prod.split)

lemma same_view_ok:
  "audit_ok env s \<Longrightarrow> au_logs s' = au_logs s \<Longrightarrow> au_filters s' = au_filters s \<Longrightarrow> au_page s' = au_page s \<Longrightarrow> audit_ok env s'"
  using audit_view_cong [of s' s env] by blast

lemma next_ok: "audit_ok env s \<Longrightarrow> audit_ok env (next_page env s)"
  unfolding next_page_def by (rule reload_ok(1)) simp_all

lemma previous_ok: "audit_ok env s \<Longrightarrow> audit_ok env (previous_page env s)"
  unfolding previous_page_def Let_def by (cases "au_page s - 1 = au_page s") (simp_all add: reload_ok(1) same_view_ok)

lemma turn_ok: "audit_ok env s \<Longrightarrow> audit_ok env (audit_page_change env p s)"
  by (simp add: audit_page_change_def Let_def next_ok previous_ok)

definition audit_inv :: "audit_env \<Rightarrow> audit_page \<Rightarrow> bool" where
  "audit_inv env s \<longleftrightarrow> audit_ok env s \<and> (au_untouched s \<longrightarrow> au_filters s = empty_audit_filters)"

lemma clear_ok:
  assumes "audit_inv env s"
  shows "audit_ok env (clear_filters env s)"
proof -
  let ?s = "s\<lparr>au_filters := empty_audit_filters, au_untouched := True, au_page := 0, au_selected := None\<rparr>"
  from assms have ok: "audit_ok env s" by (simp add: audit_inv_def)
  have "audit_ok env ?s" if "au_untouched s" "au_page s = 0"
    using assms that by (intro same_view_ok [OF ok]) (simp_all add: audit_inv_def)
  moreover have "audit_ok env (requery env ?s)" by (rule reload_ok(1) [OF ok]) simp
  ultimately show ?thesis by (simp add: clear_filters_def Let_def)
qed

lemma untouched_step:
  "au_untouched s \<longrightarrow> au_filters s = empty_audit_filters \<Longrightarrow>
   au_untouched (audit_step env e s) \<longrightarrow> au_filters (audit_step env e s) = empty_audit_filters"
  by (cases e) (simp_all add: audit_step_def change_filters_def clear_filters_def Let_def)

lemma audit_ok_step:
  assumes "audit_inv env s"
  shows "audit_ok env (audit_step env e s)"
proof -
  from assms have ok: "audit_ok env s" by (simp add: audit_inv_def)
  show ?thesis
    using clear_ok [OF assms]
    by (cases e)
      (simp_all add: audit_step_def change_filters_def ok reload_ok [OF ok] arrives_ok turn_ok same_view_ok [OF ok])
qed

lemma audit_ok_init: "audit_ok env audit_page_init"
  by (simp add: audit_ok_def audit_page_init_def resource_init_def no_later_load_def)

interpretation audit_screen: event_system "\<lambda>s. s = audit_page_init" "audit_step env" "audit_inv env" for env
proof
  show "audit_inv env s" if "s = audit_page_init" for s
    using that audit_ok_init by (simp add: audit_inv_def audit_page_init_def)
  show "audit_inv env (audit_step env e s)" if "audit_inv env s" for s e
    using that audit_ok_step untouched_step by (simp add: audit_inv_def)
qed

section \<open>What is shown and what is exported\<close>

text \<open>
  C29: whatever the user does and in whatever order the answers of the server come back, when the page
  is not loading, the events it shows are the data source's answer to the filters and the page that
  are set: no answer to an earlier filter or page replaces it.
\<close>

theorem audit_shows_current_answer:
  assumes "s = fold (audit_step env) es audit_page_init" and "\<not> as_loading (shown (au_logs s))"
  shows "shown (au_logs s) = audit_answer env s"
  using audit_screen.inv_reachable [of audit_page_init env es] assms by (simp add: audit_inv_def audit_ok_def)

definition demo_audit_env :: audit_env where
  \<comment> \<open>120 events, 10 of them with the action \<open>login\<close>, and a host at UTC\<close>
  "demo_audit_env =
     \<lparr>ad_env = \<lparr>in_prototype = False, page_user = None, page_t = id\<rparr>, ad_zone = (\<lambda>_. 0),
      ad_server = (\<lambda>_ q _. Inr \<lparr>all_items = [], all_limit = coalesce (af_limit q) 50, all_offset = coalesce (af_offset q) 0,
        all_total = (if af_action q = Some ''login'' then 10 else 120)\<rparr>)\<rparr>"

definition demo_audit_events :: "audit_ui_event list" where
  \<comment> \<open>Next is pressed before the answer to the new filter is there\<close>
  "demo_audit_events =
     [Audit_Mount, Audit_Arrives 1, Change_Filters (empty_audit_filters\<lparr>fs_action := ''login''\<rparr>), Pager_Forward,
      Audit_Arrives 3, Audit_Arrives 5]"

definition demo_audit_page :: audit_page where
  "demo_audit_page = fold (audit_step demo_audit_env) demo_audit_events audit_page_init"

text \<open>
  The pager of the table counts the pages of the answer, and the page counts the presses.  When
  the page number lies beyond a result that fits one page, neither button of the pager does
  anything, so the user cannot turn back to the events that exist.
\<close>

theorem stranded_page_cannot_turn:
  assumes "0 < au_page s" and "audit_total s \<le> audit_page_size"
  shows "audit_step env Pager_Back s = s \<and> audit_step env Pager_Forward s = s"
  using assms
  by (auto simp: audit_step_def pager_back_def pager_forward_def pager_page_def pager_shown_def safe_page_def
      total_pages_def audit_page_size_def)

lemma demo_audit_reached:
  "au_page demo_audit_page = 1 \<and> audit_total demo_audit_page = 10 \<and> waiting (au_logs demo_audit_page) = [] \<and>
   \<not> as_loading (shown (au_logs demo_audit_page))"
  by code_simp

theorem stranded_page_cannot_turn_witness:
  "audit_step demo_audit_env Pager_Back demo_audit_page = demo_audit_page \<and>
   audit_step demo_audit_env Pager_Forward demo_audit_page = demo_audit_page"
  using demo_audit_reached by (intro stranded_page_cannot_turn) (simp_all add: audit_page_size_def)

theorem audit_shows_current_answer_witness:
  "shown (au_logs demo_audit_page) = audit_answer demo_audit_env demo_audit_page"
  using demo_audit_reached by (intro audit_shows_current_answer [OF demo_audit_page_def]) simp

text \<open>
  An export is meant for up to 5000 events, the default of \<open>lib/api/audit.ts\<close>.  The page hands over
  its filters with the limit of one page already set, so the server reads a limit of 50 from every
  export, whatever the filters and the page are.
\<close>

theorem audit_export_capped:
  "parse_query (query_string (audit_export_params (audit_export_query env s))) =
   (''limit'', ''50'') # written_filters (audit_filter_fields (audit_export_query env s))"
proof -
  have "int_str 50 = ''50''" by code_simp
  then show ?thesis
    by (simp add: parse_query_string audit_export_written audit_export_query_def to_audit_query_filters_def)
qed

lemma audit_export_default:
  "parse_query (query_string (audit_export_params no_audit_filters)) = [(''limit'', ''5000'')]"
  by code_simp

end
