(* ===== verification/License_Data.thy ===== *)
theory License_Data
  imports Js_Date Resource_Hooks Proto_Types
begin

text \<open>
  The license of the deployment: the records of \<open>lib/api/license.ts\<close>, the prototype data and the two
  lists of \<open>hooks/admin/license.ts\<close>, and what the panels of \<open>pages/license\<close> derive from them (scope,
  binding, readiness, labels).
\<close>

section \<open>Records\<close>

datatype license_status =
  License_Inactive | License_Active | License_Expired | License_Revoked | License_Mismatch

fun license_status_str :: "license_status \<Rightarrow> string" where
  "license_status_str License_Inactive = ''inactive''"
| "license_status_str License_Active = ''active''"
| "license_status_str License_Expired = ''expired''"
| "license_status_str License_Revoked = ''revoked''"
| "license_status_str License_Mismatch = ''mismatch''"

record license =
  li_status :: license_status
  li_license_type :: string
  li_customer_name :: string
  li_deployment_id :: string
  li_install_id :: string
  li_machine_fingerprint_hash :: string
  li_runtime_deployment_id :: "string option"
  li_runtime_install_id :: "string option"
  li_runtime_machine_fingerprint_hash :: "string option"
  li_verification_issues :: "string list"
  li_allowed_modules :: "string list"
  li_allowed_features :: "string list"
  li_maintenance_until :: "string option"
  li_expires_at :: "string option"
  li_activated_at :: "string option"
  li_max_users :: "int option"
  li_max_agents :: "int option"
  li_max_kb_size_gb :: jsval
  li_module_count :: int
  li_feature_count :: int

record authorized_module =
  az_id :: string
  az_name :: string
  az_state :: module_state
  az_licensed :: bool
  az_installed :: bool
  az_enabled :: bool

record authorized_feature =
  ft_id :: string
  ft_name :: string
  ft_enabled :: bool

record license_scope =
  sc_modules :: "authorized_module list"
  sc_features :: "authorized_feature list"

record activation_request =
  acr_product :: string
  acr_tenant_id :: string
  acr_deployment_id :: string
  acr_install_id :: string
  acr_machine_fingerprint_hash :: string
  acr_fingerprint_algorithm :: string
  acr_generated_at :: string
  acr_request_id :: string
  acr_request_code :: string
  acr_request_hash :: string
  acr_request_format :: string

record license_verification =
  lv_mode :: string
  lv_valid :: bool
  lv_status :: license_status
  lv_reason :: string
  lv_signature_alg :: "string option"
  lv_license_id :: "string option"

record license_activation =
  lac_status :: license_status
  lac_message :: string
  lac_license :: license
  lac_verification :: "license_verification option"

record license_deactivation =
  lde_status :: license_status
  lde_message :: string
  lde_deactivated_at :: string

section \<open>Prototype data\<close>

definition lic_now :: string where "lic_now = ''2026-01-01T00:00:00.000Z''"
definition lic_tenant :: string where "lic_tenant = ''00000000-0000-4000-8000-000000000001''"
definition lic_deployment :: string where "lic_deployment = ''00000000-0000-4000-8000-000000000501''"
definition lic_install :: string where "lic_install = ''00000000-0000-4000-8000-000000000502''"
definition lic_fingerprint :: string where
  "lic_fingerprint = ''sha256:88f1e7526a2f8f6314f6a6f7018b8d41dfc4d3b8a1d44b0d0f64f0c6c9a7e1e2''"

definition proto_license :: license where
  "proto_license =
     \<lparr>li_status = License_Active, li_license_type = ''enterprise'', li_customer_name = ''AgentHive Demo Customer'',
      li_deployment_id = lic_deployment, li_install_id = lic_install, li_machine_fingerprint_hash = lic_fingerprint,
      li_runtime_deployment_id = Some lic_deployment, li_runtime_install_id = Some lic_install,
      li_runtime_machine_fingerprint_hash = Some lic_fingerprint, li_verification_issues = [],
      li_allowed_modules =
        [''agent.customer_service'', ''agent.hr_screening'', ''agent.copywriting'', ''agent.image_generation'',
         ''agent.video_generation'', ''agent.report_writer''],
      li_allowed_features =
        [''feature.license_offline_activation'', ''feature.model_budget'', ''feature.media_generation'',
         ''channel.web_widget'', ''channel.wecom'', ''channel.dingtalk'', ''feature.system_diagnostics''],
      li_maintenance_until = Some ''2026-12-31T00:00:00.000Z'', li_expires_at = Some ''2027-01-01T00:00:00.000Z'',
      li_activated_at = Some lic_now, li_max_users = Some 500, li_max_agents = Some 50,
      li_max_kb_size_gb = JStr ''500.0'', li_module_count = 6, li_feature_count = 7\<rparr>"

definition enabled_feature :: "string \<Rightarrow> string \<Rightarrow> authorized_feature" where
  "enabled_feature i n = \<lparr>ft_id = i, ft_name = n, ft_enabled = True\<rparr>"

definition proto_scope :: license_scope where
  "proto_scope =
     \<lparr>sc_modules =
        [\<lparr>az_id = ''agent.customer_service'', az_name = ''E-commerce Customer Service Assistant'', az_state = Enabled,
          az_licensed = True, az_installed = True, az_enabled = True\<rparr>,
         \<lparr>az_id = ''agent.hr_screening'', az_name = ''HR Resume Screening Assistant'', az_state = Enabled,
          az_licensed = True, az_installed = True, az_enabled = True\<rparr>,
         \<lparr>az_id = ''agent.copywriting'', az_name = ''Copywriting Assistant'', az_state = Installed,
          az_licensed = True, az_installed = True, az_enabled = False\<rparr>,
         \<lparr>az_id = ''agent.image_generation'', az_name = ''Product Image Generation Assistant'', az_state = Not_Installed,
          az_licensed = True, az_installed = False, az_enabled = False\<rparr>,
         \<lparr>az_id = ''agent.video_generation'', az_name = ''Short Video Generation Assistant'', az_state = Not_Installed,
          az_licensed = True, az_installed = False, az_enabled = False\<rparr>,
         \<lparr>az_id = ''agent.finance'', az_name = ''Finance Efficiency Assistant'', az_state = Not_Licensed,
          az_licensed = False, az_installed = False, az_enabled = False\<rparr>],
      sc_features =
        [enabled_feature ''feature.license_offline_activation'' ''Offline activation'',
         enabled_feature ''feature.model_budget'' ''Model budget guard'',
         enabled_feature ''feature.media_generation'' ''Media generation'',
         enabled_feature ''channel.web_widget'' ''Web Widget channel'',
         enabled_feature ''channel.wecom'' ''WeCom channel'',
         enabled_feature ''channel.dingtalk'' ''DingTalk channel'',
         enabled_feature ''feature.system_diagnostics'' ''Deployment diagnostics'']\<rparr>"

definition proto_activation_request :: activation_request where
  "proto_activation_request =
     \<lparr>acr_product = ''AgentHive'', acr_tenant_id = lic_tenant, acr_deployment_id = lic_deployment,
      acr_install_id = lic_install, acr_machine_fingerprint_hash = lic_fingerprint,
      acr_fingerprint_algorithm = ''sha256'', acr_generated_at = lic_now, acr_request_id = ''proto-activation-20260101'',
      acr_request_code =
        ''AGENTHIVE-ACTIVATION-REQUEST.demo.eyJwcm9kdWN0IjoiQWdlbnRIaXZlIiwiZGVwbG95bWVudCI6InByb3RvdHlwZSJ9'',
      acr_request_hash = ''sha256:prototype-activation-request'',
      acr_request_format = ''agenthive.offline_activation.v1''\<rparr>"

definition activation_request_value :: "activation_request \<Rightarrow> jsval" where
  \<comment> \<open>in the order of the prototype object\<close>
  "activation_request_value r =
     JObj [(''deployment_id'', JStr (acr_deployment_id r)), (''fingerprint_algorithm'', JStr (acr_fingerprint_algorithm r)),
       (''generated_at'', JStr (acr_generated_at r)), (''install_id'', JStr (acr_install_id r)),
       (''machine_fingerprint_hash'', JStr (acr_machine_fingerprint_hash r)), (''product'', JStr (acr_product r)),
       (''request_code'', JStr (acr_request_code r)), (''request_format'', JStr (acr_request_format r)),
       (''request_hash'', JStr (acr_request_hash r)), (''request_id'', JStr (acr_request_id r)),
       (''tenant_id'', JStr (acr_tenant_id r))]"

definition proto_activation :: "(string \<Rightarrow> string) \<Rightarrow> license_activation" where
  "proto_activation t =
     \<lparr>lac_status = License_Active, lac_message = t ''licensePrototypeActivated'', lac_license = proto_license,
      lac_verification =
        Some \<lparr>lv_mode = ''offline'', lv_valid = True, lv_status = License_Active, lv_reason = ''prototype_signed_license'',
          lv_signature_alg = Some ''Ed25519'', lv_license_id = Some ''00000000-0000-4000-8000-000000009999''\<rparr>\<rparr>"

definition proto_deactivation :: "(string \<Rightarrow> string) \<Rightarrow> string \<Rightarrow> license_deactivation" where
  "proto_deactivation t now =
     \<lparr>lde_status = License_Inactive, lde_message = t ''licensePrototypeDeactivated'', lde_deactivated_at = now\<rparr>"

section \<open>The lists\<close>

definition load_license :: "bool \<Rightarrow> (unit, license) resource \<Rightarrow> (unit, license) resource" where
  "load_license proto s = (if proto then show_now (loaded proto_license) s else ask () s)"

definition license_answered ::
  "(string \<Rightarrow> string) \<Rightarrow> nat \<Rightarrow> (nat \<Rightarrow> exn + license) \<Rightarrow> (unit, license) resource \<Rightarrow> (unit, license) resource" where
  "license_answered t n attempts s =
     (if in_waiting n s then plain_answer n (settle t (retried attempts)) s else s)"

definition load_scope :: "bool \<Rightarrow> (unit, license_scope) resource \<Rightarrow> (unit, license_scope) resource" where
  "load_scope proto s = (if proto then show_now (loaded proto_scope) s else ask () s)"

definition scope_answered ::
  "(string \<Rightarrow> string) \<Rightarrow> nat \<Rightarrow> (nat \<Rightarrow> exn + license_scope) \<Rightarrow>
   (unit, license_scope) resource \<Rightarrow> (unit, license_scope) resource" where
  "scope_answered t n attempts s =
     (if in_waiting n s then plain_answer n (settle t (retried attempts)) s else s)"

section \<open>Derived values\<close>

record license_summary =
  ls_enabled_features :: nat
  ls_enabled_modules :: nat
  ls_total_features :: nat
  ls_total_modules :: nat

definition summarize_scope :: "authorized_module list \<Rightarrow> authorized_feature list \<Rightarrow> license_summary" where
  "summarize_scope ms fs =
     \<lparr>ls_enabled_features = length (filter ft_enabled fs), ls_enabled_modules = length (filter az_enabled ms),
      ls_total_features = length fs, ls_total_modules = length ms\<rparr>"

definition short_fingerprint :: "string \<Rightarrow> string" where
  "short_fingerprint v = (if length v \<le> 18 then v else take 10 v @ ''...'' @ drop (length v - 8) v)"

definition license_status_label :: "string \<Rightarrow> (string \<Rightarrow> string) \<Rightarrow> string" where
  "license_status_label s t =
     (if s = ''active'' then t ''licenseStatusActive''
      else if s = ''expired'' then t ''licenseStatusExpired''
      else if s = ''inactive'' then t ''licenseStatusInactive''
      else if s = ''invalid'' then t ''licenseStatusInvalid''
      else to_upper s)"

definition license_type_label :: "string \<Rightarrow> (string \<Rightarrow> string) \<Rightarrow> string" where
  "license_type_label s t =
     (if s = ''BASIC'' then t ''licenseTypeBasic''
      else if s = ''ENTERPRISE'' then t ''licenseTypeEnterprise''
      else if s = ''TRIAL'' then t ''licenseTypeTrial''
      else s)"

definition banner_labels :: "license option \<Rightarrow> (string \<Rightarrow> string) \<Rightarrow> string \<times> string \<times> string" where
  \<comment> \<open>status, type and customer on the banner\<close>
  "banner_labels l t =
     (case l of
        None \<Rightarrow> (t ''licenseUnknown'', license_type_label ''BASIC'' t, t ''licenseUnavailable'')
      | Some x \<Rightarrow>
          (license_status_label (license_status_str (li_status x)) t,
           license_type_label (to_upper (li_license_type x)) t, li_customer_name x))"

datatype binding_tone = Good_Binding | Bad_Binding

definition binding_tone :: "string option \<Rightarrow> string option \<Rightarrow> binding_tone option" where
  "binding_tone l r =
     (if \<not> js_truthy_str l \<or> \<not> js_truthy_str r then None
      else if l = r then Some Good_Binding else Some Bad_Binding)"

definition license_issue_label :: "string \<Rightarrow> (string \<Rightarrow> string) \<Rightarrow> string" where
  "license_issue_label i t =
     coalesce
       (map_of
         [(''deployment_id_mismatch'', t ''licenseIssueDeploymentMismatch''),
          (''install_id_mismatch'', t ''licenseIssueInstallMismatch''), (''license_expired'', t ''licenseIssueExpired''),
          (''machine_fingerprint_mismatch'', t ''licenseIssueFingerprintMismatch''),
          (''no_active_license'', t ''licenseIssueNoActiveLicense'')] i) i"

section \<open>Readiness\<close>

definition is_deployment_bound :: "license option \<Rightarrow> bool" where
  "is_deployment_bound l \<longleftrightarrow>
     (case l of
        None \<Rightarrow> False
      | Some x \<Rightarrow>
          li_deployment_id x \<noteq> [] \<and> Some (li_deployment_id x) = li_runtime_deployment_id x \<and>
          li_install_id x \<noteq> [] \<and> Some (li_install_id x) = li_runtime_install_id x \<and>
          li_machine_fingerprint_hash x \<noteq> [] \<and>
          Some (li_machine_fingerprint_hash x) = li_runtime_machine_fingerprint_hash x)"

definition has_valid_maintenance :: "int \<Rightarrow> string option \<Rightarrow> bool" where \<comment> \<open>\<open>now\<close> is \<open>Date.now()\<close>\<close>
  "has_valid_maintenance now v \<longleftrightarrow>
     js_truthy_str v \<and>
     (let e = date_ms (coalesce v []) in num_is_finite e \<and> num_less (Fin (of_int now)) e)"

definition license_readiness :: "int \<Rightarrow> license option \<Rightarrow> authorized_module list \<Rightarrow> authorized_feature list \<Rightarrow> (string \<times> bool) list" where
  \<comment> \<open>the items, and whether each is ready\<close>
  "license_readiness now l ms fs =
     [(''license-active'', map_option li_status l = Some License_Active), (''binding'', is_deployment_bound l),
      (''issues'', (case l of None \<Rightarrow> False | Some x \<Rightarrow> li_verification_issues x = [])),
      (''modules'', filter az_enabled ms \<noteq> []), (''features'', filter ft_enabled fs \<noteq> []),
      (''maintenance'', has_valid_maintenance now (Option.bind l li_maintenance_until))]"

definition issue_metric :: "license option \<Rightarrow> (string \<Rightarrow> string) \<Rightarrow> string" where
  "issue_metric l t =
     (if map_option li_verification_issues l = Some [] then t ''licenseReadinessReadyMetric''
      else replace_first ''{{count}}'' (nat_str (coalesce (map_option (\<lambda>x. length (li_verification_issues x)) l) 1))
             (t ''licenseReadinessIssueMetric''))"

definition ready_count :: "(string \<times> bool) list \<Rightarrow> nat" where
  "ready_count items = length (filter snd items)"

definition selected_readiness :: "string option \<Rightarrow> (string \<times> bool) list \<Rightarrow> string \<times> bool" where
  "selected_readiness i items =
     coalesce (List.find (\<lambda>x. Some (fst x) = i) items)
       (coalesce (List.find (\<lambda>x. \<not> snd x) items) (hd items))"

lemma readiness_complete:
  \<comment> \<open>all six items are ready exactly for an active, bound license without issues that enables something and is maintained\<close>
  "ready_count (license_readiness now l ms fs) = 6 \<longleftrightarrow>
   (\<exists>x. l = Some x \<and> li_status x = License_Active \<and> is_deployment_bound l \<and> li_verification_issues x = [] \<and>
        list_ex az_enabled ms \<and> list_ex ft_enabled fs \<and> has_valid_maintenance now (li_maintenance_until x))"
  by (cases l) (auto simp: ready_count_def license_readiness_def list_ex_iff filter_empty_conv split: if_splits)

lemma proto_license_ready:
  "ready_count (license_readiness 1767225600000 (Some proto_license) (sc_modules proto_scope) (sc_features proto_scope)) = 6"
  by code_simp

end
