(* ===== verification/License_Page.thy ===== *)
theory License_Page
  imports License_Data Page_Env
begin

text \<open>
  The license page: the three actions of \<open>useLicenseActivationActions\<close>, the state and the handlers of
  \<open>pages/LicensePage.tsx\<close> and the panel \<open>OfflineActivationPanel.tsx\<close>.  An action is in flight from
  its start to its answer; activation and deactivation go on with a synchronisation, which waits for
  both lists and only then writes its notice.  What the user can read is \<open>page_messages\<close>.
\<close>

section \<open>State\<close>

datatype license_tab = Lic_Status | Lic_Activation | Lic_Scope
datatype license_status_tab = Lic_Overview | Lic_Readiness
datatype activation_tab = Lic_Binding | Lic_Offline

record license_actions =
  la_exporting :: bool
  la_activating :: bool
  la_deactivating :: bool
  la_message :: "string option"
  la_error :: "string option"

datatype license_request = Sent_Export | Sent_Activation string | Sent_Deactivation

datatype sync_end = Sync_Only | Sync_Activated string | Sync_Deactivated string

record sync_job =
  sj_status :: "nat option" \<comment> \<open>the load of the license it waits for\<close>
  sj_scope :: "nat option"
  sj_end :: sync_end

record license_page =
  lp_license :: "(unit, license) resource"
  lp_scope :: "(unit, license_scope) resource"
  lp_actions :: license_actions
  lp_request :: "activation_request option"
  lp_payload :: string
  lp_notice :: "string option"
  lp_error :: "string option"
  lp_tab :: license_tab
  lp_status_tab :: license_status_tab
  lp_activation_tab :: activation_tab
  lp_confirm :: bool
  lp_file_notice :: "string option"
  lp_file_error :: "string option"
  lp_jobs :: "sync_job list"
  lp_sent :: "license_request list"
  lp_files :: "(string \<times> string \<times> string) list" \<comment> \<open>content, file name, MIME type\<close>

definition requested_license_tab :: "string option \<Rightarrow> license_tab \<times> string option" where
  \<comment> \<open>\<open>consumeRequestedLicenseTab\<close>: the tab, and what is left in the session storage\<close>
  "requested_license_tab v =
     (if v = Some ''status'' then (Lic_Status, None)
      else if v = Some ''activation'' then (Lic_Activation, None)
      else if v = Some ''scope'' then (Lic_Scope, None)
      else (Lic_Status, v))"

definition license_page_init :: "page_env \<Rightarrow> string option \<Rightarrow> license_page" where
  "license_page_init env stored =
     (let tab = fst (requested_license_tab stored) in
      \<lparr>lp_license = resource_init True, lp_scope = resource_init True,
       lp_actions = \<lparr>la_exporting = False, la_activating = False, la_deactivating = False, la_message = None, la_error = None\<rparr>,
       lp_request = None, lp_payload = [],
       lp_notice = (if tab = Lic_Scope then Some (page_t env ''licenseScopeFocusedNotice'') else None), lp_error = None,
       lp_tab = tab, lp_status_tab = Lic_Overview, lp_activation_tab = Lic_Binding, lp_confirm = False,
       lp_file_notice = None, lp_file_error = None, lp_jobs = [], lp_sent = [], lp_files = []\<rparr>)"

definition can_write_license :: "page_env \<Rightarrow> bool" where
  "can_write_license env = has_permission ''license:write'' env"

definition can_activate :: "page_env \<Rightarrow> license_page \<Rightarrow> bool" where
  "can_activate env s \<longleftrightarrow> can_write_license env \<and> trim (lp_payload s) \<noteq> [] \<and> \<not> la_activating (lp_actions s)"

section \<open>Synchronising\<close>

definition apply_sync_end :: "page_env \<Rightarrow> sync_end \<Rightarrow> license_page \<Rightarrow> license_page" where
  "apply_sync_end env e s =
     (case e of
        Sync_Only \<Rightarrow> s\<lparr>lp_notice := Some (page_t env ''licenseSyncedNotice'')\<rparr>
      | Sync_Activated m \<Rightarrow> s\<lparr>lp_notice := Some (text_or m (page_t env ''licenseActivatedNotice'')), lp_tab := Lic_Status\<rparr>
      | Sync_Deactivated m \<Rightarrow> s\<lparr>lp_notice := Some (text_or m (page_t env ''licenseDeactivatedNotice''))\<rparr>)"

definition job_done :: "sync_job \<Rightarrow> bool" where
  "job_done j \<longleftrightarrow> sj_status j = None \<and> sj_scope j = None"

definition finish_jobs :: "page_env \<Rightarrow> license_page \<Rightarrow> license_page" where
  "finish_jobs env s =
     fold (\<lambda>j. apply_sync_end env (sj_end j)) (filter job_done (lp_jobs s))
       (s\<lparr>lp_jobs := filter (\<lambda>j. \<not> job_done j) (lp_jobs s)\<rparr>)"

definition start_sync :: "page_env \<Rightarrow> sync_end \<Rightarrow> license_page \<Rightarrow> license_page" where
  "start_sync env e s =
     (let l = load_license (in_prototype env) (lp_license s);
          c = load_scope (in_prototype env) (lp_scope s);
          j = \<lparr>sj_status = (if in_prototype env then None else Some (latest l)),
               sj_scope = (if in_prototype env then None else Some (latest c)), sj_end = e\<rparr>
      in finish_jobs env
           (s\<lparr>lp_notice := None, lp_error := None, lp_license := l, lp_scope := c, lp_jobs := lp_jobs s @ [j]\<rparr>))"

definition license_arrives :: "page_env \<Rightarrow> nat \<Rightarrow> (nat \<Rightarrow> exn + license) \<Rightarrow> license_page \<Rightarrow> license_page" where
  "license_arrives env n a s =
     finish_jobs env
       (s\<lparr>lp_license := license_answered (page_t env) n a (lp_license s),
          lp_jobs := map (\<lambda>j. if sj_status j = Some n then j\<lparr>sj_status := None\<rparr> else j) (lp_jobs s)\<rparr>)"

definition scope_arrives :: "page_env \<Rightarrow> nat \<Rightarrow> (nat \<Rightarrow> exn + license_scope) \<Rightarrow> license_page \<Rightarrow> license_page" where
  "scope_arrives env n a s =
     finish_jobs env
       (s\<lparr>lp_scope := scope_answered (page_t env) n a (lp_scope s),
          lp_jobs := map (\<lambda>j. if sj_scope j = Some n then j\<lparr>sj_scope := None\<rparr> else j) (lp_jobs s)\<rparr>)"

section \<open>Actions\<close>

definition clear_messages :: "license_page \<Rightarrow> license_page" where
  "clear_messages s = s\<lparr>lp_notice := None, lp_error := None\<rparr>"

definition download_request :: "page_env \<Rightarrow> exn + activation_request \<Rightarrow> license_page \<Rightarrow> license_page" where
  \<comment> \<open>the rest of \<open>getActivationRequest\<close> and of \<open>downloadActivationRequest\<close>\<close>
  "download_request env r s =
     (let a = (lp_actions s)\<lparr>la_exporting := False\<rparr> in
      case r of
        Inl e \<Rightarrow> s\<lparr>lp_actions := a\<lparr>la_error := Some (error_to_message (page_t env) e)\<rparr>\<rparr>
      | Inr q \<Rightarrow>
          s\<lparr>lp_actions :=
              a\<lparr>la_message :=
                 Some (replace_first ''{{requestId}}'' (acr_request_id q) (page_t env ''licenseActivationRequestExported''))\<rparr>,
            lp_request := Some q,
            lp_files := lp_files s @
              [(stringify_pretty (activation_request_value q),
                ''agenthive-activation-request-'' @ acr_request_id q @ ''.json'', ''application/json;charset=utf-8'')],
            lp_notice := Some (page_t env ''licenseDownloadNotice'')\<rparr>)"

definition press_download :: "page_env \<Rightarrow> license_page \<Rightarrow> license_page" where
  "press_download env s =
     (let s' = (clear_messages s)\<lparr>lp_actions :=
                  (lp_actions s)\<lparr>la_exporting := True, la_message := None, la_error := None\<rparr>\<rparr> in
      if in_prototype env then download_request env (Inr proto_activation_request) s'
      else s'\<lparr>lp_sent := lp_sent s @ [Sent_Export]\<rparr>)"

definition activated :: "page_env \<Rightarrow> exn + license_activation \<Rightarrow> license_page \<Rightarrow> license_page" where
  \<comment> \<open>the rest of both functions \<open>activateLicense\<close>\<close>
  "activated env r s =
     (let a = (lp_actions s)\<lparr>la_activating := False\<rparr> in
      case r of
        Inl e \<Rightarrow> s\<lparr>lp_actions := a\<lparr>la_error := Some (error_to_message (page_t env) e)\<rparr>\<rparr>
      | Inr x \<Rightarrow>
          (let m = (if in_prototype env then lac_message x
                    else text_or (lac_message x)
                      (replace_first ''{{status}}'' (license_status_str (lac_status x)) (page_t env ''licenseActivationStatus'')))
           in start_sync env (Sync_Activated (lac_message x)) (s\<lparr>lp_actions := a\<lparr>la_message := Some m\<rparr>, lp_payload := []\<rparr>)))"

definition press_activate :: "page_env \<Rightarrow> license_page \<Rightarrow> license_page" where
  "press_activate env s =
     (if \<not> can_write_license env then (clear_messages s)\<lparr>lp_error := Some (page_t env ''licenseWritePermissionRequired'')\<rparr>
      else if trim (lp_payload s) = [] then (clear_messages s)\<lparr>lp_error := Some (page_t env ''licenseActivationRequired'')\<rparr>
      else
        (let s' = (clear_messages s)\<lparr>lp_actions :=
                     (lp_actions s)\<lparr>la_activating := True, la_message := None, la_error := None\<rparr>\<rparr> in
         if in_prototype env then activated env (Inr (proto_activation (page_t env))) s'
         else s'\<lparr>lp_sent := lp_sent s @ [Sent_Activation (trim (lp_payload s))]\<rparr>))"

definition press_deactivate :: "page_env \<Rightarrow> license_page \<Rightarrow> license_page" where
  "press_deactivate env s =
     (if \<not> can_write_license env then (clear_messages s)\<lparr>lp_error := Some (page_t env ''licenseWritePermissionRequired'')\<rparr>
      else (clear_messages s)\<lparr>lp_confirm := True\<rparr>)"

definition deactivated :: "page_env \<Rightarrow> exn + license_deactivation \<Rightarrow> license_page \<Rightarrow> license_page" where
  "deactivated env r s =
     (let a = (lp_actions s)\<lparr>la_deactivating := False\<rparr> in
      case r of
        Inl e \<Rightarrow> s\<lparr>lp_actions := a\<lparr>la_error := Some (error_to_message (page_t env) e)\<rparr>\<rparr>
      | Inr x \<Rightarrow>
          (let m = (if in_prototype env then lde_message x
                    else text_or (lde_message x) (page_t env ''licenseDeactivatedNotice''))
           in start_sync env (Sync_Deactivated (lde_message x)) (s\<lparr>lp_actions := a\<lparr>la_message := Some m\<rparr>\<rparr>)))"

definition confirm_deactivation :: "page_env \<Rightarrow> string \<Rightarrow> license_page \<Rightarrow> license_page" where
  "confirm_deactivation env now s =
     (let s' = s\<lparr>lp_confirm := False,
                 lp_actions := (lp_actions s)\<lparr>la_deactivating := True, la_message := None, la_error := None\<rparr>\<rparr> in
      if in_prototype env then deactivated env (Inr (proto_deactivation (page_t env) now)) s'
      else s'\<lparr>lp_sent := lp_sent s @ [Sent_Deactivation]\<rparr>)"

section \<open>The offline panel\<close>

definition import_license_file :: "page_env \<Rightarrow> (string \<times> nat \<times> string option) option \<Rightarrow> license_page \<Rightarrow> license_page" where
  \<comment> \<open>the chosen file: its name, its size in bytes, and its text when it can be read\<close>
  "import_license_file env f s0 =
     (let s = s0\<lparr>lp_file_notice := None, lp_file_error := None\<rparr> in
      case f of
        None \<Rightarrow> s
      | Some (fname, fsize, content) \<Rightarrow>
          if fsize > 256 * 1024 then s\<lparr>lp_file_error := Some (page_t env ''licenseImportFileTooLarge'')\<rparr>
          else
            (case content of
               None \<Rightarrow> s\<lparr>lp_file_error := Some (page_t env ''licenseImportFileFailed'')\<rparr>
             | Some c \<Rightarrow>
                 if trim c = [] then s\<lparr>lp_file_error := Some (page_t env ''licenseImportFileEmpty'')\<rparr>
                 else s\<lparr>lp_payload := trim c,
                        lp_file_notice := Some (replace_first ''{{fileName}}'' fname (page_t env ''licenseImportedFile''))\<rparr>))"

definition offline_shown :: "license_page \<Rightarrow> bool" where
  "offline_shown s \<longleftrightarrow> lp_tab s = Lic_Activation \<and> lp_activation_tab s = Lic_Offline"

definition panel_notice :: "string option \<Rightarrow> string option \<Rightarrow> string list" where
  \<comment> \<open>\<open>(a || b) && <ApiNotice message={a ?? b ?? ""}>\<close>\<close>
  "panel_notice a b = (if js_truthy_str a \<or> js_truthy_str b then [coalesce a (coalesce b [])] else [])"

definition page_messages :: "license_page \<Rightarrow> string list" where
  \<comment> \<open>the notices on the page that an action or a file can cause\<close>
  "page_messages s =
     (if lp_tab s \<noteq> Lic_Activation
      then (if js_truthy_str (lp_notice s) then [the (lp_notice s)] else []) @
           (if js_truthy_str (lp_error s) then [the (lp_error s)] else [])
      else if lp_activation_tab s = Lic_Offline
      then panel_notice (lp_notice s) (la_message (lp_actions s)) @
           panel_notice (lp_error s) (la_error (lp_actions s)) @
           (if js_truthy_str (lp_file_notice s) \<or> js_truthy_str (lp_file_error s)
            then [coalesce (lp_file_error s) (coalesce (lp_file_notice s) [])] else [])
      else [])"

definition close_panel :: "license_page \<Rightarrow> license_page" where \<comment> \<open>a panel that is not shown loses its own state\<close>
  "close_panel s = (if offline_shown s then s else s\<lparr>lp_file_notice := None, lp_file_error := None\<rparr>)"

section \<open>Events\<close>

datatype license_event =
    License_Mount
  | License_Arrives nat "nat \<Rightarrow> exn + license"
  | Scope_Arrives nat "nat \<Rightarrow> exn + license_scope"
  | Press_Sync
  | Press_License_Retry
  | Press_Scope_Retry
  | Press_Download
  | Request_Arrives "exn + activation_request"
  | Type_Payload string
  | Choose_File "(string \<times> nat \<times> string option) option"
  | Press_Activate
  | Activation_Arrives "exn + license_activation"
  | Press_Deactivate
  | Confirm_Deactivate string
  | Cancel_Deactivate
  | Deactivation_Arrives "exn + license_deactivation"
  | Show_License_Tab license_tab
  | Show_Status_Tab license_status_tab
  | Show_Activation_Tab activation_tab

definition license_busy :: "license_page \<Rightarrow> bool" where
  "license_busy s \<longleftrightarrow> as_loading (shown (lp_license s)) \<or> as_loading (shown (lp_scope s))"

definition license_step :: "page_env \<Rightarrow> license_event \<Rightarrow> license_page \<Rightarrow> license_page" where
  \<comment> \<open>a button that is disabled or not shown does nothing; an answer needs its request\<close>
  "license_step env e s =
     close_panel
      (case e of
         License_Mount \<Rightarrow>
           s\<lparr>lp_license := load_license (in_prototype env) (lp_license s), lp_scope := load_scope (in_prototype env) (lp_scope s)\<rparr>
       | License_Arrives n a \<Rightarrow> license_arrives env n a s
       | Scope_Arrives n a \<Rightarrow> scope_arrives env n a s
       | Press_Sync \<Rightarrow> if license_busy s then s else start_sync env Sync_Only s
       | Press_License_Retry \<Rightarrow>
           if as_error (shown (lp_license s)) = None \<or> as_loading (shown (lp_license s)) then s
           else s\<lparr>lp_license := load_license (in_prototype env) (lp_license s)\<rparr>
       | Press_Scope_Retry \<Rightarrow>
           if lp_tab s \<noteq> Lic_Scope \<or> as_error (shown (lp_scope s)) = None \<or> as_loading (shown (lp_scope s)) then s
           else s\<lparr>lp_scope := load_scope (in_prototype env) (lp_scope s)\<rparr>
       | Press_Download \<Rightarrow> if offline_shown s \<and> \<not> la_exporting (lp_actions s) then press_download env s else s
       | Request_Arrives r \<Rightarrow> if la_exporting (lp_actions s) then download_request env r s else s
       | Type_Payload v \<Rightarrow> if offline_shown s \<and> can_write_license env then s\<lparr>lp_payload := v\<rparr> else s
       | Choose_File f \<Rightarrow> if offline_shown s \<and> can_write_license env then import_license_file env f s else s
       | Press_Activate \<Rightarrow> if offline_shown s \<and> can_activate env s then press_activate env s else s
       | Activation_Arrives r \<Rightarrow> if la_activating (lp_actions s) then activated env r s else s
       | Press_Deactivate \<Rightarrow>
           if can_write_license env \<and> \<not> la_deactivating (lp_actions s) \<and> \<not> as_loading (shown (lp_license s))
           then press_deactivate env s else s
       | Confirm_Deactivate now \<Rightarrow> if lp_confirm s then confirm_deactivation env now s else s
       | Cancel_Deactivate \<Rightarrow> s\<lparr>lp_confirm := False\<rparr>
       | Deactivation_Arrives r \<Rightarrow> if la_deactivating (lp_actions s) then deactivated env r s else s
       | Show_License_Tab tab \<Rightarrow> s\<lparr>lp_tab := tab\<rparr>
       | Show_Status_Tab tab \<Rightarrow> if lp_tab s = Lic_Status then s\<lparr>lp_status_tab := tab\<rparr> else s
       | Show_Activation_Tab tab \<Rightarrow> if lp_tab s = Lic_Activation then s\<lparr>lp_activation_tab := tab\<rparr> else s)"

section \<open>Only authorised requests are sent\<close>

definition request_ok :: "page_env \<Rightarrow> license_request \<Rightarrow> bool" where
  "request_ok env r \<longleftrightarrow>
     \<not> in_prototype env \<and>
     (case r of
        Sent_Export \<Rightarrow> True
      | Sent_Activation k \<Rightarrow> can_write_license env \<and> k \<noteq> [] \<and> trim k = k
      | Sent_Deactivation \<Rightarrow> can_write_license env)"

definition license_inv :: "page_env \<Rightarrow> license_page \<Rightarrow> bool" where
  "license_inv env s \<longleftrightarrow> list_all (request_ok env) (lp_sent s) \<and> (lp_confirm s \<longrightarrow> can_write_license env)"

lemma apply_end_frame [simp]:
  "lp_sent (apply_sync_end env e s) = lp_sent s" "lp_confirm (apply_sync_end env e s) = lp_confirm s"
  by (simp_all add: apply_sync_end_def split: sync_end.split)

lemma ends_frame [simp]:
  "lp_sent (fold (\<lambda>j. apply_sync_end env (sj_end j)) js s) = lp_sent s"
  "lp_confirm (fold (\<lambda>j. apply_sync_end env (sj_end j)) js s) = lp_confirm s"
  by (induction js arbitrary: s) simp_all

lemma sync_frame [simp]:
  "lp_sent (finish_jobs env s) = lp_sent s" "lp_confirm (finish_jobs env s) = lp_confirm s"
  "lp_sent (start_sync env e s) = lp_sent s" "lp_confirm (start_sync env e s) = lp_confirm s"
  "lp_sent (close_panel s) = lp_sent s" "lp_confirm (close_panel s) = lp_confirm s"
  "lp_sent (clear_messages s) = lp_sent s" "lp_confirm (clear_messages s) = lp_confirm s"
  by (simp_all add: finish_jobs_def start_sync_def close_panel_def clear_messages_def Let_def)

lemma answer_frame [simp]:
  "lp_sent (license_arrives env n a s) = lp_sent s" "lp_confirm (license_arrives env n a s) = lp_confirm s"
  "lp_sent (scope_arrives env n b s) = lp_sent s" "lp_confirm (scope_arrives env n b s) = lp_confirm s"
  "lp_sent (download_request env r s) = lp_sent s" "lp_confirm (download_request env r s) = lp_confirm s"
  "lp_sent (activated env x s) = lp_sent s" "lp_confirm (activated env x s) = lp_confirm s"
  "lp_sent (deactivated env y s) = lp_sent s" "lp_confirm (deactivated env y s) = lp_confirm s"
  "lp_sent (import_license_file env f s) = lp_sent s" "lp_confirm (import_license_file env f s) = lp_confirm s"
  by (simp_all add: license_arrives_def scope_arrives_def download_request_def activated_def deactivated_def
      import_license_file_def Let_def split: sum.split option.split prod.split)

lemma download_ok: "license_inv env s \<Longrightarrow> license_inv env (press_download env s)"
  by (simp add: press_download_def Let_def license_inv_def request_ok_def)

lemma activate_ok: "license_inv env s \<Longrightarrow> license_inv env (press_activate env s)"
  by (auto simp: press_activate_def Let_def license_inv_def request_ok_def)

lemma deactivate_ok: "license_inv env s \<Longrightarrow> license_inv env (press_deactivate env s)"
  by (auto simp: press_deactivate_def license_inv_def)

lemma confirm_ok: "license_inv env s \<Longrightarrow> lp_confirm s \<Longrightarrow> license_inv env (confirm_deactivation env now s)"
  by (simp add: confirm_deactivation_def Let_def license_inv_def request_ok_def)

lemma license_inv_cong:
  "license_inv env s \<Longrightarrow> lp_sent s' = lp_sent s \<Longrightarrow> lp_confirm s' = lp_confirm s \<Longrightarrow> license_inv env s'"
  by (simp add: license_inv_def)

lemma close_ok: "license_inv env (close_panel s) = license_inv env s"
  by (simp add: license_inv_def)

lemma license_inv_step: "license_inv env s \<Longrightarrow> license_inv env (license_step env e s)"
  unfolding license_step_def close_ok
  by (cases e) (simp_all add: download_ok activate_ok deactivate_ok confirm_ok license_inv_cong, simp add: license_inv_def)

interpretation license_screen:
  event_system "\<lambda>s. s = license_page_init env stored" "license_step env" "license_inv env" for env stored
proof
  show "license_inv env s" if "s = license_page_init env stored" for s
    using that by (simp add: license_inv_def license_page_init_def Let_def)
qed (rule license_inv_step)

text \<open>
  Whatever is clicked and answered, the license page sends an activation or a deactivation only
  for a user who may write the license, an activation only with a trimmed text that is not empty,
  and nothing at all in the prototype.
\<close>

theorem license_requests_authorised:
  "list_all (request_ok env) (lp_sent (fold (license_step env) es (license_page_init env stored)))"
  using license_screen.inv_reachable [of "license_page_init env stored" env stored es] by (simp add: license_inv_def)

section \<open>What the user learns\<close>

text \<open>
  A deactivation is started from the header of the page, and its error is kept where only the
  offline panel of the activation tab shows it: on every other tab a deactivation that failed ends
  without any message.
\<close>

theorem failed_deactivation_silent:
  assumes "can_write_license env" and "\<not> in_prototype env" and "lp_tab s \<noteq> Lic_Activation"
    and "\<not> as_loading (shown (lp_license s))" and "\<not> la_deactivating (lp_actions s)"
    and "s' = fold (license_step env) [Press_Deactivate, Confirm_Deactivate now, Deactivation_Arrives (Inl e)] s"
  shows "page_messages s' = [] \<and> la_error (lp_actions s') = Some (error_to_message (page_t env) e) \<and> \<not> lp_confirm s'"
  using assms(1-5)
  by (simp add: assms(6) license_step_def press_deactivate_def clear_messages_def confirm_deactivation_def deactivated_def
      close_panel_def offline_shown_def page_messages_def js_truthy_str_def)

definition demo_license_env :: page_env where
  "demo_license_env =
     \<lparr>in_prototype = False,
      page_user =
        Some \<lparr>user_id = ''u1'', user_tenant_id = ''t1'', email = ''admin@example.com'', full_name = None,
          is_tenant_admin = False, is_super_admin = False, permissions = [''license:write'']\<rparr>,
      page_t = id\<rparr>"

definition demo_license_page :: license_page where \<comment> \<open>the page with both lists loaded\<close>
  "demo_license_page =
     (license_page_init demo_license_env None)\<lparr>lp_license := show_now (loaded proto_license) (resource_init True),
        lp_scope := show_now (loaded proto_scope) (resource_init True)\<rparr>"

theorem failed_deactivation_silent_witness:
  "let s' = fold (license_step demo_license_env)
              [Press_Deactivate, Confirm_Deactivate ''2026-01-01T00:00:00.000Z'', Deactivation_Arrives (Inl (Thrown JUndef))]
              demo_license_page
   in page_messages s' = [] \<and> la_error (lp_actions s') = Some (error_to_message id (Thrown JUndef)) \<and> \<not> lp_confirm s'"
proof -
  have "can_write_license demo_license_env" by code_simp
  moreover have "lp_tab demo_license_page \<noteq> Lic_Activation" "\<not> la_deactivating (lp_actions demo_license_page)"
    "\<not> as_loading (shown (lp_license demo_license_page))"
    by (simp_all add: demo_license_page_def license_page_init_def requested_license_tab_def Let_def show_now_def loaded_def)
  ultimately show ?thesis
    using failed_deactivation_silent [of demo_license_env demo_license_page _ "''2026-01-01T00:00:00.000Z''" "Thrown JUndef"]
    by (simp add: demo_license_env_def)
qed

lemma sync_always_succeeds:
  \<comment> \<open>the notice of a synchronisation does not depend on the answers, which may both be errors\<close>
  assumes "\<not> in_prototype env" and "\<not> license_busy s" and "lp_jobs s = []"
    and "s' = fold (license_step env)
               [Press_Sync, License_Arrives (Suc (latest (lp_license s))) a, Scope_Arrives (Suc (latest (lp_scope s))) b] s"
  shows "lp_notice s' = Some (page_t env ''licenseSyncedNotice'')"
  using assms(1-3)
  by (simp add: assms(4) license_step_def start_sync_def license_arrives_def scope_arrives_def finish_jobs_def
      close_panel_def load_license_def load_scope_def ask_def job_done_def apply_sync_end_def Let_def)

end
