(* ===== verification/Knowledge_Views.thy ===== *)
theory Knowledge_Views
  imports Knowledge_Hooks Model_Form Tables Page_Env
begin

text \<open>
  What the knowledge page shows and checks: \<open>pages/knowledge/knowledgeUtils.ts\<close>, the sidebar, the table of
  documents, the readiness of a base, the hand-over checklist and the form of a new base.  An entry
  of a list is one of the administration or of the workbench, with the fields both have.
\<close>

section \<open>Formatting\<close>

definition document_status_str :: "document_status \<Rightarrow> string" where
  "document_status_str s =
     (case s of Pending_Upload \<Rightarrow> ''pending_upload'' | Uploaded \<Rightarrow> ''uploaded'' | Ingesting \<Rightarrow> ''ingesting''
      | Indexed \<Rightarrow> ''indexed'' | Doc_Failed \<Rightarrow> ''failed'' | Deleted \<Rightarrow> ''deleted'')"

definition document_source_str :: "document_source \<Rightarrow> string" where
  "document_source_str s =
     (case s of Api_Upload \<Rightarrow> ''api_upload'' | Channel_Attachment \<Rightarrow> ''channel_attachment''
      | Internal_Import \<Rightarrow> ''internal_import'')"

definition format_knowledge_status :: "string \<Rightarrow> string" where \<comment> \<open>\<open>replace(/_/g, " ").toUpperCase()\<close>\<close>
  "format_knowledge_status s = to_upper (map (\<lambda>c. if c = CHR ''_'' then CHR '' '' else c) s)"

definition format_visibility_label :: "agent_visibility \<Rightarrow> (string \<Rightarrow> string) \<Rightarrow> string" where
  "format_visibility_label v t =
     (if v = Vis_Tenant then t ''knowledgeVisibilityTenant''
      else if v = Vis_Department then t ''knowledgeVisibilityDepartment''
      else t ''knowledgeVisibilityPrivate'')"

fun scale_unit :: "rat \<Rightarrow> string list \<Rightarrow> rat \<times> string" where
  "scale_unit x [] = (x, [])"
| "scale_unit x [u] = (x, u)"
| "scale_unit x (u # us) = (if 1024 \<le> x then scale_unit (x / 1024) us else (x, u))"

definition format_bytes :: "nat option \<Rightarrow> string \<Rightarrow> string" where
  "format_bytes v pending =
     (case v of
        None \<Rightarrow> pending
      | Some n \<Rightarrow>
          if n < 1024 then nat_str n @ '' B''
          else
            (let (x, u) = scale_unit (of_nat n / 1024) [''KB'', ''MB'', ''GB'']
             in to_fixed (if 10 \<le> x then 0 else 1) (Fin x) @ '' '' @ u))"

definition document_file_type :: "string option \<Rightarrow> string \<Rightarrow> string" where
  \<comment> \<open>the content type and the file name of a document\<close>
  "document_file_type ctype fname =
     (let ft = (if str_includes ''.'' fname then last (split ''.'' fname) else []);
          ct = (case ctype of None \<Rightarrow> [] | Some c \<Rightarrow> last (split ''/'' c))
      in to_upper (if ft \<noteq> [] then ft else if ct \<noteq> [] then ct else ''file''))"

section \<open>Entries of the lists\<close>

datatype base_item = Admin_Base knowledge_base | Work_Base workbench_base

fun bi_id :: "base_item \<Rightarrow> string" where
  "bi_id (Admin_Base b) = kb_id b"
| "bi_id (Work_Base b) = wb_id b"

fun bi_text :: "base_item \<Rightarrow> string" where \<comment> \<open>what the search of the sidebar looks at\<close>
  "bi_text (Admin_Base b) = join '' '' [kb_name b, coalesce (kb_description b) [], rag_engine_str (kb_rag_engine b)]"
| "bi_text (Work_Base b) = join '' '' [wb_name b, coalesce (wb_description b) [], []]"

fun admin_item :: "base_item \<Rightarrow> knowledge_base option" where \<comment> \<open>\<open>"rag_engine" in base ? base : null\<close>\<close>
  "admin_item (Admin_Base b) = Some b"
| "admin_item (Work_Base b) = None"

datatype document_item = Admin_Document knowledge_document | Work_Document workbench_document

fun di_status :: "document_item \<Rightarrow> document_status" where
  "di_status (Admin_Document d) = kd_status d"
| "di_status (Work_Document d) = wd_status d"

fun di_text :: "document_item \<Rightarrow> string" where
  "di_text (Admin_Document d) =
     join '' '' [kd_filename d, document_source_str (kd_source d), document_status_str (kd_status d)]"
| "di_text (Work_Document d) =
     join '' '' [wd_filename d, document_source_str (wd_source d), document_status_str (wd_status d)]"

definition filter_bases :: "string \<Rightarrow> base_item list \<Rightarrow> base_item list" where
  "filter_bases q bs =
     (let n = to_lower (trim q) in
      if n = [] then bs else filter (\<lambda>b. str_includes n (to_lower (bi_text b))) bs)"

datatype document_filter = Filter_All | Filter_Indexed | Filter_Processing | Filter_Failed

definition document_matches :: "string \<Rightarrow> document_filter \<Rightarrow> document_item \<Rightarrow> bool" where
  "document_matches q f d \<longleftrightarrow>
     str_includes (to_lower (trim q)) (to_lower (di_text d)) \<and>
     (case f of
        Filter_All \<Rightarrow> True
      | Filter_Indexed \<Rightarrow> di_status d = Indexed
      | Filter_Processing \<Rightarrow> di_status d = Ingesting \<or> di_status d = Pending_Upload
      | Filter_Failed \<Rightarrow> di_status d = Doc_Failed)"

definition filter_documents :: "string \<Rightarrow> document_filter \<Rightarrow> document_item list \<Rightarrow> document_item list" where
  "filter_documents q f ds = filter (document_matches q f) ds"

record document_table =
  dt_query :: string
  dt_filter :: document_filter
  dt_page :: int
  dt_page_size :: nat
  dt_last_key :: "string \<times> nat \<times> string \<times> document_filter"

definition dataset_key :: "string option \<Rightarrow> document_item list \<Rightarrow> document_table \<Rightarrow> string \<times> nat \<times> string \<times> document_filter" where
  \<comment> \<open>the four parts of the text \<open>datasetKey\<close>\<close>
  "dataset_key b ds s = (coalesce b [], length ds, dt_query s, dt_filter s)"

definition render_table :: "string option \<Rightarrow> document_item list \<Rightarrow> document_table \<Rightarrow> document_table" where
  "render_table b ds s =
     (if dataset_key b ds s = dt_last_key s then s else s\<lparr>dt_last_key := dataset_key b ds s, dt_page := 1\<rparr>)"

definition paged_documents :: "document_item list \<Rightarrow> document_table \<Rightarrow> document_item list" where
  "paged_documents ds s =
     (let rows = filter_documents (dt_query s) (dt_filter s) ds
      in paginate (safe_page (length rows) (dt_page_size s) (dt_page s)) (dt_page_size s) rows)"

section \<open>Readiness\<close>

definition still_processing :: "document_status \<Rightarrow> bool" where
  "still_processing s \<longleftrightarrow> s \<in> {Pending_Upload, Uploaded, Ingesting}"

datatype readiness_kind = Base_Empty | Base_Error | Base_Warning | Base_Ready

record base_readiness =
  br_kind :: readiness_kind
  br_indexed :: nat
  br_failed :: nat
  br_processing :: nat
  br_chunks :: nat
  br_bytes :: nat
  br_message :: string

definition readiness_state :: "knowledge_document list \<Rightarrow> knowledge_base option \<Rightarrow> (string \<Rightarrow> string) \<Rightarrow> base_readiness" where
  "readiness_state ds b t =
     (let indexed = length (filter (\<lambda>d. kd_status d = Indexed) ds);
          failed = length (filter (\<lambda>d. kd_status d = Doc_Failed) ds);
          processing = length (filter (\<lambda>d. still_processing (kd_status d)) ds);
          result = (\<lambda>k m. \<lparr>br_kind = k, br_indexed = indexed, br_failed = failed, br_processing = processing,
                      br_chunks = sum_list (map kd_chunk_count ds),
                      br_bytes = sum_list (map (\<lambda>d. coalesce (kd_size_bytes d) 0) ds), br_message = t m\<rparr>)
      in if b = None then result Base_Empty ''knowledgeReadinessSelectBase''
         else if ds = [] then result Base_Empty ''knowledgeReadinessUploadDocuments''
         else if 0 < failed then result Base_Error ''knowledgeReadinessFailedMessage''
         else if 0 < processing then result Base_Warning ''knowledgeReadinessProcessingMessage''
         else result Base_Ready ''knowledgeReadinessReadyMessage'')"

lemma readiness_ready:
  "br_kind (readiness_state ds b t) = Base_Ready \<longleftrightarrow>
   b \<noteq> None \<and> ds \<noteq> [] \<and> (\<forall>d\<in>set ds. kd_status d = Indexed \<or> kd_status d = Deleted)"
proof -
  have "kd_status d = Indexed \<or> kd_status d = Deleted \<longleftrightarrow> kd_status d \<noteq> Doc_Failed \<and> \<not> still_processing (kd_status d)" for d
    by (cases "kd_status d") (simp_all add: still_processing_def)
  then show ?thesis by (auto simp: readiness_state_def Let_def filter_empty_conv)
qed

section \<open>The hand-over checklist\<close>

definition retrieval_verified :: "knowledge_base option \<Rightarrow> retrieval_test_response option \<Rightarrow> bool" where
  "retrieval_verified b r \<longleftrightarrow>
     (case (b, r) of
        (Some x, Some y) \<Rightarrow> rr_knowledge_base_id y = kb_id x \<and> rr_results y \<noteq> []
      | _ \<Rightarrow> False)"

definition upload_evidence :: "document_upload_response option \<Rightarrow> bool" where
  "upload_evidence u \<longleftrightarrow> (case u of None \<Rightarrow> False | Some x \<Rightarrow> kd_id (du_document x) \<noteq> [])"

definition handoff_checks ::
  "knowledge_document list \<Rightarrow> knowledge_base option \<Rightarrow> retrieval_test_response option \<Rightarrow>
   document_upload_response option \<Rightarrow> (string \<times> check_tone) list" where
  "handoff_checks ds b r u =
     (let indexed = list_ex (\<lambda>d. kd_status d = Indexed) ds;
          failed = list_ex (\<lambda>d. kd_status d = Doc_Failed) ds;
          verified = retrieval_verified b r;
          late = (if verified then Check_Ok else if indexed then Check_Warning else Check_Blocked)
      in [(''base'', if b \<noteq> None then Check_Ok else Check_Blocked),
          (''documents'', if indexed then (if failed then Check_Warning else Check_Ok) else Check_Blocked),
          (''storage'',
            if upload_evidence u \<or> indexed then Check_Ok else if b \<noteq> None then Check_Warning else Check_Blocked),
          (''retrieval'', late), (''binding'', late)])"

lemma all_checks_passed:
  "checks_passed (handoff_checks ds b r u) = 5 \<longleftrightarrow>
   retrieval_verified b r \<and> (\<exists>d\<in>set ds. kd_status d = Indexed) \<and> (\<forall>d\<in>set ds. kd_status d \<noteq> Doc_Failed)"
  by (auto simp: checks_passed_def handoff_checks_def retrieval_verified_def Let_def list_ex_iff
      split: option.splits if_splits)

lemma foreign_upload_counts:
  \<comment> \<open>a document uploaded to another base passes the storage check of a base without documents\<close>
  "upload_evidence u \<Longrightarrow> (''storage'', Check_Ok) \<in> set (handoff_checks [] (Some b) r u)"
  by (simp add: handoff_checks_def Let_def)

definition handoff_steps :: "bool \<Rightarrow> bool \<Rightarrow> bool \<Rightarrow> bool list" where
  \<comment> \<open>which steps of \<open>KnowledgeHandoffSteps\<close> are done\<close>
  "handoff_steps selected has_documents has_indexed = [selected \<and> has_documents, selected \<and> has_indexed, False]"

section \<open>A new base\<close>

record base_form =
  bfm_department_ids :: "string list"
  bfm_description :: string
  bfm_name :: string
  bfm_rag_engine :: rag_engine
  bfm_tags :: string
  bfm_visibility :: agent_visibility

definition default_base_form :: base_form where
  "default_base_form =
     \<lparr>bfm_department_ids = [], bfm_description = ''Private enterprise knowledge for AgentHive RAG.'',
      bfm_name = ''Customer Support Knowledge'', bfm_rag_engine = Ragflow, bfm_tags = ''support, internal'',
      bfm_visibility = Vis_Tenant\<rparr>"

definition base_form_errors :: "base_form \<Rightarrow> string option \<times> string option" where
  \<comment> \<open>the keys of the messages for the name and the departments\<close>
  "base_form_errors f =
     (let name = trim (bfm_name f) in
      (if name = [] then Some ''knowledgeNameRequired''
       else if utf16_length name < 2 then Some ''knowledgeNameTooShort'' else None,
       if bfm_visibility f = Vis_Department \<and> bfm_department_ids f = [] then Some ''knowledgeDepartmentRequired'' else None))"

definition create_disabled :: "bool \<Rightarrow> bool \<Rightarrow> base_form \<Rightarrow> bool" where
  "create_disabled can_write saving f \<longleftrightarrow>
     \<not> can_write \<or> saving \<or> trim (bfm_name f) = [] \<or> (bfm_visibility f = Vis_Department \<and> bfm_department_ids f = [])"

definition toggle_department :: "string \<Rightarrow> base_form \<Rightarrow> base_form" where
  "toggle_department i f =
     f\<lparr>bfm_department_ids :=
        (if List.member (bfm_department_ids f) i then filter (\<lambda>x. x \<noteq> i) (bfm_department_ids f)
         else bfm_department_ids f @ [i])\<rparr>"

definition base_payload :: "base_form \<Rightarrow> knowledge_base_create" where
  "base_payload f =
     \<lparr>kbc_name = trim (bfm_name f),
      kbc_description = (if trim (bfm_description f) = [] then None else Some (trim (bfm_description f))),
      kbc_visibility = bfm_visibility f,
      kbc_department_ids = Some (if bfm_visibility f = Vis_Department then bfm_department_ids f else []),
      kbc_rag_engine = bfm_rag_engine f, kbc_embedding_model_key = None,
      kbc_retrieval_config =
        Some \<lparr>rc_top_k = 5, rc_score_threshold = None, rc_rerank_enabled = False, rc_citation_required = True,
          rc_metadata_filters = []\<rparr>,
      kbc_tags = Some (filter (\<lambda>s. s \<noteq> []) (map trim (split '','' (bfm_tags f)))),
      kbc_metadata = Some [(''created_from'', JStr ''admin_knowledge_page''), (''deployment_mode'', JStr ''private'')]\<rparr>"

lemma toggle_twice: "i \<notin> set (bfm_department_ids f) \<Longrightarrow> toggle_department i (toggle_department i f) = f"
proof -
  assume "i \<notin> set (bfm_department_ids f)"
  moreover from this have "filter (\<lambda>x. x \<noteq> i) (bfm_department_ids f) = bfm_department_ids f" by (auto intro: filter_True)
  ultimately show ?thesis by (simp add: toggle_department_def)
qed

lemma base_payload_tags: "t \<in> set (the (kbc_tags (base_payload f))) \<Longrightarrow> t \<noteq> [] \<and> trim t = t"
  by (auto simp: base_payload_def)

end
