(* ===== verification/Knowledge_Page.thy ===== *)
theory Knowledge_Page
  imports Knowledge_Views
begin

text \<open>
  The knowledge page, \<open>pages/knowledge/useKnowledgePageController.ts\<close> and \<open>KnowledgePage.tsx\<close>: the lists of
  the administration or of the workbench, the selected base, the form of a new base and the
  handlers.  A retrieval test and an action on a document are in flight from their start to their
  answer, when they go on with what the page was at their start; the actions on a base run without
  interruption.  A server answers a load of documents by a function of the base.  In the prototype the lists are those of the store, which the actions change.
  The number of hits asked for is a whole number, as the field for it says.
\<close>

section \<open>State\<close>

datatype knowledge_tab = Knowledge_Handoff | Knowledge_Documents | Knowledge_Retrieval

datatype document_action = Do_Upload upload_file "upload_file list" | Do_Delete string | Do_Reingest string

datatype document_answer = Answer_Upload document_upload_response | Answer_Delete knowledge_delete_response

record knowledge_page =
  kp_tab :: knowledge_tab
  kp_admin_bases :: "(unit, knowledge_base list) resource"
  kp_work_bases :: "(unit, workbench_base list) resource"
  kp_targets :: "(unit, knowledge_targets) resource"
  kp_admin_documents :: "(string, knowledge_document list) resource"
  kp_work_documents :: "(string, workbench_document list) resource"
  kp_actions :: "knowledge_mark actions"
  kp_store :: store
  kp_selected :: "string option"
  kp_form :: base_form
  kp_query :: string
  kp_top_k :: int
  kp_result :: "retrieval_test_response option"
  kp_upload :: "document_upload_response option"
  kp_testing :: "(string \<times> retrieval_test_request) option" \<comment> \<open>the retrieval test in flight\<close>
  kp_flight :: "(document_action \<times> string) list" \<comment> \<open>the actions on documents in flight, with their base\<close>
  kp_drawer :: bool
  kp_pending_delete :: "string option" \<comment> \<open>the base whose deletion is to be confirmed\<close>
  kp_session :: "(string \<times> string) list" \<comment> \<open>what was written to the session storage\<close>

record knowledge_env =
  kn_env :: page_env
  kn_call :: call_env
  kn_admin_workspace :: bool

definition can_write_knowledge :: "knowledge_env \<Rightarrow> bool" where
  "can_write_knowledge env = has_permission ''knowledge:write'' (kn_env env)"

definition can_read_knowledge :: "knowledge_env \<Rightarrow> bool" where
  "can_read_knowledge env \<longleftrightarrow>
     in_prototype (kn_env env) \<or> can_access (page_user (kn_env env)) (Some [''knowledge:read'', ''knowledge:write'']) None"

definition admin_options :: "knowledge_env \<Rightarrow> hook_options" where
  "admin_options env = \<lparr>hook_enabled = can_write_knowledge env, fallback_on_error = in_prototype (kn_env env)\<rparr>"

definition work_options :: "knowledge_env \<Rightarrow> hook_options" where
  "work_options env =
     \<lparr>hook_enabled = (can_read_knowledge env \<and> \<not> can_write_knowledge env), fallback_on_error = in_prototype (kn_env env)\<rparr>"

definition show_delivery_diagnostics :: "knowledge_env \<Rightarrow> bool" where
  "show_delivery_diagnostics env = kn_admin_workspace env"

section \<open>Derived values\<close>

definition bases_data :: "knowledge_env \<Rightarrow> knowledge_page \<Rightarrow> base_item list option" where
  \<comment> \<open>the data of the list in use, if it has any\<close>
  "bases_data env s =
     (let snap = current_snapshot (kp_store s) in
      if can_write_knowledge env
      then map_option (map Admin_Base) (as_data (knowledge_bases_shown (admin_options env) snap (kp_admin_bases s)))
      else map_option (map Work_Base) (as_data (workbench_bases_shown (work_options env) snap (kp_work_bases s))))"

definition base_list :: "knowledge_env \<Rightarrow> knowledge_page \<Rightarrow> base_item list" where
  "base_list env s = coalesce (bases_data env s) []"

definition selected_base :: "knowledge_env \<Rightarrow> knowledge_page \<Rightarrow> base_item option" where
  "selected_base env s =
     (case List.find (\<lambda>b. Some (bi_id b) = kp_selected s) (base_list env s) of
        Some b \<Rightarrow> Some b
      | None \<Rightarrow> (case base_list env s of [] \<Rightarrow> None | b # _ \<Rightarrow> Some b))"

definition selected_base_id :: "knowledge_env \<Rightarrow> knowledge_page \<Rightarrow> string option" where
  "selected_base_id env s = map_option bi_id (selected_base env s)"

definition document_list :: "knowledge_env \<Rightarrow> knowledge_page \<Rightarrow> document_item list" where
  "document_list env s =
     (let snap = current_snapshot (kp_store s); b = selected_base_id env s in
      if can_write_knowledge env
      then map Admin_Document (coalesce (as_data (documents_shown (admin_options env) snap b (kp_admin_documents s))) [])
      else map Work_Document (coalesce (as_data (workbench_documents_shown (work_options env) snap b (kp_work_documents s))) []))"

definition department_choices :: "knowledge_env \<Rightarrow> knowledge_page \<Rightarrow> (string \<times> string) list" where
  "department_choices env s =
     map (\<lambda>x. (kt_id x, kt_label x))
       (coalesce (map_option kts_departments (as_data (knowledge_targets_shown (admin_options env) (kp_targets s)))) [])"

definition knowledge_tabs :: "knowledge_env \<Rightarrow> knowledge_tab list" where
  "knowledge_tabs env =
     (if can_write_knowledge env \<and> show_delivery_diagnostics env then [Knowledge_Handoff] else []) @
     [Knowledge_Documents] @ (if can_write_knowledge env then [Knowledge_Retrieval] else [])"

section \<open>Loading\<close>

definition refetch_bases :: "knowledge_env \<Rightarrow> knowledge_page \<Rightarrow> knowledge_page" where
  "refetch_bases env s =
     (let snap = current_snapshot (kp_store s) in
      if can_write_knowledge env
      then s\<lparr>kp_admin_bases := load_knowledge_bases (admin_options env) snap (kp_admin_bases s)\<rparr>
      else s\<lparr>kp_work_bases := load_workbench_bases (work_options env) snap (kp_work_bases s)\<rparr>)"

definition refetch_documents :: "knowledge_env \<Rightarrow> knowledge_page \<Rightarrow> knowledge_page" where
  "refetch_documents env s =
     (let snap = current_snapshot (kp_store s); b = selected_base_id env s in
      if can_write_knowledge env
      then s\<lparr>kp_admin_documents := load_documents (admin_options env) snap b (kp_admin_documents s)\<rparr>
      else s\<lparr>kp_work_documents := load_workbench_documents (work_options env) snap b (kp_work_documents s)\<rparr>)"

definition reload_documents :: "knowledge_env \<Rightarrow> knowledge_page \<Rightarrow> knowledge_page" where
  \<comment> \<open>the effects of both document hooks, for another base\<close>
  "reload_documents env s =
     (let snap = current_snapshot (kp_store s); b = selected_base_id env s in
      s\<lparr>kp_admin_documents := load_documents (admin_options env) snap b (leave (kp_admin_documents s)),
        kp_work_documents := load_workbench_documents (work_options env) snap b (leave (kp_work_documents s))\<rparr>)"

definition mount_knowledge :: "knowledge_env \<Rightarrow> knowledge_page \<Rightarrow> knowledge_page" where
  "mount_knowledge env s =
     (let snap = current_snapshot (kp_store s) in
      s\<lparr>kp_admin_bases := load_knowledge_bases (admin_options env) snap (kp_admin_bases s),
        kp_work_bases := load_workbench_bases (work_options env) snap (kp_work_bases s),
        kp_targets := load_knowledge_targets (admin_options env) (kp_targets s),
        kp_admin_documents := load_documents (admin_options env) snap (selected_base_id env s) (kp_admin_documents s),
        kp_work_documents := load_workbench_documents (work_options env) snap (selected_base_id env s) (kp_work_documents s)\<rparr>)"

section \<open>Effects\<close>

definition settle_selection :: "knowledge_env \<Rightarrow> knowledge_page \<Rightarrow> knowledge_page" where
  "settle_selection env s =
     (case base_list env s of
        [] \<Rightarrow> s\<lparr>kp_selected := None\<rparr>
      | b # bs \<Rightarrow>
          if list_ex (\<lambda>x. Some (bi_id x) = kp_selected s) (b # bs) \<and> js_truthy_str (kp_selected s) then s
          else s\<lparr>kp_selected := Some (bi_id b)\<rparr>)"

definition settle_tab :: "knowledge_env \<Rightarrow> knowledge_page \<Rightarrow> knowledge_page" where
  "settle_tab env s =
     (if \<not> can_write_knowledge env \<and> kp_tab s = Knowledge_Retrieval then s\<lparr>kp_tab := Knowledge_Documents\<rparr>
      else if \<not> show_delivery_diagnostics env \<and> kp_tab s = Knowledge_Handoff then s\<lparr>kp_tab := Knowledge_Documents\<rparr>
      else s)"

definition knowledge_effects :: "knowledge_env \<Rightarrow> bool \<Rightarrow> knowledge_page \<Rightarrow> knowledge_page \<Rightarrow> knowledge_page" where
  \<comment> \<open>after a step from \<open>old\<close>: the selection follows a list that is another array, which a list without
      data is at every render; the documents follow the selected base\<close>
  "knowledge_effects env answered old s =
     (let s1 = (if answered \<or> bases_data env s \<noteq> bases_data env old \<or> bases_data env s = None
                then settle_selection env s else s);
          s2 = settle_tab env s1
      in if selected_base_id env s2 = selected_base_id env old then s2 else reload_documents env s2)"

section \<open>Handlers\<close>

definition knowledge_world :: "knowledge_page \<Rightarrow> knowledge_mark actions \<times> store" where
  "knowledge_world s = (kp_actions s, kp_store s)"

definition after_knowledge ::
  "'r option \<times> knowledge_mark actions \<times> store \<Rightarrow> ('r \<Rightarrow> knowledge_page \<Rightarrow> knowledge_page) \<Rightarrow> knowledge_page \<Rightarrow> knowledge_page" where
  "after_knowledge r next s =
     (let s' = s\<lparr>kp_actions := fst (snd r), kp_store := snd (snd r)\<rparr>
      in case fst r of None \<Rightarrow> s' | Some x \<Rightarrow> next x s')"

definition handle_create_base :: "knowledge_env \<Rightarrow> exn + knowledge_base \<Rightarrow> knowledge_page \<Rightarrow> knowledge_page" where
  \<comment> \<open>from the drawer, which closes on success\<close>
  "handle_create_base env r s =
     (if \<not> can_write_knowledge env then s
      else after_knowledge (create_base_action (kn_call env) (base_payload (kp_form s)) r (knowledge_world s))
             (\<lambda>b s'. (refetch_bases env
                (s'\<lparr>kp_selected := Some (kb_id b), kp_result := None, kp_form := default_base_form\<rparr>))\<lparr>kp_drawer := False\<rparr>) s)"

definition clamp_top_k :: "int \<Rightarrow> int" where "clamp_top_k k = min 50 (max 1 k)"

definition retrieval_request :: "knowledge_page \<Rightarrow> retrieval_test_request" where
  "retrieval_request s =
     \<lparr>rt_query = trim (kp_query s), rt_top_k = clamp_top_k (kp_top_k s), rt_filters = Some [], rt_rerank = Some False\<rparr>"

definition retrieval_arrives :: "knowledge_env \<Rightarrow> exn + retrieval_test_response \<Rightarrow> knowledge_page \<Rightarrow> knowledge_page" where
  "retrieval_arrives env r s =
     (case kp_testing s of
        None \<Rightarrow> s
      | Some _ \<Rightarrow>
          (let (x, a) = act_end (call_t (kn_call env)) True Testing
                 (\<lambda>u. replace_first ''{{count}}'' (nat_str (length (rr_results u))) (call_t (kn_call env) ''knowledgeRetrievedSources''))
                 r (kp_actions s);
               s' = s\<lparr>kp_testing := None, kp_actions := a\<rparr>
           in case x of None \<Rightarrow> s' | Some u \<Rightarrow> s'\<lparr>kp_result := Some u\<rparr>))"

definition handle_retrieval_test :: "knowledge_env \<Rightarrow> knowledge_page \<Rightarrow> knowledge_page" where
  "handle_retrieval_test env s =
     (case selected_base env s of
        None \<Rightarrow> s
      | Some b \<Rightarrow>
          if trim (kp_query s) = [] then s
          else
            (let s' = s\<lparr>kp_testing := Some (bi_id b, retrieval_request s),
                        kp_actions := act_begin Testing [] (kp_actions s)\<rparr>
             in if call_proto (kn_call env)
                then retrieval_arrives env (Inr (proto_retrieval_test (call_now (kn_call env)) (bi_id b) (retrieval_request s))) s'
                else s'))"

definition uploading_now :: "knowledge_page \<Rightarrow> bool" where
  "uploading_now s \<longleftrightarrow> marks (kp_actions s) Uploading \<noteq> None"

definition prototype_document_action :: "knowledge_env \<Rightarrow> document_action \<Rightarrow> string \<Rightarrow> knowledge_page \<Rightarrow> knowledge_page" where
  \<comment> \<open>the store answers at once\<close>
  "prototype_document_action env a b s =
     (let upload = (\<lambda>f s. after_knowledge (upload_action (kn_call env) b f (Inl (Thrown JUndef)) (knowledge_world s))
                            (\<lambda>u s'. refetch_bases env (refetch_documents env (s'\<lparr>kp_upload := Some u\<rparr>))) s)
      in case a of
           Do_Upload f fs \<Rightarrow> fold upload (f # fs) s
         | Do_Delete d \<Rightarrow>
             after_knowledge (delete_document_action (kn_call env) b d (Inl (Thrown JUndef)) (knowledge_world s))
               (\<lambda>_ s'. refetch_bases env (refetch_documents env (s'\<lparr>kp_result := None, kp_upload := None\<rparr>))) s
         | Do_Reingest d \<Rightarrow>
             after_knowledge (reingest_action (kn_call env) b d (Inl (Thrown JUndef)) (knowledge_world s))
               (\<lambda>u s'. refetch_bases env (refetch_documents env (s'\<lparr>kp_upload := Some u, kp_result := None\<rparr>))) s)"

fun document_mark :: "document_action \<Rightarrow> knowledge_mark \<times> string" where
  "document_mark (Do_Upload f fs) = (Uploading, [])"
| "document_mark (Do_Delete d) = (Deleting_Document, d)"
| "document_mark (Do_Reingest d) = (Reingesting, d)"

definition begin_document_action :: "knowledge_env \<Rightarrow> document_action \<Rightarrow> string \<Rightarrow> knowledge_page \<Rightarrow> knowledge_page" where
  "begin_document_action env a b s =
     s\<lparr>kp_flight := kp_flight s @ [(a, b)],
       kp_actions := act_begin (fst (document_mark a)) (snd (document_mark a)) (kp_actions s)\<rparr>"

definition start_document_action :: "knowledge_env \<Rightarrow> document_action \<Rightarrow> knowledge_page \<Rightarrow> knowledge_page" where
  \<comment> \<open>\<open>handleUploadFile\<close>, \<open>handleUploadDocumentFile\<close>, \<open>handleDeleteKnowledgeDocument\<close> and
      \<open>handleReingestKnowledgeDocument\<close> up to their request\<close>
  "start_document_action env a s =
     (case selected_base env s of
        None \<Rightarrow> s
      | Some b \<Rightarrow>
          if \<not> can_write_knowledge env \<or> (fst (document_mark a) = Uploading \<and> uploading_now s) then s
          else if call_proto (kn_call env) then prototype_document_action env a (bi_id b) s
          else begin_document_action env a (bi_id b) s)"

definition document_label :: "knowledge_env \<Rightarrow> document_action \<Rightarrow> document_answer \<Rightarrow> string" where
  "document_label env a r =
     (let t = call_t (kn_call env) in
      case r of
        Answer_Delete k \<Rightarrow> text_or (kx_message k) (t ''knowledgeDocumentDeleted'')
      | Answer_Upload u \<Rightarrow>
          (case a of
             Do_Upload f fs \<Rightarrow>
               text_or (du_message u) (replace_first ''{{name}}'' (kd_filename (du_document u)) (t ''knowledgeDocumentUploaded''))
           | _ \<Rightarrow> reingest_label (kn_call env) u))"

definition answer_fits :: "document_action \<Rightarrow> document_answer \<Rightarrow> bool" where
  "answer_fits a r \<longleftrightarrow> (case (a, r) of (Do_Delete _, Answer_Upload _) \<Rightarrow> False | (Do_Delete _, _) \<Rightarrow> True
                         | (_, Answer_Upload _) \<Rightarrow> True | _ \<Rightarrow> False)"

definition apply_document_answer :: "document_action \<Rightarrow> document_answer \<Rightarrow> knowledge_page \<Rightarrow> knowledge_page" where
  "apply_document_answer a r s =
     (case r of
        Answer_Delete k \<Rightarrow> s\<lparr>kp_result := None, kp_upload := None\<rparr>
      | Answer_Upload u \<Rightarrow>
          (case a of Do_Upload f fs \<Rightarrow> s\<lparr>kp_upload := Some u\<rparr> | _ \<Rightarrow> s\<lparr>kp_upload := Some u, kp_result := None\<rparr>))"

definition refetch_documents_of :: "knowledge_env \<Rightarrow> string \<Rightarrow> knowledge_page \<Rightarrow> knowledge_page" where
  \<comment> \<open>the \<open>refetchDocuments\<close> an action got at its start: it loads the base of that time\<close>
  "refetch_documents_of env b s =
     s\<lparr>kp_admin_documents := load_documents (admin_options env) (current_snapshot (kp_store s)) (Some b) (kp_admin_documents s)\<rparr>"

definition document_action_arrives :: "knowledge_env \<Rightarrow> nat \<Rightarrow> exn + document_answer \<Rightarrow> knowledge_page \<Rightarrow> knowledge_page" where
  "document_action_arrives env k r s =
     (if length (kp_flight s) \<le> k then s
      else
        (let (a, b) = kp_flight s ! k;
             (x, acts) = act_end (call_t (kn_call env)) True (fst (document_mark a)) (document_label env a) r (kp_actions s);
             s1 = s\<lparr>kp_flight := take k (kp_flight s) @ drop (Suc k) (kp_flight s), kp_actions := acts\<rparr>;
             s2 = (case x of
                     None \<Rightarrow> s1
                   | Some y \<Rightarrow> refetch_bases env (refetch_documents_of env b (apply_document_answer a y s1)))
         in case a of
              Do_Upload f (f' # fs) \<Rightarrow> begin_document_action env (Do_Upload f' fs) b s2
            | _ \<Rightarrow> s2))"

definition handle_delete_base :: "knowledge_env \<Rightarrow> string \<Rightarrow> exn + knowledge_delete_response \<Rightarrow> knowledge_page \<Rightarrow> knowledge_page" where
  "handle_delete_base env i r s =
     (if \<not> can_write_knowledge env \<or> \<not> list_ex (\<lambda>b. bi_id b = i) (base_list env s) then s
      else after_knowledge (delete_base_action (kn_call env) i r (knowledge_world s))
             (\<lambda>_ s'. refetch_bases env
                (s'\<lparr>kp_selected := (if kp_selected s' = Some i then None else kp_selected s'), kp_result := None,
                    kp_upload := None\<rparr>)) s)"

definition handle_select_base :: "string \<Rightarrow> knowledge_page \<Rightarrow> knowledge_page" where
  "handle_select_base i s = s\<lparr>kp_selected := Some i, kp_result := None\<rparr>"

definition handle_open_agent_binding :: "knowledge_env \<Rightarrow> knowledge_page \<Rightarrow> knowledge_page" where
  "handle_open_agent_binding env s =
     s\<lparr>kp_session := kp_session s @ (''agenthive.agents.default_tab'', ''instances'') #
        (case selected_base env s of
           None \<Rightarrow> [] | Some b \<Rightarrow> [(''agenthive.agents.default_knowledge_base_id'', bi_id b)])\<rparr>"

definition confirm_delete_base :: "knowledge_env \<Rightarrow> exn + knowledge_delete_response \<Rightarrow> knowledge_page \<Rightarrow> knowledge_page" where
  "confirm_delete_base env r s =
     (case kp_pending_delete s of
        None \<Rightarrow> s | Some i \<Rightarrow> handle_delete_base env i r (s\<lparr>kp_pending_delete := None\<rparr>))"

section \<open>Events\<close>

datatype knowledge_event =
    Knowledge_Mount
  | Bases_Arrive nat "nat \<Rightarrow> exn + knowledge_base_list"
  | Work_Bases_Arrive nat "nat \<Rightarrow> exn + workbench_base_list"
  | Targets_Arrive nat "nat \<Rightarrow> exn + knowledge_targets"
  | Admin_Documents_Arrive nat "string \<Rightarrow> nat \<Rightarrow> exn + knowledge_document_list"
  | Work_Documents_Arrive nat "string \<Rightarrow> nat \<Rightarrow> exn + workbench_document_list"
  | Show_Knowledge_Tab knowledge_tab
  | Select_Base string
  | Open_Drawer
  | Close_Drawer
  | Edit_Base_Form base_form
  | Press_Create_Base "exn + knowledge_base"
  | Type_Query string
  | Type_Top_K int
  | Press_Retrieval
  | Retrieval_Arrives "exn + retrieval_test_response"
  | Start_Action document_action
  | Action_Arrives nat "exn + document_answer"
  | Ask_Delete_Base string
  | Confirm_Delete_Base "exn + knowledge_delete_response"
  | Cancel_Delete_Base
  | Open_Agent_Binding
  | Retry_Bases
  | Retry_Documents

definition knowledge_handle :: "knowledge_env \<Rightarrow> knowledge_event \<Rightarrow> knowledge_page \<Rightarrow> knowledge_page" where
  "knowledge_handle env e s =
     (let t = page_t (kn_env env) in
      case e of
        Knowledge_Mount \<Rightarrow> mount_knowledge env s
      | Bases_Arrive n a \<Rightarrow>
          if in_waiting n (kp_admin_bases s) then s\<lparr>kp_admin_bases := knowledge_bases_answered t n a (kp_admin_bases s)\<rparr> else s
      | Work_Bases_Arrive n a \<Rightarrow>
          if in_waiting n (kp_work_bases s) then s\<lparr>kp_work_bases := workbench_bases_answered t n a (kp_work_bases s)\<rparr> else s
      | Targets_Arrive n a \<Rightarrow>
          if in_waiting n (kp_targets s) then s\<lparr>kp_targets := knowledge_targets_answered t n a (kp_targets s)\<rparr> else s
      | Admin_Documents_Arrive n srv \<Rightarrow>
          (case map_of (waiting (kp_admin_documents s)) n of
             None \<Rightarrow> s
           | Some b \<Rightarrow> s\<lparr>kp_admin_documents := documents_answered t n (srv b) (kp_admin_documents s)\<rparr>)
      | Work_Documents_Arrive n srv \<Rightarrow>
          (case map_of (waiting (kp_work_documents s)) n of
             None \<Rightarrow> s
           | Some b \<Rightarrow> s\<lparr>kp_work_documents := workbench_documents_answered t n (srv b) (kp_work_documents s)\<rparr>)
      | Show_Knowledge_Tab tab \<Rightarrow> if List.member (knowledge_tabs env) tab then s\<lparr>kp_tab := tab\<rparr> else s
      | Select_Base i \<Rightarrow> if list_ex (\<lambda>b. bi_id b = i) (base_list env s) then handle_select_base i s else s
      | Open_Drawer \<Rightarrow> s\<lparr>kp_form := default_base_form, kp_drawer := True\<rparr>
      | Close_Drawer \<Rightarrow> s\<lparr>kp_drawer := False\<rparr>
      | Edit_Base_Form f \<Rightarrow> if kp_drawer s then s\<lparr>kp_form := f\<rparr> else s
      | Press_Create_Base r \<Rightarrow>
          if kp_drawer s \<and> \<not> create_disabled (can_write_knowledge env) (marks (kp_actions s) Saving_Base \<noteq> None) (kp_form s) \<and>
             base_form_errors (kp_form s) = (None, None)
          then handle_create_base env r s else s
      | Type_Query q \<Rightarrow> s\<lparr>kp_query := q\<rparr>
      | Type_Top_K k \<Rightarrow> s\<lparr>kp_top_k := k\<rparr>
      | Press_Retrieval \<Rightarrow>
          if kp_tab s = Knowledge_Retrieval \<and> can_write_knowledge env \<and> marks (kp_actions s) Testing = None
          then handle_retrieval_test env s else s
      | Retrieval_Arrives r \<Rightarrow> retrieval_arrives env r s
      | Start_Action a \<Rightarrow> start_document_action env a s
      | Action_Arrives k r \<Rightarrow>
          if k < length (kp_flight s) \<and> (case r of Inl _ \<Rightarrow> True | Inr y \<Rightarrow> answer_fits (fst (kp_flight s ! k)) y)
          then document_action_arrives env k r s else s
      | Ask_Delete_Base i \<Rightarrow> s\<lparr>kp_pending_delete := Some i\<rparr>
      | Confirm_Delete_Base r \<Rightarrow> confirm_delete_base env r s
      | Cancel_Delete_Base \<Rightarrow> s\<lparr>kp_pending_delete := None\<rparr>
      | Open_Agent_Binding \<Rightarrow> handle_open_agent_binding env s
      | Retry_Bases \<Rightarrow> refetch_bases env s
      | Retry_Documents \<Rightarrow> refetch_documents env s)"

fun bases_answer :: "knowledge_event \<Rightarrow> bool" where
  "bases_answer (Bases_Arrive n a) = True"
| "bases_answer (Work_Bases_Arrive n a) = True"
| "bases_answer _ = False"

definition knowledge_step :: "knowledge_env \<Rightarrow> knowledge_event \<Rightarrow> knowledge_page \<Rightarrow> knowledge_page" where
  "knowledge_step env e s = knowledge_effects env (bases_answer e) s (knowledge_handle env e s)"

definition knowledge_page_init :: "knowledge_env \<Rightarrow> store \<Rightarrow> knowledge_page" where
  "knowledge_page_init env st =
     \<lparr>kp_tab = Knowledge_Documents, kp_admin_bases = resource_init (hook_enabled (admin_options env)),
      kp_work_bases = resource_init (hook_enabled (work_options env)),
      kp_targets = resource_init (hook_enabled (admin_options env)), kp_admin_documents = resource_init False,
      kp_work_documents = resource_init False, kp_actions = actions_init, kp_store = st, kp_selected = None,
      kp_form = default_base_form, kp_query = ''How should the assistant answer policy questions?'', kp_top_k = 5,
      kp_result = None, kp_upload = None, kp_testing = None, kp_flight = [], kp_drawer = False,
      kp_pending_delete = None, kp_session = []\<rparr>"

section \<open>Late answers\<close>

lemma writer_options:
  assumes "can_write_knowledge env" and "\<not> in_prototype (kn_env env)"
  shows "admin_options env = \<lparr>hook_enabled = True, fallback_on_error = False\<rparr>"
  using assms by (simp add: admin_options_def)

lemma writer_bases:
  assumes "can_write_knowledge env" and "\<not> in_prototype (kn_env env)"
  shows "bases_data env s = map_option (map Admin_Base) (as_data (shown (kp_admin_bases s)))"
  using assms by (simp add: bases_data_def Let_def writer_options knowledge_bases_shown_def shown_as_def)

lemma selection_cong:
  assumes "bases_data env s' = bases_data env s" and "kp_selected s' = kp_selected s"
  shows "selected_base_id env s' = selected_base_id env s"
proof -
  have "base_list env s' = base_list env s" using assms by (simp add: base_list_def)
  with assms(2) show ?thesis by (simp only: selected_base_id_def selected_base_def)
qed

lemma selects_listed:
  assumes "bases_data env s = Some bs" and "list_ex (\<lambda>b. bi_id b = j) bs" and "kp_selected s = Some j"
  shows "selected_base_id env s = Some j"
proof -
  from assms(2) obtain b where b: "b \<in> set bs" "bi_id b = j" by (auto simp: list_ex_iff)
  obtain c where c: "List.find (\<lambda>x. bi_id x = j) bs = Some c"
    using find_Some_ex [of b bs "\<lambda>x. bi_id x = j"] b by auto
  with assms(1,3) find_Some_mem [OF c] show ?thesis
    by (simp add: selected_base_id_def selected_base_def base_list_def)
qed

definition writer_view :: "knowledge_env \<Rightarrow> base_item list \<Rightarrow> string \<Rightarrow> knowledge_page \<Rightarrow> bool" where
  \<comment> \<open>a writer outside the prototype sees the documents of base \<open>i\<close> out of the loaded bases \<open>bs\<close>\<close>
  "writer_view env bs i s \<longleftrightarrow>
     can_write_knowledge env \<and> \<not> in_prototype (kn_env env) \<and> \<not> call_proto (kn_call env) \<and>
     bases_data env s = Some bs \<and> selected_base_id env s = Some i \<and> kp_tab s = Knowledge_Documents"

lemma view_bases:
  assumes "writer_view env bs i s" and "as_data (shown (kp_admin_bases s')) = as_data (shown (kp_admin_bases s))"
  shows "bases_data env s' = Some bs"
proof -
  from assms(1) have "can_write_knowledge env" "\<not> in_prototype (kn_env env)" by (simp_all add: writer_view_def)
  from writer_bases [OF this, of s] writer_bases [OF this, of s'] assms show ?thesis by (simp add: writer_view_def)
qed

lemma writer_view_kept:
  assumes "writer_view env bs i s" and "kp_selected s' = kp_selected s" and "kp_tab s' = kp_tab s"
    and "as_data (shown (kp_admin_bases s')) = as_data (shown (kp_admin_bases s))"
  shows "writer_view env bs i s'" "knowledge_effects env False s s' = s'"
proof -
  have b: "bases_data env s' = bases_data env s"
    using view_bases [OF assms(1,4)] assms(1) by (simp add: writer_view_def)
  from selection_cong [OF b assms(2)] assms(1,3) b show "writer_view env bs i s'" by (simp add: writer_view_def)
  then show "knowledge_effects env False s s' = s'"
    using assms(1) by (simp add: writer_view_def knowledge_effects_def settle_tab_def Let_def)
qed

lemma upload_started:
  assumes "writer_view env bs i s" and "kp_flight s = []" and "\<not> uploading_now s"
  shows "\<exists>s'. knowledge_step env (Start_Action (Do_Upload f [])) s = s' \<and> writer_view env bs i s' \<and>
              kp_flight s' = [(Do_Upload f [], i)] \<and> kp_admin_documents s' = kp_admin_documents s"
proof -
  let ?s = "s\<lparr>kp_flight := [(Do_Upload f [], i)], kp_actions := act_begin Uploading [] (kp_actions s)\<rparr>"
  from assms(1) obtain b where "selected_base env s = Some b" "bi_id b = i"
    by (auto simp: writer_view_def selected_base_id_def)
  with assms have "knowledge_handle env (Start_Action (Do_Upload f [])) s = ?s"
    by (simp add: knowledge_handle_def start_document_action_def begin_document_action_def writer_view_def Let_def)
  with writer_view_kept [OF assms(1), of ?s] show ?thesis by (simp add: knowledge_step_def)
qed

lemma other_selected:
  assumes "writer_view env bs i s" and "list_ex (\<lambda>b. bi_id b = j) bs" "j \<noteq> i" "j \<noteq> []"
  shows "\<exists>s'. knowledge_step env (Select_Base j) s = s' \<and> writer_view env bs j s' \<and> kp_flight s' = kp_flight s \<and>
              kp_admin_documents s' = ask j (leave (kp_admin_documents s))"
proof -
  let ?h = "handle_select_base j s"
  have b: "bases_data env ?h = Some bs" and t: "kp_tab ?h = Knowledge_Documents"
    using assms(1) view_bases [OF assms(1), of ?h] by (simp_all add: handle_select_base_def writer_view_def)
  have i: "selected_base_id env ?h = Some j"
    by (rule selects_listed [OF b assms(2)]) (simp add: handle_select_base_def)
  have h: "knowledge_handle env (Select_Base j) s = ?h"
    using assms(1,2) by (simp add: knowledge_handle_def writer_view_def base_list_def Let_def)
  have e: "knowledge_effects env False s ?h = reload_documents env ?h"
    using b t i assms(1,3) by (simp add: knowledge_effects_def settle_tab_def writer_view_def Let_def)
  let ?r = "reload_documents env ?h"
  have r: "kp_admin_bases ?r = kp_admin_bases s" "kp_selected ?r = Some j" "kp_tab ?r = Knowledge_Documents"
    "kp_flight ?r = kp_flight s"
    using assms(1) by (simp_all add: reload_documents_def Let_def handle_select_base_def writer_view_def)
  have "kp_admin_documents ?r = ask j (leave (kp_admin_documents ?h))"
    using assms(1,4) i
    by (simp add: reload_documents_def writer_view_def writer_options load_documents_def base_given_def Let_def)
  moreover have "bases_data env ?r = Some bs" using view_bases [OF assms(1), of ?r] r by simp
  moreover have "kp_admin_documents ?h = kp_admin_documents s" by (simp add: handle_select_base_def)
  ultimately show ?thesis
    using assms(1,2) r selects_listed [of env ?r bs j] by (simp add: knowledge_step_def h e writer_view_def)
qed

lemma documents_answered_step:
  assumes "writer_view env bs i s" and "waiting (kp_admin_documents s) = [(n, q)]" "n = latest (kp_admin_documents s)"
  shows "\<exists>s'. knowledge_step env (Admin_Documents_Arrive n srv) s = s' \<and> writer_view env bs i s' \<and> kp_flight s' = kp_flight s \<and>
              waiting (kp_admin_documents s') = [] \<and> latest (kp_admin_documents s') = n \<and>
              shown (kp_admin_documents s') = settle (page_t (kn_env env)) (map_sum id kdl_documents (retried (srv q)))"
proof -
  let ?s = "s\<lparr>kp_admin_documents := documents_answered (page_t (kn_env env)) n (srv q) (kp_admin_documents s)\<rparr>"
  have "knowledge_handle env (Admin_Documents_Arrive n srv) s = ?s"
    using assms(2) by (simp add: knowledge_handle_def Let_def)
  with writer_view_kept [OF assms(1), of ?s] assms(2,3) show ?thesis
    by (simp add: knowledge_step_def documents_answered_def latest_answer_def drop_waiting_def)
qed

lemma upload_answered:
  assumes "writer_view env bs j s" and "kp_flight s = [(Do_Upload f [], i)]" and "i \<noteq> []"
  shows "\<exists>s'. knowledge_step env (Action_Arrives 0 (Inr (Answer_Upload u))) s = s' \<and> writer_view env bs j s' \<and>
              kp_admin_documents s' = ask i (kp_admin_documents s)"
proof -
  let ?a = "snd (act_end (call_t (kn_call env)) True Uploading (document_label env (Do_Upload f []))
                   (Inr (Answer_Upload u)) (kp_actions s))"
  let ?s = "refetch_bases env (refetch_documents_of env i (s\<lparr>kp_flight := [], kp_actions := ?a, kp_upload := Some u\<rparr>))"
  have h: "knowledge_handle env (Action_Arrives 0 (Inr (Answer_Upload u))) s = ?s"
    using assms(2)
    by (simp add: knowledge_handle_def answer_fits_def document_action_arrives_def Let_def act_end_def apply_document_answer_def)
  have "kp_selected ?s = kp_selected s" "kp_tab ?s = kp_tab s" "kp_admin_documents ?s = ask i (kp_admin_documents s)"
    "as_data (shown (kp_admin_bases ?s)) = as_data (shown (kp_admin_bases s))"
    using assms(1,3)
    by (simp_all add: refetch_bases_def refetch_documents_of_def Let_def load_documents_def load_knowledge_bases_def
        base_given_def writer_view_def writer_options, simp add: ask_def loading_again_def)
  with writer_view_kept [OF assms(1), of ?s] show ?thesis by (simp add: knowledge_step_def h)
qed

text \<open>
  C30: an upload that ends after another base was selected reloads the documents of the base it was
  started for, as the newest load of the hook: the page then shows these documents under the base
  that is selected now, with no load in flight that would correct it.
\<close>

theorem late_upload_shows_other_base:
  assumes view: "writer_view env bs i s" "i \<noteq> []" "kp_flight s = []" "\<not> uploading_now s" "waiting (kp_admin_documents s) = []"
    and other: "list_ex (\<lambda>b. bi_id b = j) bs" "j \<noteq> i" "j \<noteq> []"
    and run: "n = latest (kp_admin_documents s)"
      "s' = fold (knowledge_step env)
              [Start_Action (Do_Upload f []), Select_Base j, Admin_Documents_Arrive (n + 2) srv,
               Action_Arrives 0 (Inr (Answer_Upload u)), Admin_Documents_Arrive (n + 3) srv] s"
  shows "selected_base_id env s' = Some j \<and> waiting (kp_admin_documents s') = [] \<and>
         shown (kp_admin_documents s') = settle (page_t (kn_env env)) (map_sum id kdl_documents (retried (srv i)))"
proof -
  obtain s1 where s1: "knowledge_step env (Start_Action (Do_Upload f [])) s = s1" "writer_view env bs i s1"
    "kp_flight s1 = [(Do_Upload f [], i)]" "kp_admin_documents s1 = kp_admin_documents s"
    using upload_started [OF view(1,3,4)] by blast
  obtain s2 where s2: "knowledge_step env (Select_Base j) s1 = s2" "writer_view env bs j s2" "kp_flight s2 = kp_flight s1"
    "kp_admin_documents s2 = ask j (leave (kp_admin_documents s1))"
    using other_selected [OF s1(2) other] by blast
  then have "waiting (kp_admin_documents s2) = [(n + 2, j)]" "n + 2 = latest (kp_admin_documents s2)"
    using view(5) s1(4) run(1) by (simp_all add: ask_def leave_def)
  from documents_answered_step [OF s2(2) this, of srv]
  obtain s3 where s3: "knowledge_step env (Admin_Documents_Arrive (n + 2) srv) s2 = s3" "writer_view env bs j s3"
    "kp_flight s3 = kp_flight s2" "waiting (kp_admin_documents s3) = []" "latest (kp_admin_documents s3) = n + 2"
    by blast
  obtain s4 where s4: "knowledge_step env (Action_Arrives 0 (Inr (Answer_Upload u))) s3 = s4" "writer_view env bs j s4"
    "kp_admin_documents s4 = ask i (kp_admin_documents s3)"
    using upload_answered [OF s3(2) _ view(2)] s1(3) s2(3) s3(3) by (metis (no_types))
  then have "waiting (kp_admin_documents s4) = [(n + 3, i)]" "n + 3 = latest (kp_admin_documents s4)"
    using s3 by (simp_all add: ask_def)
  from documents_answered_step [OF s4(2) this, of srv]
  obtain s5 where s5: "knowledge_step env (Admin_Documents_Arrive (n + 3) srv) s4 = s5" "writer_view env bs j s5"
    "waiting (kp_admin_documents s5) = []"
    "shown (kp_admin_documents s5) = settle (page_t (kn_env env)) (map_sum id kdl_documents (retried (srv i)))"
    by blast
  have "s' = s5" by (simp only: run(2) fold.simps comp_def id_apply s1(1) s2(1) s3(1) s4(1) s5(1))
  with s5 show ?thesis by (simp add: writer_view_def)
qed

definition demo_knowledge_env :: knowledge_env where
  "demo_knowledge_env =
     \<lparr>kn_env =
        \<lparr>in_prototype = False,
         page_user =
           Some \<lparr>user_id = ''u1'', user_tenant_id = ''t1'', email = ''editor@example.com'', full_name = None,
             is_tenant_admin = False, is_super_admin = False, permissions = [''knowledge:write'']\<rparr>,
         page_t = id\<rparr>,
      kn_call = \<lparr>call_t = id, call_now = [], call_uuid = [], call_uuid2 = [], call_proto = False\<rparr>,
      kn_admin_workspace = True\<rparr>"

definition demo_base :: "string \<Rightarrow> knowledge_base" where
  "demo_base i = (hd proto_knowledge_bases)\<lparr>kb_id := i\<rparr>"

definition demo_knowledge_page :: knowledge_page where \<comment> \<open>two bases are loaded, the first is selected\<close>
  "demo_knowledge_page =
     (knowledge_page_init demo_knowledge_env store_init)
       \<lparr>kp_admin_bases := show_now (loaded [demo_base ''a'', demo_base ''b'']) (resource_init True), kp_selected := Some ''a''\<rparr>"

lemma demo_writer:
  "writer_view demo_knowledge_env [Admin_Base (demo_base ''a''), Admin_Base (demo_base ''b'')] ''a'' demo_knowledge_page"
proof -
  have w: "can_write_knowledge demo_knowledge_env"
    by (simp add: can_write_knowledge_def has_permission_def demo_knowledge_env_def can_access_def no_requirement_def Let_def)
  have p: "\<not> in_prototype (kn_env demo_knowledge_env)" "\<not> call_proto (kn_call demo_knowledge_env)"
    by (simp_all add: demo_knowledge_env_def)
  have b: "bases_data demo_knowledge_env demo_knowledge_page =
           Some [Admin_Base (demo_base ''a''), Admin_Base (demo_base ''b'')]"
    by (simp add: writer_bases [OF w p(1)] demo_knowledge_page_def show_now_def loaded_def)
  have "selected_base_id demo_knowledge_env demo_knowledge_page = Some ''a''"
    by (rule selects_listed [OF b]) (simp_all add: demo_base_def demo_knowledge_page_def)
  with w p b show ?thesis by (simp add: writer_view_def demo_knowledge_page_def knowledge_page_init_def)
qed

definition demo_documents :: "string \<Rightarrow> nat \<Rightarrow> exn + knowledge_document_list" where
  "demo_documents b k = Inr \<lparr>kdl_documents = (if b = ''a'' then [hd proto_knowledge_documents] else [])\<rparr>"

definition demo_uploaded :: document_upload_response where
  "demo_uploaded =
     \<lparr>du_document = hd proto_knowledge_documents, du_auto_ingest = True, du_ingest_status = None, du_message = [],
      du_diagnostics = []\<rparr>"

theorem late_upload_shows_other_base_witness:
  "let n = latest (kp_admin_documents demo_knowledge_page);
       s' = fold (knowledge_step demo_knowledge_env)
              [Start_Action (Do_Upload \<lparr>file_name = ''faq.md'', file_type = ''text/markdown'', file_size = 10\<rparr> []),
               Select_Base ''b'', Admin_Documents_Arrive (n + 2) demo_documents, Action_Arrives 0 (Inr (Answer_Upload demo_uploaded)),
               Admin_Documents_Arrive (n + 3) demo_documents] demo_knowledge_page
   in selected_base_id demo_knowledge_env s' = Some ''b'' \<and> waiting (kp_admin_documents s') = [] \<and>
      shown (kp_admin_documents s') = settle id (map_sum id kdl_documents (retried (demo_documents ''a'')))"
proof -
  have "kp_flight demo_knowledge_page = []" "\<not> uploading_now demo_knowledge_page"
    "waiting (kp_admin_documents demo_knowledge_page) = []"
    by (simp_all add: demo_knowledge_page_def knowledge_page_init_def uploading_now_def actions_init_def resource_init_def)
  from late_upload_shows_other_base [OF demo_writer _ this _ _ _ refl refl, of "''b''"] show ?thesis
    by (simp add: demo_base_def demo_knowledge_env_def Let_def)
qed

lemma late_retrieval_shown:
  \<comment> \<open>the answer of a test is shown under whatever base is selected when it arrives\<close>
  assumes "kp_testing s = Some (i, q)" and "s' = retrieval_arrives env (Inr r) (handle_select_base j s)"
  shows "kp_result s' = Some r \<and> kp_selected s' = Some j"
  using assms by (simp add: retrieval_arrives_def handle_select_base_def act_end_def)

lemma top_k_bounded: "1 \<le> rt_top_k (retrieval_request s) \<and> rt_top_k (retrieval_request s) \<le> 50"
  by (simp add: retrieval_request_def clamp_top_k_def)

end
