(* ===== verification/Channels_Page.thy ===== *)
theory Channels_Page
  imports Agent_Hooks License_Data Page_Env Transitions
begin

text \<open>
  The channels page: \<open>pages/channels/channelUtils.ts\<close>, the readiness and the checklists of the channels,
  and \<open>useChannelsPageController.ts\<close> with its two effects (the selected channel follows the list, the
  chosen type follows the license) and its handlers.  A handler runs its action without interruption
  and then starts the reload.  Creations sent are collected with the features that were enabled.
\<close>

section \<open>Types of channels\<close>

definition channel_types :: "channel_type list" where
  "channel_types = [Wecom, Dingtalk, Feishu, Web_Widget, Rest_Api]"

definition channel_feature_key :: "channel_type \<Rightarrow> string" where
  "channel_feature_key c =
     (case c of Dingtalk \<Rightarrow> ''channel.dingtalk'' | Feishu \<Rightarrow> ''channel.feishu'' | Rest_Api \<Rightarrow> ''channel.rest_api''
      | Web_Widget \<Rightarrow> ''channel.web_widget'' | Wecom \<Rightarrow> ''channel.wecom'')"

definition channel_label :: "channel_type \<Rightarrow> string" where
  "channel_label c =
     (case c of Dingtalk \<Rightarrow> ''DingTalk'' | Feishu \<Rightarrow> ''Feishu'' | Rest_Api \<Rightarrow> ''REST API''
      | Web_Widget \<Rightarrow> ''Web Widget'' | Wecom \<Rightarrow> ''WeCom'')"

definition channel_description_key :: "channel_type \<Rightarrow> string" where
  "channel_description_key c =
     (case c of Dingtalk \<Rightarrow> ''channelsDescriptionDingtalk'' | Feishu \<Rightarrow> ''channelsDescriptionFeishu''
      | Rest_Api \<Rightarrow> ''channelsDescriptionRestApi'' | Web_Widget \<Rightarrow> ''channelsDescriptionWebWidget''
      | Wecom \<Rightarrow> ''channelsDescriptionWecom'')"

definition channel_status_key :: "channel_status \<Rightarrow> string" where
  "channel_status_key s =
     (case s of Chan_Active \<Rightarrow> ''channelsStatusActive'' | Chan_Disabled \<Rightarrow> ''channelsStatusDisabled''
      | Chan_Error \<Rightarrow> ''channelsStatusError'' | Chan_Testing \<Rightarrow> ''channelsStatusTesting'')"

definition is_channel_type_licensed :: "channel_type \<Rightarrow> string list \<Rightarrow> bool" where
  "is_channel_type_licensed c features = List.member features (channel_feature_key c)"

record channel_form =
  cnf_key :: string
  cnf_type :: channel_type
  cnf_config_value :: string
  cnf_agent_id :: string
  cnf_name :: string
  cnf_secret :: string
  cnf_test_text :: string

definition default_channel_draft :: "channel_type \<Rightarrow> channel_form \<Rightarrow> channel_form" where
  \<comment> \<open>\<open>{...form, ...getDefaultChannelDraft(type)}\<close>\<close>
  "default_channel_draft c f =
     f\<lparr>cnf_key := (if c = Web_Widget then ''web-demo'' else channel_type_str c @ ''-main''), cnf_type := c,
       cnf_name := channel_label c @ '' Channel''\<rparr>"

definition initial_channel_form :: channel_form where
  "initial_channel_form =
     default_channel_draft Web_Widget
       \<lparr>cnf_key = [], cnf_type = Web_Widget, cnf_config_value = ''*'', cnf_agent_id = [], cnf_name = [], cnf_secret = [],
        cnf_test_text = ''hello from AgentHive channel test''\<rparr>"

definition format_processing_message :: "channel_processing \<Rightarrow> (string \<Rightarrow> string) \<Rightarrow> string" where
  "format_processing_message r t =
     (if js_truthy_str (cp_response_text r)
      then replace_first ''{{text}}'' (the (cp_response_text r))
             (replace_first ''{{agent}}'' (coalesce (cp_agent_key r) ''unknown'') (t ''channelsAgentReplied''))
      else
        (let base = (if cp_routed r then t ''channelsRoutingCompleted'' else t ''channelsRoutingSkipped'') in
         if js_truthy_str (cp_error r) then base @ '' '' @ the (cp_error r) else base))"

section \<open>Readiness and checklists\<close>

definition config_agent :: "channel \<Rightarrow> bool" where \<comment> \<open>\<open>Boolean(channel.config.agent_key)\<close>\<close>
  "config_agent c = truthy (get_prop ''agent_key'' (JObj (ch_config c)))"

definition bound_to :: "string list \<Rightarrow> channel \<Rightarrow> bool" where
  "bound_to agents c \<longleftrightarrow> js_truthy_str (ch_agent_id c) \<and> List.member agents (the (ch_agent_id c))"

definition stale_route :: "string list \<Rightarrow> channel \<Rightarrow> bool" where
  "stale_route agents c \<longleftrightarrow> js_truthy_str (ch_agent_id c) \<and> \<not> List.member agents (the (ch_agent_id c)) \<and> \<not> config_agent c"

definition active_agents :: "agent_instance list \<Rightarrow> string list" where
  "active_agents is = map ai_id (filter (\<lambda>i. ai_status i = Inst_Active) is)"

definition licensed_types :: "string list \<Rightarrow> channel_type list" where
  "licensed_types features = filter (\<lambda>c. is_channel_type_licensed c features) channel_types"

datatype channel_readiness_kind = Channels_Empty | Channels_Ready | Channels_Warning

record channel_readiness =
  crd_kind :: channel_readiness_kind
  crd_active :: nat
  crd_gaps :: "string list"
  crd_labels :: "string list"
  crd_signed :: nat
  crd_total :: nat
  crd_with_agent :: nat
  crd_message :: string

definition channel_readiness_of ::
  "channel list \<Rightarrow> agent_instance list \<Rightarrow> string list \<Rightarrow> bool \<Rightarrow> (string \<Rightarrow> string) \<Rightarrow> channel_readiness" where
  "channel_readiness_of cs is features loading t =
     (let ids = map ai_id is;
          active = length (filter (\<lambda>c. ch_status c = Chan_Active) cs);
          routed = length (filter (\<lambda>c. bound_to ids c \<or> config_agent c) cs);
          signed = length (filter ch_secret_configured cs);
          stale = length (filter (stale_route ids) cs);
          gaps = (if active = 0 then [t ''channelsReadinessGapNoActive''] else []) @
                 (if routed = 0 then [t ''channelsReadinessGapNoAgent''] else []) @
                 (if signed = 0 then [t ''channelsReadinessGapNoSecret''] else []) @
                 (if 0 < stale then [replace_first ''{{count}}'' (nat_str stale) (t ''channelsReadinessGapStaleAgent'')] else []);
          result = (\<lambda>k g m. \<lparr>crd_kind = k, crd_active = active, crd_gaps = g,
                      crd_labels = map channel_label (licensed_types features), crd_signed = signed,
                      crd_total = length cs, crd_with_agent = routed, crd_message = t m\<rparr>)
      in if loading then result Channels_Empty [t ''channelsReadinessLicenseLoading''] ''channelsReadinessCheckingMessage''
         else if cs = [] then result Channels_Empty [] ''channelsReadinessCreateFirst''
         else if 0 < active \<and> 0 < routed \<and> gaps = [] then result Channels_Ready gaps ''channelsReadinessReadyMessage''
         else result Channels_Warning gaps ''channelsReadinessReviewMessage'')"

lemma channels_ready:
  "crd_kind (channel_readiness_of cs is features loading t) = Channels_Ready \<longleftrightarrow>
   \<not> loading \<and> (\<exists>c\<in>set cs. ch_status c = Chan_Active) \<and> (\<exists>c\<in>set cs. bound_to (map ai_id is) c \<or> config_agent c) \<and>
   (\<exists>c\<in>set cs. ch_secret_configured c) \<and> (\<forall>c\<in>set cs. \<not> stale_route (map ai_id is) c)"
  by (auto simp: channel_readiness_of_def Let_def filter_empty_conv)

definition test_passed :: "channel_processing option \<Rightarrow> bool" where
  "test_passed p \<longleftrightarrow> (case p of None \<Rightarrow> False | Some x \<Rightarrow> cp_routed x \<and> js_truthy_str (cp_response_text x))"

definition tone_of :: "bool \<Rightarrow> bool \<Rightarrow> check_tone" where \<comment> \<open>\<open>a ? "ok" : b ? "warning" : "blocked"\<close>\<close>
  "tone_of a b = (if a then Check_Ok else if b then Check_Warning else Check_Blocked)"

definition channel_checklist ::
  "channel list \<Rightarrow> agent_instance list \<Rightarrow> string list \<Rightarrow> bool \<Rightarrow> channel option \<Rightarrow> channel_processing option \<Rightarrow>
   (string \<times> check_tone) list" where
  "channel_checklist cs is features loading selected p =
     (let active = filter (\<lambda>c. ch_status c = Chan_Active) cs;
          ids = active_agents is;
          signed = list_ex ch_secret_configured active;
          routed = list_ex (\<lambda>c. bound_to ids c \<or>
                     (case get_prop ''agent_key'' (JObj (ch_config c)) of JStr k \<Rightarrow> k \<noteq> [] | _ \<Rightarrow> False)) active;
          stale = list_ex (stale_route ids) active
      in [(''license'', if loading then Check_Warning else if licensed_types features \<noteq> [] then Check_Ok else Check_Blocked),
          (''channel'', tone_of (active \<noteq> []) (cs \<noteq> [])), (''secret'', tone_of signed (active \<noteq> [])),
          (''route'', tone_of (routed \<and> \<not> stale) routed),
          (''test'', tone_of (test_passed p) (selected \<noteq> None))])"

definition checklist_ready ::
  "channel list \<Rightarrow> agent_instance list \<Rightarrow> string list \<Rightarrow> channel_processing option \<Rightarrow> bool" where
  "checklist_ready cs is features p =
     (let active = filter (\<lambda>c. ch_status c = Chan_Active) cs
      in licensed_types features \<noteq> [] \<and> active \<noteq> [] \<and> list_ex ch_secret_configured active \<and>
         list_ex (\<lambda>c. bound_to (active_agents is) c \<or>
            (case get_prop ''agent_key'' (JObj (ch_config c)) of JStr k \<Rightarrow> k \<noteq> [] | _ \<Rightarrow> False)) active \<and>
         test_passed p)"

definition channel_loop ::
  "channel list \<Rightarrow> agent_instance list \<Rightarrow> string list \<Rightarrow> bool \<Rightarrow> channel option \<Rightarrow> channel_processing option \<Rightarrow>
   (string \<times> check_tone) list" where
  "channel_loop cs is features loading selected p =
     (let active = list_ex (\<lambda>c. ch_status c = Chan_Active) cs;
          routed = list_ex (\<lambda>c. bound_to (active_agents is) c \<or> config_agent c) cs
      in [(''license'', if loading then Check_Warning else if licensed_types features \<noteq> [] then Check_Ok else Check_Blocked),
          (''config'', tone_of (active \<and> list_ex ch_secret_configured cs) active), (''route'', tone_of routed (cs \<noteq> [])),
          (''test'', tone_of (test_passed p) (selected \<noteq> None))])"

datatype channel_filter = Show_All | Show_Active | Show_Disabled | Show_Attention

definition channel_matches :: "string \<Rightarrow> channel_filter \<Rightarrow> channel \<Rightarrow> bool" where
  "channel_matches q f c \<longleftrightarrow>
     str_includes (to_lower (trim q))
       (to_lower (join '' '' [ch_name c, ch_key c, channel_type_str (ch_type c), ch_webhook_path c])) \<and>
     (case f of
        Show_All \<Rightarrow> True
      | Show_Active \<Rightarrow> ch_status c = Chan_Active
      | Show_Disabled \<Rightarrow> ch_status c = Chan_Disabled
      | Show_Attention \<Rightarrow> ch_status c = Chan_Error \<or> ch_status c = Chan_Testing)"

definition filter_channels :: "string \<Rightarrow> channel_filter \<Rightarrow> channel list \<Rightarrow> channel list" where
  "filter_channels q f cs = filter (channel_matches q f) cs"

section \<open>State of the page\<close>

datatype channels_tab = Channels_Overview | Channels_Config | Channels_Test | Channels_Push
datatype channels_overview_tab = Overview_Readiness | Overview_Connected
datatype channels_config_tab = Config_Create | Config_Connected
datatype channels_create_step = Step_Type | Step_Binding
datatype channels_test_tab = Test_Endpoint | Test_Message

record push_form =
  pf_recipient :: string
  pf_text :: string
  pf_conversation_key :: string
  pf_agent_key :: string
  pf_model_key :: string

record push_payload =
  ppl_external_user_id :: string
  ppl_text :: string
  ppl_mode :: push_mode
  ppl_agent_key :: "string option"
  ppl_conversation_key :: "string option"
  ppl_metadata :: props
  ppl_model_key :: "string option"

record channels_page =
  cn_tab :: channels_tab
  cn_overview :: channels_overview_tab
  cn_config :: channels_config_tab
  cn_create_step :: channels_create_step
  cn_test_tab :: channels_test_tab
  cn_channels :: "(unit, channel list) resource"
  cn_agents :: "(unit, agent_instance list) resource"
  cn_scope :: "(unit, license_scope) resource"
  cn_actions :: "channel_mark actions"
  cn_store :: store
  cn_selected :: "string option"
  cn_test_result :: "inbound_message option"
  cn_test_processing :: "channel_processing option"
  cn_form :: channel_form
  cn_push_form :: push_form
  cn_push_result :: "channel_push_response option"
  cn_sent :: "(channel_create \<times> string list) list"

record channels_env =
  ce_env :: page_env
  ce_call :: call_env
  ce_admin_workspace :: bool
  ce_origin :: string

definition can_write_channels :: "channels_env \<Rightarrow> bool" where
  "can_write_channels env = has_permission ''channels:write'' (ce_env env)"

definition channels_data :: "channels_env \<Rightarrow> channels_page \<Rightarrow> channel list option" where
  "channels_data env s =
     as_data (channels_shown (in_prototype (ce_env env)) (current_snapshot (cn_store s)) (cn_channels s))"

definition channel_list_of :: "channels_env \<Rightarrow> channels_page \<Rightarrow> channel list" where
  "channel_list_of env s = coalesce (channels_data env s) []"

definition agents_of :: "channels_env \<Rightarrow> channels_page \<Rightarrow> agent_instance list" where
  "agents_of env s =
     coalesce (as_data (agent_instances_shown (in_prototype (ce_env env)) (current_snapshot (cn_store s)) (cn_agents s))) []"

definition selected_channel :: "channels_env \<Rightarrow> channels_page \<Rightarrow> channel option" where
  "selected_channel env s =
     or_else (List.find (\<lambda>c. Some (ch_id c) = cn_selected s) (channel_list_of env s)) (first_of (channel_list_of env s))"

definition enabled_features :: "channels_page \<Rightarrow> string list" where
  "enabled_features s =
     map ft_id (filter ft_enabled (coalesce (map_option sc_features (as_data (shown (cn_scope s)))) []))"

definition scope_loading :: "channels_page \<Rightarrow> bool" where
  "scope_loading s = as_loading (shown (cn_scope s))"

definition selected_type_licensed :: "channels_page \<Rightarrow> bool" where
  "selected_type_licensed s = is_channel_type_licensed (cnf_type (cn_form s)) (enabled_features s)"

definition webhook_url :: "channels_env \<Rightarrow> channels_page \<Rightarrow> string" where
  "webhook_url env s = (case selected_channel env s of None \<Rightarrow> [] | Some c \<Rightarrow> ce_origin env @ ch_webhook_path c)"

definition channels_page_init :: "store \<Rightarrow> channels_page" where
  "channels_page_init st =
     \<lparr>cn_tab = Channels_Config, cn_overview = Overview_Connected, cn_config = Config_Create, cn_create_step = Step_Type,
      cn_test_tab = Test_Endpoint, cn_channels = resource_init True, cn_agents = resource_init True,
      cn_scope = resource_init True, cn_actions = actions_init, cn_store = st, cn_selected = None, cn_test_result = None,
      cn_test_processing = None, cn_form = initial_channel_form,
      cn_push_form =
        \<lparr>pf_recipient = [], pf_text = [], pf_conversation_key = [], pf_agent_key = [], pf_model_key = []\<rparr>,
      cn_push_result = None, cn_sent = []\<rparr>"

section \<open>Effects\<close>

definition change_channel_type :: "channel_type \<Rightarrow> channels_page \<Rightarrow> channels_page" where
  "change_channel_type c s = s\<lparr>cn_form := default_channel_draft c (cn_form s)\<rparr>"

definition settle_channel :: "channels_env \<Rightarrow> channels_page \<Rightarrow> channels_page" where
  "settle_channel env s =
     (case channel_list_of env s of
        [] \<Rightarrow> s\<lparr>cn_selected := None\<rparr>
      | c # _ \<Rightarrow> s\<lparr>cn_selected := Some (coalesce (cn_selected s) (ch_id c))\<rparr>)"

definition settle_type :: "channels_page \<Rightarrow> channels_page" where
  "settle_type s =
     (if scope_loading s \<or> selected_type_licensed s then s
      else case licensed_types (enabled_features s) of [] \<Rightarrow> s | c # _ \<Rightarrow> change_channel_type c s)"

definition channels_effects :: "channels_env \<Rightarrow> bool \<Rightarrow> channels_page \<Rightarrow> channels_page \<Rightarrow> channels_page" where
  \<comment> \<open>the selection follows a list that is another array, which a list without data is at every render\<close>
  "channels_effects env answered old s =
     (let s1 = (if answered \<or> channels_data env s \<noteq> channels_data env old \<or> channels_data env s = None
                then settle_channel env s else s);
          s2 = settle_type s1
      in if \<not> ce_admin_workspace env \<and> cn_tab s2 = Channels_Overview then s2\<lparr>cn_tab := Channels_Config\<rparr> else s2)"

section \<open>Handlers\<close>

definition refetch_channels :: "channels_env \<Rightarrow> channels_page \<Rightarrow> channels_page" where
  "refetch_channels env s =
     s\<lparr>cn_channels := load_channels (in_prototype (ce_env env)) (current_snapshot (cn_store s)) (cn_channels s)\<rparr>"

definition chosen_agent :: "channels_env \<Rightarrow> channels_page \<Rightarrow> agent_instance option" where
  "chosen_agent env s = List.find (\<lambda>i. ai_id i = cnf_agent_id (cn_form s) \<and> ai_status i = Inst_Active) (agents_of env s)"

definition channel_payload :: "channels_env \<Rightarrow> channels_page \<Rightarrow> channel_create" where
  "channel_payload env s =
     (let f = cn_form s; a = chosen_agent env s in
      \<lparr>chc_name = trim (cnf_name f), chc_type = cnf_type f, chc_key = trim (cnf_key f), chc_agent_id = map_option ai_id a,
       chc_status = Chan_Active,
       chc_config =
         (case a of
            None \<Rightarrow> []
          | Some i \<Rightarrow> [(''agent_key'', JStr (ai_agent_key i)), (''default_agent'', JStr (ai_agent_key i))]) @
         [(''note'', JStr (page_t (ce_env env) (channel_description_key (cnf_type f)))),
          (''value'', JStr (trim (cnf_config_value f)))],
       chc_secret = (if trim (cnf_secret f) = [] then None else Some (trim (cnf_secret f)))\<rparr>)"

definition handle_create_channel :: "channels_env \<Rightarrow> exn + channel_create_response \<Rightarrow> channels_page \<Rightarrow> channels_page" where
  "handle_create_channel env r s =
     (if \<not> can_write_channels env \<or> scope_loading s \<or> \<not> selected_type_licensed s then s
      else
        (let p = channel_payload env s;
             (x, a, st) = create_channel_action (ce_call env) p r (cn_actions s, cn_store s);
             s' = s\<lparr>cn_actions := a, cn_store := st, cn_sent := cn_sent s @ [(p, enabled_features s)]\<rparr>
         in case x of
              None \<Rightarrow> s'
            | Some c \<Rightarrow> refetch_channels env (s'\<lparr>cn_selected := Some (ch_id (chr_channel c)), cn_config := Config_Connected\<rparr>)))"

definition primary_create_action :: "channels_env \<Rightarrow> exn + channel_create_response \<Rightarrow> channels_page \<Rightarrow> channels_page" where
  "primary_create_action env r s =
     (if cn_tab s \<noteq> Channels_Config then s\<lparr>cn_tab := Channels_Config, cn_config := Config_Create\<rparr>
      else if cn_config s \<noteq> Config_Create then s\<lparr>cn_config := Config_Create\<rparr>
      else handle_create_channel env r s)"

definition header_create_enabled :: "channels_env \<Rightarrow> channels_page \<Rightarrow> bool" where
  "header_create_enabled env s \<longleftrightarrow>
     can_write_channels env \<and>
     (cn_tab s = Channels_Config \<longrightarrow>
        marks (cn_actions s) Saving_Channel = None \<and> \<not> scope_loading s \<and> selected_type_licensed s)"

definition panel_create_enabled :: "channels_env \<Rightarrow> channels_page \<Rightarrow> bool" where
  "panel_create_enabled env s \<longleftrightarrow>
     can_write_channels env \<and> marks (cn_actions s) Saving_Channel = None \<and> \<not> scope_loading s \<and>
     selected_type_licensed s \<and> trim (cnf_name (cn_form s)) \<noteq> [] \<and> trim (cnf_key (cn_form s)) \<noteq> []"

definition channel_test_payload :: "channel \<Rightarrow> channels_page \<Rightarrow> channel_test_request" where
  "channel_test_payload c s =
     \<lparr>ctr_text = cnf_test_text (cn_form s), ctr_external_user_id = ''agenthive-test-user'',
      ctr_conversation_key = Some (''test:'' @ ch_key c), ctr_raw_payload = [(''source'', JStr ''agenthive-admin'')]\<rparr>"

definition handle_test_channel :: "channels_env \<Rightarrow> exn + channel_test_response \<Rightarrow> channels_page \<Rightarrow> channels_page" where
  "handle_test_channel env r s =
     (case selected_channel env s of
        None \<Rightarrow> s
      | Some c \<Rightarrow>
          if \<not> can_write_channels env then s
          else
            (let (x, a) = test_channel_action (ce_call env) (ch_id c) (channel_test_payload c s) r (cn_actions s);
                 s' = s\<lparr>cn_actions := a\<rparr>
             in case x of
                  None \<Rightarrow> s'
                | Some y \<Rightarrow> s'\<lparr>cn_test_result := Some (ct_normalized y), cn_test_processing := ct_processing y\<rparr>))"

definition blank_or_null :: "string \<Rightarrow> string option" where \<comment> \<open>\<open>s.trim() || null\<close>\<close>
  "blank_or_null s = (if trim s = [] then None else Some (trim s))"

definition push_payload_of :: "push_mode \<Rightarrow> push_form \<Rightarrow> push_payload" where
  "push_payload_of m f =
     \<lparr>ppl_external_user_id = trim (pf_recipient f), ppl_text = pf_text f, ppl_mode = m,
      ppl_agent_key = blank_or_null (pf_agent_key f), ppl_conversation_key = blank_or_null (pf_conversation_key f),
      ppl_metadata = [(''source'', JStr ''agenthive-admin-ui'')], ppl_model_key = blank_or_null (pf_model_key f)\<rparr>"

definition push_request_of :: "push_payload \<Rightarrow> channel_push_request" where \<comment> \<open>what the prototype reads of it\<close>
  "push_request_of p =
     \<lparr>cpr_external_user_id = ppl_external_user_id p, cpr_text = ppl_text p, cpr_mode = ppl_mode p,
      cpr_conversation_key = ppl_conversation_key p\<rparr>"

definition can_send_push :: "channels_env \<Rightarrow> channels_page \<Rightarrow> bool" where
  "can_send_push env s \<longleftrightarrow>
     can_write_channels env \<and> marks (cn_actions s) Pushing = None \<and>
     (case selected_channel env s of
        None \<Rightarrow> False
      | Some c \<Rightarrow> ch_status c = Chan_Active \<and> ch_type c \<noteq> Web_Widget \<and> ch_type c \<noteq> Rest_Api) \<and>
     pf_recipient (cn_push_form s) \<noteq> [] \<and> pf_text (cn_push_form s) \<noteq> []"

definition handle_push :: "channels_env \<Rightarrow> push_mode \<Rightarrow> exn + channel_push_response \<Rightarrow> channels_page \<Rightarrow> channels_page" where
  "handle_push env m r s =
     (case selected_channel env s of
        None \<Rightarrow> s
      | Some c \<Rightarrow>
          if \<not> can_write_channels env then s
          else
            (let (x, a) = push_channel_action (ce_call env) (ch_id c) (push_request_of (push_payload_of m (cn_push_form s))) r
                            (cn_actions s);
                 s' = s\<lparr>cn_actions := a\<rparr>
             in case x of None \<Rightarrow> s' | Some y \<Rightarrow> s'\<lparr>cn_push_result := Some y\<rparr>))"

definition primary_test_action :: "channels_env \<Rightarrow> exn + channel_test_response \<Rightarrow> channels_page \<Rightarrow> channels_page" where
  "primary_test_action env r s =
     (if cn_tab s \<noteq> Channels_Test then s\<lparr>cn_tab := Channels_Test\<rparr> else handle_test_channel env r s)"

definition handle_channel_status :: "channels_env \<Rightarrow> channel \<Rightarrow> exn + channel \<Rightarrow> channels_page \<Rightarrow> channels_page" where
  "handle_channel_status env c r s =
     (if \<not> can_write_channels env then s
      else
        (let next = (if ch_status c = Chan_Active then Chan_Disabled else Chan_Active);
             (x, a, st) = update_status_action (ce_call env) (ch_id c) next r (cn_actions s, cn_store s);
             s' = s\<lparr>cn_actions := a, cn_store := st\<rparr>
         in case x of Returns (Some y) \<Rightarrow> refetch_channels env s' | _ \<Rightarrow> s'))"

section \<open>Events\<close>

datatype channels_event =
    Channels_Mount
  | Channels_Arrive nat "nat \<Rightarrow> exn + channel_list"
  | Agents_Arrive nat "nat \<Rightarrow> exn + agent_instance_list"
  | Features_Arrive nat "nat \<Rightarrow> exn + license_scope"
  | Show_Channels_Tab channels_tab
  | Show_Overview channels_overview_tab
  | Show_Config channels_config_tab
  | Show_Create_Step channels_create_step
  | Show_Test channels_test_tab
  | Pick_Channel string
  | Pick_Type channel_type
  | Edit_Channel_Form channel_form
  | Edit_Push_Form push_form
  | Press_Header_Create "exn + channel_create_response"
  | Press_Panel_Create "exn + channel_create_response"
  | Press_Header_Test "exn + channel_test_response"
  | Press_Panel_Test "exn + channel_test_response"
  | Press_Push push_mode "exn + channel_push_response"
  | Press_Status channel "exn + channel"
  | Open_Readiness
  | Open_Config
  | Open_Route_Review
  | Open_Test
  | Open_Push
  | Retry_Channels

definition channels_handle :: "channels_env \<Rightarrow> channels_event \<Rightarrow> channels_page \<Rightarrow> channels_page" where
  "channels_handle env e s =
     (let proto = in_prototype (ce_env env); snap = current_snapshot (cn_store s); t = page_t (ce_env env) in
      case e of
        Channels_Mount \<Rightarrow>
          s\<lparr>cn_channels := load_channels proto snap (cn_channels s), cn_agents := load_agent_instances proto snap (cn_agents s),
            cn_scope := load_scope proto (cn_scope s)\<rparr>
      | Channels_Arrive n a \<Rightarrow>
          if in_waiting n (cn_channels s) then s\<lparr>cn_channels := channels_answered t n a (cn_channels s)\<rparr> else s
      | Agents_Arrive n a \<Rightarrow>
          if in_waiting n (cn_agents s) then s\<lparr>cn_agents := agent_instances_answered t n a (cn_agents s)\<rparr> else s
      | Features_Arrive n a \<Rightarrow> s\<lparr>cn_scope := scope_answered t n a (cn_scope s)\<rparr>
      | Show_Channels_Tab tab \<Rightarrow> if tab = Channels_Overview \<and> \<not> ce_admin_workspace env then s else s\<lparr>cn_tab := tab\<rparr>
      | Show_Overview tab \<Rightarrow> s\<lparr>cn_overview := tab\<rparr>
      | Show_Config tab \<Rightarrow> s\<lparr>cn_config := tab\<rparr>
      | Show_Create_Step st \<Rightarrow> s\<lparr>cn_create_step := st\<rparr>
      | Show_Test tab \<Rightarrow> s\<lparr>cn_test_tab := tab\<rparr>
      | Pick_Channel i \<Rightarrow> s\<lparr>cn_selected := Some i\<rparr>
      | Pick_Type c \<Rightarrow> change_channel_type c s
      | Edit_Channel_Form f \<Rightarrow> s\<lparr>cn_form := f\<rparr>
      | Edit_Push_Form f \<Rightarrow> s\<lparr>cn_push_form := f\<rparr>
      | Press_Header_Create r \<Rightarrow> if header_create_enabled env s then primary_create_action env r s else s
      | Press_Panel_Create r \<Rightarrow> if panel_create_enabled env s then handle_create_channel env r s else s
      | Press_Header_Test r \<Rightarrow>
          if can_write_channels env \<and>
             (cn_tab s = Channels_Test \<longrightarrow> selected_channel env s \<noteq> None \<and> marks (cn_actions s) Testing_Channel = None)
          then primary_test_action env r s else s
      | Press_Panel_Test r \<Rightarrow>
          if can_write_channels env \<and> selected_channel env s \<noteq> None \<and> marks (cn_actions s) Testing_Channel = None
          then handle_test_channel env r s else s
      | Press_Push m r \<Rightarrow> if can_send_push env s then handle_push env m r s else s
      | Press_Status c r \<Rightarrow>
          if can_write_channels env \<and> marks (cn_actions s) Updating_Status \<noteq> Some (ch_id c)
          then handle_channel_status env c r s else s
      | Open_Readiness \<Rightarrow>
          if \<not> ce_admin_workspace env then s else s\<lparr>cn_tab := Channels_Overview, cn_overview := Overview_Readiness\<rparr>
      | Open_Config \<Rightarrow>
          if \<not> ce_admin_workspace env then s else s\<lparr>cn_tab := Channels_Config,
            cn_config := (if channel_list_of env s \<noteq> [] then Config_Connected else Config_Create),
            cn_create_step := (if channel_list_of env s \<noteq> [] then Step_Binding else Step_Type)\<rparr>
      | Open_Route_Review \<Rightarrow>
          if \<not> ce_admin_workspace env then s else s\<lparr>cn_tab := Channels_Config,
            cn_config := (if channel_list_of env s \<noteq> [] then Config_Connected else Config_Create),
            cn_create_step := Step_Binding\<rparr>
      | Open_Test \<Rightarrow>
          if \<not> ce_admin_workspace env then s else s\<lparr>cn_tab := Channels_Test,
            cn_test_tab := (if selected_channel env s \<noteq> None then Test_Message else Test_Endpoint)\<rparr>
      | Open_Push \<Rightarrow> if can_write_channels env then s\<lparr>cn_tab := Channels_Push\<rparr> else s
      | Retry_Channels \<Rightarrow> refetch_channels env s)"

fun channels_answer :: "channels_event \<Rightarrow> bool" where
  "channels_answer (Channels_Arrive n a) = True"
| "channels_answer _ = False"

definition channels_step :: "channels_env \<Rightarrow> channels_event \<Rightarrow> channels_page \<Rightarrow> channels_page" where
  "channels_step env e s = channels_effects env (channels_answer e) s (channels_handle env e s)"

section \<open>What is sent\<close>

definition creations_ok :: "channels_env \<Rightarrow> channels_page \<Rightarrow> bool" where
  "creations_ok env s \<longleftrightarrow>
     list_all (\<lambda>(p, features). List.member features (channel_feature_key (chc_type p)) \<and> chc_status p = Chan_Active) (cn_sent s) \<and>
     (can_write_channels env \<or> cn_sent s = [])"

lemma channel_payload_fields [simp]:
  "chc_type (channel_payload env s) = cnf_type (cn_form s)" "chc_status (channel_payload env s) = Chan_Active"
  "chc_name (channel_payload env s) = trim (cnf_name (cn_form s))" "chc_key (channel_payload env s) = trim (cnf_key (cn_form s))"
  by (simp_all add: channel_payload_def Let_def)

lemma channels_sent_frame [simp]:
  "cn_sent (refetch_channels env s) = cn_sent s" "cn_sent (change_channel_type c s) = cn_sent s"
  "cn_sent (settle_channel env s) = cn_sent s" "cn_sent (settle_type s) = cn_sent s"
  "cn_sent (channels_effects env b old s) = cn_sent s" "cn_sent (handle_test_channel env tr s) = cn_sent s"
  "cn_sent (primary_test_action env tr s) = cn_sent s" "cn_sent (handle_push env m pr s) = cn_sent s"
  "cn_sent (handle_channel_status env ch sr s) = cn_sent s"
  by (auto simp: refetch_channels_def change_channel_type_def settle_channel_def settle_type_def channels_effects_def
      handle_test_channel_def primary_test_action_def handle_push_def handle_channel_status_def Let_def
      split: list.split option.split prod.split call_outcome.split)

lemma sent_by_creation:
  "cn_sent (handle_create_channel env r s) =
     (if can_write_channels env \<and> \<not> scope_loading s \<and> selected_type_licensed s
      then cn_sent s @ [(channel_payload env s, enabled_features s)] else cn_sent s)"
  by (auto simp: handle_create_channel_def Let_def split: option.split prod.split)

lemma creations_ok_step: "creations_ok env s \<Longrightarrow> creations_ok env (channels_step env e s)"
  by (cases e) (auto simp: channels_step_def channels_handle_def Let_def creations_ok_def sent_by_creation
      primary_create_action_def selected_type_licensed_def is_channel_type_licensed_def)

interpretation channels_screen: event_system "\<lambda>s. s = channels_page_init st" "channels_step env" "creations_ok env" for st env
  by unfold_locales (simp_all add: creations_ok_step, simp add: creations_ok_def channels_page_init_def)

text \<open>
  C31: Whatever happens on the channels page, a channel is only created by a user who may write channels,
  as an active channel, and of a type whose feature the license had enabled when the request was made.
\<close>

theorem channel_creations_licensed:
  "list_all (\<lambda>(p, features). List.member features (channel_feature_key (chc_type p)) \<and> chc_status p = Chan_Active)
     (cn_sent (fold (channels_step env) es (channels_page_init st))) \<and>
   (can_write_channels env \<or> cn_sent (fold (channels_step env) es (channels_page_init st)) = [])"
proof -
  have "creations_ok env (fold (channels_step env) es (channels_page_init st))" by (rule channels_screen.inv_reachable) simp
  then show ?thesis by (simp add: creations_ok_def)
qed

section \<open>Guards that differ\<close>

text \<open>The button of the header sends a channel without a name, which the button of the panel refuses.\<close>

lemma header_creates_nameless_channel:
  assumes "header_create_enabled env s" "cn_tab s = Channels_Config" "cn_config s = Config_Create"
    and "trim (cnf_name (cn_form s)) = []"
  shows "\<not> panel_create_enabled env s \<and>
    chc_name (fst (last (cn_sent (channels_step env (Press_Header_Create r) s)))) = []"
  using assms
  by (simp add: header_create_enabled_def panel_create_enabled_def channels_step_def channels_handle_def
      primary_create_action_def sent_by_creation Let_def)

text \<open>A recipient of blanks passes the guard of a push and is sent as the empty text.\<close>

lemma blank_recipient_sent:
  "trim (pf_recipient f) = [] \<Longrightarrow> cpr_external_user_id (push_request_of (push_payload_of m f)) = []"
  by (simp add: push_request_of_def push_payload_of_def)

text \<open>A test that passed stays evidence when another channel is picked.\<close>

lemma evidence_of_another_channel:
  "map snd (filter (\<lambda>c. fst c = ''test'')
     (channel_checklist cs is features loading (Some c) (cn_test_processing (channels_handle env (Pick_Channel i) s)))) =
   [if test_passed (cn_test_processing s) then Check_Ok else Check_Warning]"
  by (simp add: channel_checklist_def channels_handle_def tone_of_def Let_def)

text \<open>The form keeps its secret after a channel was created with it.\<close>

lemma secret_kept_in_form: "cnf_secret (cn_form (handle_create_channel env r s)) = cnf_secret (cn_form s)"
  by (auto simp: handle_create_channel_def refetch_channels_def Let_def split: option.split prod.split)

text \<open>The readiness counts an agent that is not active; the checklist does not.\<close>

lemma inactive_agent_counted:
  assumes "ai_status i \<noteq> Inst_Active" "ch_agent_id c = Some (ai_id i)" "ai_id i \<noteq> []" "ch_config c = []"
  shows "crd_with_agent (channel_readiness_of [c] [i] fs False t) = 1 \<and>
    map snd (filter (\<lambda>x. fst x = ''route'') (channel_checklist [c] [i] fs False None None)) = [Check_Blocked]"
  using assms
  by (simp add: channel_readiness_of_def channel_checklist_def bound_to_def js_truthy_str_def active_agents_def tone_of_def
      Let_def stale_route_def config_agent_def)

text \<open>The checklist says that all is ready while its own row on routes says that one is stale.\<close>

lemma ready_with_stale_route:
  assumes "checklist_ready cs is fs p" "c \<in> set cs" "ch_status c = Chan_Active" "stale_route (active_agents is) c"
  shows "checks_passed (channel_checklist cs is fs False sel p) < 5"
  using assms
  by (auto simp: channel_checklist_def checks_passed_def tone_of_def Let_def list_ex_iff)

end
