(* ===== verification/Modules_Page.thy ===== *)
theory Modules_Page
  imports Agent_Hooks Workspaces Tables Page_Env Transitions
begin

text \<open>
  The module marketplace: \<open>pages/agent-modules/moduleCatalogUtils.ts\<close> (filters, categories, labels),
  \<open>ModuleActionQueue.tsx\<close>, the buttons of \<open>ModuleCard.tsx\<close> and \<open>ModuleDetailsPanel.tsx\<close>, and
  \<open>useAgentModulesController.ts\<close>.  A handler runs its action without interruption and then starts the
  reload.  Requests are collected with the entry their button was drawn for.  A notice is cleared by
  the timers that are running; \<open>md_timers\<close> counts them.
\<close>

section \<open>States and categories\<close>

definition module_state_str :: "module_state \<Rightarrow> string" where
  "module_state_str s =
     (case s of Not_Installed \<Rightarrow> ''not_installed'' | Installed \<Rightarrow> ''installed'' | Enabled \<Rightarrow> ''enabled''
      | Disabled \<Rightarrow> ''disabled'' | Expired \<Rightarrow> ''expired'' | Not_Licensed \<Rightarrow> ''not_licensed'')"

definition format_state :: "module_state \<Rightarrow> string" where
  "format_state s = to_upper (map (\<lambda>c. if c = CHR ''_'' then CHR '' '' else c) (module_state_str s))"

definition format_module_state :: "module_state \<Rightarrow> (string \<Rightarrow> string) \<Rightarrow> string" where
  "format_module_state s t =
     (case s of Not_Installed \<Rightarrow> t ''modulesStateNotInstalled'' | Installed \<Rightarrow> t ''modulesStateInstalled''
      | Enabled \<Rightarrow> t ''modulesStateEnabled'' | Disabled \<Rightarrow> t ''modulesStateDisabled''
      | Expired \<Rightarrow> t ''modulesStateExpired'' | Not_Licensed \<Rightarrow> t ''modulesStateNotLicensed'')"

definition format_category :: "string \<Rightarrow> (string \<Rightarrow> string) \<Rightarrow> string" where
  "format_category c t =
     (if c = ''All Modules'' then t ''modulesAllModules''
      else if c = ''Customer Support'' then t ''modulesCategoryCustomerSupport''
      else if c = ''Human Resources'' then t ''modulesCategoryHumanResources''
      else if c = ''Marketing'' then t ''modulesCategoryMarketing''
      else if c = ''Finance'' then t ''modulesCategoryFinance''
      else if c = ''Operations'' then t ''modulesCategoryOperations''
      else t ''modulesCategoryOther'')"

definition module_category :: "agent_module \<Rightarrow> string" where
  "module_category m =
     (let has = (\<lambda>p. str_includes p (to_lower (am_scenario m))) in
      if has ''support'' \<or> has ''customer'' then ''Customer Support''
      else if has ''resume'' \<or> has ''hr'' \<or> has ''human'' then ''Human Resources''
      else if has ''copy'' \<or> has ''content'' \<or> has ''marketing'' \<or> has ''image'' \<or> has ''video'' then ''Marketing''
      else if has ''finance'' \<or> has ''invoice'' \<or> has ''expense'' then ''Finance''
      else if has ''report'' \<or> has ''operation'' \<or> has ''data'' then ''Operations''
      else ''Other'')"

definition sort_texts :: "string list \<Rightarrow> string list" where \<comment> \<open>\<open>xs.sort()\<close>\<close>
  "sort_texts = sort_by (sort_compare True Text_Value)"

definition module_categories :: "agent_module list \<Rightarrow> string list" where
  "module_categories ms = ''All Modules'' # sort_texts (uniq (map module_category ms))"

definition module_states :: "agent_module list \<Rightarrow> string list" where
  "module_states ms = ''all'' # sort_texts (uniq (map (\<lambda>m. module_state_str (am_state m)) ms))"

section \<open>Filters\<close>

datatype license_filter = License_All | License_Licensed | License_Requires_Upgrade

record module_filters =
  mf_category :: string
  mf_license :: license_filter
  mf_query :: string
  mf_state :: string \<comment> \<open>\<open>"all"\<close> or a state\<close>

definition passes_license :: "license_filter \<Rightarrow> agent_module \<Rightarrow> bool" where
  "passes_license f m \<longleftrightarrow>
     (case f of
        License_All \<Rightarrow> True
      | License_Licensed \<Rightarrow> am_licensed m
      | License_Requires_Upgrade \<Rightarrow>
          \<not> (am_licensed m \<and> am_missing_features m = [] \<and> am_missing_dependencies m = []))"

definition passes_query :: "string \<Rightarrow> agent_module \<Rightarrow> bool" where
  "passes_query q m \<longleftrightarrow>
     (let needle = to_lower (trim q) in
      needle = [] \<or>
      list_ex (\<lambda>v. str_includes needle (to_lower v))
        [am_name m, am_description m, am_scenario m, am_priority m, am_id m])"

definition filter_modules :: "module_filters \<Rightarrow> agent_module list \<Rightarrow> agent_module list" where
  "filter_modules f ms =
     filter (\<lambda>m. (mf_category f \<noteq> ''All Modules'' \<longrightarrow> module_category m = mf_category f) \<and>
                  passes_license (mf_license f) m \<and>
                  (mf_state f \<noteq> ''all'' \<longrightarrow> module_state_str (am_state m) = mf_state f) \<and>
                  passes_query (mf_query f) m) ms"

datatype module_view = View_All | View_Enabled | View_Available | View_Needs_Action

definition module_matches_view :: "agent_module \<Rightarrow> module_view \<Rightarrow> bool" where
  "module_matches_view m v \<longleftrightarrow>
     (case v of
        View_Enabled \<Rightarrow> am_enabled m \<or> am_state m = Enabled
      | View_Available \<Rightarrow> am_licensed m \<and> am_state m \<noteq> Enabled \<and> am_state m \<noteq> Expired
      | View_Needs_Action \<Rightarrow>
          \<not> am_licensed m \<or> am_state m = Expired \<or> am_state m = Not_Licensed \<or>
          am_missing_features m \<noteq> [] \<or> am_missing_dependencies m \<noteq> []
      | View_All \<Rightarrow> True)"

definition module_view_counts :: "agent_module list \<Rightarrow> nat \<times> nat \<times> nat \<times> nat" where
  \<comment> \<open>all, available, enabled, needs action\<close>
  "module_view_counts ms =
     (let n = (\<lambda>v. length (filter (\<lambda>m. module_matches_view m v) ms))
      in (length ms, n View_Available, n View_Enabled, n View_Needs_Action))"

section \<open>What a module lets the user do\<close>

definition can_manage_module :: "agent_module \<Rightarrow> bool" where
  "can_manage_module m \<longleftrightarrow>
     am_licensed m \<and> am_missing_features m = [] \<and> am_missing_dependencies m = [] \<and> am_state m \<noteq> Expired"

definition card_action :: "agent_module \<Rightarrow> module_action option" where
  \<comment> \<open>the button of a card or of the details; without it the module asks for a license, or has none\<close>
  "card_action m =
     (if \<not> can_manage_module m then None
      else case am_state m of
        Not_Installed \<Rightarrow> Some Install | Installed \<Rightarrow> Some Enable | Disabled \<Rightarrow> Some Enable
      | Enabled \<Rightarrow> Some Disable | _ \<Rightarrow> None)"

definition card_configure :: "agent_module \<Rightarrow> bool" where
  "card_configure m \<longleftrightarrow> can_manage_module m \<and> am_installed m"

datatype queue_action = Ask_License | Run_Module module_action | Configure_Module

record queue_item =
  qi_action :: queue_action
  qi_module :: agent_module
  qi_reason :: string
  qi_rank :: nat

definition queue_item_of :: "(string \<Rightarrow> string) \<Rightarrow> agent_module \<Rightarrow> queue_item option" where
  "queue_item_of t m =
     (if \<not> am_licensed m \<or> am_state m = Not_Licensed \<or> am_state m = Expired then
        Some \<lparr>qi_action = Ask_License, qi_module = m,
              qi_reason = (if am_state m = Expired then t ''modulesQueueExpired'' else t ''modulesQueueNeedsLicense''),
              qi_rank = 1\<rparr>
      else if am_missing_features m \<noteq> [] \<or> am_missing_dependencies m \<noteq> [] then
        Some \<lparr>qi_action = Ask_License, qi_module = m,
              qi_reason = join '' / '' (filter (\<lambda>s. s \<noteq> [])
                            [join '', '' (am_missing_features m), join '', '' (am_missing_dependencies m)]),
              qi_rank = 2\<rparr>
      else if am_state m = Not_Installed then
        Some \<lparr>qi_action = Run_Module Install, qi_module = m, qi_reason = t ''modulesQueueNeedsInstall'', qi_rank = 3\<rparr>
      else if am_state m = Installed \<or> am_state m = Disabled then
        Some \<lparr>qi_action = Run_Module Enable, qi_module = m,
              qi_reason = t ''modulesQueueNeedsEnable'' @ [CHR '' '', char_of (194 :: nat), char_of (183 :: nat), CHR '' ''] @
                            format_module_state (am_state m) t,
              qi_rank = 4\<rparr>
      else if am_enabled m \<and> am_installed m then
        Some \<lparr>qi_action = Configure_Module, qi_module = m, qi_reason = t ''modulesQueueReadyConfigure'', qi_rank = 5\<rparr>
      else None)"

definition compare_queue :: "(string \<Rightarrow> string \<Rightarrow> int) \<Rightarrow> queue_item \<Rightarrow> queue_item \<Rightarrow> int" where
  "compare_queue collate a b =
     (if qi_rank a \<noteq> qi_rank b then int (qi_rank a) - int (qi_rank b)
      else collate (am_priority (qi_module a)) (am_priority (qi_module b)))"

definition module_action_queue :: "(string \<Rightarrow> string \<Rightarrow> int) \<Rightarrow> (string \<Rightarrow> string) \<Rightarrow> agent_module list \<Rightarrow> queue_item list" where
  "module_action_queue collate t ms = sort_by (compare_queue collate) (List.map_filter (queue_item_of t) ms)"

definition queue_shown :: "(string \<Rightarrow> string \<Rightarrow> int) \<Rightarrow> (string \<Rightarrow> string) \<Rightarrow> agent_module list \<Rightarrow> queue_item list" where
  "queue_shown collate t ms = take 4 (module_action_queue collate t ms)"

section \<open>State of the page\<close>

datatype module_workspace = Modules_Catalog | Modules_Details

record modules_page =
  md_modules :: "(unit, agent_module list) resource"
  md_actions :: "module_mark actions"
  md_store :: store
  md_browser :: browser
  md_filters :: module_filters
  md_view :: module_view
  md_workspace :: module_workspace
  md_selected :: string
  md_notice :: string
  md_timers :: nat
  md_page :: "page option" \<comment> \<open>the page asked for with \<open>onNavigate\<close>\<close>
  md_sent :: "(agent_module \<times> string) list" \<comment> \<open>the paths posted to, with the entry whose button was pressed\<close>

record modules_env =
  me_env :: page_env
  me_call :: call_env
  me_collate :: "string \<Rightarrow> string \<Rightarrow> int"

definition modules_page_init :: "browser \<Rightarrow> store \<Rightarrow> modules_page" where
  "modules_page_init b st =
     \<lparr>md_modules = resource_init True, md_actions = actions_init, md_store = st, md_browser = b,
      md_filters = \<lparr>mf_category = ''All Modules'', mf_license = License_All, mf_query = [], mf_state = ''all''\<rparr>,
      md_view = View_All, md_workspace = Modules_Catalog, md_selected = [], md_notice = [], md_timers = 0,
      md_page = None, md_sent = []\<rparr>"

definition modules_state :: "modules_env \<Rightarrow> modules_page \<Rightarrow> agent_module list async_state" where
  "modules_state env s =
     agent_modules_shown (in_prototype (me_env env)) (current_snapshot (md_store s)) (md_modules s)"

definition catalog :: "modules_env \<Rightarrow> modules_page \<Rightarrow> agent_module list" where
  "catalog env s = coalesce (as_data (modules_state env s)) []"

definition visible_modules :: "modules_env \<Rightarrow> modules_page \<Rightarrow> agent_module list" where
  "visible_modules env s =
     filter_modules (md_filters s) (filter (\<lambda>m. module_matches_view m (md_view s)) (catalog env s))"

definition selected_module :: "modules_env \<Rightarrow> modules_page \<Rightarrow> agent_module option" where
  "selected_module env s =
     or_else (List.find (\<lambda>m. am_id m = md_selected s) (catalog env s))
       (or_else (List.find (\<lambda>m. am_id m = md_selected s) (visible_modules env s)) (first_of (visible_modules env s)))"

definition name_of_module :: "modules_env \<Rightarrow> modules_page \<Rightarrow> string \<Rightarrow> string" where
  "name_of_module env s i = coalesce (map_option am_name (List.find (\<lambda>m. am_id m = i) (catalog env s))) i"

section \<open>Handlers\<close>

definition refetch_modules :: "modules_env \<Rightarrow> modules_page \<Rightarrow> modules_page" where
  "refetch_modules env s =
     s\<lparr>md_modules := load_agent_modules (in_prototype (me_env env)) (current_snapshot (md_store s)) (md_modules s)\<rparr>"

definition run_module :: "modules_env \<Rightarrow> agent_module \<Rightarrow> module_action \<Rightarrow> exn + module_action_response \<Rightarrow> modules_page \<Rightarrow> modules_page" where
  "run_module env m act r s =
     (let (posts, x, a, st) = module_action_call (me_call env) (am_id m) act r (md_actions s, md_store s);
          s' = s\<lparr>md_actions := a, md_store := st, md_sent := md_sent s @ map (Pair m) posts\<rparr>
      in if x = None then s' else refetch_modules env s')"

definition flash_notice :: "string \<Rightarrow> modules_page \<Rightarrow> modules_page" where
  "flash_notice msg s = s\<lparr>md_notice := msg, md_timers := Suc (md_timers s)\<rparr>"

definition notice_timeout :: "modules_page \<Rightarrow> modules_page" where
  "notice_timeout s = (case md_timers s of 0 \<Rightarrow> s | Suc n \<Rightarrow> s\<lparr>md_notice := [], md_timers := n\<rparr>)"

definition select_module :: "string \<Rightarrow> modules_page \<Rightarrow> modules_page" where
  "select_module i s = s\<lparr>md_selected := i, md_workspace := Modules_Details\<rparr>"

definition agent_key_of_module :: "string \<Rightarrow> string" where \<comment> \<open>\<open>moduleId.replace(/^agent\./, "")\<close>\<close>
  "agent_key_of_module i = (if prefix ''agent.'' i then drop 6 i else i)"

definition open_agent_configuration :: "modules_env \<Rightarrow> string \<Rightarrow> modules_page \<Rightarrow> modules_page" where
  "open_agent_configuration env i s =
     (let b = session_set ''agenthive.agents.default_agent_key'' (agent_key_of_module i)
                (session_set ''agenthive.agents.default_tab'' ''instances'' (md_browser s));
          msg = replace_first ''{{name}}'' (name_of_module env s i) (page_t (me_env env) ''modulesConfigureNotice'')
      in (flash_notice msg (s\<lparr>md_browser := b\<rparr>))\<lparr>md_page := Some Agents\<rparr>)"

definition request_license :: "modules_env \<Rightarrow> string \<Rightarrow> modules_page \<Rightarrow> modules_page" where
  "request_license env i s =
     (let msg = replace_first ''{{name}}'' (name_of_module env s i) (page_t (me_env env) ''modulesRequestLicenseNotice'')
      in (flash_notice msg (s\<lparr>md_browser := session_set ''agenthive.license.default_tab'' ''scope'' (md_browser s)\<rparr>))
           \<lparr>md_page := Some License\<rparr>)"

definition module_busy :: "agent_module \<Rightarrow> modules_page \<Rightarrow> bool" where
  "module_busy m s \<longleftrightarrow> marks (md_actions s) Busy_Module = Some (am_id m)"

definition card_modules :: "modules_env \<Rightarrow> modules_page \<Rightarrow> agent_module list" where
  \<comment> \<open>the modules drawn with the buttons of a card or of the details\<close>
  "card_modules env s =
     (case md_workspace s of
        Modules_Catalog \<Rightarrow>
          (let a = modules_state env s in
           if as_loading a \<or> js_truthy_str (as_error a) then [] else visible_modules env s)
      | Modules_Details \<Rightarrow> (case selected_module env s of None \<Rightarrow> [] | Some m \<Rightarrow> [m]))"

definition queue_on_page :: "modules_env \<Rightarrow> modules_page \<Rightarrow> queue_item list" where
  "queue_on_page env s =
     (case md_workspace s of
        Modules_Catalog \<Rightarrow> queue_shown (me_collate env) (page_t (me_env env)) (catalog env s)
      | Modules_Details \<Rightarrow> [])"

section \<open>Events\<close>

datatype modules_event =
    Modules_Mount
  | Modules_Arrive nat "nat \<Rightarrow> exn + agent_module_list"
  | Modules_Retry
  | Set_Module_Filters module_filters
  | Set_Module_View module_view
  | Set_Module_Workspace module_workspace
  | Press_Select nat \<comment> \<open>the button of the n-th card or of the n-th entry of the queue\<close>
  | Press_Queue_Select nat
  | Press_Card nat "exn + module_action_response"
  | Press_Queue nat "exn + module_action_response"
  | Press_Card_Configure nat
  | Press_Card_License nat
  | Notice_Timeout

definition modules_step :: "modules_env \<Rightarrow> modules_event \<Rightarrow> modules_page \<Rightarrow> modules_page" where
  "modules_step env e s =
     (let proto = in_prototype (me_env env); t = page_t (me_env env);
          cards = card_modules env s; queue = queue_on_page env s in
      case e of
        Modules_Mount \<Rightarrow> refetch_modules env s
      | Modules_Arrive n a \<Rightarrow>
          if in_waiting n (md_modules s) then s\<lparr>md_modules := agent_modules_answered t n a (md_modules s)\<rparr> else s
      | Modules_Retry \<Rightarrow> refetch_modules env s
      | Set_Module_Filters f \<Rightarrow> s\<lparr>md_filters := f\<rparr>
      | Set_Module_View v \<Rightarrow> s\<lparr>md_view := v\<rparr>
      | Set_Module_Workspace w \<Rightarrow> s\<lparr>md_workspace := w\<rparr>
      | Press_Select n \<Rightarrow>
          if n < length cards \<and> md_workspace s = Modules_Catalog then select_module (am_id (cards ! n)) s else s
      | Press_Queue_Select n \<Rightarrow> if n < length queue then select_module (am_id (qi_module (queue ! n))) s else s
      | Press_Card n r \<Rightarrow>
          if n < length cards \<and> \<not> module_busy (cards ! n) s then
            (case card_action (cards ! n) of None \<Rightarrow> s | Some act \<Rightarrow> run_module env (cards ! n) act r s)
          else s
      | Press_Queue n r \<Rightarrow>
          if n < length queue then
            (case qi_action (queue ! n) of
               Ask_License \<Rightarrow> request_license env (am_id (qi_module (queue ! n))) s
             | Run_Module act \<Rightarrow>
                 if module_busy (qi_module (queue ! n)) s then s else run_module env (qi_module (queue ! n)) act r s
             | Configure_Module \<Rightarrow> open_agent_configuration env (am_id (qi_module (queue ! n))) s)
          else s
      | Press_Card_Configure n \<Rightarrow>
          if n < length cards \<and> card_configure (cards ! n) then open_agent_configuration env (am_id (cards ! n)) s else s
      | Press_Card_License n \<Rightarrow>
          if n < length cards \<and> \<not> can_manage_module (cards ! n) then request_license env (am_id (cards ! n)) s else s
      | Notice_Timeout \<Rightarrow> notice_timeout s)"

section \<open>Buttons\<close>

lemma card_action_states:
  "card_action m = Some act \<Longrightarrow>
   can_manage_module m \<and> (case act of Install \<Rightarrow> am_state m = Not_Installed | Enable \<Rightarrow> am_state m = Installed \<or> am_state m = Disabled
                            | Disable \<Rightarrow> am_state m = Enabled)"
  by (cases "am_state m") (auto simp: card_action_def split: if_splits)

lemma queue_runs_card_action:
  "queue_item_of t m = Some q \<Longrightarrow> qi_module q = m \<and> (\<forall>act. qi_action q = Run_Module act \<longrightarrow> card_action m = Some act)"
  by (auto simp: queue_item_of_def card_action_def can_manage_module_def split: if_splits)

text \<open>In the prototype the store does what the button says: the state answered is the state of the entry.\<close>

lemma card_action_takes_effect:
  assumes "card_action m = Some act"
  shows "am_state (act_on_module (am_id m) act m) = ma_state (proto_module_action (am_id m) act)"
  using card_action_states [OF assms]
  by (cases act) (auto simp: act_on_module_def proto_module_action_def can_manage_module_def)

text \<open>
  An enabled module that lacks a dependency cannot be disabled: card and queue only ask for a
  license.  Disabling the module it depends on brings this about.
\<close>

lemma enabled_dependent_stuck:
  assumes "am_enabled m" "am_missing_dependencies m \<noteq> []"
  shows "card_action m = None \<and> \<not> card_configure m \<and> (\<exists>q. queue_item_of t m = Some q \<and> qi_action q = Ask_License)"
  using assms by (auto simp: card_action_def card_configure_def can_manage_module_def queue_item_of_def)

lemma disabling_strands_dependents:
  assumes "m \<in> set (agent_modules st)" "am_id m \<noteq> d" "d \<in> set (am_dependencies m)"
    and "\<forall>x\<in>set (agent_modules st). am_id x = d \<longrightarrow> am_licensed x \<and> am_missing_features x = []"
  shows "\<exists>m'\<in>set (agent_modules (snd (run_module_action d Disable st))).
           am_id m' = am_id m \<and> am_enabled m' = am_enabled m \<and> card_action m' = None"
proof -
  let ?ms = "map (act_on_module d Disable) (agent_modules st)"
  let ?on = "map am_id (filter am_enabled ?ms)"
  have off: "d \<notin> set ?on"
  proof
    assume "d \<in> set ?on"
    then obtain x where "x \<in> set (agent_modules st)" "am_id (act_on_module d Disable x) = d"
      "am_enabled (act_on_module d Disable x)" by auto
    then show False using assms(4) by (simp add: act_on_module_def split: if_splits)
  qed
  have same: "act_on_module d Disable m = m" using assms(2) by (simp add: act_on_module_def)
  let ?m = "m\<lparr>am_missing_dependencies := filter (\<lambda>x. \<not> List.member ?on x) (am_dependencies m)\<rparr>"
  have "?m \<in> set (recalculate_dependencies ?ms)"
    unfolding recalculate_dependencies_def Let_def using assms(1) same
    by (metis (no_types, lifting) image_eqI list.set_map)
  moreover have "am_missing_dependencies ?m \<noteq> []"
    using off assms(3) by (auto simp: filter_empty_conv)
  ultimately show ?thesis
    by (intro bexI [of _ ?m]) (simp_all add: run_module_action_def card_action_def can_manage_module_def)
qed

section \<open>The queue\<close>

lemma compare_queue_rank:
  "compare_queue collate a b \<le> 0 \<Longrightarrow> qi_rank a \<le> qi_rank b"
  "\<not> compare_queue collate a b \<le> 0 \<Longrightarrow> qi_rank b \<le> qi_rank a"
  by (auto simp: compare_queue_def split: if_splits)

lemma queue_sorted: "sorted_wrt (\<lambda>a b. qi_rank a \<le> qi_rank b) (module_action_queue collate t ms)"
  unfolding module_action_queue_def
  by (rule sorted_wrt_sort_by) (auto dest: compare_queue_rank)

lemma set_queue: "set (module_action_queue collate t ms) = {q. \<exists>m\<in>set ms. queue_item_of t m = Some q}"
  by (auto simp: module_action_queue_def List.map_filter_def image_iff) (metis option.sel)+

lemma queue_shown_entry:
  assumes "q \<in> set (queue_shown collate t ms)"
  shows "qi_module q \<in> set ms \<and> queue_item_of t (qi_module q) = Some q"
proof -
  have "q \<in> set (module_action_queue collate t ms)" using assms by (auto simp: queue_shown_def dest: in_set_takeD)
  then show ?thesis using queue_runs_card_action by (fastforce simp: set_queue)
qed

text \<open>
  The queue of the marketplace shows the most urgent things to do, whatever the collation of the
  host says about priorities: at most four entries, in the order of their ranks, each for an entry of
  the catalogue, none of them less urgent than an entry that is left out; and a button that runs an
  action is the button of the module's own card.
\<close>

theorem queue_shows_most_urgent:
  "length (queue_shown collate t ms) \<le> 4 \<and>
   sorted_wrt (\<lambda>a b. qi_rank a \<le> qi_rank b) (queue_shown collate t ms) \<and>
   list_all (\<lambda>q. List.member ms (qi_module q) \<and>
               (case qi_action q of Run_Module act \<Rightarrow> card_action (qi_module q) = Some act | _ \<Rightarrow> True))
     (queue_shown collate t ms) \<and>
   list_all (\<lambda>q. list_all (\<lambda>r. qi_rank q \<le> qi_rank r) (drop 4 (module_action_queue collate t ms)))
     (queue_shown collate t ms)"
proof -
  let ?q = "module_action_queue collate t ms"
  have "sorted_wrt (\<lambda>a b. qi_rank a \<le> qi_rank b) (take 4 ?q @ drop 4 ?q)"
    unfolding append_take_drop_id by (rule queue_sorted)
  then have "sorted_wrt (\<lambda>a b. qi_rank a \<le> qi_rank b) (take 4 ?q)"
    and "\<forall>q\<in>set (take 4 ?q). \<forall>r\<in>set (drop 4 ?q). qi_rank q \<le> qi_rank r"
    unfolding sorted_wrt_append by blast+
  then show ?thesis
    using queue_shown_entry queue_runs_card_action
    by (fastforce simp: queue_shown_def list_all_iff split: queue_action.split)
qed

section \<open>Requests\<close>

definition requests_offered :: "modules_page \<Rightarrow> bool" where
  "requests_offered s \<longleftrightarrow>
     list_all (\<lambda>(m, path). \<exists>act. card_action m = Some act \<and> path = module_action_path (am_id m) act) (md_sent s)"

lemma sent_frame [simp]:
  "md_sent (refetch_modules env s) = md_sent s" "md_sent (flash_notice msg s) = md_sent s"
  "md_sent (notice_timeout s) = md_sent s" "md_sent (select_module i s) = md_sent s"
  "md_sent (open_agent_configuration env i s) = md_sent s" "md_sent (request_license env i s) = md_sent s"
  by (simp_all add: refetch_modules_def flash_notice_def notice_timeout_def select_module_def
      open_agent_configuration_def request_license_def Let_def split: nat.split)

lemma sent_run_module [simp]:
  "md_sent (run_module env m act r s) =
     md_sent s @ (if call_proto (me_call env) then [] else [(m, module_action_path (am_id m) act)])"
  by (auto simp: run_module_def module_action_call_def Let_def split: prod.splits)

text \<open>In the prototype nothing is posted, and the store carries out what the button says.\<close>

lemma stored_run_module:
  assumes "call_proto (me_call env)" "card_action m = Some act" "m \<in> set (agent_modules (md_store s))"
  shows "\<exists>m'\<in>set (agent_modules (md_store (run_module env m act r s))).
           am_id m' = am_id m \<and> am_state m' = ma_state (proto_module_action (am_id m) act)"
proof -
  let ?ms = "map (act_on_module (am_id m) act) (agent_modules (md_store s))"
  have "agent_modules (md_store (run_module env m act r s)) = recalculate_dependencies ?ms"
    using assms(1)
    by (auto simp: run_module_def module_action_call_def answered_by_def run_module_action_def refetch_modules_def Let_def
        emit_def split: prod.splits)
  moreover have "am_id (act_on_module (am_id m) act m) = am_id m" by (simp add: act_on_module_def split: module_action.split)
  ultimately show ?thesis
    using assms(3) card_action_takes_effect [OF assms(2)]
    by (force simp: recalculate_dependencies_def Let_def)
qed

lemma queue_on_page_entry: "q \<in> set (queue_on_page env s) \<Longrightarrow> qi_action q = Run_Module act \<Longrightarrow> card_action (qi_module q) = Some act"
  by (cases "md_workspace s") (auto simp: queue_on_page_def dest!: queue_shown_entry queue_runs_card_action)

lemma requests_offered_step: "requests_offered s \<Longrightarrow> requests_offered (modules_step env e s)"
  using queue_on_page_entry [OF nth_mem]
  by (cases e) (auto simp: modules_step_def Let_def requests_offered_def split: option.split queue_action.split)

interpretation marketplace: event_system "\<lambda>s. s = modules_page_init b st" "modules_step env" requests_offered for b st env
  by unfold_locales (simp_all add: requests_offered_step, simp add: requests_offered_def modules_page_init_def)

text \<open>
  C32: Whatever the user presses and the server answers, every request the marketplace has sent was
  drawn for an entry that is licensed and lacks no feature and no dependency, and its path names that
  entry and the action its state leaves: installing what is not installed, enabling what is installed or
  disabled, disabling what is enabled.
\<close>

theorem module_requests_allowed:
  "list_all (\<lambda>(m, path).
       am_licensed m \<and> am_missing_features m = [] \<and> am_missing_dependencies m = [] \<and>
       (case am_state m of
          Not_Installed \<Rightarrow> path = ''/api/v1/agent-modules/'' @ am_id m @ ''/install''
        | Installed \<Rightarrow> path = ''/api/v1/agent-modules/'' @ am_id m @ ''/enable''
        | Disabled \<Rightarrow> path = ''/api/v1/agent-modules/'' @ am_id m @ ''/enable''
        | Enabled \<Rightarrow> path = ''/api/v1/agent-modules/'' @ am_id m @ ''/disable''
        | _ \<Rightarrow> False))
     (md_sent (fold (modules_step env) es (modules_page_init b st)))"
proof -
  have "requests_offered (fold (modules_step env) es (modules_page_init b st))" by (rule marketplace.inv_reachable) simp
  then show ?thesis
    by (auto simp: requests_offered_def list_all_iff card_action_def can_manage_module_def module_action_path_def
        split: if_splits module_state.splits)
      fastforce?
qed

section \<open>Filters and notices\<close>

text \<open>A category of the list is never empty, as long as nothing else is filtered.\<close>

lemma category_not_empty:
  assumes "c \<in> set (module_categories ms)" "ms \<noteq> []"
  shows "filter_modules \<lparr>mf_category = c, mf_license = License_All, mf_query = [], mf_state = ''all''\<rparr> ms \<noteq> []"
proof -
  have "trim [] = []" by code_simp
  then have "passes_query [] m" for m by (simp add: passes_query_def to_lower_def)
  moreover obtain m where "m \<in> set ms" using assms(2) by (cases ms) auto
  ultimately show ?thesis
    using assms by (auto simp: module_categories_def sort_texts_def filter_modules_def passes_license_def filter_empty_conv)
qed

text \<open>The timer of a first notice clears a second one that was shown meanwhile.\<close>

lemma notice_cleared_by_earlier_timer:
  "md_notice (notice_timeout (flash_notice later (flash_notice first s))) = []"
  by (simp add: notice_timeout_def flash_notice_def)

text \<open>The details stay on a chosen module that the filters hide.\<close>

lemma details_ignore_filters:
  "List.find (\<lambda>m. am_id m = md_selected s) (catalog env s) = Some m \<Longrightarrow> selected_module env (s\<lparr>md_filters := f\<rparr>) = Some m"
  by (simp add: selected_module_def catalog_def modules_state_def or_else_def)

end
