(* ===== verification/Locale_Store.thy ===== *)
theory Locale_Store
  imports Session Transitions
begin

text \<open>
  The languages of the console: \<open>i18n.ts\<close> (the loaded message tables, the one import under way for each
  language, the stored choice) and the provider of \<open>i18n-context.tsx\<close>, which goes on showing the last
  language whose table has arrived.  The import of a table is answered by an event, with the table or
  with the error the import rejects with.
\<close>

datatype locale_id = En_US | Zh_CN

type_synonym messages = "string \<Rightarrow> string option"

definition locale_str :: "locale_id \<Rightarrow> string" where
  "locale_str l = (case l of En_US \<Rightarrow> ''en-US'' | Zh_CN \<Rightarrow> ''zh-CN'')"

definition default_locale :: locale_id where "default_locale = Zh_CN"

definition is_locale :: "string option \<Rightarrow> locale_id option" where
  "is_locale v = (if v = Some ''en-US'' then Some En_US else if v = Some ''zh-CN'' then Some Zh_CN else None)"

definition locale_storage_key :: string where "locale_storage_key = ''agenthive.locale''"

definition get_stored_locale :: "browser \<Rightarrow> locale_id" where
  "get_stored_locale b = coalesce (is_locale (local_get locale_storage_key b)) default_locale"

definition save_locale :: "locale_id \<Rightarrow> browser \<Rightarrow> browser" where
  "save_locale l b = local_set locale_storage_key (locale_str l) b"

datatype import_state = Import_Running | Import_Failed exn

record locale_store =
  lc_messages :: "locale_id \<Rightarrow> messages"
  lc_loaded :: "locale_id list"
  lc_promises :: "locale_id \<Rightarrow> import_state option"

record locale_provider =
  lv_store :: locale_store
  lv_locale :: locale_id \<comment> \<open>the language asked for\<close>
  lv_shown :: locale_id \<comment> \<open>\<open>loadedLocale\<close>\<close>
  lv_waiting :: bool \<comment> \<open>the effect of the language asked for still waits\<close>

definition locale_store_init :: "messages \<Rightarrow> locale_store" where
  "locale_store_init m = \<lparr>lc_messages = (\<lambda>_. m), lc_loaded = [default_locale], lc_promises = (\<lambda>_. None)\<rparr>"

definition translate :: "locale_store \<Rightarrow> locale_id \<Rightarrow> string \<Rightarrow> string" where
  "translate s l key = coalesce (lc_messages s l key) key"

definition set_messages_for_locale :: "locale_id \<Rightarrow> messages \<Rightarrow> locale_store \<Rightarrow> locale_store" where
  "set_messages_for_locale l m s =
     s\<lparr>lc_messages := (lc_messages s)(l := m),
       lc_loaded := (if List.member (lc_loaded s) l then lc_loaded s else lc_loaded s @ [l])\<rparr>"

datatype load_answer = Load_Done | Load_Waits | Load_Rejected exn

definition load_messages_of :: "locale_id \<Rightarrow> locale_store \<Rightarrow> load_answer \<times> locale_store" where
  "load_messages_of l s =
     (if List.member (lc_loaded s) l then (Load_Done, s)
      else case lc_promises s l of
        Some Import_Running \<Rightarrow> (Load_Waits, s)
      | Some (Import_Failed e) \<Rightarrow> (Load_Rejected e, s)
      | None \<Rightarrow> (Load_Waits, s\<lparr>lc_promises := (lc_promises s)(l := Some Import_Running)\<rparr>))"

definition import_settles :: "locale_id \<Rightarrow> exn + messages \<Rightarrow> locale_store \<Rightarrow> locale_store" where
  "import_settles l r s =
     (if lc_promises s l \<noteq> Some Import_Running then s
      else case r of
        Inr m \<Rightarrow> (set_messages_for_locale l m s)\<lparr>lc_promises := (lc_promises s)(l := None)\<rparr>
      | Inl e \<Rightarrow> s\<lparr>lc_promises := (lc_promises s)(l := Some (Import_Failed e))\<rparr>)"

definition locale_effect :: "locale_provider \<Rightarrow> locale_provider" where
  \<comment> \<open>the effect of a language asked for\<close>
  "locale_effect p =
     (case load_messages_of (lv_locale p) (lv_store p) of
        (Load_Done, s) \<Rightarrow> p\<lparr>lv_store := s, lv_shown := lv_locale p, lv_waiting := False\<rparr>
      | (Load_Waits, s) \<Rightarrow> p\<lparr>lv_store := s, lv_waiting := True\<rparr>
      | (Load_Rejected e, s) \<Rightarrow> p\<lparr>lv_store := s, lv_waiting := False\<rparr>)"

definition locale_provider_init :: "messages \<Rightarrow> locale_id \<Rightarrow> locale_provider" where
  "locale_provider_init m l =
     locale_effect \<lparr>lv_store = locale_store_init m, lv_locale = l, lv_shown = default_locale, lv_waiting = False\<rparr>"

datatype locale_event = Ask_Locale locale_id | Import_Settles locale_id "exn + messages"

definition locale_step :: "locale_event \<Rightarrow> locale_provider \<Rightarrow> locale_provider" where
  "locale_step e p =
     (case e of
        Ask_Locale l \<Rightarrow> if l = lv_locale p then p else locale_effect (p\<lparr>lv_locale := l\<rparr>)
      | Import_Settles l r \<Rightarrow>
          let s = import_settles l r (lv_store p); p' = p\<lparr>lv_store := s\<rparr> in
          if lc_promises (lv_store p) l = Some Import_Running \<and> l = lv_locale p \<and> lv_waiting p
          then (case r of Inr _ \<Rightarrow> p'\<lparr>lv_shown := l, lv_waiting := False\<rparr> | Inl _ \<Rightarrow> p'\<lparr>lv_waiting := False\<rparr>)
          else p')"

definition provider_t :: "locale_provider \<Rightarrow> string \<Rightarrow> string" where
  "provider_t p = translate (lv_store p) (lv_shown p)"

section \<open>The stored choice\<close>

lemma stored_locale_roundtrip: "get_stored_locale (save_locale l b) = l"
  by (cases l) (simp_all add: get_stored_locale_def save_locale_def is_locale_def locale_str_def local_get_def local_set_def)

section \<open>What is shown\<close>

definition locale_ok :: "locale_provider \<Rightarrow> bool" where
  "locale_ok p \<longleftrightarrow>
     lv_shown p \<in> set (lc_loaded (lv_store p)) \<and>
     (\<forall>l. lc_promises (lv_store p) l \<noteq> None \<longrightarrow> l \<notin> set (lc_loaded (lv_store p))) \<and>
     (lv_waiting p \<longrightarrow> lc_promises (lv_store p) (lv_locale p) = Some Import_Running) \<and>
     (\<not> lv_waiting p \<longrightarrow> lv_shown p = lv_locale p \<or> (\<exists>e. lc_promises (lv_store p) (lv_locale p) = Some (Import_Failed e)))"

lemma locale_ok_effect:
  assumes "lv_shown p \<in> set (lc_loaded (lv_store p))"
    and "\<forall>l. lc_promises (lv_store p) l \<noteq> None \<longrightarrow> l \<notin> set (lc_loaded (lv_store p))"
  shows "locale_ok (locale_effect p)"
  using assms
  by (auto simp: locale_ok_def locale_effect_def load_messages_of_def split: option.splits import_state.splits)

lemma locale_ok_init: "locale_ok (locale_provider_init m l)"
  unfolding locale_provider_init_def by (rule locale_ok_effect) (simp_all add: locale_store_init_def)

lemma locale_ok_settles: "locale_ok p \<Longrightarrow> locale_ok (locale_step (Import_Settles l r) p)"
  by (cases r) (auto simp: locale_ok_def locale_step_def import_settles_def set_messages_for_locale_def Let_def)

lemma locale_ok_step: "locale_ok p \<Longrightarrow> locale_ok (locale_step e p)"
proof (cases e)
  case (Ask_Locale l)
  assume ok: "locale_ok p"
  then have "locale_ok (locale_effect (p\<lparr>lv_locale := l\<rparr>))"
    by (intro locale_ok_effect) (simp_all add: locale_ok_def)
  with ok show ?thesis by (simp add: Ask_Locale locale_step_def)
qed (simp add: locale_ok_settles)

interpretation languages: event_system "\<lambda>p. p = locale_provider_init m l" locale_step locale_ok for m l
  by unfold_locales (simp_all add: locale_ok_init locale_ok_step)

text \<open>
  C33: Whatever languages are asked for, and however their imports end and overlap, the console shows a
  language whose table is loaded, and when no import is waited for it shows the language asked for,
  unless its import has failed.
\<close>

theorem shown_language_loaded:
  "let p = fold locale_step es (locale_provider_init m l) in
   List.member (lc_loaded (lv_store p)) (lv_shown p) \<and>
   (lv_waiting p \<or> lv_shown p = lv_locale p \<or> (\<exists>e. lc_promises (lv_store p) (lv_locale p) = Some (Import_Failed e)))"
proof -
  have "locale_ok (fold locale_step es (locale_provider_init m l))" by (rule languages.inv_reachable) simp
  then show ?thesis by (auto simp: locale_ok_def Let_def)
qed

text \<open>
  An import that failed once is never tried again: its rejected promise stays in the table, and
  whatever is asked for later, the language is not shown.
\<close>

lemma failed_promise_stays:
  "lc_promises (lv_store p) l = Some (Import_Failed e) \<Longrightarrow> locale_ok p \<Longrightarrow>
   lc_promises (lv_store (locale_step ev p)) l = Some (Import_Failed e)"
  by (cases ev) (auto simp: locale_step_def locale_effect_def load_messages_of_def import_settles_def
      set_messages_for_locale_def locale_ok_def Let_def split: option.splits import_state.splits sum.splits)

lemma failed_import_is_final:
  assumes "lc_promises (lv_store p) l = Some (Import_Failed e)" "locale_ok p"
  shows "lv_shown (fold locale_step evs p) \<noteq> l"
proof -
  have "lc_promises (lv_store (fold locale_step evs p)) l = Some (Import_Failed e) \<and> locale_ok (fold locale_step evs p)"
    using assms by (induction evs arbitrary: p) (simp_all add: failed_promise_stays locale_ok_step)
  then show ?thesis unfolding locale_ok_def by (metis option.distinct(1))
qed

end
