(* ===== verification/Employee_Labels.thy ===== *)
theory Employee_Labels
  imports Agent_Hooks Locale_Store
begin

text \<open>
  The digital employees by their kind: \<open>pages/digital-employees/agentCategory.ts\<close> (the category of an
  agent and the prompts, inputs, steps and results of its workflow) and \<open>lib/agentDisplay.ts\<close> (names,
  titles and token limits).  Texts outside ASCII are given by their code points.
\<close>

section \<open>Categories\<close>

datatype employee_category =
    Cat_All | Cat_Customer | Cat_Marketing | Cat_Hr | Cat_Media | Cat_Operations | Cat_Finance | Cat_Analytics | Cat_General

definition employee_category_order :: "employee_category list" where
  "employee_category_order =
     [Cat_All, Cat_Customer, Cat_Marketing, Cat_Hr, Cat_Media, Cat_Operations, Cat_Finance, Cat_Analytics, Cat_General]"

record workbench_profile =
  pr_actions :: "string list"
  pr_category :: employee_category
  pr_inputs :: "string list"
  pr_outputs :: "string list"
  pr_steps :: "string list"

definition profile_by_agent_key :: "(string \<times> workbench_profile) list" where
  "profile_by_agent_key =
     [(''content_analysis'',
       \<lparr>pr_actions = [''agentWorkflowContentBreakdown'', ''agentWorkflowSellingPoints'', ''agentWorkflowChannelVariants''],
        pr_category = Cat_Marketing,
        pr_inputs = [''agentInputContentLink'', ''agentInputTargetAudience'', ''agentInputChannel''],
        pr_outputs = [''agentOutputContentAngles'', ''agentOutputSellingPoints'', ''agentOutputChecklist''],
        pr_steps = [''agentStepReadBrief'', ''agentStepExtractSellingPoints'', ''agentStepGenerateVariants'', ''agentStepPolishTone'']\<rparr>),
      (''copywriting'',
       \<lparr>pr_actions = [''agentWorkflowProductCopy'', ''agentWorkflowChannelVariants'', ''agentWorkflowSellingPoints''],
        pr_category = Cat_Marketing,
        pr_inputs = [''agentInputProductInfo'', ''agentInputChannel'', ''agentInputTone''],
        pr_outputs = [''agentOutputCopy'', ''agentOutputVariants'', ''agentOutputChecklist''],
        pr_steps = [''agentStepReadBrief'', ''agentStepExtractSellingPoints'', ''agentStepGenerateVariants'', ''agentStepPolishTone'']\<rparr>),
      (''customer_service'',
       \<lparr>pr_actions = [''agentWorkflowCustomerReply'', ''agentWorkflowSopLookup'', ''agentWorkflowEscalation''],
        pr_category = Cat_Customer,
        pr_inputs = [''agentInputCustomerQuestion'', ''agentInputOrderContext'', ''agentInputPolicyScope''],
        pr_outputs = [''agentOutputReply'', ''agentOutputEvidence'', ''agentOutputFollowUp''],
        pr_steps = [''agentStepUnderstandIssue'', ''agentStepRetrievePolicy'', ''agentStepDraftAnswer'', ''agentStepEscalateIfNeeded'']\<rparr>),
      (''data_analyst'',
       \<lparr>pr_actions = [''agentWorkflowMetricExplain'', ''agentWorkflowTrendInsight'', ''agentWorkflowDataQuestion''],
        pr_category = Cat_Analytics,
        pr_inputs = [''agentInputBusinessData'', ''agentInputMetricQuestion'', ''agentInputTimeRange''],
        pr_outputs = [''agentOutputInsight'', ''agentOutputChartPlan'', ''agentOutputRecommendation''],
        pr_steps = [''agentStepReadData'', ''agentStepAnalyzeSignal'', ''agentStepGenerateResult'', ''agentStepSuggestNext'']\<rparr>),
      (''finance'',
       \<lparr>pr_actions = [''agentWorkflowFinanceExplain'', ''agentWorkflowExpenseCheck'', ''agentWorkflowReportInsight''],
        pr_category = Cat_Finance,
        pr_inputs = [''agentInputFinancePolicy'', ''agentInputStatement'', ''agentInputAccountingQuestion''],
        pr_outputs = [''agentOutputFinanceAnswer'', ''agentOutputRiskNote'', ''agentOutputReconciliationSteps''],
        pr_steps = [''agentStepCheckRules'', ''agentStepReadData'', ''agentStepAnalyzeSignal'', ''agentStepPrepareRecommendation'']\<rparr>),
      (''hr_screening'',
       \<lparr>pr_actions = [''agentWorkflowResumeSummary'', ''agentWorkflowInterviewQuestions'', ''agentWorkflowFitScore''],
        pr_category = Cat_Hr,
        pr_inputs = [''agentInputResume'', ''agentInputJobDescription'', ''agentInputHiringCriteria''],
        pr_outputs = [''agentOutputSummary'', ''agentOutputScore'', ''agentOutputQuestions''],
        pr_steps = [''agentStepParseResume'', ''agentStepMatchRole'', ''agentStepScoreCandidate'', ''agentStepPrepareInterview'']\<rparr>),
      (''image_generation'',
       \<lparr>pr_actions = [''agentWorkflowImagePrompt'', ''agentWorkflowReferenceRedraw'', ''agentWorkflowAssetChecklist''],
        pr_category = Cat_Media,
        pr_inputs = [''agentInputPrompt'', ''agentInputReferenceAssets'', ''agentInputMediaSpecs''],
        pr_outputs = [''agentOutputPrompt'', ''agentOutputImageVariants'', ''agentOutputAssetPlan''],
        pr_steps = [''agentStepCollectAssets'', ''agentStepPlanCreative'', ''agentStepGenerateMedia'', ''agentStepReviewOutputs'']\<rparr>),
      (''product_design'',
       \<lparr>pr_actions = [''agentWorkflowProductConcept'', ''agentWorkflowSellingPoints'', ''agentWorkflowChannelVariants''],
        pr_category = Cat_Marketing,
        pr_inputs = [''agentInputProductInfo'', ''agentInputTargetAudience'', ''agentInputExpectedFormat''],
        pr_outputs = [''agentOutputProductConcept'', ''agentOutputSellingPoints'', ''agentOutputNextSteps''],
        pr_steps = [''agentStepReadBrief'', ''agentStepExtractSellingPoints'', ''agentStepGenerateVariants'', ''agentStepSuggestNext'']\<rparr>),
      (''report_writer'',
       \<lparr>pr_actions = [''agentWorkflowReportDraft'', ''agentWorkflowActionSummary'', ''agentWorkflowNextPlan''],
        pr_category = Cat_Analytics,
        pr_inputs = [''agentInputBusinessData'', ''agentInputKnownContext'', ''agentInputExpectedFormat''],
        pr_outputs = [''agentOutputReport'', ''agentOutputActionItems'', ''agentOutputNextSteps''],
        pr_steps = [''agentStepUnderstandTask'', ''agentStepReadData'', ''agentStepGenerateResult'', ''agentStepPolishTone'']\<rparr>),
      (''store_operations'',
       \<lparr>pr_actions = [''agentWorkflowStoreListing'', ''agentWorkflowPromotionPlan'', ''agentWorkflowCustomerInsight''],
        pr_category = Cat_Operations,
        pr_inputs = [''agentInputStoreGoal'', ''agentInputShopData'', ''agentInputProductListing''],
        pr_outputs = [''agentOutputOperationPlan'', ''agentOutputListingFixes'', ''agentOutputPromotionChecklist''],
        pr_steps = [''agentStepReadData'', ''agentStepAnalyzeSignal'', ''agentStepPrepareRecommendation'', ''agentStepSuggestNext'']\<rparr>),
      (''video_generation'',
       \<lparr>pr_actions = [''agentWorkflowVideoStoryboard'', ''agentWorkflowVideoCommand'', ''agentWorkflowAssetChecklist''],
        pr_category = Cat_Media,
        pr_inputs = [''agentInputPrompt'', ''agentInputReferenceAssets'', ''agentInputMediaSpecs''],
        pr_outputs = [''agentOutputStoryboard'', ''agentOutputVideoPlan'', ''agentOutputAssetPlan''],
        pr_steps = [''agentStepCollectAssets'', ''agentStepPlanCreative'', ''agentStepGenerateMedia'', ''agentStepReviewOutputs'']\<rparr>)]"

definition normalized_agent_key :: "string option \<Rightarrow> string" where
  "normalized_agent_key v = (let s = coalesce v [] in to_lower (if prefix ''agent.'' s then drop 6 s else s))"

definition normalized_category :: "string option \<Rightarrow> employee_category option" where
  "normalized_category v =
     (case v of None \<Rightarrow> None
      | Some s \<Rightarrow> map_of
          [(''customer'', Cat_Customer), (''marketing'', Cat_Marketing), (''hr'', Cat_Hr), (''media'', Cat_Media),
           (''operations'', Cat_Operations), (''finance'', Cat_Finance), (''analytics'', Cat_Analytics),
           (''general'', Cat_General)] s)"

definition profile_for_employee :: "workbench_agent \<Rightarrow> workbench_profile option" where
  "profile_for_employee e =
     (let find = (\<lambda>v. map_of profile_by_agent_key (normalized_agent_key v)) in
      or_else (find (wa_workflow_profile e)) (or_else (find (Some (wa_agent_key e))) (find (Some (wa_module_key e)))))"

definition category_for_employee :: "workbench_agent \<Rightarrow> employee_category" where
  "category_for_employee e =
     (case normalized_category (wa_category e) of
        Some c \<Rightarrow> c
      | None \<Rightarrow>
          (case profile_for_employee e of
             Some p \<Rightarrow> pr_category p
           | None \<Rightarrow>
          (let has = (\<lambda>p. str_includes p (to_lower (join '' '' [wa_agent_key e, wa_module_key e, wa_name e])))
           in if list_ex has [''customer'', utf8 [0x5BA2, 0x670D], ''support''] then Cat_Customer
           else if list_ex has [''copy'', ''content'', ''marketing'', utf8 [0x6587, 0x6848]] then Cat_Marketing
           else if list_ex has [''hr'', ''resume'', utf8 [0x62DB, 0x8058], utf8 [0x7B80, 0x5386]] then Cat_Hr
           else if list_ex has [''image'', ''video'', ''media'', utf8 [0x751F, 0x6210]] then Cat_Media
           else if list_ex has [''store'', ''shop'', utf8 [0x8FD0, 0x8425], utf8 [0x5E97, 0x94FA]] then Cat_Operations
           else if list_ex has [''finance'', utf8 [0x8D22, 0x52A1], ''expense'', ''invoice''] then Cat_Finance
           else if list_ex has [''data'', ''analytics'', utf8 [0x5206, 0x6790]] then Cat_Analytics
           else Cat_General)))"

definition employee_category_label_key :: "employee_category \<Rightarrow> string" where
  "employee_category_label_key c =
     (case c of Cat_All \<Rightarrow> ''digitalEmployeesCategoryAll'' | Cat_Customer \<Rightarrow> ''digitalEmployeesCategoryCustomer''
      | Cat_General \<Rightarrow> ''digitalEmployeesCategoryGeneral'' | Cat_Hr \<Rightarrow> ''digitalEmployeesCategoryHr''
      | Cat_Marketing \<Rightarrow> ''digitalEmployeesCategoryMarketing'' | Cat_Media \<Rightarrow> ''digitalEmployeesCategoryMedia''
      | Cat_Operations \<Rightarrow> ''digitalEmployeesCategoryOperations'' | Cat_Finance \<Rightarrow> ''digitalEmployeesCategoryFinance''
      | Cat_Analytics \<Rightarrow> ''digitalEmployeesCategoryAnalytics'')"

section \<open>Workflows\<close>

definition prompt_starter_keys :: "string list" where
  "prompt_starter_keys =
     [''digitalEmployeesPromptCustomerReply'', ''digitalEmployeesPromptActionList'', ''digitalEmployeesPromptProductCopy'']"

definition workflow_action_keys :: "workbench_agent option \<Rightarrow> string list" where
  "workflow_action_keys e =
     (case e of None \<Rightarrow> prompt_starter_keys
      | Some x \<Rightarrow>
          (case profile_for_employee x of Some p \<Rightarrow> pr_actions p
           | None \<Rightarrow>
               (case category_for_employee x of
                  Cat_Customer \<Rightarrow> [''agentWorkflowCustomerReply'', ''agentWorkflowSopLookup'', ''agentWorkflowEscalation'']
                | Cat_Marketing \<Rightarrow> [''agentWorkflowProductCopy'', ''agentWorkflowChannelVariants'', ''agentWorkflowSellingPoints'']
                | Cat_Hr \<Rightarrow> [''agentWorkflowResumeSummary'', ''agentWorkflowInterviewQuestions'', ''agentWorkflowFitScore'']
                | Cat_Media \<Rightarrow> [''agentWorkflowImagePrompt'', ''agentWorkflowVideoStoryboard'', ''agentWorkflowAssetChecklist'']
                | _ \<Rightarrow> prompt_starter_keys)))"

definition employee_kind :: "workbench_agent option \<Rightarrow> employee_category" where
  "employee_kind e = (case e of None \<Rightarrow> Cat_General | Some x \<Rightarrow> category_for_employee x)"

definition workflow_step_keys :: "workbench_agent option \<Rightarrow> string list" where
  "workflow_step_keys e =
     (case Option.bind e profile_for_employee of Some p \<Rightarrow> pr_steps p
      | None \<Rightarrow>
          (case employee_kind e of
             Cat_Customer \<Rightarrow> [''agentStepUnderstandIssue'', ''agentStepRetrievePolicy'', ''agentStepDraftAnswer'', ''agentStepEscalateIfNeeded'']
           | Cat_Marketing \<Rightarrow> [''agentStepReadBrief'', ''agentStepExtractSellingPoints'', ''agentStepGenerateVariants'', ''agentStepPolishTone'']
           | Cat_Hr \<Rightarrow> [''agentStepParseResume'', ''agentStepMatchRole'', ''agentStepScoreCandidate'', ''agentStepPrepareInterview'']
           | Cat_Media \<Rightarrow> [''agentStepCollectAssets'', ''agentStepPlanCreative'', ''agentStepGenerateMedia'', ''agentStepReviewOutputs'']
           | _ \<Rightarrow> [''agentStepUnderstandTask'', ''agentStepUseContext'', ''agentStepGenerateResult'', ''agentStepSuggestNext'']))"

definition workflow_input_keys :: "workbench_agent option \<Rightarrow> string list" where
  "workflow_input_keys e =
     (case Option.bind e profile_for_employee of Some p \<Rightarrow> pr_inputs p
      | None \<Rightarrow>
          (case employee_kind e of
             Cat_Customer \<Rightarrow> [''agentInputCustomerQuestion'', ''agentInputOrderContext'', ''agentInputPolicyScope'']
           | Cat_Marketing \<Rightarrow> [''agentInputProductInfo'', ''agentInputChannel'', ''agentInputTone'']
           | Cat_Hr \<Rightarrow> [''agentInputResume'', ''agentInputJobDescription'', ''agentInputHiringCriteria'']
           | Cat_Media \<Rightarrow> [''agentInputPrompt'', ''agentInputReferenceAssets'', ''agentInputMediaSpecs'']
           | _ \<Rightarrow> [''agentInputTaskGoal'', ''agentInputKnownContext'', ''agentInputExpectedFormat'']))"

definition workflow_output_keys :: "workbench_agent option \<Rightarrow> string list" where
  "workflow_output_keys e =
     (case Option.bind e profile_for_employee of Some p \<Rightarrow> pr_outputs p
      | None \<Rightarrow>
          (case employee_kind e of
             Cat_Customer \<Rightarrow> [''agentOutputReply'', ''agentOutputEvidence'', ''agentOutputFollowUp'']
           | Cat_Marketing \<Rightarrow> [''agentOutputCopy'', ''agentOutputVariants'', ''agentOutputChecklist'']
           | Cat_Hr \<Rightarrow> [''agentOutputSummary'', ''agentOutputScore'', ''agentOutputQuestions'']
           | Cat_Media \<Rightarrow> [''agentOutputPrompt'', ''agentOutputStoryboard'', ''agentOutputAssetPlan'']
           | _ \<Rightarrow> [''agentOutputAnswer'', ''agentOutputActionItems'', ''agentOutputNextSteps'']))"

section \<open>Names, titles and limits\<close>

definition agent_display :: "(string \<times> (string \<times> string) \<times> (string \<times> string)) list" where
  \<comment> \<open>description and name, in English and in Chinese\<close>
  "agent_display =
     [(''content_analysis'', (''Analyze viral content hooks, structure, rhythm, and reusable patterns.'', ''Viral Content
        Analysis Agent''),
       (utf8 [0x62C6, 0x89E3, 0x7206, 0x6B3E, 0x5185, 0x5BB9, 0x7684, 0x94A9, 0x5B50, 0x3001, 0x7ED3, 0x6784, 0x3001, 0x8282,
        0x594F, 0x548C, 0x53EF, 0x590D, 0x7528, 0x5957, 0x8DEF, 0x3002], utf8 [0x7206, 0x6B3E, 0x5185, 0x5BB9, 0x62C6,
        0x89E3, 0x52A9, 0x624B])),
      (''copywriting'', (''Generate channel-specific product copy and campaign drafts.'', ''Copywriting Agent''),
       (utf8 [0x751F, 0x6210, 0x5C0F, 0x7EA2, 0x4E66, 0x3001, 0x6296, 0x97F3, 0x3001, 0x670B, 0x53CB, 0x5708, 0x548C, 0x5E97,
        0x94FA, 0x7B49, 0x591A, 0x6E20, 0x9053, 0x6587, 0x6848, 0x3002], utf8 [0x6587, 0x6848, 0x521B, 0x4F5C, 0x52A9,
        0x624B])),
      (''customer_service'', (''Handle customer questions with SOP retrieval, policy evidence, and escalation guidance.'',
        ''E-commerce Customer Service Agent''),
       (utf8 [0x57FA, 0x4E8E, 0x552E, 0x540E] @ '' SOP'' @ utf8 [0x3001, 0x653F, 0x7B56, 0x4F9D, 0x636E, 0x548C, 0x5347,
        0x7EA7, 0x89C4, 0x5219, 0x5904, 0x7406, 0x5BA2, 0x6237, 0x95EE, 0x9898, 0x3002], utf8 [0x7535, 0x5546, 0x5BA2,
        0x670D, 0x52A9, 0x624B])),
      (''data_analyst'', (''Answer business metric questions and explain trends.'', ''Data Analyst Agent''),
       (utf8 [0x56DE, 0x7B54, 0x7ECF, 0x8425, 0x6307, 0x6807, 0x95EE, 0x9898, 0x3001, 0x89E3, 0x91CA, 0x8D8B, 0x52BF, 0x5E76,
        0x751F, 0x6210, 0x5206, 0x6790, 0x7ED3, 0x8BBA, 0x3002], utf8 [0x6570, 0x636E, 0x5206, 0x6790, 0x52A9,
        0x624B])),
      (''finance'', (''Explain finance policies, reports, and common accounting workflows.'', ''Finance Efficiency Agent''),
       (utf8 [0x89E3, 0x8BFB, 0x8D22, 0x52A1, 0x5236, 0x5EA6, 0x3001, 0x62A5, 0x8868, 0x548C, 0x5E38, 0x89C1, 0x8D22, 0x52A1,
        0x6D41, 0x7A0B, 0x3002], utf8 [0x8D22, 0x52A1, 0x6548, 0x7387, 0x52A9, 0x624B])),
      (''hr_screening'', (''Screen resumes, score job fit, and prepare interview follow-ups.'', ''HR Resume Screening
        Agent''),
       (utf8 [0x89E3, 0x6790, 0x7B80, 0x5386, 0x3001, 0x8BC4, 0x4F30, 0x5C97, 0x4F4D, 0x5339, 0x914D, 0x5EA6, 0x5E76, 0x751F,
        0x6210, 0x9762, 0x8BD5, 0x8FFD, 0x95EE, 0x3002], utf8 [0x4EBA, 0x4E8B, 0x7B80, 0x5386, 0x7B5B, 0x9009, 0x52A9,
        0x624B])),
      (''image_generation'', (''Create product image prompts, variants, and reference-image edit plans.'', ''Product Image
        Generation Agent''),
       (utf8 [0x751F, 0x6210, 0x5546, 0x54C1, 0x56FE, 0x63D0, 0x793A, 0x8BCD, 0x3001, 0x591A, 0x56FE, 0x53D8, 0x4F53, 0x548C,
        0x53C2, 0x8003, 0x56FE, 0x91CD, 0x7ED8, 0x65B9, 0x6848, 0x3002], utf8 [0x5546, 0x54C1, 0x56FE, 0x7247, 0x751F,
        0x6210, 0x52A9, 0x624B])),
      (''product_design'', (''Create product ideas, selling point briefs, and launch material directions.'', ''New Product
        Design Agent''),
       (utf8 [0x751F, 0x6210, 0x65B0, 0x54C1, 0x521B, 0x610F, 0x3001, 0x5356, 0x70B9, 0x63D0, 0x70BC, 0x548C, 0x4E0A, 0x5E02,
        0x7269, 0x6599, 0x65B9, 0x5411, 0x3002], utf8 [0x65B0, 0x54C1, 0x8BBE, 0x8BA1, 0x8F85, 0x52A9])),
      (''report_writer'', (''Turn project facts into weekly reports, monthly reports, and executive summaries.'', ''Project
        Report Agent''),
       (utf8 [0x628A, 0x9879, 0x76EE, 0x4E8B, 0x5B9E, 0x6574, 0x7406, 0x6210, 0x5468, 0x62A5, 0x3001, 0x6708, 0x62A5, 0x548C,
        0x7BA1, 0x7406, 0x5C42, 0x6458, 0x8981, 0x3002], utf8 [0x9879, 0x76EE, 0x6C47, 0x62A5, 0x52A9, 0x624B])),
      (''store_operations'', (''Optimize listings, promotion plans, and store operation suggestions.'', ''Store Operations
        Agent''),
       (utf8 [0x4F18, 0x5316, 0x5546, 0x54C1, 0x6807, 0x9898, 0x3001, 0x8BE6, 0x60C5, 0x3001, 0x6D3B, 0x52A8, 0x65B9, 0x6848,
        0x548C, 0x5E97, 0x94FA, 0x8FD0, 0x8425, 0x5EFA, 0x8BAE, 0x3002], utf8 [0x5E97, 0x94FA, 0x8FD0, 0x8425, 0x52A9,
        0x624B])),
      (''video_generation'', (''Plan short videos from prompts, reference assets, and raw material.'', ''Short Video
        Generation Agent''),
       (utf8 [0x57FA, 0x4E8E, 0x63D0, 0x793A, 0x8BCD, 0x3001, 0x53C2, 0x8003, 0x7D20, 0x6750, 0x548C, 0x539F, 0x59CB, 0x89C6,
        0x9891, 0x89C4, 0x5212, 0x77ED, 0x89C6, 0x9891, 0x751F, 0x6210, 0x4EFB, 0x52A1, 0x3002], utf8 [0x77ED, 0x89C6,
        0x9891, 0x751F, 0x6210, 0x52A9, 0x624B]))]"

definition display_of :: "string \<Rightarrow> locale_id \<Rightarrow> (string \<times> string) option" where
  "display_of key l = map_option (\<lambda>(en, zh). if l = Zh_CN then zh else en) (map_of agent_display key)"

definition agent_display_name :: "string \<Rightarrow> string \<Rightarrow> locale_id \<Rightarrow> string" where
  "agent_display_name key own l = coalesce (map_option snd (display_of key l)) own"

definition agent_display_description :: "string \<Rightarrow> string option \<Rightarrow> locale_id \<Rightarrow> string option" where
  "agent_display_description key own l = or_else (map_option fst (display_of key l)) own"

definition is_word_char :: "char \<Rightarrow> bool" where \<comment> \<open>\<open>\w\<close>\<close>
  "is_word_char c \<longleftrightarrow>
     (let n = (of_char c :: nat) in 48 \<le> n \<and> n \<le> 57 \<or> 65 \<le> n \<and> n \<le> 90 \<or> n = 95 \<or> 97 \<le> n \<and> n \<le> 122)"

definition starts_with_word :: "string \<Rightarrow> string \<Rightarrow> bool" where
  \<comment> \<open>\<open>/^p\b/i\<close> for a lower-case \<open>p\<close> that ends in a letter\<close>
  "starts_with_word p s \<longleftrightarrow>
     prefix p (to_lower s) \<and> (case drop (length p) s of [] \<Rightarrow> True | c # _ \<Rightarrow> \<not> is_word_char c)"

function replace_nocase :: "string \<Rightarrow> string \<Rightarrow> string \<Rightarrow> string" where
  \<comment> \<open>\<open>s.replace(/p/gi, r)\<close> for a lower-case \<open>p\<close> without special characters and an \<open>r\<close> without \<open>$\<close>\<close>
  "replace_nocase p r [] = []"
| "replace_nocase p r (c # s) =
     (if p \<noteq> [] \<and> prefix p (to_lower (c # s)) then r @ replace_nocase p r (drop (length p) (c # s))
      else c # replace_nocase p r s)"
  by pat_completeness auto
termination by (relation "measure (\<lambda>(_, _, s). length s)") auto

definition localized_task_title :: "string \<Rightarrow> locale_id \<Rightarrow> string" where
  "localized_task_title title l =
     (let zh_name = (\<lambda>k. agent_display_name k [] Zh_CN);
          cs = ''e-commerce customer service agent''; hr = ''hr resume screening agent'' in
      if l \<noteq> Zh_CN then title
      else if starts_with_word ''readiness smoke'' title then utf8 [0x5C31, 0x7EEA, 0x9A8C, 0x8BC1]
      else if starts_with_word ''codex smoke test clean answer'' title then utf8 [0x56DE, 0x590D, 0x6E05, 0x6D17, 0x9A8C, 0x8BC1]
      else if starts_with_word ''codex smoke test final'' title then utf8 [0x6700, 0x7EC8, 0x8054, 0x8C03, 0x9A8C, 0x8BC1]
      else if starts_with_word ''codex smoke test'' title then utf8 [0x8054, 0x8C03, 0x9A8C, 0x8BC1]
      else if starts_with_word ''smoke check'' title then utf8 [0x9A8C, 0x6536, 0x6D4B, 0x8BD5] @ drop 11 title
      else if str_includes cs (to_lower title) then replace_nocase cs (zh_name ''customer_service'') title
      else if str_includes hr (to_lower title) then replace_nocase hr (zh_name ''hr_screening'') title
      else title)"

definition max_tokens_for_agent :: "string option \<Rightarrow> nat" where
  "max_tokens_for_agent k =
     (if \<not> js_truthy_str k then 1024
      else if List.member [''report_writer'', ''data_analyst'', ''finance''] (the k) then 4096
      else if List.member [''copywriting'', ''product_design'', ''content_analysis''] (the k) then 2048
      else 1024)"

section \<open>What the tables promise\<close>

definition profile_ok :: "workbench_profile \<Rightarrow> bool" where
  "profile_ok p \<longleftrightarrow>
     length (pr_actions p) = 3 \<and> length (pr_inputs p) = 3 \<and> length (pr_outputs p) = 3 \<and> length (pr_steps p) = 4 \<and>
     pr_category p \<noteq> Cat_All \<and> pr_category p \<noteq> Cat_General"

lemma profiles_ok: "list_all (\<lambda>(k, p). profile_ok p) profile_by_agent_key"
  by (simp add: profile_by_agent_key_def profile_ok_def)

lemma profiles_displayed: "map fst profile_by_agent_key = map fst agent_display"
  by (simp add: profile_by_agent_key_def agent_display_def)

lemma profile_found: "profile_for_employee e = Some p \<Longrightarrow> \<exists>k. (k, p) \<in> set profile_by_agent_key"
  by (auto simp: profile_for_employee_def Let_def or_else_def split: option.splits dest: map_of_SomeD)

lemma profile_shape: "profile_for_employee e = Some p \<Longrightarrow> profile_ok p"
  using profile_found [of e p] profiles_ok unfolding list_all_iff by blast

lemma category_never_all: "category_for_employee e \<noteq> Cat_All"
proof (cases "normalized_category (wa_category e)")
  case None
  then show ?thesis
    using profile_shape [of e] by (auto simp: profile_ok_def category_for_employee_def Let_def split: option.split)
next
  case (Some c)
  then show ?thesis
    by (auto simp: category_for_employee_def normalized_category_def split: option.splits if_splits)
qed

lemma workflow_shape:
  "length (workflow_action_keys e) = 3" "length (workflow_step_keys e) = 4"
  "length (workflow_input_keys e) = 3" "length (workflow_output_keys e) = 3"
  using profile_shape
  by (auto simp: profile_ok_def workflow_action_keys_def workflow_step_keys_def workflow_input_keys_def workflow_output_keys_def
      prompt_starter_keys_def split: option.split employee_category.split bind_splits)

lemma max_tokens_within_cap: "max_tokens_for_agent k \<le> 8192"
  by (simp add: max_tokens_for_agent_def)

end
