(* ===== verification/Run_Details.thy ===== *)
theory Run_Details
  imports Chat_Console
begin

text \<open>
  What a chat run shows of itself: \<open>pages/chat/chatRunDetails.ts\<close>, the details of the latest answer and
  the trace of one message, read from the metadata of the message.  A record that may be missing
  (\<open>asRecord\<close>) is the object or \<open>JNull\<close>, whose properties read as \<open>JUndef\<close>.
\<close>

section \<open>Reading unknown values\<close>

definition record_or_null :: "jsval \<Rightarrow> jsval" where
  "record_or_null v = (case v of JObj _ \<Rightarrow> v | _ \<Rightarrow> JNull)"

definition record_items :: "jsval \<Rightarrow> jsval list" where
  "record_items v = (case v of JArr vs \<Rightarrow> filter (\<lambda>x. record_or_null x \<noteq> JNull) vs | _ \<Rightarrow> [])"

definition text_value :: "jsval \<Rightarrow> string" where
  "text_value v = (if v = JNull \<or> v = JUndef \<or> v = JStr [] then ''-'' else js_string v)"

definition array_text_value :: "jsval \<Rightarrow> string list" where
  "array_text_value v = (case v of JArr vs \<Rightarrow> filter (\<lambda>s. s \<noteq> ''-'') (map text_value vs) | _ \<Rightarrow> [])"

definition js_to_number :: "jsval \<Rightarrow> jsnum" where \<comment> \<open>\<open>Number(v)\<close>\<close>
  "js_to_number v =
     (case v of
        JUndef \<Rightarrow> NaN | JNull \<Rightarrow> Fin 0 | JBool b \<Rightarrow> Fin (if b then 1 else 0) | JNum n \<Rightarrow> n | JStr s \<Rightarrow> to_number s
      | JArr vs \<Rightarrow> to_number (js_string (JArr vs)) | JObj _ \<Rightarrow> NaN)"

definition score_value :: "jsval \<Rightarrow> string" where
  "score_value v =
     (let parsed = js_to_number v in
      if \<not> num_is_finite parsed then ''-'' else if num_le parsed (Fin 1) then to_fixed 3 parsed else to_fixed 1 parsed)"

definition either_prop :: "string \<Rightarrow> string \<Rightarrow> jsval \<Rightarrow> jsval" where \<comment> \<open>\<open>v?.a ?? v?.b\<close>\<close>
  "either_prop a b v = js_coalesce (get_prop a v) (get_prop b v)"

section \<open>Previews\<close>

record source_preview =
  sp_id :: string
  sp_base :: string
  sp_source :: string
  sp_score :: string
  sp_text :: string

definition source_preview_of :: "nat \<Rightarrow> jsval \<Rightarrow> source_preview" where
  "source_preview_of i v =
     \<lparr>sp_id = text_value (js_coalesce (either_prop ''chunk_id'' ''document_id'' v) (JStr (nat_str i))),
      sp_base = text_value (get_prop ''knowledge_base_name'' v),
      sp_source = text_value (js_coalesce (either_prop ''source_name'' ''document_id'' v) (get_prop ''chunk_id'' v)),
      sp_score = score_value (get_prop ''score'' v), sp_text = text_value (get_prop ''text'' v)\<rparr>"

record base_preview =
  bp_id :: string
  bp_name :: string
  bp_engine :: string
  bp_visibility :: string
  bp_source_count :: string
  bp_elapsed :: string

definition base_preview_of :: "jsval \<Rightarrow> base_preview" where
  "base_preview_of v =
     \<lparr>bp_id = text_value (get_prop ''knowledge_base_id'' v),
      bp_name = text_value (either_prop ''knowledge_base_name'' ''knowledge_base_id'' v),
      bp_engine = text_value (get_prop ''engine'' v), bp_visibility = text_value (get_prop ''knowledge_base_visibility'' v),
      bp_source_count = text_value (get_prop ''source_count'' v), bp_elapsed = text_value (get_prop ''elapsed_ms'' v)\<rparr>"

record route_attempt =
  ra_id :: string
  ra_attempt :: string
  ra_deployment :: string
  ra_provider :: string
  ra_model :: string
  ra_routing :: string
  ra_status :: string

definition route_attempt_of :: "nat \<Rightarrow> jsval \<Rightarrow> route_attempt" where
  "route_attempt_of i v =
     \<lparr>ra_id = text_value (js_coalesce (either_prop ''request_id'' ''deployment_id'' v) (JStr (nat_str i))),
      ra_attempt = text_value (js_coalesce (get_prop ''attempt'' v) (JNum (num_of_nat (i + 1)))),
      ra_deployment = text_value (get_prop ''deployment_id'' v), ra_provider = text_value (get_prop ''provider_key'' v),
      ra_model = text_value (either_prop ''model_key'' ''model'' v), ra_routing = text_value (get_prop ''routing_key'' v),
      ra_status = text_value (get_prop ''status'' v)\<rparr>"

definition route_failure_detail :: "jsval \<Rightarrow> jsval \<Rightarrow> string" where
  "route_failure_detail runtime detail =
     (let at_either = (\<lambda>k. text_value (js_coalesce (get_prop k detail) (get_prop k runtime)));
          part = (\<lambda>p v. if v \<noteq> ''-'' then [p @ v] else []);
          parts = part ''model='' (at_either ''request_model_key'') @ part ''route='' (at_either ''request_routing_key'') @
                  part ''policy_route='' (at_either ''policy_routing_key'')
      in if parts \<noteq> [] then join ('' '' @ utf8 [0xB7] @ '' '') parts else ''-'')"

definition missing_provider_keys :: "jsval \<Rightarrow> jsval \<Rightarrow> string" where
  "missing_provider_keys runtime detail =
     (let keys = array_text_value
                   (js_coalesce (get_prop ''missing_provider_keys'' detail) (get_prop ''missing_provider_keys'' runtime))
      in if keys \<noteq> [] then join '', '' keys else ''-'')"

section \<open>The details of a run\<close>

record run_details =
  rd_agent_name :: string
  rd_agent_detail :: string
  rd_budget_cost :: string
  rd_budget_event :: string
  rd_budget_fallback_request :: string
  rd_budget_guard_status :: string
  rd_budget_policy :: string
  rd_budget_reason :: string
  rd_budget_reservation :: string
  rd_execution :: string
  rd_knowledge_enabled :: bool
  rd_knowledge_confidence :: string
  rd_knowledge_max_score :: string
  rd_knowledge_reason :: string
  rd_knowledge_review :: bool
  rd_knowledge_review_reason :: string
  rd_knowledge_source_count :: string
  rd_knowledge_top_k :: string
  rd_license_gate :: string
  rd_license_reason :: string
  rd_message :: "chat_message option"
  rd_model_key :: string
  rd_provider_key :: string
  rd_request_id :: string
  rd_cost :: string
  rd_error_code :: string
  rd_error_message :: string
  rd_fallback_attempts :: string
  rd_candidate_count :: string
  rd_failure_detail :: string
  rd_failure_operation :: string
  rd_http_status :: string
  rd_gateway_called :: bool
  rd_input_tokens :: string
  rd_local_response :: string
  rd_missing_providers :: string
  rd_mock_adapter :: bool
  rd_output_tokens :: string
  rd_attempt_count :: string
  rd_selected_route_reason :: string
  rd_summary_mode :: string
  rd_summary_status :: string
  rd_total_tokens :: string
  rd_attempts :: "route_attempt list"
  rd_sources :: "source_preview list"
  rd_bases :: "base_preview list"

definition latest_assistant :: "chat_message list \<Rightarrow> chat_message option" where
  "latest_assistant ms = List.find (\<lambda>m. cm_role m = ''assistant'') (rev ms)"

definition message_prop :: "(chat_message \<Rightarrow> jsval) \<Rightarrow> chat_message option \<Rightarrow> jsval" where \<comment> \<open>\<open>message?.f\<close>\<close>
  "message_prop f m = (case m of None \<Rightarrow> JUndef | Some x \<Rightarrow> f x)"

definition metadata_of :: "chat_message option \<Rightarrow> jsval" where
  "metadata_of m = (case m of None \<Rightarrow> JObj [] | Some x \<Rightarrow> JObj (cm_metadata x))"

definition raw_sources :: "jsval \<Rightarrow> jsval list" where
  "raw_sources md = record_items (either_prop ''agent_sources'' ''knowledge_sources'' md)"

definition execution_of :: "jsval \<Rightarrow> jsval \<Rightarrow> string" where
  "execution_of runtime md =
     text_value (js_coalesce (either_prop ''chat_execution'' ''execution'' runtime)
       (either_prop ''chat_execution'' ''local_state'' md))"

definition latest_assistant_run_details :: "chat_message list \<Rightarrow> run_details" where
  "latest_assistant_run_details ms =
     (let m = latest_assistant ms; md = metadata_of m;
          knowledge = record_or_null (get_prop ''knowledge'' md); agent = record_or_null (get_prop ''agent_instance'' md);
          budget = record_or_null (get_prop ''budget_guard'' md); runtime = record_or_null (get_prop ''runtime_evidence'' md);
          summary = record_or_null (get_prop ''runtime_summary'' md); detail = record_or_null (get_prop ''detail'' runtime);
          attempts = record_items (get_prop ''route_attempts'' runtime); sources = raw_sources md;
          txt = (\<lambda>k v. text_value (get_prop k v));
          bound = (get_prop ''enabled'' agent = JBool True);
          cost = js_coalesce (get_prop ''cost_usd'' runtime) (message_prop cm_cost_usd m)
      in \<lparr>rd_agent_name = (if bound then text_value (either_prop ''name'' ''slug'' agent) else ''-''),
          rd_agent_detail =
            (if bound then text_value (js_coalesce (either_prop ''visibility'' ''agent_key'' agent) (get_prop ''agent_id'' agent))
             else txt ''reason'' agent),
          rd_budget_cost = text_value (js_coalesce (get_prop ''actual_cost_usd'' budget) cost),
          rd_budget_event = txt ''event_type'' budget, rd_budget_fallback_request = txt ''fallback_request_id'' budget,
          rd_budget_guard_status = txt ''guard_status'' budget,
          rd_budget_policy = text_value (either_prop ''policy_name'' ''budget_id'' budget),
          rd_budget_reason = txt ''reason'' budget, rd_budget_reservation = txt ''reservation_id'' budget,
          rd_execution = execution_of runtime md,
          rd_knowledge_enabled = (get_prop ''enabled'' knowledge = JBool True),
          rd_knowledge_confidence = txt ''confidence_level'' knowledge,
          rd_knowledge_max_score = score_value (get_prop ''max_score'' knowledge),
          rd_knowledge_reason = txt ''reason'' knowledge,
          rd_knowledge_review = (get_prop ''requires_human_review'' knowledge = JBool True),
          rd_knowledge_review_reason = txt ''review_reason'' knowledge,
          rd_knowledge_source_count =
            text_value (js_coalesce (get_prop ''source_count'' knowledge) (JNum (num_of_nat (length sources)))),
          rd_knowledge_top_k = txt ''top_k'' knowledge,
          rd_license_gate = txt ''license_gate'' md,
          rd_license_reason = text_value (either_prop ''license_gate_reason'' ''required_module'' md),
          rd_message = m,
          rd_model_key = text_value (js_coalesce (get_prop ''model_key'' runtime) (message_prop (opt_str \<circ> cm_model_key) m)),
          rd_provider_key =
            text_value (js_coalesce (get_prop ''provider_key'' runtime) (message_prop (opt_str \<circ> cm_provider_key) m)),
          rd_request_id = text_value (js_coalesce (get_prop ''request_id'' runtime) (message_prop (opt_str \<circ> cm_request_id) m)),
          rd_cost = text_value cost,
          rd_error_code = text_value (js_coalesce (get_prop ''error_code'' runtime) (get_prop ''code'' detail)),
          rd_error_message = text_value (js_coalesce (get_prop ''error_message'' runtime) (get_prop ''message'' detail)),
          rd_fallback_attempts =
            text_value (js_coalesce (get_prop ''fallback_attempt_count'' runtime) (JNum (num_of_nat (length attempts)))),
          rd_candidate_count =
            text_value (js_coalesce (get_prop ''candidate_count'' runtime) (get_prop ''candidate_count'' detail)),
          rd_failure_detail = route_failure_detail runtime detail, rd_failure_operation = txt ''operation'' runtime,
          rd_http_status = txt ''http_status'' runtime,
          rd_gateway_called = (get_prop ''llm_gateway_called'' runtime = JBool True),
          rd_input_tokens = text_value (js_coalesce (get_prop ''input_tokens'' runtime) (message_prop cm_input_tokens m)),
          rd_local_response = txt ''local_response'' runtime, rd_missing_providers = missing_provider_keys runtime detail,
          rd_mock_adapter = (get_prop ''mock_adapter'' runtime = JBool True),
          rd_output_tokens = text_value (js_coalesce (get_prop ''output_tokens'' runtime) (message_prop cm_output_tokens m)),
          rd_attempt_count = text_value (JNum (num_of_nat (length attempts))),
          rd_selected_route_reason =
            text_value (js_coalesce (either_prop ''selected_route_reason'' ''reason'' runtime) (get_prop ''local_response'' runtime)),
          rd_summary_mode = txt ''adapter_mode'' summary, rd_summary_status = txt ''status'' summary,
          rd_total_tokens = text_value (js_coalesce (get_prop ''total_tokens'' runtime) (message_prop cm_total_tokens m)),
          rd_attempts = map (\<lambda>(i, v). route_attempt_of i v) (List.enumerate 0 attempts),
          rd_sources = map (\<lambda>(i, v). source_preview_of i v) (List.enumerate 0 (take 5 sources)),
          rd_bases = map base_preview_of (record_items (get_prop ''per_base'' knowledge))\<rparr>)"

section \<open>The trace of a message\<close>

record trace_summary =
  ts_confidence :: string
  ts_execution :: string
  ts_first_source :: string
  ts_max_score :: string
  ts_review :: bool
  ts_review_reason :: string
  ts_source_count :: string

definition chat_message_trace_summary :: "chat_message \<Rightarrow> trace_summary option" where
  "chat_message_trace_summary m =
     (if cm_role m \<noteq> ''assistant'' then None
      else
        (let md = metadata_of (Some m); knowledge = record_or_null (get_prop ''knowledge'' md);
             runtime = record_or_null (get_prop ''runtime_evidence'' md); sources = raw_sources md;
             first = (case sources of [] \<Rightarrow> JUndef | x # _ \<Rightarrow> x)
         in if \<not> truthy (get_prop ''enabled'' knowledge) \<and> sources = [] \<and> \<not> truthy (get_prop ''chat_execution'' md) \<and>
               runtime = JNull then None
            else Some
              \<lparr>ts_confidence = text_value (get_prop ''confidence_level'' knowledge), ts_execution = execution_of runtime md,
               ts_first_source =
                 (if sources \<noteq> [] then text_value (either_prop ''source_name'' ''document_id'' first) else ''-''),
               ts_max_score = score_value (js_coalesce (get_prop ''max_score'' knowledge) (get_prop ''score'' first)),
               ts_review = (get_prop ''requires_human_review'' knowledge = JBool True),
               ts_review_reason = text_value (either_prop ''review_reason'' ''reason'' knowledge),
               ts_source_count =
                 text_value (js_coalesce (get_prop ''source_count'' knowledge) (JNum (num_of_nat (length sources))))\<rparr>))"

definition chat_confidence_label_key :: "string \<Rightarrow> string" where
  "chat_confidence_label_key c =
     coalesce (map_of
       [(''high'', ''chatRunConfidenceHigh''), (''low'', ''chatRunConfidenceLow''), (''medium'', ''chatRunConfidenceMedium''),
        (''no_match'', ''chatRunConfidenceNoMatch''), (''unscored'', ''chatRunConfidenceUnscored'')] c)
       ''chatRunConfidenceUnknown''"

section \<open>The two views of a run agree\<close>

lemma record_or_null_cases: "record_or_null v = JNull \<or> (\<exists>kvs. v = JObj kvs \<and> record_or_null v = v)"
  by (cases v) (simp_all add: record_or_null_def)

lemma records_only: "list_all (\<lambda>v. \<exists>kvs. v = JObj kvs) (record_items w)"
  using record_or_null_cases by (cases w) (auto simp: record_items_def list_all_iff)

lemma latest_assistant_only: "cm_role m = ''assistant'' \<Longrightarrow> latest_assistant (ms @ [m]) = Some m"
  by (simp add: latest_assistant_def)

lemma latest_assistant_skips: "cm_role m \<noteq> ''assistant'' \<Longrightarrow> latest_assistant (ms @ [m]) = latest_assistant ms"
  by (simp add: latest_assistant_def)

lemma coalesce_defined: "\<not> is_nullish a \<Longrightarrow> js_coalesce a b = a"
  by (simp add: js_coalesce_def)

lemma details_fields:
  "rd_message (latest_assistant_run_details ms) = latest_assistant ms"
  "rd_knowledge_confidence (latest_assistant_run_details ms) =
     text_value (get_prop ''confidence_level'' (record_or_null (get_prop ''knowledge'' (metadata_of (latest_assistant ms)))))"
  "rd_execution (latest_assistant_run_details ms) =
     execution_of (record_or_null (get_prop ''runtime_evidence'' (metadata_of (latest_assistant ms)))) (metadata_of (latest_assistant ms))"
  "rd_knowledge_review (latest_assistant_run_details ms) =
     (get_prop ''requires_human_review'' (record_or_null (get_prop ''knowledge'' (metadata_of (latest_assistant ms)))) = JBool True)"
  "rd_knowledge_source_count (latest_assistant_run_details ms) =
     text_value (js_coalesce (get_prop ''source_count'' (record_or_null (get_prop ''knowledge'' (metadata_of (latest_assistant ms)))))
       (JNum (num_of_nat (length (raw_sources (metadata_of (latest_assistant ms)))))))"
  "rd_knowledge_max_score (latest_assistant_run_details ms) =
     score_value (get_prop ''max_score'' (record_or_null (get_prop ''knowledge'' (metadata_of (latest_assistant ms)))))"
  "length (rd_sources (latest_assistant_run_details ms)) = min (length (raw_sources (metadata_of (latest_assistant ms)))) 5"
  by (simp_all only: latest_assistant_run_details_def Let_def run_details.simps length_map length_enumerate length_take)

text \<open>
  The trace under a message and the details beside it tell the same story: whatever came before,
  when the last message of a conversation has a trace, the details are those of that message, with
  the confidence, the execution, the demand for a review and the number of sources of its trace; they
  list at most five sources, and the score is the same unless the knowledge has none.
\<close>

theorem trace_matches_details:
  assumes "chat_message_trace_summary m = Some s"
  shows "let d = latest_assistant_run_details (ms @ [m]) in
    rd_message d = Some m \<and> rd_knowledge_confidence d = ts_confidence s \<and> rd_execution d = ts_execution s \<and>
    rd_knowledge_review d = ts_review s \<and> rd_knowledge_source_count d = ts_source_count s \<and> length (rd_sources d) \<le> 5 \<and>
    (is_nullish (get_prop ''max_score'' (record_or_null (get_prop ''knowledge'' (JObj (cm_metadata m))))) \<or>
     rd_knowledge_max_score d = ts_max_score s)"
proof -
  have role: "cm_role m = ''assistant''" using assms by (simp add: chat_message_trace_summary_def split: if_splits)
  show ?thesis
    using assms
    by (cases "is_nullish (get_prop ''max_score'' (record_or_null (get_prop ''knowledge'' (JObj (cm_metadata m)))))")
      (auto simp: chat_message_trace_summary_def role Let_def details_fields latest_assistant_only metadata_of_def coalesce_defined
        simp del: get_prop.simps split: if_splits)
qed

definition answered_message :: chat_message where
  "answered_message = prototype_assistant_message ''m'' sample_session ''text'' proto_chat_now"

theorem trace_matches_details_witness:
  "rd_knowledge_source_count (latest_assistant_run_details [answered_message]) = ''2'' \<and>
   rd_knowledge_confidence (latest_assistant_run_details [answered_message]) = ''high''"
proof -
  have "case chat_message_trace_summary answered_message of None \<Rightarrow> False
        | Some s \<Rightarrow> ts_source_count s = ''2'' \<and> ts_confidence s = ''high''"
    by code_simp
  then obtain s where s: "chat_message_trace_summary answered_message = Some s"
    and "ts_source_count s = ''2''" "ts_confidence s = ''high''"
    by (auto split: option.splits)
  with trace_matches_details [OF s, where ms = "[]"] show ?thesis by (simp add: Let_def)
qed

section \<open>Scores that are missing\<close>

text \<open>A score that is null is shown as 0.000, one that is absent as missing.\<close>

lemma null_score_shown_as_zero: "score_value JNull = ''0.000'' \<and> score_value JUndef = ''-''"
  by code_simp

text \<open>A list without elements is shown as nothing, not as missing; every other value shows a text.\<close>

lemma empty_list_shown_blank: "text_value (JArr []) = []"
  by (simp add: text_value_def)

end
