(* ===== verification/Employees_Page.thy ===== *)
theory Employees_Page
  imports Employee_Labels Run_Details Page_Env
begin

text \<open>
  The workbench of the digital employees, \<open>pages/digital-employees/useDigitalEmployeesController.ts\<close>, on
  the console of theory Chat_Console and the list of agents of theory Agent_Hooks, outside the
  prototype mode.  A message under way is in flight from its start to the end of its stream, whose
  events may come between any others; sessions are created, and the messages and sessions read back
  after a stream, in one step.  \<open>employees_step\<close> is one event followed by the effects of its commit:
  the messages of a new active session are loaded, the active session follows the selected employee,
  and a new answer opens the result panel.
\<close>

section \<open>Small functions\<close>

definition string_or_null :: "jsval \<Rightarrow> string option" where
  "string_or_null v = (case v of JStr s \<Rightarrow> if trim s \<noteq> [] then Some (trim s) else None | _ \<Rightarrow> None)"

definition string_or_fallback :: "jsval \<Rightarrow> string \<Rightarrow> string" where
  "string_or_fallback v fallback =
     (let other = (if fallback \<noteq> [] \<and> fallback \<noteq> ''-'' then fallback else ''-'') in
      case v of
        JStr s \<Rightarrow> if trim s \<noteq> [] then trim s else other
      | JNum n \<Rightarrow> if num_is_finite n then num_str n else other
      | _ \<Rightarrow> other)"

definition is_streaming_assistant_message :: "chat_message \<Rightarrow> bool" where
  "is_streaming_assistant_message m \<longleftrightarrow>
     cm_role m = ''assistant'' \<and>
     List.member [JStr ''streaming_response'', JStr ''stream_status'', JStr ''streaming''] (prop_of ''local_state'' (cm_metadata m))"

definition has_active_stream_message :: "chat_message list \<Rightarrow> bool" where
  "has_active_stream_message ms = (case rev ms of [] \<Rightarrow> False | m # _ \<Rightarrow> is_streaming_assistant_message m)"

definition runtime_pair :: "string \<Rightarrow> string \<Rightarrow> string" where
  "runtime_pair p m =
     (if p = ''-'' \<and> m = ''-'' then ''-'' else if p = ''-'' then m else if m = ''-'' then p else p @ '' / '' @ m)"

definition numeric_value :: "string \<Rightarrow> jsnum" where
  "numeric_value v = (let n = to_number v in if num_is_finite n then n else Fin 0)"

definition format_runtime_cost :: "string \<Rightarrow> string" where
  "format_runtime_cost v =
     (if v = ''-'' then v
      else let n = to_number v in if \<not> num_is_finite n then v else CHR ''$'' # to_fixed 6 n)"

section \<open>State of the workbench\<close>

record flight =
  fl_env :: send_env
  fl_before :: "chat_session option" \<comment> \<open>the active session when the message was sent\<close>
  fl_session :: chat_session

record employees_page =
  ep_agents :: "(unit, workbench_agent list) resource"
  ep_chat :: console
  ep_browser :: browser
  ep_selected :: string
  ep_category :: employee_category
  ep_draft :: string
  ep_collapsed :: bool
  ep_result_open :: bool
  ep_workflow :: "string option"
  ep_copied :: bool
  ep_timers :: nat
  ep_flight :: "flight option"
  ep_load :: "chat_session option" \<comment> \<open>the session whose messages are being loaded\<close>
  ep_asked :: "chat_session_request list"
  ep_sent :: "(string \<times> chat_session) list" \<comment> \<open>for whom a message was meant, and where it was sent\<close>

record employees_env =
  ee_env :: page_env
  ee_locale :: locale_id

definition can_use_agents :: "employees_env \<Rightarrow> bool" where
  "can_use_agents env \<longleftrightarrow>
     in_prototype (ee_env env) \<or>
     can_access (page_user (ee_env env)) (Some [''agents:read'', ''chat:read'', ''chat:write'']) None"

definition can_chat :: "employees_env \<Rightarrow> bool" where
  "can_chat env = has_permission ''chat:write'' (ee_env env)"

definition can_inspect_evidence :: "employees_env \<Rightarrow> bool" where
  "can_inspect_evidence env \<longleftrightarrow>
     in_prototype (ee_env env) \<or>
     can_access (page_user (ee_env env)) (Some [''agents:write'', ''audit:read'', ''budgets:read'', ''models:read'']) None"

definition employees_init :: "browser \<Rightarrow> employees_page" where
  "employees_init b =
     \<lparr>ep_agents = resource_init True, ep_chat = console_init, ep_browser = b,
      ep_selected = coalesce (session_get ''agenthive.selected_agent_id'' b) [], ep_category = Cat_All, ep_draft = [],
      ep_collapsed = False, ep_result_open = True, ep_workflow = None, ep_copied = False, ep_timers = 0, ep_flight = None,
      ep_load = None, ep_asked = [], ep_sent = []\<rparr>"

section \<open>What is derived\<close>

definition active_employees :: "employees_page \<Rightarrow> workbench_agent list" where
  "active_employees s = filter (\<lambda>e. wa_status e = ''active'') (coalesce (as_data (shown (ep_agents s))) [])"

definition in_category :: "employee_category \<Rightarrow> workbench_agent list \<Rightarrow> workbench_agent list" where
  "in_category c es = (if c = Cat_All then es else filter (\<lambda>e. category_for_employee e = c) es)"

definition visible_employees :: "employees_page \<Rightarrow> workbench_agent list" where
  "visible_employees s = in_category (ep_category s) (active_employees s)"

definition active_agent :: "employees_page \<Rightarrow> string option" where \<comment> \<open>\<open>chat.activeSession?.agent_id\<close>\<close>
  "active_agent s = Option.bind (con_active (ep_chat s)) cs_agent_id"

definition find_employee :: "string option \<Rightarrow> workbench_agent list \<Rightarrow> workbench_agent option" where
  "find_employee i es = List.find (\<lambda>e. Some (wa_id e) = i) es"

definition selected_employee :: "employees_page \<Rightarrow> workbench_agent option" where
  "selected_employee s =
     or_else (find_employee (Some (ep_selected s)) (visible_employees s))
       (or_else (find_employee (active_agent s) (visible_employees s))
         (or_else (first_of (visible_employees s)) (first_of (active_employees s))))"

definition category_counts :: "employees_page \<Rightarrow> (employee_category \<times> nat) list" where
  "category_counts s = map (\<lambda>c. (c, length (in_category c (active_employees s)))) employee_category_order"

definition latest_assistant_message :: "employees_page \<Rightarrow> chat_message option" where
  "latest_assistant_message s =
     List.find (\<lambda>m. cm_role m = ''assistant'' \<and> trim (cm_content m) \<noteq> []) (rev (con_messages (ep_chat s)))"

definition latest_user_message :: "employees_page \<Rightarrow> chat_message option" where
  "latest_user_message s =
     List.find (\<lambda>m. cm_role m \<noteq> ''assistant'' \<and> trim (cm_content m) \<noteq> []) (rev (con_messages (ep_chat s)))"

definition latest_run_details :: "employees_page \<Rightarrow> run_details" where
  "latest_run_details s =
     latest_assistant_run_details (case latest_assistant_message s of None \<Rightarrow> [] | Some m \<Rightarrow> [m])"

definition selected_employee_sessions :: "employees_page \<Rightarrow> chat_session list" where
  "selected_employee_sessions s =
     (case selected_employee s of None \<Rightarrow> []
      | Some e \<Rightarrow> filter (\<lambda>x. cs_agent_id x = Some (wa_id e)) (session_rows (ep_chat s)))"

definition task_status_key :: "employees_page \<Rightarrow> string" where
  "task_status_key s =
     (if con_sending (ep_chat s) then ''digitalEmployeesTaskStatusRunning''
      else if latest_assistant_message s \<noteq> None then ''digitalEmployeesTaskStatusCompleted''
      else ''digitalEmployeesTaskStatusReady'')"

definition active_session_title :: "employees_env \<Rightarrow> employees_page \<Rightarrow> string" where
  "active_session_title env s =
     (case con_active (ep_chat s) of None \<Rightarrow> []
      | Some x \<Rightarrow>
          if cs_agent_id x \<noteq> None \<and> cs_agent_id x = map_option wa_id (selected_employee s)
          then localized_task_title (cs_title x) (ee_locale env) else [])"

definition last_task :: "employees_page \<Rightarrow> jsval" where
  "last_task s =
     (case con_active (ep_chat s) of None \<Rightarrow> JNull | Some x \<Rightarrow> record_or_null (get_prop ''last_task'' (JObj (cs_metadata x))))"

definition current_task_title :: "employees_env \<Rightarrow> employees_page \<Rightarrow> string" where
  "current_task_title env s =
     text_or (case latest_user_message s of None \<Rightarrow> [] | Some m \<Rightarrow> cm_content m)
       (text_or (ep_draft s) (text_or (active_session_title env s) (page_t (ee_env env) ''digitalEmployeesNoTaskYet'')))"

record task_summary =
  tk_completed_at :: "string option"
  tk_has_result :: bool
  tk_latest_answer :: string
  tk_model_key :: string
  tk_provider_key :: string
  tk_request_id :: string
  tk_status_key :: string
  tk_title :: string
  tk_total_tokens :: string
  tk_workflow_key :: "string option"

definition active_task_summary :: "employees_env \<Rightarrow> employees_page \<Rightarrow> task_summary" where
  "active_task_summary env s =
     (let task = last_task s; d = latest_run_details s;
          answer = trim (case latest_assistant_message s of None \<Rightarrow> [] | Some m \<Rightarrow> cm_content m)
      in \<lparr>tk_completed_at = string_or_null (get_prop ''completed_at'' task), tk_has_result = (answer \<noteq> []),
          tk_latest_answer = answer, tk_model_key = string_or_fallback (get_prop ''model_key'' task) (rd_model_key d),
          tk_provider_key = string_or_fallback (get_prop ''provider_key'' task) (rd_provider_key d),
          tk_request_id = string_or_fallback (get_prop ''request_id'' task) (rd_request_id d),
          tk_status_key = task_status_key s,
          tk_title = string_or_fallback (get_prop ''title'' task) (current_task_title env s),
          tk_total_tokens = string_or_fallback (get_prop ''total_tokens'' task) (rd_total_tokens d),
          tk_workflow_key = or_else (string_or_null (get_prop ''workflow_key'' task)) (ep_workflow s)\<rparr>)"

section \<open>Handlers\<close>

definition apply_starter :: "employees_env \<Rightarrow> string \<Rightarrow> employees_page \<Rightarrow> employees_page" where
  "apply_starter env k s = s\<lparr>ep_workflow := Some k, ep_draft := page_t (ee_env env) k\<rparr>"

definition copy_latest_answer :: "bool \<Rightarrow> employees_page \<Rightarrow> employees_page" where
  \<comment> \<open>the clipboard may refuse\<close>
  "copy_latest_answer accepted s =
     (case latest_assistant_message s of
        None \<Rightarrow> s
      | Some m \<Rightarrow> if accepted then s\<lparr>ep_copied := True, ep_timers := Suc (ep_timers s)\<rparr> else s)"

definition copy_timeout :: "employees_page \<Rightarrow> employees_page" where
  "copy_timeout s = (case ep_timers s of 0 \<Rightarrow> s | Suc n \<Rightarrow> s\<lparr>ep_copied := False, ep_timers := n\<rparr>)"

definition refine_latest_answer :: "employees_env \<Rightarrow> employees_page \<Rightarrow> employees_page" where
  "refine_latest_answer env s = s\<lparr>ep_draft := page_t (ee_env env) ''digitalEmployeesFollowUpPrompt''\<rparr>"

definition select_employee :: "workbench_agent \<Rightarrow> employees_page \<Rightarrow> employees_page" where
  "select_employee e s =
     s\<lparr>ep_selected := wa_id e, ep_workflow := None,
       ep_browser := session_set ''agenthive.selected_agent_id'' (wa_id e) (ep_browser s)\<rparr>"

definition conversation_request :: "employees_env \<Rightarrow> workbench_agent \<Rightarrow> chat_session_request" where
  "conversation_request env e =
     \<lparr>csr_title = Some (agent_display_name (wa_agent_key e) (wa_name e) (ee_locale env)), csr_agent_id = Some (wa_id e),
      csr_channel_id = None, csr_department_id = None, csr_source = Some ''agent_workbench'',
      csr_metadata = Some [(''agent_key'', JStr (wa_agent_key e)), (''surface'', JStr ''agent_workbench'')]\<rparr>"

definition console_request :: "employees_env \<Rightarrow> chat_session_request" where \<comment> \<open>the request of \<open>ensureSession\<close>\<close>
  "console_request env =
     \<lparr>csr_title = Some (page_t (ee_env env) ''chatNewConversation''), csr_agent_id = None, csr_channel_id = None,
      csr_department_id = None, csr_source = Some ''chat_console'', csr_metadata = Some [(''ui'', JStr ''admin_console'')]\<rparr>"

definition start_conversation ::
  "employees_env \<Rightarrow> workbench_agent option \<Rightarrow> exn + chat_session \<Rightarrow> employees_page \<Rightarrow> chat_session option \<times> employees_page" where
  "start_conversation env e created s =
     (case e of
        None \<Rightarrow> (None, s)
      | Some x \<Rightarrow>
          if \<not> can_chat env then (None, s)
          else (let (ses, chat) = create_session (page_t (ee_env env)) created (ep_chat s)
                in (ses, s\<lparr>ep_selected := wa_id x, ep_chat := chat, ep_asked := ep_asked s @ [conversation_request env x]\<rparr>)))"

definition ensure_employee_session ::
  "employees_env \<Rightarrow> workbench_agent \<Rightarrow> exn + chat_session \<Rightarrow> employees_page \<Rightarrow> chat_session option \<times> employees_page" where
  "ensure_employee_session env e created s =
     (if active_agent s = Some (wa_id e) then (con_active (ep_chat s), s) else start_conversation env (Some e) created s)"

definition message_payload :: "workbench_agent \<Rightarrow> string option \<Rightarrow> string \<Rightarrow> chat_message_request" where
  "message_payload e workflow content =
     \<lparr>cmr_content = content, cmr_model_key = None, cmr_routing_key = None, cmr_temperature = None,
      cmr_max_tokens = Some (num_of_nat (max_tokens_for_agent (Some (wa_agent_key e)))),
      cmr_metadata = Some ([(''agent_key'', JStr (wa_agent_key e)), (''surface'', JStr ''agent_workbench'')] @
        (case workflow of None \<Rightarrow> [] | Some k \<Rightarrow> [(''workflow_key'', JStr k)]))\<rparr>"

definition end_send :: "console \<Rightarrow> employees_page \<Rightarrow> employees_page" where
  "end_send chat s = s\<lparr>ep_chat := send_finally chat, ep_flight := None, ep_result_open := True\<rparr>"

definition send_start ::
  "employees_env \<Rightarrow> string option \<Rightarrow> exn + chat_session \<Rightarrow> send_env \<Rightarrow> employees_page \<Rightarrow> employees_page" where
  \<comment> \<open>\<open>send\<close> and \<open>sendMessage\<close> up to the stream; \<open>created\<close> answers the session of the employee, \<open>sv_created v\<close> the one
      of \<open>ensureSession\<close>\<close>
  "send_start env override created v s =
     (let content = trim (coalesce override (ep_draft s)) in
      case selected_employee s of
        None \<Rightarrow> s
      | Some e \<Rightarrow>
          if \<not> can_chat env \<or> \<not> wa_runnable e \<or> content = [] \<or> con_sending (ep_chat s) then s
          else
            (let before = con_active (ep_chat s);
                 (ses, s1) = ensure_employee_session env e created (s\<lparr>ep_draft := []\<rparr>);
                 payload = message_payload e (ep_workflow s) content;
                 chat = (ep_chat s1)\<lparr>con_sending := True, con_error := None, con_abort := Some False\<rparr>;
                 (chosen, chat1) = (case ses of Some x \<Rightarrow> (Inr x, chat) | None \<Rightarrow> ensure_session (sv_created v) chat);
                 s2 = (if ses = None \<and> before = None then s1\<lparr>ep_asked := ep_asked s1 @ [console_request env]\<rparr> else s1)
             in case chosen of
                  Inl x \<Rightarrow> end_send (send_failed (page_t (ee_env env)) v before x chat1) s2
                | Inr x \<Rightarrow>
                    s2\<lparr>ep_chat := chat1\<lparr>con_messages := con_messages chat1 @ pending_pair v payload x\<rparr>,
                       ep_flight := Some \<lparr>fl_env = v, fl_before = before, fl_session = x\<rparr>,
                       ep_sent := ep_sent s2 @ [(wa_id e, x)]\<rparr>))"

definition stream_event_arrives :: "stream_event \<Rightarrow> employees_page \<Rightarrow> employees_page" where
  "stream_event_arrives ev s =
     (case ep_flight s of
        None \<Rightarrow> s
      | Some f \<Rightarrow>
          s\<lparr>ep_chat := (ep_chat s)\<lparr>con_messages :=
             apply_event (client_id (fl_env f)) (stream_id (fl_env f)) ev (con_messages (ep_chat s))\<rparr>\<rparr>)"

definition stream_ends ::
  "employees_env \<Rightarrow> exn + unit \<Rightarrow> exn + chat_message list \<Rightarrow> (nat \<Rightarrow> exn + chat_session list) \<Rightarrow> employees_page \<Rightarrow> employees_page" where
  \<comment> \<open>the end of \<open>sendMessage\<close>: the messages of its session are read back and shown, the sessions are loaded\<close>
  "stream_ends env r refreshed sess s =
     (let t = page_t (ee_env env); chat = ep_chat s in
      case ep_flight s of
        None \<Rightarrow> s
      | Some f \<Rightarrow>
          let failed = (\<lambda>x. send_failed t (fl_env f) (fl_before f) x chat) in
          end_send
            (case r of
               Inl x \<Rightarrow> failed x
             | Inr _ \<Rightarrow>
                 (case refreshed of Inl x \<Rightarrow> failed x | Inr fresh \<Rightarrow> load_sessions t sess (chat\<lparr>con_messages := fresh\<rparr>)))
            s)"

definition messages_arrive :: "(nat \<Rightarrow> exn + chat_message list) \<Rightarrow> employees_page \<Rightarrow> employees_page" where
  "messages_arrive fetch s =
     (case ep_load s of
        None \<Rightarrow> s
      | Some _ \<Rightarrow> s\<lparr>ep_load := None, ep_chat := (ep_chat s)\<lparr>con_messages := (case retried fetch of Inr ms \<Rightarrow> ms | Inl _ \<Rightarrow> [])\<rparr>\<rparr>)"

section \<open>Effects\<close>

definition messages_effect :: "employees_page \<Rightarrow> employees_page \<Rightarrow> employees_page" where
  \<comment> \<open>the effect of a new active session in \<open>useChatConsole\<close>\<close>
  "messages_effect old s =
     (if con_active (ep_chat s) = con_active (ep_chat old) then s
      else case con_active (ep_chat s) of
        None \<Rightarrow> s\<lparr>ep_load := None, ep_chat := (ep_chat s)\<lparr>con_messages := []\<rparr>\<rparr>
      | Some x \<Rightarrow> s\<lparr>ep_load := Some x\<rparr>)"

definition follow_employee :: "employees_page \<Rightarrow> employees_page" where
  "follow_employee s =
     (case selected_employee s of
        None \<Rightarrow> s
      | Some e \<Rightarrow>
          if active_agent s = Some (wa_id e) then s
          else s\<lparr>ep_chat := (ep_chat s)\<lparr>con_active := first_of (selected_employee_sessions s)\<rparr>\<rparr>)"

definition open_new_result :: "employees_page \<Rightarrow> employees_page \<Rightarrow> employees_page" where
  "open_new_result old s =
     (let i = map_option cm_id (latest_assistant_message s) in
      if i \<noteq> map_option cm_id (latest_assistant_message old) \<and> js_truthy_str i then s\<lparr>ep_result_open := True\<rparr> else s)"

definition employees_effects :: "employees_page \<Rightarrow> employees_page \<Rightarrow> employees_page" where
  "employees_effects old s =
     (let s1 = messages_effect old s; s2 = follow_employee s1 in open_new_result old (messages_effect s1 s2))"

section \<open>Events\<close>

datatype employees_event =
    Employees_Mount
  | Employees_Arrive nat "nat \<Rightarrow> exn + workbench_agent_list"
  | Sessions_Arrive "nat \<Rightarrow> exn + chat_session list"
  | Messages_Arrive "nat \<Rightarrow> exn + chat_message list"
  | Employees_Retry
  | Press_Category employee_category
  | Press_Employee nat
  | Press_Session nat
  | Agent_Announced string \<comment> \<open>the event \<open>agenthive:selected-agent\<close> of the shell\<close>
  | Press_New_Task "exn + chat_session"
  | Press_Starter nat
  | Type_Draft string
  | Press_Send "exn + chat_session" send_env
  | Stream_Event stream_event
  | Stream_Ends "exn + unit" "exn + chat_message list" "nat \<Rightarrow> exn + chat_session list"
  | Press_Copy bool
  | Copy_Timeout
  | Press_Refine
  | Toggle_Agents
  | Toggle_Result
  | Narrow_Layout

definition employees_handle :: "employees_env \<Rightarrow> employees_event \<Rightarrow> employees_page \<Rightarrow> employees_page" where
  "employees_handle env e s =
     (let t = page_t (ee_env env) in
      case e of
        Employees_Mount \<Rightarrow> s\<lparr>ep_agents := ask () (ep_agents s)\<rparr>
      | Employees_Arrive n a \<Rightarrow>
          if in_waiting n (ep_agents s) then s\<lparr>ep_agents := workbench_agents_answered t n a (ep_agents s)\<rparr> else s
      | Sessions_Arrive fetch \<Rightarrow> s\<lparr>ep_chat := load_sessions_done t (retried fetch) (ep_chat s)\<rparr>
      | Messages_Arrive fetch \<Rightarrow> messages_arrive fetch s
      | Employees_Retry \<Rightarrow> s\<lparr>ep_agents := ask () (ep_agents s)\<rparr>
      | Press_Category c \<Rightarrow> s\<lparr>ep_category := c\<rparr>
      | Press_Employee n \<Rightarrow>
          if n < length (visible_employees s) then select_employee (visible_employees s ! n) s else s
      | Press_Session n \<Rightarrow>
          if n < length (selected_employee_sessions s)
          then s\<lparr>ep_chat := (ep_chat s)\<lparr>con_active := Some (selected_employee_sessions s ! n)\<rparr>\<rparr> else s
      | Agent_Announced i \<Rightarrow> s\<lparr>ep_category := Cat_All, ep_selected := i\<rparr>
      | Press_New_Task created \<Rightarrow> snd (start_conversation env (selected_employee s) created s)
      | Press_Starter n \<Rightarrow>
          (let keys = workflow_action_keys (selected_employee s)
           in if n < length keys then apply_starter env (keys ! n) s else s)
      | Type_Draft d \<Rightarrow> s\<lparr>ep_draft := d\<rparr>
      | Press_Send created v \<Rightarrow> send_start env None created v s
      | Stream_Event ev \<Rightarrow> stream_event_arrives ev s
      | Stream_Ends r refreshed sess \<Rightarrow> stream_ends env r refreshed sess s
      | Press_Copy accepted \<Rightarrow> copy_latest_answer accepted s
      | Copy_Timeout \<Rightarrow> copy_timeout s
      | Press_Refine \<Rightarrow> refine_latest_answer env s
      | Toggle_Agents \<Rightarrow> s\<lparr>ep_collapsed := \<not> ep_collapsed s\<rparr>
      | Toggle_Result \<Rightarrow> s\<lparr>ep_result_open := \<not> ep_result_open s\<rparr>
      | Narrow_Layout \<Rightarrow> s\<lparr>ep_collapsed := True, ep_result_open := False\<rparr>)"

definition employees_step :: "employees_env \<Rightarrow> employees_event \<Rightarrow> employees_page \<Rightarrow> employees_page" where
  "employees_step env e s = employees_effects s (employees_handle env e s)"

section \<open>The active session follows the employee\<close>

lemma selection_depends [simp]:
  "selected_employee (s\<lparr>ep_load := l\<rparr>) = selected_employee s"
  "selected_employee (s\<lparr>ep_result_open := b\<rparr>) = selected_employee s"
  "selected_employee (s\<lparr>ep_load := l, ep_chat := (ep_chat s)\<lparr>con_messages := ms\<rparr>\<rparr>) = selected_employee s"
  by (simp_all add: selected_employee_def visible_employees_def active_employees_def active_agent_def)

definition follows :: "employees_page \<Rightarrow> bool" where
  "follows s \<longleftrightarrow>
     (case selected_employee s of None \<Rightarrow> True
      | Some e \<Rightarrow> con_active (ep_chat s) = None \<or> active_agent s = Some (wa_id e))"

lemma follows_frame:
  "follows (messages_effect old s) = follows s" "follows (open_new_result old s) = follows s"
  by (auto simp: follows_def messages_effect_def open_new_result_def active_agent_def Let_def split: option.split)

lemma first_of_cases: "first_of xs = None \<and> xs = [] \<or> (\<exists>x. first_of xs = Some x \<and> x \<in> set xs)"
  by (cases xs) (simp_all add: first_of_def)

lemma find_first: "first_of es = Some e \<Longrightarrow> find_employee (Some (wa_id e)) es = Some e"
  by (cases es) (simp_all add: first_of_def find_employee_def)

lemma find_employee_id: "find_employee i es = Some e \<Longrightarrow> i = Some (wa_id e)"
  by (auto simp: find_employee_def find_Some_iff)

lemma follow_employee_follows: "follows (follow_employee s)"
proof (cases "selected_employee s")
  case None
  then show ?thesis by (simp add: follow_employee_def follows_def)
next
  case (Some e)
  show ?thesis
  proof (cases "active_agent s = Some (wa_id e)")
    case True
    with Some show ?thesis by (simp add: follow_employee_def follows_def)
  next
    case False
    let ?x = "first_of (selected_employee_sessions s)"
    let ?s = "s\<lparr>ep_chat := (ep_chat s)\<lparr>con_active := ?x\<rparr>\<rparr>"
    have same: "visible_employees ?s = visible_employees s" "active_employees ?s = active_employees s" "ep_selected ?s = ep_selected s"
      by (simp_all add: visible_employees_def active_employees_def)
    have x: "?x = None \<or> active_agent ?s = Some (wa_id e)"
      using first_of_cases [of "selected_employee_sessions s"] Some
      by (auto simp: selected_employee_sessions_def active_agent_def)
    have "selected_employee ?s = Some e" if "?x \<noteq> None"
    proof (cases "find_employee (Some (ep_selected s)) (visible_employees s)")
      case (Some a)
      with \<open>selected_employee s = Some e\<close> show ?thesis by (simp add: selected_employee_def same or_else_def)
    next
      case None
      have "find_employee (active_agent s) (visible_employees s) = None"
        using Some None False find_employee_id [of "active_agent s" "visible_employees s"]
        by (auto simp: selected_employee_def or_else_def split: option.splits)
      with Some None have "or_else (first_of (visible_employees s)) (first_of (active_employees s)) = Some e"
        by (simp add: selected_employee_def or_else_def)
      then have "find_employee (Some (wa_id e)) (visible_employees s) = Some e \<or>
          visible_employees s = [] \<and> first_of (active_employees s) = Some e"
        using find_first [of "visible_employees s"]
        by (cases "visible_employees s") (auto simp: or_else_def first_of_def)
      moreover have "active_agent ?s = Some (wa_id e)" using x that by simp
      ultimately show ?thesis
        unfolding selected_employee_def same using None
        by (auto simp: or_else_def first_of_def find_employee_def)
    qed
    with x have "follows ?s" by (cases "?x = None") (simp_all add: follows_def split: option.split)
    with Some False show ?thesis by (simp add: follow_employee_def)
  qed
qed

lemma follows_step: "follows (employees_step env e s)"
  by (simp add: employees_step_def employees_effects_def Let_def follows_frame follow_employee_follows)

interpretation workbench: event_system "\<lambda>s. s = employees_init b" "employees_step env" follows for b env
  by unfold_locales
    (simp_all add: follows_step, simp add: follows_def employees_init_def console_init_def split: option.split)

text \<open>
  C34: After every event of the workbench, with its effects, the active session belongs to the selected
  employee, or there is none, whatever answers have come late or failed.
\<close>

theorem active_session_follows_employee:
  "let s = fold (employees_step env) es (employees_init b) in
   case selected_employee s of None \<Rightarrow> True
   | Some e \<Rightarrow> con_active (ep_chat s) = None \<or> active_agent s = Some (wa_id e)"
proof -
  have "follows (fold (employees_step env) es (employees_init b))" by (rule workbench.inv_reachable) simp
  then show ?thesis by (simp add: follows_def Let_def)
qed

section \<open>Where a message goes\<close>

lemma send_in_own_session:
  assumes "selected_employee s = Some e" "can_chat env" "wa_runnable e" "trim (ep_draft s) \<noteq> []"
    and "\<not> con_sending (ep_chat s)" "con_active (ep_chat s) = Some x" "cs_agent_id x = Some (wa_id e)"
  shows "ep_sent (send_start env None created v s) = ep_sent s @ [(wa_id e, x)] \<and>
    ep_asked (send_start env None created v s) = ep_asked s"
  using assms
  by (simp add: send_start_def ensure_employee_session_def active_agent_def coalesce_def Let_def)

lemma send_in_created_session:
  assumes "selected_employee s = Some e" "can_chat env" "wa_runnable e" "trim (ep_draft s) \<noteq> []"
    and "\<not> con_sending (ep_chat s)" "active_agent s \<noteq> Some (wa_id e)"
  shows "ep_sent (send_start env None (Inr x) v s) = ep_sent s @ [(wa_id e, x)] \<and>
    ep_asked (send_start env None (Inr x) v s) = ep_asked s @ [conversation_request env e]"
  using assms
  by (simp add: send_start_def ensure_employee_session_def start_conversation_def create_session_def add_session_def
      active_agent_def coalesce_def Let_def)

lemma effects_frame [simp]:
  "ep_sent (messages_effect old s) = ep_sent s" "ep_sent (follow_employee s) = ep_sent s"
  "ep_sent (open_new_result old s) = ep_sent s" "ep_asked (messages_effect old s) = ep_asked s"
  "ep_asked (follow_employee s) = ep_asked s" "ep_asked (open_new_result old s) = ep_asked s"
  "ep_draft (messages_effect old s) = ep_draft s" "ep_draft (follow_employee s) = ep_draft s"
  "ep_draft (open_new_result old s) = ep_draft s"
  "ep_agents (messages_effect old s) = ep_agents s" "ep_agents (follow_employee s) = ep_agents s"
  "ep_agents (open_new_result old s) = ep_agents s"
  "ep_flight (messages_effect old s) = ep_flight s" "ep_flight (follow_employee s) = ep_flight s"
  "ep_flight (open_new_result old s) = ep_flight s"
  "con_error (ep_chat (messages_effect old s)) = con_error (ep_chat s)"
  "con_error (ep_chat (follow_employee s)) = con_error (ep_chat s)"
  "con_error (ep_chat (open_new_result old s)) = con_error (ep_chat s)"
  "con_active (ep_chat (messages_effect old s)) = con_active (ep_chat s)"
  "con_active (ep_chat (open_new_result old s)) = con_active (ep_chat s)"
  by (auto simp: messages_effect_def follow_employee_def open_new_result_def Let_def split: option.split)

lemma effects_fields:
  "ep_sent (employees_effects old s) = ep_sent s" "ep_asked (employees_effects old s) = ep_asked s"
  "ep_agents (employees_effects old s) = ep_agents s" "ep_flight (employees_effects old s) = ep_flight s"
  "ep_draft (employees_effects old s) = ep_draft s" "con_error (ep_chat (employees_effects old s)) = con_error (ep_chat s)"
  by (simp_all add: employees_effects_def Let_def)

lemma selected_exists: "selected_employee s = None \<longleftrightarrow> active_employees s = []"
proof (cases "active_employees s")
  case Nil
  then have "visible_employees s = []" by (simp add: visible_employees_def in_category_def)
  with Nil show ?thesis by (simp add: selected_employee_def or_else_def first_of_def find_employee_def)
next
  case (Cons a as)
  then show ?thesis by (simp add: selected_employee_def or_else_def first_of_def split: option.split)
qed

text \<open>
  C35: A message whose employee has no session is sent even when the creation of that session fails:
  a second session is asked for that belongs to no agent, and the draft is gone.  When the server
  creates it, the message is sent there, the error of the failed creation is cleared, and the effects
  take the user away from that session unless the server gave it an agent.  When this creation fails too,
  nothing is sent and its error is shown, unless the user stopped the message.
\<close>

theorem failed_session_sends_elsewhere:
  assumes "selected_employee s = Some e" "can_chat env" "wa_runnable e" "trim (ep_draft s) \<noteq> []"
    and "\<not> con_sending (ep_chat s)" "con_active (ep_chat s) = None"
  shows "let s' = employees_step env (Press_Send (Inl err) v) s in
    ep_asked s' = ep_asked s @ [conversation_request env e, console_request env] \<and>
    csr_agent_id (conversation_request env e) = Some (wa_id e) \<and> csr_agent_id (console_request env) = None \<and>
    ep_draft s' = [] \<and>
    (case sv_created v of
       Inr x \<Rightarrow>
         ep_sent s' = ep_sent s @ [(wa_id e, x)] \<and> con_error (ep_chat s') = None \<and>
         (cs_agent_id x = None \<longrightarrow> con_active (ep_chat s') \<noteq> Some x)
     | Inl err2 \<Rightarrow>
         ep_sent s' = ep_sent s \<and> ep_flight s' = None \<and>
         con_error (ep_chat s') =
           (if sv_aborted v then None else Some (chat_error_message (page_t (ee_env env)) err2)))"
proof -
  let ?h = "employees_handle env (Press_Send (Inl err) v) s"
  let ?s = "employees_effects s ?h"
  note start = employees_handle_def send_start_def ensure_employee_session_def start_conversation_def create_session_def
    ensure_session_def add_session_def active_agent_def coalesce_def Let_def
  have h: "ep_asked ?h = ep_asked s @ [conversation_request env e, console_request env]"
    "ep_draft ?h = []" "ep_agents ?h = ep_agents s"
    using assms by (simp_all add: start end_send_def split: sum.split)
  have asked: "csr_agent_id (conversation_request env e) = Some (wa_id e)" "csr_agent_id (console_request env) = None"
    by (simp_all add: conversation_request_def console_request_def)
  have "follows ?s" by (metis employees_step_def follows_step)
  moreover have "active_employees ?s = active_employees s"
    by (simp only: active_employees_def effects_fields h)
  with assms(1) selected_exists [of s] selected_exists [of ?s] obtain e' where "selected_employee ?s = Some e'" by auto
  ultimately have own: "con_active (ep_chat ?s) = None \<or> active_agent ?s = Some (wa_id e')" by (simp add: follows_def)
  show ?thesis
  proof (cases "sv_created v")
    case (Inl err2)
    then have "ep_sent ?h = ep_sent s" "ep_flight ?h = None"
      "con_error (ep_chat ?h) = (if sv_aborted v then None else Some (chat_error_message (page_t (ee_env env)) err2))"
      using assms by (simp_all add: start end_send_def send_failed_def send_finally_def)
    with Inl h asked show ?thesis by (simp add: employees_step_def effects_fields Let_def)
  next
    case (Inr x)
    then have "ep_sent ?h = ep_sent s @ [(wa_id e, x)]" "con_error (ep_chat ?h) = None"
      using assms by (simp_all add: start)
    moreover have "cs_agent_id x = None \<longrightarrow> con_active (ep_chat ?s) \<noteq> Some x"
      using own by (auto simp: active_agent_def)
    ultimately show ?thesis using Inr h asked by (simp add: employees_step_def effects_fields Let_def)
  qed
qed

section \<open>Late answers\<close>

text \<open>
  The end of a stream shows the messages of its own session, whatever is on the screen: when the
  user went on to another employee while the answer was written, the conversation with the first one
  replaces the one with the other, whose session stays the active one.
\<close>

theorem late_answer_under_other_employee:
  assumes "ep_flight s = Some f" "con_active (ep_chat s) = Some y" "selected_employee s = Some e"
    and "cs_agent_id y = Some (wa_id e)" "fl_session f \<noteq> y"
  shows "let s' = employees_step env (Stream_Ends (Inr ()) (Inr fresh) sess) s in
    con_messages (ep_chat s') = fresh \<and> con_active (ep_chat s') = Some y \<and> selected_employee s' = Some e \<and>
    Some y \<noteq> map_option fl_session (ep_flight s)"
proof -
  let ?h = "employees_handle env (Stream_Ends (Inr ()) (Inr fresh) sess) s"
  have h: "con_messages (ep_chat ?h) = fresh" "con_active (ep_chat ?h) = Some y" "ep_agents ?h = ep_agents s"
    "ep_category ?h = ep_category s" "ep_selected ?h = ep_selected s"
    using assms(1,2)
    by (simp_all add: employees_handle_def stream_ends_def end_send_def send_finally_def load_sessions_def load_sessions_done_def
        load_sessions_start_def or_else_def Let_def split: sum.split)
  have sel: "selected_employee ?h = Some e"
    using h assms(2,3)
    by (simp add: selected_employee_def visible_employees_def active_employees_def active_agent_def)
  have "active_agent ?h = Some (wa_id e)" using h(2) assms(4) by (simp add: active_agent_def)
  then have "employees_effects s ?h = open_new_result s ?h"
    using sel h(2) assms(2) by (simp add: employees_effects_def Let_def messages_effect_def follow_employee_def)
  then show ?thesis
    using h sel assms by (auto simp: employees_step_def open_new_result_def Let_def)
qed

section \<open>A run of the workbench\<close>

definition demo_workbench_env :: employees_env where
  "demo_workbench_env =
     \<lparr>ee_env = \<lparr>in_prototype = False, page_user = Some (read_only_user\<lparr>permissions := [''chat:write'']\<rparr>), page_t = (\<lambda>k. k)\<rparr>,
      ee_locale = En_US\<rparr>"

definition demo_employee :: "string \<Rightarrow> string \<Rightarrow> workbench_agent" where
  "demo_employee i key =
     \<lparr>wa_id = i, wa_name = key, wa_slug = key, wa_agent_key = key, wa_module_key = ''agent.'' @ key, wa_description = None,
      wa_status = ''active'', wa_visibility = Vis_Tenant, wa_department_id = None, wa_category = None,
      wa_workflow_profile = None, wa_runnable = True, wa_readiness = ''ready'', wa_readiness_reasons = [],
      wa_model_profile = None, wa_model_policy = ''system_default'', wa_model_available = True, wa_knowledge_base_count = 0,
      wa_knowledge_enabled = False, wa_knowledge_bases = []\<rparr>"

definition demo_session :: "string \<Rightarrow> string option \<Rightarrow> chat_session" where
  "demo_session i agent =
     \<lparr>cs_id = i, cs_tenant_id = [], cs_title = i, cs_agent_id = agent, cs_channel_id = None, cs_user_id = None,
      cs_department_id = None, cs_source = [], cs_status = [], cs_metadata = [], cs_created_at = [], cs_updated_at = []\<rparr>"

definition demo_workbench :: employees_page where \<comment> \<open>two employees, no session, and a draft\<close>
  "demo_workbench =
     (employees_init \<lparr>session_storage = (\<lambda>_. None), local_storage = (\<lambda>_. None), cookies = []\<rparr>)
       \<lparr>ep_agents := (resource_init False)\<lparr>shown := loaded [demo_employee ''a'' ''copywriting'', demo_employee ''b'' ''finance'']\<rparr>,
        ep_draft := ''hi''\<rparr>"

lemmas selection_simps =
  selected_employee_def visible_employees_def in_category_def active_employees_def find_employee_def or_else_def
  first_of_def loaded_def coalesce_def active_agent_def employees_init_def console_init_def demo_employee_def

definition console_send :: send_env where
  "console_send = sample_send\<lparr>sv_created := Inr (demo_session ''c'' None)\<rparr>"

lemma demo_ready:
  "selected_employee demo_workbench = Some (demo_employee ''a'' ''copywriting'')" "can_chat demo_workbench_env"
  "trim (ep_draft demo_workbench) \<noteq> []" "\<not> con_sending (ep_chat demo_workbench)"
  "con_active (ep_chat demo_workbench) = None" "ep_sent demo_workbench = []"
  by (simp_all add: demo_workbench_def selection_simps session_get_def demo_workbench_env_def can_chat_def has_permission_def
      can_access_def no_requirement_def read_only_user_def trim_def trim_start_def trim_end_def is_space_def)

theorem failed_session_sends_elsewhere_witness:
  "ep_sent (employees_step demo_workbench_env (Press_Send (Inl (timeout_error ''slow'')) console_send) demo_workbench) =
     [(''a'', demo_session ''c'' None)] \<and>
   con_active (ep_chat (employees_step demo_workbench_env (Press_Send (Inl (timeout_error ''slow'')) console_send) demo_workbench))
     \<noteq> Some (demo_session ''c'' None) \<and>
   ep_sent (employees_step demo_workbench_env (Press_Send (Inl (timeout_error ''slow''))
     (console_send\<lparr>sv_created := Inl (timeout_error ''slow'')\<rparr>)) demo_workbench) = []"
  using failed_session_sends_elsewhere [OF demo_ready(1,2) _ demo_ready(3,4,5), of "timeout_error ''slow''" console_send]
    failed_session_sends_elsewhere [OF demo_ready(1,2) _ demo_ready(3,4,5), of "timeout_error ''slow''"
      "console_send\<lparr>sv_created := Inl (timeout_error ''slow'')\<rparr>"]
  by (simp add: demo_ready(6) console_send_def demo_session_def demo_employee_def Let_def)

definition demo_switched :: employees_page where
  \<comment> \<open>a message of the first employee is under way, and the second one was chosen\<close>
  "demo_switched =
     demo_workbench
       \<lparr>ep_chat := console_init\<lparr>con_active := Some (demo_session ''sb'' (Some ''b'')), con_sending := True\<rparr>,
        ep_selected := ''b'',
        ep_flight := Some \<lparr>fl_env = sample_send, fl_before = Some (demo_session ''sa'' (Some ''a'')),
                           fl_session = demo_session ''sa'' (Some ''a'')\<rparr>\<rparr>"

theorem late_answer_under_other_employee_witness:
  "con_messages (ep_chat (employees_step demo_workbench_env
      (Stream_Ends (Inr ()) (Inr (prototype_chat_messages (\<lambda>k. k) ''1'' ''2'' (demo_session ''sa'' (Some ''a'')))) (\<lambda>_. Inr []))
      demo_switched)) =
   prototype_chat_messages (\<lambda>k. k) ''1'' ''2'' (demo_session ''sa'' (Some ''a''))"
proof -
  have "selected_employee demo_switched = Some (demo_employee ''b'' ''finance'')"
    by (simp add: demo_switched_def demo_workbench_def selection_simps)
  from late_answer_under_other_employee [OF _ _ this] show ?thesis
    by (simp add: demo_switched_def demo_session_def demo_employee_def Let_def)
qed

section \<open>Small facts\<close>

text \<open>Every active employee is counted in its category, and under all.\<close>

lemma counted_in_own_category:
  assumes "e \<in> set (active_employees s)"
  shows "e \<in> set (in_category (category_for_employee e) (active_employees s)) \<and> e \<in> set (in_category Cat_All (active_employees s))"
  using assms category_never_all [of e] by (simp add: in_category_def)

lemma hidden_selection_replaced:
  "find_employee (Some (ep_selected s)) (visible_employees s) = None \<Longrightarrow> active_agent s = None \<Longrightarrow>
   selected_employee s = or_else (first_of (visible_employees s)) (first_of (active_employees s))"
proof -
  have "find_employee None es = None" for es by (simp add: find_employee_def find_None_iff)
  then show "find_employee (Some (ep_selected s)) (visible_employees s) = None \<Longrightarrow> active_agent s = None \<Longrightarrow> ?thesis"
    by (simp add: selected_employee_def or_else_def)
qed

end
