(* ===== verification/Agent_Views.thy ===== *)
theory Agent_Views
  imports Employee_Labels Budget_Types Page_Env Tables
begin

text \<open>
  What the agents page shows and computes: \<open>pages/agents/agentInstanceUtils.ts\<close> (the forms of an agent
  and the knowledge bases its configuration names), \<open>agentUtils.ts\<close>, \<open>lib/readiness.ts\<close>, the readiness
  panel, the hand-over checklist, the roll-out loop, and the request the run drawer makes.
\<close>

section \<open>Options and forms\<close>

record agent_base_option =
  abo_id :: string
  abo_name :: string
  abo_rag_engine :: string

record agent_deployment_option =
  ado_id :: string
  ado_label :: string
  ado_routing_key :: string

record agent_form =
  af_name :: string
  af_slug :: string
  af_agent_key :: string
  af_description :: string
  af_visibility :: agent_visibility
  af_routing_key :: string
  af_model_key :: string
  af_bases :: "string list"

definition empty_agent_form :: agent_form where
  "empty_agent_form =
     \<lparr>af_name = [], af_slug = [], af_agent_key = [], af_description = [], af_visibility = Vis_Tenant,
      af_routing_key = ''default-chat'', af_model_key = [], af_bases = []\<rparr>"

definition catalog_agent :: "agent_catalog_entry list \<Rightarrow> string \<Rightarrow> agent_catalog_entry option" where
  "catalog_agent cs k = List.find (\<lambda>a. ac_agent_key a = k) cs"

definition default_instance_name :: "agent_catalog_entry list \<Rightarrow> string \<Rightarrow> locale_id \<Rightarrow> string" where
  "default_instance_name cs k l =
     (case catalog_agent cs k of
        None \<Rightarrow> []
      | Some a \<Rightarrow> agent_display_name (ac_agent_key a) (ac_name a) l @
                  (if l = Zh_CN then utf8 [0x5B9E, 0x4F8B] else '' Instance''))"

definition default_instance_description :: "agent_catalog_entry list \<Rightarrow> string \<Rightarrow> locale_id \<Rightarrow> string" where
  "default_instance_description cs k l =
     (case catalog_agent cs k of
        None \<Rightarrow> []
      | Some a \<Rightarrow> coalesce (agent_display_description (ac_agent_key a) (Some (ac_description a)) l) [])"

definition given_base :: "jsval \<Rightarrow> string list" where
  \<comment> \<open>\<open>typeof v === "string" && v.trim()\<close>\<close>
  "given_base v = (case v of JStr s \<Rightarrow> if trim s \<noteq> [] then [trim s] else [] | _ \<Rightarrow> [])"

definition add_base :: "jsval \<Rightarrow> string list \<Rightarrow> string list" where
  "add_base v refs = refs @ filter (\<lambda>b. \<not> List.member refs b) (given_base v)"

definition config_base_ids :: "props \<Rightarrow> string list" where
  "config_base_ids c =
     (let refs = given_base (get_prop ''knowledge_base_id'' (JObj c)) in
      case get_prop ''knowledge_base_ids'' (JObj c) of
        JArr vs \<Rightarrow> fold add_base vs refs
      | _ \<Rightarrow> refs)"

definition base_option_label :: "agent_base_option \<Rightarrow> string" where
  "base_option_label b = abo_name b @ '' '' @ utf8 [0xB7] @ '' '' @ abo_rag_engine b"

definition base_label :: "agent_base_option list \<Rightarrow> string \<Rightarrow> string" where
  \<comment> \<open>the last option of an identifier is the one a \<open>Map\<close> keeps\<close>
  "base_label bs i =
     (case List.find (\<lambda>b. abo_id b = i) (rev bs) of None \<Rightarrow> i | Some b \<Rightarrow> base_option_label b)"

definition instance_base_bindings :: "agent_base_option list \<Rightarrow> agent_instance \<Rightarrow> (string \<times> string) list" where
  "instance_base_bindings bs i = map (\<lambda>k. (k, base_label bs k)) (config_base_ids (ai_config i))"

definition instance_base_labels :: "agent_base_option list \<Rightarrow> agent_instance \<Rightarrow> string list" where
  "instance_base_labels bs i = map snd (instance_base_bindings bs i)"

definition agent_base_options :: "agent_targets option \<Rightarrow> agent_base_option list" where
  "agent_base_options ts =
     map (\<lambda>x. \<lparr>abo_id = at_id x,
            abo_name = js_string (js_coalesce (get_prop ''name'' (JObj (at_metadata x))) (JStr (at_label x))),
            abo_rag_engine = js_string (js_coalesce (get_prop ''rag_engine'' (JObj (at_metadata x))) (JStr []))\<rparr>)
       (case ts of None \<Rightarrow> [] | Some x \<Rightarrow> ats_knowledge_bases x)"

definition agent_deployment_options :: "agent_targets option \<Rightarrow> agent_deployment_option list" where
  "agent_deployment_options ts =
     map (\<lambda>x. \<lparr>ado_id = at_id x, ado_label = at_label x,
            ado_routing_key = js_string (js_coalesce (get_prop ''routing_key'' (JObj (at_metadata x))) (JStr []))\<rparr>)
       (case ts of None \<Rightarrow> [] | Some x \<Rightarrow> ats_model_deployments x)"

definition toggle_base :: "string \<Rightarrow> string list \<Rightarrow> string list" where
  "toggle_base i ids = (if List.member ids i then filter (\<lambda>x. x \<noteq> i) ids else ids @ [i])"

section \<open>License gates and sources\<close>

definition underscores_out :: "string \<Rightarrow> string" where \<comment> \<open>\<open>s.replace(/_/g, " ")\<close>\<close>
  "underscores_out = map (\<lambda>c. if c = CHR ''_'' then CHR '' '' else c)"

definition format_license_gate :: "agent_catalog_entry \<Rightarrow> (string \<Rightarrow> string) \<Rightarrow> string" where
  "format_license_gate a t =
     (if ac_license_gate a \<noteq> ''enforced'' then to_upper (underscores_out (ac_license_gate a))
      else if ac_enabled a = Some True then t ''agentsEnabled''
      else if ac_licensed a = Some True then t ''agentsNotEnabled''
      else t ''agentsNotLicensed'')"

definition format_license_gate_detail :: "agent_catalog_entry \<Rightarrow> (string \<Rightarrow> string) \<Rightarrow> string" where
  "format_license_gate_detail a t =
     (if ac_license_gate a \<noteq> ''enforced'' then underscores_out (ac_license_gate a)
      else
        (let yes = (\<lambda>b. if b = Some True then t ''agentsYes'' else t ''agentsNo'');
             dot = '' '' @ utf8 [0xB7] @ '' '' in
         t ''agentsLicensed'' @ '': '' @ yes (ac_licensed a) @ dot @ t ''agentsInstalledField'' @ '': '' @
         yes (ac_installed a) @ dot @ t ''agentsEnabledField'' @ '': '' @ yes (ac_enabled a)))"

definition prop_text :: "string \<Rightarrow> jsval \<Rightarrow> string" where \<comment> \<open>\<open>String(source.k ?? "")\<close>\<close>
  "prop_text k s = js_string (js_coalesce (get_prop k s) (JStr []))"

definition source_key :: "jsval \<Rightarrow> string" where
  "source_key s =
     js_string (js_coalesce (get_prop ''chunk_id'' s)
       (JStr (prop_text ''knowledge_base_id'' s @ ''-'' @ prop_text ''document_id'' s @ ''-'' @ prop_text ''source_name'' s)))"

definition source_label :: "jsval \<Rightarrow> string" where
  "source_label s =
     (let own = js_string (js_coalesce (js_coalesce (js_coalesce (get_prop ''source_name'' s) (get_prop ''document_id'' s))
                  (get_prop ''chunk_id'' s)) (JStr ''source''));
          base = (case get_prop ''knowledge_base_name'' s of JStr b \<Rightarrow> b | _ \<Rightarrow> [])
      in if base \<noteq> [] then base @ '' / '' @ own else own)"

section \<open>Media agents\<close>

definition is_media_agent :: "agent_catalog_entry \<Rightarrow> bool" where
  "is_media_agent a \<longleftrightarrow> ac_orchestration_runtime a = ''media_gateway''"

definition media_routing_key :: "string \<Rightarrow> string" where
  "media_routing_key k =
     (if k = ''image_generation'' then ''image-generation''
      else if k = ''video_generation'' then ''video-generation''
      else ''default-chat'')"

definition media_run_context :: "string \<Rightarrow> props" where
  "media_run_context k =
     (if k = ''image_generation'' then
        [(''media_mode'', JStr ''natural_language''), (''media_dispatch_mode'', JStr ''enqueue''),
         (''image_count'', JNum (Fin 1)), (''aspect_ratio'', JStr ''1:1''), (''resolution'', JStr ''1024x1024'')]
      else if k = ''video_generation'' then
        [(''media_mode'', JStr ''natural_language''), (''media_dispatch_mode'', JStr ''enqueue''),
         (''duration_seconds'', JNum (Fin 5)), (''fps'', JNum (Fin 24)), (''resolution'', JStr ''1080p'')]
      else [])"

section \<open>Reasons of readiness\<close>

definition readiness_word :: "string \<Rightarrow> string" where
  \<comment> \<open>the part of the message key the three functions of \<open>readiness.ts\<close> share\<close>
  "readiness_word r =
     (if r = ''model_policy_not_configured'' then ''ModelMissing''
      else if r = ''model_route_unavailable'' then ''ModelRouteUnavailable''
      else if r = ''model_unavailable'' then ''ModelUnavailable''
      else if r = ''knowledge_not_bound'' then ''KnowledgeMissing''
      else if r = ''agent_not_active'' then ''NotActive''
      else ''Unknown'')"

definition readiness_reason_label :: "string \<Rightarrow> (string \<Rightarrow> string) \<Rightarrow> string" where
  "readiness_reason_label r t = t (''agentReadinessReason'' @ readiness_word r)"

definition readiness_reason_labels :: "string list \<Rightarrow> (string \<Rightarrow> string) \<Rightarrow> string list" where
  "readiness_reason_labels rs t = map (\<lambda>r. readiness_reason_label r t) rs"

definition readiness_employee_impact :: "string \<Rightarrow> (string \<Rightarrow> string) \<Rightarrow> string" where
  "readiness_employee_impact r t = t (''agentReadinessEmployeeImpact'' @ readiness_word r)"

definition readiness_admin_action :: "string \<Rightarrow> (string \<Rightarrow> string) \<Rightarrow> string" where
  "readiness_admin_action r t = t (''agentReadinessAdminAction'' @ readiness_word r)"

definition unique_readiness_reasons :: "string list \<Rightarrow> string list" where
  "unique_readiness_reasons rs = uniq (filter (\<lambda>r. r \<noteq> []) rs)"

definition instance_reasons :: "agent_instance \<Rightarrow> string list" where
  "instance_reasons i = coalesce (ai_readiness_reasons i) []"

fun count_up :: "string \<Rightarrow> (string \<times> nat) list \<Rightarrow> (string \<times> nat) list" where
  \<comment> \<open>\<open>counts.set(r, (counts.get(r) ?? 0) + 1)\<close>\<close>
  "count_up r [] = [(r, 1)]"
| "count_up r ((k, n) # cs) = (if k = r then (k, Suc n) # cs else (k, n) # count_up r cs)"

definition reason_counts :: "agent_instance list \<Rightarrow> (string \<times> nat) list" where
  "reason_counts is = fold (\<lambda>i. fold count_up (unique_readiness_reasons (instance_reasons i))) is []"

definition compare_reasons :: "(string \<Rightarrow> string \<Rightarrow> int) \<Rightarrow> string \<times> nat \<Rightarrow> string \<times> nat \<Rightarrow> int" where
  "compare_reasons collate a b =
     (if snd b \<noteq> snd a then int (snd b) - int (snd a) else collate (fst a) (fst b))"

definition reason_summary :: "(string \<Rightarrow> string \<Rightarrow> int) \<Rightarrow> agent_instance list \<Rightarrow> (string \<times> nat) list" where
  "reason_summary collate is = sort_by (compare_reasons collate) (reason_counts is)"

section \<open>The readiness panel\<close>

definition has_route :: "agent_instance \<Rightarrow> bool" where
  "has_route i \<longleftrightarrow> js_truthy_str (ai_model_routing_key i) \<or> js_truthy_str (ai_model_key i)"

definition has_bases :: "agent_instance \<Rightarrow> bool" where
  "has_bases i \<longleftrightarrow> 0 < length (config_base_ids (ai_config i))"

definition stale_bases :: "agent_base_option list \<Rightarrow> agent_instance \<Rightarrow> bool" where
  "stale_bases bs i \<longleftrightarrow> list_ex (\<lambda>k. \<not> List.member (map abo_id bs) k) (config_base_ids (ai_config i))"

definition model_at_hand :: "agent_instance \<Rightarrow> bool" where
  "model_at_hand i \<longleftrightarrow> (case ai_model_available i of None \<Rightarrow> has_route i | Some b \<Rightarrow> b)"

definition is_active_instance :: "agent_instance \<Rightarrow> bool" where
  "is_active_instance i \<longleftrightarrow> ai_status i = Inst_Active"

definition publish_ready :: "agent_instance \<Rightarrow> bool" where
  "publish_ready i \<longleftrightarrow> is_active_instance i \<and> ai_runnable i \<noteq> Some False"

definition model_missing :: "agent_instance \<Rightarrow> bool" where
  "model_missing i \<longleftrightarrow>
     list_ex (\<lambda>r. r = ''model_route_unavailable'' \<or> r = ''model_unavailable'') (instance_reasons i)"

definition count_of :: "('a \<Rightarrow> bool) \<Rightarrow> 'a list \<Rightarrow> nat" where
  "count_of P xs = length (filter P xs)"

datatype agents_readiness_kind = Agents_Empty | Agents_Ready | Agents_Warning

record agents_readiness =
  agr_active :: nat
  agr_gaps :: "string list"
  agr_kind :: agents_readiness_kind
  agr_total :: nat
  agr_with_knowledge :: nat
  agr_with_route :: nat
  agr_publish_ready :: nat
  agr_model_available :: nat

definition agents_readiness_of ::
  "agent_instance list \<Rightarrow> agent_base_option list \<Rightarrow> (string \<Rightarrow> string) \<Rightarrow> agents_readiness" where
  "agents_readiness_of is bs t =
     (let active = count_of is_active_instance is; known = count_of has_bases is; routed = count_of has_route is;
          ready = count_of publish_ready is; missing = count_of model_missing is; stale = count_of (stale_bases bs) is;
          gaps = (if active = 0 then [t ''agentInstancesGapNoActive''] else []) @
                 (if known = 0 then [t ''agentInstancesGapNoKnowledge''] else []) @
                 (if routed = 0 then [t ''agentInstancesGapNoRoute''] else []) @
                 (if 0 < missing then [replace_first ''{{count}}'' (nat_str missing) (t ''agentInstancesGapModelUnavailable'')] else []) @
                 (if 0 < stale then [replace_first ''{{count}}'' (nat_str stale) (t ''agentInstancesGapStaleKnowledge'')] else []);
          result = (\<lambda>k g. \<lparr>agr_active = active, agr_gaps = g, agr_kind = k, agr_total = length is,
                      agr_with_knowledge = known, agr_with_route = routed, agr_publish_ready = ready,
                      agr_model_available = count_of model_at_hand is\<rparr>)
      in if is = [] then result Agents_Empty []
         else if 0 < active \<and> ready = active \<and> 0 < known \<and> gaps = [] then result Agents_Ready gaps
         else result Agents_Warning gaps)"

section \<open>The checklist and the roll-out loop\<close>

record budget_cover =
  bgc_active :: nat
  bgc_covering :: nat
  bgc_exceeded :: nat
  bgc_warning :: nat

definition covers_agents :: "agent_instance list \<Rightarrow> budget_policy \<Rightarrow> bool" where
  "covers_agents is p \<longleftrightarrow>
     bp_scope_type p = Scope_Tenant \<or>
     (bp_scope_type p = Scope_Agent \<and> js_truthy_str (bp_scope_id p) \<and>
      List.member (map ai_id is) (the (bp_scope_id p))) \<or>
     (bp_scope_type p = Scope_Department \<and> js_truthy_str (bp_scope_id p) \<and>
      List.member (List.map_filter (\<lambda>i. if js_truthy_str (ai_department_id i) then ai_department_id i else None) is)
        (the (bp_scope_id p)))"

definition budget_cover_of :: "agent_instance list \<Rightarrow> budget_policy list \<Rightarrow> budget_cover" where
  "budget_cover_of is ps =
     (let active = filter (\<lambda>p. bp_status p = Policy_Active) ps; covering = filter (covers_agents is) active
      in \<lparr>bgc_active = length active, bgc_covering = length covering,
          bgc_exceeded = count_of (\<lambda>p. bp_health p = Health_Exceeded) covering,
          bgc_warning = count_of (\<lambda>p. bp_health p = Health_Warning) covering\<rparr>)"

record channel_cover =
  chc_active :: nat
  chc_bound :: nat
  chc_signed :: nat
  chc_unsigned :: nat

definition channel_cover_of :: "agent_instance list \<Rightarrow> channel list \<Rightarrow> channel_cover" where
  "channel_cover_of is cs =
     (let active = filter (\<lambda>c. ch_status c = Chan_Active) cs;
          served = filter (\<lambda>c. js_truthy_str (ch_agent_id c) \<and> List.member (map ai_id is) (the (ch_agent_id c))) active
      in \<lparr>chc_active = length active, chc_bound = length served, chc_signed = count_of ch_secret_configured served,
          chc_unsigned = count_of (\<lambda>c. \<not> ch_secret_configured c) served\<rparr>)"

definition check_of :: "bool \<Rightarrow> bool \<Rightarrow> check_tone" where \<comment> \<open>\<open>a ? "ok" : b ? "warning" : "blocked"\<close>\<close>
  "check_of a b = (if a then Check_Ok else if b then Check_Warning else Check_Blocked)"

definition budget_check :: "budget_cover \<Rightarrow> check_tone" where
  "budget_check c =
     (if bgc_covering c = 0 \<or> bgc_exceeded c \<noteq> 0 then Check_Blocked
      else if bgc_warning c \<noteq> 0 then Check_Warning else Check_Ok)"

definition channel_check :: "channel_cover \<Rightarrow> check_tone" where
  "channel_check c = (if chc_bound c = 0 then Check_Blocked else if chc_unsigned c \<noteq> 0 then Check_Warning else Check_Ok)"

definition runnable_instances :: "agent_instance list \<Rightarrow> agent_instance list" where
  "runnable_instances is = filter (\<lambda>i. ai_runnable i \<noteq> Some False) (filter is_active_instance is)"

definition visible_instances :: "agent_instance list \<Rightarrow> agent_instance list" where
  "visible_instances is = filter (\<lambda>i. ai_visibility i \<noteq> Vis_Private) (filter is_active_instance is)"

definition runtime_target :: "agent_instance list \<Rightarrow> agent_instance option" where
  "runtime_target is =
     or_else (first_of (runnable_instances is)) (or_else (first_of (filter is_active_instance is)) (first_of is))"

definition agents_checklist ::
  "agent_instance list \<Rightarrow> agent_base_option list \<Rightarrow> budget_policy list \<Rightarrow> channel list \<Rightarrow> (string \<times> check_tone) list" where
  "agents_checklist is bs ps cs =
     (let active = filter is_active_instance is; known = count_of has_bases is; stale = count_of (stale_bases bs) is;
          routed = count_of has_route is; available = count_of model_at_hand is
      in [(''agentInstancesChecklistInstance'', check_of (active \<noteq> []) False),
          (''agentInstancesChecklistKnowledge'', check_of (0 < known \<and> stale = 0) (0 < known)),
          (''agentInstancesChecklistRoute'', check_of (0 < routed \<and> available = routed) (0 < routed)),
          (''agentInstancesChecklistBudget'', budget_check (budget_cover_of is ps)),
          (''agentInstancesChecklistChannel'', channel_check (channel_cover_of is cs)),
          (''agentInstancesChecklistRuntime'', check_of (runnable_instances is \<noteq> []) (runtime_target is \<noteq> None)),
          (''agentInstancesChecklistVisibility'', check_of (visible_instances is \<noteq> []) (active \<noteq> []))])"

datatype agents_tab = Tab_Create | Tab_Published | Tab_Agent_Readiness

definition rollout_stages ::
  "agent_catalog_entry list \<Rightarrow> agent_instance list \<Rightarrow> agent_base_option list \<Rightarrow> agent_deployment_option list \<Rightarrow>
   budget_policy list \<Rightarrow> channel list \<Rightarrow> (string \<times> check_tone) list" where
  "rollout_stages as is bs ds ps cs =
     (let active = filter is_active_instance is; known = count_of has_bases is; stale = count_of (stale_bases bs) is;
          routed = count_of has_route is; unavailable = count_of (\<lambda>i. ai_model_available i = Some False) is;
          routes = count_of (\<lambda>d. ado_routing_key d \<noteq> []) ds; runnable = runnable_instances is
      in [(''modules'', check_of (0 < count_of (\<lambda>a. ac_installed a = Some True) as) False),
          (''instances'', check_of (active \<noteq> []) (is \<noteq> [])),
          (''knowledge'', check_of (0 < known \<and> stale = 0) (0 < known)),
          (''model'', check_of (0 < routed \<and> unavailable = 0) (0 < routed \<or> 0 < routes)),
          (''budget'', budget_check (budget_cover_of is ps)),
          (''channel'', channel_check (channel_cover_of is cs)),
          (''exposure'', check_of (visible_instances is \<noteq> []) (active \<noteq> [])),
          (''runtime'', check_of (runnable \<noteq> [] \<and> unavailable = 0) (runnable \<noteq> []))])"

definition preferred_stage :: "agents_tab \<Rightarrow> (string \<times> check_tone) list \<Rightarrow> string" where
  "preferred_stage w stages =
     preferred_check stages (case w of Tab_Create \<Rightarrow> ''instances'' | Tab_Published \<Rightarrow> ''instances'' | Tab_Agent_Readiness \<Rightarrow> ''knowledge'')"

section \<open>The run drawer\<close>

datatype runtime_tab = Runtime_Config | Runtime_Test | Runtime_Evidence
datatype runtime_test_tab = Test_Input | Test_Result

record run_drawer =
  rd_tab :: runtime_tab
  rd_test_tab :: runtime_test_tab
  rd_input :: string
  rd_input_error :: "string option"
  rd_base :: string
  rd_instance :: string
  rd_runner :: agent_runner
  rd_sent :: "(string \<times> agent_run_request) list"

definition default_agent_input :: "string \<Rightarrow> (string \<Rightarrow> string) \<Rightarrow> string" where
  "default_agent_input k t =
     (if k = ''image_generation'' then t ''agentsDefaultInputImage''
      else if k = ''video_generation'' then t ''agentsDefaultInputVideo''
      else t ''agentsDefaultInputGeneral'')"

definition run_drawer_init :: "string \<Rightarrow> string \<Rightarrow> (string \<Rightarrow> string) \<Rightarrow> run_drawer" where
  "run_drawer_init k i t =
     \<lparr>rd_tab = Runtime_Config, rd_test_tab = Test_Input, rd_input = default_agent_input k t, rd_input_error = None,
      rd_base = [], rd_instance = i, rd_runner = runner_init, rd_sent = []\<rparr>"

definition run_instance :: "agent_catalog_entry \<Rightarrow> agent_instance list \<Rightarrow> run_drawer \<Rightarrow> agent_instance option" where
  "run_instance a is s = List.find (\<lambda>i. ai_id i = rd_instance s) (filter (\<lambda>i. ai_agent_key i = ac_agent_key a) is)"

definition run_base_ids :: "agent_catalog_entry \<Rightarrow> agent_instance list \<Rightarrow> run_drawer \<Rightarrow> string list" where
  "run_base_ids a is s =
     (if rd_base s \<noteq> [] then [rd_base s]
      else case run_instance a is s of None \<Rightarrow> [] | Some i \<Rightarrow> config_base_ids (ai_config i))"

definition shop_policy :: string where
  "shop_policy =
     utf8 [0x652F, 0x6301, 0x7B7E, 0x6536, 0x540E] @ ''7'' @
     utf8 [0x5929, 0x5185, 0x672A, 0x7A7F, 0x7740, 0x5546, 0x54C1, 0x6362, 0x7801, 0xFF0C, 0x5BA2,
           0x6237, 0x9700, 0x4FDD, 0x6301, 0x540A, 0x724C, 0x548C, 0x5305, 0x88C5, 0x5B8C, 0x6574,
           0x3002]"

definition run_tone :: string where
  "run_tone =
     utf8 [0x8010, 0x5FC3, 0x3001, 0x660E, 0x786E, 0x3001, 0x53EF, 0x76F4, 0x63A5, 0x53D1, 0x9001]"

definition run_request :: "agent_catalog_entry \<Rightarrow> agent_instance list \<Rightarrow> run_drawer \<Rightarrow> agent_run_request" where
  "run_request a is s =
     (let inst = run_instance a is s; bases = run_base_ids a is s in
      \<lparr>arr_input = rd_input s,
       arr_context =
         (if is_media_agent a then media_run_context (ac_agent_key a) else []) @
         (if \<not> is_media_agent a \<and> bases \<noteq> []
          then [(''knowledge_base_ids'', JArr (map JStr bases)), (''knowledge_top_k'', JNum (Fin 3))] else []) @
         (case inst of None \<Rightarrow> []
          | Some i \<Rightarrow> [(''agent_id'', JStr (ai_id i)), (''agent_instance_slug'', JStr (ai_slug i)),
                       (''department_id'', opt_str (ai_department_id i)),
                       (''visibility'', JStr (visibility_str (ai_visibility i)))]) @
         [(''shop_policy'', JStr shop_policy), (''tone'', JStr run_tone)],
       arr_model_key = (case inst of None \<Rightarrow> None | Some i \<Rightarrow> ai_model_key i),
       arr_routing_key =
         Some (coalesce (case inst of None \<Rightarrow> None | Some i \<Rightarrow> ai_model_routing_key i) (media_routing_key (ac_agent_key a))),
       arr_max_tokens = Some (Fin 1024)\<rparr>)"

datatype run_event =
    Set_Run_Tab runtime_tab
  | Set_Test_Tab runtime_test_tab
  | Set_Run_Input string
  | Set_Run_Base string
  | Set_Run_Instance string
  | Press_Run "exn + agent_run_response"

definition run_step ::
  "page_env \<Rightarrow> nat \<Rightarrow> agent_catalog_entry \<Rightarrow> agent_instance list \<Rightarrow> run_event \<Rightarrow> run_drawer \<Rightarrow> run_drawer" where
  "run_step env now_ms a is e s =
     (case e of
        Set_Run_Tab x \<Rightarrow> s\<lparr>rd_tab := x\<rparr>
      | Set_Test_Tab x \<Rightarrow> s\<lparr>rd_test_tab := x\<rparr>
      | Set_Run_Input x \<Rightarrow> s\<lparr>rd_input := x, rd_input_error := None\<rparr>
      | Set_Run_Base x \<Rightarrow> s\<lparr>rd_base := x\<rparr>
      | Set_Run_Instance x \<Rightarrow> s\<lparr>rd_instance := x\<rparr>
      | Press_Run r \<Rightarrow>
          if trim (rd_input s) = [] then s \<comment> \<open>the button is disabled\<close>
          else
            (let q = run_request a is s;
                 (x, rn) = run_agent (page_t env) (in_prototype env) now_ms (ac_agent_key a) q r (rd_runner s);
                 s' = s\<lparr>rd_runner := rn, rd_sent := rd_sent s @ [(ac_agent_key a, q)]\<rparr>
             in if x = None then s' else s'\<lparr>rd_test_tab := Test_Result, rd_tab := Runtime_Evidence\<rparr>))"

section \<open>What the panels say\<close>

lemma ready_le_active: "count_of publish_ready xs \<le> count_of is_active_instance xs"
  by (induction xs) (auto simp: count_of_def publish_ready_def)

lemma agents_ready_iff:
  "agr_kind (agents_readiness_of is bs t) = Agents_Ready \<longleftrightarrow>
   (\<exists>i\<in>set is. is_active_instance i) \<and> (\<forall>i\<in>set is. is_active_instance i \<longrightarrow> ai_runnable i \<noteq> Some False) \<and>
   (\<exists>i\<in>set is. has_bases i) \<and> (\<exists>i\<in>set is. has_route i) \<and> (\<forall>i\<in>set is. \<not> model_missing i) \<and>
   (\<forall>i\<in>set is. \<not> stale_bases bs i)"
proof -
  have all: "count_of publish_ready xs = count_of is_active_instance xs \<longleftrightarrow>
      (\<forall>i\<in>set xs. is_active_instance i \<longrightarrow> ai_runnable i \<noteq> Some False)" for xs
  proof (induction xs)
    case (Cons i xs)
    have pr: "publish_ready i \<longleftrightarrow> is_active_instance i \<and> ai_runnable i \<noteq> Some False" by (simp add: publish_ready_def)
    show ?case
      using Cons ready_le_active [of xs] by (cases "is_active_instance i") (auto simp: count_of_def pr)
  qed (simp add: count_of_def)
  show ?thesis
    by (auto simp: agents_readiness_of_def Let_def all) (auto simp: count_of_def filter_empty_conv)
qed

lemma map_of_count_up: "map_of (count_up r cs) k = (if k = r then Some (Suc (coalesce (map_of cs r) 0)) else map_of cs k)"
  by (induction r cs rule: count_up.induct) auto

lemma map_of_count_ups:
  "distinct rs \<Longrightarrow>
   map_of (fold count_up rs cs) k = (if k \<in> set rs then Some (Suc (coalesce (map_of cs k) 0)) else map_of cs k)"
  by (induction rs arbitrary: cs) (auto simp: map_of_count_up)

lemma distinct_reasons [simp]: "distinct (unique_readiness_reasons rs)"
  by (simp add: unique_readiness_reasons_def)

text \<open>The action plan counts, for every reason, the agents that give it.\<close>

lemma reason_counts_spec:
  "coalesce (map_of (reason_counts is) r) 0 = (if r = [] then 0 else count_of (\<lambda>i. r \<in> set (instance_reasons i)) is)"
proof (induction "is" rule: rev_induct)
  case (snoc i xs)
  then show ?case
    by (auto simp: reason_counts_def map_of_count_ups unique_readiness_reasons_def count_of_def split: if_splits)
qed (simp add: reason_counts_def count_of_def)

text \<open>
  The routing check compares two numbers: an agent whose model is at hand without a route of its own
  makes it warn, although nothing is missing, and makes it pass when another has a route that is not.
\<close>

lemma route_check_counts:
  assumes "has_route i" "\<not> model_at_hand i" "\<not> has_route j" "model_at_hand j" "has_route k" "model_at_hand k"
  shows "map_of (agents_checklist [j, k] bs ps cs) ''agentInstancesChecklistRoute'' = Some Check_Warning"
    "map_of (agents_checklist [i, j] bs ps cs) ''agentInstancesChecklistRoute'' = Some Check_Ok"
  using assms by (simp_all add: agents_checklist_def Let_def count_of_def check_of_def)

text \<open>The run drawer only sends what is not blank, for its own agent, and never names a base to a media agent.\<close>

definition run_sent_ok :: "agent_catalog_entry \<Rightarrow> run_drawer \<Rightarrow> bool" where
  "run_sent_ok a s \<longleftrightarrow>
     list_all (\<lambda>(k, q). k = ac_agent_key a \<and> trim (arr_input q) \<noteq> [] \<and>
        (is_media_agent a \<longrightarrow> get_prop ''knowledge_base_ids'' (JObj (arr_context q)) = JUndef)) (rd_sent s)"

lemma media_without_bases:
  "is_media_agent a \<Longrightarrow> get_prop ''knowledge_base_ids'' (JObj (arr_context (run_request a is s))) = JUndef"
  by (simp add: run_request_def Let_def media_run_context_def split: option.split)

lemma run_sent_ok_step: "run_sent_ok a s \<Longrightarrow> run_sent_ok a (run_step env n a is e s)"
  using media_without_bases [of a "is" s]
  by (cases e) (auto simp: run_step_def run_sent_ok_def Let_def run_request_def split: prod.split)

interpretation run_drawer: event_system "\<lambda>s. s = run_drawer_init k i t" "\<lambda>(is, e). run_step env n a is e" "run_sent_ok a"
  for k i t env n a
  by unfold_locales (auto simp: run_sent_ok_step, simp add: run_sent_ok_def run_drawer_init_def)

end
