(* ===== verification/Agents_Page.thy ===== *)
theory Agents_Page
  imports Agent_Views Model_Form Workspaces
begin

text \<open>
  The agents page, \<open>pages/AgentsPage.tsx\<close>, with the panel of its instances
  (\<open>pages/agents/AgentInstancesPanel.tsx\<close>) and the drawer of one instance (\<open>AgentInstanceDrawer.tsx\<close>,
  \<open>AgentKnowledgeBindingPicker.tsx\<close>).  \<open>agents_step\<close> is one event followed by \<open>agents_commit\<close>, the
  effects of page and panel.  The drawer takes its form from the instance whenever the list holds
  another object for it: after every answer of the server, and after the store of the prototype has
  replaced it.
\<close>

section \<open>State\<close>

datatype agent_request =
    Sent_Create agent_instance_create
  | Sent_Update agent_instance agent_instance_update

record agents_page =
  ag_catalog :: "(unit, agent_catalog_entry list) resource"
  ag_instances :: "(unit, agent_instance list) resource"
  ag_actions :: "agent_mark actions"
  ag_store :: store
  ag_browser :: browser
  ag_page :: "page option" \<comment> \<open>the page asked for with \<open>onNavigate\<close>\<close>
  ag_selected_key :: "string option"
  ag_request :: "agents_tab option"
  ag_runtime_key :: "string option"
  ag_runtime_instance :: string
  ag_notice :: string
  ag_timers :: nat
  ag_tab :: agents_tab
  ag_inspected :: "string option"
  ag_form :: agent_form
  ag_drawer :: agent_form
  ag_name_error :: "string option"
  ag_sent :: "agent_request list"

record agents_env =
  ge_env :: page_env
  ge_call :: call_env
  ge_locale :: locale_id
  ge_diagnostics :: bool

definition can_write_agents :: "agents_env \<Rightarrow> bool" where
  "can_write_agents env \<longleftrightarrow> has_permission ''agents:write'' (ge_env env)"

definition agents_of_catalog :: "agents_env \<Rightarrow> agents_page \<Rightarrow> agent_catalog_entry list" where
  "agents_of_catalog env s =
     coalesce (as_data (agent_catalog_shown (in_prototype (ge_env env)) (current_snapshot (ag_store s)) (ag_catalog s))) []"

definition instances_of :: "agents_env \<Rightarrow> agents_page \<Rightarrow> agent_instance list" where
  "instances_of env s =
     coalesce (as_data (agent_instances_shown (in_prototype (ge_env env)) (current_snapshot (ag_store s)) (ag_instances s))) []"

definition selected_agent :: "agents_env \<Rightarrow> agents_page \<Rightarrow> agent_catalog_entry option" where
  "selected_agent env s =
     or_else (case ag_selected_key s of None \<Rightarrow> None | Some k \<Rightarrow> catalog_agent (agents_of_catalog env s) k)
       (first_of (agents_of_catalog env s))"

definition runtime_agent :: "agents_env \<Rightarrow> agents_page \<Rightarrow> agent_catalog_entry option" where
  "runtime_agent env s =
     or_else (case ag_runtime_key s of None \<Rightarrow> None | Some k \<Rightarrow> catalog_agent (agents_of_catalog env s) k)
       (if js_truthy_str (ag_runtime_key s) then selected_agent env s else None)"

definition inspected_instance :: "agents_env \<Rightarrow> agents_page \<Rightarrow> agent_instance option" where
  "inspected_instance env s =
     (case ag_inspected s of None \<Rightarrow> None | Some k \<Rightarrow> List.find (\<lambda>i. ai_id i = k) (instances_of env s))"

section \<open>What is handed over in the session storage\<close>

definition consume_key :: "string \<Rightarrow> browser \<Rightarrow> string option \<times> browser" where
  "consume_key k b = (session_get k b, if js_truthy_str (session_get k b) then session_remove k b else b)"

definition consume_agent_tab :: "browser \<Rightarrow> string option \<times> browser" where
  "consume_agent_tab b =
     (let k = ''agenthive.agents.default_tab''; v = session_get k b in
      if v = Some ''catalog'' \<or> v = Some ''instances'' \<or> v = Some ''runtime'' then (v, session_remove k b) else (None, b))"

definition agents_page_init :: "agents_env \<Rightarrow> browser \<Rightarrow> store \<Rightarrow> agents_page" where
  "agents_page_init env b st =
     (let (tab, b1) = consume_agent_tab b;
          (key, b2) = consume_key ''agenthive.agents.default_agent_key'' b1;
          (base, b3) = consume_key ''agenthive.agents.default_knowledge_base_id'' b2;
          t = page_t (ge_env env)
      in \<lparr>ag_catalog = resource_init True, ag_instances = resource_init True, ag_actions = actions_init,
          ag_store = st, ag_browser = b3,
          ag_page = (if tab = Some ''catalog'' then Some AgentModules else None),
          ag_selected_key = key,
          ag_request =
            (if coalesce tab ''instances'' = ''instances''
             then Some (if js_truthy_str key \<or> js_truthy_str base then Tab_Create else Tab_Published) else None),
          ag_runtime_key = (if tab = Some ''runtime'' then key else None), ag_runtime_instance = [],
          ag_notice =
            (if tab = Some ''instances''
             then (if js_truthy_str key then t ''agentsModuleConfigurationFocused'' else t ''agentsKnowledgeBindingFocused'')
             else []),
          ag_timers = 0, ag_tab = Tab_Published, ag_inspected = None,
          ag_form = empty_agent_form\<lparr>af_bases := (if js_truthy_str base then [the base] else [])\<rparr>,
          ag_drawer = empty_agent_form, ag_name_error = None, ag_sent = []\<rparr>)"

section \<open>Effects\<close>

definition take_tab_request :: "agents_env \<Rightarrow> agents_page \<Rightarrow> agents_page" where
  "take_tab_request env s =
     (case ag_request s of
        None \<Rightarrow> s
      | Some w \<Rightarrow> s\<lparr>ag_tab := (if \<not> ge_diagnostics env \<and> w = Tab_Agent_Readiness then Tab_Published else w),
                   ag_request := None\<rparr>)"

definition leave_readiness :: "agents_env \<Rightarrow> agents_page \<Rightarrow> agents_page" where
  "leave_readiness env s =
     (if \<not> ge_diagnostics env \<and> ag_tab s = Tab_Agent_Readiness then s\<lparr>ag_tab := Tab_Published\<rparr> else s)"

definition with_agent :: "agents_env \<Rightarrow> agents_page \<Rightarrow> string \<Rightarrow> agent_form \<Rightarrow> agent_form" where
  \<comment> \<open>the agent of the form, with its name and description where these are empty\<close>
  "with_agent env s k f =
     f\<lparr>af_agent_key := k,
       af_description := text_or (af_description f) (default_instance_description (agents_of_catalog env s) k (ge_locale env)),
       af_name := text_or (af_name f) (default_instance_name (agents_of_catalog env s) k (ge_locale env))\<rparr>"

definition next_agent_key :: "agents_env \<Rightarrow> agents_page \<Rightarrow> string" where
  "next_agent_key env s =
     coalesce (or_else (map_option ac_agent_key (selected_agent env s))
       (map_option ac_agent_key (first_of (agents_of_catalog env s)))) []"

definition fill_form :: "agents_env \<Rightarrow> agents_page \<Rightarrow> agents_page" where
  "fill_form env s =
     (if af_agent_key (ag_form s) = [] \<and> next_agent_key env s \<noteq> []
      then s\<lparr>ag_form := with_agent env s (next_agent_key env s) (ag_form s)\<rparr> else s)"

definition select_first_agent :: "agents_env \<Rightarrow> agents_page \<Rightarrow> agents_page" where
  "select_first_agent env s =
     (let as = agents_of_catalog env s in
      if as \<noteq> [] \<and> (\<not> js_truthy_str (ag_selected_key s) \<or> catalog_agent as (the (ag_selected_key s)) = None)
      then s\<lparr>ag_selected_key := map_option ac_agent_key (first_of as)\<rparr> else s)"

definition agents_commit :: "agents_env \<Rightarrow> agents_page \<Rightarrow> agents_page" where
  "agents_commit env s = select_first_agent env (fill_form env (leave_readiness env (take_tab_request env s)))"

section \<open>The drawer\<close>

definition form_from_instance :: "agent_instance \<Rightarrow> agent_form" where
  "form_from_instance i =
     \<lparr>af_name = ai_name i, af_slug = ai_slug i, af_agent_key = ai_agent_key i,
      af_description = coalesce (ai_description i) [], af_visibility = ai_visibility i,
      af_routing_key = coalesce (ai_model_routing_key i) [], af_model_key = coalesce (ai_model_key i) [],
      af_bases = config_base_ids (ai_config i)\<rparr>"

definition reset_drawer :: "agents_env \<Rightarrow> agents_page \<Rightarrow> agents_page" where
  "reset_drawer env s =
     (case inspected_instance env s of
        None \<Rightarrow> s
      | Some i \<Rightarrow> s\<lparr>ag_drawer := form_from_instance i, ag_name_error := None\<rparr>)"

definition inspect :: "agents_env \<Rightarrow> string option \<Rightarrow> agents_page \<Rightarrow> agents_page" where
  "inspect env k s = (if ag_inspected s = k then s else reset_drawer env (s\<lparr>ag_inspected := k\<rparr>))"

definition drawer_name_error :: "agent_form \<Rightarrow> (string \<Rightarrow> string) \<Rightarrow> string option" where
  "drawer_name_error f t =
     (if trim (af_name f) = [] then Some (t ''agentInstancesNameRequired'')
      else if utf16_length (trim (af_name f)) < 2 then Some (t ''agentInstancesNameTooShort'')
      else None)"

definition trimmed_or_null :: "string \<Rightarrow> string option" where \<comment> \<open>\<open>s.trim() || null\<close>\<close>
  "trimmed_or_null x = (if trim x = [] then None else Some (trim x))"

definition saved_config :: "props \<Rightarrow> string list \<Rightarrow> props" where
  "saved_config c ids =
     obj_spread c
       [(''knowledge_base_ids'', JArr (map JStr ids)),
        (''knowledge_top_k'', js_coalesce (get_prop ''knowledge_top_k'' (JObj c)) (JNum (Fin 3)))]"

definition status_update :: "instance_status \<Rightarrow> agent_instance_update" where
  "status_update st =
     \<lparr>aiu_name = None, aiu_description = None, aiu_status = Some st, aiu_visibility = None, aiu_department_id = None,
      aiu_owner_user_id = None, aiu_model_routing_key = None, aiu_model_key = None, aiu_system_prompt = None,
      aiu_config = None, aiu_metadata = None\<rparr>"

definition drawer_update :: "agent_instance \<Rightarrow> agent_form \<Rightarrow> agent_instance_update" where
  "drawer_update i f =
     \<lparr>aiu_name = Some (trim (af_name f)), aiu_description = Some (trimmed_or_null (af_description f)), aiu_status = None,
      aiu_visibility = Some (af_visibility f), aiu_department_id = None, aiu_owner_user_id = None,
      aiu_model_routing_key = Some (trimmed_or_null (af_routing_key f)), aiu_model_key = Some (trimmed_or_null (af_model_key f)),
      aiu_system_prompt = None, aiu_config = Some (Some (saved_config (ai_config i) (af_bases f))), aiu_metadata = None\<rparr>"

section \<open>Handlers\<close>

definition refetch_instances :: "agents_env \<Rightarrow> agents_page \<Rightarrow> agents_page" where
  "refetch_instances env s =
     s\<lparr>ag_instances := load_agent_instances (in_prototype (ge_env env)) (current_snapshot (ag_store s)) (ag_instances s)\<rparr>"

definition refetch_catalog :: "agents_env \<Rightarrow> agents_page \<Rightarrow> agents_page" where
  "refetch_catalog env s =
     s\<lparr>ag_catalog := load_agent_catalog (in_prototype (ge_env env)) (current_snapshot (ag_store s)) (ag_catalog s)\<rparr>"

datatype agent_field =
    Name_Field string
  | Slug_Field string
  | Description_Field string
  | Visibility_Field agent_visibility
  | Routing_Field string
  | Model_Field string
  | Base_Field string

definition put_field :: "agent_field \<Rightarrow> agent_form \<Rightarrow> agent_form" where
  "put_field x f =
     (case x of
        Name_Field v \<Rightarrow> f\<lparr>af_name := v\<rparr>
      | Slug_Field v \<Rightarrow> f\<lparr>af_slug := v\<rparr>
      | Description_Field v \<Rightarrow> f\<lparr>af_description := v\<rparr>
      | Visibility_Field v \<Rightarrow> f\<lparr>af_visibility := v\<rparr>
      | Routing_Field v \<Rightarrow> f\<lparr>af_routing_key := v\<rparr>
      | Model_Field v \<Rightarrow> f\<lparr>af_model_key := v\<rparr>
      | Base_Field v \<Rightarrow> f\<lparr>af_bases := toggle_base v (af_bases f)\<rparr>)"

definition drawer_field :: "agent_field \<Rightarrow> agents_page \<Rightarrow> agents_page" where
  "drawer_field x s =
     s\<lparr>ag_drawer := put_field x (ag_drawer s),
       ag_name_error := (case x of Name_Field _ \<Rightarrow> None | _ \<Rightarrow> ag_name_error s)\<rparr>"

definition create_payload :: "agent_form \<Rightarrow> agent_instance_create" where
  "create_payload f =
     \<lparr>aic_name = trim (af_name f), aic_slug = trimmed_or_null (af_slug f), aic_agent_key = af_agent_key f,
      aic_description = trimmed_or_null (af_description f), aic_visibility = Some (af_visibility f),
      aic_department_id = None, aic_owner_user_id = None, aic_model_routing_key = trimmed_or_null (af_routing_key f),
      aic_model_key = trimmed_or_null (af_model_key f), aic_system_prompt = None,
      aic_config = Some [(''knowledge_base_ids'', JArr (map JStr (af_bases f))), (''knowledge_top_k'', JNum (Fin 3))],
      aic_metadata = Some [(''source'', JStr ''agents_page'')]\<rparr>"

definition create_instance :: "agents_env \<Rightarrow> exn + agent_instance \<Rightarrow> agents_page \<Rightarrow> agents_page" where
  "create_instance env r s =
     (let f = ag_form s in
      if \<not> can_write_agents env \<or> trim (af_name f) = [] \<or> af_agent_key f = [] then s
      else
        (let p = create_payload f;
             (x, a, st) = create_agent_action (ge_call env) p r (ag_actions s, ag_store s);
             s' = s\<lparr>ag_actions := a, ag_store := st, ag_sent := ag_sent s @ [Sent_Create p]\<rparr>
         in if x = None then s'
            else refetch_instances env
                   (s'\<lparr>ag_form := empty_agent_form\<lparr>af_agent_key := af_agent_key f, af_routing_key := af_routing_key f\<rparr>,
                       ag_tab := Tab_Published\<rparr>)))"

definition run_update ::
  "agents_env \<Rightarrow> agent_instance \<Rightarrow> agent_instance_update \<Rightarrow> exn + agent_instance \<Rightarrow> agents_page \<Rightarrow>
   agent_instance option \<times> agents_page" where
  \<comment> \<open>\<open>updateAgentInstance\<close>; an object replaced in the store of the prototype is a new one for the drawer\<close>
  "run_update env i p r s =
     (let (x, a, st) = update_agent_action (ge_call env) (ai_id i) p r (ag_actions s, ag_store s);
          s' = s\<lparr>ag_actions := a, ag_store := st, ag_sent := ag_sent s @ [Sent_Update i p]\<rparr>;
          s'' = (if in_prototype (ge_env env) \<and> ag_inspected s = Some (ai_id i) then reset_drawer env s' else s')
      in (case x of Returns y \<Rightarrow> (y, s'') | Rejects _ \<Rightarrow> (None, s'')))"

definition set_instance_status ::
  "agents_env \<Rightarrow> agent_instance \<Rightarrow> instance_status \<Rightarrow> exn + agent_instance \<Rightarrow> agents_page \<Rightarrow> agents_page" where
  "set_instance_status env i st r s =
     (if \<not> can_write_agents env then s
      else (let (x, s') = run_update env i (status_update st) r s
            in if x = None then s' else refetch_instances env s'))"

definition save_instance :: "agents_env \<Rightarrow> agent_instance \<Rightarrow> agent_instance_update \<Rightarrow> exn + agent_instance \<Rightarrow> agents_page \<Rightarrow> agents_page" where
  "save_instance env i p r s =
     (if \<not> can_write_agents env then s
      else (let (x, s') = run_update env i p r s
            in case x of None \<Rightarrow> s' | Some u \<Rightarrow> refetch_instances env (inspect env (Some (ai_id u)) s')))"

definition save_drawer :: "agents_env \<Rightarrow> exn + agent_instance \<Rightarrow> agents_page \<Rightarrow> agents_page" where
  "save_drawer env r s =
     (case inspected_instance env s of
        None \<Rightarrow> s
      | Some i \<Rightarrow>
          (let e = drawer_name_error (ag_drawer s) (page_t (ge_env env)); s' = s\<lparr>ag_name_error := e\<rparr>
           in if e \<noteq> None then s' else save_instance env i (drawer_update i (ag_drawer s)) r s'))"

definition flash_agents :: "string \<Rightarrow> agents_page \<Rightarrow> agents_page" where
  "flash_agents msg s = s\<lparr>ag_notice := msg, ag_timers := Suc (ag_timers s)\<rparr>"

definition focus_create :: "agents_env \<Rightarrow> agents_page \<Rightarrow> agents_page" where
  "focus_create env s =
     (if \<not> can_write_agents env then flash_agents (page_t (ge_env env) ''agentsWritePermissionRequiredDetail'') s
      else flash_agents (page_t (ge_env env) ''agentsCreateFocused'') (s\<lparr>ag_request := Some Tab_Create\<rparr>))"

definition open_with_instance :: "string \<Rightarrow> page \<Rightarrow> agent_instance \<Rightarrow> agents_page \<Rightarrow> agents_page" where
  "open_with_instance k p i s = s\<lparr>ag_browser := session_set k (ai_id i) (ag_browser s), ag_page := Some p\<rparr>"

definition open_chat_with :: "agent_instance \<Rightarrow> agents_page \<Rightarrow> agents_page" where
  "open_chat_with = open_with_instance ''agenthive.chat.preselect_agent_id'' ChatConsole"

definition open_builder_with :: "agent_instance \<Rightarrow> agents_page \<Rightarrow> agents_page" where
  "open_builder_with = open_with_instance ''agenthive.builder.preselect_instance_id'' Builder"

section \<open>Events\<close>

datatype agents_event =
    Agents_Mount
  | Catalog_Arrive nat "nat \<Rightarrow> exn + agent_catalog"
  | Instances_Arrive nat "nat \<Rightarrow> exn + agent_instance_list"
  | Catalog_Retry
  | Instances_Refresh
  | Open_Agents_Tab agents_tab
  | Press_Focus_Create
  | Agents_Notice_Timeout
  | Edit_Form agent_field
  | Change_Agent nat
  | Press_Create_Agent "exn + agent_instance"
  | Press_Row_Status nat instance_status "exn + agent_instance"
  | Press_Inspect nat
  | Press_Chat nat
  | Press_Configure nat
  | Press_Row_Run nat
  | Close_Drawer
  | Edit_Drawer agent_field
  | Press_Drawer_Status instance_status "exn + agent_instance"
  | Press_Drawer_Save "exn + agent_instance"
  | Open_Runtime
  | Close_Runtime

definition status_offered :: "agents_env \<Rightarrow> instance_status \<Rightarrow> agent_instance \<Rightarrow> bool" where
  "status_offered env st i \<longleftrightarrow> can_write_agents env \<and> st \<noteq> Inst_Draft \<and> ai_status i \<noteq> st"

definition agents_handle :: "agents_env \<Rightarrow> agents_event \<Rightarrow> agents_page \<Rightarrow> agents_page" where
  "agents_handle env e s =
     (let t = page_t (ge_env env); rows = instances_of env s in
      case e of
        Agents_Mount \<Rightarrow> refetch_instances env (refetch_catalog env s)
      | Catalog_Arrive n a \<Rightarrow>
          if in_waiting n (ag_catalog s) then s\<lparr>ag_catalog := agent_catalog_answered t n a (ag_catalog s)\<rparr> else s
      | Instances_Arrive n a \<Rightarrow>
          if in_waiting n (ag_instances s)
          then reset_drawer env (s\<lparr>ag_instances := agent_instances_answered t n a (ag_instances s)\<rparr>) else s
      | Catalog_Retry \<Rightarrow> refetch_catalog env s
      | Instances_Refresh \<Rightarrow> refetch_instances env s
      | Open_Agents_Tab w \<Rightarrow> if w = Tab_Agent_Readiness \<and> \<not> ge_diagnostics env then s else s\<lparr>ag_tab := w\<rparr>
      | Press_Focus_Create \<Rightarrow> if can_write_agents env then focus_create env s else s
      | Agents_Notice_Timeout \<Rightarrow> (case ag_timers s of 0 \<Rightarrow> s | Suc n \<Rightarrow> s\<lparr>ag_notice := [], ag_timers := n\<rparr>)
      | Edit_Form x \<Rightarrow> if can_write_agents env then s\<lparr>ag_form := put_field x (ag_form s)\<rparr> else s
      | Change_Agent n \<Rightarrow>
          if can_write_agents env \<and> n < length (agents_of_catalog env s)
          then s\<lparr>ag_form := with_agent env s (ac_agent_key (agents_of_catalog env s ! n)) (ag_form s)\<rparr> else s
      | Press_Create_Agent r \<Rightarrow> create_instance env r s
      | Press_Row_Status n st r \<Rightarrow>
          if n < length rows \<and> status_offered env st (rows ! n) then set_instance_status env (rows ! n) st r s else s
      | Press_Inspect n \<Rightarrow> if n < length rows then inspect env (Some (ai_id (rows ! n))) s else s
      | Press_Chat n \<Rightarrow> if n < length rows then open_chat_with (rows ! n) s else s
      | Press_Configure n \<Rightarrow> if n < length rows then open_builder_with (rows ! n) s else s
      | Press_Row_Run n \<Rightarrow>
          if n < length rows
          then s\<lparr>ag_selected_key := Some (ai_agent_key (rows ! n)), ag_runtime_key := Some (ai_agent_key (rows ! n)),
                 ag_runtime_instance := ai_id (rows ! n)\<rparr> else s
      | Close_Drawer \<Rightarrow> s\<lparr>ag_inspected := None\<rparr>
      | Edit_Drawer x \<Rightarrow> if can_write_agents env \<and> inspected_instance env s \<noteq> None then drawer_field x s else s
      | Press_Drawer_Status st r \<Rightarrow>
          (case inspected_instance env s of
             None \<Rightarrow> s
           | Some i \<Rightarrow> if status_offered env st i then set_instance_status env i st r s else s)
      | Press_Drawer_Save r \<Rightarrow> if can_write_agents env then save_drawer env r s else s
      | Open_Runtime \<Rightarrow>
          (case selected_agent env s of
             None \<Rightarrow> s
           | Some a \<Rightarrow> s\<lparr>ag_runtime_key := Some (ac_agent_key a), ag_runtime_instance := []\<rparr>)
      | Close_Runtime \<Rightarrow> s\<lparr>ag_runtime_key := None, ag_runtime_instance := []\<rparr>)"

definition agents_step :: "agents_env \<Rightarrow> agents_event \<Rightarrow> agents_page \<Rightarrow> agents_page" where
  "agents_step env e s = agents_commit env (agents_handle env e s)"

section \<open>The effects settle at once\<close>

lemma take_tab_request_frame [simp]:
  "ag_catalog (take_tab_request env s) = ag_catalog s"
  "ag_instances (take_tab_request env s) = ag_instances s"
  "ag_store (take_tab_request env s) = ag_store s"
  "ag_drawer (take_tab_request env s) = ag_drawer s"
  "ag_inspected (take_tab_request env s) = ag_inspected s"
  "ag_name_error (take_tab_request env s) = ag_name_error s"
  "ag_sent (take_tab_request env s) = ag_sent s"
  by (simp_all add: take_tab_request_def split: option.split)

lemma leave_readiness_frame [simp]:
  "ag_catalog (leave_readiness env s) = ag_catalog s"
  "ag_instances (leave_readiness env s) = ag_instances s"
  "ag_store (leave_readiness env s) = ag_store s"
  "ag_drawer (leave_readiness env s) = ag_drawer s"
  "ag_inspected (leave_readiness env s) = ag_inspected s"
  "ag_name_error (leave_readiness env s) = ag_name_error s"
  "ag_sent (leave_readiness env s) = ag_sent s"
  by (simp_all add: leave_readiness_def)

lemma fill_form_frame [simp]:
  "ag_catalog (fill_form env s) = ag_catalog s"
  "ag_instances (fill_form env s) = ag_instances s"
  "ag_store (fill_form env s) = ag_store s"
  "ag_drawer (fill_form env s) = ag_drawer s"
  "ag_inspected (fill_form env s) = ag_inspected s"
  "ag_name_error (fill_form env s) = ag_name_error s"
  "ag_sent (fill_form env s) = ag_sent s"
  by (simp_all add: fill_form_def)

lemma select_first_agent_frame [simp]:
  "ag_catalog (select_first_agent env s) = ag_catalog s"
  "ag_instances (select_first_agent env s) = ag_instances s"
  "ag_store (select_first_agent env s) = ag_store s"
  "ag_drawer (select_first_agent env s) = ag_drawer s"
  "ag_inspected (select_first_agent env s) = ag_inspected s"
  "ag_name_error (select_first_agent env s) = ag_name_error s"
  "ag_sent (select_first_agent env s) = ag_sent s"
  by (simp_all add: select_first_agent_def Let_def)

lemma commit_frame [simp]:
  "ag_catalog (agents_commit env s) = ag_catalog s"
  "ag_instances (agents_commit env s) = ag_instances s"
  "ag_store (agents_commit env s) = ag_store s"
  "ag_drawer (agents_commit env s) = ag_drawer s"
  "ag_inspected (agents_commit env s) = ag_inspected s"
  "ag_name_error (agents_commit env s) = ag_name_error s"
  "ag_sent (agents_commit env s) = ag_sent s"
  by (simp_all add: agents_commit_def)

lemma instances_of_cong:
  "ag_store s = ag_store s' \<Longrightarrow> ag_instances s = ag_instances s' \<Longrightarrow> instances_of env s = instances_of env s'"
  by (simp add: instances_of_def)

lemma catalog_cong:
  "ag_store s = ag_store s' \<Longrightarrow> ag_catalog s = ag_catalog s' \<Longrightarrow> agents_of_catalog env s = agents_of_catalog env s'"
  by (simp add: agents_of_catalog_def)

definition at_rest :: "agents_env \<Rightarrow> agents_page \<Rightarrow> bool" where
  "at_rest env s \<longleftrightarrow>
     ag_request s = None \<and> (ag_tab s = Tab_Agent_Readiness \<longrightarrow> ge_diagnostics env) \<and>
     (af_agent_key (ag_form s) = [] \<longrightarrow> next_agent_key env s = []) \<and> select_first_agent env s = s"

lemma at_rest_fixed: "at_rest env s \<Longrightarrow> agents_commit env s = s"
  by (auto simp: at_rest_def agents_commit_def take_tab_request_def leave_readiness_def fill_form_def)

section \<open>Reading back what the drawer saves\<close>

definition base_ids_ok :: "string list \<Rightarrow> bool" where
  "base_ids_ok ids \<longleftrightarrow> distinct ids \<and> list_all (\<lambda>i. i \<noteq> [] \<and> trim i = i) ids"

lemma given_base_text: "trim i = i \<Longrightarrow> i \<noteq> [] \<Longrightarrow> given_base (JStr i) = [i]"
  by (simp add: given_base_def)

lemma fold_add_bases:
  "list_all (\<lambda>i. i \<noteq> [] \<and> trim i = i) ids \<Longrightarrow> distinct ids \<Longrightarrow>
   fold add_base (map JStr ids) refs = refs @ filter (\<lambda>i. i \<notin> set refs) ids"
proof (induction ids arbitrary: refs)
  case (Cons i ids)
  then have step: "add_base (JStr i) refs = (if i \<in> set refs then refs else refs @ [i])"
    by (simp add: add_base_def given_base_text)
  have keep: "filter (\<lambda>k. k \<notin> set (refs @ [i])) ids = filter (\<lambda>k. k \<notin> set refs) ids"
    using Cons.prems by (intro filter_cong) auto
  show ?case using Cons.prems keep by (auto simp: step Cons.IH)
qed simp

lemma saved_config_props:
  "get_prop ''knowledge_base_ids'' (JObj (saved_config c ids)) = JArr (map JStr ids)"
  "k \<noteq> ''knowledge_base_ids'' \<Longrightarrow> k \<noteq> ''knowledge_top_k'' \<Longrightarrow>
   get_prop k (JObj (saved_config c ids)) = get_prop k (JObj c)"
  by (simp_all add: saved_config_def obj_spread_def del: get_prop.simps)

lemma config_base_ids_ok: "base_ids_ok (config_base_ids c)"
proof -
  have ok: "base_ids_ok (given_base v)" for v
    by (cases v) (auto simp: base_ids_ok_def given_base_def trim_idem)
  have "base_ids_ok refs \<Longrightarrow> base_ids_ok (fold add_base vs refs)" for vs refs
  proof (induction vs arbitrary: refs)
    case (Cons v vs)
    have "base_ids_ok (add_base v refs)"
      using Cons.prems ok [of v] by (auto simp: add_base_def base_ids_ok_def list_all_iff)
    then show ?case by (simp add: Cons.IH)
  qed simp
  with ok show ?thesis by (auto simp: config_base_ids_def Let_def split: jsval.split)
qed

text \<open>
  The update on the server, \<open>update_agent_instance\<close> of \<open>services/agent_runtime_service.py\<close> with the
  lengths of its schema.  A field that is absent and one that is null are the same to it, and leave the
  instance as it is.  What the server asks its database and its license is a parameter: each answer of
  \<open>update_checks\<close> is a refusal, or None.  The detail of a request that fails the schema and the readiness
  added to the answer are not modelled.
\<close>

type_synonym refusal = "nat \<times> string" \<comment> \<open>status and detail\<close>

record update_checks =
  uc_access :: "string \<Rightarrow> refusal option" \<comment> \<open>is the instance there, and may the caller write it\<close>
  uc_run :: "string \<Rightarrow> refusal option" \<comment> \<open>may the module of an active agent run\<close>
  uc_department :: "string \<Rightarrow> refusal option"
  uc_owner :: "string \<Rightarrow> refusal option"
  uc_bases :: "props \<Rightarrow> refusal option"

definition sent_value :: "'a option option \<Rightarrow> 'a option" where \<comment> \<open>None of the schema: absent or null\<close>
  "sent_value v = (case v of Some (Some x) \<Rightarrow> Some x | _ \<Rightarrow> None)"

definition update_schema_ok :: "agent_instance_update \<Rightarrow> bool" where
  "update_schema_ok p \<longleftrightarrow>
     (case aiu_name p of None \<Rightarrow> True | Some x \<Rightarrow> 1 \<le> code_points x \<and> code_points x \<le> 120) \<and>
     (case sent_value (aiu_description p) of None \<Rightarrow> True | Some x \<Rightarrow> code_points x \<le> 500) \<and>
     (case sent_value (aiu_model_routing_key p) of None \<Rightarrow> True | Some x \<Rightarrow> code_points x \<le> 120) \<and>
     (case sent_value (aiu_model_key p) of None \<Rightarrow> True | Some x \<Rightarrow> code_points x \<le> 120)"

definition normalize_department ::
  "update_checks \<Rightarrow> agent_visibility \<Rightarrow> string option \<Rightarrow> refusal + string option" where
  "normalize_department chk v d =
     (if v \<noteq> Vis_Department then Inr None
      else case d of
        None \<Rightarrow> Inl (422, ''department_id is required for department-visible Agent instances.'')
      | Some x \<Rightarrow> (case uc_department chk x of Some e \<Rightarrow> Inl e | None \<Rightarrow> Inr (Some x)))"

definition server_update ::
  "update_checks \<Rightarrow> string \<Rightarrow> agent_instance_update \<Rightarrow> agent_instance \<Rightarrow> refusal + agent_instance" where
  "server_update chk now p cur =
     (let vis = coalesce (aiu_visibility p) (ai_visibility cur);
          st = coalesce (aiu_status p) (ai_status cur);
          keep = (\<lambda>new old. or_else (sent_value new) old)
      in if \<not> update_schema_ok p then Inl (422, [])
      else case or_else (uc_access chk (ai_id cur)) (if st = Inst_Active then uc_run chk (ai_module_key cur) else None) of
        Some e \<Rightarrow> Inl e
      | None \<Rightarrow>
      (case normalize_department chk vis (keep (aiu_department_id p) (ai_department_id cur)) of
        Inl e \<Rightarrow> Inl e
      | Inr d \<Rightarrow>
      (case Option.bind (sent_value (aiu_owner_user_id p)) (uc_owner chk) of
        Some e \<Rightarrow> Inl e
      | None \<Rightarrow>
      (case Option.bind (sent_value (aiu_config p)) (uc_bases chk) of
        Some e \<Rightarrow> Inl e
      | None \<Rightarrow>
          Inr (cur\<lparr>ai_name := coalesce (aiu_name p) (ai_name cur),
                   ai_description := keep (aiu_description p) (ai_description cur),
                   ai_status := st, ai_visibility := vis, ai_department_id := d,
                   ai_owner_user_id := keep (aiu_owner_user_id p) (ai_owner_user_id cur),
                   ai_model_routing_key := keep (aiu_model_routing_key p) (ai_model_routing_key cur),
                   ai_model_key := keep (aiu_model_key p) (ai_model_key cur),
                   ai_system_prompt := keep (aiu_system_prompt p) (ai_system_prompt cur),
                   ai_config := coalesce (sent_value (aiu_config p)) (ai_config cur),
                   ai_metadata := coalesce (sent_value (aiu_metadata p)) (ai_metadata cur),
                   ai_updated_at := now\<rparr>)))))"

text \<open>What the server keeps of a text that was cleared in the form.\<close>

definition kept_text :: "string \<Rightarrow> string option \<Rightarrow> string" where
  "kept_text x old = (if trim x = [] then coalesce old [] else trim x)"

lemma kept_text_sent: "coalesce (or_else (sent_value (Some (trimmed_or_null x))) old) [] = kept_text x old"
  by (simp add: kept_text_def trimmed_or_null_def sent_value_def or_else_def coalesce_def)

lemma saved_bases:
  assumes "base_ids_ok ids"
  shows "config_base_ids (saved_config c ids) =
    (let old = given_base (get_prop ''knowledge_base_id'' (JObj c)) in old @ filter (\<lambda>b. \<not> List.member old b) ids)"
  using assms by (simp add: config_base_ids_def saved_config_props fold_add_bases base_ids_ok_def Let_def del: get_prop.simps)

definition drawer_accepted :: "string \<Rightarrow> agent_form \<Rightarrow> string option \<Rightarrow> agent_instance \<Rightarrow> agent_instance" where
  "drawer_accepted now f d i =
     i\<lparr>ai_name := trim (af_name f),
       ai_description := or_else (sent_value (Some (trimmed_or_null (af_description f)))) (ai_description i),
       ai_visibility := af_visibility f, ai_department_id := d,
       ai_model_routing_key := or_else (sent_value (Some (trimmed_or_null (af_routing_key f)))) (ai_model_routing_key i),
       ai_model_key := or_else (sent_value (Some (trimmed_or_null (af_model_key f)))) (ai_model_key i),
       ai_config := saved_config (ai_config i) (af_bases f), ai_updated_at := now\<rparr>"

lemma server_drawer_update:
  "server_update chk now (drawer_update i f) i =
     (if \<not> update_schema_ok (drawer_update i f) then Inl (422, [])
      else case or_else (uc_access chk (ai_id i)) (if ai_status i = Inst_Active then uc_run chk (ai_module_key i) else None) of
        Some e \<Rightarrow> Inl e
      | None \<Rightarrow>
      (case normalize_department chk (af_visibility f) (ai_department_id i) of
        Inl e \<Rightarrow> Inl e
      | Inr d \<Rightarrow>
      (case uc_bases chk (saved_config (ai_config i) (af_bases f)) of
        Some e \<Rightarrow> Inl e
      | None \<Rightarrow> Inr (drawer_accepted now f d i))))"
proof -
  have [simp]: "sent_value None = None" "sent_value (Some (Some c)) = Some c" "or_else None x = x"
    "coalesce None y = y" "coalesce (Some z) y = z" for c :: props and x :: "'a option" and y z :: 'b
    by (simp_all add: sent_value_def or_else_def coalesce_def)
  show ?thesis
    unfolding server_update_def Let_def drawer_accepted_def
    by (simp add: drawer_update_def sent_value_def or_else_def coalesce_def split: option.split sum.split)
qed

lemma form_of_accepted:
  "form_from_instance (drawer_accepted now f d i) =
     f\<lparr>af_name := trim (af_name f), af_slug := ai_slug i, af_agent_key := ai_agent_key i,
       af_description := kept_text (af_description f) (ai_description i),
       af_routing_key := kept_text (af_routing_key f) (ai_model_routing_key i),
       af_model_key := kept_text (af_model_key f) (ai_model_key i),
       af_bases := config_base_ids (saved_config (ai_config i) (af_bases f))\<rparr>"
  by (simp add: form_from_instance_def drawer_accepted_def kept_text_sent)

text \<open>A drawer that makes an agent visible to departments names none: the server refuses it when the agent has none.\<close>

lemma department_never_sent:
  "af_visibility f = Vis_Department \<Longrightarrow> ai_department_id i = None \<Longrightarrow>
   \<exists>e. server_update chk now (drawer_update i f) i = Inl e"
  by (simp add: server_drawer_update normalize_department_def split: option.split)

text \<open>
  C36: Saving the drawer of an agent and reading the saved agent back.  The store of the prototype
  gives the form with its texts trimmed, and its knowledge bases after the one the configuration names by
  itself, in the older property \<open>knowledge_base_id\<close>, which every save keeps.  An update the server accepts
  gives the same, except that a description, a routing key or a model key that was cleared keeps its old
  value; it refuses an update only for the lengths of its schema, the access to the agent, the license of an active
  agent, its department or its knowledge bases.
\<close>

theorem drawer_save_reads_back:
  assumes "base_ids_ok (af_bases f)"
  shows "let old = given_base (get_prop ''knowledge_base_id'' (JObj (ai_config i)));
       saved = f\<lparr>af_name := trim (af_name f), af_slug := ai_slug i, af_agent_key := ai_agent_key i,
         af_description := trim (af_description f), af_routing_key := trim (af_routing_key f),
         af_model_key := trim (af_model_key f),
         af_bases := old @ filter (\<lambda>b. \<not> List.member old b) (af_bases f)\<rparr>
     in form_from_instance (updated_instance now (drawer_update i f) i) = saved \<and>
        (case server_update chk now (drawer_update i f) i of
           Inr j \<Rightarrow> form_from_instance j =
             saved\<lparr>af_description := kept_text (af_description f) (ai_description i),
                   af_routing_key := kept_text (af_routing_key f) (ai_model_routing_key i),
                   af_model_key := kept_text (af_model_key f) (ai_model_key i)\<rparr>
         | Inl _ \<Rightarrow>
             \<not> update_schema_ok (drawer_update i f) \<or> uc_access chk (ai_id i) \<noteq> None \<or>
             ai_status i = Inst_Active \<and> uc_run chk (ai_module_key i) \<noteq> None \<or>
             af_visibility f = Vis_Department \<and>
               Option.bind (ai_department_id i) (\<lambda>d. if uc_department chk d = None then Some d else None) = None \<or>
             uc_bases chk (saved_config (ai_config i) (af_bases f)) \<noteq> None)"
proof -
  have trimmed: "coalesce (trimmed_or_null x) [] = trim x" for x by (simp add: trimmed_or_null_def)
  have proto: "form_from_instance (updated_instance now (drawer_update i f) i) =
      f\<lparr>af_name := trim (af_name f), af_slug := ai_slug i, af_agent_key := ai_agent_key i,
        af_description := trim (af_description f), af_routing_key := trim (af_routing_key f),
        af_model_key := trim (af_model_key f), af_bases := config_base_ids (saved_config (ai_config i) (af_bases f))\<rparr>"
    by (simp add: form_from_instance_def updated_instance_def drawer_update_def given_def trimmed)
  show ?thesis
    unfolding proto Let_def saved_bases [OF assms, unfolded Let_def] server_drawer_update
    by (auto simp: normalize_department_def form_of_accepted saved_bases [OF assms, unfolded Let_def] or_else_def
        split: option.splits)
qed

definition lenient_checks :: update_checks where
  "lenient_checks =
     \<lparr>uc_access = (\<lambda>_. None), uc_run = (\<lambda>_. None), uc_department = (\<lambda>_. None), uc_owner = (\<lambda>_. None),
      uc_bases = (\<lambda>_. None)\<rparr>"

theorem drawer_save_reads_back_witness:
  "let i = (proto_agent_instances ! 0)\<lparr>ai_config := [(''knowledge_base_id'', JStr ''kb-1'')], ai_model_key := Some ''m''\<rparr>;
       f = (form_from_instance i)\<lparr>af_bases := [''kb-2''], af_model_key := []\<rparr>;
       now = ''2026-01-02T08:00:00.000Z''; saved = updated_instance now (drawer_update i f) i
   in af_bases (form_from_instance saved) = [''kb-1'', ''kb-2''] \<and> af_model_key (form_from_instance saved) = [] \<and>
      (case server_update lenient_checks now (drawer_update i f) i of
         Inr j \<Rightarrow> af_bases (form_from_instance j) = [''kb-1'', ''kb-2''] \<and> af_model_key (form_from_instance j) = ''m''
       | Inl _ \<Rightarrow> False)"
proof -
  let ?i = "(proto_agent_instances ! 0)\<lparr>ai_config := [(''knowledge_base_id'', JStr ''kb-1'')], ai_model_key := Some ''m''\<rparr>"
  let ?f = "(form_from_instance ?i)\<lparr>af_bases := [''kb-2''], af_model_key := []\<rparr>"
  have trims: "trim ''kb-1'' = ''kb-1''" "trim ''kb-2'' = ''kb-2''" "trim [] = []" by code_simp+
  have ok: "base_ids_ok (af_bases ?f)" by (simp add: base_ids_ok_def trims)
  have accepted: "update_schema_ok (drawer_update ?i ?f)" "ai_department_id ?i = Some proto_department" by code_simp+
  show ?thesis
    using drawer_save_reads_back [OF ok, of ?i "''2026-01-02T08:00:00.000Z''" lenient_checks]
    using accepted
    by (auto simp: given_base_def trims lenient_checks_def kept_text_def Let_def split: sum.splits)
qed

text \<open>A base the form can show is one the configuration names, so a form that was only loaded and toggled is fine.\<close>

lemma loaded_form_ok: "base_ids_ok (af_bases (form_from_instance i))"
  by (simp add: form_from_instance_def config_base_ids_ok)

lemma toggled_form_ok: "base_ids_ok ids \<Longrightarrow> trim b = b \<Longrightarrow> b \<noteq> [] \<Longrightarrow> base_ids_ok (toggle_base b ids)"
  by (auto simp: base_ids_ok_def toggle_base_def list_all_iff)

section \<open>Requests\<close>

definition request_ok :: "agents_env \<Rightarrow> agent_request \<Rightarrow> bool" where
  "request_ok env q \<longleftrightarrow>
     can_write_agents env \<and>
     (case q of
        Sent_Create p \<Rightarrow> aic_name p \<noteq> [] \<and> trim (aic_name p) = aic_name p \<and> aic_agent_key p \<noteq> []
      | Sent_Update i p \<Rightarrow>
          (case aiu_status p of
             Some st \<Rightarrow> st \<noteq> Inst_Draft \<and> ai_status i \<noteq> st \<and> p = status_update st
           | None \<Rightarrow>
               (\<exists>f. p = drawer_update i f \<and> 2 \<le> utf16_length (trim (af_name f)))))"

lemma page_frame [simp]:
  "ag_sent (reset_drawer env s) = ag_sent s" "ag_sent (inspect env k s) = ag_sent s"
  "ag_sent (refetch_instances env s) = ag_sent s" "ag_sent (refetch_catalog env s) = ag_sent s"
  "ag_sent (drawer_field x s) = ag_sent s" "ag_sent (focus_create env s) = ag_sent s"
  "ag_sent (open_chat_with i s) = ag_sent s" "ag_sent (open_builder_with i s) = ag_sent s"
  by (simp_all add: reset_drawer_def inspect_def refetch_instances_def refetch_catalog_def drawer_field_def
      focus_create_def flash_agents_def open_chat_with_def open_builder_with_def open_with_instance_def split: option.split)

lemma sent_run_update: "run_update env i p r s = (x, s') \<Longrightarrow> ag_sent s' = ag_sent s @ [Sent_Update i p]"
  by (auto simp: run_update_def Let_def split: prod.splits call_outcome.splits if_splits)

lemma sent_status:
  "ag_sent (set_instance_status env i st r s) =
     (if can_write_agents env then ag_sent s @ [Sent_Update i (status_update st)] else ag_sent s)"
  by (auto simp: set_instance_status_def Let_def dest: sent_run_update split: prod.split)

lemma sent_save:
  "ag_sent (save_instance env i p r s) =
     (if can_write_agents env then ag_sent s @ [Sent_Update i p] else ag_sent s)"
  by (auto simp: save_instance_def Let_def dest: sent_run_update split: prod.split option.split)

lemma sent_create:
  "ag_sent (create_instance env r s) =
     (if can_write_agents env \<and> trim (af_name (ag_form s)) \<noteq> [] \<and> af_agent_key (ag_form s) \<noteq> []
      then ag_sent s @ [Sent_Create (create_payload (ag_form s))] else ag_sent s)"
  by (auto simp: create_instance_def Let_def split: prod.split)

lemma status_request_ok: "status_offered env st i \<Longrightarrow> request_ok env (Sent_Update i (status_update st))"
  by (simp add: status_offered_def request_ok_def status_update_def)

lemma drawer_named: "drawer_name_error f t = None \<Longrightarrow> 2 \<le> utf16_length (trim (af_name f))"
  by (auto simp: drawer_name_error_def split: if_splits)

lemma drawer_request_ok:
  "can_write_agents env \<Longrightarrow> drawer_name_error f t = None \<Longrightarrow> request_ok env (Sent_Update i (drawer_update i f))"
  using drawer_named [of f t] by (auto simp: request_ok_def drawer_update_def)

lemma create_request_ok:
  "can_write_agents env \<Longrightarrow> trim (af_name f) \<noteq> [] \<Longrightarrow> af_agent_key f \<noteq> [] \<Longrightarrow>
   request_ok env (Sent_Create (create_payload f))"
  by (simp add: request_ok_def create_payload_def)

definition requests_ok :: "agents_env \<Rightarrow> agents_page \<Rightarrow> bool" where
  "requests_ok env s \<longleftrightarrow> list_all (request_ok env) (ag_sent s)"

lemma requests_ok_save: "requests_ok env s \<Longrightarrow> can_write_agents env \<Longrightarrow> requests_ok env (save_drawer env r s)"
  by (auto simp: save_drawer_def requests_ok_def Let_def sent_save drawer_request_ok split: option.split)

lemma requests_ok_step:
  assumes "requests_ok env s"
  shows "requests_ok env (agents_step env e s)"
proof -
  have "requests_ok env (agents_handle env e s)"
    using assms requests_ok_save [OF assms]
    by (cases e) (auto simp: agents_handle_def Let_def requests_ok_def sent_status sent_create status_request_ok
        create_request_ok split: option.split nat.split)
  then show ?thesis by (simp add: agents_step_def requests_ok_def)
qed

interpretation agents: event_system "\<lambda>s. s = agents_page_init env b st" "agents_step env" "requests_ok env" for env b st
  by unfold_locales (simp_all add: requests_ok_step, simp add: requests_ok_def agents_page_init_def Let_def split: prod.split)

text \<open>
  Whatever is pressed and answered, in any order, the page asks the server only for a user who may
  write agents: to create an agent with a trimmed name that is not empty, of some kind; to put an agent
  into another of the states active and disabled, changing nothing else; or to save the form of the
  drawer, with a name of two characters or more.
\<close>

theorem agent_requests_allowed:
  "list_all (request_ok env) (ag_sent (fold (agents_step env) es (agents_page_init env b st)))"
  using agents.inv_reachable [of "agents_page_init env b st" env b st es] by (simp add: requests_ok_def)

text \<open>A save keeps every other part of the configuration.\<close>

lemma save_keeps_config:
  "k \<noteq> ''knowledge_base_ids'' \<Longrightarrow> k \<noteq> ''knowledge_top_k'' \<Longrightarrow>
   get_prop k (JObj (the (the (aiu_config (drawer_update i f))))) = get_prop k (JObj (ai_config i))"
  by (simp add: drawer_update_def saved_config_props del: get_prop.simps)

section \<open>Edits that are lost\<close>

text \<open>
  Every answer to a load of the instances discards what was typed into the open drawer; enabling or
  disabling the agent, there or in its row, starts such a load.
\<close>

lemma answer_discards_edits:
  assumes "\<not> in_prototype (ge_env env)" "in_waiting n (ag_instances s)" "retried a = Inr \<lparr>ail_agents = is\<rparr>"
    and "ag_inspected s = Some k" "List.find (\<lambda>i. ai_id i = k) is = Some i"
  shows "ag_drawer (agents_step env (Instances_Arrive n a) s) = form_from_instance i"
  using assms
  by (simp add: agents_step_def agents_handle_def Let_def reset_drawer_def inspected_instance_def instances_of_def
      agent_instances_shown_def store_shown_def agent_instances_answered_def store_answered_def settle_def loaded_def
      plain_answer_def)

lemma status_reloads:
  assumes "\<not> in_prototype (ge_env env)" "\<not> call_proto (ge_call env)" "inspected_instance env s = Some i"
    "status_offered env st i"
  shows "in_waiting (Suc (latest (ag_instances s))) (ag_instances (agents_step env (Press_Drawer_Status st (Inr u)) s))"
  using assms
  by (simp add: agents_step_def agents_handle_def Let_def set_instance_status_def status_offered_def run_update_def
      update_agent_action_def action_simps refetch_instances_def load_agent_instances_def store_load_def ask_def in_waiting_def)

text \<open>
  The name and the description an agent brings into the form stay when another agent is chosen.
\<close>

lemma changed_agent_keeps_name:
  "default_instance_name (agents_of_catalog env s) k (ge_locale env) \<noteq> [] \<Longrightarrow>
   af_name (with_agent env s k' (with_agent env s k (f\<lparr>af_name := []\<rparr>))) =
     default_instance_name (agents_of_catalog env s) k (ge_locale env)"
  by (simp add: with_agent_def text_or_def)

text \<open>After a creation the form keeps its agent, and gets neither its name nor its description.\<close>

lemma next_form_unnamed:
  assumes "can_write_agents env" "trim (af_name (ag_form s)) \<noteq> []" "af_agent_key (ag_form s) \<noteq> []"
    "\<not> call_proto (ge_call env)" "ag_request s = None"
  shows "let f = ag_form (agents_step env (Press_Create_Agent (Inr u)) s) in
     af_name f = [] \<and> af_agent_key f = af_agent_key (ag_form s)"
  using assms
  by (simp add: agents_step_def agents_handle_def create_instance_def Let_def create_agent_action_def answered_by_def
      action_simps refetch_instances_def agents_commit_def take_tab_request_def leave_readiness_def fill_form_def
      select_first_agent_def empty_agent_form_def)

end
