(* ===== verification/Builder_Data.thy ===== *)
theory Builder_Data
  imports Agent_Hooks Model_Form Locale_Store
begin

text \<open>
  The agent builder's data: the requests of \<open>lib/api/builder.ts\<close> and \<open>lib/api/mcp.ts\<close>, the form and its
  conversion to and from a configuration, the hints (\<open>pages/builder/builderUtils.ts\<close>), and the hooks of
  \<open>hooks/admin/builder.ts\<close>.  Numbers are typed as text; \<open>parse_float\<close> and \<open>parse_int\<close> read the longest
  prefix that is a number, as \<open>parseFloat\<close> and \<open>parseInt(_, 10)\<close> do.
\<close>

section \<open>Reading numbers\<close>

definition sign_split :: "string \<Rightarrow> bool \<times> string" where
  "sign_split s = (case s of CHR ''-'' # r \<Rightarrow> (True, r) | CHR ''+'' # r \<Rightarrow> (False, r) | _ \<Rightarrow> (False, s))"

definition exponent_prefix :: "string \<Rightarrow> int" where
  "exponent_prefix s =
     (case s of
        [] \<Rightarrow> 0
      | c # r \<Rightarrow>
          if c = CHR ''e'' \<or> c = CHR ''E'' then
            (let (neg, ds) = sign_split r; e = digits_val 0 (takeWhile is_digit ds) in if neg then - e else e)
          else 0)"

definition parse_float :: "string \<Rightarrow> jsnum" where
  "parse_float str =
     (let (neg, s) = sign_split (trim_start str);
          ip = takeWhile is_digit s; r = dropWhile is_digit s;
          (fp, r') = (case r of CHR ''.'' # q \<Rightarrow> (takeWhile is_digit q, dropWhile is_digit q) | _ \<Rightarrow> ([], r));
          v = (if prefix ''Infinity'' s then PInf
               else if ip = [] \<and> fp = [] then NaN
               else round_double (of_int (digits_val 0 (ip @ fp)) * pow_int 10 (exponent_prefix r' - int (length fp))))
      in if neg then num_neg v else v)"

definition parse_int :: "string \<Rightarrow> jsnum" where
  "parse_int str =
     (let (neg, s) = sign_split (trim_start str); ds = takeWhile is_digit s;
          v = (if ds = [] then NaN else round_double (of_int (digits_val 0 ds)))
      in if neg then num_neg v else v)"

section \<open>Requests and answers\<close>

record builder_config =
  bc_name :: string
  bc_description :: "string option"
  bc_avatar_url :: "string option"
  bc_deployment_id :: "string option"
  bc_fallback_ids :: "string list option"
  bc_model_key :: "string option"
  bc_routing_key :: "string option"
  bc_temperature :: "jsnum option"
  bc_max_tokens :: "jsnum option"
  bc_max_cost :: "jsnum option"
  bc_system_prompt :: string
  bc_response_style :: string
  bc_language :: string
  bc_base_ids :: "string list option"
  bc_mcp_keys :: "string list option"
  bc_confidence :: "jsnum option"
  bc_escalation :: "string option"
  bc_greeting :: "string option"
  bc_fallback :: "string option"

datatype issue_severity = Issue_Error | Issue_Warning

record builder_issue =
  bi_severity :: issue_severity
  bi_code :: string
  bi_message :: string
  bi_field :: "string option"

record builder_report =
  br_ok :: bool
  br_issues :: "builder_issue list"

record builder_rendered =
  bn_system_prompt :: string
  bn_user_prompt_template :: string
  bn_response_style :: string
  bn_language :: string
  bn_greeting :: "string option"
  bn_fallback :: string
  bn_escalation :: "string option"
  bn_confidence :: "jsnum option"
  bn_base_ids :: "string list"
  bn_mcp_keys :: "string list"
  bn_metadata :: props

record builder_preview =
  bv_ok :: bool
  bv_issues :: "builder_issue list"
  bv_rendered :: builder_rendered

record mcp_server =
  mcp_id :: string
  mcp_tenant_id :: string
  mcp_name :: string
  mcp_server_key :: string
  mcp_transport :: string
  mcp_endpoint_url :: string
  mcp_auth_configured :: bool
  mcp_status :: string
  mcp_timeout_seconds :: jsnum
  mcp_metadata :: props
  mcp_created_by :: "string option"
  mcp_created_at :: string

record mcp_server_list =
  msl_servers :: "mcp_server list"

section \<open>The form\<close>

record builder_form =
  bf_name :: string
  bf_description :: string
  bf_avatar_url :: string
  bf_deployment_id :: string
  bf_fallback_ids :: "string list"
  bf_model_key :: string
  bf_routing_key :: string
  bf_temperature :: string
  bf_max_tokens :: string
  bf_max_cost :: string
  bf_system_prompt :: string
  bf_response_style :: string
  bf_language :: string
  bf_base_ids :: "string list"
  bf_mcp_keys :: "string list"
  bf_confidence :: string
  bf_escalation :: string
  bf_greeting :: string
  bf_fallback :: string

definition empty_builder_form :: builder_form where
  "empty_builder_form =
     \<lparr>bf_name = [], bf_description = [], bf_avatar_url = [], bf_deployment_id = [], bf_fallback_ids = [],
      bf_model_key = [], bf_routing_key = [], bf_temperature = ''0.7'', bf_max_tokens = ''1024'', bf_max_cost = [],
      bf_system_prompt = [], bf_response_style = ''formal'', bf_language = ''auto'', bf_base_ids = [],
      bf_mcp_keys = [], bf_confidence = ''0.5'', bf_escalation = [], bf_greeting = [], bf_fallback = []\<rparr>"

definition given_text :: "string \<Rightarrow> string option" where \<comment> \<open>\<open>if (s.trim()) config.k = s.trim()\<close>\<close>
  "given_text x = (if trim x = [] then None else Some (trim x))"

definition given_number :: "jsnum \<Rightarrow> jsnum option" where \<comment> \<open>\<open>if (!Number.isNaN(n)) config.k = n\<close>\<close>
  "given_number n = (if n = NaN then None else Some n)"

definition given_list :: "'a list \<Rightarrow> 'a list \<Rightarrow> 'a list option" where \<comment> \<open>\<open>if (xs.length) config.k = ys\<close>\<close>
  "given_list xs ys = (if xs = [] then None else Some ys)"

definition form_to_config :: "builder_form \<Rightarrow> builder_config" where
  "form_to_config f =
     \<lparr>bc_name = trim (bf_name f), bc_description = given_text (bf_description f),
      bc_avatar_url = given_text (bf_avatar_url f), bc_deployment_id = given_text (bf_deployment_id f),
      bc_fallback_ids = given_list (bf_fallback_ids f) (filter (\<lambda>i. trim i \<noteq> []) (bf_fallback_ids f)),
      bc_model_key = given_text (bf_model_key f), bc_routing_key = given_text (bf_routing_key f),
      bc_temperature = given_number (parse_float (bf_temperature f)),
      bc_max_tokens = given_number (parse_int (bf_max_tokens f)),
      bc_max_cost = given_number (parse_float (bf_max_cost f)),
      bc_system_prompt = bf_system_prompt f, bc_response_style = bf_response_style f, bc_language = bf_language f,
      bc_base_ids = given_list (bf_base_ids f) (bf_base_ids f), bc_mcp_keys = given_list (bf_mcp_keys f) (bf_mcp_keys f),
      bc_confidence = given_number (parse_float (bf_confidence f)),
      bc_escalation = (if parse_float (bf_confidence f) = NaN then None else given_text (bf_escalation f)),
      bc_greeting = given_text (bf_greeting f), bc_fallback = given_text (bf_fallback f)\<rparr>"

definition text_in :: "string \<Rightarrow> string \<Rightarrow> jsval \<Rightarrow> string" where \<comment> \<open>\<open>config.k ?? d\<close>\<close>
  "text_in k d v = js_string (js_coalesce (get_prop k v) (JStr d))"

definition number_in :: "string \<Rightarrow> jsval \<Rightarrow> string" where \<comment> \<open>\<open>config.k != null ? String(config.k) : ""\<close>\<close>
  "number_in k v = (if is_nullish (get_prop k v) then [] else js_string (get_prop k v))"

definition texts_in :: "string \<Rightarrow> jsval \<Rightarrow> string list" where \<comment> \<open>\<open>config.k ?? []\<close>\<close>
  "texts_in k v = (case get_prop k v of JArr vs \<Rightarrow> map js_string vs | _ \<Rightarrow> [])"

definition config_to_form :: "jsval \<Rightarrow> builder_form" where
  \<comment> \<open>of the configuration kept with an agent, which is not checked to be one\<close>
  "config_to_form v =
     \<lparr>bf_name = text_in ''name'' [] v, bf_description = text_in ''description'' [] v,
      bf_avatar_url = text_in ''avatar_url'' [] v, bf_deployment_id = text_in ''deployment_id'' [] v,
      bf_fallback_ids = texts_in ''fallback_deployment_ids'' v, bf_model_key = text_in ''model_key'' [] v,
      bf_routing_key = text_in ''routing_key'' [] v, bf_temperature = number_in ''temperature'' v,
      bf_max_tokens = number_in ''max_tokens'' v, bf_max_cost = number_in ''max_cost_per_request'' v,
      bf_system_prompt = text_in ''system_prompt'' [] v, bf_response_style = text_in ''response_style'' ''formal'' v,
      bf_language = text_in ''language'' ''auto'' v, bf_base_ids = texts_in ''knowledge_base_ids'' v,
      bf_mcp_keys = texts_in ''mcp_server_keys'' v, bf_confidence = number_in ''confidence_threshold'' v,
      bf_escalation = text_in ''escalation_message'' [] v, bf_greeting = text_in ''greeting_message'' [] v,
      bf_fallback = text_in ''fallback_message'' [] v\<rparr>"

definition prop_of :: "string \<Rightarrow> ('a \<Rightarrow> jsval) \<Rightarrow> 'a option \<Rightarrow> props" where
  "prop_of k f x = (case x of None \<Rightarrow> [] | Some y \<Rightarrow> [(k, f y)])"

definition config_value :: "builder_config \<Rightarrow> jsval" where \<comment> \<open>the configuration as an object\<close>
  "config_value c =
     JObj ([(''name'', JStr (bc_name c)), (''system_prompt'', JStr (bc_system_prompt c)),
            (''response_style'', JStr (bc_response_style c)), (''language'', JStr (bc_language c))] @
       prop_of ''description'' JStr (bc_description c) @ prop_of ''avatar_url'' JStr (bc_avatar_url c) @
       prop_of ''deployment_id'' JStr (bc_deployment_id c) @
       prop_of ''fallback_deployment_ids'' (\<lambda>x. JArr (map JStr x)) (bc_fallback_ids c) @
       prop_of ''model_key'' JStr (bc_model_key c) @ prop_of ''routing_key'' JStr (bc_routing_key c) @
       prop_of ''temperature'' JNum (bc_temperature c) @ prop_of ''max_tokens'' JNum (bc_max_tokens c) @
       prop_of ''max_cost_per_request'' JNum (bc_max_cost c) @
       prop_of ''knowledge_base_ids'' (\<lambda>x. JArr (map JStr x)) (bc_base_ids c) @
       prop_of ''mcp_server_keys'' (\<lambda>x. JArr (map JStr x)) (bc_mcp_keys c) @
       prop_of ''confidence_threshold'' JNum (bc_confidence c) @ prop_of ''escalation_message'' JStr (bc_escalation c) @
       prop_of ''greeting_message'' JStr (bc_greeting c) @ prop_of ''fallback_message'' JStr (bc_fallback c))"

section \<open>Hints\<close>

definition issue_severity_label :: "issue_severity \<Rightarrow> locale_id \<Rightarrow> string" where
  "issue_severity_label v l =
     (if l = Zh_CN then (if v = Issue_Error then utf8 [0x9519, 0x8BEF] else utf8 [0x8B66, 0x544A])
      else (if v = Issue_Error then ''Error'' else ''Warning''))"

definition has_routing_target :: "builder_form \<Rightarrow> bool" where
  "has_routing_target f \<longleftrightarrow>
     trim (bf_deployment_id f) \<noteq> [] \<or> trim (bf_model_key f) \<noteq> [] \<or> trim (bf_routing_key f) \<noteq> []"

definition outside :: "rat \<Rightarrow> rat \<Rightarrow> jsnum \<Rightarrow> bool" where \<comment> \<open>\<open>!isNaN(x) && (x < lo || x > hi)\<close>\<close>
  "outside lo hi x \<longleftrightarrow> x \<noteq> NaN \<and> (num_less x (Fin lo) \<or> num_less (Fin hi) x)"

definition runtime_hints :: "builder_form \<Rightarrow> locale_id \<Rightarrow> (string \<times> string) list" where
  "runtime_hints f l =
     (let say = (\<lambda>zh en. if l = Zh_CN then zh else en); confidence = parse_float (bf_confidence f) in
      (if has_routing_target f then []
       else [(''deployment_id'',
              say (utf8 [0x81F3, 0x5C11, 0x9700, 0x8981, 0x586B, 0x5199] @ '' deployment_id'' @ utf8 [0x3001] @ ''model_key '' @ utf8 [0x6216] @ '' routing_key '' @ utf8 [0x4E2D, 0x7684, 0x4E00, 0x9879])
                ''At least one of deployment_id, model_key, or routing_key is required'')]) @
      (if confidence \<noteq> NaN \<and> trim (bf_escalation f) = []
       then [(''escalation_message'',
              say (utf8 [0x8BBE, 0x7F6E, 0x4E86] @ '' confidence_threshold '' @ utf8 [0x65F6, 0x5FC5, 0x987B, 0x586B, 0x5199, 0x8F6C, 0x4EBA, 0x5DE5, 0x6D88, 0x606F])
                ''escalation_message is required when confidence_threshold is set'')] else []) @
      (if outside 0 1 confidence
       then [(''confidence_threshold'', say (utf8 [0x53D6, 0x503C, 0x8303, 0x56F4, 0x4E3A] @ '' 0'' @ utf8 [0x2013] @ ''1'') ''Must be between 0 and 1'')] else []) @
      (if outside 0 2 (parse_float (bf_temperature f))
       then [(''temperature'', say (utf8 [0x53D6, 0x503C, 0x8303, 0x56F4, 0x4E3A] @ '' 0'' @ utf8 [0x2013] @ ''2'') ''Must be between 0 and 2'')] else []) @
      (if outside 1 8192 (parse_int (bf_max_tokens f))
       then [(''max_tokens'', say (utf8 [0x53D6, 0x503C, 0x8303, 0x56F4, 0x4E3A] @ '' 1'' @ utf8 [0x2013] @ ''8192'') ''Must be between 1 and 8192'')] else []))"

section \<open>The schema of the server\<close>

text \<open>
  \<open>AgentBuilderConfig\<close> of \<open>agents/builder/config.py\<close>, which a saved or validated configuration has to pass: a
  field that is absent and one that is null are the same, a number that is not finite is sent as null,
  and lengths are counted in code points.  Which texts are identifiers is a parameter.
\<close>

definition sent_number :: "jsnum option \<Rightarrow> rat option" where
  "sent_number x = (case x of Some (Fin q) \<Rightarrow> Some q | _ \<Rightarrow> None)"

definition at_most :: "nat \<Rightarrow> string option \<Rightarrow> bool" where
  "at_most n x \<longleftrightarrow> (case x of None \<Rightarrow> True | Some y \<Rightarrow> code_points y \<le> n)"

definition in_limits :: "rat \<Rightarrow> rat option \<Rightarrow> rat option \<Rightarrow> bool" where
  "in_limits lo hi x \<longleftrightarrow>
     (case x of None \<Rightarrow> True | Some q \<Rightarrow> lo \<le> q \<and> (case hi of None \<Rightarrow> True | Some h \<Rightarrow> q \<le> h))"

definition whole :: "rat option \<Rightarrow> bool" where
  "whole x \<longleftrightarrow> (case x of None \<Rightarrow> True | Some q \<Rightarrow> of_int \<lfloor>q\<rfloor> = q)"

definition config_accepted :: "(string \<Rightarrow> bool) \<Rightarrow> builder_config \<Rightarrow> bool" where
  "config_accepted is_uuid c \<longleftrightarrow>
     bc_name c \<noteq> [] \<and> code_points (bc_name c) \<le> 120 \<and>
     at_most 500 (bc_description c) \<and> at_most 500 (bc_avatar_url c) \<and>
     (case bc_deployment_id c of None \<Rightarrow> True | Some d \<Rightarrow> is_uuid d) \<and>
     list_all is_uuid (coalesce (bc_fallback_ids c) []) \<and>
     at_most 120 (bc_model_key c) \<and> at_most 120 (bc_routing_key c) \<and>
     in_limits 0 (Some 2) (sent_number (bc_temperature c)) \<and>
     in_limits 1 (Some 8192) (sent_number (bc_max_tokens c)) \<and> whole (sent_number (bc_max_tokens c)) \<and>
     in_limits 0 None (sent_number (bc_max_cost c)) \<and>
     bc_system_prompt c \<noteq> [] \<and> code_points (bc_system_prompt c) \<le> 8000 \<and>
     List.member [''formal'', ''friendly'', ''concise''] (bc_response_style c) \<and>
     List.member [''zh'', ''en'', ''auto''] (bc_language c) \<and>
     list_all is_uuid (coalesce (bc_base_ids c) []) \<and>
     in_limits 0 (Some 1) (sent_number (bc_confidence c)) \<and>
     at_most 1000 (bc_escalation c) \<and> at_most 2000 (bc_greeting c) \<and> at_most 2000 (bc_fallback c) \<and>
     (bc_deployment_id c \<noteq> None \<or> js_truthy_str (bc_model_key c) \<or> js_truthy_str (bc_routing_key c)) \<and>
     (sent_number (bc_confidence c) \<noteq> None \<longrightarrow> js_truthy_str (bc_escalation c))"

lemma round_whole: "whole (sent_number (Some (round_double (of_int n))))"
proof -
  have pos: "whole (sent_number (Some (round_ratio p 1)))" "whole (sent_number (Some (num_neg (round_ratio p 1))))" for p
    by (auto simp: round_ratio_def sent_number_def whole_def Let_def simp flip: of_int_minus)
  have "quotient_of (of_int n) = (n, 1)" by (simp add: quotient_of_int)
  then show ?thesis using pos by (simp add: round_double_def whole_def sent_number_def)
qed

lemma parse_int_whole: "whole (sent_number (given_number (parse_int x)))"
proof -
  have neg: "num_neg (round_double (of_int n)) = round_double (of_int (- n))" for n
    by (cases "n = 0"; cases "0 < n"; cases "round_ratio n 1"; cases "round_ratio (- n) 1")
      (simp_all add: round_double_def quotient_of_int rat_uminus_code flip: of_int_minus)
  have signed: "whole (sent_number (Some (round_double (- of_int n))))" for n
    using round_whole [of "- n"] by simp
  have none: "whole (sent_number None)" by (simp add: whole_def sent_number_def)
  show ?thesis
    using round_whole signed none
    by (auto simp: parse_int_def given_number_def Let_def neg split: prod.split if_splits)
qed

section \<open>The hooks\<close>

definition load_mcp_servers :: "bool \<Rightarrow> (unit, mcp_server list) resource \<Rightarrow> (unit, mcp_server list) resource" where
  "load_mcp_servers proto = store_load proto []"

definition mcp_servers_answered ::
  "(string \<Rightarrow> string) \<Rightarrow> nat \<Rightarrow> (nat \<Rightarrow> exn + mcp_server_list) \<Rightarrow>
   (unit, mcp_server list) resource \<Rightarrow> (unit, mcp_server list) resource" where
  "mcp_servers_answered t = store_answered t msl_servers"

definition mcp_servers_shown :: "bool \<Rightarrow> (unit, mcp_server list) resource \<Rightarrow> mcp_server list async_state" where
  "mcp_servers_shown proto = store_shown proto []"

record builder_actions =
  ba_validating :: bool
  ba_previewing :: bool
  ba_saving :: bool
  ba_error :: "string option"
  ba_message :: "string option"
  ba_validation :: "builder_report option"
  ba_preview :: "builder_preview option"
  ba_saved :: "agent_instance option"

definition builder_actions_init :: builder_actions where \<comment> \<open>also \<open>reset\<close>\<close>
  "builder_actions_init =
     \<lparr>ba_validating = False, ba_previewing = False, ba_saving = False, ba_error = None, ba_message = None,
      ba_validation = None, ba_preview = None, ba_saved = None\<rparr>"

definition validate_begin :: "builder_actions \<Rightarrow> builder_actions" where
  "validate_begin a = a\<lparr>ba_validating := True, ba_error := None, ba_validation := None\<rparr>"

definition validate_end :: "(string \<Rightarrow> string) \<Rightarrow> exn + builder_report \<Rightarrow> builder_actions \<Rightarrow> builder_actions" where
  "validate_end t r a =
     (case r of
        Inr v \<Rightarrow> a\<lparr>ba_validating := False, ba_validation := Some v\<rparr>
      | Inl e \<Rightarrow> a\<lparr>ba_validating := False, ba_error := Some (error_to_message t e)\<rparr>)"

definition preview_begin :: "builder_actions \<Rightarrow> builder_actions" where
  "preview_begin a = a\<lparr>ba_previewing := True, ba_error := None, ba_preview := None\<rparr>"

definition preview_end :: "(string \<Rightarrow> string) \<Rightarrow> exn + builder_preview \<Rightarrow> builder_actions \<Rightarrow> builder_actions" where
  "preview_end t r a =
     (case r of
        Inr v \<Rightarrow> a\<lparr>ba_previewing := False, ba_preview := Some v\<rparr>
      | Inl e \<Rightarrow> a\<lparr>ba_previewing := False, ba_error := Some (error_to_message t e)\<rparr>)"

definition write_begin :: "builder_actions \<Rightarrow> builder_actions" where
  "write_begin a = a\<lparr>ba_saving := True, ba_error := None, ba_saved := None\<rparr>"

definition write_end ::
  "(string \<Rightarrow> string) \<Rightarrow> string \<Rightarrow> exn + agent_instance \<Rightarrow> builder_actions \<Rightarrow> builder_actions" where
  \<comment> \<open>of \<open>createInstance\<close> and \<open>updateInstance\<close>, with their message\<close>
  "write_end t msg r a =
     (case r of
        Inr i \<Rightarrow> a\<lparr>ba_saving := False, ba_saved := Some i, ba_message := Some (replace_first ''{{name}}'' (ai_name i) (t msg))\<rparr>
      | Inl e \<Rightarrow> a\<lparr>ba_saving := False, ba_error := Some (error_to_message t e)\<rparr>)"

definition clear_validation :: "builder_actions \<Rightarrow> builder_actions" where
  "clear_validation a = a\<lparr>ba_validation := None\<rparr>"

section \<open>The answers of the prototype\<close>

definition proto_builder_report :: builder_report where
  "proto_builder_report = \<lparr>br_ok = True, br_issues = []\<rparr>"

definition proto_builder_preview :: "builder_config \<Rightarrow> builder_preview" where
  "proto_builder_preview c =
     \<lparr>bv_ok = True, bv_issues = [],
      bv_rendered =
        \<lparr>bn_system_prompt = bc_system_prompt c, bn_user_prompt_template = ''{{input}}'',
         bn_response_style = bc_response_style c, bn_language = bc_language c, bn_greeting = bc_greeting c,
         bn_fallback = coalesce (bc_fallback c) ''Sorry, I cannot help with that.'', bn_escalation = bc_escalation c,
         bn_confidence = bc_confidence c, bn_base_ids = coalesce (bc_base_ids c) [], bn_mcp_keys = coalesce (bc_mcp_keys c) [],
         bn_metadata = [(''source'', JStr ''low_code_builder''), (''preview'', JBool True)]\<rparr>\<rparr>"

fun dash_spaces :: "bool \<Rightarrow> string \<Rightarrow> string" where \<comment> \<open>\<open>s.replace(/\s+/g, "-")\<close>; whether inside a run of spaces\<close>
  "dash_spaces run [] = []"
| "dash_spaces run (c # s) =
     (if is_space c then (if run then dash_spaces True s else CHR ''-'' # dash_spaces True s)
      else c # dash_spaces False s)"

definition proto_built_instance :: "string \<Rightarrow> string \<Rightarrow> builder_config \<Rightarrow> agent_instance" where
  "proto_built_instance i now c =
     \<lparr>ai_id = i, ai_tenant_id = ''prototype'', ai_name = bc_name c,
      ai_slug = dash_spaces False (to_lower (bc_name c)), ai_agent_key = ''custom_builder'',
      ai_module_key = ''agent.custom_builder'', ai_description = bc_description c, ai_status = Inst_Active,
      ai_visibility = Vis_Tenant, ai_department_id = None, ai_owner_user_id = None,
      ai_model_routing_key = bc_routing_key c, ai_model_key = bc_model_key c,
      ai_system_prompt = Some (bc_system_prompt c),
      ai_config = [(''builder_config'', JObj [(''config'', config_value c)])],
      ai_metadata = [(''source'', JStr ''low_code_builder'')], ai_created_by = None, ai_created_at = now,
      ai_updated_at = now, ai_runnable = Some True, ai_readiness = Some ''ready'', ai_readiness_reasons = Some [],
      ai_model_available = Some True, ai_knowledge_base_count = Some (length (coalesce (bc_base_ids c) [])),
      ai_knowledge_enabled = Some (coalesce (bc_base_ids c) [] \<noteq> [])\<rparr>"

end
