(* ===== verification/Builder_Page.thy ===== *)
theory Builder_Page
  imports Builder_Data Agent_Views
begin

text \<open>
  The agent builder, \<open>pages/BuilderPage.tsx\<close>: editing a configuration, validating and previewing it, and
  saving it, which validates first and then creates or updates the agent.  A request is in flight until
  its answer is an event of its own; it carries the form and the agent its handler started with.  In the
  prototype the answers are there at once.  Every event carries whether the user would confirm that
  unsaved changes are dropped.
\<close>

section \<open>State\<close>

datatype builder_tab = Tab_Editor | Tab_Preview

datatype builder_call =
    Call_Validate
  | Call_Preview
  | Call_Check builder_form "string option" \<comment> \<open>the validation of a save\<close>
  | Call_Write builder_form "string option" \<comment> \<open>its creation or update\<close>

datatype builder_request =
    Sent_Build builder_config
  | Sent_Rebuild string builder_config

record builder_page =
  bd_tab :: builder_tab
  bd_form :: builder_form
  bd_touched :: bool \<comment> \<open>the form is another object than \<open>emptyBuilderForm\<close>\<close>
  bd_editing :: "string option"
  bd_notice :: string
  bd_snapshot :: "builder_form option"
  bd_rail :: bool
  bd_preselect :: string
  bd_preselected :: bool
  bd_in_flight :: bool
  bd_instances :: "(unit, agent_instance list) resource"
  bd_store :: store
  bd_browser :: browser
  bd_actions :: builder_actions
  bd_calls :: "builder_call list"
  bd_sent :: "builder_request list"

record builder_env =
  bn_env :: page_env
  bn_locale :: locale_id
  bn_now :: string
  bn_now_ms :: nat

definition can_build :: "builder_env \<Rightarrow> bool" where
  "can_build env \<longleftrightarrow> has_permission ''agents:write'' (bn_env env)"

definition builder_page_init :: "browser \<Rightarrow> store \<Rightarrow> builder_page" where
  "builder_page_init b st =
     (let k = ''agenthive.builder.preselect_instance_id''; kept = session_get k b in
      \<lparr>bd_tab = Tab_Editor, bd_form = empty_builder_form, bd_touched = False, bd_editing = None, bd_notice = [],
       bd_snapshot = None, bd_rail = False, bd_preselect = (if js_truthy_str kept then the kept else []),
       bd_preselected = False, bd_in_flight = False, bd_instances = resource_init True, bd_store = st,
       bd_browser = (if js_truthy_str kept then session_remove k b else b), bd_actions = builder_actions_init,
       bd_calls = [], bd_sent = []\<rparr>)"

definition all_instances :: "builder_env \<Rightarrow> builder_page \<Rightarrow> agent_instance list" where
  "all_instances env s =
     coalesce (as_data (agent_instances_shown (in_prototype (bn_env env)) (current_snapshot (bd_store s)) (bd_instances s))) []"

definition builder_instances :: "builder_env \<Rightarrow> builder_page \<Rightarrow> agent_instance list" where
  "builder_instances env s = filter (\<lambda>i. ai_agent_key i = ''custom_builder'') (all_instances env s)"

definition unsaved :: "builder_page \<Rightarrow> bool" where
  "unsaved s \<longleftrightarrow> (case bd_snapshot s of None \<Rightarrow> bd_touched s | Some f \<Rightarrow> f \<noteq> bd_form s)"

definition may_discard :: "bool \<Rightarrow> builder_page \<Rightarrow> bool" where
  "may_discard yes s \<longleftrightarrow> \<not> unsaved s \<or> yes"

definition form_valid :: "builder_env \<Rightarrow> builder_page \<Rightarrow> bool" where
  "form_valid env s \<longleftrightarrow>
     (case ba_validation (bd_actions s) of
        Some v \<Rightarrow> br_ok v
      | None \<Rightarrow> bf_name (bd_form s) \<noteq> [] \<and> bf_system_prompt (bd_form s) \<noteq> [] \<and> has_routing_target (bd_form s) \<and>
                list_all (\<lambda>h. fst h = ''deployment_id'') (runtime_hints (bd_form s) (bn_locale env)))"

definition save_enabled :: "builder_env \<Rightarrow> builder_page \<Rightarrow> bool" where
  "save_enabled env s \<longleftrightarrow> can_build env \<and> \<not> ba_saving (bd_actions s) \<and> form_valid env s"

definition form_issues :: "builder_page \<Rightarrow> builder_issue list" where
  "form_issues s =
     (case ba_validation (bd_actions s) of
        Some v \<Rightarrow> br_issues v
      | None \<Rightarrow> (case ba_preview (bd_actions s) of Some p \<Rightarrow> bv_issues p | None \<Rightarrow> []))"

definition rail_visible :: "builder_page \<Rightarrow> bool" where
  "rail_visible s \<longleftrightarrow> bd_editing s \<noteq> None \<or> bd_rail s"

definition notice_shown :: "builder_page \<Rightarrow> string" where
  "notice_shown s =
     text_or (bd_notice s) (text_or (coalesce (ba_error (bd_actions s)) []) (coalesce (ba_message (bd_actions s)) []))"

section \<open>The form\<close>

datatype builder_field =
    Put_Name string
  | Put_Description string
  | Put_Avatar string
  | Put_Deployment string
  | Put_Model_Key string
  | Put_Routing_Key string
  | Put_Temperature string
  | Put_Max_Tokens string
  | Put_Max_Cost string
  | Put_System_Prompt string
  | Put_Style string
  | Put_Language string
  | Put_Confidence string
  | Put_Escalation string
  | Put_Greeting string
  | Put_Fallback string
  | Toggle_Fallback_Deployment string
  | Toggle_Base string
  | Toggle_Mcp string

definition put_builder_field :: "builder_field \<Rightarrow> builder_form \<Rightarrow> builder_form" where
  "put_builder_field x f =
     (case x of
        Put_Name v \<Rightarrow> f\<lparr>bf_name := v\<rparr>
      | Put_Description v \<Rightarrow> f\<lparr>bf_description := v\<rparr>
      | Put_Avatar v \<Rightarrow> f\<lparr>bf_avatar_url := v\<rparr>
      | Put_Deployment v \<Rightarrow> f\<lparr>bf_deployment_id := v\<rparr>
      | Put_Model_Key v \<Rightarrow> f\<lparr>bf_model_key := v\<rparr>
      | Put_Routing_Key v \<Rightarrow> f\<lparr>bf_routing_key := v\<rparr>
      | Put_Temperature v \<Rightarrow> f\<lparr>bf_temperature := v\<rparr>
      | Put_Max_Tokens v \<Rightarrow> f\<lparr>bf_max_tokens := v\<rparr>
      | Put_Max_Cost v \<Rightarrow> f\<lparr>bf_max_cost := v\<rparr>
      | Put_System_Prompt v \<Rightarrow> f\<lparr>bf_system_prompt := v\<rparr>
      | Put_Style v \<Rightarrow> f\<lparr>bf_response_style := v\<rparr>
      | Put_Language v \<Rightarrow> f\<lparr>bf_language := v\<rparr>
      | Put_Confidence v \<Rightarrow> f\<lparr>bf_confidence := v\<rparr>
      | Put_Escalation v \<Rightarrow> f\<lparr>bf_escalation := v\<rparr>
      | Put_Greeting v \<Rightarrow> f\<lparr>bf_greeting := v\<rparr>
      | Put_Fallback v \<Rightarrow> f\<lparr>bf_fallback := v\<rparr>
      | Toggle_Fallback_Deployment v \<Rightarrow> f\<lparr>bf_fallback_ids := toggle_base v (bf_fallback_ids f)\<rparr>
      | Toggle_Base v \<Rightarrow> f\<lparr>bf_base_ids := toggle_base v (bf_base_ids f)\<rparr>
      | Toggle_Mcp v \<Rightarrow> f\<lparr>bf_mcp_keys := toggle_base v (bf_mcp_keys f)\<rparr>)"

definition change_field :: "builder_field \<Rightarrow> builder_page \<Rightarrow> builder_page" where
  "change_field x s =
     s\<lparr>bd_form := put_builder_field x (bd_form s), bd_touched := True, bd_actions := clear_validation (bd_actions s)\<rparr>"

definition offered_fallbacks :: "builder_form \<Rightarrow> agent_deployment_option list \<Rightarrow> agent_deployment_option list" where
  "offered_fallbacks f ds = filter (\<lambda>d. ado_id d \<noteq> bf_deployment_id f) ds"

section \<open>Handlers\<close>

definition refetch_built :: "builder_env \<Rightarrow> builder_page \<Rightarrow> builder_page" where
  "refetch_built env s =
     s\<lparr>bd_instances := load_agent_instances (in_prototype (bn_env env)) (current_snapshot (bd_store s)) (bd_instances s)\<rparr>"

definition reset_form :: "bool \<Rightarrow> builder_page \<Rightarrow> builder_page" where
  "reset_form yes s =
     (if \<not> may_discard yes s then s
      else s\<lparr>bd_form := empty_builder_form, bd_touched := False, bd_snapshot := None, bd_editing := None,
             bd_rail := False, bd_actions := builder_actions_init\<rparr>)"

definition kept_config :: "agent_instance \<Rightarrow> jsval" where
  "kept_config i = get_prop ''config'' (get_prop ''builder_config'' (JObj (ai_config i)))"

definition start_edit :: "builder_env \<Rightarrow> bool \<Rightarrow> agent_instance \<Rightarrow> builder_page \<Rightarrow> builder_page" where
  "start_edit env yes i s =
     (if bd_editing s \<noteq> Some (ai_id i) \<and> \<not> may_discard yes s then s
      else if \<not> truthy (kept_config i) then s\<lparr>bd_notice := page_t (bn_env env) ''builderEditNoConfig''\<rparr>
      else (let f = config_to_form (kept_config i) in
            s\<lparr>bd_form := f, bd_touched := True, bd_snapshot := Some f, bd_editing := Some (ai_id i), bd_rail := False,
              bd_actions := builder_actions_init, bd_tab := Tab_Editor\<rparr>))"

definition preselect_instance :: "builder_env \<Rightarrow> bool \<Rightarrow> builder_page \<Rightarrow> builder_page" where \<comment> \<open>an effect\<close>
  "preselect_instance env yes s =
     (if bd_preselected s \<or> bd_preselect s = [] then s
      else (case List.find (\<lambda>i. ai_id i = bd_preselect s) (all_instances env s) of
              None \<Rightarrow> s
            | Some i \<Rightarrow> start_edit env yes i (s\<lparr>bd_preselected := True\<rparr>)))"

definition on_actions :: "(builder_actions \<Rightarrow> builder_actions) \<Rightarrow> builder_page \<Rightarrow> builder_page" where
  "on_actions g s = s\<lparr>bd_actions := g (bd_actions s)\<rparr>"

definition add_call :: "builder_call \<Rightarrow> builder_page \<Rightarrow> builder_page" where
  "add_call c s = s\<lparr>bd_calls := bd_calls s @ [c]\<rparr>"

definition handle_validate :: "builder_env \<Rightarrow> builder_page \<Rightarrow> builder_page" where
  "handle_validate env s =
     (let s' = on_actions validate_begin s in
      if in_prototype (bn_env env) then on_actions (validate_end (page_t (bn_env env)) (Inr proto_builder_report)) s'
      else add_call Call_Validate s')"

definition previewed :: "builder_env \<Rightarrow> exn + builder_preview \<Rightarrow> builder_page \<Rightarrow> builder_page" where
  "previewed env r s = (on_actions (preview_end (page_t (bn_env env)) r) s)\<lparr>bd_tab := Tab_Preview\<rparr>"

definition handle_preview :: "builder_env \<Rightarrow> builder_page \<Rightarrow> builder_page" where
  "handle_preview env s =
     (let s' = on_actions preview_begin s in
      if in_prototype (bn_env env) then previewed env (Inr (proto_builder_preview (form_to_config (bd_form s)))) s'
      else add_call Call_Preview s')"

definition saved_as :: "builder_env \<Rightarrow> exn + agent_instance \<Rightarrow> builder_form \<Rightarrow> string option \<Rightarrow> builder_page \<Rightarrow> builder_page" where
  \<comment> \<open>the end of a save, and its \<open>finally\<close>\<close>
  "saved_as env r f ed s =
     (let msg = (if js_truthy_str ed then ''builderUpdated'' else ''builderCreated'');
          s1 = on_actions (write_end (page_t (bn_env env)) msg r) s;
          s2 = (case r of
                  Inl _ \<Rightarrow> s1
                | Inr i \<Rightarrow> s1\<lparr>bd_editing := (if js_truthy_str ed then bd_editing s1 else Some (ai_id i)), bd_snapshot := Some f\<rparr>)
      in (refetch_built env s2)\<lparr>bd_in_flight := False\<rparr>)"

definition start_write :: "builder_form \<Rightarrow> string option \<Rightarrow> builder_page \<Rightarrow> builder_page" where
  "start_write f ed s =
     (on_actions write_begin s)
       \<lparr>bd_sent := bd_sent s @ [if js_truthy_str ed then Sent_Rebuild (the ed) (form_to_config f) else Sent_Build (form_to_config f)]\<rparr>"

definition checked :: "builder_env \<Rightarrow> exn + builder_report \<Rightarrow> builder_form \<Rightarrow> string option \<Rightarrow> builder_page \<Rightarrow> builder_page" where
  "checked env r f ed s =
     (let s' = on_actions (validate_end (page_t (bn_env env)) r) s in
      if (case r of Inr v \<Rightarrow> \<not> br_ok v | Inl _ \<Rightarrow> False) then s'\<lparr>bd_in_flight := False\<rparr>
      else add_call (Call_Write f ed) (start_write f ed s'))"

definition handle_save :: "builder_env \<Rightarrow> builder_page \<Rightarrow> builder_page" where
  "handle_save env s =
     (if bd_in_flight s then s
      else
        (let f = bd_form s; ed = bd_editing s; s' = on_actions validate_begin (s\<lparr>bd_in_flight := True\<rparr>) in
         if in_prototype (bn_env env) then
           (let c = form_to_config f;
                i = proto_built_instance
                      (if js_truthy_str ed then the ed else ''proto-builder-'' @ nat_str (bn_now_ms env)) (bn_now env) c
            in saved_as env (Inr i) f ed
                 (start_write f ed (on_actions (validate_end (page_t (bn_env env)) (Inr proto_builder_report)) s')))
         else add_call (Call_Check f ed) s'))"

datatype builder_answer =
    Report_Answer "exn + builder_report"
  | Preview_Answer "exn + builder_preview"
  | Write_Answer "exn + agent_instance"

definition call_answered :: "builder_env \<Rightarrow> builder_call \<Rightarrow> builder_answer \<Rightarrow> builder_page \<Rightarrow> builder_page option" where
  \<comment> \<open>None: not an answer to this call\<close>
  "call_answered env c a s =
     (case (c, a) of
        (Call_Validate, Report_Answer r) \<Rightarrow> Some (on_actions (validate_end (page_t (bn_env env)) r) s)
      | (Call_Preview, Preview_Answer r) \<Rightarrow> Some (previewed env r s)
      | (Call_Check f ed, Report_Answer r) \<Rightarrow> Some (checked env r f ed s)
      | (Call_Write f ed, Write_Answer r) \<Rightarrow> Some (saved_as env r f ed s)
      | _ \<Rightarrow> None)"

definition drop_nth :: "nat \<Rightarrow> 'a list \<Rightarrow> 'a list" where
  "drop_nth n xs = take n xs @ drop (Suc n) xs"

section \<open>Events\<close>

datatype builder_event =
    Builder_Mount
  | Built_Arrive nat "nat \<Rightarrow> exn + agent_instance_list"
  | Change_Field builder_field
  | Press_Reset
  | Press_Edit nat
  | Toggle_Rail
  | Set_Builder_Tab builder_tab
  | Press_Validate
  | Press_Preview
  | Press_Publish
  | Builder_Answer nat builder_answer
  | Dismiss_Builder_Notice
  | Builder_Notice_Expires

definition builder_handle :: "builder_env \<Rightarrow> builder_event \<Rightarrow> bool \<Rightarrow> builder_page \<Rightarrow> builder_page" where
  "builder_handle env e yes s =
     (case e of
        Builder_Mount \<Rightarrow> refetch_built env s
      | Built_Arrive n a \<Rightarrow>
          if in_waiting n (bd_instances s)
          then s\<lparr>bd_instances := agent_instances_answered (page_t (bn_env env)) n a (bd_instances s)\<rparr> else s
      | Change_Field x \<Rightarrow> if can_build env \<and> bd_tab s = Tab_Editor then change_field x s else s
      | Press_Reset \<Rightarrow> if bd_tab s = Tab_Editor \<and> bd_editing s \<noteq> None then reset_form yes s else s
      | Press_Edit n \<Rightarrow>
          if bd_tab s = Tab_Editor \<and> rail_visible s \<and> n < length (builder_instances env s)
          then start_edit env yes (builder_instances env s ! n) s else s
      | Toggle_Rail \<Rightarrow>
          if bd_tab s = Tab_Editor \<and> bd_editing s = None \<and> builder_instances env s \<noteq> []
          then s\<lparr>bd_rail := \<not> bd_rail s\<rparr> else s
      | Set_Builder_Tab x \<Rightarrow> s\<lparr>bd_tab := x\<rparr>
      | Press_Validate \<Rightarrow> if can_build env \<and> \<not> ba_validating (bd_actions s) then handle_validate env s else s
      | Press_Preview \<Rightarrow> if can_build env \<and> \<not> ba_previewing (bd_actions s) then handle_preview env s else s
      | Press_Publish \<Rightarrow> if save_enabled env s then handle_save env s else s
      | Builder_Answer n a \<Rightarrow>
          if n < length (bd_calls s)
          then (case call_answered env (bd_calls s ! n) a (s\<lparr>bd_calls := drop_nth n (bd_calls s)\<rparr>) of
                  None \<Rightarrow> s
                | Some s' \<Rightarrow> s') else s
      | Dismiss_Builder_Notice \<Rightarrow> s\<lparr>bd_notice := [], bd_actions := builder_actions_init\<rparr>
      | Builder_Notice_Expires \<Rightarrow> s\<lparr>bd_notice := []\<rparr>)"

definition builder_step :: "builder_env \<Rightarrow> builder_event \<times> bool \<Rightarrow> builder_page \<Rightarrow> builder_page" where
  "builder_step env x s = preselect_instance env (snd x) (builder_handle env (fst x) (snd x) s)"

section \<open>What the page lets through\<close>

lemma not_outside: "\<not> outside lo hi x \<Longrightarrow> in_limits lo (Some hi) (sent_number (given_number x))"
  by (cases x) (auto simp: outside_def in_limits_def given_number_def sent_number_def)

lemma no_hints:
  assumes "list_all (\<lambda>h. fst h = ''deployment_id'') (runtime_hints f l)"
  shows "\<not> outside 0 1 (parse_float (bf_confidence f))" "\<not> outside 0 2 (parse_float (bf_temperature f))"
    "\<not> outside 1 8192 (parse_int (bf_max_tokens f))"
    "parse_float (bf_confidence f) \<noteq> NaN \<Longrightarrow> trim (bf_escalation f) \<noteq> []"
  using assms by (auto simp: runtime_hints_def Let_def split: if_splits)

text \<open>
  The rules of the server the page does not check: a name that is not blank, a cost that is not negative,
  the lengths, the identifiers and the choices.  The inputs of the form keep the lengths and offer the
  choices, but a configuration read back may bring other values along.
\<close>

definition rules_left :: "(string \<Rightarrow> bool) \<Rightarrow> builder_form \<Rightarrow> bool" where
  "rules_left is_uuid f \<longleftrightarrow>
     trim (bf_name f) \<noteq> [] \<and> code_points (trim (bf_name f)) \<le> 120 \<and>
     (case parse_float (bf_max_cost f) of Fin q \<Rightarrow> 0 \<le> q | _ \<Rightarrow> True) \<and>
     code_points (bf_system_prompt f) \<le> 8000 \<and>
     list_all (\<lambda>(n, x). code_points (trim x) \<le> n)
       [(500, bf_description f), (500, bf_avatar_url f), (120, bf_model_key f), (120, bf_routing_key f),
        (2000, bf_greeting f), (2000, bf_fallback f)] \<and>
     (parse_float (bf_confidence f) = NaN \<or> code_points (trim (bf_escalation f)) \<le> 1000) \<and>
     (trim (bf_deployment_id f) = [] \<or> is_uuid (trim (bf_deployment_id f))) \<and>
     list_all (\<lambda>i. trim i = [] \<or> is_uuid i) (bf_fallback_ids f) \<and> list_all is_uuid (bf_base_ids f) \<and>
     List.member [''formal'', ''friendly'', ''concise''] (bf_response_style f) \<and>
     List.member [''zh'', ''en'', ''auto''] (bf_language f)"

lemma at_most_given: "at_most n (given_text x) \<longleftrightarrow> code_points (trim x) \<le> n"
  by (simp add: at_most_def given_text_def code_points_def)

lemma given_list_all: "list_all P (coalesce (given_list xs ys) []) \<longleftrightarrow> xs = [] \<or> list_all P ys"
  by (simp add: given_list_def coalesce_def)

lemma given_truthy: "js_truthy_str (given_text x) \<longleftrightarrow> trim x \<noteq> []"
  by (simp add: js_truthy_str_def given_text_def)

lemma cost_in_limits: "in_limits 0 None (sent_number (given_number x)) \<longleftrightarrow> (case x of Fin q \<Rightarrow> 0 \<le> q | _ \<Rightarrow> True)"
  by (cases x) (simp_all add: in_limits_def given_number_def sent_number_def)

lemma esc_length:
  "at_most n (if p then None else given_text x) \<longleftrightarrow> p \<or> code_points (trim x) \<le> n"
  by (simp add: at_most_given) (simp add: at_most_def)

lemma deployment_given:
  "(case given_text x of None \<Rightarrow> True | Some d \<Rightarrow> P d) \<longleftrightarrow> trim x = [] \<or> P (trim x)"
  by (simp add: given_text_def)

lemma fallbacks_given:
  "xs = [] \<or> list_all P (filter Q xs) \<longleftrightarrow> list_all (\<lambda>i. \<not> Q i \<or> P i) xs"
  "xs = [] \<or> list_all P xs \<longleftrightarrow> list_all P xs"
  by (auto simp: list_all_iff)

text \<open>
  C37: When the page enables saving without a report of the server, the configuration it would send passes
  the rules its hints mirror: a prompt, a routing target, the temperature, the token limit and the
  confidence threshold within their ranges, the limit a whole number, and a message for the escalation
  whenever there is a threshold.  The server therefore accepts it exactly when the rules hold that the page leaves
  to the server, among them that the name is not blank and the cost per request not negative.
\<close>

theorem accepted_form_within_rules:
  assumes "save_enabled env s" "ba_validation (bd_actions s) = None"
  shows "let c = form_to_config (bd_form s) in
     bc_system_prompt c \<noteq> [] \<and>
     (bc_deployment_id c \<noteq> None \<or> js_truthy_str (bc_model_key c) \<or> js_truthy_str (bc_routing_key c)) \<and>
     in_limits 0 (Some 2) (sent_number (bc_temperature c)) \<and>
     in_limits 1 (Some 8192) (sent_number (bc_max_tokens c)) \<and> whole (sent_number (bc_max_tokens c)) \<and>
     in_limits 0 (Some 1) (sent_number (bc_confidence c)) \<and>
     (sent_number (bc_confidence c) \<noteq> None \<longrightarrow> js_truthy_str (bc_escalation c)) \<and>
     (config_accepted is_uuid c \<longleftrightarrow> rules_left is_uuid (bd_form s))"
proof -
  let ?f = "bd_form s"
  let ?c = "form_to_config ?f"
  have ok: "bf_system_prompt ?f \<noteq> []" "has_routing_target ?f"
    "list_all (\<lambda>h. fst h = ''deployment_id'') (runtime_hints ?f (bn_locale env))"
    using assms by (simp_all add: save_enabled_def form_valid_def)
  have numbers: "in_limits 0 (Some 2) (sent_number (bc_temperature ?c))"
    "in_limits 1 (Some 8192) (sent_number (bc_max_tokens ?c))" "in_limits 0 (Some 1) (sent_number (bc_confidence ?c))"
    using no_hints [OF ok(3)] by (simp_all add: form_to_config_def not_outside)
  have "whole (sent_number (bc_max_tokens ?c))" by (simp add: form_to_config_def parse_int_whole)
  moreover have route: "bc_deployment_id ?c \<noteq> None \<or> js_truthy_str (bc_model_key ?c) \<or> js_truthy_str (bc_routing_key ?c)"
    using ok(2) by (auto simp: form_to_config_def has_routing_target_def given_truthy) (simp add: given_text_def)
  moreover have "bc_system_prompt ?c \<noteq> []" using ok(1) by (simp add: form_to_config_def)
  moreover have esc: "sent_number (bc_confidence ?c) \<noteq> None \<longrightarrow> js_truthy_str (bc_escalation ?c)"
    using no_hints(4) [OF ok(3)] by (auto simp: form_to_config_def given_number_def sent_number_def given_truthy)
  ultimately have checked: "config_accepted is_uuid ?c \<longleftrightarrow>
      bc_name ?c \<noteq> [] \<and> code_points (bc_name ?c) \<le> 120 \<and> at_most 500 (bc_description ?c) \<and>
      at_most 500 (bc_avatar_url ?c) \<and> (case bc_deployment_id ?c of None \<Rightarrow> True | Some d \<Rightarrow> is_uuid d) \<and>
      list_all is_uuid (coalesce (bc_fallback_ids ?c) []) \<and> at_most 120 (bc_model_key ?c) \<and>
      at_most 120 (bc_routing_key ?c) \<and> in_limits 0 None (sent_number (bc_max_cost ?c)) \<and>
      code_points (bc_system_prompt ?c) \<le> 8000 \<and>
      List.member [''formal'', ''friendly'', ''concise''] (bc_response_style ?c) \<and>
      List.member [''zh'', ''en'', ''auto''] (bc_language ?c) \<and> list_all is_uuid (coalesce (bc_base_ids ?c) []) \<and>
      at_most 1000 (bc_escalation ?c) \<and> at_most 2000 (bc_greeting ?c) \<and> at_most 2000 (bc_fallback ?c)"
    using numbers by (simp only: config_accepted_def) blast
  have "config_accepted is_uuid ?c \<longleftrightarrow> rules_left is_uuid ?f"
    unfolding checked rules_left_def
    by (simp add: form_to_config_def at_most_given given_list_all cost_in_limits esc_length deployment_given fallbacks_given)
      blast
  with \<open>whole _\<close> route \<open>bc_system_prompt ?c \<noteq> []\<close> esc numbers show ?thesis by (simp only: Let_def) blast
qed

definition demo_builder_env :: builder_env where
  "demo_builder_env =
     \<lparr>bn_env = \<lparr>in_prototype = False, page_user = Some (read_only_user\<lparr>permissions := [''agents:write'']\<rparr>), page_t = (\<lambda>k. k)\<rparr>,
      bn_locale = En_US, bn_now = [], bn_now_ms = 0\<rparr>"

lemma demo_can_build: "can_build demo_builder_env"
  by (simp add: can_build_def has_permission_def demo_builder_env_def can_access_def no_requirement_def read_only_user_def)

definition demo_builder :: "builder_form \<Rightarrow> builder_page" where
  "demo_builder f =
     (builder_page_init \<lparr>session_storage = (\<lambda>_. None), local_storage = (\<lambda>_. None), cookies = []\<rparr> store_init)\<lparr>bd_form := f\<rparr>"

definition demo_builder_form :: builder_form where
  "demo_builder_form =
     empty_builder_form\<lparr>bf_name := ''Bot'', bf_system_prompt := ''Help.'', bf_routing_key := ''chat'', bf_escalation := ''Call us''\<rparr>"

lemma demo_form_numbers:
  "parse_float ''0.7'' = round_double (7 / 10)" "parse_float ''0.5'' = Fin (1 / 2)" "parse_int ''1024'' = Fin 1024"
  by code_simp+

theorem accepted_form_within_rules_witness:
  "config_accepted (\<lambda>_. False) (form_to_config demo_builder_form)"
proof -
  have texts: "trim ''chat'' = ''chat''" "trim ''Call us'' = ''Call us''" by code_simp+
  have range: "\<not> outside 0 2 (round_double (7 / 10))" by code_simp
  have "save_enabled demo_builder_env (demo_builder demo_builder_form)"
    using demo_can_build
    by (simp add: save_enabled_def form_valid_def demo_builder_def builder_page_init_def Let_def builder_actions_init_def
        demo_builder_form_def empty_builder_form_def has_routing_target_def runtime_hints_def demo_form_numbers texts range)
      (simp add: outside_def)
  moreover have "rules_left (\<lambda>_. False) demo_builder_form" by code_simp
  ultimately show ?thesis
    using accepted_form_within_rules [of demo_builder_env "demo_builder demo_builder_form" "\<lambda>_. False"]
    by (simp add: demo_builder_def builder_page_init_def Let_def builder_actions_init_def)
qed

text \<open>The name is only compared with the empty text, and a negative cost has no hint.\<close>

lemma blank_name_accepted:
  assumes "can_build env"
    and "s = (builder_page_init b st)\<lparr>bd_form := empty_builder_form\<lparr>bf_name := '' '', bf_system_prompt := ''p'',
           bf_routing_key := ''r'', bf_temperature := [], bf_max_tokens := [], bf_confidence := []\<rparr>\<rparr>"
  shows "save_enabled env s \<and> bc_name (form_to_config (bd_form s)) = []"
proof -
  have blank: "trim '' '' = []" "trim ''r'' = ''r''" by code_simp+
  have nan: "parse_float [] = NaN" "parse_int [] = NaN" by code_simp+
  show ?thesis
    using assms(1)
    by (simp add: assms(2) builder_page_init_def Let_def save_enabled_def form_valid_def builder_actions_init_def
        empty_builder_form_def has_routing_target_def runtime_hints_def form_to_config_def blank nan outside_def)
qed

text \<open>A deployment chosen after it was ticked as a fallback stays its own fallback, and is not offered to be unticked.\<close>

lemma own_fallback:
  assumes "List.member (bf_fallback_ids f) d" "trim d \<noteq> []"
  shows "let g = put_builder_field (Put_Deployment d) f in
     List.member (coalesce (bc_fallback_ids (form_to_config g)) []) d \<and>
     bc_deployment_id (form_to_config g) = Some (trim d) \<and> list_all (\<lambda>x. ado_id x \<noteq> d) (offered_fallbacks g ds)"
  using assms
  by (auto simp: put_builder_field_def form_to_config_def given_list_def given_text_def offered_fallbacks_def list_all_iff)

section \<open>One save at a time\<close>

fun is_save_call :: "builder_call \<Rightarrow> bool" where
  "is_save_call (Call_Check _ _) = True"
| "is_save_call (Call_Write _ _) = True"
| "is_save_call _ = False"

definition saves_counted :: "builder_page \<Rightarrow> bool" where
  "saves_counted s \<longleftrightarrow> length (filter is_save_call (bd_calls s)) = (if bd_in_flight s then 1 else 0)"

lemma saves_frame [simp]:
  "bd_calls (on_actions g s) = bd_calls s" "bd_in_flight (on_actions g s) = bd_in_flight s"
  "bd_calls (refetch_built env s) = bd_calls s" "bd_in_flight (refetch_built env s) = bd_in_flight s"
  "bd_calls (start_write f ed s) = bd_calls s" "bd_in_flight (start_write f ed s) = bd_in_flight s"
  "bd_calls (previewed env p s) = bd_calls s" "bd_in_flight (previewed env p s) = bd_in_flight s"
  "bd_calls (add_call c s) = bd_calls s @ [c]" "bd_in_flight (add_call c s) = bd_in_flight s"
  "bd_calls (saved_as env r f ed s) = bd_calls s" "bd_in_flight (saved_as env r f ed s) = False"
  "bd_calls (start_edit env yes i s) = bd_calls s" "bd_in_flight (start_edit env yes i s) = bd_in_flight s"
  "bd_calls (reset_form yes s) = bd_calls s" "bd_in_flight (reset_form yes s) = bd_in_flight s"
  "bd_calls (change_field x s) = bd_calls s" "bd_in_flight (change_field x s) = bd_in_flight s"
  by (simp_all add: on_actions_def refetch_built_def start_write_def previewed_def add_call_def saved_as_def
      start_edit_def reset_form_def change_field_def Let_def split: sum.split)

lemma saves_preselect [simp]: "saves_counted (preselect_instance env yes s) = saves_counted s"
  by (simp add: preselect_instance_def saves_counted_def split: option.split)

lemma count_drop_nth:
  "n < length xs \<Longrightarrow>
   length (filter P (drop_nth n xs)) = (if P (xs ! n) then length (filter P xs) - 1 else length (filter P xs))"
proof -
  assume n: "n < length xs"
  have "filter P xs = filter P (take n xs) @ (if P (xs ! n) then [xs ! n] else []) @ filter P (drop (Suc n) xs)"
    by (subst id_take_nth_drop [OF n]) simp
  then show ?thesis by (simp add: drop_nth_def)
qed

lemma saves_answered:
  assumes n: "n < length (bd_calls s)" and ok: "saves_counted s"
    and a: "call_answered env (bd_calls s ! n) a (s\<lparr>bd_calls := drop_nth n (bd_calls s)\<rparr>) = Some s'"
  shows "saves_counted s'"
proof -
  have there: "is_save_call (bd_calls s ! n) \<Longrightarrow> filter is_save_call (bd_calls s) \<noteq> []"
    using nth_mem [OF n] by (auto simp: filter_empty_conv)
  show ?thesis
    using a ok there count_drop_nth [OF n, of is_save_call]
    by (cases "bd_calls s ! n"; cases a)
      (auto simp: call_answered_def checked_def saves_counted_def Let_def split: if_splits)
qed

lemma saves_step: "saves_counted s \<Longrightarrow> saves_counted (builder_step env x s)"
proof -
  assume ok: "saves_counted s"
  obtain e yes where x: "x = (e, yes)" by (cases x)
  have "saves_counted (builder_handle env e yes s)"
  proof (cases e)
    case (Builder_Answer n a)
    with ok saves_answered [OF _ ok] show ?thesis by (auto simp: builder_handle_def split: option.split)
  qed (use ok in \<open>auto simp: builder_handle_def saves_counted_def handle_validate_def handle_preview_def handle_save_def Let_def\<close>)
  then show ?thesis by (simp add: builder_step_def x)
qed

interpretation builder: event_system "\<lambda>s. s = builder_page_init b st" "builder_step env" saves_counted for b st env
  by unfold_locales (simp_all add: saves_step, simp add: saves_counted_def builder_page_init_def Let_def)

text \<open>
  C38: Whatever is pressed and answered, at most one save is under way, with exactly one request in flight
  for it, its validation or its write; when none is, the page is ready for the next.
\<close>

theorem one_save_at_a_time:
  "let s = fold (builder_step env) es (builder_page_init b st) in
   length (filter is_save_call (bd_calls s)) = (if bd_in_flight s then 1 else 0)"
  using builder.inv_reachable [of "builder_page_init b st" b st env es] by (simp add: saves_counted_def Let_def)

section \<open>A creation answered late\<close>

text \<open>
  C39: A creation that is answered after the user has gone on to another form makes that form the one of
  the agent that was created: the page then edits the new agent, shows what belongs to another, and the
  next save writes it over the new agent.
\<close>

theorem late_create_retargets_form:
  assumes "\<not> in_prototype (bn_env env)" "can_build env" "form_valid env s" "bd_preselect s = []"
    and n: "n < length (bd_calls s)" "bd_calls s ! n = Call_Write f None" "f \<noteq> bd_form s"
    and i: "ai_id i \<noteq> []" and v: "br_ok v"
    and s1: "s1 = builder_step env (Builder_Answer n (Write_Answer (Inr i)), yes) s"
    and s2: "s2 = fold (builder_step env)
           [(Press_Publish, yes'), (Builder_Answer (length (bd_calls s) - 1) (Report_Answer (Inr v)), yes'')] s1"
  shows "bd_editing s1 = Some (ai_id i) \<and> bd_form s1 = bd_form s \<and> unsaved s1 \<and>
         bd_sent s2 = bd_sent s @ [Sent_Rebuild (ai_id i) (form_to_config (bd_form s))]"
proof -
  have len: "length (drop_nth n (bd_calls s)) = length (bd_calls s) - 1" using n(1) by (simp add: drop_nth_def)
  have nth: "(drop_nth n (bd_calls s) @ [c]) ! (length (bd_calls s) - 1) = c" for c
    by (metis len nth_append_length)
  note defs = builder_step_def builder_handle_def preselect_instance_def call_answered_def saved_as_def Let_def
    on_actions_def write_end_def refetch_built_def js_truthy_str_def
  have one: "bd_editing s1 = Some (ai_id i)" "bd_form s1 = bd_form s" "bd_snapshot s1 = Some f" "\<not> bd_in_flight s1"
    "bd_calls s1 = drop_nth n (bd_calls s)" "bd_sent s1 = bd_sent s" "bd_preselect s1 = []"
    "ba_saving (bd_actions s1) = False" "ba_validation (bd_actions s1) = ba_validation (bd_actions s)"
    using assms(4) n by (simp_all add: s1 defs)
  have enabled: "save_enabled env s1"
    using assms(2,3) one by (simp add: save_enabled_def form_valid_def split: option.splits)
  define t where "t = builder_step env (Press_Publish, yes') s1"
  have t: "bd_calls t = drop_nth n (bd_calls s) @ [Call_Check (bd_form s) (Some (ai_id i))]"
    "bd_sent t = bd_sent s" "bd_preselect t = []"
    using enabled one assms(1)
    by (simp_all add: t_def builder_step_def builder_handle_def preselect_instance_def handle_save_def Let_def
        add_call_def on_actions_def)
  have "s2 = builder_step env (Builder_Answer (length (bd_calls s) - 1) (Report_Answer (Inr v)), yes'') t"
    by (simp add: s2 t_def)
  then have "bd_sent s2 = bd_sent s @ [Sent_Rebuild (ai_id i) (form_to_config (bd_form s))]"
    using t v len i
    by (simp add: builder_step_def builder_handle_def preselect_instance_def call_answered_def nth [simplified] checked_def
        add_call_def start_write_def on_actions_def Let_def js_truthy_str_def)
  then show ?thesis using one n(3) by (simp add: unsaved_def)
qed

definition demo_built :: "string \<Rightarrow> agent_instance" where
  "demo_built i = (proto_built_instance i [] (form_to_config demo_builder_form))"

lemma demo_built_id: "ai_id (demo_built i) = i"
  by (simp add: demo_built_def proto_built_instance_def)

lemma demo_not_proto: "\<not> in_prototype (bn_env demo_builder_env)"
  by (simp add: demo_builder_env_def)

lemma proto_report_ok: "br_ok proto_builder_report"
  by (simp add: proto_builder_report_def)

definition demo_late :: builder_page where
  \<comment> \<open>a creation is under way, and the user has opened another agent and validated it\<close>
  "demo_late =
     (demo_builder (empty_builder_form\<lparr>bf_name := ''Other''\<rparr>))
       \<lparr>bd_editing := Some ''other'', bd_in_flight := True, bd_calls := [Call_Write demo_builder_form None],
        bd_actions := builder_actions_init\<lparr>ba_validation := Some proto_builder_report\<rparr>\<rparr>"

theorem late_create_retargets_form_witness:
  "bd_sent (fold (builder_step demo_builder_env)
       [(Builder_Answer 0 (Write_Answer (Inr (demo_built ''new''))), True), (Press_Publish, True),
        (Builder_Answer 0 (Report_Answer (Inr proto_builder_report)), True)] demo_late) =
     [Sent_Rebuild ''new'' (form_to_config (empty_builder_form\<lparr>bf_name := ''Other''\<rparr>))]"
proof -
  have late: "bd_preselect demo_late = []" "bd_sent demo_late = []"
    "bd_form demo_late = empty_builder_form\<lparr>bf_name := ''Other''\<rparr>"
    "bd_calls demo_late = [Call_Write demo_builder_form None]" "form_valid demo_builder_env demo_late"
    by (simp_all add: demo_late_def demo_builder_def builder_page_init_def Let_def session_get_def js_truthy_str_def
        form_valid_def proto_builder_report_def)
  have "demo_builder_form \<noteq> empty_builder_form\<lparr>bf_name := ''Other''\<rparr>"
    by (simp add: demo_builder_form_def empty_builder_form_def)
  then have other: "demo_builder_form \<noteq> bd_form demo_late" by (simp only: late(3) not_False_eq_True)
  have call: "0 < length (bd_calls demo_late)" "bd_calls demo_late ! 0 = Call_Write demo_builder_form None"
    and idx: "length (bd_calls demo_late) - 1 = 0" by (simp_all add: late(4))
  have new: "ai_id (demo_built ''new'') \<noteq> []" by (simp add: demo_built_id)
  note run = late_create_retargets_form [OF demo_not_proto demo_can_build late(5,1) call other new proto_report_ok refl refl]
  show ?thesis
    using run [of True True True, THEN conjunct2, THEN conjunct2, THEN conjunct2]
    by (simp only: idx late(2,3) demo_built_id fold_simps append_Nil)
qed

section \<open>Smaller observations\<close>

text \<open>Opening the agent that is being edited once more drops the unsaved changes without asking.\<close>

lemma reopening_drops_changes:
  assumes "bd_editing s = Some (ai_id i)" "truthy (kept_config i)"
  shows "bd_form (start_edit env False i s) = config_to_form (kept_config i) \<and> \<not> unsaved (start_edit env False i s)"
  using assms by (simp add: start_edit_def Let_def unsaved_def)

text \<open>The timer of the notices hides none that reports a success or an error.\<close>

lemma reports_do_not_expire:
  "ba_message (bd_actions (builder_handle env Builder_Notice_Expires yes s)) = ba_message (bd_actions s) \<and>
   ba_error (bd_actions (builder_handle env Builder_Notice_Expires yes s)) = ba_error (bd_actions s)"
  by (simp add: builder_handle_def)

text \<open>A validation that cannot be made does not keep a save from being written.\<close>

lemma failed_check_writes:
  "bd_sent (checked env (Inl e) f ed s) = bd_sent (start_write f ed s)"
  by (simp add: checked_def Let_def add_call_def start_write_def on_actions_def)

text \<open>In the prototype a published agent is not in the list of agents.\<close>

lemma proto_publish_not_listed:
  "in_prototype (bn_env env) \<Longrightarrow> all_instances env (handle_save env s) = all_instances env s"
  by (simp add: handle_save_def saved_as_def Let_def all_instances_def refetch_built_def start_write_def on_actions_def
      agent_instances_shown_def store_shown_def)

end
