(* ===== verification/System_Health.thy ===== *)
theory System_Health
  imports Agent_Views Proto_Store Js_Date
begin

text \<open>
  The health of the deployment: the reports of \<open>lib/api/system.ts\<close>, the hook of \<open>hooks/admin/system.ts\<close>,
  the reports of the prototype (\<open>systemPrototype.ts\<close>), and what the settings page makes of them
  (\<open>pages/settings/settingsUtils.ts\<close>).  The recorded probes and runs stay objects of unknown shape, as the
  page reads single properties of them.  The formats of \<open>Intl\<close> are a parameter.
  The label tables are read at their own keys (a key like \<open>constructor\<close>, which JavaScript would find on the
  prototype of the object, is not a key of the reports).
\<close>

section \<open>Reports\<close>

record remediation =
  rm_summary :: "string option"
  rm_action :: "string option"
  rm_docs_anchor :: "string option"

record component_report =
  cr_status :: string
  cr_message :: "string option"
  cr_details :: "props option"
  cr_remediation :: "remediation option"
  cr_checked_at :: "string option"
  cr_component :: "string option"
  cr_migrations :: "props option"

record delivery_check =
  dc_id :: string
  dc_label :: string
  dc_component :: string
  dc_status :: string
  dc_severity :: string
  dc_message :: "string option"
  dc_remediation :: "remediation option"

record delivery_assessment =
  da_status :: string
  da_summary :: string
  da_blocker_count :: jsnum
  da_warning_count :: jsnum
  da_blockers :: "delivery_check list"
  da_warnings :: "delivery_check list"
  da_checks :: "delivery_check list"

record health_report =
  hr_status :: string
  hr_service :: string
  hr_version :: string
  hr_environment :: string
  hr_checked_at :: string
  hr_components :: "(string \<times> component_report) list"
  hr_delivery :: "delivery_assessment option"

record system_info =
  sy_name :: string
  sy_edition :: string
  sy_version :: string

record connection_evidence =
  ce_status :: string
  ce_summary :: string
  ce_recent_tests :: jsnum
  ce_live_calls :: jsnum
  ce_media_probes :: jsnum
  ce_failed_recent :: jsnum
  ce_providers :: "string list"
  ce_latest_probe :: jsval
  ce_latest_media_probe :: jsval
  ce_recent :: "jsval list"

record knowledge_evidence =
  ke_status :: string
  ke_summary :: string
  ke_recent_runs :: jsnum
  ke_enabled_runs :: jsnum
  ke_runs_with_sources :: jsnum
  ke_human_review :: jsnum
  ke_guardrails :: jsnum
  ke_agents :: "string list"
  ke_latest_run :: jsval
  ke_recent :: "jsval list"

record system_diagnostics =
  sd_connection :: "connection_evidence option"
  sd_health :: health_report
  sd_info :: system_info
  sd_knowledge :: "knowledge_evidence option"
  sd_readiness :: health_report

record diagnostics_report =
  dr_connection :: "connection_evidence option"
  dr_knowledge :: "knowledge_evidence option"

definition is_health_report :: "jsval \<Rightarrow> bool" where
  "is_health_report v \<longleftrightarrow> is_object v \<and> has_prop ''status'' v \<and> has_prop ''service'' v \<and> has_prop ''components'' v"

definition get_readiness :: "(jsval \<Rightarrow> health_report) \<Rightarrow> exn + health_report \<Rightarrow> exn + health_report" where
  \<comment> \<open>a report that comes with an error status is a report; \<open>cast\<close> reads the object as one\<close>
  "get_readiness cast r =
     (case r of
        Inl (Api_Error m st d) \<Rightarrow> if is_health_report d then Inr (cast d) else r
      | _ \<Rightarrow> r)"

section \<open>Rows and labels\<close>

definition status_weight :: "string \<Rightarrow> nat" where
  "status_weight s =
     (if s = ''unhealthy'' \<or> s = ''error'' then 0 else if s = ''degraded'' \<or> s = ''not_configured'' then 1 else 2)"

definition status_tone :: "string \<Rightarrow> string" where
  "status_tone s =
     (if s = ''healthy'' \<or> s = ''configured'' then ''good''
      else if s = ''degraded'' \<or> s = ''not_configured'' then ''warning'' else ''bad'')"

definition compare_health :: "(string \<Rightarrow> string \<Rightarrow> int) \<Rightarrow> string \<times> component_report \<Rightarrow> string \<times> component_report \<Rightarrow> int" where
  "compare_health collate a b =
     (let d = int (status_weight (cr_status (snd a))) - int (status_weight (cr_status (snd b)))
      in if d \<noteq> 0 then d else collate (fst a) (fst b))"

definition health_rows :: "(string \<Rightarrow> string \<Rightarrow> int) \<Rightarrow> health_report option \<Rightarrow> (string \<times> component_report) list" where
  "health_rows collate r = (case r of None \<Rightarrow> [] | Some x \<Rightarrow> sort_by (compare_health collate) (hr_components x))"

definition component_status_label :: "string \<Rightarrow> (string \<Rightarrow> string) \<Rightarrow> string" where
  "component_status_label s t =
     (if s = ''healthy'' then t ''settingsComponentStatusHealthy''
      else if s = ''configured'' then t ''settingsComponentStatusConfigured''
      else if s = ''degraded'' then t ''settingsComponentStatusDegraded''
      else if s = ''not_configured'' then t ''settingsComponentStatusNotConfigured''
      else if s = ''unhealthy'' then t ''settingsComponentStatusUnhealthy''
      else if s = ''error'' then t ''settingsComponentStatusError''
      else s)"

definition delivery_tone :: "string option \<Rightarrow> string" where
  "delivery_tone s =
     (if s = Some ''ready'' then ''good'' else if s = Some ''ready_with_warnings'' then ''warning'' else ''bad'')"

definition delivery_status_label :: "string option \<Rightarrow> (string \<Rightarrow> string) \<Rightarrow> string" where
  "delivery_status_label s t =
     (if s = Some ''ready'' then t ''settingsDeliveryReady''
      else if s = Some ''ready_with_warnings'' then t ''settingsDeliveryReadyWithWarnings''
      else if s = Some ''blocked'' then t ''settingsDeliveryBlocked''
      else text_or (coalesce s []) ''-'')"

definition localized_delivery_summary ::
  "delivery_assessment option \<Rightarrow> (string \<Rightarrow> string) \<Rightarrow> string option \<Rightarrow> string" where
  "localized_delivery_summary d t fallback =
     (case d of
        None \<Rightarrow> coalesce fallback ''-''
      | Some a \<Rightarrow>
          if da_status a = ''ready'' then t ''settingsDeliverySummaryReady''
          else if da_status a = ''ready_with_warnings'' then
            replace_first ''{{checks}}'' (nat_str (length (da_checks a)))
              (replace_first ''{{warnings}}'' (num_str (da_warning_count a)) (t ''settingsDeliverySummaryReadyWithWarnings''))
          else if da_status a = ''blocked'' then
            replace_first ''{{warnings}}'' (num_str (da_warning_count a))
              (replace_first ''{{blockers}}'' (num_str (da_blocker_count a)) (t ''settingsDeliverySummaryBlocked''))
          else text_or (da_summary a) (text_or (coalesce fallback []) (text_or (da_status a) ''-'')))"

definition severity_weight :: "string \<Rightarrow> nat" where
  "severity_weight s = (if s = ''blocker'' then 0 else if s = ''warning'' then 1 else 2)"

definition delivery_issue_rows :: "delivery_check list \<Rightarrow> delivery_check list" where
  "delivery_issue_rows =
     sort_by (\<lambda>a b. int (severity_weight (dc_severity a)) - int (severity_weight (dc_severity b)))"

definition issues_shown :: "delivery_assessment option \<Rightarrow> delivery_check list" where
  "issues_shown d = (case d of None \<Rightarrow> [] | Some a \<Rightarrow> take 5 (delivery_issue_rows (da_blockers a @ da_warnings a)))"

definition component_label_keys :: "(string \<times> string) list" where
  "component_label_keys =
   [(''active_video_models'', ''settingsDetailActiveVideoModels''),
    (''active_slot_count'', ''settingsDetailActiveSlotCount''),
    (''agent_concurrency'', ''settingsComponentAgentConcurrency''),
    (''agent_limit'', ''settingsDetailAgentLimit''),
    (''audit_diagnostics'', ''settingsComponentAuditDiagnostics''),
    (''budget_governance'', ''settingsComponentBudgetGovernance''),
    (''channel_gateway'', ''settingsComponentChannelGateway''),
    (''configured'', ''settingsDetailConfigured''), (''database'', ''settingsComponentDatabase''),
    (''docs_anchor'', ''settingsDetailDocsAnchor''), (''environment'', ''settingsDetailEnvironment''),
    (''frontend'', ''settingsComponentFrontend''),
    (''install_id_configured'', ''settingsDetailInstallIdConfigured''),
    (''knowledge_runtime'', ''settingsComponentKnowledgeRuntime''),
    (''license_identity'', ''settingsComponentLicenseIdentity''),
    (''litellm'', ''settingsComponentLiteLLM''),
    (''machine_fingerprint_configured'', ''settingsDetailMachineFingerprintConfigured''),
    (''media_generation'', ''settingsComponentMediaGeneration''),
    (''media_worker'', ''settingsComponentMediaWorker''), (''minio'', ''settingsComponentMinIO''),
    (''missing_operational_settings'', ''settingsDetailMissingOperationalSettings''),
    (''pgvector'', ''settingsComponentPgvector''),
    (''production_config'', ''settingsComponentProductionConfig''),
    (''redis'', ''settingsComponentRedis''),
    (''required_provider_settings'', ''settingsDetailRequiredProviderSettings''),
    (''runtime_deployment_id_configured'', ''settingsDetailRuntimeDeploymentIdConfigured''),
    (''tenant_limit'', ''settingsDetailTenantLimit''), (''user_limit'', ''settingsDetailUserLimit''),
    (''video_route_count'', ''settingsDetailVideoRouteCount''),
    (''webhook_public_url_configured'', ''settingsDetailWebhookPublicUrlConfigured'')]"

definition fallback_component_labels :: "(string \<times> string) list" where
  "fallback_component_labels =
   [(''active_video_models'', ''Active video models''), (''active_slot_count'', ''Active slots''),
    (''agent_concurrency'', ''Agent concurrency guard''), (''agent_limit'', ''Agent limit''),
    (''audit_diagnostics'', ''Audit diagnostics''), (''budget_governance'', ''Budget governance''),
    (''channel_gateway'', ''Channel gateway''), (''configured'', ''Configured''),
    (''database'', ''PostgreSQL''), (''docs_anchor'', ''Docs anchor''),
    (''environment'', ''Environment''), (''frontend'', ''Frontend''),
    (''install_id_configured'', ''Install ID configured''),
    (''knowledge_runtime'', ''Knowledge runtime''), (''license_identity'', ''License identity''),
    (''litellm'', ''LiteLLM''),
    (''machine_fingerprint_configured'', ''Machine fingerprint configured''),
    (''media_generation'', ''Media Generation Gateway''),
    (''media_worker'', ''Media Generation Worker''), (''minio'', ''MinIO''),
    (''missing_operational_settings'', ''Missing operational settings''), (''pgvector'', ''pgvector''),
    (''production_config'', ''Production config''), (''redis'', ''Redis''),
    (''required_provider_settings'', ''Required provider settings''),
    (''runtime_deployment_id_configured'', ''Runtime deployment ID configured''),
    (''tenant_limit'', ''Tenant limit''), (''user_limit'', ''User limit''),
    (''video_route_count'', ''Video route count''),
    (''webhook_public_url_configured'', ''Webhook public URL configured'')]"

definition titleize_key :: "string \<Rightarrow> string" where
  "titleize_key k = join '' '' (map (\<lambda>p. to_upper (take 1 p) @ drop 1 p) (split_any (\<lambda>c. c = CHR ''_'') k))"

definition component_label_key :: "string \<Rightarrow> string option" where
  "component_label_key k = map_of component_label_keys k"

definition component_label :: "string \<Rightarrow> (string \<Rightarrow> string) option \<Rightarrow> string" where
  "component_label k t =
     (case (component_label_key k, t) of
        (Some l, Some f) \<Rightarrow> f l
      | (Some _, None) \<Rightarrow> coalesce (map_of fallback_component_labels k) (titleize_key k)
      | (None, _) \<Rightarrow> titleize_key k)"

definition format_checked_at :: "(string \<Rightarrow> string) \<Rightarrow> string option \<Rightarrow> string" where
  "format_checked_at intl v =
     (if \<not> js_truthy_str v then ''-'' else if date_ms (the v) = NaN then the v else intl (the v))"

fun format_detail_value :: "jsval \<Rightarrow> string" where
  "format_detail_value JUndef = ''-''"
| "format_detail_value JNull = ''-''"
| "format_detail_value (JArr vs) = join '', '' (map format_detail_value vs)"
| "format_detail_value (JObj kvs) = stringify (JObj kvs)"
| "format_detail_value (JStr s) = (if s = [] then ''-'' else s)"
| "format_detail_value v = js_string v"

definition detail_pairs :: "props option \<Rightarrow> (string \<Rightarrow> string) option \<Rightarrow> (string \<times> string \<times> string) list" where
  "detail_pairs d t = map (\<lambda>(k, v). (component_label k t, k, format_detail_value v)) (coalesce d [])"

section \<open>Remediation\<close>

definition two_sentences :: "string option \<Rightarrow> string option \<Rightarrow> string" where \<comment> \<open>\<open>[a, b].filter(Boolean).join(" ")\<close>\<close>
  "two_sentences a b = join '' '' (filter (\<lambda>s. s \<noteq> []) (map (\<lambda>x. coalesce x []) [a, b]))"

definition remediation_text :: "remediation option \<Rightarrow> string option" where
  "remediation_text r = map_option (\<lambda>x. two_sentences (rm_summary x) (rm_action x)) r"

definition filled :: "string option \<Rightarrow> string option" where \<comment> \<open>\<open>s?.trim() || null\<close>\<close>
  "filled x = (case x of None \<Rightarrow> None | Some s \<Rightarrow> if trim s = [] then None else Some (trim s))"

definition remediation_parts :: "remediation option \<Rightarrow> remediation option" where
  "remediation_parts r =
     (case r of
        None \<Rightarrow> None
      | Some x \<Rightarrow>
          (let p = \<lparr>rm_summary = filled (rm_summary x), rm_action = filled (rm_action x), rm_docs_anchor = filled (rm_docs_anchor x)\<rparr>
           in if rm_summary p = None \<and> rm_action p = None \<and> rm_docs_anchor p = None then None else Some p))"

definition remediation_message_keys :: "(string \<times> string \<times> string) list" where \<comment> \<open>action and summary\<close>
  "remediation_message_keys =
   [
    (''deployment.agent_concurrency'', ''settingsRemediationAgentConcurrencyAction'', ''settingsRemediationAgentConcurrencySummary''),
    (''deployment.agent_runtime'', ''settingsRemediationAgentRuntimeAction'', ''settingsRemediationAgentRuntimeSummary''),
    (''deployment.database'', ''settingsRemediationDatabaseAction'', ''settingsRemediationDatabaseSummary''),
    (''deployment.frontend'', ''settingsRemediationFrontendAction'', ''settingsRemediationFrontendSummary''),
    (''deployment.license'', ''settingsRemediationLicenseAction'', ''settingsRemediationLicenseSummary''),
    (''deployment.litellm'', ''settingsRemediationLiteLLMAction'', ''settingsRemediationLiteLLMSummary''),
    (''deployment.media_generation'', ''settingsRemediationMediaGenerationAction'', ''settingsRemediationMediaGenerationSummary''),
    (''deployment.media_worker'', ''settingsRemediationMediaWorkerAction'', ''settingsRemediationMediaWorkerSummary''),
    (''deployment.minio'', ''settingsRemediationMinIOAction'', ''settingsRemediationMinIOSummary''),
    (''deployment.pgvector'', ''settingsRemediationPgvectorAction'', ''settingsRemediationPgvectorSummary''),
    (''deployment.production_config'', ''settingsRemediationProductionConfigAction'', ''settingsRemediationProductionConfigSummary''),
    (''deployment.ragflow'', ''settingsRemediationRAGFlowAction'', ''settingsRemediationRAGFlowSummary''),
    (''deployment.redis'', ''settingsRemediationRedisAction'', ''settingsRemediationRedisSummary'')]"

definition localized_remediation_parts :: "remediation option \<Rightarrow> (string \<Rightarrow> string) \<Rightarrow> remediation option" where
  "localized_remediation_parts r t =
     (case remediation_parts r of
        None \<Rightarrow> None
      | Some p \<Rightarrow>
          (case (case rm_docs_anchor p of None \<Rightarrow> None | Some a \<Rightarrow> map_of remediation_message_keys a) of
             None \<Rightarrow> Some p
           | Some (act, summ) \<Rightarrow> Some \<lparr>rm_summary = Some (t summ), rm_action = Some (t act), rm_docs_anchor = rm_docs_anchor p\<rparr>))"

definition localized_remediation_text :: "remediation option \<Rightarrow> (string \<Rightarrow> string) \<Rightarrow> string option" where
  "localized_remediation_text r t =
     map_option (\<lambda>x. two_sentences (rm_summary x) (rm_action x)) (localized_remediation_parts r t)"

section \<open>The prototype\<close>

definition proto_checked_at :: string where "proto_checked_at = ''2026-01-01T00:00:00.000Z''"

definition proto_component :: "string \<Rightarrow> string \<Rightarrow> remediation option \<Rightarrow> string \<Rightarrow> props \<Rightarrow> component_report" where
  "proto_component c s r msg ds =
     \<lparr>cr_status = s, cr_message = Some msg, cr_details = Some ds, cr_remediation = r, cr_checked_at = Some proto_checked_at,
      cr_component = Some c, cr_migrations = None\<rparr>"

definition license_identity_component :: component_report where
  "license_identity_component = proto_component ''license_identity'' ''healthy'' None
       ''License identity is bound to this private deployment.''
       [(''activation_mode'', JStr ''offline''),
        (''deployment_id'', JStr ''00000000-0000-4000-8000-000000000501''),
        (''install_id'', JStr ''00000000-0000-4000-8000-000000000502''),
        (''machine_fingerprint_hash'', JStr ''sha256:88f1...e1e2''),
        (''max_activations'', JNum (Fin 1))]"

definition production_config_component :: component_report where
  "production_config_component = proto_component ''production_config'' ''healthy'' None
       ''Production secret and config guardrails are satisfied for the prototype package.''
       [(''default_secrets_detected'', JBool False),
        (''environment'', JStr ''prototype''),
        (''private_deployment_ready'', JBool True),
        (''redaction_enabled'', JBool True)]"

definition proto_system_info :: system_info where
  "proto_system_info = \<lparr>sy_name = ''AgentHive'', sy_edition = ''private-deployment'', sy_version = ''0.1.0-prototype''\<rparr>"

definition proto_report :: "(string \<times> component_report) list \<Rightarrow> delivery_assessment option \<Rightarrow> health_report" where
  "proto_report cs d =
     \<lparr>hr_status = ''healthy'', hr_service = ''agenthive-backend'', hr_version = ''0.1.0-prototype'',
      hr_environment = ''prototype'', hr_checked_at = proto_checked_at, hr_components = cs, hr_delivery = d\<rparr>"

definition proto_health_report :: health_report where
  "proto_health_report = proto_report
   [(''database'', proto_component ''postgresql'' ''healthy'' None
       ''PostgreSQL business database is reachable in Prototype Mode.''
       [(''business_database'', JStr ''PostgreSQL 16''),
        (''migration_state'', JStr ''current''),
        (''tenant_count'', JNum (Fin 1))]),
    (''license_identity'', license_identity_component),
    (''minio'', proto_component ''minio'' ''healthy'' None
       ''MinIO object storage boundary is configured.''
       [(''bucket_count'', JNum (Fin 3)),
        (''default_bucket'', JStr ''agenthive-knowledge''),
        (''object_storage_boundary'', JStr ''private_minio'')]),
    (''production_config'', production_config_component),
    (''redis'', proto_component ''redis'' ''healthy'' None
       ''Redis cache and queue runtime are reachable.''
       [(''broker'', JStr ''redis://redis:6379/0''),
        (''cache_namespace'', JStr ''agenthive''),
        (''queue_runtime'', JStr ''celery'')])] None"

definition proto_readiness_components :: "snapshot \<Rightarrow> (string \<times> component_report) list" where
  "proto_readiness_components snap =
   [(''audit_diagnostics'', proto_component ''audit'' ''healthy'' None
       ''Audit log export and diagnostics redaction are ready.''
       [(''diagnostics_export'', JBool True),
        (''redaction_enabled'', JBool True),
        (''system_diagnostics_permission'', JStr ''system:diagnostics'')]),
    (''agent_concurrency'', proto_component ''agent_concurrency'' ''healthy'' None
       ''Agent concurrency guard is enabled for tenant, user, and Agent execution slots.''
       [(''active_slot_count'', JNum (Fin 2)),
        (''agent_limit'', JNum (Fin 12)),
        (''enabled'', JBool True),
        (''tenant_limit'', JNum (Fin 40)),
        (''user_limit'', JNum (Fin 4))]),
    (''budget_governance'', proto_component ''budget'' ''healthy'' None
       ''Model budget guardrails and cost ledgers are configured.''
       [(''cost_center_scope'', JStr ''Customer Success''),
        (''ledger_export'', JBool True),
        (''monthly_budget_usd'', JStr ''2500.0000''),
        (''pre_call_guard'', JBool True)]),
    (''channel_gateway'', proto_component ''channel_gateway'' (if sn_channels snap \<noteq> [] then ''healthy'' else ''degraded'') None
       ''Unified Channel Gateway has routable channels.''
       [(''active_channels'', JNum (num_of_nat (length (filter (\<lambda>c. ch_status c = Chan_Active) (sn_channels snap))))),
        (''configured_channels'', JNum (num_of_nat (length (sn_channels snap)))),
        (''supported_channels'', JArr [JStr ''web_widget'', JStr ''wecom'', JStr ''dingtalk'', JStr ''feishu'', JStr ''rest_api''])]),
    (''database'', proto_component ''postgresql'' ''healthy'' None
       ''PostgreSQL is the authoritative business database.''
       [(''business_database'', JStr ''PostgreSQL 16''),
        (''core_tables'', JArr [JStr ''tenants'', JStr ''users'', JStr ''agent_instances'', JStr ''knowledge_bases'', JStr ''llm_usage_ledger'']),
        (''migration_state'', JStr ''current'')]),
    (''frontend'', proto_component ''vite/nginx'' ''healthy'' None
       ''Management console is available and localized.''
       [(''console'', JStr ''AgentHive management console''),
        (''i18n'', JArr [JStr ''zh-CN'', JStr ''en-US'']),
        (''mode'', JStr ''prototype_artifact_check'')]),
    (''knowledge_runtime'', proto_component ''rag'' (if sn_knowledge_documents snap \<noteq> [] then ''healthy'' else ''degraded'') None
       ''Knowledge bases are indexed and ready for Agent binding.''
       [(''indexed_documents'', JNum (num_of_nat (length (filter (\<lambda>d. kd_status d = Indexed) (sn_knowledge_documents snap))))),
        (''knowledge_bases'', JNum (num_of_nat (length (sn_knowledge_bases snap)))),
        (''object_storage'', JStr ''MinIO''),
        (''vector_store'', JStr ''PostgreSQL + pgvector'')]),
    (''license_identity'', license_identity_component),
    (''litellm'', proto_component ''llm_gateway'' ''healthy'' None
       ''AgentHive LLM Gateway has multi-model routes configured.''
       [(''adapter'', JStr ''LiteLLM + OpenAI-compatible''),
        (''configured_routes'', JArr [JStr ''cn-primary-chat'', JStr ''premium-chat'', JStr ''cost-chat'', JStr ''long-context-chat'']),
        (''providers'', JArr [JStr ''OpenAI'', JStr ''Claude'', JStr ''Gemini'', JStr ''Qwen'', JStr ''DeepSeek'', JStr ''Kimi'', JStr ''MiniMax'', JStr ''GLM'', JStr ''Ollama''])]),
    (''minio'', proto_component ''minio'' ''healthy'' None
       ''Uploaded files and exports are stored through MinIO.''
       [(''buckets'', JArr [JStr ''agenthive-knowledge'', JStr ''agenthive-exports'', JStr ''agenthive-channel-attachments'']),
        (''long_term_local_disk_storage'', JBool False)]),
    (''pgvector'', proto_component ''pgvector'' ''healthy'' None
       ''pgvector retrieval fallback is ready.''
       [(''fallback_vector_store'', JBool True),
        (''retrieval_mode'', JStr ''vector_similarity''),
        (''schema_ready'', JBool True)]),
    (''production_config'', production_config_component),
    (''redis'', proto_component ''redis'' ''healthy'' None
       ''Redis runtime dependencies are ready.''
       [(''cache'', JBool True),
        (''queue'', JStr ''celery''),
        (''rate_limit'', JBool True)]),
    (''ragflow'', proto_component ''ragflow'' ''degraded'' (Some \<lparr>rm_summary = Some ''RAGFlow is not required for the default private deployment.'', rm_action = Some ''Configure RAGFLOW_URL only for tenants that require RAGFlow workflows.'', rm_docs_anchor = Some ''deployment.ragflow''\<rparr>)
       ''RAGFlow is optional; pgvector fallback remains available.''
       [(''engine_optional'', JBool True),
        (''fallback_engine'', JStr ''pgvector''),
        (''tenant_engine_routing'', JBool True)])]"

definition delivery_labels :: "(string \<times> string) list" where
  "delivery_labels =
   [(''channel_gateway'', ''Unified Channel Gateway''),
    (''audit_diagnostics'', ''Audit and diagnostics export''),
    (''budget_governance'', ''Model budget governance''),
    (''database'', ''PostgreSQL business database''), (''frontend'', ''AgentHive management console''),
    (''knowledge_runtime'', ''Knowledge and RAG runtime''),
    (''license_identity'', ''License install identity''),
    (''litellm'', ''LiteLLM model gateway adapter''), (''minio'', ''MinIO object storage''),
    (''pgvector'', ''PostgreSQL pgvector retrieval store''),
    (''production_config'', ''Production secret and config gate''),
    (''redis'', ''Redis cache and queue runtime'')]"

definition delivery_label :: "string \<Rightarrow> string" where
  "delivery_label k = coalesce (map_of delivery_labels k) (underscores_out k)"

definition pass_check :: "string \<times> component_report \<Rightarrow> delivery_check" where
  "pass_check c =
     \<lparr>dc_id = fst c, dc_label = delivery_label (fst c), dc_component = fst c, dc_status = cr_status (snd c),
      dc_severity = ''pass'', dc_message = Some (coalesce (cr_message (snd c)) []), dc_remediation = None\<rparr>"

definition ragflow_warning :: "(string \<times> component_report) list \<Rightarrow> delivery_check" where
  "ragflow_warning cs =
     \<lparr>dc_id = ''ragflow'', dc_label = ''Optional RAGFlow integration'', dc_component = ''ragflow'',
      dc_status = (case map_of cs ''ragflow'' of None \<Rightarrow> [] | Some c \<Rightarrow> cr_status c), dc_severity = ''warning'',
      dc_message = Some ''RAGFlow is not configured in Prototype Mode; pgvector fallback is ready.'',
      dc_remediation = (case map_of cs ''ragflow'' of None \<Rightarrow> None | Some c \<Rightarrow> cr_remediation c)\<rparr>"

definition runtime_check :: "snapshot \<Rightarrow> delivery_check" where
  "runtime_check snap =
     \<lparr>dc_id = ''agent_runtime'', dc_label = ''Agent runtime package'', dc_component = ''agent_runtime'',
      dc_status = ''healthy'', dc_severity = ''pass'',
      dc_message = Some (nat_str (length (sn_agent_instances snap)) @ '' Agent instance(s), '' @
        nat_str (length (filter am_enabled (sn_agent_modules snap))) @ '' enabled module(s), and '' @
        nat_str (length (sn_knowledge_bases snap)) @ '' knowledge base(s) are available.''),
      dc_remediation = None\<rparr>"

definition proto_delivery :: "(string \<times> component_report) list \<Rightarrow> snapshot \<Rightarrow> delivery_assessment" where
  "proto_delivery cs snap =
     \<lparr>da_status = ''ready_with_warnings'',
      da_summary = ''Deployment is usable for customer handoff; review optional RAGFlow integration only if required.'',
      da_blocker_count = Fin 0, da_warning_count = Fin 1, da_blockers = [], da_warnings = [ragflow_warning cs],
      da_checks = map pass_check (filter (\<lambda>c. fst c \<noteq> ''ragflow'') cs) @ [ragflow_warning cs, runtime_check snap]\<rparr>"

definition proto_readiness_report :: "snapshot \<Rightarrow> health_report" where
  "proto_readiness_report snap =
     (let cs = proto_readiness_components snap in proto_report cs (Some (proto_delivery cs snap)))"

definition proto_connection_evidence :: connection_evidence where
  "proto_connection_evidence =
     \<lparr>ce_status = ''healthy'',
      ce_summary = ''3 live provider network call(s) are recorded; 2 media provider live probe(s) are included.'',
      ce_recent_tests = Fin 4, ce_live_calls = Fin 3, ce_media_probes = Fin 2, ce_failed_recent = Fin 0,
      ce_providers = [''qwen'', ''nano_banana'', ''volcengine_seedance''],
      ce_latest_probe = JObj [(''checked_at'', JStr proto_checked_at), (''configuration_source'', JStr ''tenant_credential''), (''latency_ms'', JNum (Fin 186)), (''live_network_call'', JBool True), (''model_key'', JStr ''qwen-plus''), (''ok'', JBool True), (''operation'', JStr ''model_connection_check''), (''probe_path'', JNull), (''provider_key'', JStr ''qwen''), (''provider_type'', JStr ''openai_compatible''), (''selected_route_reason'', JStr ''department policy matched Customer Success''), (''status'', JStr ''success''), (''status_code'', JNull)],
      ce_latest_media_probe = JObj [(''checked_at'', JStr proto_checked_at), (''configuration_source'', JStr ''tenant_credential''), (''latency_ms'', JNum (Fin 72)), (''live_network_call'', JBool True), (''model_key'', JStr ''google/nano-banana''), (''ok'', JBool True), (''operation'', JStr ''media_provider_live_probe''), (''probe_path'', JStr ''/models''), (''provider_key'', JStr ''nano_banana''), (''provider_type'', JStr ''nano_banana''), (''selected_route_reason'', JStr ''media_provider_configuration''), (''status'', JStr ''success''), (''status_code'', JNum (Fin 200))],
      ce_recent = []\<rparr>"

definition proto_knowledge_evidence :: "snapshot \<Rightarrow> knowledge_evidence" where
  "proto_knowledge_evidence snap =
     \<lparr>ke_status = ''healthy'',
      ke_summary = ''3 knowledge-enabled Agent run(s) are recorded; 3 run(s) returned cited knowledge sources.'',
      ke_recent_runs = Fin 4, ke_enabled_runs = Fin 3, ke_runs_with_sources = Fin 3, ke_human_review = Fin 0,
      ke_guardrails = Fin 0, ke_agents = [''customer_service'', ''copywriting''],
      ke_latest_run = JObj
       [(''agent_instance_id'', opt_str (map_option ai_id (first_of (sn_agent_instances snap)))),
        (''agent_instance_name'', JStr (coalesce (map_option ai_name (first_of (sn_agent_instances snap)))
           (utf8 [0x552E, 0x540E, 0x5BA2, 0x670D]))),
        (''agent_key'', JStr ''customer_service''), (''checked_at'', JStr proto_checked_at),
        (''confidence_level'', JStr ''high''), (''guardrail_mode'', JStr ''strict''), (''guardrail_triggered'', JBool False),
        (''knowledge_base_ids'', JArr (map JStr (take 2 (map kb_id (sn_knowledge_bases snap))))),
        (''knowledge_enabled'', JBool True), (''max_score'', JNum (round_double (91 / 100))),
        (''min_score'', JNum (round_double (86 / 100))), (''model_key'', JStr ''qwen-plus''),
        (''required_module'', JStr ''agent.customer_service''), (''requires_human_review'', JBool False),
        (''review_reason'', JStr ''strong_source_match''), (''routing_key'', JStr ''customer-service-route''),
        (''skipped_model_call'', JBool False), (''source_count'', JNum (Fin 2)), (''status'', JStr ''success'')],
      ke_recent = []\<rparr>"

definition proto_system_diagnostics :: "snapshot \<Rightarrow> system_diagnostics" where
  "proto_system_diagnostics snap =
     \<lparr>sd_connection = Some proto_connection_evidence, sd_health = proto_health_report, sd_info = proto_system_info,
      sd_knowledge = Some (proto_knowledge_evidence snap), sd_readiness = proto_readiness_report snap\<rparr>"

section \<open>The hook\<close>

definition diagnostics_of :: "health_report \<times> health_report \<times> system_info \<times> diagnostics_report \<Rightarrow> system_diagnostics" where
  "diagnostics_of r =
     (case r of (health, ready, info, rep) \<Rightarrow>
        \<lparr>sd_connection = dr_connection rep, sd_health = health, sd_info = info, sd_knowledge = dr_knowledge rep,
         sd_readiness = ready\<rparr>)"

definition all_fulfilled ::
  "exn + 'a \<Rightarrow> exn + 'b \<Rightarrow> exn + 'c \<Rightarrow> exn + 'd \<Rightarrow> (exn list \<Rightarrow> exn) \<Rightarrow> exn + 'a \<times> 'b \<times> 'c \<times> 'd" where
  \<comment> \<open>\<open>Promise.all\<close>: the error is the one that came first, which \<open>pick\<close> says among them\<close>
  "all_fulfilled a b c d pick =
     (case (a, b, c, d) of
        (Inr w, Inr x, Inr y, Inr z) \<Rightarrow> Inr (w, x, y, z)
      | _ \<Rightarrow> Inl (pick (concat [case a of Inl e \<Rightarrow> [e] | _ \<Rightarrow> [], case b of Inl e \<Rightarrow> [e] | _ \<Rightarrow> [],
                               case c of Inl e \<Rightarrow> [e] | _ \<Rightarrow> [], case d of Inl e \<Rightarrow> [e] | _ \<Rightarrow> []])))"

definition load_diagnostics ::
  "bool \<Rightarrow> snapshot \<Rightarrow> (unit, system_diagnostics) resource \<Rightarrow> (unit, system_diagnostics) resource" where
  "load_diagnostics proto snap = store_load proto (proto_system_diagnostics snap)"

definition diagnostics_answered ::
  "(string \<Rightarrow> string) \<Rightarrow> nat \<Rightarrow> (nat \<Rightarrow> exn + health_report \<times> health_report \<times> system_info \<times> diagnostics_report) \<Rightarrow>
   (unit, system_diagnostics) resource \<Rightarrow> (unit, system_diagnostics) resource" where
  "diagnostics_answered t = store_answered t diagnostics_of"

definition diagnostics_shown ::
  "bool \<Rightarrow> snapshot \<Rightarrow> (unit, system_diagnostics) resource \<Rightarrow> system_diagnostics async_state" where
  "diagnostics_shown proto snap = store_shown proto (proto_system_diagnostics snap)"

section \<open>Facts\<close>

text \<open>The rows of the table: every component once, the broken ones first, then the degraded ones.\<close>

lemma compare_health_weight:
  "compare_health collate a b \<le> 0 \<Longrightarrow> status_weight (cr_status (snd a)) \<le> status_weight (cr_status (snd b))"
  "\<not> compare_health collate a b \<le> 0 \<Longrightarrow> status_weight (cr_status (snd b)) \<le> status_weight (cr_status (snd a))"
  by (auto simp: compare_health_def Let_def split: if_splits)

lemma health_rows_ordered:
  "mset (health_rows collate (Some r)) = mset (hr_components r) \<and>
   sorted_wrt (\<lambda>a b. status_weight (cr_status (snd a)) \<le> status_weight (cr_status (snd b))) (health_rows collate (Some r))"
  unfolding health_rows_def option.case
  by (auto intro!: sorted_wrt_sort_by dest: compare_health_weight)

text \<open>At most five issues are shown, and no warning while a blocker is left out.\<close>

lemma issues_blockers_first:
  "length (issues_shown (Some a)) \<le> 5 \<and>
   sorted_wrt (\<lambda>x y. severity_weight (dc_severity x) \<le> severity_weight (dc_severity y)) (issues_shown (Some a))"
proof -
  have "sorted_wrt (\<lambda>x y. severity_weight (dc_severity x) \<le> severity_weight (dc_severity y))
      (delivery_issue_rows xs)" for xs
    unfolding delivery_issue_rows_def by (rule sorted_wrt_sort_by) auto
  then show ?thesis by (simp add: issues_shown_def sorted_wrt_take)
qed

text \<open>Every component whose label is translated has a label for readers without translations.\<close>

lemma labels_complete: "map fst fallback_component_labels = map fst component_label_keys"
  by (simp add: fallback_component_labels_def component_label_keys_def)

text \<open>
  In the prototype the checks of the delivery do not look at the components: without a channel or a
  document these are degraded, the checks pass, and one warning is counted.
\<close>

lemma degraded_component_passes:
  assumes "sn_channels snap = []"
  shows "list_ex (\<lambda>c. dc_id c = ''channel_gateway'' \<and> dc_status c = ''degraded'' \<and> dc_severity c = ''pass'')
      (da_checks (the (hr_delivery (proto_readiness_report snap)))) \<and>
    da_warning_count (the (hr_delivery (proto_readiness_report snap))) = Fin 1"
  using assms
  by (simp add: proto_readiness_report_def proto_report_def proto_delivery_def Let_def proto_readiness_components_def
      pass_check_def proto_component_def)

text \<open>A readiness report is shown whatever status it came with, and an expired session is not taken for one.\<close>

lemma readiness_of_error:
  "get_readiness cast (Inl e) = Inr r \<longleftrightarrow> (\<exists>m st d. e = Api_Error m st d \<and> is_health_report d \<and> r = cast d)"
  by (cases e) (auto simp: get_readiness_def)

text \<open>One request that fails hides the answers of the other three.\<close>

lemma one_failure_hides_all:
  "all_fulfilled a b c d pick = Inr x \<longleftrightarrow>
   (\<exists>w y z v. a = Inr w \<and> b = Inr y \<and> c = Inr z \<and> d = Inr v \<and> x = (w, y, z, v))"
  by (cases a; cases b; cases c; cases d) (auto simp: all_fulfilled_def)

end
