(* ===== verification/Acceptance_Report.thy ===== *)
theory Acceptance_Report
  imports System_Health
begin

text \<open>
  The acceptance report of the settings page, \<open>pages/settings/acceptanceReportBuilder.ts\<close>: a Markdown text
  made of the diagnostics, line by line.
\<close>

definition dash :: "string option \<Rightarrow> string" where \<comment> \<open>\<open>x ?? "-"\<close>\<close>
  "dash x = coalesce x ''-''"

definition prop_or_dash :: "string \<Rightarrow> jsval \<Rightarrow> string" where \<comment> \<open>\<open>String(v.k ?? "-")\<close>\<close>
  "prop_or_dash k v = js_string (js_coalesce (get_prop k v) (JStr ''-''))"

definition replace_char :: "char \<Rightarrow> string \<Rightarrow> string \<Rightarrow> string" where \<comment> \<open>\<open>s.replace(/c/g, r)\<close>\<close>
  "replace_char c r s = concat (map (\<lambda>x. if x = c then r else [x]) s)"

definition sanitize_markdown_cell :: "string \<Rightarrow> string" where
  "sanitize_markdown_cell v = replace_char nl '' '' (replace_char (CHR ''|'') [CHR 0x5C, CHR ''|''] v)"

definition issue_section :: "string \<Rightarrow> delivery_check list \<Rightarrow> (string \<Rightarrow> string) \<Rightarrow> string list" where
  "issue_section title checks t =
     [''### '' @ title, []] @
     (if checks = [] then [t ''settingsDeliveryNoIssues'']
      else concat (map (\<lambda>c. [''- **'' @ dc_label c @ ''** ('' @ component_label (dc_component c) (Some t) @ '')'',
                              ''  '' @ dash (dc_message c)]) checks))"

definition component_details :: "string \<Rightarrow> component_report option \<Rightarrow> (string \<Rightarrow> string) option \<Rightarrow> string list" where
  "component_details name c t =
     (case c of
        None \<Rightarrow> [''- '' @ component_label name t @ '': not_available'']
      | Some r \<Rightarrow>
          [''- '' @ component_label name t,
           ''  - '' @ (case t of Some f \<Rightarrow> f ''settingsStatus'' | None \<Rightarrow> ''status'') @ '': '' @ cr_status r,
           ''  - '' @ (case t of Some f \<Rightarrow> f ''settingsMessage'' | None \<Rightarrow> ''message'') @ '': '' @ dash (cr_message r)] @
          map (\<lambda>(k, v). ''  - '' @ component_label k t @ '': '' @ format_detail_value v) (coalesce (cr_details r) []))"

definition connection_probe_details :: "jsval \<Rightarrow> string list" where
  "connection_probe_details p =
     (if \<not> truthy p then []
      else map (\<lambda>(l, k). ''- '' @ l @ '': '' @ prop_or_dash k p)
             [(''provider'', ''provider_key''), (''model'', ''model_key''), (''operation'', ''operation''), (''ok'', ''ok''),
              (''checked_at'', ''checked_at''), (''HTTP status'', ''status_code''), (''probe_path'', ''probe_path''),
              (''latency_ms'', ''latency_ms'')])"

definition connection_evidence_details :: "connection_evidence option \<Rightarrow> (string \<Rightarrow> string) \<Rightarrow> string list" where
  "connection_evidence_details e t =
     (case e of
        None \<Rightarrow> [''- '' @ t ''settingsAcceptanceConnectionEvidenceUnavailable'']
      | Some c \<Rightarrow>
          [''- status: '' @ ce_status c, ''- summary: '' @ ce_summary c, ''- recent_tests: '' @ num_str (ce_recent_tests c),
           ''- live_network_calls: '' @ num_str (ce_live_calls c), ''- media_live_probes: '' @ num_str (ce_media_probes c),
           ''- recent_failures: '' @ num_str (ce_failed_recent c),
           ''- providers: '' @ text_or (join '', '' (ce_providers c)) ''-''] @
          (if truthy (ce_latest_probe c)
           then [[], ''### '' @ t ''settingsAcceptanceLatestLiveProbe''] @ connection_probe_details (ce_latest_probe c) else []) @
          (if truthy (ce_latest_media_probe c) \<and> stringify (ce_latest_media_probe c) \<noteq> stringify (ce_latest_probe c)
           then [[], ''### '' @ t ''settingsAcceptanceLatestMediaProbe''] @ connection_probe_details (ce_latest_media_probe c)
           else []))"

definition knowledge_run_details :: "jsval \<Rightarrow> string list" where
  "knowledge_run_details r =
     (if \<not> truthy r then []
      else
        [''- agent: '' @ prop_or_dash ''agent_key'' r,
         ''- instance: '' @ js_string (js_coalesce (js_coalesce (get_prop ''agent_instance_name'' r)
            (get_prop ''agent_instance_id'' r)) (JStr ''-''))] @
        map (\<lambda>(l, k). ''- '' @ l @ '': '' @ prop_or_dash k r)
          [(''model'', ''model_key''), (''checked_at'', ''checked_at''), (''sources'', ''source_count''),
           (''confidence'', ''confidence_level''), (''max_score'', ''max_score''),
           (''review_required'', ''requires_human_review''), (''guardrail'', ''guardrail_mode'')])"

definition knowledge_evidence_details :: "knowledge_evidence option \<Rightarrow> (string \<Rightarrow> string) \<Rightarrow> string list" where
  "knowledge_evidence_details e t =
     (case e of
        None \<Rightarrow> [''- '' @ t ''settingsAcceptanceKnowledgeEvidenceUnavailable'']
      | Some k \<Rightarrow>
          [''- status: '' @ ke_status k, ''- summary: '' @ ke_summary k, ''- recent_runs: '' @ num_str (ke_recent_runs k),
           ''- knowledge_enabled_runs: '' @ num_str (ke_enabled_runs k),
           ''- runs_with_sources: '' @ num_str (ke_runs_with_sources k),
           ''- human_review_required: '' @ num_str (ke_human_review k),
           ''- guardrail_triggered: '' @ num_str (ke_guardrails k),
           ''- agents: '' @ text_or (join '', '' (ke_agents k)) ''-''] @
          (if truthy (ke_latest_run k)
           then [[], ''### '' @ t ''settingsAcceptanceLatestKnowledgeRun''] @ knowledge_run_details (ke_latest_run k) else []))"

definition component_in :: "system_diagnostics \<Rightarrow> string \<Rightarrow> component_report option" where
  \<comment> \<open>\<open>readiness.components[key] ?? health.components[key]\<close>\<close>
  "component_in d k = or_else (map_of (hr_components (sd_readiness d)) k) (map_of (hr_components (sd_health d)) k)"

definition count_or_dash :: "('a \<Rightarrow> jsnum) \<Rightarrow> 'a option \<Rightarrow> string" where
  "count_or_dash f e = dash (map_option (num_str \<circ> f) e)"

definition agent_production_keys :: "string list" where
  "agent_production_keys =
     [''agent_runtime'', ''agent_concurrency'', ''knowledge_runtime'', ''budget_governance'', ''channel_gateway'', ''litellm'',
      ''media_generation'']"

definition agent_production_details :: "system_diagnostics \<Rightarrow> (string \<Rightarrow> string) \<Rightarrow> string list" where
  "agent_production_details d t =
     (let k = sd_knowledge d; c = sd_connection d in
      [''### '' @ t ''settingsAcceptanceAgentRuntimeComponents'', []] @
      concat (map (\<lambda>x. component_details x (component_in d x) (Some t) @ [[]]) agent_production_keys) @
      [''### '' @ t ''settingsAcceptanceAgentRuntimeSignals'', [],
       ''- '' @ t ''settingsAcceptanceAgentKnowledgeRuns'' @ '': '' @ count_or_dash ke_enabled_runs k,
       ''- '' @ t ''settingsAcceptanceAgentRunsWithSources'' @ '': '' @ count_or_dash ke_runs_with_sources k,
       ''- '' @ t ''settingsAcceptanceAgentHumanReview'' @ '': '' @ count_or_dash ke_human_review k,
       ''- '' @ t ''settingsAcceptanceAgentGuardrails'' @ '': '' @ count_or_dash ke_guardrails k,
       ''- '' @ t ''settingsAcceptanceAgentProviders'' @ '': '' @
         text_or (case c of None \<Rightarrow> [] | Some x \<Rightarrow> join '', '' (ce_providers x)) ''-'',
       ''- '' @ t ''settingsAcceptanceAgentLiveModelCalls'' @ '': '' @ count_or_dash ce_live_calls c,
       ''- '' @ t ''settingsAcceptanceAgentMediaProbes'' @ '': '' @ count_or_dash ce_media_probes c,
       ''- '' @ t ''settingsAcceptanceAgentRecentFailures'' @ '': '' @ count_or_dash ce_failed_recent c])"

definition component_row :: "(string \<Rightarrow> string) \<Rightarrow> string \<times> component_report \<Rightarrow> string" where
  "component_row t c =
     join '' | '' [component_label (fst c) (Some t), cr_status (snd c), sanitize_markdown_cell (dash (cr_message (snd c))),
       sanitize_markdown_cell (dash (localized_remediation_text (cr_remediation (snd c)) t))]"

definition report_head ::
  "(string \<Rightarrow> string) \<Rightarrow> (string \<Rightarrow> string) \<Rightarrow> string \<Rightarrow> (string \<times> component_report) list \<Rightarrow> system_diagnostics \<Rightarrow> string list" where
  "report_head intl t generated rows d =
     (let i = sd_info d; r = sd_readiness d; a = hr_delivery r in
      [''# '' @ t ''settingsAcceptanceReportTitle'', [],
       ''- '' @ t ''settingsAcceptanceGeneratedAt'' @ '': '' @ generated,
       ''- '' @ t ''settingsProduct'' @ '': '' @ sy_name i @ '' '' @ sy_version i @ '' ('' @ sy_edition i @ '')'',
       ''- '' @ t ''settingsAcceptanceEnvironment'' @ '': '' @ hr_environment r,
       ''- '' @ replace_first ''{{time}}'' (format_checked_at intl (Some (hr_checked_at r))) (t ''settingsCheckedAt''), [],
       ''## '' @ t ''settingsAcceptanceDecision'', [],
       ''- '' @ t ''settingsAcceptanceStatus'' @ '': '' @
         (case a of None \<Rightarrow> t ''settingsDeliveryUnavailable'' | Some x \<Rightarrow> delivery_status_label (Some (da_status x)) t),
       ''- '' @ t ''settingsDeliveryBlockers'' @ '': '' @ count_or_dash da_blocker_count a,
       ''- '' @ t ''settingsDeliveryWarnings'' @ '': '' @ count_or_dash da_warning_count a,
       ''- '' @ t ''settingsDeliveryChecks'' @ '': '' @
         nat_str (case a of None \<Rightarrow> length rows | Some x \<Rightarrow> length (da_checks x)),
       ''- '' @ t ''settingsAcceptanceSummary'' @ '': '' @ localized_delivery_summary a t (Some (hr_status r)), []])"

definition acceptance_lines ::
  "(string \<Rightarrow> string \<Rightarrow> int) \<Rightarrow> (string \<Rightarrow> string) \<Rightarrow> (string \<Rightarrow> string) \<Rightarrow> string \<Rightarrow> system_diagnostics \<Rightarrow> string list" where
  "acceptance_lines collate intl t generated d =
     (let rows = health_rows collate (Some (sd_readiness d)); a = hr_delivery (sd_readiness d) in
      report_head intl t generated rows d @
      [''## '' @ t ''settingsAcceptanceIssues'', []] @
      issue_section (t ''settingsDeliveryBlockers'') (case a of None \<Rightarrow> [] | Some x \<Rightarrow> da_blockers x) t @ [[]] @
      issue_section (t ''settingsDeliveryWarnings'') (case a of None \<Rightarrow> [] | Some x \<Rightarrow> da_warnings x) t @
      [[], ''## '' @ t ''settingsAcceptanceCoreEvidence'', [],
       ''| '' @ t ''settingsComponent'' @ '' | '' @ t ''settingsStatus'' @ '' | '' @ t ''settingsMessage'' @ '' | '' @
         t ''settingsRemediationHeader'' @ '' |'',
       ''| --- | --- | --- | --- |''] @
      map (component_row t) rows @
      [[], ''## '' @ t ''settingsAcceptanceDeploymentIdentity'', []] @
      component_details ''license_identity'' (component_in d ''license_identity'') (Some t) @
      [[], ''## '' @ t ''settingsAcceptanceProductionConfig'', []] @
      component_details ''production_config'' (component_in d ''production_config'') (Some t) @
      [[], ''## '' @ t ''settingsAcceptanceConnectionEvidence'', []] @
      connection_evidence_details (sd_connection d) t @
      [[], ''## '' @ t ''settingsAcceptanceKnowledgeEvidence'', []] @
      knowledge_evidence_details (sd_knowledge d) t @
      [[], ''## '' @ t ''settingsAcceptanceAgentProductionEvidence'', []] @
      agent_production_details d t @
      [[], ''## '' @ t ''settingsAcceptanceHandoffActions'', [],
       ''1. '' @ t ''settingsAcceptanceActionStrictDiagnostics'', ''2. '' @ t ''settingsAcceptanceActionLicense'',
       ''3. '' @ t ''settingsAcceptanceActionBackup'', ''4. '' @ t ''settingsAcceptanceActionSignoff'', []])"

definition build_acceptance_report ::
  "(string \<Rightarrow> string \<Rightarrow> int) \<Rightarrow> (string \<Rightarrow> string) \<Rightarrow> (string \<Rightarrow> string) \<Rightarrow> string \<Rightarrow> system_diagnostics \<Rightarrow> string" where
  "build_acceptance_report collate intl t generated d = join [nl] (acceptance_lines collate intl t generated d)"

section \<open>Cells\<close>

text \<open>A cell stays on its line, and every bar in it follows a backslash.\<close>

fun bars_escaped :: "bool \<Rightarrow> string \<Rightarrow> bool" where \<comment> \<open>whether the character before is a backslash\<close>
  "bars_escaped b [] = True"
| "bars_escaped b (c # s) = ((c = CHR ''|'' \<longrightarrow> b) \<and> bars_escaped (c = CHR 0x5C) s)"

lemma no_newline_left: "nl \<notin> set (replace_char nl '' '' s)"
  by (auto simp: replace_char_def nl_def split: if_splits)

lemma escaped_cell: "bars_escaped b (sanitize_markdown_cell v) \<and> nl \<notin> set (sanitize_markdown_cell v)"
proof -
  have one: "sanitize_markdown_cell (c # v) =
      (if c = CHR ''|'' then [CHR 0x5C, CHR ''|''] else if c = nl then '' '' else [c]) @ sanitize_markdown_cell v" for c v
    by (simp add: sanitize_markdown_cell_def replace_char_def nl_def)
  have "bars_escaped b (sanitize_markdown_cell v)" for b
    by (induction v arbitrary: b) (auto simp: one, simp add: sanitize_markdown_cell_def replace_char_def)
  then show ?thesis using no_newline_left by (simp add: sanitize_markdown_cell_def)
qed

text \<open>The status of a component goes into its row as it is: a bar in it makes one more column.\<close>

lemma status_unescaped:
  "component_row t (k, c\<lparr>cr_status := ''a | b''\<rparr>) =
     component_label k (Some t) @ '' | a | b | '' @ sanitize_markdown_cell (dash (cr_message c)) @ '' | '' @
     sanitize_markdown_cell (dash (localized_remediation_text (cr_remediation c) t))"
  by (simp add: component_row_def)

text \<open>Every component of the readiness report has its line in the report.\<close>

lemma every_component_reported:
  assumes "c \<in> set (hr_components (sd_readiness d))"
  shows "component_row t c \<in> set (acceptance_lines collate intl t generated d)"
  using assms by (simp add: acceptance_lines_def Let_def health_rows_def)

text \<open>A probe that is both the latest and the latest of the media providers is reported once.\<close>

lemma same_probe_once:
  "ce_latest_media_probe c = ce_latest_probe c \<Longrightarrow>
   connection_evidence_details (Some c) t = connection_evidence_details (Some (c\<lparr>ce_latest_media_probe := JUndef\<rparr>)) t"
  by (simp add: connection_evidence_details_def)

end
