(* ===== verification/Widget_Hash.thy ===== *)
theory Widget_Hash
  imports Js_Value "HOL-Library.Word"
begin

text \<open>
  The hash of the embeddable chat widget, \<open>agenthive-widget.js\<close>: \<open>_rotr\<close>, \<open>_sha256\<close>, \<open>_hmacSync\<close> and
  \<open>_bytesToHex\<close>, with the 32-bit operators of JavaScript on whole numbers.  All numbers here are integers
  below \<open>2^53\<close> in size, where the arithmetic of doubles is that of \<open>int\<close>.  A reference SHA-256 (FIPS 180-4)
  and HMAC (RFC 2104) on words follow, which \<open>hashlib\<close> and \<open>hmac\<close> of the server compute, and the proof
  that the widget computes the same.
\<close>

unbundle bit_operations_syntax

section \<open>Operators\<close>

definition to_int32 :: "int \<Rightarrow> int" where "to_int32 x = signed_take_bit 31 x"

definition js_and :: "int \<Rightarrow> int \<Rightarrow> int" where "js_and x y = to_int32 x AND to_int32 y" \<comment> \<open>\<open>x & y\<close>\<close>
definition js_or :: "int \<Rightarrow> int \<Rightarrow> int" where "js_or x y = to_int32 x OR to_int32 y" \<comment> \<open>\<open>x | y\<close>\<close>
definition js_xor :: "int \<Rightarrow> int \<Rightarrow> int" where "js_xor x y = to_int32 x XOR to_int32 y" \<comment> \<open>\<open>x ^ y\<close>\<close>
definition js_not :: "int \<Rightarrow> int" where "js_not x = NOT (to_int32 x)" \<comment> \<open>\<open>~x\<close>\<close>

definition js_shl :: "int \<Rightarrow> nat \<Rightarrow> int" where \<comment> \<open>\<open>x << n\<close>\<close>
  "js_shl x n = to_int32 (push_bit (n mod 32) (to_int32 x))"

definition js_ushr :: "int \<Rightarrow> nat \<Rightarrow> int" where \<comment> \<open>\<open>x >>> n\<close>\<close>
  "js_ushr x n = drop_bit (n mod 32) (take_bit 32 x)"

definition to_uint8 :: "int \<Rightarrow> int" where \<comment> \<open>what an \<open>Uint8Array\<close> keeps\<close>
  "to_uint8 x = take_bit 8 x"

section \<open>The hash of the widget\<close>

definition rotr :: "int \<Rightarrow> nat \<Rightarrow> int" where
  "rotr x n = js_or (js_ushr x n) (js_shl x (32 - n))"

definition sha_k :: "int list" where \<comment> \<open>line by line as in the source\<close>
  "sha_k = concat [
     [0x428a2f98, 0x71374491, 0xb5c0fbcf, 0xe9b5dba5, 0x3956c25b, 0x59f111f1],
     [0x923f82a4, 0xab1c5ed5, 0xd807aa98, 0x12835b01, 0x243185be, 0x550c7dc3],
     [0x72be5d74, 0x80deb1fe, 0x9bdc06a7, 0xc19bf174, 0xe49b69c1, 0xefbe4786],
     [0x0fc19dc6, 0x240ca1cc, 0x2de92c6f, 0x4a7484aa, 0x5cb0a9dc, 0x76f988da],
     [0x983e5152, 0xa831c66d, 0xb00327c8, 0xbf597fc7, 0xc6e00bf3, 0xd5a79147],
     [0x06ca6351, 0x14292967, 0x27b70a85, 0x2e1b2138, 0x4d2c6dfc, 0x53380d13],
     [0x650a7354, 0x766a0abb, 0x81c2c92e, 0x92722c85, 0xa2bfe8a1, 0xa81a664b],
     [0xc24b8b70, 0xc76c51a3, 0xd192e819, 0xd6990624, 0xf40e3585, 0x106aa070],
     [0x19a4c116, 0x1e376c08, 0x2748774c, 0x34b0bcb5, 0x391c0cb3, 0x4ed8aa4a],
     [0x5b9cca4f, 0x682e6ff3, 0x748f82ee, 0x78a5636f, 0x84c87814, 0x8cc70208],
     [0x90befffa, 0xa4506ceb, 0xbef9a3f7, 0xc67178f2]]"

definition sha_h :: "int list" where
  "sha_h = [
     0x6a09e667, 0xbb67ae85, 0x3c6ef372, 0xa54ff53a, 0x510e527f, 0x9b05688c,
     0x1f83d9ab, 0x5be0cd19]"

function pad_zeros :: "int list \<Rightarrow> int list" where \<comment> \<open>\<open>while (msg.length % 64 !== 56) msg.push(0)\<close>\<close>
  "pad_zeros msg = (if length msg mod 64 \<noteq> 56 then pad_zeros (msg @ [0]) else msg)"
  by auto
termination
  by (relation "measure (\<lambda>msg. if length msg mod 64 \<le> 56 then 56 - length msg mod 64 else 120 - length msg mod 64)")
    (auto simp: mod_Suc)

declare pad_zeros.simps [simp del]

definition length_bytes :: "nat \<Rightarrow> int list" where
  "length_bytes l =
     (let bits = int l * 8; hi = bits div 0x100000000; lo = js_ushr bits 0 in
      map (\<lambda>i. js_and (js_ushr hi (24 - i * 8)) 0xff) [0..<4] @ map (\<lambda>j. js_and (js_ushr lo (24 - j * 8)) 0xff) [0..<4])"

definition padded :: "int list \<Rightarrow> int list" where
  "padded message = pad_zeros (message @ [0x80]) @ length_bytes (length message)"

definition word_at :: "int list \<Rightarrow> nat \<Rightarrow> nat \<Rightarrow> int" where
  "word_at msg off t =
     js_ushr (js_or (js_or (js_or (js_shl (msg ! (off + t * 4)) 24) (js_shl (msg ! (off + t * 4 + 1)) 16))
       (js_shl (msg ! (off + t * 4 + 2)) 8)) (msg ! (off + t * 4 + 3))) 0"

definition next_word :: "int list \<Rightarrow> nat \<Rightarrow> int" where
  "next_word w t =
     (let s0 = js_xor (js_xor (rotr (w ! (t - 15)) 7) (rotr (w ! (t - 15)) 18)) (js_ushr (w ! (t - 15)) 3);
          s1 = js_xor (js_xor (rotr (w ! (t - 2)) 17) (rotr (w ! (t - 2)) 19)) (js_ushr (w ! (t - 2)) 10)
      in js_ushr (w ! (t - 16) + s0 + w ! (t - 7) + s1) 0)"

definition schedule_words :: "int list \<Rightarrow> nat \<Rightarrow> int list" where
  "schedule_words msg off = fold (\<lambda>t w. w @ [next_word w t]) [16..<64] (map (word_at msg off) [0..<16])"

type_synonym 'a vars = "'a \<times> 'a \<times> 'a \<times> 'a \<times> 'a \<times> 'a \<times> 'a \<times> 'a"

fun sha_round :: "int \<Rightarrow> int \<Rightarrow> int vars \<Rightarrow> int vars" where
  "sha_round k w (a, b, c, d, e, f, g, hh) =
     (let S1 = js_xor (js_xor (rotr e 6) (rotr e 11)) (rotr e 25);
          ch = js_xor (js_and e f) (js_and (js_not e) g);
          temp1 = js_ushr (hh + S1 + ch + k + w) 0;
          S0 = js_xor (js_xor (rotr a 2) (rotr a 13)) (rotr a 22);
          maj = js_xor (js_xor (js_and a b) (js_and a c)) (js_and b c);
          temp2 = js_ushr (S0 + maj) 0
      in (js_ushr (temp1 + temp2) 0, a, b, c, js_ushr (d + temp1) 0, e, f, g))"

fun vars_of :: "'a list \<Rightarrow> 'a vars" where
  "vars_of h = (h ! 0, h ! 1, h ! 2, h ! 3, h ! 4, h ! 5, h ! 6, h ! 7)"

fun vars_list :: "'a vars \<Rightarrow> 'a list" where
  "vars_list (a, b, c, d, e, f, g, hh) = [a, b, c, d, e, f, g, hh]"

definition sha_block :: "int list \<Rightarrow> nat \<Rightarrow> int list \<Rightarrow> int list" where
  "sha_block msg off h =
     (let w = schedule_words msg off;
          v = fold (\<lambda>t. sha_round (sha_k ! t) (w ! t)) [0..<64] (vars_of h)
      in map2 (\<lambda>x y. js_ushr (x + y) 0) h (vars_list v))"

definition offsets :: "nat \<Rightarrow> nat list" where \<comment> \<open>\<open>for (off = 0; off < n; off += 64)\<close>\<close>
  "offsets n = map (\<lambda>i. i * 64) [0..<(n + 63) div 64]"

definition out_bytes :: "int list \<Rightarrow> int list" where
  "out_bytes h = concat (map (\<lambda>x. [js_and (js_ushr x 24) 0xff, js_and (js_ushr x 16) 0xff, js_and (js_ushr x 8) 0xff, js_and x 0xff]) h)"

definition sha256 :: "int list \<Rightarrow> int list" where
  "sha256 message = (let msg = padded message in out_bytes (fold (sha_block msg) (offsets (length msg)) sha_h))"

definition padded_key :: "int list \<Rightarrow> int list" where \<comment> \<open>the key in an array of 64 bytes, zeros after it\<close>
  "padded_key key = take 64 key @ replicate (64 - length key) 0"

definition hmac_sync :: "int list \<Rightarrow> int list \<Rightarrow> int list" where
  "hmac_sync key_bytes msg_bytes =
     (let key = padded_key (if length key_bytes > 64 then sha256 key_bytes else key_bytes);
          o_pad = map (\<lambda>x. to_uint8 (js_xor x 0x5c)) key;
          i_pad = map (\<lambda>x. to_uint8 (js_xor x 0x36)) key
      in sha256 (o_pad @ sha256 (i_pad @ msg_bytes)))"

definition byte_hex :: "int \<Rightarrow> string" where \<comment> \<open>\<open>toString(16)\<close> of a byte, with a zero before one digit\<close>
  "byte_hex b = (if b < 16 then ''0'' @ [hex_digit (nat b)] else [hex_digit (nat (b div 16)), hex_digit (nat (b mod 16))])"

definition bytes_to_hex :: "int list \<Rightarrow> string" where
  "bytes_to_hex bytes = concat (map byte_hex bytes)"

definition text_bytes :: "string \<Rightarrow> int list" where \<comment> \<open>\<open>new TextEncoder().encode(s)\<close>: texts are UTF-8 here\<close>
  "text_bytes s = map of_char s"

definition hmac_sha256_hex :: "string \<Rightarrow> string \<Rightarrow> string" where
  "hmac_sha256_hex secret message = bytes_to_hex (hmac_sync (text_bytes secret) (text_bytes message))"

section \<open>The reference\<close>

definition be_bytes :: "nat \<Rightarrow> 'a::len word \<Rightarrow> 8 word list" where \<comment> \<open>the lowest \<open>n\<close> bytes, the highest first\<close>
  "be_bytes n w = map (\<lambda>i. ucast (drop_bit (8 * (n - Suc i)) w)) [0..<n]"

definition be_word :: "8 word list \<Rightarrow> 32 word" where
  "be_word b = foldl (\<lambda>w x. push_bit 8 w OR ucast x) 0 b"

definition spec_ch :: "32 word \<Rightarrow> 32 word \<Rightarrow> 32 word \<Rightarrow> 32 word" where
  "spec_ch x y z = (x AND y) XOR (NOT x AND z)"

definition spec_maj :: "32 word \<Rightarrow> 32 word \<Rightarrow> 32 word \<Rightarrow> 32 word" where
  "spec_maj x y z = (x AND y) XOR (x AND z) XOR (y AND z)"

definition spec_Sigma0 :: "32 word \<Rightarrow> 32 word" where
  "spec_Sigma0 x = word_rotr 2 x XOR word_rotr 13 x XOR word_rotr 22 x"

definition spec_Sigma1 :: "32 word \<Rightarrow> 32 word" where
  "spec_Sigma1 x = word_rotr 6 x XOR word_rotr 11 x XOR word_rotr 25 x"

definition spec_sigma0 :: "32 word \<Rightarrow> 32 word" where
  "spec_sigma0 x = word_rotr 7 x XOR word_rotr 18 x XOR drop_bit 3 x"

definition spec_sigma1 :: "32 word \<Rightarrow> 32 word" where
  "spec_sigma1 x = word_rotr 17 x XOR word_rotr 19 x XOR drop_bit 10 x"

definition spec_pad :: "8 word list \<Rightarrow> 8 word list" where
  "spec_pad m = m @ 0x80 # replicate ((119 - length m mod 64) mod 64) 0 @ be_bytes 8 (of_nat (8 * length m) :: 64 word)"

definition spec_words :: "8 word list \<Rightarrow> 32 word list" where
  "spec_words b = map (\<lambda>i. be_word (take 4 (drop (4 * i) b))) [0..<16]"

definition spec_schedule :: "8 word list \<Rightarrow> 32 word list" where
  "spec_schedule b =
     fold (\<lambda>t w. w @ [spec_sigma1 (w ! (t - 2)) + w ! (t - 7) + spec_sigma0 (w ! (t - 15)) + w ! (t - 16)])
       [16..<64] (spec_words b)"

fun spec_round :: "32 word \<Rightarrow> 32 word \<Rightarrow> 32 word vars \<Rightarrow> 32 word vars" where
  "spec_round k w (a, b, c, d, e, f, g, h) =
     (let T1 = h + spec_Sigma1 e + spec_ch e f g + k + w; T2 = spec_Sigma0 a + spec_maj a b c
      in (T1 + T2, a, b, c, d + T1, e, f, g))"

definition spec_block :: "8 word list \<Rightarrow> 32 word list \<Rightarrow> 32 word list" where
  "spec_block b h =
     (let w = spec_schedule b
      in map2 (+) h (vars_list (fold (\<lambda>t. spec_round (word_of_int (sha_k ! t)) (w ! t)) [0..<64] (vars_of h))))"

function chunks :: "nat \<Rightarrow> 'a list \<Rightarrow> 'a list list" where
  "chunks n xs = (if xs = [] \<or> n = 0 then [] else take n xs # chunks n (drop n xs))"
  by auto
termination by (relation "measure (\<lambda>(n, xs). length xs)") auto

declare chunks.simps [simp del]

definition spec_sha256 :: "8 word list \<Rightarrow> 8 word list" where
  "spec_sha256 m = concat (map (be_bytes 4) (fold spec_block (chunks 64 (spec_pad m)) (map word_of_int sha_h)))"

definition spec_key :: "8 word list \<Rightarrow> 8 word list" where
  "spec_key key = (let k = if length key > 64 then spec_sha256 key else key in k @ replicate (64 - length k) 0)"

definition spec_hmac :: "8 word list \<Rightarrow> 8 word list \<Rightarrow> 8 word list" where
  "spec_hmac key m =
     spec_sha256 (map (\<lambda>x. x XOR 0x5c) (spec_key key) @ spec_sha256 (map (\<lambda>x. x XOR 0x36) (spec_key key) @ m))"

section \<open>The operators on words\<close>

abbreviation w32 :: "int \<Rightarrow> 32 word" where "w32 \<equiv> word_of_int"

named_theorems w32_simps

lemma bit_w32: "bit (w32 x) n \<longleftrightarrow> n < 32 \<and> bit x n"
  by (simp add: bit_word_of_int_iff)

lemma bit_to_int32: "n < 32 \<Longrightarrow> bit (to_int32 x) n = bit x n"
  by (cases "n = 31") (auto simp: to_int32_def bit_signed_take_bit_iff min_def)

lemma w32_to_int32 [w32_simps]: "w32 (to_int32 x) = w32 x"
  by (rule bit_word_eqI) (simp add: bit_w32 bit_to_int32)

lemma w32_and [w32_simps]: "w32 (js_and x y) = w32 x AND w32 y"
  by (rule bit_word_eqI) (simp add: js_and_def bit_w32 bit_to_int32 bit_and_iff)

lemma w32_or [w32_simps]: "w32 (js_or x y) = w32 x OR w32 y"
  by (rule bit_word_eqI) (simp add: js_or_def bit_w32 bit_to_int32 bit_or_iff)

lemma w32_xor [w32_simps]: "w32 (js_xor x y) = w32 x XOR w32 y"
  by (rule bit_word_eqI) (simp add: js_xor_def bit_w32 bit_to_int32 bit_xor_iff)

lemma w32_not [w32_simps]: "w32 (js_not x) = NOT (w32 x)"
  by (rule bit_word_eqI) (simp add: js_not_def bit_w32 bit_to_int32 bit_not_iff)

lemma w32_shl [w32_simps]: "n < 32 \<Longrightarrow> w32 (js_shl x n) = push_bit n (w32 x)"
  by (rule bit_word_eqI) (auto simp: js_shl_def bit_w32 bit_to_int32 bit_push_bit_iff)

lemma w32_ushr [w32_simps]: "n < 32 \<Longrightarrow> w32 (js_ushr x n) = drop_bit n (w32 x)"
  by (rule bit_word_eqI) (auto simp: js_ushr_def bit_w32 bit_drop_bit_eq bit_take_bit_iff)

lemma w32_u32 [w32_simps]: "w32 (js_ushr x 0) = w32 x"
  by (simp add: w32_ushr)

lemma u32_uint: "js_ushr x 0 = uint (w32 x)"
  by (simp add: js_ushr_def uint_word_of_int_eq)

lemma mod_once: "m < 64 \<Longrightarrow> m mod 32 = (if m < 32 then m else m - (32 :: nat))"
  by (simp add: mod_if)

lemma w32_rotr [w32_simps]: "0 < n \<Longrightarrow> n < 32 \<Longrightarrow> w32 (rotr x n) = word_rotr n (w32 x)"
  by (rule bit_word_eqI) (auto simp: rotr_def w32_simps bit_simps bit_w32 not_less mod_once ac_simps)

lemma low_byte: "js_and x 0xff = uint (word_of_int x :: 8 word)"
proof (rule bit_eqI)
  fix n
  have "to_int32 0xff = mask 8" by (simp add: to_int32_def mask_eq_exp_minus_1 signed_take_bit_eq_take_bit_minus)
  then show "bit (js_and x 0xff) n = bit (uint (word_of_int x :: 8 word)) n"
    by (simp add: js_and_def bit_and_iff bit_mask_iff bit_to_int32 uint_word_of_int_eq bit_take_bit_iff)
      (auto simp: bit_to_int32)
qed

lemma xor_byte: "to_uint8 (js_xor (uint x) (uint y)) = uint (x XOR y :: 8 word)"
proof (rule bit_eqI)
  fix n
  show "bit (to_uint8 (js_xor (uint x) (uint y))) n = bit (uint (x XOR y)) n"
    by (cases "n < 8") (auto simp: to_uint8_def js_xor_def bit_simps bit_to_int32 dest: bit_imp_le_length)
qed

section \<open>Padding\<close>

lemma zeros_needed: "r < 64 \<Longrightarrow> (120 - r) mod 64 = (if r \<le> 56 then 56 - r else 120 - (r :: nat))"
proof (cases "r \<le> 56")
  case True
  then have "120 - r = (56 - r) + 64" by simp
  then show ?thesis using True by (simp only: mod_add_self2) simp
qed simp

lemma pad_zeros_eq: "pad_zeros m = m @ replicate ((120 - length m mod 64) mod 64) 0"
proof (induction m rule: pad_zeros.induct)
  case (1 m)
  define r where "r = length m mod 64"
  have r: "r < 64" by (simp add: r_def)
  show ?case
  proof (cases "r = 56")
    case True
    then show ?thesis by (simp add: pad_zeros.simps [of m] r_def)
  next
    case False
    have "Suc ((120 - Suc (length m) mod 64) mod 64) = (120 - r) mod 64"
      using False r by (auto simp: mod_Suc r_def [symmetric] zeros_needed)
    then have "0 # replicate ((120 - Suc (length m) mod 64) mod 64) 0 = replicate ((120 - r) mod 64) (0 :: int)"
      by (metis replicate_Suc)
    then show ?thesis using 1 False by (simp add: pad_zeros.simps [of m] r_def)
  qed
qed

lemma shifted_byte: "s \<le> 24 \<Longrightarrow> js_and (js_ushr x s) 0xff = take_bit 8 (drop_bit s x)"
  by (rule bit_eqI) (auto simp: low_byte uint_word_of_int_eq js_ushr_def bit_simps)

lemma word64_byte: "k \<le> 56 \<Longrightarrow> uint (ucast (drop_bit k (word_of_int x :: 64 word)) :: 8 word) = take_bit 8 (drop_bit k x)"
  by (rule bit_eqI) (auto simp: bit_simps bit_word_of_int_iff)

lemma upt4: "[0..<4] = [0, 1, 2, 3 :: nat]" by (simp add: upt_rec)
lemma upt8: "[0..<8] = [0, 1, 2, 3, 4, 5, 6, 7 :: nat]" by (simp add: upt_rec)

lemma length_bytes_eq: "length_bytes l = map uint (be_bytes 8 (of_nat (8 * l) :: 64 word))"
proof -
  have hi: "js_and (js_ushr (b div 0x100000000) s) 0xff = take_bit 8 (drop_bit (s + 32) b)" if "s \<le> 24" for b s
    using that by (simp add: shifted_byte drop_bit_eq_div [of 32, symmetric, simplified] drop_bit_drop_bit)
  have lo: "js_and (js_ushr (js_ushr b 0) s) 0xff = take_bit 8 (drop_bit s b)" if "s \<le> 24" for b s
    using that by (simp add: shifted_byte) (rule bit_eqI, auto simp: js_ushr_def bit_simps)
  define b where "b = int l * 8"
  have w: "(of_nat (8 * l) :: 64 word) = word_of_int b" by (simp add: b_def)
  show ?thesis unfolding w be_bytes_def upt8 length_bytes_def Let_def b_def [symmetric] upt4
    by (simp add: hi lo word64_byte word64_byte [of 0, simplified])
qed

lemma padded_eq: "padded (map uint bs) = map uint (spec_pad bs)"
proof -
  have "(120 - Suc (length bs) mod 64) mod 64 = (119 - length bs mod 64) mod (64 :: nat)"
    by (auto simp: mod_Suc)
  then show ?thesis by (simp add: padded_def pad_zeros_eq length_bytes_eq spec_pad_def)
qed

lemma spec_pad_length: "64 dvd length (spec_pad bs)"
proof -
  define r q where "r = length bs mod 64" and "q = length bs div 64"
  have l: "length bs = 64 * q + r" and r: "r < 64" by (simp_all add: r_def q_def)
  have "length (spec_pad bs) = 64 * q + (r + 9 + (119 - r) mod 64)"
    by (simp add: spec_pad_def be_bytes_def r_def [symmetric]) (simp add: l)
  moreover have "64 dvd (r + 9 + (119 - r) mod 64)"
    using r by (cases "r \<le> 55") (simp_all add: mod_if)
  ultimately show ?thesis by simp
qed

section \<open>Blocks\<close>

lemma w32_plus [w32_simps]: "w32 (x + y) = w32 x + w32 y" by simp

lemma next_word_w32:
  "16 \<le> t \<Longrightarrow> t \<le> length w \<Longrightarrow> w32 (next_word w t) =
     spec_sigma1 (map w32 w ! (t - 2)) + map w32 w ! (t - 7) + spec_sigma0 (map w32 w ! (t - 15)) + map w32 w ! (t - 16)"
  by (simp add: next_word_def Let_def w32_simps spec_sigma0_def spec_sigma1_def ac_simps del: of_int_add)

lemma schedule_w32:
  assumes "16 \<le> n" "n \<le> m" "length w = n"
  shows "map w32 (fold (\<lambda>t w. w @ [next_word w t]) [n..<m] w) =
      fold (\<lambda>t w. w @ [spec_sigma1 (w ! (t - 2)) + w ! (t - 7) + spec_sigma0 (w ! (t - 15)) + w ! (t - 16)]) [n..<m] (map w32 w) \<and>
    length (fold (\<lambda>t w. w @ [next_word w t]) [n..<m] w) = m"
  using assms(2)
proof (induction m)
  case 0
  then show ?case using assms by simp
next
  case (Suc m)
  show ?case
  proof (cases "n = Suc m")
    case True
    then show ?thesis using assms by simp
  next
    case False
    then have n: "n \<le> m" using Suc.prems by simp
    then show ?thesis using Suc.IH [OF n] assms(1) by (simp add: next_word_w32)
  qed
qed

fun map_vars :: "('a \<Rightarrow> 'b) \<Rightarrow> 'a vars \<Rightarrow> 'b vars" where
  "map_vars f (a, b, c, d, e, g, h, i) = (f a, f b, f c, f d, f e, f g, f h, f i)"

lemma round_w32: "map_vars w32 (sha_round k w v) = spec_round (w32 k) (w32 w) (map_vars w32 v)"
  by (cases v rule: vars_list.cases) (simp add: Let_def w32_simps spec_ch_def spec_maj_def spec_Sigma0_def spec_Sigma1_def ac_simps del: of_int_add)

lemma rounds_w32:
  "list_all (\<lambda>t. t < length w) ts \<Longrightarrow>
   map_vars w32 (fold (\<lambda>t. sha_round (k ! t) (w ! t)) ts v) =
   fold (\<lambda>t. spec_round (w32 (k ! t)) (map w32 w ! t)) ts (map_vars w32 v)"
  by (induction ts arbitrary: v) (simp_all add: round_w32)

lemma vars_list_w32: "map f (vars_list v) = vars_list (map_vars f v)"
  by (cases v rule: vars_list.cases) simp

lemma vars_of_w32: "length h = 8 \<Longrightarrow> map_vars f (vars_of h) = vars_of (map f h)" by simp

lemma bytes_word:
  "w32 (js_ushr (js_or (js_or (js_or (js_shl (uint a) 24) (js_shl (uint b) 16)) (js_shl (uint c) 8)) (uint d)) 0) =
     be_word [a, b, c, d :: 8 word]"
proof -
  have u: "w32 (uint x) = ucast x" for x :: "8 word" by (rule ucast_eq [symmetric])
  have b: "be_word [a, b, c, d] = push_bit 24 (ucast a) OR push_bit 16 (ucast b) OR push_bit 8 (ucast c) OR ucast d"
    by (simp only: be_word_def foldl.simps push_bit_or push_bit_of_0 or.left_neutral or.assoc push_bit_push_bit) simp
  show ?thesis by (simp add: w32_or w32_u32 w32_shl u b or.assoc)
qed

lemma take4: "i + 4 \<le> length xs \<Longrightarrow> take 4 (drop i xs) = [xs ! i, xs ! (i + 1), xs ! (i + 2), xs ! (i + 3)]"
  by (rule nth_equalityI) (auto simp: less_Suc_eq numeral_eq_Suc)

lemma word_at_w32:
  assumes "off + 64 \<le> length bs" "t < 16"
  shows "w32 (word_at (map uint bs) off t) = be_word (take 4 (drop (4 * t) (take 64 (drop off bs))))"
  using assms by (simp add: word_at_def take4 bytes_word mult.commute add.assoc)

lemma schedule_words_w32:
  assumes "off + 64 \<le> length bs"
  shows "map w32 (schedule_words (map uint bs) off) = spec_schedule (take 64 (drop off bs)) \<and>
    length (schedule_words (map uint bs) off) = 64"
proof -
  have "map w32 (map (word_at (map uint bs) off) [0..<16]) = spec_words (take 64 (drop off bs))"
    using assms by (simp add: spec_words_def word_at_w32 del: upt_rec_numeral)
  then show ?thesis
    using schedule_w32 [of 16 64 "map (word_at (map uint bs) off) [0..<16]"]
    by (simp add: schedule_words_def spec_schedule_def del: upt_rec_numeral)
qed

lemma sha_block_w32:
  assumes "off + 64 \<le> length bs" "length h = 8"
  shows "map w32 (sha_block (map uint bs) off h) = spec_block (take 64 (drop off bs)) (map w32 h)"
proof -
  let ?w = "schedule_words (map uint bs) off"
  note w = schedule_words_w32 [OF assms(1)]
  let ?v = "fold (\<lambda>t. sha_round (sha_k ! t) (?w ! t)) [0..<64] (vars_of h)"
  have "vars_list (map_vars w32 ?v) = vars_list (fold (\<lambda>t. spec_round (w32 (sha_k ! t))
      (spec_schedule (take 64 (drop off bs)) ! t)) [0..<64] (vars_of (map w32 h)))"
    using w assms(2) by (simp add: rounds_w32 list_all_iff vars_of_w32 del: vars_of.simps map_vars.simps upt_rec_numeral)
  then have v: "map w32 (vars_list ?v) = vars_list (fold (\<lambda>t. spec_round (w32 (sha_k ! t))
      (spec_schedule (take 64 (drop off bs)) ! t)) [0..<64] (vars_of (map w32 h)))"
    by (simp add: vars_list_w32)
  have "map w32 (map2 (\<lambda>x y. js_ushr (x + y) 0) xs ys) = map2 (+) (map w32 xs) (map w32 ys)" for xs ys
    by (simp add: zip_map_map w32_simps case_prod_beta comp_def del: of_int_add)
  then show ?thesis by (simp add: sha_block_def spec_block_def Let_def v del: vars_of.simps upt_rec_numeral)
qed

lemma sha_block_length: "length h = 8 \<Longrightarrow> length (sha_block msg off h) = 8"
  by (cases "fold (\<lambda>t. sha_round (sha_k ! t) (schedule_words msg off ! t)) [0..<64] (vars_of h)" rule: vars_list.cases)
    (simp add: sha_block_def Let_def del: vars_of.simps upt_rec_numeral)

lemma blocks_w32:
  assumes "list_all (\<lambda>off. off + 64 \<le> length bs) offs" "length h = 8"
  shows "map w32 (fold (sha_block (map uint bs)) offs h) = fold spec_block (map (\<lambda>off. take 64 (drop off bs)) offs) (map w32 h)"
  using assms by (induction offs arbitrary: h) (simp_all add: sha_block_w32 sha_block_length)

lemma chunks_eq: "length xs = n * 64 \<Longrightarrow> chunks 64 xs = map (\<lambda>i. take 64 (drop (i * 64) xs)) [0..<n]"
proof (induction n arbitrary: xs)
  case 0
  then show ?case by (simp add: chunks.simps)
next
  case (Suc n)
  then have "xs \<noteq> []" by auto
  then have "chunks 64 xs = take 64 xs # chunks 64 (drop 64 xs)" by (simp add: chunks.simps [of 64 xs])
  also have "\<dots> = map (\<lambda>i. take 64 (drop (i * 64) xs)) [0..<Suc n]"
    using Suc by (simp add: map_upt_Suc add.commute del: upt_Suc)
  finally show ?case .
qed

lemma low_byte_bits: "js_and x 0xff = take_bit 8 x"
  by (simp add: low_byte uint_word_of_int_eq)

lemma out_bytes_eq: "out_bytes h = map uint (concat (map (be_bytes 4) (map w32 h)))"
proof -
  have "[js_and (js_ushr x 24) 0xff, js_and (js_ushr x 16) 0xff, js_and (js_ushr x 8) 0xff, js_and x 0xff] =
      map uint (be_bytes 4 (w32 x))" for x
  proof -
    have "take_bit 8 (drop_bit s x) = uint (ucast (drop_bit s (w32 x)) :: 8 word)" if "s \<le> 24" for s
      using that by (intro bit_eqI) (auto simp: bit_simps bit_w32)
    from this [of 24] this [of 16] this [of 8] this [of 0] show ?thesis
      by (simp add: be_bytes_def upt4 shifted_byte low_byte_bits [of x])
  qed
  then show ?thesis by (simp add: out_bytes_def map_concat comp_def)
qed

lemma sha256_spec: "sha256 (map uint bs) = map uint (spec_sha256 bs)"
proof -
  obtain n where n: "length (spec_pad bs) = n * 64" using spec_pad_length by (metis dvd_div_mult_self)
  then have o: "offsets (length (spec_pad bs)) = map (\<lambda>i. i * 64) [0..<n]" by (simp add: offsets_def)
  have l: "list_all (\<lambda>off. off + 64 \<le> length (spec_pad bs)) (map (\<lambda>i. i * 64) [0..<n])"
    using n by (auto simp: list_all_iff)
  have c: "map (\<lambda>off. take 64 (drop off (spec_pad bs))) (map (\<lambda>i. i * 64) [0..<n]) = chunks 64 (spec_pad bs)"
    by (simp add: chunks_eq [OF n])
  have "length sha_h = 8" by (simp add: sha_h_def)
  from blocks_w32 [OF l this] show ?thesis
    by (simp only: sha256_def Let_def padded_eq length_map o out_bytes_eq spec_sha256_def c)
qed

section \<open>Evaluation\<close>

text \<open>The schedule with the newest word first, which evaluates without looking words up by number.\<close>

primrec newest_first :: "nat \<Rightarrow> int list \<Rightarrow> int list" where
  "newest_first 0 w = w"
| "newest_first (Suc n) w = newest_first n (next_word (rev (take 16 w)) 16 # w)"

lemma next_word_of_last:
  assumes "length u = 16"
  shows "next_word (ws @ u) (length ws + 16) = next_word u 16"
  using assms by (simp add: next_word_def nth_append)

lemma newest_first_step:
  assumes "16 \<le> length w"
  shows "newest_first (Suc n) (rev w) = newest_first n (rev (w @ [next_word w (length w)]))"
proof -
  define ws u where "ws = take (length w - 16) w" and "u = drop (length w - 16) w"
  have w: "w = ws @ u" and u: "length u = 16" using assms by (simp_all add: ws_def u_def)
  then have n: "next_word w (length w) = next_word u 16" using next_word_of_last [OF u] by simp
  have "rev (take 16 (rev w)) = u" by (simp add: w u)
  then show ?thesis by (simp add: n)
qed

lemma newest_first_fold:
  "16 \<le> length w \<Longrightarrow>
   rev (newest_first n (rev w)) = fold (\<lambda>t w. w @ [next_word w t]) [length w..<length w + n] w"
proof (induction n arbitrary: w)
  case (Suc n)
  let ?w = "w @ [next_word w (length w)]"
  have "[length w..<length w + Suc n] = length w # [length ?w..<length ?w + n]"
    by (simp add: upt_conv_Cons del: upt_Suc)
  then show ?case
    using Suc.IH [of ?w] Suc.prems by (simp add: newest_first_step del: newest_first.simps upt_Suc)
qed simp

lemma schedule_words_code [code]:
  "schedule_words msg off = rev (newest_first 48 (rev (map (word_at msg off) [0..<16])))"
  using newest_first_fold [of "map (word_at msg off) [0..<16]" 48]
  by (simp add: schedule_words_def del: upt_rec_numeral newest_first.simps)

lemma fold_nth:
  "length xs = n \<Longrightarrow> length ys = n \<Longrightarrow> fold (\<lambda>t. f (xs ! t) (ys ! t)) [0..<n] v = fold (\<lambda>(x, y). f x y) (zip xs ys) v"
proof -
  assume l: "length xs = n" "length ys = n"
  have "zip xs ys = map (\<lambda>t. (xs ! t, ys ! t)) [0..<n]" using l by (intro nth_equalityI) auto
  then show ?thesis by (simp add: fold_map comp_def)
qed

lemma schedule_words_length: "length (schedule_words msg off) = 64"
  using schedule_w32 [of 16 64 "map (word_at msg off) [0..<16]"] by (simp add: schedule_words_def del: upt_rec_numeral)

lemma sha_block_code [code]:
  "sha_block msg off h =
     (let v = fold (\<lambda>(k, w). sha_round k w) (zip sha_k (schedule_words msg off)) (vars_of h)
      in map2 (\<lambda>x y. js_ushr (x + y) 0) h (vars_list v))"
  unfolding sha_block_def Let_def
  by (subst fold_nth) (simp_all add: schedule_words_length sha_k_def del: vars_of.simps)

text \<open>The example of the standard.\<close>

lemma sha256_abc:
  "sha256 [0x61, 0x62, 0x63] =
     [0xba, 0x78, 0x16, 0xbf, 0x8f, 0x01, 0xcf, 0xea, 0x41, 0x41, 0x40, 0xde, 0x5d, 0xae, 0x22, 0x23,
      0xb0, 0x03, 0x61, 0xa3, 0x96, 0x17, 0x7a, 0x9c, 0xb4, 0x10, 0xff, 0x61, 0xf2, 0x00, 0x15, 0xad]"
  by code_simp

section \<open>The keyed hash\<close>

lemma spec_sha256_length: "length (spec_sha256 m) = 32"
proof -
  have "length (fold spec_block bs h) = 8" if "length h = 8" for bs h
    using that
  proof (induction bs arbitrary: h)
    case (Cons b bs)
    have "length (spec_block b h) = 8"
      by (cases "fold (\<lambda>t. spec_round (word_of_int (sha_k ! t)) (spec_schedule b ! t)) [0..<64] (vars_of h)" rule: vars_list.cases)
        (simp add: spec_block_def Let_def Cons.prems del: vars_of.simps upt_rec_numeral)
    then show ?case using Cons by simp
  qed simp
  then have "length (fold spec_block (chunks 64 (spec_pad m)) (map word_of_int sha_h)) = 8"
    by (simp add: sha_h_def)
  then show ?thesis by (simp add: spec_sha256_def length_concat comp_def be_bytes_def sum_list_triv)
qed

lemma padded_key_eq:
  "padded_key (if length (map uint k) > 64 then sha256 (map uint k) else map uint k) = map uint (spec_key k)"
  by (simp add: padded_key_def spec_key_def Let_def sha256_spec spec_sha256_length)

lemma hmac_spec: "hmac_sync (map uint k) (map uint m) = map uint (spec_hmac k m)"
proof -
  have pad: "map (\<lambda>x. to_uint8 (js_xor x (uint c))) (map uint ks) = map uint (map (\<lambda>x. x XOR c) ks)" for c :: "8 word" and ks
    by (simp add: xor_byte)
  have "uint (0x5c :: 8 word) = 0x5c" "uint (0x36 :: 8 word) = 0x36" by simp_all
  note pads = pad [of "0x5c", unfolded this] pad [of "0x36", unfolded this]
  show ?thesis unfolding hmac_sync_def Let_def padded_key_eq pads
    unfolding spec_hmac_def sha256_spec map_append [symmetric] ..
qed


definition spec_bytes :: "string \<Rightarrow> 8 word list" where \<comment> \<open>the bytes of a text\<close>
  "spec_bytes s = map (\<lambda>c. of_nat (of_char c)) s"

definition hexdigest :: "8 word list \<Rightarrow> string" where
  "hexdigest bs = concat (map (\<lambda>b. [hex_digit (unat b div 16), hex_digit (unat b mod 16)]) bs)"

lemma text_bytes_spec: "text_bytes s = map uint (spec_bytes s)"
proof -
  have "of_char c = uint (of_nat (of_char c) :: 8 word)" for c
  proof -
    have "unat (of_nat (of_char c) :: 8 word) = of_char c"
      using of_char_mod_256 [of c, where 'a = nat] by (simp add: unat_of_nat)
    then show ?thesis by (metis of_nat_of_char uint_nat)
  qed
  then show ?thesis by (simp add: text_bytes_def spec_bytes_def)
qed

lemma byte_hex_nat: "n < 256 \<Longrightarrow> byte_hex (int n) = [hex_digit (n div 16), hex_digit (n mod 16)]"
proof -
  have "hex_digit 0 = CHR ''0''" by code_simp
  then show "n < 256 \<Longrightarrow> ?thesis" by (simp add: byte_hex_def nat_div_distrib nat_mod_distrib)
qed

lemma bytes_to_hex_spec: "bytes_to_hex (map uint bs) = hexdigest bs"
proof -
  have "byte_hex (uint b) = [hex_digit (unat b div 16), hex_digit (unat b mod 16)]" for b :: "8 word"
  proof -
    have "unat b < 256" using unsigned_less [of b, where 'a = nat] by simp
    then show ?thesis by (simp only: uint_nat byte_hex_nat)
  qed
  then show ?thesis by (simp add: bytes_to_hex_def hexdigest_def comp_def)
qed

text \<open>
  C40: The widget signs with the HMAC-SHA256 of the server: for every key and every text the hexadecimal text it
  computes with the signed 32-bit operators of JavaScript is that of the reference on words.
\<close>

theorem signature_is_hmac_sha256:
  "hmac_sha256_hex secret message = hexdigest (spec_hmac (spec_bytes secret) (spec_bytes message))"
  by (simp only: hmac_sha256_hex_def text_bytes_spec hmac_spec bytes_to_hex_spec)

end
