(* ===== verification/Spec2Isabelle.thy ===== *)
theory Spec2Isabelle
  imports App_Shell Chat_Console Proto_Store Media_Page Knowledge_Hooks Budget_Page Model_Page Agent_Hooks Org_Page Users_Table Audit_Page License_Page Knowledge_Page Channels_Page Modules_Page Employees_Page Agents_Page Builder_Page Acceptance_Report Widget_Hash
begin

text \<open>
  A verification development of the console of AgentHive, the React front end of the platform
  (\<open>src/frontend/src\<close>).  The console signs a user in, decides which pages the user may see,
  talks to the server through one HTTP client, and shows on every page lists, forms and actions over
  the tenant's agents, models, knowledge, budgets, organisation, channels, modules, license, audit
  events and media jobs.  A development build may run on an in-memory prototype instead of a server.

  \<^bold>\<open>How the code is modelled.\<close>  Types of the API are records and datatypes with the fields and
  constructors of the source.  An optional field is an option; \<open>null\<close> and \<open>undefined\<close> are one value
  where the code does not tell them apart.  Values of type \<open>unknown\<close> are \<open>Js_Value.jsval\<close>, numbers
  are \<open>Js_Number.jsnum\<close> (doubles, by their exact value, with infinities and NaN), texts are their
  UTF-8 encoding.  A fallible call is a sum, \<open>Inl\<close> the thrown value.  A React component or hook is a
  record of its state; a handler is a function of that record; a page is a step function
  over its events (clicks, answers of the server in any order, rerenders), followed by the effects of
  the commit where the code has effects.  The requests a page has sent are part of its state, so that
  a property can speak about what the server is asked to do.  What the code reads from outside
  (server, clock, random identifiers, collation, confirmations of the user) is an argument.

  \<^bold>\<open>Theories.\<close>

  Foundations.  \<open>Prelude\<close>: strings, arrays and options of the standard library.  \<open>Js_Number\<close>: doubles,
  rounding, and the conversions between numbers and texts.  \<open>Js_Value\<close>: unknown values, JSON parsing
  and printing.  \<open>Js_Date\<close>: the date texts of the server.  \<open>Transitions\<close>: event systems, their
  invariants, systems that settle, and refinement, as locales (\<open>event_system\<close>, \<open>settling\<close>,
  \<open>refinement\<close>).  \<open>Collections\<close>: keyed lists inside a larger state (locale \<open>keyed_rows\<close>).
  \<open>Query_Params\<close>: \<open>URLSearchParams\<close> as the API modules fill it.  \<open>Page_Env\<close>: what every page is
  given, and checklists.

  Shell.  \<open>Access\<close>: \<open>lib/permissions.ts\<close> and the role presets (locale \<open>permission_policy\<close>).
  \<open>Workspaces\<close>: \<open>data.ts\<close> and \<open>lib/workspaces.ts\<close>, the navigation tree and where the user lands
  (locale \<open>workspace_view\<close>).  \<open>Session\<close>: tokens and user of \<open>lib/api/core.ts\<close> in the two storages
  of the browser (locale \<open>key_value_store\<close>), and \<open>lib/runtimeMode.ts\<close>.  \<open>App_Shell\<close>: \<open>App.tsx\<close>, the
  sign-in states, the navigation state and its effects, and which page is rendered.  \<open>Locale_Store\<close>:
  \<open>i18n.ts\<close> and \<open>i18n-context.tsx\<close>, with the Chinese table preloaded and the English one imported on
  demand.

  Transport.  \<open>Api_Client\<close>: the request, its answer, errors, downloads and session expiry of
  \<open>lib/api/core.ts\<close>.  \<open>Retry\<close>: \<open>withRetry\<close> and the error messages of \<open>hooks/admin/shared.ts\<close>.
  \<open>Resource_Hooks\<close> and \<open>Action_Hooks\<close>: the two shapes of hook every list and every action follows.
  \<open>Sse_Stream\<close>: the event-stream reader, over the contract \<open>event_handler\<close> of its client.

  Chat.  \<open>Chat_Types\<close> and \<open>Chat_Stream\<close>: \<open>lib/api/chat.ts\<close>, over the events as \<open>_sse\<close> of the server's
  \<open>services/chat_service.py\<close> frames them.  \<open>Chat_Console\<close>: \<open>useChatConsole\<close> of
  \<open>hooks/admin/chat.ts\<close>.  \<open>Run_Details\<close>: \<open>pages/chat/chatRunDetails.ts\<close>.  \<open>Employee_Labels\<close> and
  \<open>Employees_Page\<close>: the digital employees, which run on a chat console of their own.

  Prototype.  \<open>Proto_Types\<close>, \<open>Proto_Data\<close> and \<open>Proto_Store\<close>: \<open>hooks/admin/prototypeData.ts\<close> and
  \<open>prototypeState.ts\<close>.

  Pages.  For each, the data, then the hooks, then the page: \<open>Media_Types\<close>, \<open>Media_Jobs\<close>,
  \<open>Media_Page\<close>; \<open>Knowledge_Hooks\<close>, \<open>Knowledge_Views\<close>, \<open>Knowledge_Page\<close>; \<open>Budget_Types\<close>,
  \<open>Budget_Data\<close>, \<open>Budget_Page\<close>; \<open>Model_Types\<close>, \<open>Model_Data\<close>, \<open>Model_Labels\<close>, \<open>Model_Form\<close>,
  \<open>Model_Hooks\<close>, \<open>Model_Page\<close>; \<open>Agent_Hooks\<close> (agents, modules and channels); \<open>Org_Types\<close>,
  \<open>Org_Hooks\<close>, \<open>Org_Forms\<close>, \<open>Org_Page\<close>; \<open>Tables\<close> (sorting by a weak order, paging) and
  \<open>Users_Table\<close>; \<open>Audit_Data\<close>, \<open>Audit_Page\<close>; \<open>License_Data\<close>, \<open>License_Page\<close>; \<open>Channels_Page\<close>;
  \<open>Modules_Page\<close>; \<open>Agent_Views\<close>, \<open>Agents_Page\<close>; \<open>Builder_Data\<close>, \<open>Builder_Page\<close>; \<open>System_Health\<close> and
  \<open>Acceptance_Report\<close> for the settings.  Where a page is there to match a rule of the server, that rule is
  translated beside it: the update of an agent (\<open>server_update\<close> of \<open>Agents_Page\<close>, from
  \<open>services/agent_runtime_service.py\<close>) and the schema of the builder (\<open>config_accepted\<close> of
  \<open>Builder_Data\<close>, from \<open>agents/builder/config.py\<close>).

  Widget.  \<open>Widget_Hash\<close>: the hash and the signature of the widget for other sites
  (\<open>src/backend/app/static/widget/agenthive-widget.js\<close>), and the standard on words they are equal to.

  \<^bold>\<open>How the parts interact.\<close>  \<open>App_Shell\<close> asks \<open>Access\<close> and \<open>Workspaces\<close> what may be shown, and
  \<open>Session\<close> for the user; \<open>Api_Client\<close> reads the tokens of \<open>Session\<close> and announces expiry, which the
  shell answers by signing out.  Every hook calls the server through \<open>Retry\<close> or, in the prototype
  mode, the store of \<open>Proto_Store\<close>; the pages hold hooks and forms.  \<open>Chat_Console\<close> consumes
  \<open>Chat_Stream\<close>, which runs over \<open>Sse_Stream\<close>; \<open>Employees_Page\<close> drives \<open>Chat_Console\<close>.

  \<^bold>\<open>What the theorems show.\<close>  Access and sign-in: nothing is shown to a user who lacks the
  permission, the shell is authenticated only after the server confirmed it, the navigation comes to
  rest.  Transport: the outcome of every call on every branch, the number and delays of retries, and
  that the way a stream is cut into pieces does not matter.  Chat: how an answer is built, rolled
  back and ended, and which races lose it.  Prototype: the store stays consistent along every
  sequence of operations.  Pages: invariants over all orders of clicks and answers, the bounds of
  every request that a form lets through, and the checks of licenses and permissions before one is
  sent; where the code lets something pass that it means to prevent, the theorem states the scenario
  and what becomes of it.  Widget: its signature is the HMAC-SHA256 of the standard.

  \<^bold>\<open>Bounds and fuel.\<close>  The JSON parser is given \<open>2 * length + 1\<close> steps, one for each value and each
  separator at most, which the round trip with the printer shows to be enough.  The padding loop of the widget's hash
  is a function with its measure.  The navigation effects
  are run for four commits, and a theorem shows that a fifth changes nothing.  Retries recurse over the
  attempts that remain.  The length of a JavaScript string counts UTF-16 units, computed from the
  UTF-8 bytes by \<open>utf16_length\<close>.

  \<^bold>\<open>Not modelled.\<close>  The bytes of a stream that are not valid UTF-8, and surrogate escapes that do not
  pair; trimming, case mapping and slicing of characters beyond ASCII; the order of texts is that of
  their bytes; \<open>localeCompare\<close> is a parameter, and the formats of \<open>Intl\<close> are left out.  Dates outside
  the years 0 to 9999.  Casts of API answers hold: the server sends what its types say, except where
  the code itself checks.  The keys of \<open>Object.prototype\<close> are not found in tables of constants.
  Handlers run without interruption up to their first request; where the code keeps state across a
  request in flight (streams, uploads, exports, license and knowledge actions, media chains, the
  session of an employee, saving an agent) the request is an event of its own.  Timers that only hide
  a notice, focus, scrolling, icons and styling are left out, and so are the components that only lay
  out what the models compute, the message tables, the server, and the widget for other sites.
\<close>

end
